(* ===== verification/Farm_Base.thy ===== *)
theory Farm_Base
  imports Complex_Main "HOL-Library.Product_Lexorder" "HOL-Library.List_Lexorder" "HOL-Library.Char_ord"
begin

text \<open>
  Shared vocabulary of the development: the exceptions the modelled modules raise, decoded JSON
  values, and the fragment of SQL the stores use (a table is the list of its rows in rowid order).

  Python floats (epoch seconds, lease lengths, percentages) are exact rationals here: the code
  only adds, subtracts, multiplies and compares them, and rounding is not modelled.  Python
  integers are \<open>int\<close>, TEXT columns and str values are \<open>string\<close>, nullable columns are options.
\<close>

section \<open>Exceptions\<close>

text \<open>
  One constructor per exception class the modelled code raises, with the message where it is a
  constant of the source (interpolated identifiers are dropped from the messages).
\<close>

datatype exn =
    ValueError string
  | KeyError string
  | TypeError string
  | RuntimeError string
  | IntegrityError string
  | OwnershipConflict string
  | StaleProcessLease string
  | StaleTaskClaim string
  | StaleJobClaim string
  | MigrationRequired string
  | AttributeError string
  | OperationalError string
  | PriorityWorkerFatal string
  | ProgressStalled string
  | RenewalContentionExceeded string
  | IndexError string

text \<open>\<open>except StaleTaskClaimError\<close> also catches the two subclasses of the claim heartbeat.\<close>

fun stale_claim_error :: "exn \<Rightarrow> bool" where
  "stale_claim_error (StaleTaskClaim m) = True"
| "stale_claim_error (ProgressStalled m) = True"
| "stale_claim_error (RenewalContentionExceeded m) = True"
| "stale_claim_error _ = False"

type_synonym time = rat

text \<open>\<open>float(x or 0)\<close> on a nullable REAL column, and \<open>str(x)\<close> on a nullable TEXT column.\<close>

definition or0 :: "time option \<Rightarrow> time" where
  "or0 x = (case x of None \<Rightarrow> 0 | Some t \<Rightarrow> t)"

definition int_or0 :: "int option \<Rightarrow> int" where
  "int_or0 x = (case x of None \<Rightarrow> 0 | Some n \<Rightarrow> n)"

definition py_str :: "string option \<Rightarrow> string" where
  "py_str x = (case x of None \<Rightarrow> ''None'' | Some s \<Rightarrow> s)"

definition str_or :: "string option \<Rightarrow> string" where
  "str_or x = (case x of None \<Rightarrow> [] | Some s \<Rightarrow> s)"

lemma or0_simps [simp]: "or0 None = 0" "or0 (Some t) = t"
  by (simp_all add: or0_def)

lemma int_or0_simps [simp]: "int_or0 None = 0" "int_or0 (Some n) = n"
  by (simp_all add: int_or0_def)

lemma py_str_simps [simp]: "py_str None = ''None''" "py_str (Some s) = s"
  by (simp_all add: py_str_def)

lemma str_or_simps [simp]: "str_or None = []" "str_or (Some s) = s"
  by (simp_all add: str_or_def)

section \<open>Decoded JSON\<close>

datatype json =
    JNull
  | JBool bool
  | JInt int
  | JFloat rat
  | JStr string
  | JArr "json list"
  | JObj "(string \<times> json) list"

text \<open>\<open>d.get(k)\<close> on a decoded object; anything else has no keys. Objects are decoded with the
  last duplicate winning, which a decoder reflects by listing each key once.\<close>

fun jget :: "string \<Rightarrow> json \<Rightarrow> json" where
  "jget k (JObj kvs) = (case map_of kvs k of None \<Rightarrow> JNull | Some v \<Rightarrow> v)"
| "jget k _ = JNull"

text \<open>Python truth of a decoded value.\<close>

fun truthy :: "json \<Rightarrow> bool" where
  "truthy JNull = False"
| "truthy (JBool b) = b"
| "truthy (JInt n) = (n \<noteq> 0)"
| "truthy (JFloat q) = (q \<noteq> 0)"
| "truthy (JStr s) = (s \<noteq> [])"
| "truthy (JArr xs) = (xs \<noteq> [])"
| "truthy (JObj kvs) = (kvs \<noteq> [])"

text \<open>\<open>str(v or '')\<close>: the text of a string value; other truthy values go through \<open>rep\<close>, Python's
  own printing of that value.\<close>

definition str_of_json :: "(json \<Rightarrow> string) \<Rightarrow> json \<Rightarrow> string" where
  "str_of_json rep v = (if \<not> truthy v then [] else case v of JStr s \<Rightarrow> s | _ \<Rightarrow> rep v)"

section \<open>Tables\<close>

text \<open>\<open>UPDATE ... SET f WHERE p\<close>, its \<open>rowcount\<close>, and \<open>ORDER BY k LIMIT 1\<close>.\<close>

definition update_where :: "('r \<Rightarrow> bool) \<Rightarrow> ('r \<Rightarrow> 'r) \<Rightarrow> 'r list \<Rightarrow> 'r list" where
  "update_where p f rows = map (\<lambda>r. if p r then f r else r) rows"

definition rowcount :: "('r \<Rightarrow> bool) \<Rightarrow> 'r list \<Rightarrow> nat" where
  "rowcount p rows = length (filter p rows)"

fun first_by :: "('r \<Rightarrow> 'k::linorder) \<Rightarrow> 'r list \<Rightarrow> 'r option" where
  "first_by k [] = None"
| "first_by k (x # xs) =
     (case first_by k xs of None \<Rightarrow> Some x | Some y \<Rightarrow> if k y < k x then Some y else Some x)"

lemma first_by_None [simp]: "first_by k xs = None \<longleftrightarrow> xs = []"
  by (induction xs) (auto split: option.splits if_splits)

lemma first_by_SomeD: "first_by k xs = Some x \<Longrightarrow> x \<in> set xs \<and> (\<forall>y \<in> set xs. k x \<le> k y)"
  by (induction xs arbitrary: x) (force split: option.splits if_splits)+

lemma first_by_in: "first_by k xs = Some x \<Longrightarrow> x \<in> set xs"
  by (simp add: first_by_SomeD)

lemma first_by_le: "first_by k xs = Some x \<Longrightarrow> y \<in> set xs \<Longrightarrow> k x \<le> k y"
  by (simp add: first_by_SomeD)

lemma length_update_where [simp]: "length (update_where p f rows) = length rows"
  by (simp add: update_where_def)

lemma update_where_Nil [simp]: "update_where p f [] = []"
  and update_where_Cons [simp]:
    "update_where p f (r # rs) = (if p r then f r else r) # update_where p f rs"
  and update_where_append [simp]:
    "update_where p f (xs @ ys) = update_where p f xs @ update_where p f ys"
  by (simp_all add: update_where_def)

lemma rowcount_Nil [simp]: "rowcount p [] = 0"
  and rowcount_Cons [simp]: "rowcount p (r # rs) = (if p r then Suc (rowcount p rs) else rowcount p rs)"
  by (simp_all add: rowcount_def)

lemma set_update_where:
  "set (update_where p f rows) = (\<lambda>r. if p r then f r else r) ` set rows"
  by (simp add: update_where_def)

lemma update_whereE:
  assumes "y \<in> set (update_where p f rows)"
  obtains z where "z \<in> set rows" and "p z" and "y = f z" | "y \<in> set rows" and "\<not> p y"
  using assms by (auto simp: update_where_def split: if_splits)

lemma ball_update_where:
  "(\<forall>r \<in> set (update_where p f rows). P r) \<longleftrightarrow> (\<forall>r \<in> set rows. P (if p r then f r else r))"
  by (auto simp: update_where_def)

lemma rowcount_0: "rowcount p rows = 0 \<longleftrightarrow> (\<forall>r \<in> set rows. \<not> p r)"
  by (simp add: rowcount_def filter_empty_conv)

lemma rowcount_0_update: "rowcount p rows = 0 \<Longrightarrow> update_where p f rows = rows"
  by (simp add: update_where_def rowcount_0 map_idI)

lemma find_update_where:
  assumes "\<And>r. key (f r) = key r"
  shows "find (\<lambda>r. key r = k) (update_where p f rows) =
    map_option (\<lambda>r. if p r then f r else r) (find (\<lambda>r. key r = k) rows)"
  by (induction rows) (auto simp: assms)

lemma map_key_update_where:
  assumes "\<And>r. key (f r) = key r"
  shows "map key (update_where p f rows) = map key rows"
  by (induction rows) (auto simp: assms)

lemma find_SomeD: "find P xs = Some x \<Longrightarrow> x \<in> set xs \<and> P x"
  by (metis find_Some_iff nth_mem)

lemma find_append: "find P (xs @ ys) = (case find P xs of None \<Rightarrow> find P ys | Some x \<Rightarrow> Some x)"
  by (induction xs) auto

lemma find_distinct_key:
  "distinct (map key rows) \<Longrightarrow> r \<in> set rows \<Longrightarrow> find (\<lambda>x. key x = key r) rows = Some r"
  by (induction rows) (auto simp: image_iff)

lemma distinct_key_eq:
  "distinct (map key rows) \<Longrightarrow> x \<in> set rows \<Longrightarrow> y \<in> set rows \<Longrightarrow> key x = key y \<Longrightarrow> x = y"
  by (simp add: distinct_map inj_on_def)

lemma find_key_iff:
  assumes "distinct (map key rows)"
  shows "find (\<lambda>r. key r = k) rows = Some r \<longleftrightarrow> r \<in> set rows \<and> key r = k"
  using assms find_distinct_key[OF assms] by (auto dest: find_SomeD)

lemma find_filter_key:
  assumes "distinct (map key rows)"
  shows "find (\<lambda>r. key r = k) (filter P rows) =
    (case find (\<lambda>r. key r = k) rows of None \<Rightarrow> None | Some r \<Rightarrow> if P r then Some r else None)"
  using assms
proof (induction rows)
  case (Cons r rows)
  have "find (\<lambda>x. key x = key r) (filter P rows) = None"
    using Cons.prems by (auto simp: find_None_iff image_iff)
  with Cons show ?case by auto
qed simp

lemma rowcount_key:
  assumes "distinct (map key rows)"
  shows "rowcount (\<lambda>r. key r = k \<and> q r) rows =
    (case find (\<lambda>r. key r = k) rows of None \<Rightarrow> 0 | Some r \<Rightarrow> if q r then 1 else 0)"
  using assms
proof (induction rows)
  case (Cons r rs)
  have "rowcount (\<lambda>x. key x = k \<and> q x) rs = 0" if "key r = k"
    using Cons.prems that by (auto simp: rowcount_0 image_iff)
  with Cons show ?case by auto
qed simp

lemma rowcount_1_ex: "rowcount p rows = 1 \<Longrightarrow> \<exists>r \<in> set rows. p r"
  using rowcount_0 by (metis One_nat_def zero_neq_one)

text \<open>A compare-and-swap on one key touches exactly its row.\<close>

lemma update_where_single:
  assumes "distinct (map key rows)" and "find (\<lambda>r. key r = k) rows = Some row" and "p row"
    and "\<And>r. p r \<Longrightarrow> key r = k"
  shows "rowcount p rows = 1" and "update_where p f rows = update_where (\<lambda>r. r = row) f rows"
    and "r \<in> set rows \<Longrightarrow> p r \<Longrightarrow> r = row"
proof -
  show only: "r = row" if "r \<in> set rows" "p r" for r
    using find_key_iff[OF assms(1), of k r] assms(2,4) that by simp
  have "(\<lambda>r. key r = k \<and> p r) = p" using assms(4) by (auto simp: fun_eq_iff)
  then show "rowcount p rows = 1"
    using rowcount_key[OF assms(1), of k p] assms(2,3) by simp
  show "update_where p f rows = update_where (\<lambda>r. r = row) f rows"
    unfolding update_where_def
  proof (rule map_cong[OF refl])
    fix r assume "r \<in> set rows"
    then have "p r = (r = row)" using only assms(3) by blast
    then show "(if p r then f r else r) = (if r = row then f r else r)" by simp
  qed
qed

text \<open>Partial unique indexes survive an update that keeps the key and adds no row to the index.\<close>

lemma distinct_index_update:
  assumes "\<And>r. p r \<Longrightarrow> key (f r) = key r \<and> (P (f r) \<longrightarrow> P r)" and "distinct (map key (filter P rows))"
  shows "distinct (map key (filter P (update_where p f rows)))"
proof -
  have sub: "key ` {r \<in> set (update_where p f xs). P r} \<subseteq> key ` {r \<in> set xs. P r}" for xs
    using assms(1) by (fastforce simp: set_update_where)
  show ?thesis using assms(2)
  proof (induction rows)
    case (Cons r rows)
    then show ?case using sub[of rows] assms(1)[of r] by (auto split: if_splits)
  qed simp
qed

text \<open>Rules for the error sums every operation returns.\<close>

lemma sum_case_Inr: "(case x of Inl e \<Rightarrow> Inl (g e) | Inr v \<Rightarrow> h v) = Inr w \<Longrightarrow> \<exists>v. x = Inr v \<and> h v = Inr w"
  by (cases x) auto

text \<open>\<open>dict.fromkeys\<close>: duplicates dropped, the first occurrence kept in place.\<close>

definition dict_fromkeys :: "'a list \<Rightarrow> 'a list" where
  "dict_fromkeys xs = rev (remdups (rev xs))"

lemma set_dict_fromkeys [simp]: "set (dict_fromkeys xs) = set xs"
  and distinct_dict_fromkeys [simp]: "distinct (dict_fromkeys xs)"
  and dict_fromkeys_Nil [simp]: "dict_fromkeys xs = [] \<longleftrightarrow> xs = []"
  by (simp_all add: dict_fromkeys_def)

section \<open>Monotonic authority clock\<close>

text \<open>
  \<open>FarmTasksDB._effective_now\<close> and \<open>state_db._epoch\<close>: the time an operation acts on is the maximum
  of the floor kept by the connection, the observed clock and the supplied timestamp; the floor is
  raised to it.
\<close>

definition clock_max :: "time \<Rightarrow> time \<Rightarrow> time option \<Rightarrow> time" where
  "clock_max fl observed supplied =
     max (max fl observed) (case supplied of None \<Rightarrow> observed | Some t \<Rightarrow> t)"

lemma clock_max_floor [simp]: "fl \<le> clock_max fl observed supplied"
  and clock_max_observed [simp]: "observed \<le> clock_max fl observed supplied"
  by (simp_all add: clock_max_def)

lemma clock_max_mono: "fl \<le> fl2 \<Longrightarrow> clock_max fl observed supplied \<le> clock_max fl2 observed supplied"
  by (auto simp: clock_max_def)

end
