(* ===== verification/Fencing.thy ===== *)
theory Fencing
  imports Farm_Base
begin

text \<open>
  The contracts the three durable stores share (process ownership, farm tasks, compute queue).

  \<open>fencing\<close>: a resource has a fencing token that never decreases; holding a token is authority
  only while the stored token is that very token; a new grant always takes a larger token.
  \<open>versioned\<close>: rows persist, and a row whose mutation sequence is unchanged has its guarded
  columns unchanged, so a compare-and-swap on the sequence cannot suffer an ABA change.

  The theories of the stores interpret both on their own operations.
\<close>

section \<open>Runs\<close>

definition run_ops :: "('op \<Rightarrow> 's \<Rightarrow> 's) \<Rightarrow> 'op list \<Rightarrow> 's \<Rightarrow> 's" where
  "run_ops step ops s = fold step ops s"

lemma run_ops_Nil [simp]: "run_ops step [] s = s"
  and run_ops_Cons [simp]: "run_ops step (x # xs) s = run_ops step xs (step x s)"
  by (simp_all add: run_ops_def)

lemma run_ops_append: "run_ops step (xs @ ys) s = run_ops step ys (run_ops step xs s)"
  by (simp add: run_ops_def)

section \<open>Invariants of a step function\<close>

locale invariant_system =
  fixes step :: "'op \<Rightarrow> 's \<Rightarrow> 's"
    and inv :: "'s \<Rightarrow> bool"
  assumes inv_step: "inv s \<Longrightarrow> inv (step x s)"
begin

lemma inv_run: "inv s \<Longrightarrow> inv (run_ops step xs s)"
  by (induction xs arbitrary: s) (auto intro: inv_step)

end

section \<open>Fencing tokens\<close>

locale fencing = invariant_system step inv
  for step :: "'op \<Rightarrow> 's \<Rightarrow> 's" and inv :: "'s \<Rightarrow> bool" +
  fixes fence :: "'s \<Rightarrow> 'k \<Rightarrow> int"
    and holds :: "'s \<Rightarrow> 'k \<Rightarrow> 'h \<Rightarrow> int \<Rightarrow> bool"
  assumes fence_step: "inv s \<Longrightarrow> fence s k \<le> fence (step x s) k"
    and holds_fence: "inv s \<Longrightarrow> holds s k h f \<Longrightarrow> fence s k = f"
    and holds_unique: "inv s \<Longrightarrow> holds s k h f \<Longrightarrow> holds s k h' f' \<Longrightarrow> h = h'"
    and grant_fresh: "inv s \<Longrightarrow> holds (step x s) k h f \<Longrightarrow> \<not> holds s k h f \<Longrightarrow> fence s k < f"
begin

lemma fence_run: "inv s \<Longrightarrow> fence s k \<le> fence (run_ops step xs s) k"
proof (induction xs arbitrary: s)
  case (Cons x xs)
  have "fence s k \<le> fence (step x s) k" using Cons.prems by (rule fence_step)
  also have "\<dots> \<le> fence (run_ops step xs (step x s)) k"
    using Cons.prems by (intro Cons.IH inv_step)
  finally show ?case by simp
qed simp

text \<open>A holder that has lost its token never gets authority with that token again.\<close>

lemma no_revival:
  assumes "inv s" and "\<not> holds s k h f" and "f \<le> fence s k"
  shows "\<not> holds (run_ops step xs s) k h f"
  using assms
proof (induction xs arbitrary: s)
  case (Cons x xs)
  have "\<not> holds (step x s) k h f"
    using Cons.prems grant_fresh by fastforce
  moreover have "f \<le> fence (step x s) k"
    using Cons.prems fence_step order_trans by blast
  ultimately show ?case
    using Cons.IH[OF inv_step] Cons.prems by simp
qed simp

text \<open>One token is never granted to two holders.\<close>

lemma token_unique:
  assumes "inv s" and "holds s k h f" and "holds (run_ops step xs s) k h' f"
  shows "h' = h"
proof (rule ccontr)
  assume "h' \<noteq> h"
  with assms(1,2) have "\<not> holds s k h' f" by (auto dest: holds_unique)
  moreover have "f \<le> fence s k" using holds_fence[OF assms(1,2)] by simp
  ultimately show False using no_revival assms(1,3) by blast
qed

text \<open>A later grant to another holder takes a strictly larger token.\<close>

lemma later_token_larger:
  assumes "inv s" and "holds s k h f" and "holds (run_ops step xs s) k h' f'" and "h' \<noteq> h"
  shows "f < f'"
proof -
  have "f = fence s k" using assms(1,2) holds_fence by simp
  also have "\<dots> \<le> fence (run_ops step xs s) k" using assms(1) by (rule fence_run)
  also have "\<dots> = f'" using holds_fence[OF inv_run[OF assms(1)] assms(3)] .
  finally have "f \<le> f'" .
  moreover have "f \<noteq> f'" using token_unique[OF assms(1,2)] assms(3,4) by blast
  ultimately show ?thesis by simp
qed

end

section \<open>Versioned rows\<close>

locale versioned = invariant_system step inv
  for step :: "'op \<Rightarrow> 's \<Rightarrow> 's" and inv :: "'s \<Rightarrow> bool" +
  fixes row :: "'s \<Rightarrow> 'k \<Rightarrow> 'r option"
    and ver :: "'r \<Rightarrow> int"
    and guarded :: "'r \<Rightarrow> 'p"
  assumes row_step: "inv s \<Longrightarrow> row s k = Some r \<Longrightarrow>
    \<exists>r'. row (step x s) k = Some r' \<and> ver r \<le> ver r' \<and> (ver r' = ver r \<longrightarrow> guarded r' = guarded r)"
begin

lemma row_run:
  assumes "inv s" and "row s k = Some r"
  shows "\<exists>r'. row (run_ops step xs s) k = Some r' \<and> ver r \<le> ver r' \<and>
    (ver r' = ver r \<longrightarrow> guarded r' = guarded r)"
  using assms
proof (induction xs arbitrary: s r)
  case (Cons x xs)
  obtain r1 where r1: "row (step x s) k = Some r1" "ver r \<le> ver r1"
      "ver r1 = ver r \<longrightarrow> guarded r1 = guarded r"
    using row_step[OF Cons.prems] by blast
  obtain r2 where "row (run_ops step xs (step x s)) k = Some r2" "ver r1 \<le> ver r2"
      "ver r2 = ver r1 \<longrightarrow> guarded r2 = guarded r1"
    using Cons.IH[OF inv_step[OF Cons.prems(1)] r1(1)] by blast
  with r1 show ?case by (metis run_ops_Cons order_antisym order_trans)
qed simp

text \<open>No ABA: a row found again at the sequence it was read at has its guarded columns unchanged.\<close>

lemma no_aba:
  assumes "inv s" and "row s k = Some r" and "row (run_ops step xs s) k = Some r'" and "ver r' = ver r"
  shows "guarded r' = guarded r"
  using row_run[OF assms(1,2), of xs] assms(3,4) by auto

end

section \<open>Evolution of a table\<close>

text \<open>A table evolves when every row takes a step in place and the rows added behind are fresh.\<close>

definition rows_evolve :: "('r \<Rightarrow> 'r \<Rightarrow> bool) \<Rightarrow> ('r \<Rightarrow> bool) \<Rightarrow> 'r list \<Rightarrow> 'r list \<Rightarrow> bool" where
  "rows_evolve rstep fresh xs ys \<longleftrightarrow>
     (\<exists>rows ext. ys = rows @ ext \<and> list_all2 rstep xs rows \<and> (\<forall>r \<in> set ext. fresh r))"

locale row_evolution =
  fixes key :: "'r \<Rightarrow> 'k" and rstep :: "'r \<Rightarrow> 'r \<Rightarrow> bool" and fresh :: "'r \<Rightarrow> bool"
  assumes step_key: "rstep r r' \<Longrightarrow> key r' = key r"
    and step_refl: "rstep r r"
    and step_trans: "rstep r1 r2 \<Longrightarrow> rstep r2 r3 \<Longrightarrow> rstep r1 r3"
    and fresh_step: "fresh r \<Longrightarrow> rstep r r' \<Longrightarrow> fresh r'"
begin

lemma evolve_refl: "rows_evolve rstep fresh xs xs"
  unfolding rows_evolve_def by (intro exI[of _ xs] exI[of _ "[]"]) (simp add: list_all2_refl step_refl)

lemma fresh_rows: "list_all2 rstep xs ys \<Longrightarrow> \<forall>r \<in> set xs. fresh r \<Longrightarrow> \<forall>r \<in> set ys. fresh r"
  by (induction rule: list_all2_induct) (auto intro: fresh_step)

lemma evolve_trans:
  assumes "rows_evolve rstep fresh xs ys" and "rows_evolve rstep fresh ys zs"
  shows "rows_evolve rstep fresh xs zs"
proof -
  obtain rows ext where 1: "ys = rows @ ext" "list_all2 rstep xs rows" "\<forall>r \<in> set ext. fresh r"
    using assms(1) by (auto simp: rows_evolve_def)
  obtain rows' ext' where 2: "zs = rows' @ ext'" "list_all2 rstep (rows @ ext) rows'" "\<forall>r \<in> set ext'. fresh r"
    using assms(2) 1(1) by (auto simp: rows_evolve_def)
  obtain ra ea where 3: "rows' = ra @ ea" "list_all2 rstep rows ra" "list_all2 rstep ext ea"
    using 2(2) by (auto simp: list_all2_append1)
  have "list_all2 rstep xs ra"
    using list_all2_trans[OF _ 1(2) 3(2), of rstep] step_trans by blast
  moreover have "\<forall>r \<in> set (ea @ ext'). fresh r"
    using 2(3) fresh_rows[OF 3(3) 1(3)] by auto
  ultimately show ?thesis
    unfolding rows_evolve_def using 2(1) 3(1) by (intro exI[of _ ra] exI[of _ "ea @ ext'"]) simp
qed

lemma find_steps:
  assumes "list_all2 rstep xs ys"
  shows "(case find (\<lambda>r. key r = k) xs of
      None \<Rightarrow> find (\<lambda>r. key r = k) ys = None
    | Some r \<Rightarrow> \<exists>r'. find (\<lambda>r. key r = k) ys = Some r' \<and> rstep r r')"
  using assms
proof (induction rule: list_all2_induct)
  case (Cons x xs y ys)
  moreover have "key y = key x" using Cons(1) by (rule step_key)
  ultimately show ?case by (cases "key x = k") (simp_all split: option.splits)
qed simp

lemma find_evolves:
  assumes "rows_evolve rstep fresh xs ys" and "find (\<lambda>r. key r = k) xs = Some r"
  obtains r' where "find (\<lambda>r. key r = k) ys = Some r'" and "rstep r r'"
proof -
  obtain rows ext where "ys = rows @ ext" "list_all2 rstep xs rows"
    using assms(1) by (auto simp: rows_evolve_def)
  then show ?thesis
    using find_steps[of xs rows k] assms(2) that by (auto simp: find_append)
qed

lemma find_evolves_new:
  assumes "rows_evolve rstep fresh xs ys" and "find (\<lambda>r. key r = k) xs = None"
    and "find (\<lambda>r. key r = k) ys = Some r'"
  shows "fresh r'"
proof -
  obtain rows ext where *: "ys = rows @ ext" "list_all2 rstep xs rows" "\<forall>r \<in> set ext. fresh r"
    using assms(1) by (auto simp: rows_evolve_def)
  then have "find (\<lambda>r. key r = k) ext = Some r'"
    using find_steps[of xs rows k] assms(2,3) by (auto simp: find_append)
  then show ?thesis using *(3) find_SomeD by fastforce
qed

lemma update_evolves:
  assumes "\<And>r. r \<in> set xs \<Longrightarrow> p r \<Longrightarrow> rstep r (f r)"
  shows "rows_evolve rstep fresh xs (update_where p f xs)"
proof -
  have "list_all2 rstep xs (update_where p f xs)"
    using assms step_refl by (simp add: update_where_def list_all2_conv_all_nth)
  then show ?thesis
    unfolding rows_evolve_def by (intro exI[of _ "update_where p f xs"] exI[of _ "[]"]) simp
qed

lemma append_evolves: "fresh r \<Longrightarrow> rows_evolve rstep fresh xs (xs @ [r])"
  unfolding rows_evolve_def by (intro exI[of _ xs] exI[of _ "[r]"]) (simp add: list_all2_refl step_refl)

end

section \<open>Fencing from evolution\<close>

text \<open>The step every fenced row takes: the token and the sequence grow, the guarded columns are frozen
  while the sequence stands still, and a new holder comes only with a larger token.\<close>

definition fenced_step ::
  "('r \<Rightarrow> int) \<Rightarrow> ('r \<Rightarrow> int) \<Rightarrow> ('r \<Rightarrow> string option) \<Rightarrow> ('r \<Rightarrow> 'g) \<Rightarrow> 'r \<Rightarrow> 'r \<Rightarrow> bool" where
  "fenced_step fence seq owner guarded r r' \<longleftrightarrow>
     fence r \<le> fence r' \<and> seq r \<le> seq r' \<and> (seq r' = seq r \<longrightarrow> guarded r' = guarded r) \<and>
     (\<forall>h. owner r' = Some h \<longrightarrow> (owner r = Some h \<and> fence r' = fence r) \<or> fence r < fence r')"

definition fresh_fence :: "('r \<Rightarrow> int) \<Rightarrow> ('r \<Rightarrow> string option) \<Rightarrow> 'r \<Rightarrow> bool" where
  "fresh_fence fence owner r \<longleftrightarrow> 0 \<le> fence r \<and> (owner r \<noteq> None \<longrightarrow> 0 < fence r)"

lemma fenced_step_refl [simp]: "fenced_step fence seq owner guarded r r"
  by (simp add: fenced_step_def)

lemma fenced_step_trans:
  "fenced_step fence seq owner guarded r1 r2 \<Longrightarrow> fenced_step fence seq owner guarded r2 r3 \<Longrightarrow>
     fenced_step fence seq owner guarded r1 r3"
  unfolding fenced_step_def by (smt (verit, best) order_antisym order_trans less_le_trans le_less_trans)

lemma fresh_fence_step:
  "fresh_fence fence owner r \<Longrightarrow> fenced_step fence seq owner guarded r r' \<Longrightarrow> fresh_fence fence owner r'"
  by (auto simp: fresh_fence_def fenced_step_def)

text \<open>A table of fenced rows under a step function: the two contracts follow.\<close>

locale fenced_table = invariant_system step inv
  for step :: "'op \<Rightarrow> 's \<Rightarrow> 's" and inv :: "'s \<Rightarrow> bool" +
  fixes table :: "'s \<Rightarrow> 'r list" and key :: "'r \<Rightarrow> 'k"
    and fence :: "'r \<Rightarrow> int" and seq :: "'r \<Rightarrow> int" and owner :: "'r \<Rightarrow> string option" and guarded :: "'r \<Rightarrow> 'g"
    and rstep :: "'r \<Rightarrow> 'r \<Rightarrow> bool"
  assumes rows: "row_evolution key rstep (fresh_fence fence owner)"
    and rstep_fenced: "rstep r r' \<Longrightarrow> fenced_step fence seq owner guarded r r'"
    and step_evolves: "inv s \<Longrightarrow> rows_evolve rstep (fresh_fence fence owner) (table s) (table (step x s))"
begin

lemma row_persists:
  assumes "inv s" and "find (\<lambda>r. key r = k) (table s) = Some r"
  shows "\<exists>r'. find (\<lambda>r. key r = k) (table (step x s)) = Some r' \<and> seq r \<le> seq r' \<and>
    (seq r' = seq r \<longrightarrow> guarded r' = guarded r)"
  by (rule row_evolution.find_evolves[OF rows step_evolves[OF assms(1)] assms(2), of x])
     (auto dest: rstep_fenced simp: fenced_step_def)

lemma table_fence_grows:
  assumes "inv s"
  shows "(case find (\<lambda>r. key r = k) (table s) of None \<Rightarrow> 0 | Some r \<Rightarrow> fence r)
    \<le> (case find (\<lambda>r. key r = k) (table (step x s)) of None \<Rightarrow> 0 | Some r \<Rightarrow> fence r)"
proof (cases "find (\<lambda>r. key r = k) (table s)")
  case None
  then show ?thesis
    using row_evolution.find_evolves_new[OF rows step_evolves[OF assms] None]
    by (auto simp: fresh_fence_def split: option.split)
next
  case (Some r)
  show ?thesis
    by (rule row_evolution.find_evolves[OF rows step_evolves[OF assms] Some, of x])
       (auto simp: Some fenced_step_def dest: rstep_fenced)
qed

lemma grant_grows:
  assumes "inv s" and new: "find (\<lambda>r. key r = k) (table (step x s)) = Some r'" "owner r' = Some h"
    and "\<not> (\<exists>r. find (\<lambda>r. key r = k) (table s) = Some r \<and> owner r = Some h \<and> fence r = fence r')"
  shows "(case find (\<lambda>r. key r = k) (table s) of None \<Rightarrow> 0 | Some r \<Rightarrow> fence r) < fence r'"
proof (cases "find (\<lambda>r. key r = k) (table s)")
  case None
  then show ?thesis
    using row_evolution.find_evolves_new[OF rows step_evolves[OF assms(1)] None new(1)] new(2)
    by (simp add: fresh_fence_def)
next
  case (Some r)
  show ?thesis
    by (rule row_evolution.find_evolves[OF rows step_evolves[OF assms(1)] Some, of x])
       (use assms(4) new Some in \<open>auto simp: fenced_step_def dest!: rstep_fenced\<close>)
qed

end

sublocale fenced_table \<subseteq> table_fencing: fencing step inv
  "\<lambda>s k. case find (\<lambda>r. key r = k) (table s) of None \<Rightarrow> 0 | Some r \<Rightarrow> fence r"
  "\<lambda>s k h f. \<exists>r. find (\<lambda>r. key r = k) (table s) = Some r \<and> owner r = Some h \<and> fence r = f"
  using table_fence_grows grant_grows by unfold_locales auto

sublocale fenced_table \<subseteq> table_versions: versioned step inv
  "\<lambda>s k. find (\<lambda>r. key r = k) (table s)" seq guarded
  using row_persists by unfold_locales auto

end
