(* ===== verification/Ownership.thy ===== *)
theory Ownership
  imports Fencing
begin

text \<open>
  The process ownership registry of \<open>src/research_lab/ownership.py\<close>: one row per resource with the
  exact identity of the owning process, a lease expiry and a fencing token.  The registry is the
  table \<open>ownership_resources\<close>, keyed by \<open>resource_id\<close>.  The process table of the host is outside
  the program: \<open>probe\<close> stands for the identity probe (\<open>Inl ()\<close> is a raised
  \<open>OwnershipConflictError\<close>), \<open>boot\<close> for the boot time and \<open>now\<close> for the observed clock.
\<close>

section \<open>Identities, leases and rows\<close>

record process_identity =
  pid :: int
  started_at :: time
  executable :: string
  command_digest :: string

record process_lease =
  resource_id :: string
  role_id :: string
  owner_id :: string
  identity :: process_identity
  fencing_token :: int
  lease_expires_at :: time

type_synonym probe = "int \<Rightarrow> unit + process_identity option"

text \<open>A row of \<open>ownership_resources\<close>; every column but the role, fence and update time is nullable.\<close>

record owner_row =
  w_role :: string
  w_owner :: "string option"
  w_pid :: "int option"
  w_started :: "time option"
  w_exe :: "string option"
  w_digest :: "string option"
  w_expires :: "time option"
  w_fence :: int
  w_updated :: time

type_synonym registry = "string \<Rightarrow> owner_row option"

definition identity_complete :: "process_identity \<Rightarrow> bool" where
  "identity_complete i \<longleftrightarrow> \<not> (pid i \<le> 0 \<or> started_at i \<le> 0 \<or> executable i = [] \<or> command_digest i = [])"

text \<open>\<open>_identity_from_row\<close>. A NULL text column becomes the text \<open>None\<close>, as \<open>str\<close> makes it.\<close>

definition identity_from_row :: "owner_row \<Rightarrow> exn + process_identity" where
  "identity_from_row r =
     (case w_pid r of
        None \<Rightarrow> Inl (OwnershipConflict ''corrupt ownership identity'')
      | Some p \<Rightarrow>
          (case w_started r of
             None \<Rightarrow> Inl (OwnershipConflict ''corrupt ownership identity'')
           | Some t \<Rightarrow>
               let i = \<lparr>pid = p, started_at = t, executable = py_str (w_exe r),
                        command_digest = py_str (w_digest r)\<rparr>
               in if identity_complete i then Inr i
                  else Inl (OwnershipConflict ''corrupt ownership identity'')))"

definition same_identity :: "process_identity option \<Rightarrow> process_identity \<Rightarrow> bool" where
  "same_identity left right \<longleftrightarrow> left = Some right"

definition identity_predates_current_boot :: "time \<Rightarrow> process_identity \<Rightarrow> time \<Rightarrow> bool" where
  "identity_predates_current_boot boot i now \<longleftrightarrow>
     0 < boot \<and> boot \<le> now \<and> started_at i < boot - 1"

section \<open>Acquisition\<close>

text \<open>The checks of \<open>acquire\<close> on an existing row: \<open>None\<close> lets the acquisition go on.\<close>

definition acquire_conflict :: "probe \<Rightarrow> time \<Rightarrow> time \<Rightarrow> string \<Rightarrow> owner_row \<Rightarrow> exn option" where
  "acquire_conflict probe boot now role r =
     (if w_fence r < 0 \<or> w_role r = [] \<or> w_role r \<noteq> role
      then Some (OwnershipConflict ''corrupt ownership fence'')
      else case w_owner r of
        Some _ \<Rightarrow>
          (case identity_from_row r of
             Inl e \<Rightarrow> Some e
           | Inr persisted \<Rightarrow>
               (case w_expires r of
                  None \<Rightarrow> Some (OwnershipConflict ''corrupt ownership lease'')
                | Some expires \<Rightarrow>
                    (case probe (pid persisted) of
                       Inl _ \<Rightarrow>
                         if expires \<le> now \<and> identity_predates_current_boot boot persisted now
                         then None
                         else Some (OwnershipConflict ''process identity probe failed for pid'')
                     | Inr live \<Rightarrow>
                         if expires \<le> now \<and> same_identity live persisted
                         then Some (OwnershipConflict ''expired_alive_conflict'')
                         else if expires \<le> now \<and> live \<noteq> None
                         then Some (OwnershipConflict ''identity_mismatch'')
                         else if expires > now
                         then Some (OwnershipConflict ''resource already owned'')
                         else None)))
      | None \<Rightarrow>
          if w_pid r \<noteq> None \<or> w_started r \<noteq> None \<or> w_exe r \<noteq> None \<or> w_digest r \<noteq> None \<or> w_expires r \<noteq> None
          then Some (OwnershipConflict ''corrupt released ownership state'')
          else None)"

definition acquire ::
  "probe \<Rightarrow> time \<Rightarrow> time \<Rightarrow> string \<Rightarrow> string \<Rightarrow> string \<Rightarrow> process_identity \<Rightarrow> time \<Rightarrow> registry
     \<Rightarrow> (exn + process_lease) \<times> registry" where
  "acquire probe boot now rid role owner ident lease_seconds reg =
     (if rid = [] \<or> role = [] \<or> owner = [] \<or> lease_seconds \<le> 0
      then (Inl (ValueError ''resource, role, owner, and positive lease are required''), reg)
      else if \<not> identity_complete ident
      then (Inl (ValueError ''complete process identity is required''), reg)
      else
        (case (case reg rid of None \<Rightarrow> None | Some r \<Rightarrow> acquire_conflict probe boot now role r) of
           Some e \<Rightarrow> (Inl e, reg)
         | None \<Rightarrow>
             let current_fence = (case reg rid of None \<Rightarrow> 0 | Some r \<Rightarrow> w_fence r);
                 fence = current_fence + 1;
                 expires_at = now + lease_seconds;
                 row = \<lparr>w_role = role, w_owner = Some owner, w_pid = Some (pid ident),
                        w_started = Some (started_at ident), w_exe = Some (executable ident),
                        w_digest = Some (command_digest ident), w_expires = Some expires_at,
                        w_fence = fence, w_updated = now\<rparr>
             in (Inr \<lparr>resource_id = rid, role_id = role, owner_id = owner, identity = ident,
                      fencing_token = fence, lease_expires_at = expires_at\<rparr>,
                 reg(rid \<mapsto> row))))"

section \<open>Authority\<close>

text \<open>\<open>_assert_authoritative\<close>, with \<open>reval\<close> its \<open>revalidate_process_identity\<close> flag.\<close>

definition assert_authoritative ::
  "probe \<Rightarrow> time \<Rightarrow> bool \<Rightarrow> process_lease \<Rightarrow> registry \<Rightarrow> exn + owner_row" where
  "assert_authoritative probe now reval lease reg =
     (case reg (resource_id lease) of
        None \<Rightarrow> Inl (StaleProcessLease ''lease is no longer owned'')
      | Some r \<Rightarrow>
          (case w_owner r of
             None \<Rightarrow> Inl (StaleProcessLease ''lease is no longer owned'')
           | Some owner \<Rightarrow>
               (case identity_from_row r of
                  Inl e \<Rightarrow> Inl e
                | Inr persisted \<Rightarrow>
                    if w_role r \<noteq> role_id lease \<or> owner \<noteq> owner_id lease
                       \<or> w_fence r \<noteq> fencing_token lease \<or> persisted \<noteq> identity lease
                       \<or> or0 (w_expires r) \<le> now
                    then Inl (StaleProcessLease ''stale process lease'')
                    else if reval then
                      (case probe (pid persisted) of
                         Inl _ \<Rightarrow> Inl (StaleProcessLease ''process identity cannot be revalidated'')
                       | Inr live \<Rightarrow>
                           if same_identity live persisted then Inr r
                           else Inl (StaleProcessLease ''process identity no longer matches lease''))
                    else Inr r)))"

text \<open>\<open>_assert_local_holder\<close>: \<open>mypid\<close> is \<open>os.getpid()\<close>, \<open>started\<close> the start time psutil reports
  for it (\<open>None\<close> when it cannot be read).\<close>

definition assert_local_holder :: "int \<Rightarrow> time option \<Rightarrow> process_lease \<Rightarrow> exn option" where
  "assert_local_holder mypid started lease =
     (if pid (identity lease) \<noteq> mypid
      then Some (StaleProcessLease ''local process does not hold the persisted process lease'')
      else case started of
        None \<Rightarrow> Some (StaleProcessLease ''local process start identity cannot be verified'')
      | Some t \<Rightarrow>
          if \<bar>t - started_at (identity lease)\<bar> > 1 / 1000
          then Some (StaleProcessLease ''local process generation does not match the persisted lease'')
          else None)"

definition is_authoritative :: "probe \<Rightarrow> time \<Rightarrow> process_lease \<Rightarrow> registry \<Rightarrow> bool" where
  "is_authoritative probe now lease reg =
     (case assert_authoritative probe now True lease reg of Inl _ \<Rightarrow> False | Inr _ \<Rightarrow> True)"

definition is_authoritative_local ::
  "int \<Rightarrow> time option \<Rightarrow> time \<Rightarrow> process_lease \<Rightarrow> registry \<Rightarrow> bool" where
  "is_authoritative_local mypid started now lease reg =
     (case assert_local_holder mypid started lease of
        Some _ \<Rightarrow> False
      | None \<Rightarrow>
          (case assert_authoritative (\<lambda>_. Inl ()) now False lease reg of Inl _ \<Rightarrow> False | Inr _ \<Rightarrow> True))"

section \<open>Renewal and release\<close>

text \<open>\<open>_renew\<close>. The cancellation flag is read twice, before and after the authority check.\<close>

definition renew_core ::
  "probe \<Rightarrow> time \<Rightarrow> bool \<Rightarrow> bool \<Rightarrow> bool \<Rightarrow> time \<Rightarrow> process_lease \<Rightarrow> registry
     \<Rightarrow> (exn + process_lease) \<times> registry" where
  "renew_core probe now reval cancel1 cancel2 lease_seconds lease reg =
     (if lease_seconds \<le> 0 then (Inl (ValueError ''positive lease is required''), reg)
      else if cancel1
      then (Inl (StaleProcessLease ''process lease renewal cancelled before mutation''), reg)
      else case assert_authoritative probe now reval lease reg of
        Inl e \<Rightarrow> (Inl e, reg)
      | Inr r \<Rightarrow>
          if cancel2
          then (Inl (StaleProcessLease ''process lease renewal cancelled before mutation''), reg)
          else let expires_at = now + lease_seconds
               in (Inr (lease\<lparr>lease_expires_at := expires_at\<rparr>),
                   if w_owner r = Some (owner_id lease) \<and> w_fence r = fencing_token lease
                   then reg(resource_id lease \<mapsto> r\<lparr>w_expires := Some expires_at, w_updated := now\<rparr>)
                   else reg))"

definition renew ::
  "probe \<Rightarrow> time \<Rightarrow> time \<Rightarrow> process_lease \<Rightarrow> registry \<Rightarrow> (exn + process_lease) \<times> registry" where
  "renew probe now lease_seconds lease reg = renew_core probe now True False False lease_seconds lease reg"

definition renew_local ::
  "int \<Rightarrow> time option \<Rightarrow> time \<Rightarrow> bool \<Rightarrow> bool \<Rightarrow> time \<Rightarrow> process_lease \<Rightarrow> registry
     \<Rightarrow> (exn + process_lease) \<times> registry" where
  "renew_local mypid started now cancel1 cancel2 lease_seconds lease reg =
     (case assert_local_holder mypid started lease of
        Some e \<Rightarrow> (Inl e, reg)
      | None \<Rightarrow> renew_core (\<lambda>_. Inl ()) now False cancel1 cancel2 lease_seconds lease reg)"

definition renew_supervised ::
  "probe \<Rightarrow> time \<Rightarrow> bool \<Rightarrow> bool \<Rightarrow> bool \<Rightarrow> time \<Rightarrow> process_lease \<Rightarrow> registry
     \<Rightarrow> (exn + process_lease) \<times> registry" where
  "renew_supervised probe now cancel0 cancel1 cancel2 lease_seconds lease reg =
     (if cancel0
      then (Inl (StaleProcessLease ''process lease renewal cancelled before identity probe''), reg)
      else case probe (pid (identity lease)) of
        Inl _ \<Rightarrow> (Inl (StaleProcessLease ''process identity cannot be revalidated''), reg)
      | Inr live \<Rightarrow>
          if \<not> same_identity live (identity lease)
          then (Inl (StaleProcessLease ''process identity no longer matches supervised lease''), reg)
          else renew_core probe now False cancel1 cancel2 lease_seconds lease reg)"

definition release_core ::
  "probe \<Rightarrow> time \<Rightarrow> bool \<Rightarrow> process_lease \<Rightarrow> registry \<Rightarrow> (exn + unit) \<times> registry" where
  "release_core probe now reval lease reg =
     (case assert_authoritative probe now reval lease reg of
        Inl e \<Rightarrow> (Inl e, reg)
      | Inr r \<Rightarrow>
          (Inr (),
           if w_owner r = Some (owner_id lease) \<and> w_fence r = fencing_token lease
           then reg(resource_id lease \<mapsto>
                  r\<lparr>w_owner := None, w_pid := None, w_started := None, w_exe := None,
                    w_digest := None, w_expires := None, w_updated := now\<rparr>)
           else reg))"

definition release :: "probe \<Rightarrow> time \<Rightarrow> process_lease \<Rightarrow> registry \<Rightarrow> (exn + unit) \<times> registry" where
  "release probe now lease reg = release_core probe now True lease reg"

definition release_local ::
  "int \<Rightarrow> time option \<Rightarrow> time \<Rightarrow> process_lease \<Rightarrow> registry \<Rightarrow> (exn + unit) \<times> registry" where
  "release_local mypid started now lease reg =
     (case assert_local_holder mypid started lease of
        Some e \<Rightarrow> (Inl e, reg)
      | None \<Rightarrow> release_core (\<lambda>_. Inl ()) now False lease reg)"

text \<open>The stop markers are files; acknowledging one unlinks it and leaves the registry alone.\<close>

definition acknowledge_stop_core ::
  "probe \<Rightarrow> time \<Rightarrow> bool \<Rightarrow> process_lease \<Rightarrow> string \<Rightarrow> registry \<Rightarrow> string set \<Rightarrow> (exn + unit) \<times> string set" where
  "acknowledge_stop_core probe now reval lease stop_path reg files =
     (case assert_authoritative probe now reval lease reg of
        Inl e \<Rightarrow> (Inl e, files)
      | Inr _ \<Rightarrow> (Inr (), files - {stop_path}))"

definition acknowledge_stop_intent ::
  "probe \<Rightarrow> time \<Rightarrow> process_lease \<Rightarrow> string \<Rightarrow> registry \<Rightarrow> string set \<Rightarrow> (exn + unit) \<times> string set" where
  "acknowledge_stop_intent probe now lease stop_path reg files =
     acknowledge_stop_core probe now True lease stop_path reg files"

definition acknowledge_stop_intent_local ::
  "int \<Rightarrow> time option \<Rightarrow> time \<Rightarrow> process_lease \<Rightarrow> string \<Rightarrow> registry \<Rightarrow> string set
     \<Rightarrow> (exn + unit) \<times> string set" where
  "acknowledge_stop_intent_local mypid started now lease stop_path reg files =
     (case assert_local_holder mypid started lease of
        Some e \<Rightarrow> (Inl e, files)
      | None \<Rightarrow> acknowledge_stop_core (\<lambda>_. Inl ()) now False lease stop_path reg files)"

section \<open>Status projection\<close>

datatype owner_state = Released | Identity_Mismatch | Lease_Expired | Exclusive_Owner | Display_Only

record owner_status =
  st_state :: owner_state
  st_alive :: "bool option"
  st_exclusive :: bool
  st_owner :: "string option"
  st_fence :: "int option"
  st_expires :: "time option"

text \<open>\<open>status\<close>: the keys absent from a returned dict are \<open>None\<close>. Its last line converts the expiry
  without the \<open>or 0\<close> guard used above it, so an owned row with a NULL expiry raises.\<close>

definition status :: "probe \<Rightarrow> time \<Rightarrow> string \<Rightarrow> registry \<Rightarrow> exn + owner_status" where
  "status probe now rid reg =
     (case reg rid of
        None \<Rightarrow> Inr \<lparr>st_state = Released, st_alive = Some False, st_exclusive = False,
                     st_owner = None, st_fence = None, st_expires = None\<rparr>
      | Some r \<Rightarrow>
          (case w_owner r of
             None \<Rightarrow> Inr \<lparr>st_state = Released, st_alive = Some False, st_exclusive = False,
                          st_owner = None, st_fence = None, st_expires = None\<rparr>
           | Some owner \<Rightarrow>
               (let mismatch = Inr \<lparr>st_state = Identity_Mismatch, st_alive = None, st_exclusive = False,
                                    st_owner = None, st_fence = None, st_expires = None\<rparr>
                in case identity_from_row r of
                     Inl _ \<Rightarrow> mismatch
                   | Inr persisted \<Rightarrow>
                       (case probe (pid persisted) of
                          Inl _ \<Rightarrow> mismatch
                        | Inr live \<Rightarrow>
                            let same = same_identity live persisted;
                                expired = or0 (w_expires r) \<le> now
                            in (case w_expires r of
                                  None \<Rightarrow> Inl (TypeError ''float() argument'')
                                | Some expires \<Rightarrow>
                                    Inr \<lparr>st_state =
                                           (if live \<noteq> None \<and> \<not> same then Identity_Mismatch
                                            else if expired then Lease_Expired
                                            else if same then Exclusive_Owner
                                            else Display_Only),
                                         st_alive = Some (live \<noteq> None),
                                         st_exclusive = (same \<and> \<not> expired),
                                         st_owner = Some owner,
                                         st_fence = Some (w_fence r),
                                         st_expires = Some expires\<rparr>)))))"

section \<open>Canonical authority assessment\<close>

text \<open>
  The rows handed to \<open>assess_canonical_farm_authority\<close> are dicts of SQLite values; \<open>None\<close> is a
  missing key.  Text found in a numeric column is not a numeral (column affinity would have
  converted it), so \<open>int\<close> and \<open>float\<close> raise on it.
\<close>

datatype cell = CNull | CInt int | CReal rat | CText string

record auth_row =
  a_resource :: "cell option"
  a_role :: "cell option"
  a_owner :: "cell option"
  a_exe :: "cell option"
  a_digest :: "cell option"
  a_fence :: "cell option"
  a_expires :: "cell option"
  a_pid :: "cell option"
  a_started :: "cell option"

fun cell_text :: "cell option \<Rightarrow> string option" where
  "cell_text (Some (CText t)) = (if t = [] then None else Some t)"
| "cell_text _ = None"

text \<open>\<open>int()\<close> truncates towards zero.\<close>

definition trunc :: "rat \<Rightarrow> int" where
  "trunc q = (if 0 \<le> q then floor q else ceiling q)"

fun cell_int :: "cell option \<Rightarrow> int option" where
  "cell_int (Some (CInt n)) = Some n"
| "cell_int (Some (CReal q)) = Some (trunc q)"
| "cell_int _ = None"

fun cell_float :: "cell option \<Rightarrow> time option" where
  "cell_float (Some (CInt n)) = Some (of_int n)"
| "cell_float (Some (CReal q)) = Some q"
| "cell_float _ = None"

record authority_entry =
  e_identity :: process_identity
  e_resource :: string
  e_role :: string
  e_owner :: string
  e_fence :: int
  e_expires :: time

text \<open>The \<open>try\<close> block of the loop: \<open>None\<close> where it raises KeyError, TypeError or ValueError.\<close>

definition parse_authority_row :: "auth_row \<Rightarrow> authority_entry option" where
  "parse_authority_row r =
     (case (cell_text (a_resource r), cell_text (a_role r), cell_text (a_owner r),
            cell_text (a_exe r), cell_text (a_digest r)) of
        (Some rid, Some role, Some owner, Some exe, Some dig) \<Rightarrow>
          (case (cell_int (a_fence r), cell_float (a_expires r), cell_int (a_pid r), cell_float (a_started r)) of
             (Some f, Some ex, Some p, Some st) \<Rightarrow>
               Some \<lparr>e_identity = \<lparr>pid = p, started_at = st, executable = exe, command_digest = dig\<rparr>,
                     e_resource = rid, e_role = role, e_owner = owner, e_fence = f, e_expires = ex\<rparr>
           | _ \<Rightarrow> None)
      | _ \<Rightarrow> None)"

definition canonical_farm_authorities :: "(string \<times> string) list" where
  "canonical_farm_authorities =
     [(''canonical_farm'', ''farm''), (''strategy_lab_worker'', ''compute_worker'')]"

record assess_acc =
  x_errors :: "string list"
  x_resources :: "string list"
  x_parsed :: "authority_entry list"

text \<open>One iteration over the rows. \<open>seen_resources\<close> holds the resources listed so far.\<close>

definition assess_row ::
  "time \<Rightarrow> (string \<Rightarrow> int option) \<Rightarrow> auth_row \<Rightarrow> assess_acc \<Rightarrow> assess_acc" where
  "assess_row current prior_fences r acc =
     (case parse_authority_row r of
        None \<Rightarrow> acc\<lparr>x_errors := x_errors acc @ [''corrupt_process_authority'']\<rparr>
      | Some e \<Rightarrow>
          let rid = e_resource e;
              dup = (if rid \<in> set (x_resources acc) then [''duplicate_resource_authority''] else []);
              acc1 = acc\<lparr>x_resources := x_resources acc @ [rid], x_errors := x_errors acc @ dup\<rparr>
          in if e_fence e \<le> 0 \<or> \<not> identity_complete (e_identity e)
             then acc1\<lparr>x_errors := x_errors acc1 @ [''corrupt_process_authority'']\<rparr>
             else
               let expired = (if e_expires e \<le> current then [''expired_process_authority''] else []);
                   unexpected = (if map_of canonical_farm_authorities rid \<noteq> Some (e_role e)
                                 then [''unexpected_writer_authority''] else []);
                   fences = (case prior_fences rid of
                       None \<Rightarrow> []
                     | Some f \<Rightarrow>
                         if e_fence e < f then [''fence_regression'']
                         else if rid = ''canonical_farm'' \<and> e_fence e \<noteq> f
                         then [''canonical_generation_changed'']
                         else [])
               in acc1\<lparr>x_errors := x_errors acc1 @ expired @ unexpected @ fences,
                        x_parsed := x_parsed acc1 @ [e]\<rparr>)"

definition assess_start :: assess_acc where
  "assess_start = \<lparr>x_errors = [], x_resources = [], x_parsed = []\<rparr>"

record assessment =
  s_green :: bool
  s_distinct :: nat
  s_owner :: "string option"
  s_fence :: "int option"
  s_identity :: "process_identity option"
  s_resources :: "string list"
  s_errors :: "string list"

definition live_identity :: "probe \<Rightarrow> int \<Rightarrow> process_identity option" where
  "live_identity probe p = (case probe p of Inl _ \<Rightarrow> None | Inr live \<Rightarrow> live)"

definition assess_canonical_farm_authority ::
  "auth_row list \<Rightarrow> probe \<Rightarrow> time \<Rightarrow> string option \<Rightarrow> (string \<Rightarrow> int option) \<Rightarrow> assessment" where
  "assess_canonical_farm_authority rows probe current prior_owner prior_fences =
     (let acc = fold (assess_row current prior_fences) rows assess_start;
          canonical = filter (\<lambda>e. e_resource e = ''canonical_farm'' \<and> e_role e = ''farm'') (x_parsed acc);
          canon_errors =
            (if length canonical \<noteq> 1
             then [if canonical = [] then ''canonical_owner_missing'' else ''canonical_owner_ambiguous'']
             else []);
          identities = remdups (map e_identity (x_parsed acc));
          distinct_errors = (if length identities > 1 then [''distinct_process_authority''] else []);
          live_errors =
            (if \<exists>i \<in> set identities. live_identity probe (pid i) \<noteq> Some i
             then [''process_identity_mismatch''] else []);
          one = (case canonical of [e] \<Rightarrow> Some e | _ \<Rightarrow> None);
          owner = map_option e_owner one;
          prior_errors =
            (if prior_owner \<noteq> None \<and> owner \<noteq> prior_owner then [''canonical_generation_changed''] else []);
          errors = dict_fromkeys (x_errors acc @ canon_errors @ distinct_errors @ live_errors @ prior_errors)
      in \<lparr>s_green = (errors = []), s_distinct = length identities,
          s_owner = owner, s_fence = map_option e_fence one, s_identity = map_option e_identity one,
          s_resources = sort (x_resources acc), s_errors = errors\<rparr>)"

end
