(* ===== verification/Ownership_Safety.thy ===== *)
theory Ownership_Safety
  imports Ownership
begin

text \<open>
  What the process ownership registry promises: acquisitions take strictly increasing tokens, an
  unexpired lease blocks every other acquisition, a lease that lost its row never regains authority,
  mutations by a stale holder change nothing, and a green assessment names one live process.
\<close>

section \<open>Steps of the registry\<close>

text \<open>One constructor per operation that writes the registry, with what the call observed.\<close>

datatype own_op =
    O_Acquire probe time time string string string process_identity time
  | O_Renew probe time time process_lease
  | O_Renew_Local int "time option" time bool bool time process_lease
  | O_Renew_Supervised probe time bool bool bool time process_lease
  | O_Release probe time process_lease
  | O_Release_Local int "time option" time process_lease

fun own_step :: "own_op \<Rightarrow> registry \<Rightarrow> registry" where
  "own_step (O_Acquire p b n rid role ow i s) reg = snd (acquire p b n rid role ow i s reg)"
| "own_step (O_Renew p n s l) reg = snd (renew p n s l reg)"
| "own_step (O_Renew_Local m st n c1 c2 s l) reg = snd (renew_local m st n c1 c2 s l reg)"
| "own_step (O_Renew_Supervised p n c0 c1 c2 s l) reg = snd (renew_supervised p n c0 c1 c2 s l reg)"
| "own_step (O_Release p n l) reg = snd (release p n l reg)"
| "own_step (O_Release_Local m st n l) reg = snd (release_local m st n l reg)"

definition own_fence :: "registry \<Rightarrow> string \<Rightarrow> int" where
  "own_fence reg rid = (case reg rid of None \<Rightarrow> 0 | Some r \<Rightarrow> w_fence r)"

text \<open>The durable part of authority: everything but the expiry and the live process.\<close>

type_synonym holder = "string \<times> string \<times> process_identity"

definition own_holds :: "registry \<Rightarrow> string \<Rightarrow> holder \<Rightarrow> int \<Rightarrow> bool" where
  "own_holds reg rid h f \<longleftrightarrow>
     (\<exists>r. reg rid = Some r \<and> w_owner r = Some (fst (snd h)) \<and> w_role r = fst h \<and> w_fence r = f \<and>
          identity_from_row r = Inr (snd (snd h)))"

definition lease_holder :: "process_lease \<Rightarrow> holder" where
  "lease_holder l = (role_id l, owner_id l, identity l)"

abbreviation lease_held :: "process_lease \<Rightarrow> registry \<Rightarrow> bool" where
  "lease_held l reg \<equiv> own_holds reg (resource_id l) (lease_holder l) (fencing_token l)"

lemma identity_from_row_lease_columns [simp]:
  "identity_from_row (r\<lparr>w_expires := e, w_updated := u\<rparr>) = identity_from_row r"
  by (simp add: identity_from_row_def split: option.split)

lemma assert_authoritative_held:
  "assert_authoritative probe now reval l reg = Inr r \<Longrightarrow>
     reg (resource_id l) = Some r \<and> w_owner r = Some (owner_id l) \<and> w_fence r = fencing_token l \<and>
     w_role r = role_id l \<and> identity_from_row r = Inr (identity l) \<and> now < or0 (w_expires r)"
  by (auto simp: assert_authoritative_def split: option.splits sum.splits if_splits)

lemma assert_authoritative_lease_held:
  "assert_authoritative probe now reval l reg = Inr r \<Longrightarrow> lease_held l reg"
  by (drule assert_authoritative_held) (auto simp: own_holds_def lease_holder_def)

lemma assert_local_holder_None:
  "assert_local_holder mypid started l = None \<Longrightarrow> pid (identity l) = mypid"
  by (auto simp: assert_local_holder_def split: if_splits)

section \<open>How one step changes a row\<close>

text \<open>Unchanged, extended, released with its token kept, or granted with the next token.\<close>

definition own_evolves :: "registry \<Rightarrow> registry \<Rightarrow> string \<Rightarrow> bool" where
  "own_evolves reg reg' k \<longleftrightarrow>
     reg' k = reg k
     \<or> (\<exists>r e u. reg k = Some r \<and> reg' k = Some (r\<lparr>w_expires := e, w_updated := u\<rparr>))
     \<or> (\<exists>r'. reg' k = Some r' \<and> w_owner r' = None \<and> w_fence r' = own_fence reg k)
     \<or> (\<exists>r'. reg' k = Some r' \<and> w_fence r' = own_fence reg k + 1)"

lemma own_evolves_refl [simp]: "own_evolves reg reg k"
  by (simp add: own_evolves_def)

lemma acquire_evolves: "own_evolves reg (snd (acquire p b n rid role ow i s reg)) k"
  by (auto simp: acquire_def own_evolves_def own_fence_def Let_def split: option.splits)

lemma renew_core_evolves: "own_evolves reg (snd (renew_core p n rv c1 c2 s l reg)) k"
proof (cases "assert_authoritative p n rv l reg")
  case (Inr r)
  then have "reg (resource_id l) = Some r" by (simp add: assert_authoritative_held)
  with Inr show ?thesis
    by (auto simp: renew_core_def own_evolves_def Let_def)
qed (simp add: renew_core_def)

lemma release_core_evolves: "own_evolves reg (snd (release_core p n rv l reg)) k"
proof (cases "assert_authoritative p n rv l reg")
  case (Inr r)
  then have "reg (resource_id l) = Some r" by (simp add: assert_authoritative_held)
  with Inr show ?thesis
    by (auto simp: release_core_def own_evolves_def own_fence_def)
qed (simp add: release_core_def)

lemmas renew_defs = renew_def renew_local_def renew_supervised_def
lemmas release_defs = release_def release_local_def

lemma own_step_evolves: "own_evolves reg (own_step x reg) k"
  by (cases x)
     (auto simp: renew_defs release_defs acquire_evolves renew_core_evolves release_core_evolves
       split: option.splits sum.splits)

lemma own_evolves_fence: "own_evolves reg reg' k \<Longrightarrow> own_fence reg k \<le> own_fence reg' k"
  by (auto simp: own_evolves_def own_fence_def)

lemma own_evolves_grant:
  "own_evolves reg reg' k \<Longrightarrow> own_holds reg' k h f \<Longrightarrow> \<not> own_holds reg k h f \<Longrightarrow> own_fence reg k < f"
  by (auto simp: own_evolves_def own_holds_def)

interpretation own: fencing own_step "\<lambda>_. True" own_fence own_holds
proof unfold_locales
  show "own_fence s k \<le> own_fence (own_step x s) k" for s k x
    by (rule own_evolves_fence) (rule own_step_evolves)
  show "own_fence s k < f" if "own_holds (own_step x s) k h f" "\<not> own_holds s k h f" for s x k h f
    using own_evolves_grant own_step_evolves that by blast
qed (auto simp: own_holds_def own_fence_def)

section \<open>Acquisition\<close>

lemma acquire_InrD:
  assumes "acquire probe boot now rid role owner ident secs reg = (Inr l, reg')"
  shows "0 < secs" and "identity_complete ident"
    and "l = \<lparr>resource_id = rid, role_id = role, owner_id = owner, identity = ident,
              fencing_token = own_fence reg rid + 1, lease_expires_at = now + secs\<rparr>"
    and "reg rid = Some r \<Longrightarrow> acquire_conflict probe boot now role r = None"
    and "reg' = reg(rid \<mapsto> \<lparr>w_role = role, w_owner = Some owner, w_pid = Some (pid ident),
            w_started = Some (started_at ident), w_exe = Some (executable ident),
            w_digest = Some (command_digest ident), w_expires = Some (now + secs),
            w_fence = own_fence reg rid + 1, w_updated = now\<rparr>)"
  using assms by (auto simp: acquire_def own_fence_def Let_def split: if_splits option.splits)

lemma acquire_InlD: "acquire probe boot now rid role owner ident secs reg = (Inl e, reg') \<Longrightarrow> reg' = reg"
  by (auto simp: acquire_def Let_def split: if_splits option.splits)

lemma acquire_conflict_live:
  "w_owner r \<noteq> None \<Longrightarrow> w_expires r = Some e \<Longrightarrow> now < e \<Longrightarrow> acquire_conflict probe boot now role r \<noteq> None"
  by (auto simp: acquire_conflict_def split: option.splits sum.splits if_splits)

lemma acquire_conflict_None:
  assumes "acquire_conflict probe boot now role r = None" and "w_owner r = Some owner"
  obtains e i where "identity_from_row r = Inr i" and "w_expires r = Some e" and "e \<le> now"
    and "probe (pid i) = Inr None \<or>
      (probe (pid i) = Inl () \<and> identity_predates_current_boot boot i now)"
proof -
  have "\<exists>e i. identity_from_row r = Inr i \<and> w_expires r = Some e \<and> e \<le> now \<and>
      (probe (pid i) = Inr None \<or> (probe (pid i) = Inl () \<and> identity_predates_current_boot boot i now))"
    using assms by (auto simp: acquire_conflict_def split: option.splits sum.splits if_splits)
  then show ?thesis using that by blast
qed

text \<open>The lease handed out is authoritative at once, until it expires.\<close>

lemma acquired_lease_authoritative:
  assumes "acquire probe boot now rid role owner ident secs reg = (Inr l, reg')" and "t < now + secs"
  shows "\<exists>r. assert_authoritative probe' t False l reg' = Inr r"
  using acquire_InrD[OF assms(1)] assms(2)
  by (auto simp: assert_authoritative_def identity_from_row_def identity_complete_def Let_def)

section \<open>Stale holders\<close>

lemma not_held_assert:
  assumes "\<not> lease_held l reg"
  shows "\<exists>e. assert_authoritative probe now reval l reg = Inl e"
  using assert_authoritative_lease_held assms by (cases "assert_authoritative probe now reval l reg") auto

lemma not_held_renew_core:
  assumes "\<not> lease_held l reg"
  shows "\<exists>e. renew_core probe now reval c1 c2 secs l reg = (Inl e, reg)"
  using not_held_assert[OF assms, of probe now reval] by (auto simp: renew_core_def)

lemma not_held_release_core:
  assumes "\<not> lease_held l reg"
  shows "\<exists>e. release_core probe now reval l reg = (Inl e, reg)"
  using not_held_assert[OF assms, of probe now reval] by (auto simp: release_core_def)

lemma renew_core_InrD:
  assumes "renew_core probe now reval c1 c2 secs l reg = (Inr l', reg')"
  shows "0 < secs" and "l' = l\<lparr>lease_expires_at := now + secs\<rparr>"
    and "\<exists>r. assert_authoritative probe now reval l reg = Inr r \<and>
           reg' = reg(resource_id l \<mapsto> r\<lparr>w_expires := Some (now + secs), w_updated := now\<rparr>)"
  using assms
  by (auto simp: renew_core_def Let_def dest: assert_authoritative_held split: if_splits sum.splits)

section \<open>Assessment\<close>

lemma assess_fold_grows:
  "set (x_errors acc) \<subseteq> set (x_errors (fold (assess_row current pf) rows acc))"
proof (induction rows arbitrary: acc)
  case (Cons r rows)
  have "set (x_errors acc) \<subseteq> set (x_errors (assess_row current pf r acc))"
    by (auto simp: assess_row_def Let_def split: option.splits)
  with Cons[of "assess_row current pf r acc"] show ?case by auto
qed simp

lemma assess_row_clean:
  assumes "x_errors (assess_row current pf r acc) = []"
  shows "x_errors acc = []"
    and "\<exists>e. parse_authority_row r = Some e \<and> e_resource e \<notin> set (x_resources acc) \<and>
       identity_complete (e_identity e) \<and> current < e_expires e \<and>
       map_of canonical_farm_authorities (e_resource e) = Some (e_role e) \<and>
       (\<forall>f. pf (e_resource e) = Some f \<longrightarrow> f \<le> e_fence e) \<and>
       assess_row current pf r acc = acc\<lparr>x_resources := x_resources acc @ [e_resource e],
         x_parsed := x_parsed acc @ [e]\<rparr>"
  using assms
  by (auto simp: assess_row_def Let_def split: option.splits if_splits)

lemma remdups_singleton:
  assumes "\<not> 1 < length (remdups xs)" and "x \<in> set xs"
  shows "remdups xs = [x]"
proof (cases "remdups xs")
  case Nil
  with assms(2) show ?thesis by simp
next
  case (Cons y ys)
  with assms(1) have "ys = []" by simp
  with Cons assms(2) show ?thesis by (metis set_remdups singletonD list.simps(15) empty_set)
qed

text \<open>A clean fold parses every row, into distinct resources.\<close>

definition entry_clean :: "time \<Rightarrow> (string \<Rightarrow> int option) \<Rightarrow> authority_entry \<Rightarrow> bool" where
  "entry_clean current pf e \<longleftrightarrow>
     identity_complete (e_identity e) \<and> current < e_expires e \<and>
     map_of canonical_farm_authorities (e_resource e) = Some (e_role e) \<and>
     (\<forall>f. pf (e_resource e) = Some f \<longrightarrow> f \<le> e_fence e)"

lemma assess_fold_clean:
  assumes "x_errors (fold (assess_row current pf) rows acc) = []"
  shows "\<exists>es. map parse_authority_row rows = map Some es \<and>
     x_parsed (fold (assess_row current pf) rows acc) = x_parsed acc @ es \<and>
     x_resources (fold (assess_row current pf) rows acc) = x_resources acc @ map e_resource es \<and>
     (\<forall>e \<in> set es. entry_clean current pf e) \<and>
     (distinct (x_resources acc) \<longrightarrow> distinct (x_resources acc @ map e_resource es))"
  using assms
proof (induction rows arbitrary: acc)
  case (Cons r rows)
  let ?acc = "assess_row current pf r acc"
  have rest: "x_errors (fold (assess_row current pf) rows ?acc) = []" using Cons.prems by simp
  then have clean: "x_errors ?acc = []" using assess_fold_grows[of ?acc current pf rows] by auto
  obtain e where e: "parse_authority_row r = Some e" "e_resource e \<notin> set (x_resources acc)"
      "entry_clean current pf e"
      "?acc = acc\<lparr>x_resources := x_resources acc @ [e_resource e], x_parsed := x_parsed acc @ [e]\<rparr>"
    using assess_row_clean(2)[OF clean] by (auto simp: entry_clean_def)
  obtain es where "map parse_authority_row rows = map Some es"
     "x_parsed (fold (assess_row current pf) rows ?acc) = x_parsed ?acc @ es"
     "x_resources (fold (assess_row current pf) rows ?acc) = x_resources ?acc @ map e_resource es"
     "\<forall>e \<in> set es. entry_clean current pf e"
     "distinct (x_resources ?acc) \<longrightarrow> distinct (x_resources ?acc @ map e_resource es)"
    using Cons.IH[OF rest] by blast
  then show ?case
    using e by (intro exI[of _ "e # es"]) auto
qed simp

lemma assess_start_clean:
  assumes "x_errors (fold (assess_row current pf) rows assess_start) = []"
  obtains es where "map parse_authority_row rows = map Some es"
    and "x_parsed (fold (assess_row current pf) rows assess_start) = es"
    and "\<forall>e \<in> set es. entry_clean current pf e" and "distinct (map e_resource es)"
  using assess_fold_clean[OF assms] by (auto simp: assess_start_def)

lemma assess_greenD:
  fixes probe :: probe
  defines "acc \<equiv> \<lambda>rows current pf. x_parsed (fold (assess_row current pf) rows assess_start)"
  assumes "s_green (assess_canonical_farm_authority rows probe current prior_owner pf)"
  shows "x_errors (fold (assess_row current pf) rows assess_start) = []"
    and "length (filter (\<lambda>e. e_resource e = ''canonical_farm'' \<and> e_role e = ''farm'') (acc rows current pf)) = 1"
    and "\<not> 1 < length (remdups (map e_identity (acc rows current pf)))"
    and "\<forall>i \<in> e_identity ` set (acc rows current pf). live_identity probe (pid i) = Some i"
    and "filter (\<lambda>e. e_resource e = ''canonical_farm'' \<and> e_role e = ''farm'') (acc rows current pf) = [c] \<Longrightarrow>
      prior_owner = None \<or> prior_owner = Some (e_owner c)"
    and "s_distinct (assess_canonical_farm_authority rows probe current prior_owner pf) =
      length (remdups (map e_identity (acc rows current pf)))"
  using assms unfolding assess_canonical_farm_authority_def Let_def acc_def
  by (simp_all split: if_splits) auto

section \<open>Properties\<close>

text \<open>While the persisted lease of a resource is unexpired, every acquisition of the resource
  fails, whatever the process probe says, and the registry is left as it was.\<close>

theorem live_lease_blocks_acquire:
  assumes "reg rid = Some r" and "w_owner r = Some ow" and "w_expires r = Some e" and "now < e"
  shows "\<exists>ex. acquire probe boot now rid role owner ident secs reg = (Inl ex, reg)"
proof -
  have "acquire_conflict probe boot now role r \<noteq> None"
    using assms by (simp add: acquire_conflict_live)
  with assms(1) show ?thesis by (auto simp: acquire_def)
qed

text \<open>A successful acquisition hands out the next fencing token, is authoritative until its lease
  expires, leaves every other resource alone, and replaces a previous owner only when that lease had
  expired and its exact process was gone (or predates the current boot).\<close>

theorem acquire_next_token:
  assumes "acquire probe boot now rid role owner ident secs reg = (Inr l, reg')"
  shows "fencing_token l = own_fence reg rid + 1 \<and> own_fence reg' rid = fencing_token l \<and>
    (\<forall>k. k \<noteq> rid \<longrightarrow> reg' k = reg k) \<and>
    (\<forall>t. t < now + secs \<longrightarrow> (\<exists>r'. assert_authoritative probe t False l reg' = Inr r')) \<and>
    (\<forall>r ow. reg rid = Some r \<and> w_owner r = Some ow \<longrightarrow>
       (\<exists>e i. identity_from_row r = Inr i \<and> w_expires r = Some e \<and> e \<le> now \<and>
          (probe (pid i) = Inr None \<or>
           (probe (pid i) = Inl () \<and> identity_predates_current_boot boot i now))))"
proof (intro conjI allI impI)
  note D = acquire_InrD[OF assms]
  show "fencing_token l = own_fence reg rid + 1" "own_fence reg' rid = fencing_token l"
    using D by (simp_all add: own_fence_def)
  show "reg' k = reg k" if "k \<noteq> rid" for k using D(5) that by simp
  show "\<exists>r'. assert_authoritative probe t False l reg' = Inr r'" if "t < now + secs" for t
    using acquired_lease_authoritative[OF assms that] .
  show "\<exists>e i. identity_from_row r = Inr i \<and> w_expires r = Some e \<and> e \<le> now \<and>
        (probe (pid i) = Inr None \<or> (probe (pid i) = Inl () \<and> identity_predates_current_boot boot i now))"
    if "reg rid = Some r \<and> w_owner r = Some ow" for r ow
    using acquire_conflict_None[OF D(4)] that by metis
qed

text \<open>Once a lease has lost its row (released, or taken over), no sequence of later registry
  operations makes it authoritative again, neither for the acquiring process nor for an observer.\<close>

theorem stale_lease_never_revives:
  assumes "\<not> lease_held l reg" and "fencing_token l \<le> own_fence reg (resource_id l)"
  shows "\<not> is_authoritative probe now l (run_ops own_step ops reg) \<and>
    \<not> is_authoritative_local mypid started now l (run_ops own_step ops reg)"
proof -
  have "\<not> lease_held l (run_ops own_step ops reg)"
    by (rule own.no_revival[OF TrueI assms])
  then show ?thesis
    by (auto simp: is_authoritative_def is_authoritative_local_def
        dest: assert_authoritative_lease_held split: sum.splits option.splits)
qed

text \<open>C29 Along any run of registry operations, authority over one resource moves only to larger
  tokens, and one token is only ever held by one owner with one process identity.\<close>

theorem one_holder_per_token:
  assumes "is_authoritative probe1 now1 l1 reg"
    and "is_authoritative probe2 now2 l2 (run_ops own_step ops reg)"
    and "resource_id l2 = resource_id l1"
  shows "fencing_token l1 \<le> fencing_token l2 \<and>
    (fencing_token l1 = fencing_token l2 \<longrightarrow>
       role_id l1 = role_id l2 \<and> owner_id l1 = owner_id l2 \<and> identity l1 = identity l2)"
proof -
  let ?reg' = "run_ops own_step ops reg"
  have h1: "lease_held l1 reg" and h2: "lease_held l2 ?reg'"
    using assms(1,2) by (auto simp: is_authoritative_def dest: assert_authoritative_lease_held split: sum.splits)
  have "fencing_token l1 \<le> own_fence ?reg' (resource_id l1)"
    using own.holds_fence[OF TrueI h1] own.fence_run[of reg "resource_id l1" ops] by simp
  then have "fencing_token l1 \<le> fencing_token l2"
    using own.holds_fence[OF TrueI h2] assms(3) by simp
  moreover have "lease_holder l2 = lease_holder l1" if "fencing_token l1 = fencing_token l2"
    using own.token_unique[OF TrueI h1, of ops "lease_holder l2"] h2 assms(3) that by simp
  ultimately show ?thesis by (auto simp: lease_holder_def)
qed

text \<open>A holder whose lease no longer matches the persisted owner, role, token and identity can
  neither renew, release nor acknowledge a stop: every such call raises and changes nothing.\<close>

theorem stale_holder_changes_nothing:
  assumes "\<not> lease_held l reg"
  shows "(\<exists>e. renew probe now secs l reg = (Inl e, reg)) \<and>
    (\<exists>e. renew_local mypid started now c1 c2 secs l reg = (Inl e, reg)) \<and>
    (\<exists>e. renew_supervised probe now c0 c1 c2 secs l reg = (Inl e, reg)) \<and>
    (\<exists>e. release probe now l reg = (Inl e, reg)) \<and>
    (\<exists>e. release_local mypid started now l reg = (Inl e, reg)) \<and>
    (\<exists>e. acknowledge_stop_intent probe now l stop_path reg files = (Inl e, files)) \<and>
    (\<exists>e. acknowledge_stop_intent_local mypid started now l stop_path reg files = (Inl e, files))"
proof -
  have K: "\<exists>e. acknowledge_stop_core p n rv l stop_path reg files = (Inl e, files)" for p n rv
    using not_held_assert[OF assms, of p n rv] by (auto simp: acknowledge_stop_core_def)
  note R = not_held_renew_core[OF assms] and L = not_held_release_core[OF assms]
  show ?thesis
    unfolding renew_defs release_defs acknowledge_stop_intent_def acknowledge_stop_intent_local_def
    by (intro conjI R L K) (simp_all add: R L K split: option.split sum.split)
qed

text \<open>C30 A green assessment is sound: every row parses to an unexpired entry of a known resource with
  its own role, no resource is listed twice, exactly one entry is the canonical farm, all entries
  carry one and the same process identity, that process is alive under it, and neither the canonical
  owner nor any token went back on what was observed before.\<close>

theorem assess_green_sound:
  assumes "s_green (assess_canonical_farm_authority rows probe current prior_owner prior_fences)"
  shows "\<exists>es i c. map parse_authority_row rows = map Some es \<and>
    distinct (map e_resource es) \<and> (\<forall>e \<in> set es. entry_clean current prior_fences e) \<and>
    filter (\<lambda>e. e_resource e = ''canonical_farm'') es = [c] \<and>
    (\<forall>e \<in> set es. e_identity e = i) \<and> live_identity probe (pid i) = Some i \<and>
    (prior_owner = None \<or> prior_owner = Some (e_owner c)) \<and>
    s_distinct (assess_canonical_farm_authority rows probe current prior_owner prior_fences) = 1"
proof -
  let ?es = "x_parsed (fold (assess_row current prior_fences) rows assess_start)"
  note D = assess_greenD[OF assms]
  obtain es where es: "map parse_authority_row rows = map Some es" "?es = es"
      "\<forall>e \<in> set es. entry_clean current prior_fences e" "distinct (map e_resource es)"
    using assess_start_clean[OF D(1)] .
  note D = D[unfolded es(2)]
  obtain c where c: "filter (\<lambda>e. e_resource e = ''canonical_farm'' \<and> e_role e = ''farm'') es = [c]"
    using D(2) by (auto simp: length_Suc_conv)
  have role: "e_resource e = ''canonical_farm'' \<longleftrightarrow> e_resource e = ''canonical_farm'' \<and> e_role e = ''farm''"
    if "e \<in> set es" for e
    using es(3) that by (auto simp: entry_clean_def canonical_farm_authorities_def)
  have only: "filter (\<lambda>e. e_resource e = ''canonical_farm'') es = [c]"
    unfolding c[symmetric] by (rule filter_cong[OF refl role])
  have "c \<in> set es" using arg_cong[OF c, of set] by auto
  then have ids: "remdups (map e_identity es) = [e_identity c]"
    using D(3) by (intro remdups_singleton) auto
  have same: "\<forall>e \<in> set es. e_identity e = e_identity c"
  proof
    fix e assume "e \<in> set es"
    then have "e_identity e \<in> set (remdups (map e_identity es))" by simp
    then show "e_identity e = e_identity c" unfolding ids by simp
  qed
  have live: "live_identity probe (pid (e_identity c)) = Some (e_identity c)"
    using D(4) \<open>c \<in> set es\<close> by blast
  have one: "s_distinct (assess_canonical_farm_authority rows probe current prior_owner prior_fences) = 1"
    using D(6) ids by simp
  show ?thesis
    using es(1,3,4) only same live D(5)[OF c] one by blast
qed

section \<open>Witnesses\<close>

text \<open>A farm process owns \<open>canonical_farm\<close> from time 1000 until 1030; process 7 is the only one alive.\<close>

definition demo_identity :: process_identity where
  "demo_identity = \<lparr>pid = 7, started_at = 100, executable = ''python'', command_digest = ''sha256:1''\<rparr>"

definition demo_probe :: probe where
  "demo_probe p = Inr (if p = 7 then Some demo_identity else None)"

definition demo_row :: owner_row where
  "demo_row = \<lparr>w_role = ''farm'', w_owner = Some ''o1'', w_pid = Some 7, w_started = Some 100,
     w_exe = Some ''python'', w_digest = Some ''sha256:1'', w_expires = Some 1030, w_fence = 1, w_updated = 1000\<rparr>"

definition demo_registry :: registry where
  "demo_registry = [''canonical_farm'' \<mapsto> demo_row]"

definition demo_lease :: process_lease where
  "demo_lease = \<lparr>resource_id = ''canonical_farm'', role_id = ''farm'', owner_id = ''o1'',
     identity = demo_identity, fencing_token = 1, lease_expires_at = 1030\<rparr>"

definition demo_released :: registry where
  "demo_released = snd (release demo_probe 1010 demo_lease demo_registry)"

lemmas demo_defs = demo_identity_def demo_probe_def demo_row_def demo_registry_def demo_lease_def

lemma demo_identity_from_row [simp]: "identity_from_row demo_row = Inr demo_identity"
  by (simp add: demo_defs identity_from_row_def identity_complete_def)

lemma demo_authoritative: "is_authoritative demo_probe 1010 demo_lease demo_registry"
  by (simp add: is_authoritative_def assert_authoritative_def demo_registry_def)
     (simp add: demo_defs identity_from_row_def identity_complete_def same_identity_def)

lemma demo_not_held: "\<not> lease_held demo_lease demo_released"
  by (simp add: own_holds_def demo_released_def release_def release_core_def assert_authoritative_def demo_registry_def)
     (simp add: demo_defs identity_from_row_def identity_complete_def same_identity_def)

lemma demo_released_fence: "fencing_token demo_lease \<le> own_fence demo_released (resource_id demo_lease)"
  by (simp add: own_fence_def demo_released_def release_def release_core_def assert_authoritative_def demo_registry_def)
     (simp add: demo_defs identity_from_row_def identity_complete_def same_identity_def)

theorem live_lease_blocks_acquire_witness:
  "\<exists>ex. acquire demo_probe 0 1010 ''canonical_farm'' ''farm'' ''o2'' demo_identity 30 demo_registry
      = (Inl ex, demo_registry)"
proof (rule live_lease_blocks_acquire)
  show "demo_registry ''canonical_farm'' = Some demo_row" by (simp add: demo_registry_def)
  show "w_owner demo_row = Some ''o1''" "w_expires demo_row = Some 1030" by (simp_all add: demo_row_def)
qed simp

theorem acquire_next_token_witness:
  "fencing_token (demo_lease) = own_fence Map.empty ''canonical_farm'' + 1"
proof -
  have "acquire demo_probe 0 1000 ''canonical_farm'' ''farm'' ''o1'' demo_identity 30 Map.empty
      = (Inr demo_lease, demo_registry)"
    by (simp add: acquire_def demo_defs identity_complete_def)
  from acquire_next_token[OF this] show ?thesis by simp
qed

theorem stale_lease_never_revives_witness:
  "\<not> is_authoritative demo_probe 1010 demo_lease
     (run_ops own_step [O_Acquire demo_probe 0 1010 ''canonical_farm'' ''farm'' ''o1'' demo_identity 30] demo_released)"
  using stale_lease_never_revives[OF demo_not_held demo_released_fence] by blast

theorem one_holder_per_token_witness:
  "fencing_token demo_lease \<le> fencing_token demo_lease"
  using one_holder_per_token[OF demo_authoritative, where ops = "[]", unfolded run_ops_Nil, OF demo_authoritative refl]
  by blast

theorem stale_holder_changes_nothing_witness:
  "\<exists>e. renew demo_probe 1011 30 demo_lease demo_released = (Inl e, demo_released)"
  using stale_holder_changes_nothing[OF demo_not_held] by blast

definition demo_auth_row :: auth_row where
  "demo_auth_row = \<lparr>a_resource = Some (CText ''canonical_farm''), a_role = Some (CText ''farm''),
     a_owner = Some (CText ''o1''), a_exe = Some (CText ''python''), a_digest = Some (CText ''sha256:1''),
     a_fence = Some (CInt 1), a_expires = Some (CReal 1030), a_pid = Some (CInt 7),
     a_started = Some (CReal 100)\<rparr>"

theorem assess_green_sound_witness:
  "s_distinct (assess_canonical_farm_authority [demo_auth_row] demo_probe 1010 None Map.empty) = 1"
proof -
  have "s_green (assess_canonical_farm_authority [demo_auth_row] demo_probe 1010 None Map.empty)"
    by (simp add: assess_canonical_farm_authority_def assess_start_def assess_row_def parse_authority_row_def
        demo_auth_row_def identity_complete_def canonical_farm_authorities_def live_identity_def demo_defs Let_def)
  from assess_green_sound[OF this] show ?thesis by blast
qed

end
