(* ===== verification/Brain.thy ===== *)
theory Brain
  imports Fencing
begin

text \<open>
  The farm brain \<open>src/research_lab/farm_tasks_db.py\<close>: the table \<open>tasks\<close> with its audit log, the
  fencing triggers that guard it, and the operations of \<open>FarmTasksDB\<close> that create, claim, renew,
  move and requeue tasks.  The tables for materialization, intake and candidates are declared here
  and worked on in the theories that import this one.

  An operation takes the clock values its \<open>_effective_now\<close> calls observe, the state of the calling
  connection and the database, and returns the result or the raised exception with both states; a
  rolled back transaction returns the database it started from.
\<close>

section \<open>Rows\<close>

datatype task_state = Queued | Running | Deferred | Blocked | Completed | Skipped | Failed

text \<open>\<open>ACTIVE_STATES\<close> and \<open>TERMINAL_STATES\<close>.\<close>

fun active :: "task_state \<Rightarrow> bool" where
  "active Queued = True" | "active Running = True" | "active Deferred = True" | "active Blocked = True"
| "active _ = False"

fun terminal :: "task_state \<Rightarrow> bool" where
  "terminal Completed = True" | "terminal Skipped = True" | "terminal Failed = True"
| "terminal _ = False"

text \<open>
  A row of \<open>tasks\<close>.  The payload column holds JSON text; the model keeps the value the text decodes
  to, \<open>None\<close> for text that is not JSON.
\<close>

record task =
  t_id :: int
  t_key :: string
  t_type :: string
  t_state :: task_state
  t_priority :: int
  t_symbol :: "string option"
  t_group :: "string option"
  t_timeframe :: "string option"
  t_family :: "string option"
  t_params_hash :: "string option"
  t_fingerprint :: "string option"
  t_depends :: "int option"
  t_reason :: string
  t_deferred :: "time option"
  t_attempts :: int
  t_source_event :: "string option"
  t_job :: "int option"
  t_result_ref :: "string option"
  t_run_dir :: "string option"
  t_payload :: "json option"
  t_created :: time
  t_updated :: time
  t_owner :: "string option"
  t_expires :: "time option"
  t_fence :: int
  t_protocol :: string
  t_seq :: int

record transition =
  tr_task :: int
  tr_from :: task_state
  tr_to :: task_state
  tr_reason :: string
  tr_owner :: string
  tr_fence :: int
  tr_seq :: int
  tr_at :: time

datatype outbox_state = Pending | Dispatched | Superseded | Acknowledged | Ambiguous

record outbox_row =
  o_id :: string
  o_task :: int
  o_fence :: int
  o_path :: string
  o_digest :: string
  o_spec :: string
  o_priority :: int
  o_state :: outbox_state
  o_job :: "int option"
  o_created :: time
  o_updated :: time

record intake_row =
  i_id :: string
  i_symbol :: "string option"
  i_source :: "string option"
  i_reason :: "string option"
  i_observed :: "time option"
  i_priority :: int
  i_class :: "string option"
  i_timeframes :: json
  i_evidence :: json
  i_raw :: json
  i_ingested :: time
  i_consumed :: bool

record candidate_row =
  u_key :: string
  u_symbol :: "string option"
  u_timeframe :: "string option"
  u_family :: "string option"
  u_params_hash :: "string option"
  u_fingerprint :: "string option"
  u_decision :: "string option"
  u_validation :: "string option"
  u_hard :: "string option"
  u_trades :: int
  u_avg_net :: rat
  u_candidate :: "string option"
  u_run_dir :: "string option"
  u_params :: json
  u_task :: "int option"
  u_paper :: string
  u_regime :: string
  u_search_family :: string
  u_search_trial :: string
  u_trials :: int
  u_updated :: time

text \<open>Values of \<open>farm_meta\<close>: text, or the decimal text of an integer cursor.\<close>

datatype meta_value = MText string | MInt int

record brain =
  tasks :: "task list"
  next_task :: int
  meta :: "string \<Rightarrow> meta_value option"
  transitions :: "transition list"
  outbox :: "outbox_row list"
  events :: "intake_row list"
  candidates :: "candidate_row list"

text \<open>The attributes of one \<open>FarmTasksDB\<close> object the operations read and write.\<close>

record conn =
  c_owner :: string
  c_lease :: time
  c_floor :: time
  c_claims :: "int \<Rightarrow> int option"

abbreviation v2 :: string where
  "v2 \<equiv> ''fenced.v2''"

section \<open>The guarded table\<close>

definition get_task :: "int \<Rightarrow> brain \<Rightarrow> task option" where
  "get_task tid b = find (\<lambda>r. t_id r = tid) (tasks b)"

text \<open>The triggers \<open>tasks_fenced_v2_insert_guard\<close> and \<open>tasks_fenced_v2_guard\<close>.\<close>

definition insert_guard :: "task \<Rightarrow> bool" where
  "insert_guard r \<longleftrightarrow> t_protocol r = v2"

definition guarded_columns ::
  "task \<Rightarrow> task_state \<times> int \<times> string option \<times> time option \<times> int \<times> int option \<times> string option \<times> string option" where
  "guarded_columns r =
     (t_state r, t_attempts r, t_owner r, t_expires r, t_fence r, t_job r, t_result_ref r, t_run_dir r)"

definition update_guard :: "task \<Rightarrow> task \<Rightarrow> bool" where
  "update_guard old new \<longleftrightarrow>
     \<not> (guarded_columns new \<noteq> guarded_columns old \<and> (t_protocol new \<noteq> v2 \<or> t_seq new \<noteq> t_seq old + 1))"

text \<open>The partial unique index \<open>idx_tasks_active_key\<close>.\<close>

definition unique_active_keys :: "task list \<Rightarrow> bool" where
  "unique_active_keys rows \<longleftrightarrow> distinct (map t_key (filter (\<lambda>r. active (t_state r)) rows))"

definition update_tasks :: "(task \<Rightarrow> bool) \<Rightarrow> (task \<Rightarrow> task) \<Rightarrow> brain \<Rightarrow> exn + nat \<times> brain" where
  "update_tasks p f b =
     (if list_ex (\<lambda>r. p r \<and> \<not> update_guard r (f r)) (tasks b)
      then Inl (IntegrityError ''fenced v2 writer required'')
      else let rows = update_where p f (tasks b)
           in if unique_active_keys rows then Inr (rowcount p (tasks b), b\<lparr>tasks := rows\<rparr>)
              else Inl (IntegrityError ''UNIQUE constraint failed: tasks.task_key''))"

definition insert_task :: "task \<Rightarrow> brain \<Rightarrow> exn + int \<times> brain" where
  "insert_task r b =
     (let row = r\<lparr>t_id := next_task b\<rparr>
      in if \<not> insert_guard row then Inl (IntegrityError ''fenced v2 writer required'')
         else if \<not> unique_active_keys (tasks b @ [row])
         then Inl (IntegrityError ''UNIQUE constraint failed: tasks.task_key'')
         else Inr (next_task b, b\<lparr>tasks := tasks b @ [row], next_task := next_task b + 1\<rparr>))"

definition record_transition ::
  "int \<Rightarrow> task_state \<Rightarrow> task_state \<Rightarrow> string \<Rightarrow> time \<Rightarrow> string \<Rightarrow> int \<Rightarrow> int \<Rightarrow> brain \<Rightarrow> brain" where
  "record_transition tid from_state to_state reason now owner fence seq b =
     b\<lparr>transitions := transitions b @
         [\<lparr>tr_task = tid, tr_from = from_state, tr_to = to_state, tr_reason = reason, tr_owner = owner,
           tr_fence = fence, tr_seq = seq, tr_at = now\<rparr>]\<rparr>"

section \<open>Clock\<close>

definition effective_now :: "time \<Rightarrow> time option \<Rightarrow> conn \<Rightarrow> time \<times> conn" where
  "effective_now observed supplied c =
     (let t = clock_max (c_floor c) observed supplied in (t, c\<lparr>c_floor := t\<rparr>))"

section \<open>Creating tasks\<close>

record task_request =
  q_type :: string
  q_key :: string
  q_priority :: int
  q_symbol :: "string option"
  q_group :: "string option"
  q_timeframe :: "string option"
  q_family :: "string option"
  q_params_hash :: "string option"
  q_fingerprint :: "string option"
  q_depends :: "int option"
  q_source_event :: "string option"
  q_payload :: json
  q_state :: task_state
  q_reason :: string
  q_deferred :: "time option"
  q_ttl :: time

definition active_task_for :: "string \<Rightarrow> brain \<Rightarrow> task option" where
  "active_task_for key b = first_by t_id (filter (\<lambda>r. t_key r = key \<and> active (t_state r)) (tasks b))"

definition last_completed_for :: "string \<Rightarrow> brain \<Rightarrow> task option" where
  "last_completed_for key b =
     first_by (\<lambda>r. - t_updated r) (filter (\<lambda>r. t_key r = key \<and> t_state r = Completed) (tasks b))"

text \<open>An active task absorbs the request and takes its priority when that is more urgent.\<close>

definition absorb_request :: "task_request \<Rightarrow> time \<Rightarrow> task \<Rightarrow> brain \<Rightarrow> (exn + int \<times> bool) \<times> brain" where
  "absorb_request q now act b =
     (if q_priority q < t_priority act then
        (case update_tasks (\<lambda>r. t_id r = t_id act)
                (\<lambda>r. r\<lparr>t_priority := q_priority q,
                      t_source_event := (case q_source_event q of None \<Rightarrow> t_source_event r | Some e \<Rightarrow> Some e),
                      t_updated := now\<rparr>) b of
           Inl e \<Rightarrow> (Inl e, b)
         | Inr (_, b') \<Rightarrow> (Inr (t_id act, False), b'))
      else (Inr (t_id act, False), b))"

definition new_task :: "task_request \<Rightarrow> time \<Rightarrow> task" where
  "new_task q now =
     \<lparr>t_id = 0, t_key = q_key q, t_type = q_type q, t_state = q_state q, t_priority = q_priority q,
      t_symbol = q_symbol q, t_group = q_group q, t_timeframe = q_timeframe q, t_family = q_family q,
      t_params_hash = q_params_hash q, t_fingerprint = q_fingerprint q, t_depends = q_depends q,
      t_reason = q_reason q, t_deferred = q_deferred q, t_attempts = 0, t_source_event = q_source_event q,
      t_job = None, t_result_ref = None, t_run_dir = None,
      t_payload = Some (if truthy (q_payload q) then q_payload q else JObj []),
      t_created = now, t_updated = now, t_owner = None, t_expires = None, t_fence = 0,
      t_protocol = v2, t_seq = 0\<rparr>"

definition enqueue_task :: "task_request \<Rightarrow> time \<Rightarrow> brain \<Rightarrow> (exn + int \<times> bool) \<times> brain" where
  "enqueue_task q now b =
     (case active_task_for (q_key q) b of
        Some act \<Rightarrow> absorb_request q now act b
      | None \<Rightarrow>
          (case last_completed_for (q_key q) b of
             Some done \<Rightarrow>
               if now - t_updated done < q_ttl q then (Inr (t_id done, False), b)
               else (case insert_task (new_task q now) b of
                   Inr (tid, b') \<Rightarrow> (Inr (tid, True), b')
                 | Inl e \<Rightarrow> (case active_task_for (q_key q) b of
                       Some act \<Rightarrow> absorb_request q now act b
                     | None \<Rightarrow> (Inl e, b)))
           | None \<Rightarrow>
               (case insert_task (new_task q now) b of
                  Inr (tid, b') \<Rightarrow> (Inr (tid, True), b')
                | Inl e \<Rightarrow> (case active_task_for (q_key q) b of
                      Some act \<Rightarrow> absorb_request q now act b
                    | None \<Rightarrow> (Inl e, b)))))"

section \<open>Claiming\<close>

definition dependency_done :: "brain \<Rightarrow> task \<Rightarrow> bool" where
  "dependency_done b r =
     (case t_depends r of
        None \<Rightarrow> True
      | Some d \<Rightarrow> list_ex (\<lambda>x. t_id x = d \<and> t_state x = Completed) (tasks b))"

definition due :: "time \<Rightarrow> task \<Rightarrow> bool" where
  "due now r =
     (t_state r = Queued \<or>
      (t_state r = Deferred \<and> (case t_deferred r of None \<Rightarrow> False | Some t \<Rightarrow> t \<le> now)))"

definition eligible :: "brain \<Rightarrow> time \<Rightarrow> string list \<Rightarrow> task \<Rightarrow> bool" where
  "eligible b now types r =
     (due now r \<and> dependency_done b r \<and> (types = [] \<or> t_type r \<in> set types))"

definition eligible_count :: "time \<Rightarrow> string list \<Rightarrow> brain \<Rightarrow> nat" where
  "eligible_count now types b = rowcount (eligible b now types) (tasks b)"

record claim_request =
  k_types :: "string list"
  k_now :: "time option"
  k_minimum_created :: "time option"
  k_fairness :: "string option"
  k_window :: "time option"
  k_fresh_every :: int
  k_budget :: "string option"

definition budget_key :: "string \<Rightarrow> string" where
  "budget_key key = ''claim_budget:'' @ key"

definition fairness_key :: "string \<Rightarrow> string" where
  "fairness_key key = ''claim_fairness:'' @ key"

definition claim_fair :: "claim_request \<Rightarrow> bool" where
  "claim_fair k \<longleftrightarrow> k_fairness k \<noteq> None \<or> k_window k \<noteq> None"

definition claim_request_error :: "claim_request \<Rightarrow> exn option" where
  "claim_request_error k =
     (if claim_fair k then
        if str_or (k_fairness k) = [] \<or> k_window k = None
        then Some (ValueError ''fairness_key and freshness_window_seconds must be provided together'')
        else if or0 (k_window k) \<le> 0 \<or> k_fresh_every k < 2
        then Some (ValueError ''freshness_window_seconds must be positive and fresh_every at least 2'')
        else None
      else None)"

text \<open>The cursor of a lane, the number of its claims.  Only claims write the key, always a number; a text under
  it, which the code would refuse to convert, is read as no claim.\<close>

definition fairness_cursor :: "claim_request \<Rightarrow> brain \<Rightarrow> int" where
  "fairness_cursor k b =
     (case meta b (fairness_key (str_or (k_fairness k))) of Some (MInt n) \<Rightarrow> n | _ \<Rightarrow> 0)"

definition budget_spent :: "claim_request \<Rightarrow> brain \<Rightarrow> bool" where
  "budget_spent k b \<longleftrightarrow>
     str_or (k_budget k) \<noteq> [] \<and> meta b (budget_key (str_or (k_budget k))) = Some (MText ''used'')"

text \<open>The ORDER BY of the selection: in a fairness lane every \<open>fresh_every\<close>-th slot prefers tasks
  created inside the freshness window, the other slots prefer the older debt.\<close>

definition claim_order :: "claim_request \<Rightarrow> time \<Rightarrow> brain \<Rightarrow> task \<Rightarrow> int \<times> int \<times> time \<times> int" where
  "claim_order k now b r =
     (t_priority r,
      (if claim_fair k then
         let cutoff = now - or0 (k_window k);
             prefer_fresh = (fairness_cursor k b mod k_fresh_every k = 0)
         in if (if prefer_fresh then t_created r \<ge> cutoff else t_created r < cutoff) then 0 else 1
       else 0),
      t_created r, t_id r)"

definition claimable :: "claim_request \<Rightarrow> time \<Rightarrow> brain \<Rightarrow> task \<Rightarrow> bool" where
  "claimable k now b r =
     (eligible b now (k_types k) r \<and>
      (case k_minimum_created k of None \<Rightarrow> True | Some m \<Rightarrow> t_created r \<ge> m))"

text \<open>The due test of the selection is bound to the time read before the transaction began, the
  freshness cutoff and the new expiry to the time read inside it.\<close>

definition next_claim :: "claim_request \<Rightarrow> time \<Rightarrow> time \<Rightarrow> brain \<Rightarrow> task option" where
  "next_claim k now1 now2 b = first_by (claim_order k now2 b) (filter (claimable k now1 b) (tasks b))"

definition claim_meta :: "claim_request \<Rightarrow> brain \<Rightarrow> brain" where
  "claim_meta k b =
     (let cursor = fairness_cursor k b;
          m1 = (if claim_fair k then (meta b)(fairness_key (str_or (k_fairness k)) \<mapsto> MInt (cursor + 1)) else meta b);
          m2 = (if str_or (k_budget k) \<noteq> [] then m1(budget_key (str_or (k_budget k)) \<mapsto> MText ''used'') else m1)
      in b\<lparr>meta := m2\<rparr>)"

definition claim_next_task ::
  "time \<Rightarrow> time \<Rightarrow> claim_request \<Rightarrow> conn \<Rightarrow> brain \<Rightarrow> (exn + task option) \<times> conn \<times> brain" where
  "claim_next_task obs1 obs2 k c b =
     (let (now1, c1) = effective_now obs1 (k_now k) c
      in case claim_request_error k of
           Some e \<Rightarrow> (Inl e, c1, b)
         | None \<Rightarrow>
             let (now2, c2) = effective_now obs2 (Some now1) c1
             in if budget_spent k b then (Inr None, c2, b)
                else case next_claim k now1 now2 b of
                  None \<Rightarrow> (Inr None, c2, b)
                | Some row \<Rightarrow>
                    let fence = t_fence row + 1;
                        seq = t_seq row + 1
                    in case update_tasks
                          (\<lambda>r. t_id r = t_id row \<and> t_state r = t_state row \<and> t_owner r = None
                               \<and> t_fence r = t_fence row \<and> t_protocol r = v2 \<and> t_seq r = t_seq row)
                          (\<lambda>r. r\<lparr>t_state := Running, t_attempts := t_attempts r + 1, t_updated := now2,
                                t_owner := Some (c_owner c), t_expires := Some (now2 + c_lease c),
                                t_fence := fence, t_protocol := v2, t_seq := seq\<rparr>) b of
                        Inl e \<Rightarrow> (Inl e, c2, b)
                      | Inr (n, b1) \<Rightarrow>
                          if n \<noteq> 1 then (Inl (StaleTaskClaim ''task changed during claim''), c2, b)
                          else
                            let b2 = record_transition (t_id row) (t_state row) Running ''claimed'' now2
                                       (c_owner c) fence seq b1;
                                b3 = claim_meta k b2
                            in (Inr (get_task (t_id row) b3),
                                c2\<lparr>c_claims := (c_claims c2)(t_id row \<mapsto> fence)\<rparr>, b3))"

definition reset_claim_budget :: "string \<Rightarrow> brain \<Rightarrow> bool \<times> brain" where
  "reset_claim_budget key b =
     (meta b (budget_key key) \<noteq> None, b\<lparr>meta := (meta b)(budget_key key := None)\<rparr>)"

section \<open>Moving tasks\<close>

text \<open>The extra columns \<open>_set_state\<close> is asked to write.\<close>

datatype task_field =
    F_result_ref "string option"
  | F_run_dir "string option"
  | F_job "int option"
  | F_deferred "time option"

fun set_field :: "task_field \<Rightarrow> task \<Rightarrow> task" where
  "set_field (F_result_ref v) r = r\<lparr>t_result_ref := v\<rparr>"
| "set_field (F_run_dir v) r = r\<lparr>t_run_dir := v\<rparr>"
| "set_field (F_job v) r = r\<lparr>t_job := v\<rparr>"
| "set_field (F_deferred v) r = r\<lparr>t_deferred := v\<rparr>"

text \<open>The connection holds the claim of a row: owner, cached fence and expiry all match.\<close>

definition holds_claim :: "conn \<Rightarrow> time \<Rightarrow> task \<Rightarrow> bool" where
  "holds_claim c now r \<longleftrightarrow>
     t_owner r = Some (c_owner c) \<and> c_claims c (t_id r) = Some (t_fence r) \<and> now < or0 (t_expires r)"

text \<open>\<open>_set_state\<close> reads and checks the row outside a transaction, then compares and swaps.\<close>

definition set_state_read ::
  "time \<Rightarrow> time option \<Rightarrow> int \<Rightarrow> task_state \<Rightarrow> conn \<Rightarrow> brain \<Rightarrow> (exn + time \<times> task) \<times> conn" where
  "set_state_read obs now tid state c b =
     (let (t, c1) = effective_now obs now c
      in case get_task tid b of
           None \<Rightarrow> (Inl (KeyError ''unknown task''), c1)
         | Some row \<Rightarrow>
             if t_owner row = None \<and> (t_state row = Running \<or> state = Running)
             then (Inl (StaleTaskClaim ''running transition requires a fenced claim''), c1)
             else if t_owner row \<noteq> None \<and> \<not> holds_claim c1 t row
             then (Inl (StaleTaskClaim ''stale claim for task''), c1)
             else (Inr (t, row), c1))"

definition claim_owner_or_self :: "conn \<Rightarrow> task \<Rightarrow> string" where
  "claim_owner_or_self c row = (if str_or (t_owner row) = [] then c_owner c else str_or (t_owner row))"

definition set_state_commit ::
  "time \<Rightarrow> time \<Rightarrow> task \<Rightarrow> task_state \<Rightarrow> string \<Rightarrow> task_field list \<Rightarrow> conn \<Rightarrow> brain
     \<Rightarrow> (exn + unit) \<times> conn \<times> brain" where
  "set_state_commit obs t row state reason cols c b =
     (let (now, c1) = effective_now obs (Some t) c;
          tid = t_id row;
          seq = t_seq row + 1;
          pred = (\<lambda>r. t_id r = tid \<and> t_state r = t_state row \<and> t_fence r = t_fence row
                     \<and> t_protocol r = v2 \<and> t_seq r = t_seq row
                     \<and> (if t_owner row = None then t_owner r = None
                        else t_owner r = Some (c_owner c)
                             \<and> (case t_expires r of None \<Rightarrow> False | Some e \<Rightarrow> e > now)));
          upd = (\<lambda>r. let r1 = r\<lparr>t_state := state, t_reason := reason, t_updated := now,
                                t_protocol := v2, t_seq := seq\<rparr>;
                         r2 = fold set_field cols r1
                     in if state \<noteq> Running then r2\<lparr>t_owner := None, t_expires := None\<rparr> else r2)
      in case update_tasks pred upd b of
           Inl e \<Rightarrow> (Inl e, c1, b)
         | Inr (n, b1) \<Rightarrow>
             if n \<noteq> 1 then (Inl (StaleTaskClaim ''task changed during transition''), c1, b)
             else (Inr (),
                   (if state \<noteq> Running then c1\<lparr>c_claims := (c_claims c1)(tid := None)\<rparr> else c1),
                   record_transition tid (t_state row) state reason now (claim_owner_or_self c row)
                     (t_fence row) seq b1))"

definition set_state ::
  "time \<Rightarrow> time \<Rightarrow> time option \<Rightarrow> int \<Rightarrow> task_state \<Rightarrow> string \<Rightarrow> task_field list \<Rightarrow> conn \<Rightarrow> brain
     \<Rightarrow> (exn + unit) \<times> conn \<times> brain" where
  "set_state obs1 obs2 now tid state reason cols c b =
     (case set_state_read obs1 now tid state c b of
        (Inl e, c1) \<Rightarrow> (Inl e, c1, b)
      | (Inr (t, row), c1) \<Rightarrow> set_state_commit obs2 t row state reason cols c1 b)"

definition complete_task ::
  "time \<Rightarrow> time \<Rightarrow> time option \<Rightarrow> int \<Rightarrow> string option \<Rightarrow> string option \<Rightarrow> int option \<Rightarrow> string
     \<Rightarrow> conn \<Rightarrow> brain \<Rightarrow> (exn + unit) \<times> conn \<times> brain" where
  "complete_task obs1 obs2 now tid result_ref run_dir job reason c b =
     set_state obs1 obs2 now tid Completed reason [F_result_ref result_ref, F_run_dir run_dir, F_job job] c b"

definition skip_task ::
  "time \<Rightarrow> time \<Rightarrow> time option \<Rightarrow> int \<Rightarrow> string \<Rightarrow> conn \<Rightarrow> brain \<Rightarrow> (exn + unit) \<times> conn \<times> brain" where
  "skip_task obs1 obs2 now tid reason c b = set_state obs1 obs2 now tid Skipped reason [] c b"

definition block_task ::
  "time \<Rightarrow> time \<Rightarrow> time option \<Rightarrow> int \<Rightarrow> string \<Rightarrow> conn \<Rightarrow> brain \<Rightarrow> (exn + unit) \<times> conn \<times> brain" where
  "block_task obs1 obs2 now tid reason c b = set_state obs1 obs2 now tid Blocked reason [] c b"

definition fail_task ::
  "time \<Rightarrow> time \<Rightarrow> time option \<Rightarrow> int \<Rightarrow> string \<Rightarrow> conn \<Rightarrow> brain \<Rightarrow> (exn + unit) \<times> conn \<times> brain" where
  "fail_task obs1 obs2 now tid err c b = set_state obs1 obs2 now tid Failed (take 500 err) [] c b"

definition defer_task ::
  "time \<Rightarrow> time \<Rightarrow> time option \<Rightarrow> int \<Rightarrow> time \<Rightarrow> string \<Rightarrow> conn \<Rightarrow> brain \<Rightarrow> (exn + unit) \<times> conn \<times> brain" where
  "defer_task obs1 obs2 now tid until reason c b =
     set_state obs1 obs2 now tid Deferred reason [F_deferred (Some until)] c b"

definition requeue_task ::
  "time \<Rightarrow> time \<Rightarrow> time option \<Rightarrow> int \<Rightarrow> string \<Rightarrow> conn \<Rightarrow> brain \<Rightarrow> (exn + unit) \<times> conn \<times> brain" where
  "requeue_task obs1 obs2 now tid reason c b =
     set_state obs1 obs2 now tid Queued reason [F_deferred None] c b"

definition materialize_task ::
  "time \<Rightarrow> time \<Rightarrow> time option \<Rightarrow> int \<Rightarrow> int \<Rightarrow> conn \<Rightarrow> brain \<Rightarrow> (exn + unit) \<times> conn \<times> brain" where
  "materialize_task obs1 obs2 now tid job c b =
     (case get_task tid b of
        None \<Rightarrow> (Inl (StaleTaskClaim ''materialization requires a fenced claim''), c, b)
      | Some row \<Rightarrow>
          if t_state row \<noteq> Running \<or> t_owner row = None
          then (Inl (StaleTaskClaim ''materialization requires a fenced claim''), c, b)
          else set_state obs1 obs2 now tid Deferred ''materialized_awaiting_worker''
                 [F_deferred None, F_job (Some job)] c b)"

section \<open>Renewing claims\<close>

definition claim_row :: "conn \<Rightarrow> int \<Rightarrow> int \<Rightarrow> task \<Rightarrow> bool" where
  "claim_row c tid fence r \<longleftrightarrow>
     t_id r = tid \<and> t_state r = Running \<and> t_owner r = Some (c_owner c) \<and> t_fence r = fence
     \<and> t_protocol r = v2"

definition expires_after :: "time \<Rightarrow> task \<Rightarrow> bool" where
  "expires_after now r = (case t_expires r of None \<Rightarrow> False | Some e \<Rightarrow> e > now)"

definition assert_task_claim ::
  "time \<Rightarrow> time option \<Rightarrow> int \<Rightarrow> int \<Rightarrow> conn \<Rightarrow> brain \<Rightarrow> (exn + task) \<times> conn" where
  "assert_task_claim obs now tid fence c b =
     (let (t, c1) = effective_now obs now c
      in case find (\<lambda>r. claim_row c tid fence r \<and> expires_after t r) (tasks b) of
           None \<Rightarrow> (Inl (StaleTaskClaim ''stale claim for task''), c1)
         | Some r \<Rightarrow> (Inr r, c1))"

text \<open>\<open>float(lease_seconds or self.lease_seconds)\<close>: zero falls back to the connection's lease.\<close>

definition lease_or_default :: "time option \<Rightarrow> conn \<Rightarrow> time" where
  "lease_or_default secs c = (if or0 secs = 0 then c_lease c else or0 secs)"

definition renew_task_claim_token ::
  "time \<Rightarrow> time \<Rightarrow> time option \<Rightarrow> int \<Rightarrow> int \<Rightarrow> time option \<Rightarrow> conn \<Rightarrow> brain \<Rightarrow> (exn + time) \<times> conn \<times> brain" where
  "renew_task_claim_token obs1 obs2 now tid fence secs c b =
     (let duration = lease_or_default secs c
      in if duration \<le> 0 then (Inl (ValueError ''lease_seconds must be positive''), c, b)
         else
           let (t1, c1) = effective_now obs1 now c;
               (t, c2) = effective_now obs2 (Some t1) c1
           in case find (claim_row c tid fence) (tasks b) of
                None \<Rightarrow> (Inl (StaleTaskClaim ''stale claim for task''), c2, b)
              | Some row \<Rightarrow>
                  if or0 (t_expires row) \<le> t
                  then (Inl (StaleTaskClaim ''stale claim for task''), c2, b)
                  else
                    let expires = t + duration
                    in case update_tasks
                         (\<lambda>r. claim_row c tid fence r \<and> expires_after t r \<and> t_seq r = t_seq row)
                         (\<lambda>r. r\<lparr>t_expires := Some expires, t_updated := t, t_protocol := v2, t_seq := t_seq r + 1\<rparr>) b of
                       Inl e \<Rightarrow> (Inl e, c2, b)
                     | Inr (n, b1) \<Rightarrow>
                         if n \<noteq> 1 then (Inl (StaleTaskClaim ''task changed during renewal''), c2, b)
                         else (Inr expires, c2, b1))"

definition renew_task_claim ::
  "time \<Rightarrow> time \<Rightarrow> time option \<Rightarrow> int \<Rightarrow> time option \<Rightarrow> conn \<Rightarrow> brain \<Rightarrow> (exn + time) \<times> conn \<times> brain" where
  "renew_task_claim obs1 obs2 now tid secs c b =
     (case c_claims c tid of
        None \<Rightarrow> (Inl (StaleTaskClaim ''stale claim for task''), c, b)
      | Some fence \<Rightarrow> renew_task_claim_token obs1 obs2 now tid fence secs c b)"

section \<open>Requeueing expired claims\<close>

definition orphan :: "time \<Rightarrow> task \<Rightarrow> bool" where
  "orphan now r \<longleftrightarrow>
     t_state r = Running \<and> t_protocol r = v2 \<and> t_owner r \<noteq> None
     \<and> (case t_expires r of None \<Rightarrow> False | Some e \<Rightarrow> e \<le> now)"

text \<open>The loop of \<open>reconcile_orphan_running\<close> over the selected rows.\<close>

fun requeue_orphans ::
  "string \<Rightarrow> time \<Rightarrow> task list \<Rightarrow> nat \<Rightarrow> conn \<Rightarrow> brain \<Rightarrow> (exn + nat) \<times> conn \<times> brain" where
  "requeue_orphans reason now [] n c b = (Inr n, c, b)"
| "requeue_orphans reason now (row # rows) n c b =
     (case update_tasks
          (\<lambda>r. t_id r = t_id row \<and> t_state r = Running \<and> t_owner r = t_owner row \<and> t_fence r = t_fence row
               \<and> (case t_expires r of None \<Rightarrow> False | Some e \<Rightarrow> e \<le> now)
               \<and> t_protocol r = v2 \<and> t_seq r = t_seq row)
          (\<lambda>r. r\<lparr>t_state := Queued, t_reason := reason, t_updated := now, t_owner := None, t_expires := None,
                t_protocol := v2, t_seq := t_seq row + 1\<rparr>) b of
        Inl e \<Rightarrow> (Inl e, c, b)
      | Inr (k, b1) \<Rightarrow>
          if k \<noteq> 1 then requeue_orphans reason now rows n c b1
          else requeue_orphans reason now rows (Suc n) (c\<lparr>c_claims := (c_claims c)(t_id row := None)\<rparr>)
                 (record_transition (t_id row) Running Queued reason now (str_or (t_owner row))
                    (t_fence row) (t_seq row + 1) b1))"

text \<open>An exception rolls the whole transaction back; claims already dropped stay dropped.\<close>

definition reconcile_orphan_running ::
  "time \<Rightarrow> time \<Rightarrow> time option \<Rightarrow> string \<Rightarrow> conn \<Rightarrow> brain \<Rightarrow> (exn + nat) \<times> conn \<times> brain" where
  "reconcile_orphan_running obs1 obs2 now reason c b =
     (let (t1, c1) = effective_now obs1 now c;
          (t, c2) = effective_now obs2 (Some t1) c1
      in case requeue_orphans reason t (filter (orphan t) (tasks b)) 0 c2 b of
           (Inl e, c3, _) \<Rightarrow> (Inl e, c3, b)
         | (Inr n, c3, b') \<Rightarrow> (Inr n, c3, b'))"

section \<open>Reading tasks\<close>

definition tasks_in_state :: "task_state \<Rightarrow> string option \<Rightarrow> brain \<Rightarrow> task list" where
  "tasks_in_state state type b =
     sort_key t_id (filter (\<lambda>r. t_state r = state \<and> (str_or type = [] \<or> t_type r = str_or type)) (tasks b))"

end
