(* ===== verification/Brain_Rows.thy ===== *)
theory Brain_Rows
  imports Brain
begin

text \<open>
  How the rows of \<open>tasks\<close> may change, once for every operation: the evolution relation that the
  fencing and the compare-and-swap arguments need, the well-formedness of the database, and the
  lemmas that carry a guarded update (with its audit record) through both.
\<close>

section \<open>Evolution of rows\<close>

text \<open>What every update of a row keeps: identity columns, growing fence and sequence, guarded
  columns frozen while the sequence stands still, and a new holder only at a larger fence.\<close>

definition task_step :: "task \<Rightarrow> task \<Rightarrow> bool" where
  "task_step r r' \<longleftrightarrow>
     t_id r' = t_id r \<and> t_key r' = t_key r \<and> t_type r' = t_type r \<and> t_created r' = t_created r \<and>
     fenced_step t_fence t_seq t_owner guarded_columns r r'"

abbreviation fresh_row :: "task \<Rightarrow> bool" where
  "fresh_row \<equiv> fresh_fence t_fence t_owner"

definition brain_evolves :: "brain \<Rightarrow> brain \<Rightarrow> bool" where
  "brain_evolves b b' \<longleftrightarrow> rows_evolve task_step fresh_row (tasks b) (tasks b')"

lemma task_step_iff:
  "task_step r r' \<longleftrightarrow>
     t_id r' = t_id r \<and> t_key r' = t_key r \<and> t_type r' = t_type r \<and> t_created r' = t_created r \<and>
     t_fence r \<le> t_fence r' \<and> t_seq r \<le> t_seq r' \<and>
     (t_seq r' = t_seq r \<longrightarrow> guarded_columns r' = guarded_columns r) \<and>
     (\<forall>h. t_owner r' = Some h \<longrightarrow> (t_owner r = Some h \<and> t_fence r' = t_fence r) \<or> t_fence r < t_fence r')"
  by (simp add: task_step_def fenced_step_def)

interpretation task_rows: row_evolution t_id task_step fresh_row
proof
  show "task_step r1 r3" if "task_step r1 r2" "task_step r2 r3" for r1 r2 r3
    using that fenced_step_trans[of t_fence t_seq t_owner guarded_columns r1 r2 r3] by (simp add: task_step_def)
  show "fresh_row r'" if "fresh_row r" "task_step r r'" for r r'
    using that fresh_fence_step by (auto simp: task_step_def)
qed (simp_all add: task_step_def)

lemma brain_evolves_tasks: "tasks b' = tasks b \<Longrightarrow> brain_evolves b b'"
  by (simp add: brain_evolves_def task_rows.evolve_refl)

lemma brain_evolves_refl [simp]: "brain_evolves b b"
  by (simp add: brain_evolves_tasks)

lemma brain_evolves_cong: "tasks b2 = tasks b1 \<Longrightarrow> brain_evolves b b1 \<Longrightarrow> brain_evolves b b2"
  by (simp add: brain_evolves_def)

lemma brain_evolves_trans: "brain_evolves b1 b2 \<Longrightarrow> brain_evolves b2 b3 \<Longrightarrow> brain_evolves b1 b3"
  unfolding brain_evolves_def by (rule task_rows.evolve_trans)

section \<open>Guarded updates\<close>

lemma update_tasks_InrD:
  assumes "update_tasks p f b = Inr (n, b')"
  shows "b' = b\<lparr>tasks := update_where p f (tasks b)\<rparr>" and "n = rowcount p (tasks b)"
    and "unique_active_keys (tasks b')" and "r \<in> set (tasks b) \<Longrightarrow> p r \<Longrightarrow> update_guard r (f r)"
  using assms by (auto simp: update_tasks_def Let_def list_ex_iff split: if_splits)

lemma update_tasks_evolves:
  assumes "update_tasks p f b = Inr (n, b')" and "\<And>r. p r \<Longrightarrow> task_step r (f r)"
  shows "brain_evolves b b'"
  unfolding brain_evolves_def update_tasks_InrD(1)[OF assms(1)]
  using task_rows.update_evolves[of "tasks b" p f] assms(2) by simp

lemma insert_task_InrD:
  assumes "insert_task r b = Inr (tid, b')"
  shows "tid = next_task b" and "t_protocol r = v2"
    and "b' = b\<lparr>tasks := tasks b @ [r\<lparr>t_id := tid\<rparr>], next_task := tid + 1\<rparr>"
    and "unique_active_keys (tasks b')"
  using assms by (auto simp: insert_task_def insert_guard_def Let_def split: if_splits)

lemma insert_task_evolves:
  assumes "insert_task r b = Inr (tid, b')" and "t_fence r = 0" and "t_owner r = None"
  shows "brain_evolves b b'"
  unfolding brain_evolves_def insert_task_InrD(3)[OF assms(1)]
  using task_rows.append_evolves[of "r\<lparr>t_id := tid\<rparr>" "tasks b"] assms(2,3) by (simp add: fresh_fence_def)

lemma record_transition_simps [simp]:
  "tasks (record_transition tid s s' reason now ow f q b) = tasks b"
  "next_task (record_transition tid s s' reason now ow f q b) = next_task b"
  "meta (record_transition tid s s' reason now ow f q b) = meta b"
  "outbox (record_transition tid s s' reason now ow f q b) = outbox b"
  "events (record_transition tid s s' reason now ow f q b) = events b"
  "candidates (record_transition tid s s' reason now ow f q b) = candidates b"
  by (simp_all add: record_transition_def)

section \<open>The audit log\<close>

text \<open>The states a task passes through according to the log, from the state it was created in;
  \<open>None\<close> where a record does not start in the state the previous one left.\<close>

fun replay :: "int \<Rightarrow> task_state \<Rightarrow> transition list \<Rightarrow> task_state option" where
  "replay tid s [] = Some s"
| "replay tid s (tr # trs) =
     (if tr_task tr \<noteq> tid then replay tid s trs
      else if tr_from tr = s then replay tid (tr_to tr) trs else None)"

lemma replay_append:
  "replay tid s (xs @ ys) = (case replay tid s xs of None \<Rightarrow> None | Some s' \<Rightarrow> replay tid s' ys)"
  by (induction xs arbitrary: s) auto

lemma replay_foreign: "(\<forall>tr \<in> set trs. tr_task tr \<noteq> tid) \<Longrightarrow> replay tid s trs = Some s"
  by (induction trs) auto

definition audit_ok :: "brain \<Rightarrow> bool" where
  "audit_ok b \<longleftrightarrow>
     (\<forall>r \<in> set (tasks b). \<exists>s0. replay (t_id r) s0 (transitions b) = Some (t_state r)) \<and>
     (\<forall>tr \<in> set (transitions b). tr_task tr < next_task b)"

section \<open>Well-formed databases\<close>

definition row_ok :: "task \<Rightarrow> bool" where
  "row_ok r \<longleftrightarrow>
     (t_owner r \<noteq> None \<longrightarrow> t_state r = Running \<and> t_expires r \<noteq> None) \<and>
     (t_owner r = None \<longrightarrow> t_expires r = None) \<and> t_protocol r = v2"

definition brain_ok :: "brain \<Rightarrow> bool" where
  "brain_ok b \<longleftrightarrow>
     distinct (map t_id (tasks b)) \<and> (\<forall>r \<in> set (tasks b). t_id r < next_task b) \<and>
     unique_active_keys (tasks b) \<and> (\<forall>r \<in> set (tasks b). row_ok r) \<and> audit_ok b"

lemma brain_ok_cong:
  "tasks b' = tasks b \<Longrightarrow> next_task b' = next_task b \<Longrightarrow> transitions b' = transitions b \<Longrightarrow>
     brain_ok b' = brain_ok b"
  by (simp add: brain_ok_def audit_ok_def)

lemma brain_ok_other [simp]:
  "brain_ok (b\<lparr>meta := x1\<rparr>) = brain_ok b"
  "brain_ok (b\<lparr>outbox := x2\<rparr>) = brain_ok b"
  "brain_ok (b\<lparr>events := x3\<rparr>) = brain_ok b"
  "brain_ok (b\<lparr>candidates := x4\<rparr>) = brain_ok b"
  by (simp_all cong: brain_ok_cong add: brain_ok_def audit_ok_def)

lemma brain_okD:
  assumes "brain_ok b"
  shows "distinct (map t_id (tasks b))" and "r \<in> set (tasks b) \<Longrightarrow> t_id r < next_task b"
    and "unique_active_keys (tasks b)" and "r \<in> set (tasks b) \<Longrightarrow> row_ok r" and "audit_ok b"
  using assms by (auto simp: brain_ok_def)

lemma get_task_mem: "get_task k b = Some r \<Longrightarrow> r \<in> set (tasks b) \<and> t_id r = k"
  by (auto simp: get_task_def dest: find_SomeD)

lemma get_task_iff: "brain_ok b \<Longrightarrow> get_task k b = Some r \<longleftrightarrow> r \<in> set (tasks b) \<and> t_id r = k"
  unfolding get_task_def by (rule find_key_iff) (rule brain_okD)

lemma get_task_update:
  assumes "update_tasks p f b = Inr (n, b')" and "\<And>r. t_id (f r) = t_id r"
  shows "get_task k b' = map_option (\<lambda>r. if p r then f r else r) (get_task k b)"
  using update_tasks_InrD(1)[OF assms(1)] by (simp add: get_task_def find_update_where assms(2))

text \<open>The shape every compare-and-swap has: it selects one id in one state and keeps rows well formed.\<close>

definition cas_shape :: "(task \<Rightarrow> bool) \<Rightarrow> (task \<Rightarrow> task) \<Rightarrow> int \<Rightarrow> task_state \<Rightarrow> task_state \<Rightarrow> bool" where
  "cas_shape p f tid s s' \<longleftrightarrow>
     (\<forall>r. t_id (f r) = t_id r) \<and>
     (\<forall>r. p r \<longrightarrow> t_id r = tid \<and> t_state r = s \<and> t_state (f r) = s' \<and> task_step r (f r) \<and>
        (row_ok r \<longrightarrow> row_ok (f r)))"

lemma cas_shapeI:
  assumes "\<And>r. t_id (f r) = t_id r"
    and "\<And>r. p r \<Longrightarrow> t_id r = tid \<and> t_state r = s \<and> t_state (f r) = s'"
    and "\<And>r. p r \<Longrightarrow> task_step r (f r)"
    and "\<And>r. p r \<Longrightarrow> row_ok r \<Longrightarrow> row_ok (f r)"
  shows "cas_shape p f tid s s'"
  using assms by (auto simp: cas_shape_def)

lemma rows_ok_update:
  assumes "brain_ok b" and "\<And>r. t_id (f r) = t_id r" and "\<And>r. p r \<Longrightarrow> row_ok r \<Longrightarrow> row_ok (f r)"
    and "update_tasks p f b = Inr (n, b')"
  shows "distinct (map t_id (tasks b'))" and "\<forall>r \<in> set (tasks b'). t_id r < next_task b'"
    and "unique_active_keys (tasks b')" and "\<forall>r \<in> set (tasks b'). row_ok r"
  using assms(2,3) brain_okD[OF assms(1)] update_tasks_InrD[OF assms(4)]
  by (auto simp: map_key_update_where set_update_where)

lemma logged_update_ok:
  assumes ok: "brain_ok b" and upd: "update_tasks p f b = Inr (n, b1)" and "n = 1"
    and shape: "cas_shape p f tid s s'"
  shows "brain_ok (record_transition tid s s' reason now ow fence seq b1)"
proof -
  let ?b2 = "record_transition tid s s' reason now ow fence seq b1"
  have ids: "\<And>r. t_id (f r) = t_id r" using shape by (simp add: cas_shape_def)
  note U = update_tasks_InrD[OF upd]
  have b1: "tasks b1 = update_where p f (tasks b)" "transitions b1 = transitions b" "next_task b1 = next_task b"
    using U(1) by simp_all
  obtain r0 where r0: "r0 \<in> set (tasks b)" "p r0"
    using U(2) \<open>n = 1\<close> rowcount_1_ex[of p "tasks b"] by auto
  then have r0': "t_id r0 = tid" "t_state r0 = s" using shape by (auto simp: cas_shape_def)
  have hit: "r = r0" if "r \<in> set (tasks b)" "t_id r = tid" for r
    using brain_okD(1)[OF ok] that r0(1) r0'(1) by (auto dest: distinct_map[THEN iffD1] inj_onD)
  have "\<exists>s0. replay (t_id r) s0 (transitions ?b2) = Some (t_state r)" if mem: "r \<in> set (tasks b1)" for r
  proof -
    obtain q where q: "q \<in> set (tasks b)" "r = (if p q then f q else q)"
      using mem unfolding b1(1) set_update_where by blast
    obtain s0 where s0: "replay (t_id q) s0 (transitions b) = Some (t_state q)"
      using brain_okD(5)[OF ok] q(1) by (auto simp: audit_ok_def)
    have "t_id r = t_id q" using q(2) ids by auto
    show ?thesis
    proof (cases "t_id q = tid")
      case True
      then have "q = r0" using hit q(1) by blast
      then have "t_state r = s'" using q(2) r0(2) shape by (auto simp: cas_shape_def)
      with s0 True \<open>q = r0\<close> r0' \<open>t_id r = t_id q\<close> show ?thesis
        by (auto simp: record_transition_def replay_append b1 intro!: exI[of _ s0])
    next
      case False
      then have "\<not> p q" using shape by (auto simp: cas_shape_def)
      with s0 False q(2) show ?thesis
        by (auto simp: record_transition_def replay_append b1 intro!: exI[of _ s0])
    qed
  qed
  moreover have "\<forall>tr \<in> set (transitions ?b2). tr_task tr < next_task b1"
    using brain_okD(2,5)[OF ok] r0(1) r0'(1) by (auto simp: record_transition_def audit_ok_def b1)
  moreover have "\<And>r. p r \<Longrightarrow> row_ok r \<Longrightarrow> row_ok (f r)"
    using shape by (auto simp: cas_shape_def)
  ultimately show ?thesis
    using rows_ok_update[OF ok ids _ upd] by (simp add: brain_ok_def audit_ok_def)
qed

lemma logged_update_evolves:
  assumes "update_tasks p f b = Inr (n, b1)" and "cas_shape p f tid s s'"
  shows "brain_evolves b (record_transition tid s s' reason now ow fence seq b1)"
  by (rule brain_evolves_cong[OF record_transition_simps(1)], rule update_tasks_evolves[OF assms(1)])
     (use assms(2) in \<open>auto simp: cas_shape_def\<close>)

text \<open>An update that moves no state needs no audit record.\<close>

lemma silent_update_ok:
  assumes ok: "brain_ok b" and upd: "update_tasks p f b = Inr (n, b1)"
    and "\<And>r. t_id (f r) = t_id r" and st: "\<And>r. p r \<Longrightarrow> t_state (f r) = t_state r"
    and "\<And>r. p r \<Longrightarrow> row_ok r \<Longrightarrow> row_ok (f r)"
  shows "brain_ok b1"
proof -
  note U = update_tasks_InrD(1)[OF upd]
  have "audit_ok b1"
    using brain_okD(5)[OF ok] assms(3) st by (auto simp: audit_ok_def U set_update_where)
  then show ?thesis
    using rows_ok_update[OF ok assms(3) assms(5) upd] by (simp add: brain_ok_def)
qed

lemma insert_task_ok:
  assumes ok: "brain_ok b" and ins: "insert_task r b = Inr (tid, b')" and "row_ok r"
  shows "brain_ok b'"
proof -
  note I = insert_task_InrD[OF ins]
  have "\<forall>tr \<in> set (transitions b). tr_task tr \<noteq> next_task b"
    using brain_okD(5)[OF ok] by (auto simp: audit_ok_def)
  then have "replay (next_task b) (t_state r) (transitions b) = Some (t_state r)"
    by (rule replay_foreign)
  moreover have "\<forall>tr \<in> set (transitions b). tr_task tr < next_task b + 1"
    using brain_okD(5)[OF ok] by (auto simp: audit_ok_def)
  moreover have "row_ok (r\<lparr>t_id := tid\<rparr>)" using assms(3) by (simp add: row_ok_def)
  ultimately show ?thesis
    using brain_okD[OF ok] I by (fastforce simp: brain_ok_def audit_ok_def)
qed

text \<open>With distinct ids a compare-and-swap on an id touches one row or none.\<close>

lemma update_tasks_id_count:
  assumes "brain_ok b" and "update_tasks (\<lambda>r. t_id r = tid \<and> q r) f b = Inr (n, b')"
  shows "n = (case get_task tid b of None \<Rightarrow> 0 | Some r \<Rightarrow> if q r then 1 else 0)"
  using update_tasks_InrD(2)[OF assms(2)] rowcount_key[OF brain_okD(1)[OF assms(1)], of tid q]
  by (simp add: get_task_def)

section \<open>Compare-and-swaps that succeed\<close>

lemma active_keys_update:
  assumes "\<And>r. p r \<Longrightarrow> t_key (f r) = t_key r \<and> (active (t_state (f r)) \<longrightarrow> active (t_state r))"
    and "unique_active_keys rows"
  shows "unique_active_keys (update_where p f rows)"
  using distinct_index_update[of p t_key f "\<lambda>r. active (t_state r)" rows] assms by (simp add: unique_active_keys_def)

text \<open>A guarded update that leaves keys alone and wakes no terminal row is accepted.\<close>

lemma update_tasks_accepts:
  assumes "unique_active_keys (tasks b)" and "\<And>r. r \<in> set (tasks b) \<Longrightarrow> p r \<Longrightarrow> update_guard r (f r)"
    and "\<And>r. p r \<Longrightarrow> t_key (f r) = t_key r \<and> (active (t_state (f r)) \<longrightarrow> active (t_state r))"
  shows "update_tasks p f b = Inr (rowcount p (tasks b), b\<lparr>tasks := update_where p f (tasks b)\<rparr>)"
  using assms(2) active_keys_update[of p f, OF assms(3,1)] by (auto simp: update_tasks_def Let_def list_ex_iff)

lemma update_tasks_hit:
  assumes ok: "brain_ok b" and row: "get_task tid b = Some row" and "p row"
    and id: "\<And>r. p r \<Longrightarrow> t_id r = tid" and "update_guard row (f row)"
    and "t_key (f row) = t_key row" and "active (t_state (f row)) \<Longrightarrow> active (t_state row)"
  shows "update_tasks p f b = Inr (1, b\<lparr>tasks := update_where p f (tasks b)\<rparr>)"
proof -
  note S = update_where_single[where key = t_id and p = p, OF brain_okD(1)[OF ok] row[unfolded get_task_def] \<open>p row\<close> id]
  have "update_where p f (tasks b) = update_where (\<lambda>r. r = row) f (tasks b)" by (rule S(2))
  then have "unique_active_keys (update_where p f (tasks b))"
    using active_keys_update[of "\<lambda>r. r = row" f, OF _ brain_okD(3)[OF ok]] assms(6,7) by auto
  moreover have "\<not> list_ex (\<lambda>r. p r \<and> \<not> update_guard r (f r)) (tasks b)"
    using S(3) assms(5) by (auto simp: list_ex_iff)
  ultimately show ?thesis using S(1) by (simp add: update_tasks_def)
qed

lemma update_tasks_no_hit:
  assumes "brain_ok b" and "\<And>r. r \<in> set (tasks b) \<Longrightarrow> \<not> p r"
  shows "update_tasks p f b = Inr (0, b)"
proof -
  have "rowcount p (tasks b) = 0" using assms(2) by (simp add: rowcount_0)
  then show ?thesis
    using assms(2) brain_okD(3)[OF assms(1)] rowcount_0_update[of p "tasks b" f]
    by (auto simp: update_tasks_def list_ex_iff)
qed

lemma get_task_record [simp]: "get_task k (record_transition tid s s' reason now ow f q b) = get_task k b"
  by (simp add: get_task_def)

lemma get_task_tables [simp]:
  "get_task k (b\<lparr>meta := x1\<rparr>) = get_task k b"
  "get_task k (b\<lparr>outbox := x2\<rparr>) = get_task k b"
  "get_task k (b\<lparr>events := x3\<rparr>) = get_task k b"
  "get_task k (b\<lparr>candidates := x4\<rparr>) = get_task k b"
  by (simp_all add: get_task_def)

lemma get_task_updated:
  assumes "brain_ok b" and "get_task tid b = Some row" and "p row" and "\<And>r. p r \<Longrightarrow> t_id r = tid"
    and "\<And>r. t_id (f r) = t_id r"
  shows "get_task k (b\<lparr>tasks := update_where p f (tasks b)\<rparr>) = (if k = tid then Some (f row) else get_task k b)"
proof -
  have "get_task k (b\<lparr>tasks := update_where p f (tasks b)\<rparr>) =
      map_option (\<lambda>r. if p r then f r else r) (get_task k b)"
    by (simp add: get_task_def find_update_where assms(5))
  also have "\<dots> = (if k = tid then Some (f row) else get_task k b)"
    using assms(2-4) get_task_mem by (auto simp: map_option_case split: option.split) blast
  finally show ?thesis .
qed

lemma row_ok_unclaimed: "row_ok r \<Longrightarrow> t_state r \<noteq> Running \<Longrightarrow> t_owner r = None \<and> t_expires r = None \<and> t_protocol r = v2"
  by (auto simp: row_ok_def)

end
