(* ===== verification/Materialization.thy ===== *)
theory Materialization
  imports Brain
begin

text \<open>
  The materialization outbox of \<open>src/research_lab/farm_tasks_db.py\<close>: a claimed sweep records a
  content-bound intent, the compute queue job is linked to it, the task parks without a claim, and
  the terminal state of the job is carried back through the exact acknowledged generation.  The
  recovery of a claim that expired between the two databases is \<open>adopt_expired_materialization\<close>.
\<close>

section \<open>Claim checks\<close>

fun replayable :: "outbox_state \<Rightarrow> bool" where
  "replayable Pending = True" | "replayable Dispatched = True" | "replayable _ = False"

definition get_outbox :: "string \<Rightarrow> brain \<Rightarrow> outbox_row option" where
  "get_outbox mid b = find (\<lambda>o'. o_id o' = mid) (outbox b)"

text \<open>The running claim of the connection on a row, as the materialization operations test it.\<close>

definition running_claim :: "conn \<Rightarrow> time \<Rightarrow> task \<Rightarrow> bool" where
  "running_claim c now r \<longleftrightarrow>
     \<not> (t_state r \<noteq> Running \<or> str_or (t_owner r) \<noteq> c_owner c \<or> c_claims c (t_id r) \<noteq> Some (t_fence r)
        \<or> or0 (t_expires r) \<le> now)"

section \<open>Recording an intent\<close>

definition prepare_materialization ::
  "time \<Rightarrow> time \<Rightarrow> time option \<Rightarrow> int \<Rightarrow> string \<Rightarrow> string \<Rightarrow> string \<Rightarrow> string \<Rightarrow> int \<Rightarrow> conn \<Rightarrow> brain
     \<Rightarrow> (exn + unit) \<times> conn \<times> brain" where
  "prepare_materialization obs1 obs2 now tid mid path digest spec prio c b =
     (let (t1, c1) = effective_now obs1 now c;
          (t, c2) = effective_now obs2 (Some t1) c1
      in case get_task tid b of
           None \<Rightarrow> (Inl (KeyError ''unknown task''), c2, b)
         | Some row \<Rightarrow>
             if \<not> running_claim c2 t row then (Inl (StaleTaskClaim ''stale claim for task''), c2, b)
             else case get_outbox mid b of
               Some o' \<Rightarrow>
                 if o_task o' \<noteq> tid \<or> o_fence o' \<noteq> t_fence row \<or> o_digest o' \<noteq> digest \<or> o_path o' \<noteq> path
                 then (Inl (ValueError ''materialization id is already bound to different content''), c2, b)
                 else (Inr (), c2, b)
             | None \<Rightarrow>
                 let superseded = update_where
                       (\<lambda>o'. o_task o' = tid \<and> replayable (o_state o') \<and> o_fence o' \<noteq> t_fence row)
                       (\<lambda>o'. o'\<lparr>o_state := Superseded, o_updated := t\<rparr>) (outbox b);
                     fresh = \<lparr>o_id = mid, o_task = tid, o_fence = t_fence row, o_path = path,
                              o_digest = digest, o_spec = spec, o_priority = prio, o_state = Pending,
                              o_job = None, o_created = t, o_updated = t\<rparr>
                 in (Inr (), c2, b\<lparr>outbox := superseded @ [fresh]\<rparr>))"

section \<open>Committing the link\<close>

definition park_task :: "int \<Rightarrow> time \<Rightarrow> int \<Rightarrow> task \<Rightarrow> task" where
  "park_task job now seq r =
     r\<lparr>t_state := Deferred, t_job := Some job, t_reason := ''materialized_awaiting_worker'',
       t_updated := now, t_deferred := None, t_owner := None, t_expires := None,
       t_protocol := v2, t_seq := seq\<rparr>"

definition acknowledge_outbox :: "int \<Rightarrow> time \<Rightarrow> outbox_row \<Rightarrow> outbox_row" where
  "acknowledge_outbox job now o' = o'\<lparr>o_state := Acknowledged, o_job := Some job, o_updated := now, o_spec := []\<rparr>"

definition commit_materialization ::
  "time \<Rightarrow> time \<Rightarrow> time option \<Rightarrow> int \<Rightarrow> string \<Rightarrow> int \<Rightarrow> conn \<Rightarrow> brain \<Rightarrow> (exn + unit) \<times> conn \<times> brain" where
  "commit_materialization obs1 obs2 now tid mid job c b =
     (let (t1, c1) = effective_now obs1 now c;
          (t, c2) = effective_now obs2 (Some t1) c1
      in case (get_task tid b, get_outbox mid b) of
           (Some row, Some ob) \<Rightarrow>
             if o_task ob \<noteq> tid
             then (Inl (StaleTaskClaim ''materialization intent is missing or mismatched''), c2, b)
             else if \<not> running_claim c2 t row \<or> o_fence ob \<noteq> t_fence row
             then (Inl (StaleTaskClaim ''stale materialization claim for task''), c2, b)
             else
               let seq = t_seq row + 1
               in case update_tasks
                    (\<lambda>r. claim_row c2 tid (t_fence row) r \<and> expires_after t r \<and> t_seq r = t_seq row)
                    (park_task job t seq) b of
                    Inl e \<Rightarrow> (Inl e, c2, b)
                  | Inr (n, b1) \<Rightarrow>
                      if n \<noteq> 1 then (Inl (StaleTaskClaim ''task changed during materialization commit''), c2, b)
                      else
                        let p = (\<lambda>o'. o_id o' = mid \<and> o_task o' = tid \<and> o_fence o' = t_fence row \<and> replayable (o_state o'))
                        in if rowcount p (outbox b1) \<noteq> 1
                           then (Inl (StaleTaskClaim ''materialization outbox changed during commit''), c2, b)
                           else (Inr (), c2\<lparr>c_claims := (c_claims c2)(tid := None)\<rparr>,
                                 record_transition tid Running Deferred ''materialized_awaiting_worker'' t
                                   (c_owner c2) (t_fence row) seq
                                   (b1\<lparr>outbox := update_where p (acknowledge_outbox job t) (outbox b1)\<rparr>))
         | _ \<Rightarrow> (Inl (StaleTaskClaim ''materialization intent is missing or mismatched''), c2, b))"

section \<open>Finishing a parked task\<close>

definition parked_for :: "outbox_row \<Rightarrow> int \<Rightarrow> task \<Rightarrow> bool" where
  "parked_for ob job r \<longleftrightarrow>
     \<not> (t_state r \<noteq> Deferred \<or> t_reason r \<noteq> ''materialized_awaiting_worker'' \<or> t_owner r \<noteq> None
        \<or> t_expires r \<noteq> None \<or> int_or0 (t_job r) \<noteq> job \<or> t_fence r \<noteq> o_fence ob)"

definition finish_materialized_task ::
  "time \<Rightarrow> time \<Rightarrow> time option \<Rightarrow> int \<Rightarrow> string \<Rightarrow> int \<Rightarrow> string \<Rightarrow> string option \<Rightarrow> string option \<Rightarrow> conn \<Rightarrow> brain
     \<Rightarrow> (exn + unit) \<times> conn \<times> brain" where
  "finish_materialized_task obs1 obs2 now tid mid job queue_status result_ref run_dir c b =
     (if queue_status \<noteq> ''completed'' \<and> queue_status \<noteq> ''failed''
      then (Inl (ValueError ''queue_status must be terminal''), c, b)
      else
        let (t1, c1) = effective_now obs1 now c;
            target = (if queue_status = ''completed'' then Completed else Failed);
            reason = (if queue_status = ''completed'' then ''compute_completed'' else ''compute_failed'');
            (t, c2) = effective_now obs2 (Some t1) c1
        in case (get_task tid b,
                 find (\<lambda>o'. o_id o' = mid \<and> o_task o' = tid \<and> o_job o' = Some job \<and> o_state o' = Acknowledged)
                   (outbox b)) of
             (Some row, Some ob) \<Rightarrow>
               if \<not> parked_for ob job row
               then (Inl (StaleTaskClaim ''materialized task generation changed''), c2, b)
               else
                 let seq = t_seq row + 1
                 in case update_tasks
                      (\<lambda>r. t_id r = tid \<and> t_state r = Deferred \<and> t_reason r = ''materialized_awaiting_worker''
                           \<and> t_owner r = None \<and> t_expires r = None \<and> t_fence r = t_fence row
                           \<and> t_protocol r = v2 \<and> t_seq r = t_seq row)
                      (\<lambda>r. r\<lparr>t_state := target, t_reason := reason, t_updated := t, t_result_ref := result_ref,
                            t_run_dir := run_dir, t_job := Some job, t_deferred := None, t_protocol := v2,
                            t_seq := seq\<rparr>) b of
                      Inl e \<Rightarrow> (Inl e, c2, b)
                    | Inr (n, b1) \<Rightarrow>
                        if n \<noteq> 1 then (Inl (StaleTaskClaim ''materialized task changed during finish''), c2, b)
                        else (Inr (), c2, record_transition tid Deferred target reason t (c_owner c2) (t_fence row) seq b1)
           | _ \<Rightarrow> (Inl (StaleTaskClaim ''materialized task generation changed''), c2, b))"

section \<open>Dispatch marks and replay\<close>

definition materialization_authority :: "string \<Rightarrow> time \<Rightarrow> conn \<Rightarrow> brain \<Rightarrow> exn option" where
  "materialization_authority mid now c b =
     (case get_outbox mid b of
        None \<Rightarrow> Some (StaleTaskClaim ''materialization intent is missing'')
      | Some ob \<Rightarrow>
          (case get_task (o_task ob) b of
             None \<Rightarrow> Some (StaleTaskClaim ''materialization intent is missing'')
           | Some r \<Rightarrow>
               if str_or (t_owner r) \<noteq> c_owner c \<or> t_fence r \<noteq> o_fence ob
                  \<or> c_claims c (o_task ob) \<noteq> Some (o_fence ob) \<or> or0 (t_expires r) \<le> now
               then Some (StaleTaskClaim ''materialization intent has a stale task fence'')
               else None))"

text \<open>The guarded update both marks share: the intent is replayable and its task still runs under
  the connection's unexpired claim at the intent's fence.\<close>

definition mark_materialization ::
  "time \<Rightarrow> time \<Rightarrow> time option \<Rightarrow> string \<Rightarrow> (time \<Rightarrow> outbox_row \<Rightarrow> outbox_row) \<Rightarrow> string \<Rightarrow> conn \<Rightarrow> brain
     \<Rightarrow> (exn + unit) \<times> conn \<times> brain" where
  "mark_materialization obs1 obs2 now mid upd msg c b =
     (let (t1, c1) = effective_now obs1 now c
      in case materialization_authority mid t1 c1 b of
           Some e \<Rightarrow> (Inl e, c1, b)
         | None \<Rightarrow>
             let (t, c2) = effective_now obs2 (Some t1) c1;
                 p = (\<lambda>o'. o_id o' = mid \<and> replayable (o_state o')
                       \<and> list_ex (\<lambda>r. claim_row c2 (o_task o') (o_fence o') r \<and> expires_after t r) (tasks b))
             in if rowcount p (outbox b) \<noteq> 1 then (Inl (StaleTaskClaim msg), c2, b)
                else (Inr (), c2, b\<lparr>outbox := update_where p (upd t) (outbox b)\<rparr>))"

definition mark_materialization_dispatched ::
  "time \<Rightarrow> time \<Rightarrow> time option \<Rightarrow> string \<Rightarrow> int \<Rightarrow> conn \<Rightarrow> brain \<Rightarrow> (exn + unit) \<times> conn \<times> brain" where
  "mark_materialization_dispatched obs1 obs2 now mid job c b =
     mark_materialization obs1 obs2 now mid
       (\<lambda>t o'. o'\<lparr>o_state := Dispatched, o_job := Some job, o_updated := t\<rparr>)
       ''materialization cannot be marked dispatched'' c b"

definition mark_materialization_ambiguous ::
  "time \<Rightarrow> time \<Rightarrow> time option \<Rightarrow> string \<Rightarrow> conn \<Rightarrow> brain \<Rightarrow> (exn + unit) \<times> conn \<times> brain" where
  "mark_materialization_ambiguous obs1 obs2 now mid c b =
     mark_materialization obs1 obs2 now mid (\<lambda>t o'. o'\<lparr>o_state := Ambiguous, o_updated := t\<rparr>)
       ''materialization cannot be marked ambiguous'' c b"

definition authorize_materialization_replay ::
  "time \<Rightarrow> time option \<Rightarrow> string \<Rightarrow> conn \<Rightarrow> brain \<Rightarrow> (exn + outbox_row) \<times> conn" where
  "authorize_materialization_replay obs now mid c b =
     (let (t, c1) = effective_now obs now c
      in case materialization_authority mid t c1 b of
           Some e \<Rightarrow> (Inl e, c1)
         | None \<Rightarrow>
             (case find (\<lambda>o'. o_id o' = mid \<and> replayable (o_state o')) (outbox b) of
                None \<Rightarrow> (Inl (StaleTaskClaim ''materialization intent is not replayable''), c1)
              | Some ob \<Rightarrow> (Inr ob, c1)))"

definition pending_materializations :: "brain \<Rightarrow> outbox_row list" where
  "pending_materializations b = sort_key o_created (filter (\<lambda>o'. replayable (o_state o')) (outbox b))"

section \<open>Recovering an expired claim\<close>

text \<open>The row of the compute database that \<open>adopt_expired_materialization\<close> reads through ATTACH.\<close>

record queue_binding =
  bind_job :: int
  bind_path :: string
  bind_digest :: string
  bind_status :: string
  bind_queue_mid :: "string option"
  bind_queue_digest :: "string option"

record adoption =
  ad_task :: int
  ad_fence :: int
  ad_seq :: int
  ad_mid :: string
  ad_job :: int
  ad_path :: string
  ad_digest :: string
  ad_status :: string

definition binding_matches :: "adoption \<Rightarrow> queue_binding \<Rightarrow> bool" where
  "binding_matches a q \<longleftrightarrow>
     \<not> (bind_job q \<noteq> ad_job a \<or> bind_path q \<noteq> ad_path a \<or> bind_digest q \<noteq> ad_digest a
        \<or> bind_status q \<noteq> ad_status a \<or> str_or (bind_queue_mid q) \<noteq> ad_mid a
        \<or> str_or (bind_queue_digest q) \<noteq> ad_digest a)"

definition already_adopted :: "adoption \<Rightarrow> task \<Rightarrow> outbox_row \<Rightarrow> bool" where
  "already_adopted a row ob \<longleftrightarrow>
     t_type row = ''run_sweep'' \<and> t_state row = Deferred \<and> t_reason row = ''materialized_awaiting_worker''
     \<and> t_owner row = None \<and> t_expires row = None \<and> t_fence row = ad_fence a \<and> t_seq row = ad_seq a + 1
     \<and> int_or0 (t_job row) = ad_job a \<and> o_fence ob = ad_fence a \<and> o_state ob = Acknowledged
     \<and> int_or0 (o_job ob) = ad_job a \<and> o_path ob = ad_path a \<and> o_digest ob = ad_digest a"

definition adoption_stale :: "adoption \<Rightarrow> time \<Rightarrow> task \<Rightarrow> outbox_row \<Rightarrow> brain \<Rightarrow> bool" where
  "adoption_stale a now row ob b \<longleftrightarrow>
     t_type row \<noteq> ''run_sweep'' \<or> t_state row \<noteq> Running \<or> t_owner row = None \<or> or0 (t_expires row) > now
     \<or> t_fence row \<noteq> ad_fence a \<or> t_protocol row \<noteq> v2 \<or> t_seq row \<noteq> ad_seq a \<or> t_job row \<noteq> None
     \<or> o_fence ob \<noteq> ad_fence a \<or> \<not> replayable (o_state ob)
     \<or> (o_job ob \<noteq> None \<and> o_job ob \<noteq> Some (ad_job a))
     \<or> o_path ob \<noteq> ad_path a \<or> o_digest ob \<noteq> ad_digest a
     \<or> rowcount (\<lambda>o'. o_task o' = ad_task a \<and> replayable (o_state o')) (outbox b) \<noteq> 1"

definition adopt_expired_materialization ::
  "time \<Rightarrow> time \<Rightarrow> time option \<Rightarrow> adoption \<Rightarrow> queue_binding option \<Rightarrow> conn \<Rightarrow> brain
     \<Rightarrow> (exn + nat) \<times> conn \<times> brain" where
  "adopt_expired_materialization obs1 obs2 now a binding c b =
     (let (t1, c1) = effective_now obs1 now c;
          (t, c2) = effective_now obs2 (Some t1) c1;
          tid = ad_task a
      in case (get_task tid b, get_outbox (ad_mid a) b) of
           (Some row, Some ob) \<Rightarrow>
             if o_task ob \<noteq> tid
             then (Inl (StaleTaskClaim ''expired materialization recovery identity changed''), c2, b)
             else if (case binding of None \<Rightarrow> True | Some q \<Rightarrow> \<not> binding_matches a q)
             then (Inl (StaleTaskClaim ''expired materialization compute binding changed''), c2, b)
             else if already_adopted a row ob then (Inr 0, c2, b)
             else if adoption_stale a t row ob b
             then (Inl (StaleTaskClaim ''expired materialization recovery plan is stale''), c2, b)
             else
               let seq = ad_seq a + 1
               in case update_tasks
                    (\<lambda>r. t_id r = tid \<and> t_type r = ''run_sweep'' \<and> t_state r = Running \<and> t_owner r \<noteq> None
                         \<and> (case t_expires r of None \<Rightarrow> False | Some e \<Rightarrow> e \<le> t) \<and> t_fence r = ad_fence a
                         \<and> t_protocol r = v2 \<and> t_seq r = ad_seq a \<and> t_job r = None)
                    (park_task (ad_job a) t seq) b of
                    Inl e \<Rightarrow> (Inl e, c2, b)
                  | Inr (n, b1) \<Rightarrow>
                      let p = (\<lambda>o'. o_id o' = ad_mid a \<and> o_task o' = tid \<and> o_fence o' = ad_fence a
                                 \<and> replayable (o_state o') \<and> o_path o' = ad_path a \<and> o_digest o' = ad_digest a)
                      in if n \<noteq> 1 \<or> rowcount p (outbox b1) \<noteq> 1
                         then (Inl (StaleTaskClaim ''expired materialization changed during recovery''), c2, b)
                         else (Inr 1, c2\<lparr>c_claims := (c_claims c2)(tid := None)\<rparr>,
                               record_transition tid Running Deferred ''recovered_existing_compute_materialization'' t
                                 (str_or (t_owner row)) (ad_fence a) seq
                                 (b1\<lparr>outbox := update_where p (acknowledge_outbox (ad_job a) t) (outbox b1)\<rparr>))
         | _ \<Rightarrow> (Inl (StaleTaskClaim ''expired materialization recovery identity changed''), c2, b))"

section \<open>Releasing acknowledged payload copies\<close>

text \<open>
  \<open>release_acknowledged_materialization_payloads\<close>.  The hash function and the spec artifacts on disk
  are outside the program: \<open>sha256\<close> stands for the prefixed hexadecimal digest, \<open>artifact\<close> for what
  the path of a spec resolves to, \<open>plan_hash\<close> for the digest over the listed identities, and
  \<open>integrity\<close> for the answer of the integrity check after compaction.
\<close>

datatype artifact = Absent | Escapes | Content string

record release_report =
  rel_apply :: bool
  rel_rows :: nat
  rel_bytes :: nat
  rel_digest :: string
  rel_compacted :: bool

type_synonym release_plan = "(string \<times> string \<times> nat) list"

fun plan_release ::
  "(string \<Rightarrow> string) \<Rightarrow> (string \<Rightarrow> artifact) option \<Rightarrow> outbox_row list \<Rightarrow> exn + release_plan" where
  "plan_release sha256 fs [] = Inr []"
| "plan_release sha256 fs (o' # rows) =
     (let digest = sha256 (o_spec o')
      in if digest \<noteq> o_digest o'
         then Inl (ValueError ''acknowledged materialization payload digest mismatch'')
         else case (case fs of
                      None \<Rightarrow> None
                    | Some artifact \<Rightarrow>
                        (case artifact (o_path o') of
                           Absent \<Rightarrow> Some (ValueError ''acknowledged materialization spec artifact is absent'')
                         | Escapes \<Rightarrow> Some (ValueError ''acknowledged materialization spec escapes event-spec root'')
                         | Content text \<Rightarrow>
                             if sha256 text \<noteq> digest
                             then Some (ValueError ''acknowledged materialization spec artifact digest mismatch'')
                             else None)) of
                Some e \<Rightarrow> Inl e
              | None \<Rightarrow>
                  (case plan_release sha256 fs rows of
                     Inl e \<Rightarrow> Inl e
                   | Inr plan \<Rightarrow> Inr ((o_id o', digest, length (o_spec o')) # plan)))"

fun apply_release :: "release_plan \<Rightarrow> outbox_row list \<Rightarrow> exn + outbox_row list" where
  "apply_release [] rows = Inr rows"
| "apply_release ((mid, digest, len) # plan) rows =
     (let p = (\<lambda>o'. o_id o' = mid \<and> o_state o' = Acknowledged \<and> o_digest o' = digest \<and> length (o_spec o') = len)
      in if rowcount p rows \<noteq> 1 then Inl (RuntimeError ''materialization payload changed during release'')
         else apply_release plan (update_where p (\<lambda>o'. o'\<lparr>o_spec := []\<rparr>) rows))"

definition release_candidates :: "brain \<Rightarrow> outbox_row list" where
  "release_candidates b = sort_key o_id (filter (\<lambda>o'. o_state o' = Acknowledged \<and> o_spec o' \<noteq> []) (outbox b))"

definition release_payloads ::
  "(string \<Rightarrow> string) \<Rightarrow> (string \<Rightarrow> artifact) option \<Rightarrow> (release_plan \<Rightarrow> string) \<Rightarrow> string \<Rightarrow> bool \<Rightarrow> bool \<Rightarrow> string \<Rightarrow> bool
     \<Rightarrow> brain \<Rightarrow> (exn + release_report) \<times> brain" where
  "release_payloads sha256 fs plan_hash integrity read_only app expected compaction b =
     (if read_only \<and> app then (Inl (RuntimeError ''payload release requires a writable farm DB''), b)
      else if compaction \<and> \<not> app then (Inl (ValueError ''storage compaction requires apply mode''), b)
      else if app \<and> expected = [] then (Inl (ValueError ''apply requires the exact dry-run plan digest''), b)
      else case plan_release sha256 fs (release_candidates b) of
        Inl e \<Rightarrow> (Inl e, b)
      | Inr plan \<Rightarrow>
          let report = \<lparr>rel_apply = app, rel_rows = length plan, rel_bytes = sum_list (map (snd \<circ> snd) plan),
                        rel_digest = plan_hash plan, rel_compacted = compaction\<rparr>
          in if \<not> app then (Inr report, b)
             else if plan_hash plan \<noteq> expected
             then (Inl (ValueError ''materialization payload release plan changed''), b)
             else case apply_release plan (outbox b) of
               Inl e \<Rightarrow> (Inl e, b)
             | Inr rows \<Rightarrow>
                 if compaction \<and> integrity \<noteq> ''ok''
                 then (Inl (RuntimeError ''farm task database integrity failed after compaction''), b\<lparr>outbox := rows\<rparr>)
                 else (Inr report, b\<lparr>outbox := rows\<rparr>))"

end
