(* ===== verification/Validation_Tasks.thy ===== *)
theory Validation_Tasks
  imports Brain
begin

text \<open>
  The other tables of the farm brain (\<open>src/research_lab/farm_tasks_db.py\<close>): the classification and
  the hash-bound disposition of export-validation tasks (with
  \<open>src/research_lab/validation_task_disposition.py\<close>), the intake events, the unique candidates, the
  backlog metrics, the completion verdict of \<open>src/research_lab/farm_reconcile.py\<close> and the priority
  classes of \<open>src/research_lab/farm_priority.py\<close>.
\<close>

section \<open>Priority classes\<close>

definition priority_value :: "int option \<Rightarrow> int \<Rightarrow> int" where
  "priority_value v dflt =
     (let p = (case v of None \<Rightarrow> dflt | Some n \<Rightarrow> n)
      in if p = 1 then 20 else if p = 2 then 30 else if p = 3 then 40 else if p = 4 then 90 else p)"

definition priority_label :: "int option \<Rightarrow> string" where
  "priority_label v =
     (let p = (case v of None \<Rightarrow> 100 | Some n \<Rightarrow> n)
      in if p \<le> 0 then ''manual urgent''
         else if p \<le> 10 then ''strong GO''
         else if p \<le> 20 then ''WATCH''
         else if p \<le> 30 then ''official news''
         else if p \<le> 40 then ''market mover''
         else if p \<le> 60 then ''role/recheck''
         else ''background sweep'')"

text \<open>\<open>_migrate_priority_scale\<close>: the legacy classes 1 to 4 of tasks and intake events.\<close>

definition migrated_priority :: "int \<Rightarrow> int" where
  "migrated_priority p =
     (if p = 1 then 20 else if p = 2 then 30 else if p = 3 then 40 else if p = 4 then 90 else p)"

definition migrate_priority_scale :: "brain \<Rightarrow> brain" where
  "migrate_priority_scale b =
     b\<lparr>tasks := update_where (\<lambda>r. 1 \<le> t_priority r \<and> t_priority r \<le> 4)
                  (\<lambda>r. r\<lparr>t_priority := migrated_priority (t_priority r)\<rparr>) (tasks b),
       events := update_where (\<lambda>r. 1 \<le> i_priority r \<and> i_priority r \<le> 4)
                  (\<lambda>r. r\<lparr>i_priority := migrated_priority (i_priority r)\<rparr>) (events b),
       meta := (meta b)(''priority_scale'' \<mapsto> MText ''v2'')\<rparr>"

text \<open>
  Opening the database for writing, the constructor of \<open>FarmTasksDB\<close>: \<open>_require_farm_fencing\<close> refuses
  one without the marker of the fenced protocol (its tables, columns and triggers are those of the model),
  then \<open>_init_db\<close> translates the priorities and writes the marker again.
\<close>

definition open_farm_db :: "brain \<Rightarrow> exn + brain" where
  "open_farm_db b =
     (if meta b ''fencing_protocol'' \<noteq> Some (MText ''v2'')
      then Inl (MigrationRequired ''brain DB requires explicit fencing v2 activation: capability_marker'')
      else let b1 = migrate_priority_scale b
           in Inr (b1\<lparr>meta := (meta b1)(''fencing_protocol'' \<mapsto> MText ''v2'')\<rparr>))"

section \<open>Intake events\<close>

definition upsert_intake_event :: "intake_row \<Rightarrow> int option \<Rightarrow> time \<Rightarrow> brain \<Rightarrow> (string \<times> bool) \<times> brain" where
  "upsert_intake_event e prio now b =
     (if list_ex (\<lambda>r. i_id r = i_id e) (events b) then ((i_id e, False), b)
      else ((i_id e, True),
            b\<lparr>events := events b @
               [e\<lparr>i_priority := priority_value prio 100,
                  i_timeframes := (if truthy (i_timeframes e) then i_timeframes e else JArr []),
                  i_evidence := (if truthy (i_evidence e) then i_evidence e else JObj []),
                  i_raw := (if truthy (i_raw e) then i_raw e else JObj []),
                  i_ingested := now, i_consumed := False\<rparr>]\<rparr>))"

text \<open>ORDER BY priority ascending, observation time descending (NULL is the smallest value).\<close>

definition event_order :: "intake_row \<Rightarrow> int \<times> int \<times> time" where
  "event_order r = (i_priority r, (case i_observed r of None \<Rightarrow> (1, 0) | Some t \<Rightarrow> (0, - t)))"

definition unconsumed_events :: "nat \<Rightarrow> brain \<Rightarrow> intake_row list" where
  "unconsumed_events limit b = take limit (sort_key event_order (filter (\<lambda>r. \<not> i_consumed r) (events b)))"

definition mark_event_consumed :: "string \<Rightarrow> brain \<Rightarrow> brain" where
  "mark_event_consumed eid b =
     b\<lparr>events := update_where (\<lambda>r. i_id r = eid) (\<lambda>r. r\<lparr>i_consumed := True\<rparr>) (events b)\<rparr>"

text \<open>\<open>existing_intake_event_ids\<close> asks in batches of 400 placeholders.\<close>

function lookup_batches :: "nat \<Rightarrow> string list \<Rightarrow> brain \<Rightarrow> string set" where
  "lookup_batches bsize wanted b =
     (if wanted = [] \<or> bsize = 0 then {}
      else (let batch = take bsize wanted
            in set (map i_id (filter (\<lambda>r. i_id r \<in> set batch) (events b))))
           \<union> lookup_batches bsize (drop bsize wanted) b)"
  by pat_completeness auto
termination
  by (relation "measure (\<lambda>(bsize, wanted, b). length wanted)") auto

declare lookup_batches.simps [simp del]

definition existing_intake_event_ids :: "string list \<Rightarrow> brain \<Rightarrow> string set" where
  "existing_intake_event_ids ids b = lookup_batches 400 (dict_fromkeys (filter (\<lambda>i. i \<noteq> []) ids)) b"

section \<open>Unique candidates\<close>

definition nullif_empty :: "string \<Rightarrow> string \<Rightarrow> string" where
  "nullif_empty new old = (if new = [] then old else new)"

text \<open>The ON CONFLICT branch: logical identity columns stay, results are replaced, and the sticky
  text columns keep their value when the new one is empty.\<close>

definition merge_candidate :: "candidate_row \<Rightarrow> candidate_row \<Rightarrow> candidate_row" where
  "merge_candidate new old =
     old\<lparr>u_decision := u_decision new, u_validation := u_validation new, u_hard := u_hard new,
         u_trades := u_trades new, u_avg_net := u_avg_net new, u_candidate := u_candidate new,
         u_run_dir := u_run_dir new, u_task := u_task new, u_params := u_params new,
         u_paper := nullif_empty (u_paper new) (u_paper old),
         u_regime := nullif_empty (u_regime new) (u_regime old),
         u_search_family := nullif_empty (u_search_family new) (u_search_family old),
         u_search_trial := nullif_empty (u_search_trial new) (u_search_trial old),
         u_trials := (if u_trials new > 0 then u_trials new else u_trials old),
         u_updated := u_updated new\<rparr>"

definition upsert_unique_candidate :: "candidate_row \<Rightarrow> time \<Rightarrow> brain \<Rightarrow> brain" where
  "upsert_unique_candidate cand now b =
     (let new = cand\<lparr>u_updated := now\<rparr>
      in if list_ex (\<lambda>r. u_key r = u_key new) (candidates b)
         then b\<lparr>candidates := update_where (\<lambda>r. u_key r = u_key new) (merge_candidate new) (candidates b)\<rparr>
         else b\<lparr>candidates := candidates b @ [new]\<rparr>)"

definition set_candidate_hard_status :: "string \<Rightarrow> string \<Rightarrow> time \<Rightarrow> brain \<Rightarrow> nat \<times> brain" where
  "set_candidate_hard_status cid hard now b =
     (let p = (\<lambda>r. u_candidate r = Some cid)
      in (rowcount p (candidates b),
          b\<lparr>candidates := update_where p (\<lambda>r. r\<lparr>u_hard := Some hard, u_updated := now\<rparr>) (candidates b)\<rparr>))"

definition set_unique_hard_status :: "string \<Rightarrow> string \<Rightarrow> time \<Rightarrow> brain \<Rightarrow> nat \<times> brain" where
  "set_unique_hard_status key hard now b =
     (let p = (\<lambda>r. u_key r = key)
      in (rowcount p (candidates b),
          b\<lparr>candidates := update_where p (\<lambda>r. r\<lparr>u_hard := Some hard, u_updated := now\<rparr>) (candidates b)\<rparr>))"

definition set_unique_paper_status :: "string \<Rightarrow> string \<Rightarrow> time \<Rightarrow> brain \<Rightarrow> nat \<times> brain" where
  "set_unique_paper_status key paper now b =
     (let p = (\<lambda>r. u_key r = key)
      in (rowcount p (candidates b),
          b\<lparr>candidates := update_where p (\<lambda>r. r\<lparr>u_paper := paper, u_updated := now\<rparr>) (candidates b)\<rparr>))"

definition prune_terminal_tasks :: "int \<Rightarrow> bool \<Rightarrow> brain \<Rightarrow> exn + int" where
  "prune_terminal_tasks keep app b =
     (if app then Inl (ValueError ''terminal task pruning is report-only'')
      else let total = int (rowcount (\<lambda>r. terminal (t_state r)) (tasks b));
               excess = max 0 (total - keep)
           in if excess = 0 then Inr 0 else Inr excess)"

definition prune_unique_candidates :: "int \<Rightarrow> bool \<Rightarrow> brain \<Rightarrow> exn + int" where
  "prune_unique_candidates keep app b =
     (if app then Inl (ValueError ''unique candidate pruning is report-only'')
      else Inr (max 0 (int (length (candidates b)) - keep)))"

text \<open>The JOIN of \<open>latest_unique_candidates\<close>: rows whose update time is the maximum of their
  (symbol, timeframe, family, params_hash) group; NULL components never compare equal.\<close>

definition candidate_cell :: "candidate_row \<Rightarrow> (string \<times> string \<times> string \<times> string) option" where
  "candidate_cell r =
     (case (u_symbol r, u_timeframe r, u_family r, u_params_hash r) of
        (Some s, Some t, Some f, Some p) \<Rightarrow> Some (s, t, f, p) | _ \<Rightarrow> None)"

definition latest_in_cell :: "brain \<Rightarrow> candidate_row \<Rightarrow> bool" where
  "latest_in_cell b r \<longleftrightarrow>
     candidate_cell r \<noteq> None
     \<and> list_all (\<lambda>x. candidate_cell x = candidate_cell r \<longrightarrow> u_updated x \<le> u_updated r) (candidates b)"

definition latest_unique_candidates :: "nat \<Rightarrow> brain \<Rightarrow> candidate_row list" where
  "latest_unique_candidates limit b =
     take limit (sort_key (\<lambda>r. - u_updated r) (filter (latest_in_cell b) (candidates b)))"

section \<open>Classification of export-validation tasks\<close>

datatype disposition = Act_Eligible | Act_Defer string | Act_Skip string

definition validation_eligible_statuses :: "string list" where
  "validation_eligible_statuses = [''FORWARD_PAPER'', ''REGIME_SPECIFIC'']"

definition payload_uc_key :: "(json \<Rightarrow> string) \<Rightarrow> json option \<Rightarrow> string" where
  "payload_uc_key rep payload =
     (case payload of
        Some (JObj kvs) \<Rightarrow> str_of_json rep (jget ''uc_key'' (JObj kvs))
      | _ \<Rightarrow> [])"

definition validation_status_of :: "string \<Rightarrow> brain \<Rightarrow> string option option" where
  "validation_status_of key b = map_option u_validation (find (\<lambda>u. u_key u = key) (candidates b))"

definition age_since :: "time \<Rightarrow> time \<Rightarrow> time" where
  "age_since current created = max 0 (current - (if created = 0 then current else created))"

definition classify_export_validation_task ::
  "(json \<Rightarrow> string) \<Rightarrow> time \<Rightarrow> time option \<Rightarrow> time \<Rightarrow> task \<Rightarrow> conn \<Rightarrow> brain \<Rightarrow> (exn + disposition) \<times> conn" where
  "classify_export_validation_task rep obs now grace r c b =
     (if t_type r \<noteq> ''export_validation'' then (Inl (ValueError ''task is not export_validation''), c)
      else
        let (current, c1) = effective_now obs now c;
            key = payload_uc_key rep (t_payload r)
        in if key = [] then (Inr (Act_Skip ''validation_task_missing_uc_key''), c1)
           else case validation_status_of key b of
             None \<Rightarrow>
               if age_since current (t_created r) < max 0 grace
               then (Inr (Act_Defer ''validation_candidate_not_yet_visible''), c1)
               else (Inr (Act_Skip ''validation_orphan_missing_unique_candidate''), c1)
           | Some st \<Rightarrow>
               if str_or st \<notin> set validation_eligible_statuses
               then (Inr (Act_Skip ''validation_candidate_no_longer_eligible''), c1)
               else (Inr Act_Eligible, c1))"

section \<open>Hash-bound disposition of orphaned validation tasks\<close>

record disposition_entry =
  d_task :: int
  d_state :: task_state
  d_fence :: int
  d_seq :: int
  d_hash :: string
  d_reason :: string

text \<open>\<open>build_plan\<close> over the brain, read only: the reason it assigns, and the entries.\<close>

definition orphan_reason :: "(json \<Rightarrow> string) \<Rightarrow> time \<Rightarrow> time \<Rightarrow> brain \<Rightarrow> task \<Rightarrow> string" where
  "orphan_reason rep now grace b r =
     (let key = payload_uc_key rep (t_payload r)
      in if key = [] then ''validation_task_missing_uc_key''
         else case validation_status_of key b of
           None \<Rightarrow>
             if age_since now (t_created r) \<ge> max 0 grace
             then ''validation_orphan_missing_unique_candidate'' else []
         | Some st \<Rightarrow>
             if str_or st \<notin> set validation_eligible_statuses
             then ''validation_candidate_no_longer_eligible'' else [])"

definition disposition_scope :: "task \<Rightarrow> bool" where
  "disposition_scope r \<longleftrightarrow>
     t_type r = ''export_validation'' \<and> (t_state r = Queued \<or> t_state r = Deferred) \<and> t_owner r = None"

definition build_disposition_plan ::
  "(json option \<Rightarrow> string) \<Rightarrow> (json \<Rightarrow> string) \<Rightarrow> time \<Rightarrow> time \<Rightarrow> brain \<Rightarrow> disposition_entry list" where
  "build_disposition_plan payload_hash rep now grace b =
     map (\<lambda>r. \<lparr>d_task = t_id r, d_state = t_state r, d_fence = t_fence r, d_seq = t_seq r,
               d_hash = payload_hash (t_payload r), d_reason = orphan_reason rep now grace b r\<rparr>)
       (filter (\<lambda>r. orphan_reason rep now grace b r \<noteq> [])
         (sort_key t_id (filter disposition_scope (tasks b))))"

text \<open>What the checking loop finds for one entry: already applied, still pending, or stale.\<close>

datatype plan_check = Already | Still_Pending task | Plan_Stale string

definition check_entry :: "(json option \<Rightarrow> string) \<Rightarrow> disposition_entry \<Rightarrow> brain \<Rightarrow> plan_check" where
  "check_entry payload_hash d b =
     (case get_task (d_task d) b of
        None \<Rightarrow> Plan_Stale ''validation disposition task identity changed''
      | Some r \<Rightarrow>
          if t_type r \<noteq> ''export_validation''
          then Plan_Stale ''validation disposition task identity changed''
          else if t_state r = Skipped \<and> t_reason r = d_reason d \<and> t_fence r = d_fence d
                  \<and> t_seq r = d_seq d + 1 \<and> payload_hash (t_payload r) = d_hash d \<and> t_owner r = None
          then Already
          else if \<not> (t_state r = d_state d \<and> (t_state r = Queued \<or> t_state r = Deferred)
                     \<and> t_fence r = d_fence d \<and> t_seq r = d_seq d
                     \<and> payload_hash (t_payload r) = d_hash d \<and> t_owner r = None)
          then Plan_Stale ''validation disposition plan is stale''
          else Still_Pending r)"

fun check_plan ::
  "(json option \<Rightarrow> string) \<Rightarrow> disposition_entry list \<Rightarrow> brain \<Rightarrow> exn + nat \<times> (task \<times> disposition_entry) list" where
  "check_plan payload_hash [] b = Inr (0, [])"
| "check_plan payload_hash (d # ds) b =
     (case check_entry payload_hash d b of
        Plan_Stale msg \<Rightarrow> Inl (StaleTaskClaim msg)
      | Already \<Rightarrow>
          (case check_plan payload_hash ds b of
             Inl e \<Rightarrow> Inl e | Inr (n, ps) \<Rightarrow> Inr (Suc n, ps))
      | Still_Pending r \<Rightarrow>
          (case check_plan payload_hash ds b of
             Inl e \<Rightarrow> Inl e | Inr (n, ps) \<Rightarrow> Inr (n, (r, d) # ps)))"

fun skip_pending :: "time \<Rightarrow> string \<Rightarrow> (task \<times> disposition_entry) list \<Rightarrow> brain \<Rightarrow> exn + brain" where
  "skip_pending now owner [] b = Inr b"
| "skip_pending now owner ((row, d) # ps) b =
     (case update_tasks
          (\<lambda>r. t_id r = t_id row \<and> t_state r = t_state row \<and> t_fence r = t_fence row \<and> t_protocol r = v2
               \<and> t_seq r = t_seq row \<and> t_owner r = None)
          (\<lambda>r. r\<lparr>t_state := Skipped, t_reason := d_reason d, t_updated := now, t_protocol := v2,
                t_seq := t_seq row + 1, t_owner := None, t_expires := None\<rparr>) b of
        Inl e \<Rightarrow> Inl e
      | Inr (n, b1) \<Rightarrow>
          if n \<noteq> 1 then Inl (StaleTaskClaim ''validation disposition changed during apply'')
          else skip_pending now owner ps
                 (record_transition (t_id row) (t_state row) Skipped (d_reason d) now owner
                    (t_fence row) (t_seq row + 1) b1))"

definition apply_disposition_plan ::
  "(json option \<Rightarrow> string) \<Rightarrow> time \<Rightarrow> time option \<Rightarrow> disposition_entry list \<Rightarrow> conn \<Rightarrow> brain
     \<Rightarrow> (exn + nat) \<times> conn \<times> brain" where
  "apply_disposition_plan payload_hash obs now plan c b =
     (let (current, c1) = effective_now obs now c
      in case check_plan payload_hash plan b of
           Inl e \<Rightarrow> (Inl e, c1, b)
         | Inr (already, pending) \<Rightarrow>
             if already \<noteq> 0 \<and> pending \<noteq> []
             then (Inl (StaleTaskClaim ''validation disposition plan is partially applied''), c1, b)
             else case skip_pending current (c_owner c1) pending b of
               Inl e \<Rightarrow> (Inl e, c1, b)
             | Inr b' \<Rightarrow> (Inr (length pending), c1, b'))"

section \<open>Backlog metrics\<close>

text \<open>\<open>round(x, n)\<close>: to the nearest multiple of ten to the minus n, ties to even.\<close>

definition py_round :: "nat \<Rightarrow> rat \<Rightarrow> rat" where
  "py_round n q =
     (let s = q * 10 ^ n; f = floor s; r = s - of_int f;
          m = (if r < 1 / 2 then f else if r > 1 / 2 then f + 1 else if even f then f else f + 1)
      in of_int m / 10 ^ n)"

fun oldest_created :: "task list \<Rightarrow> time option" where
  "oldest_created [] = None"
| "oldest_created (r # rs) =
     (case oldest_created rs of None \<Rightarrow> Some (t_created r) | Some t \<Rightarrow> Some (min (t_created r) t))"

record backlog =
  m_active :: nat
  m_eligible :: nat
  m_by_state :: "task_state \<Rightarrow> nat"
  m_oldest_age :: time
  m_fresh_window :: time
  m_fresh_eligible :: nat
  m_fresh_oldest_age :: time
  m_window :: time
  m_arrivals :: nat
  m_terminal :: nat
  m_arrival_rate :: rat
  m_service_rate :: rat
  m_drain_rate :: rat
  m_eta :: "rat option"

definition age_of :: "time \<Rightarrow> time option \<Rightarrow> time" where
  "age_of current oldest = (case oldest of None \<Rightarrow> 0 | Some t \<Rightarrow> py_round 3 (max 0 (current - t)))"

definition validation_backlog_metrics ::
  "time \<Rightarrow> time option \<Rightarrow> time \<Rightarrow> time \<Rightarrow> conn \<Rightarrow> brain \<Rightarrow> backlog \<times> conn" where
  "validation_backlog_metrics obs now window_seconds freshness_seconds c b =
     (let (current, c1) = effective_now obs now c;
          window = max 1 window_seconds;
          since = current - window;
          fresh_window = max 1 freshness_seconds;
          fresh_since = current - fresh_window;
          exports = filter (\<lambda>r. t_type r = ''export_validation'') (tasks b);
          actives = filter (\<lambda>r. active (t_state r)) exports;
          fresh = filter (\<lambda>r. t_created r \<ge> fresh_since \<and> due current r \<and> dependency_done b r) exports;
          arrivals = rowcount (\<lambda>r. t_created r \<ge> since) exports;
          terms = rowcount (\<lambda>r. terminal (t_state r) \<and> t_updated r \<ge> since) exports;
          hours = window / 3600;
          arrival_rate = of_nat arrivals / hours;
          service_rate = of_nat terms / hours;
          net = service_rate - arrival_rate
      in (\<lparr>m_active = length actives,
           m_eligible = eligible_count current [''export_validation''] b,
           m_by_state = (\<lambda>s. rowcount (\<lambda>r. t_state r = s) actives),
           m_oldest_age = age_of current (oldest_created actives),
           m_fresh_window = fresh_window,
           m_fresh_eligible = length fresh,
           m_fresh_oldest_age = age_of current (oldest_created fresh),
           m_window = window,
           m_arrivals = arrivals,
           m_terminal = terms,
           m_arrival_rate = py_round 3 arrival_rate,
           m_service_rate = py_round 3 service_rate,
           m_drain_rate = py_round 3 net,
           m_eta = (if actives \<noteq> [] \<and> net > 0 then Some (py_round 3 (of_nat (length actives) / net))
                    else if actives = [] then Some 0 else None)\<rparr>, c1))"

section \<open>Completion verdict\<close>

datatype verdict = Paused_With_Work | Blocked_Bounded | Drained | Unowned_Residue

definition completion_verdict :: "time \<Rightarrow> brain \<Rightarrow> verdict" where
  "completion_verdict now b =
     (let elig = eligible_count now [] b;
          running = rowcount (\<lambda>r. t_state r = Running) (tasks b);
          deferred_due = rowcount (\<lambda>r. t_state r = Deferred \<and>
             (case t_deferred r of None \<Rightarrow> False | Some t \<Rightarrow> t \<le> now)) (tasks b);
          deferred_future = int (rowcount (\<lambda>r. t_state r = Deferred) (tasks b)) - int deferred_due;
          blocked = rowcount (\<lambda>r. t_state r = Blocked) (tasks b);
          unreasoned = rowcount (\<lambda>r. t_state r = Blocked \<and> t_reason r = []) (tasks b);
          state = (if elig > 0 \<or> running > 0 then Paused_With_Work
                   else if deferred_future > 0 \<or> blocked > 0 then Blocked_Bounded
                   else Drained)
      in if state \<noteq> Paused_With_Work \<and> unreasoned > 0 then Unowned_Residue else state)"

end
