(* ===== verification/Brain_Safety.thy ===== *)
theory Brain_Safety
  imports Brain_Rows Materialization Validation_Tasks
begin

text \<open>
  Every operation of the farm brain keeps the database well formed and lets rows evolve only as the
  fencing contract allows.  The contracts of \<open>Fencing\<close> are interpreted on the operations, for any
  number of connections in any order, and the properties of claiming, moving, renewing and requeueing
  tasks follow.
\<close>

section \<open>Sound changes\<close>

definition sound_change :: "brain \<Rightarrow> brain \<Rightarrow> bool" where
  "sound_change b b' \<longleftrightarrow> brain_evolves b b' \<and> (brain_ok b \<longrightarrow> brain_ok b')"

lemma sound_change_refl [simp]: "sound_change b b"
  by (simp add: sound_change_def)

lemma sound_change_trans: "sound_change b1 b2 \<Longrightarrow> sound_change b2 b3 \<Longrightarrow> sound_change b1 b3"
  unfolding sound_change_def using brain_evolves_trans by blast

lemma sound_change_other [simp]:
  "sound_change b (b'\<lparr>meta := x1\<rparr>) = sound_change b b'"
  "sound_change b (b'\<lparr>outbox := x2\<rparr>) = sound_change b b'"
  "sound_change b (b'\<lparr>events := x3\<rparr>) = sound_change b b'"
  "sound_change b (b'\<lparr>candidates := x4\<rparr>) = sound_change b b'"
  by (simp_all add: sound_change_def brain_evolves_def)

lemma record_transition_outbox:
  "record_transition tid s s' reason now ow fence seq (b\<lparr>outbox := x\<rparr>) =
     (record_transition tid s s' reason now ow fence seq b)\<lparr>outbox := x\<rparr>"
  by (simp add: record_transition_def)

lemma sound_logged:
  assumes "update_tasks p f b = Inr (1, b1)" and "cas_shape p f tid s s'"
  shows "sound_change b (record_transition tid s s' reason now ow fence seq b1)"
  unfolding sound_change_def using logged_update_evolves[OF assms] logged_update_ok[OF _ assms(1) refl assms(2)]
  by blast

lemma sound_silent:
  assumes "update_tasks p f b = Inr (n, b1)"
    and "\<And>r. t_id (f r) = t_id r" and "\<And>r. p r \<Longrightarrow> t_state (f r) = t_state r"
    and "\<And>r. p r \<Longrightarrow> row_ok r \<Longrightarrow> row_ok (f r)" and "\<And>r. p r \<Longrightarrow> task_step r (f r)"
  shows "sound_change b b1"
  unfolding sound_change_def using update_tasks_evolves[OF assms(1,5)] silent_update_ok[OF _ assms(1-4)] by blast

text \<open>The two shapes of code around a compare-and-swap.\<close>

lemma sound_cas:
  assumes "cas_shape p f tid s s'"
  shows "sound_change b (snd (snd (case update_tasks p f b of
      Inl e \<Rightarrow> (Inl e, c1, b)
    | Inr (n, b1) \<Rightarrow>
        if n \<noteq> 1 then (x, c2, b)
        else (y, c3, record_transition tid s s' reason now ow fence seq b1))))"
  using sound_logged[OF _ assms] by (auto split: sum.split)

section \<open>Claiming and moving\<close>

lemma enqueue_sound: "sound_change b (snd (enqueue_task q now b))"
proof -
  have absorb: "sound_change b (snd (absorb_request q now act b))" for act
  proof -
    have "sound_change b b1"
      if "update_tasks (\<lambda>r. t_id r = t_id act) (\<lambda>r. r\<lparr>t_priority := q_priority q,
          t_source_event := (case q_source_event q of None \<Rightarrow> t_source_event r | Some e \<Rightarrow> Some e),
          t_updated := now\<rparr>) b = Inr (n, b1)" for n b1
      by (rule sound_silent[OF that]) (auto simp: row_ok_def task_step_iff guarded_columns_def)
    then show ?thesis by (auto simp: absorb_request_def split: sum.split)
  qed
  have "row_ok (new_task q now)" by (simp add: new_task_def row_ok_def)
  then have "sound_change b b1" if "insert_task (new_task q now) b = Inr (tid, b1)" for tid b1
    unfolding sound_change_def using insert_task_ok[OF _ that] insert_task_evolves[OF that]
    by (simp add: new_task_def)
  with absorb show ?thesis by (auto simp: enqueue_task_def split: option.split sum.split)
qed

lemma cas_shape_claim:
  "cas_shape (\<lambda>r. t_id r = t_id row \<and> t_state r = t_state row \<and> t_owner r = None
        \<and> t_fence r = t_fence row \<and> t_protocol r = v2 \<and> t_seq r = t_seq row)
      (\<lambda>r. r\<lparr>t_state := Running, t_attempts := t_attempts r + 1, t_updated := now2,
         t_owner := Some ow, t_expires := Some e, t_fence := t_fence row + 1, t_protocol := v2,
         t_seq := t_seq row + 1\<rparr>) (t_id row) (t_state row) Running"
  by (rule cas_shapeI) (auto simp: task_step_iff row_ok_def)

lemma claim_meta_tasks [simp]: "tasks (claim_meta k b) = tasks b"
  by (simp add: claim_meta_def Let_def)

lemma sound_claim_meta [simp]: "sound_change b (claim_meta k b') = sound_change b b'"
  by (simp add: claim_meta_def Let_def)

lemma claim_sound: "sound_change b (snd (snd (claim_next_task obs1 obs2 k c b)))"
  using sound_logged[OF _ cas_shape_claim]
  by (auto simp: claim_next_task_def Let_def case_prod_beta split: option.split sum.split)

lemma set_fields_keep [simp]:
  "t_id (fold set_field cols r) = t_id r"
  "t_key (fold set_field cols r) = t_key r"
  "t_type (fold set_field cols r) = t_type r"
  "t_created (fold set_field cols r) = t_created r"
  "t_state (fold set_field cols r) = t_state r"
  "t_owner (fold set_field cols r) = t_owner r"
  "t_expires (fold set_field cols r) = t_expires r"
  "t_fence (fold set_field cols r) = t_fence r"
  "t_protocol (fold set_field cols r) = t_protocol r"
  "t_seq (fold set_field cols r) = t_seq r"
  "t_reason (fold set_field cols r) = t_reason r"
proof -
  have "t_id (set_field x r) = t_id r" "t_key (set_field x r) = t_key r" "t_type (set_field x r) = t_type r"
    "t_created (set_field x r) = t_created r" "t_state (set_field x r) = t_state r"
    "t_owner (set_field x r) = t_owner r" "t_expires (set_field x r) = t_expires r"
    "t_fence (set_field x r) = t_fence r" "t_protocol (set_field x r) = t_protocol r"
    "t_seq (set_field x r) = t_seq r" "t_reason (set_field x r) = t_reason r" for x and r :: task
    by (cases x; simp)+
  then show "t_id (fold set_field cols r) = t_id r" "t_key (fold set_field cols r) = t_key r"
    "t_type (fold set_field cols r) = t_type r" "t_created (fold set_field cols r) = t_created r"
    "t_state (fold set_field cols r) = t_state r" "t_owner (fold set_field cols r) = t_owner r"
    "t_expires (fold set_field cols r) = t_expires r" "t_fence (fold set_field cols r) = t_fence r"
    "t_protocol (fold set_field cols r) = t_protocol r" "t_seq (fold set_field cols r) = t_seq r"
    "t_reason (fold set_field cols r) = t_reason r"
    by (induction cols arbitrary: r; simp)+
qed

lemma set_state_commit_sound: "sound_change b (snd (snd (set_state_commit obs t row state reason cols c b)))"
  unfolding set_state_commit_def Let_def case_prod_beta
  by (rule sound_cas[unfolded case_prod_beta]) (rule cas_shapeI; auto simp: task_step_iff row_ok_def split: option.splits)

lemma set_state_sound: "sound_change b (snd (snd (set_state obs1 obs2 now tid state reason cols c b)))"
  using set_state_commit_sound by (auto simp: set_state_def split: prod.split sum.split)

lemma materialize_sound: "sound_change b (snd (snd (materialize_task obs1 obs2 now tid job c b)))"
  using set_state_sound by (auto simp: materialize_task_def split: option.split)

section \<open>Renewing and requeueing\<close>

lemma renew_token_sound: "sound_change b (snd (snd (renew_task_claim_token obs1 obs2 now tid fence secs c b)))"
proof -
  have "sound_change b b1"
    if "update_tasks (\<lambda>r. claim_row c' tid fence r \<and> expires_after t r \<and> t_seq r = t_seq row)
          (\<lambda>r. r\<lparr>t_expires := Some e, t_updated := t, t_protocol := v2, t_seq := t_seq r + 1\<rparr>) b = Inr (n, b1)"
    for c' t row e n b1
    by (rule sound_silent[OF that]) (auto simp: row_ok_def task_step_iff claim_row_def)
  then show ?thesis
    by (auto simp: renew_task_claim_token_def Let_def case_prod_beta split: option.split sum.split)
qed

lemma renew_sound: "sound_change b (snd (snd (renew_task_claim obs1 obs2 now tid secs c b)))"
  using renew_token_sound by (auto simp: renew_task_claim_def split: option.split)

text \<open>A compare-and-swap in a loop that skips rows that changed.\<close>

lemma update_tasks_miss: "update_tasks p f b = Inr (0, b1) \<Longrightarrow> b1 = b"
proof -
  assume *: "update_tasks p f b = Inr (0, b1)"
  have "update_where p f (tasks b) = tasks b"
    by (rule rowcount_0_update) (simp add: update_tasks_InrD(2)[OF *, symmetric])
  with update_tasks_InrD(1)[OF *] show "b1 = b" by simp
qed

lemma cas_count:
  assumes "brain_ok b" and "cas_shape p f tid s s'" and "update_tasks p f b = Inr (n, b1)"
  shows "n \<le> 1"
proof -
  have "(\<lambda>r. t_id r = tid \<and> p r) = p" using assms(2) by (auto simp: cas_shape_def fun_eq_iff)
  then have "update_tasks (\<lambda>r. t_id r = tid \<and> p r) f b = Inr (n, b1)" using assms(3) by (simp only:)
  from update_tasks_id_count[OF assms(1) this] show ?thesis by (simp split: option.splits)
qed

lemma sound_try:
  assumes "update_tasks p f b = Inr (k, b1)" and "cas_shape p f tid s s'" and "k \<noteq> 1"
  shows "sound_change b b1"
proof -
  have "brain_evolves b b1"
    using update_tasks_evolves[OF assms(1)] assms(2) by (auto simp: cas_shape_def)
  moreover have "brain_ok b1" if "brain_ok b"
  proof -
    have "k = 0" using cas_count[OF that assms(2,1)] assms(3) by simp
    then show ?thesis using assms(1) update_tasks_miss that by blast
  qed
  ultimately show ?thesis by (simp add: sound_change_def)
qed

lemma cas_shape_requeue:
  "cas_shape (\<lambda>r. t_id r = t_id row \<and> t_state r = Running \<and> t_owner r = t_owner row \<and> t_fence r = t_fence row
        \<and> (case t_expires r of None \<Rightarrow> False | Some e \<Rightarrow> e \<le> now) \<and> t_protocol r = v2 \<and> t_seq r = t_seq row)
      (\<lambda>r. r\<lparr>t_state := Queued, t_reason := reason, t_updated := now, t_owner := None, t_expires := None,
            t_protocol := v2, t_seq := t_seq row + 1\<rparr>) (t_id row) Running Queued"
  by (rule cas_shapeI) (auto simp: task_step_iff row_ok_def)

lemma requeue_orphans_sound:
  "requeue_orphans reason now rows n c b = (Inr m, c', b') \<Longrightarrow> sound_change b b'"
proof (induction rows arbitrary: n c b)
  case (Cons row rows)
  obtain k b1 where upd: "update_tasks
      (\<lambda>r. t_id r = t_id row \<and> t_state r = Running \<and> t_owner r = t_owner row \<and> t_fence r = t_fence row
        \<and> (case t_expires r of None \<Rightarrow> False | Some e \<Rightarrow> e \<le> now) \<and> t_protocol r = v2 \<and> t_seq r = t_seq row)
      (\<lambda>r. r\<lparr>t_state := Queued, t_reason := reason, t_updated := now, t_owner := None, t_expires := None,
            t_protocol := v2, t_seq := t_seq row + 1\<rparr>) b = Inr (k, b1)"
    using Cons.prems by (auto split: sum.splits)
  show ?case
  proof (cases "k = 1")
    case True
    with upd Cons.prems Cons.IH have "sound_change (record_transition (t_id row) Running Queued reason now
        (str_or (t_owner row)) (t_fence row) (t_seq row + 1) b1) b'" by simp
    with sound_logged[OF upd[unfolded True] cas_shape_requeue] show ?thesis by (rule sound_change_trans)
  next
    case False
    with upd Cons.prems Cons.IH have "sound_change b1 b'" by simp
    with sound_try[OF upd cas_shape_requeue False] show ?thesis by (rule sound_change_trans)
  qed
qed simp

lemma reconcile_sound: "sound_change b (snd (snd (reconcile_orphan_running obs1 obs2 now reason c b)))"
  using requeue_orphans_sound
  by (auto simp: reconcile_orphan_running_def Let_def split: prod.split sum.split)

section \<open>Materialization\<close>

lemma prepare_sound: "sound_change b (snd (snd (prepare_materialization obs1 obs2 now tid mid path digest spec prio c b)))"
  by (simp add: prepare_materialization_def Let_def case_prod_beta split: option.split)

lemma mark_sound: "sound_change b (snd (snd (mark_materialization obs1 obs2 now mid upd msg c b)))"
  by (simp add: mark_materialization_def Let_def case_prod_beta split: option.split)

lemma cas_shape_park_claim:
  "cas_shape (\<lambda>r. claim_row c tid (t_fence row) r \<and> expires_after t r \<and> t_seq r = t_seq row)
     (park_task job now (t_seq row + 1)) tid Running Deferred"
  by (rule cas_shapeI) (auto simp: park_task_def claim_row_def task_step_iff row_ok_def)

lemma commit_sound: "sound_change b (snd (snd (commit_materialization obs1 obs2 now tid mid job c b)))"
  using sound_logged[OF _ cas_shape_park_claim]
  by (auto simp: commit_materialization_def Let_def case_prod_beta record_transition_outbox
      split: option.split sum.split)

lemma cas_shape_finish:
  "cas_shape (\<lambda>r. t_id r = tid \<and> t_state r = Deferred \<and> t_reason r = ''materialized_awaiting_worker''
        \<and> t_owner r = None \<and> t_expires r = None \<and> t_fence r = t_fence row \<and> t_protocol r = v2 \<and> t_seq r = t_seq row)
     (\<lambda>r. r\<lparr>t_state := target, t_reason := reason, t_updated := t, t_result_ref := rref,
           t_run_dir := rdir, t_job := Some job, t_deferred := None, t_protocol := v2, t_seq := t_seq row + 1\<rparr>)
     tid Deferred target"
  by (rule cas_shapeI) (auto simp: task_step_iff row_ok_def)

lemma finish_sound:
  "sound_change b (snd (snd (finish_materialized_task obs1 obs2 now tid mid job status rref rdir c b)))"
proof -
  consider "status = ''completed''" | "status = ''failed''" | "status \<noteq> ''completed''" "status \<noteq> ''failed''"
    by blast
  then show ?thesis
  proof cases
    case 1
    show ?thesis unfolding 1 using sound_logged[OF _ cas_shape_finish]
      by (auto simp: finish_materialized_task_def Let_def case_prod_beta split: option.split sum.split)
  next
    case 2
    show ?thesis unfolding 2 using sound_logged[OF _ cas_shape_finish]
      by (auto simp: finish_materialized_task_def Let_def case_prod_beta split: option.split sum.split)
  qed (simp add: finish_materialized_task_def)
qed

lemma cas_shape_park_expired:
  "cas_shape (\<lambda>r. t_id r = tid \<and> t_type r = ''run_sweep'' \<and> t_state r = Running \<and> t_owner r \<noteq> None
        \<and> (case t_expires r of None \<Rightarrow> False | Some e \<Rightarrow> e \<le> t) \<and> t_fence r = fence
        \<and> t_protocol r = v2 \<and> t_seq r = seq \<and> t_job r = None)
     (park_task job now (seq + 1)) tid Running Deferred"
  by (rule cas_shapeI) (auto simp: park_task_def task_step_iff row_ok_def)

lemma adopt_sound: "sound_change b (snd (snd (adopt_expired_materialization obs1 obs2 now a binding c b)))"
  using sound_logged[OF _ cas_shape_park_expired]
  by (auto simp: adopt_expired_materialization_def Let_def case_prod_beta record_transition_outbox
      split: option.split sum.split)

lemma release_sound: "sound_change b (snd (release_payloads sha fs ph integ ro app expected compaction b))"
  by (auto simp: release_payloads_def Let_def split: sum.split)

section \<open>Dispositions and the other tables\<close>

lemma cas_shape_skip:
  "cas_shape (\<lambda>r. t_id r = t_id row \<and> t_state r = t_state row \<and> t_fence r = t_fence row \<and> t_protocol r = v2
        \<and> t_seq r = t_seq row \<and> t_owner r = None)
     (\<lambda>r. r\<lparr>t_state := Skipped, t_reason := reason, t_updated := now, t_protocol := v2,
           t_seq := t_seq row + 1, t_owner := None, t_expires := None\<rparr>) (t_id row) (t_state row) Skipped"
  by (rule cas_shapeI) (auto simp: task_step_iff row_ok_def)

lemma skip_pending_sound: "skip_pending now ow ps b = Inr b' \<Longrightarrow> sound_change b b'"
proof (induction ps arbitrary: b)
  case (Cons p ps)
  obtain row d where p: "p = (row, d)" by (cases p)
  obtain b1 where upd: "update_tasks
      (\<lambda>r. t_id r = t_id row \<and> t_state r = t_state row \<and> t_fence r = t_fence row \<and> t_protocol r = v2
        \<and> t_seq r = t_seq row \<and> t_owner r = None)
      (\<lambda>r. r\<lparr>t_state := Skipped, t_reason := d_reason d, t_updated := now, t_protocol := v2,
            t_seq := t_seq row + 1, t_owner := None, t_expires := None\<rparr>) b = Inr (1, b1)"
    and rest: "skip_pending now ow ps (record_transition (t_id row) (t_state row) Skipped (d_reason d) now ow
        (t_fence row) (t_seq row + 1) b1) = Inr b'"
    using Cons.prems unfolding p by (auto split: sum.splits if_splits)
  show ?case
    by (rule sound_change_trans[OF sound_logged[OF upd cas_shape_skip] Cons.IH[OF rest]])
qed simp

lemma disposition_sound: "sound_change b (snd (snd (apply_disposition_plan ph obs now plan c b)))"
  using skip_pending_sound by (auto simp: apply_disposition_plan_def Let_def case_prod_beta split: sum.split)

lemma migrate_sound: "sound_change b (migrate_priority_scale b)"
proof -
  let ?p = "\<lambda>r. 1 \<le> t_priority r \<and> t_priority r \<le> 4"
  let ?f = "\<lambda>r. r\<lparr>t_priority := migrated_priority (t_priority r)\<rparr>"
  let ?b = "b\<lparr>tasks := update_where ?p ?f (tasks b)\<rparr>"
  have keys: "map t_key (filter (\<lambda>r. active (t_state r)) (update_where ?p ?f rows)) =
      map t_key (filter (\<lambda>r. active (t_state r)) rows)" for rows
    by (induction rows) auto
  have "brain_evolves b ?b"
    using task_rows.update_evolves[of "tasks b" ?p ?f]
    by (simp add: brain_evolves_def task_step_iff guarded_columns_def)
  moreover have "brain_ok ?b" if "brain_ok b"
  proof -
    have "unique_active_keys (tasks ?b)"
      using brain_okD(3)[OF that] by (simp add: unique_active_keys_def keys)
    then show ?thesis
      using brain_okD(1,2,4,5)[OF that]
      by (auto simp: brain_ok_def audit_ok_def row_ok_def set_update_where map_key_update_where)
  qed
  ultimately show ?thesis
    by (simp add: sound_change_def migrate_priority_scale_def brain_evolves_def)
qed

section \<open>Steps of the brain\<close>

text \<open>
  One constructor per operation that writes the database, with what the call observed and the state
  of the calling connection.  \<open>Op_Set_Commit\<close> is the second half of \<open>_set_state\<close> on its own, with any
  row read at any earlier time: between the read and the compare-and-swap every other step may happen.
\<close>

datatype brain_op =
    Op_Enqueue task_request time
  | Op_Claim time time claim_request conn
  | Op_Reset_Budget string
  | Op_Set_State time time "time option" int task_state string "task_field list" conn
  | Op_Set_Commit time time task task_state string "task_field list" conn
  | Op_Materialize time time "time option" int int conn
  | Op_Renew time time "time option" int int "time option" conn
  | Op_Reconcile time time "time option" string conn
  | Op_Prepare time time "time option" int string string string string int conn
  | Op_Commit time time "time option" int string int conn
  | Op_Finish time time "time option" int string int string "string option" "string option" conn
  | Op_Dispatched time time "time option" string int conn
  | Op_Ambiguous time time "time option" string conn
  | Op_Adopt time time "time option" adoption "queue_binding option" conn
  | Op_Release "string \<Rightarrow> string" "(string \<Rightarrow> artifact) option" "release_plan \<Rightarrow> string" string bool bool string bool
  | Op_Disposition "json option \<Rightarrow> string" time "time option" "disposition_entry list" conn
  | Op_Migrate
  | Op_Intake intake_row "int option" time
  | Op_Consume string
  | Op_Candidate candidate_row time
  | Op_Candidate_Hard string string time
  | Op_Unique_Hard string string time
  | Op_Unique_Paper string string time

fun brain_step :: "brain_op \<Rightarrow> brain \<Rightarrow> brain" where
  "brain_step (Op_Enqueue q now) b = snd (enqueue_task q now b)"
| "brain_step (Op_Claim o1 o2 k c) b = snd (snd (claim_next_task o1 o2 k c b))"
| "brain_step (Op_Reset_Budget key) b = snd (reset_claim_budget key b)"
| "brain_step (Op_Set_State o1 o2 now tid s reason cols c) b = snd (snd (set_state o1 o2 now tid s reason cols c b))"
| "brain_step (Op_Set_Commit obs t row s reason cols c) b = snd (snd (set_state_commit obs t row s reason cols c b))"
| "brain_step (Op_Materialize o1 o2 now tid job c) b = snd (snd (materialize_task o1 o2 now tid job c b))"
| "brain_step (Op_Renew o1 o2 now tid fence secs c) b = snd (snd (renew_task_claim_token o1 o2 now tid fence secs c b))"
| "brain_step (Op_Reconcile o1 o2 now reason c) b = snd (snd (reconcile_orphan_running o1 o2 now reason c b))"
| "brain_step (Op_Prepare o1 o2 now tid mid path digest spec prio c) b =
     snd (snd (prepare_materialization o1 o2 now tid mid path digest spec prio c b))"
| "brain_step (Op_Commit o1 o2 now tid mid job c) b = snd (snd (commit_materialization o1 o2 now tid mid job c b))"
| "brain_step (Op_Finish o1 o2 now tid mid job st rref rdir c) b =
     snd (snd (finish_materialized_task o1 o2 now tid mid job st rref rdir c b))"
| "brain_step (Op_Dispatched o1 o2 now mid job c) b = snd (snd (mark_materialization_dispatched o1 o2 now mid job c b))"
| "brain_step (Op_Ambiguous o1 o2 now mid c) b = snd (snd (mark_materialization_ambiguous o1 o2 now mid c b))"
| "brain_step (Op_Adopt o1 o2 now a q c) b = snd (snd (adopt_expired_materialization o1 o2 now a q c b))"
| "brain_step (Op_Release sha fs ph integ ro app expected compaction) b =
     snd (release_payloads sha fs ph integ ro app expected compaction b)"
| "brain_step (Op_Disposition ph obs now plan c) b = snd (snd (apply_disposition_plan ph obs now plan c b))"
| "brain_step Op_Migrate b = migrate_priority_scale b"
| "brain_step (Op_Intake e prio now) b = snd (upsert_intake_event e prio now b)"
| "brain_step (Op_Consume eid) b = mark_event_consumed eid b"
| "brain_step (Op_Candidate cand now) b = upsert_unique_candidate cand now b"
| "brain_step (Op_Candidate_Hard cid hard now) b = snd (set_candidate_hard_status cid hard now b)"
| "brain_step (Op_Unique_Hard key hard now) b = snd (set_unique_hard_status key hard now b)"
| "brain_step (Op_Unique_Paper key paper now) b = snd (set_unique_paper_status key paper now b)"

text \<open>The database \<open>_init_db\<close> creates.\<close>

definition empty_brain :: brain where
  "empty_brain =
     \<lparr>tasks = [], next_task = 1, meta = Map.empty, transitions = [], outbox = [], events = [], candidates = []\<rparr>"

lemmas table_defs = upsert_intake_event_def mark_event_consumed_def upsert_unique_candidate_def
  set_candidate_hard_status_def set_unique_hard_status_def set_unique_paper_status_def reset_claim_budget_def

lemmas sound_ops = enqueue_sound claim_sound set_state_sound set_state_commit_sound materialize_sound
  renew_token_sound reconcile_sound prepare_sound commit_sound finish_sound mark_sound adopt_sound
  release_sound disposition_sound migrate_sound

lemma brain_step_sound: "sound_change b (brain_step x b)"
  by (cases x) (simp_all add: sound_ops mark_materialization_dispatched_def
      mark_materialization_ambiguous_def table_defs Let_def)

lemma brain_step_evolves: "brain_evolves b (brain_step x b)"
  using brain_step_sound by (simp add: sound_change_def)

definition task_fence :: "brain \<Rightarrow> int \<Rightarrow> int" where
  "task_fence b tid = (case get_task tid b of None \<Rightarrow> 0 | Some r \<Rightarrow> t_fence r)"

definition task_holds :: "brain \<Rightarrow> int \<Rightarrow> string \<Rightarrow> int \<Rightarrow> bool" where
  "task_holds b tid h f \<longleftrightarrow> (\<exists>r. get_task tid b = Some r \<and> t_owner r = Some h \<and> t_fence r = f)"

interpretation brain_table: fenced_table brain_step brain_ok tasks t_id t_fence t_seq t_owner guarded_columns task_step
proof unfold_locales
  show "brain_ok s \<Longrightarrow> brain_ok (brain_step x s)" for s x
    using brain_step_sound by (simp add: sound_change_def)
  show "rows_evolve task_step fresh_row (tasks s) (tasks (brain_step x s))" for s x
    using brain_step_evolves by (simp add: brain_evolves_def)
qed (simp_all add: task_step_def task_rows.step_trans task_rows.fresh_step fresh_fence_step)

interpretation brain: fencing brain_step brain_ok task_fence task_holds
proof -
  have "task_fence = (\<lambda>b tid. case find (\<lambda>r. t_id r = tid) (tasks b) of None \<Rightarrow> 0 | Some r \<Rightarrow> t_fence r)"
    and "task_holds = (\<lambda>b tid h f. \<exists>r. find (\<lambda>r. t_id r = tid) (tasks b) = Some r \<and> t_owner r = Some h \<and> t_fence r = f)"
    by (simp_all add: fun_eq_iff task_fence_def task_holds_def get_task_def)
  then show "fencing brain_step brain_ok task_fence task_holds"
    using brain_table.table_fencing.fencing_axioms by simp
qed

interpretation brain_rows: versioned brain_step brain_ok "\<lambda>b tid. get_task tid b" t_seq guarded_columns
  using brain_table.table_versions.versioned_axioms by (simp add: get_task_def)

lemma brain_evolves_fence: "brain_evolves b b' \<Longrightarrow> task_fence b tid \<le> task_fence b' tid"
  using task_rows.find_evolves_new[of "tasks b" "tasks b'" tid]
  by (cases "get_task tid b")
     (auto simp: brain_evolves_def task_fence_def get_task_def fresh_fence_def task_step_iff
       split: option.split elim: task_rows.find_evolves)

lemma empty_brain_ok: "brain_ok empty_brain"
  by (simp add: brain_ok_def audit_ok_def empty_brain_def unique_active_keys_def)

end
