(* ===== verification/Brain_Claims.thy ===== *)
theory Brain_Claims
  imports Brain_Safety
begin

text \<open>
  The properties of the task queue: who may hold a task, which task a claim takes and what it writes,
  fairness slots and claim budgets, deduplication of requests, the compare-and-swap of \<open>_set_state\<close>
  under interleaving, and the return of expired claims.
\<close>

section \<open>Claims of a connection\<close>

lemma effective_now_simps [simp]:
  "c_owner (snd (effective_now obs now c)) = c_owner c"
  "c_lease (snd (effective_now obs now c)) = c_lease c"
  "c_claims (snd (effective_now obs now c)) = c_claims c"
  by (simp_all add: effective_now_def Let_def)

lemma effective_now_keeps:
  assumes "effective_now obs now c = (t, c1)"
  shows "c_owner c1 = c_owner c" and "c_lease c1 = c_lease c" and "c_claims c1 = c_claims c"
    and "c_floor c1 = t" and "c_floor c \<le> t" and "obs \<le> t"
  using assms by (auto simp: effective_now_def Let_def)

lemma assert_task_claim_holds:
  assumes "brain_ok b" and "assert_task_claim obs now tid fence c b = (Inr r, c')"
  shows "get_task tid b = Some r" and "t_owner r = Some (c_owner c)" and "t_fence r = fence"
    and "task_holds b tid (c_owner c) fence"
proof -
  obtain t c1 where t: "effective_now obs now c = (t, c1)" by fastforce
  have "find (\<lambda>r. claim_row c tid fence r \<and> expires_after t r) (tasks b) = Some r"
    using assms(2) t by (auto simp: assert_task_claim_def split: option.splits)
  from find_SomeD[OF this] show *: "get_task tid b = Some r" "t_owner r = Some (c_owner c)" "t_fence r = fence"
    using get_task_iff[OF assms(1)] by (auto simp: claim_row_def)
  then show "task_holds b tid (c_owner c) fence" by (simp add: task_holds_def)
qed

lemma not_held_claim_row:
  assumes "brain_ok b" and "\<not> task_holds b tid (c_owner c) fence" and "r \<in> set (tasks b)"
  shows "\<not> claim_row c tid fence r"
  using assms get_task_iff[OF assms(1), of tid r] by (auto simp: claim_row_def task_holds_def)

lemma not_held_find:
  fixes c c' :: conn
  assumes "brain_ok b" and "\<not> task_holds b tid (c_owner c) fence" and "c_owner c' = c_owner c"
  shows "find (claim_row c' tid fence) (tasks b) = None"
    and "find (\<lambda>r. claim_row c' tid fence r \<and> expires_after t r) (tasks b) = None"
  using not_held_claim_row[OF assms(1,2)] assms(3)
  by (auto simp: find_None_iff claim_row_def)

lemma not_held_running_claim:
  fixes c c' :: conn
  assumes "\<not> task_holds b tid (c_owner c) fence" and "get_task tid b = Some r"
    and "c_claims c tid = Some fence" and "c_owner c \<noteq> []"
    and "c_owner c' = c_owner c" "c_claims c' = c_claims c"
  shows "\<not> running_claim c' t r"
  using assms get_task_mem[OF assms(2)] by (cases "t_owner r") (auto simp: running_claim_def task_holds_def)

section \<open>Properties of claims\<close>

text \<open>C31 The database stays well formed along every run of operations by any number of connections:
  ids are unique, at most one active task has a given key, only running tasks carry a claim and every
  claim has an expiry, every row speaks the fenced protocol, and the audit log of each task is a chain
  of transitions that ends in the state the row is in.\<close>

theorem brain_ok_reachable: "brain_ok (run_ops brain_step ops empty_brain)"
  by (rule brain_table.inv_run) (rule empty_brain_ok)

text \<open>C1 Exclusive claims: when two connections pass the claim check on one task, now and after any
  run of operations, the later token is not smaller, and equal tokens mean the same owner.\<close>

theorem claim_tokens_exclusive:
  assumes "brain_ok b"
    and "assert_task_claim obs1 at1 tid f1 c1 b = (Inr r1, c1')"
    and "assert_task_claim obs2 at2 tid f2 c2 (run_ops brain_step ops b) = (Inr r2, c2')"
  shows "f1 \<le> f2 \<and> (f1 = f2 \<longrightarrow> c_owner c1 = c_owner c2)"
proof -
  let ?b = "run_ops brain_step ops b"
  note h1 = assert_task_claim_holds(4)[OF assms(1,2)]
  note h2 = assert_task_claim_holds(4)[OF brain_table.inv_run[OF assms(1)] assms(3)]
  show ?thesis
    using brain.later_token_larger[OF assms(1) h1 h2] brain.token_unique[OF assms(1) h1, of ops "c_owner c2"] h2
      brain.holds_fence[OF assms(1) h1] brain.fence_run[OF assms(1), of tid ops]
      brain.holds_fence[OF brain_table.inv_run[OF assms(1)] h2] by auto
qed

text \<open>A claim that was lost (expired and requeued, finished, or taken over) stays lost: after any run
  of operations the connection's token fails the claim check, renews nothing, records and commits no
  materialization, and none of these attempts changes the database.\<close>

theorem lost_claim_changes_nothing:
  assumes "brain_ok b0" and "\<not> task_holds b0 tid (c_owner c) f" and "f \<le> task_fence b0 tid"
    and "b = run_ops brain_step ops b0" and "c_claims c tid = Some f" and "c_owner c \<noteq> []"
  shows "(\<exists>e c'. assert_task_claim o1 now tid f c b = (Inl e, c')) \<and>
    (\<exists>e c'. renew_task_claim_token o1 o2 now tid f secs c b = (Inl e, c', b)) \<and>
    (\<exists>e c'. renew_task_claim o1 o2 now tid secs c b = (Inl e, c', b)) \<and>
    (\<exists>e c'. prepare_materialization o1 o2 now tid mid path digest spec prio c b = (Inl e, c', b)) \<and>
    (\<exists>e c'. commit_materialization o1 o2 now tid mid job c b = (Inl e, c', b))"
proof -
  have ok: "brain_ok b" using assms(1,4) brain_table.inv_run by simp
  have lost: "\<not> task_holds b tid (c_owner c) f"
    unfolding assms(4) by (rule brain.no_revival[OF assms(1-3)])
  have token: "\<exists>e c'. renew_task_claim_token o1 o2 now tid f secs c b = (Inl e, c', b)"
    using not_held_find[OF ok lost]
    by (simp add: renew_task_claim_token_def Let_def case_prod_beta)
  have running: "\<not> running_claim (snd (effective_now o2 t (snd (effective_now o1 now c)))) u r"
    if "get_task tid b = Some r" for r t u
    by (rule not_held_running_claim[OF lost that assms(5,6)]) simp_all
  show ?thesis
  proof (intro conjI)
    show "\<exists>e c'. assert_task_claim o1 now tid f c b = (Inl e, c')"
      using not_held_find[OF ok lost] by (simp add: assert_task_claim_def case_prod_beta)
    show "\<exists>e c'. renew_task_claim o1 o2 now tid secs c b = (Inl e, c', b)"
      using token assms(5) by (simp add: renew_task_claim_def)
    show "\<exists>e c'. prepare_materialization o1 o2 now tid mid path digest spec prio c b = (Inl e, c', b)"
      using running by (auto simp: prepare_materialization_def Let_def case_prod_beta split: option.split)
    show "\<exists>e c'. commit_materialization o1 o2 now tid mid job c b = (Inl e, c', b)"
      using running by (auto simp: commit_materialization_def Let_def case_prod_beta split: option.split)
  qed (rule token)
qed

section \<open>Selection\<close>

abbreviation claim_pred :: "task \<Rightarrow> task \<Rightarrow> bool" where
  "claim_pred row \<equiv> \<lambda>r. t_id r = t_id row \<and> t_state r = t_state row \<and> t_owner r = None
     \<and> t_fence r = t_fence row \<and> t_protocol r = v2 \<and> t_seq r = t_seq row"

abbreviation claim_update :: "task \<Rightarrow> time \<Rightarrow> conn \<Rightarrow> task \<Rightarrow> task" where
  "claim_update row now c \<equiv> \<lambda>r. r\<lparr>t_state := Running, t_attempts := t_attempts r + 1, t_updated := now,
     t_owner := Some (c_owner c), t_expires := Some (now + c_lease c), t_fence := t_fence row + 1,
     t_protocol := v2, t_seq := t_seq row + 1\<rparr>"

lemma next_claim_SomeD:
  assumes "next_claim k now1 now2 b = Some row"
  shows "row \<in> set (tasks b)" and "claimable k now1 b row"
    and "r \<in> set (tasks b) \<Longrightarrow> claimable k now1 b r \<Longrightarrow> claim_order k now2 b row \<le> claim_order k now2 b r"
    and "t_state row = Queued \<or> t_state row = Deferred"
  using first_by_SomeD[OF assms[unfolded next_claim_def]]
  by (auto simp: claimable_def eligible_def due_def)

lemma next_claim_None: "next_claim k now1 now2 b = None \<longleftrightarrow> (\<forall>r \<in> set (tasks b). \<not> claimable k now1 b r)"
  by (simp add: next_claim_def filter_empty_conv)

lemma claim_swap:
  assumes ok: "brain_ok b" and nxt: "next_claim k now1 now2 b = Some row"
  shows "update_tasks (claim_pred row) (claim_update row now2 c) b =
      Inr (1, b\<lparr>tasks := update_where (claim_pred row) (claim_update row now2 c) (tasks b)\<rparr>)"
    and "get_task j (b\<lparr>tasks := update_where (claim_pred row) (claim_update row now2 c) (tasks b)\<rparr>) =
      (if j = t_id row then Some (claim_update row now2 c row) else get_task j b)"
proof -
  note N = next_claim_SomeD[OF nxt]
  have row: "get_task (t_id row) b = Some row" using get_task_iff[OF ok] N(1) by simp
  have p: "claim_pred row row"
    using row_ok_unclaimed[OF brain_okD(4)[OF ok N(1)]] N(4) by auto
  show "update_tasks (claim_pred row) (claim_update row now2 c) b =
      Inr (1, b\<lparr>tasks := update_where (claim_pred row) (claim_update row now2 c) (tasks b)\<rparr>)"
    using p N(4) by (intro update_tasks_hit[OF ok row]) (auto simp: update_guard_def)
  show "get_task j (b\<lparr>tasks := update_where (claim_pred row) (claim_update row now2 c) (tasks b)\<rparr>) =
      (if j = t_id row then Some (claim_update row now2 c row) else get_task j b)"
    using p by (intro get_task_updated[OF ok row]) auto
qed

lemma claim_meta_get [simp]: "get_task j (claim_meta k b) = get_task j b"
  by (simp add: get_task_def)

text \<open>The whole result of a claim, from the task it selects.\<close>

lemma claim_next_task_eq:
  assumes "brain_ok b" and "claim_request_error k = None" and "\<not> budget_spent k b"
    and "effective_now obs1 (k_now k) c = (now1, c1)" and "effective_now obs2 (Some now1) c1 = (now2, c2)"
  shows "claim_next_task obs1 obs2 k c b =
    (case next_claim k now1 now2 b of
       None \<Rightarrow> (Inr None, c2, b)
     | Some row \<Rightarrow>
         (Inr (Some (claim_update row now2 c row)), c2\<lparr>c_claims := (c_claims c)(t_id row \<mapsto> t_fence row + 1)\<rparr>,
          claim_meta k (record_transition (t_id row) (t_state row) Running ''claimed'' now2 (c_owner c)
            (t_fence row + 1) (t_seq row + 1)
            (b\<lparr>tasks := update_where (claim_pred row) (claim_update row now2 c) (tasks b)\<rparr>))))"
proof (cases "next_claim k now1 now2 b")
  case None
  then show ?thesis using assms by (simp add: claim_next_task_def)
next
  case (Some row)
  note E = effective_now_keeps[OF assms(4)] effective_now_keeps[OF assms(5)]
  show ?thesis
    using assms(2-5) Some claim_swap[OF assms(1) Some, where c = c] E
    by (simp add: claim_next_task_def Let_def)
qed

text \<open>C32 A claim that is allowed takes exactly the first claimable task in the lane's order, or reports
  that none is claimable and writes nothing; the task it takes runs under the connection with the next
  fencing token, a full lease and one more attempt, no other task changes, and it never fails.\<close>

theorem claim_next_task_selects:
  assumes "brain_ok b" and "claim_request_error k = None" and "\<not> budget_spent k b"
    and "effective_now obs1 (k_now k) c = (now1, c1)" and "effective_now obs2 (Some now1) c1 = (now2, c2)"
    and "claim_next_task obs1 obs2 k c b = (res, c', b')"
  shows "(res = Inr None \<and> b' = b \<and> (\<forall>r \<in> set (tasks b). \<not> claimable k now1 b r)) \<or>
    (\<exists>row row'. res = Inr (Some row') \<and> row \<in> set (tasks b) \<and> claimable k now1 b row \<and>
       (\<forall>r \<in> set (tasks b). claimable k now1 b r \<longrightarrow> claim_order k now2 b row \<le> claim_order k now2 b r) \<and>
       row' = row\<lparr>t_state := Running, t_attempts := t_attempts row + 1, t_updated := now2,
          t_owner := Some (c_owner c), t_expires := Some (now2 + c_lease c),
          t_fence := t_fence row + 1, t_protocol := v2, t_seq := t_seq row + 1\<rparr> \<and>
       (\<forall>j. get_task j b' = (if j = t_id row then Some row' else get_task j b)) \<and>
       c_claims c' = (c_claims c)(t_id row \<mapsto> t_fence row + 1))"
proof (cases "next_claim k now1 now2 b")
  case None
  with assms(6) claim_next_task_eq[OF assms(1-5)] show ?thesis by (simp add: next_claim_None)
next
  case (Some row)
  let ?b' = "claim_meta k (record_transition (t_id row) (t_state row) Running ''claimed'' now2 (c_owner c)
    (t_fence row + 1) (t_seq row + 1)
    (b\<lparr>tasks := update_where (claim_pred row) (claim_update row now2 c) (tasks b)\<rparr>))"
  have "res = Inr (Some (claim_update row now2 c row))" "b' = ?b'"
    "c_claims c' = (c_claims c)(t_id row \<mapsto> t_fence row + 1)"
    using assms(6) claim_next_task_eq[OF assms(1-5)] Some by auto
  moreover have "get_task j ?b' = (if j = t_id row then Some (claim_update row now2 c row) else get_task j b)" for j
    using claim_swap(2)[OF assms(1) Some, where j = j and c = c] by simp
  ultimately show ?thesis
    using next_claim_SomeD[OF Some] by blast
qed

section \<open>Fairness and budgets\<close>

lemma meta_keys_differ [simp]:
  "budget_key x \<noteq> fairness_key y" "fairness_key y \<noteq> budget_key x"
  "budget_key x \<noteq> ''priority_scale''" "fairness_key y \<noteq> ''priority_scale''"
  "(budget_key x = budget_key y) = (x = y)"
  by (simp_all add: budget_key_def fairness_key_def)

lemma claim_meta_cursor: "claim_fair k \<Longrightarrow> fairness_cursor k (claim_meta k b) = fairness_cursor k b + 1"
  by (simp add: fairness_cursor_def claim_meta_def Let_def)

lemma fairness_cursor_cong: "meta b = meta b' \<Longrightarrow> fairness_cursor k b = fairness_cursor k b'"
  by (simp add: fairness_cursor_def)

text \<open>What the lane's order says about two tasks of one priority.\<close>

lemma claim_order_slot:
  assumes "claim_fair k" and "claim_order k now b row \<le> claim_order k now b r" and "t_priority r = t_priority row"
  shows "(if fairness_cursor k b mod k_fresh_every k = 0
     then now - or0 (k_window k) \<le> t_created r \<longrightarrow> now - or0 (k_window k) \<le> t_created row
     else t_created r < now - or0 (k_window k) \<longrightarrow> t_created row < now - or0 (k_window k))"
  using assms by (auto simp: claim_order_def Let_def less_eq_prod_def split: if_splits)

text \<open>C33 Fairness lanes: every claim moves the lane's cursor by one; in each slot whose cursor is a
  multiple of \<open>fresh_every\<close> a task created inside the freshness window is taken if one of the chosen
  priority is claimable, and in every other slot an older one is, so neither side starves the other.\<close>

theorem fairness_slots:
  assumes "brain_ok b" and "claim_fair k"
    and "effective_now obs1 (k_now k) c = (now1, c1)" and "effective_now obs2 (Some now1) c1 = (now2, c2)"
    and "claim_next_task obs1 obs2 k c b = (Inr (Some row), c', b')"
    and "get_task j b = Some r" and "claimable k now1 b r" and "t_priority r = t_priority row"
  shows "fairness_cursor k b' = fairness_cursor k b + 1 \<and>
    (if fairness_cursor k b mod k_fresh_every k = 0
     then now2 - or0 (k_window k) \<le> t_created r \<longrightarrow> now2 - or0 (k_window k) \<le> t_created row
     else t_created r < now2 - or0 (k_window k) \<longrightarrow> t_created row < now2 - or0 (k_window k))"
proof -
  have err: "claim_request_error k = None" and budget: "\<not> budget_spent k b"
    using assms(5) by (auto simp: claim_next_task_def Let_def case_prod_beta split: option.splits if_splits)
  note E = claim_next_task_eq[OF assms(1) err budget assms(3,4)]
  obtain row0 where row0: "next_claim k now1 now2 b = Some row0"
    using assms(5) E by (auto split: option.splits)
  have row: "row = claim_update row0 now2 c row0"
    and b': "b' = claim_meta k (record_transition (t_id row0) (t_state row0) Running ''claimed'' now2 (c_owner c)
      (t_fence row0 + 1) (t_seq row0 + 1)
      (b\<lparr>tasks := update_where (claim_pred row0) (claim_update row0 now2 c) (tasks b)\<rparr>))"
    using assms(5) E row0 by auto
  have "r \<in> set (tasks b)" using get_task_mem[OF assms(6)] by simp
  from next_claim_SomeD(3)[OF row0 this assms(7)]
  have le: "claim_order k now2 b row0 \<le> claim_order k now2 b r" .
  have "t_priority r = t_priority row0" "t_created row = t_created row0"
    using assms(8) row by simp_all
  moreover have "fairness_cursor k b' = fairness_cursor k b + 1"
    unfolding b' claim_meta_cursor[OF assms(2)] by (simp cong: fairness_cursor_cong add: fairness_cursor_def)
  ultimately show ?thesis
    using claim_order_slot[OF assms(2) le] by simp
qed

text \<open>Only claims, the reset and the migration write \<open>farm_meta\<close>.\<close>

lemma update_tasks_meta: "update_tasks p f b = Inr (n, b1) \<Longrightarrow> meta b1 = meta b"
  by (drule update_tasks_InrD(1)) simp

lemma insert_task_meta: "insert_task r b = Inr (tid, b1) \<Longrightarrow> meta b1 = meta b"
  by (drule insert_task_InrD(3)) simp

lemma requeue_orphans_meta: "requeue_orphans reason now rows n c b = (Inr m, c', b') \<Longrightarrow> meta b' = meta b"
proof (induction rows arbitrary: n c b)
  case (Cons row rows)
  then show ?case
    by (auto split: sum.splits if_splits dest!: update_tasks_meta)
qed simp

lemma requeue_orphans_meta':
  "fst (requeue_orphans reason now rows n c b) = Inr m \<Longrightarrow>
     meta (snd (snd (requeue_orphans reason now rows n c b))) = meta b"
  by (rule requeue_orphans_meta[of _ _ _ _ _ _ m "fst (snd (requeue_orphans reason now rows n c b))"])
     (simp add: prod_eq_iff)

lemma skip_pending_meta: "skip_pending now ow ps b = Inr b' \<Longrightarrow> meta b' = meta b"
proof (induction ps arbitrary: b)
  case (Cons p ps)
  then show ?case
    by (cases p) (auto split: sum.splits if_splits dest!: update_tasks_meta)
qed simp

lemma absorb_request_meta: "meta (snd (absorb_request q now act b)) = meta b"
  by (auto simp: absorb_request_def split: sum.split dest: update_tasks_meta)

lemma set_state_commit_meta: "meta (snd (snd (set_state_commit obs t row s reason cols c b))) = meta b"
  by (auto simp: set_state_commit_def Let_def case_prod_beta split: sum.split dest: update_tasks_meta)

lemma set_state_meta: "meta (snd (snd (set_state o1 o2 now tid s reason cols c b))) = meta b"
  by (auto simp: set_state_def set_state_commit_meta split: prod.split sum.split)

lemmas op_defs = renew_task_claim_token_def reconcile_orphan_running_def prepare_materialization_def
  commit_materialization_def finish_materialized_task_def mark_materialization_dispatched_def
  mark_materialization_ambiguous_def mark_materialization_def adopt_expired_materialization_def
  release_payloads_def apply_disposition_plan_def materialize_task_def enqueue_task_def

fun writes_meta :: "brain_op \<Rightarrow> bool" where
  "writes_meta (Op_Claim o1 o2 k c) = True"
| "writes_meta (Op_Reset_Budget key) = True"
| "writes_meta Op_Migrate = True"
| "writes_meta _ = False"

lemma brain_step_meta: "\<not> writes_meta x \<Longrightarrow> meta (brain_step x b) = meta b"
  by (cases x)
     (auto simp: op_defs table_defs Let_def case_prod_beta set_state_meta set_state_commit_meta absorb_request_meta
       split: option.split sum.split prod.split
       dest: update_tasks_meta insert_task_meta requeue_orphans_meta' skip_pending_meta)

definition budget_used :: "string \<Rightarrow> brain \<Rightarrow> bool" where
  "budget_used key b \<longleftrightarrow> meta b (budget_key key) = Some (MText ''used'')"

lemma claim_meta_budget:
  "meta b (budget_key key) = Some (MText ''used'') \<Longrightarrow>
     meta (claim_meta k b) (budget_key key) = Some (MText ''used'')"
  by (simp add: claim_meta_def Let_def)

lemma budget_used_cong: "meta b' = meta b \<Longrightarrow> budget_used key b' = budget_used key b"
  by (simp add: budget_used_def)

lemma budget_used_step:
  assumes "x \<noteq> Op_Reset_Budget key" and "budget_used key b"
  shows "budget_used key (brain_step x b)"
proof (cases x)
  case (Op_Claim o1 o2 k c)
  then show ?thesis
    using assms(2)
    by (auto simp: claim_next_task_def Let_def case_prod_beta budget_used_def split: option.split sum.split
        intro!: claim_meta_budget dest!: update_tasks_meta)
next
  case (Op_Reset_Budget key')
  with assms show ?thesis by (simp add: budget_used_def reset_claim_budget_def)
next
  case Op_Migrate
  with assms show ?thesis by (simp add: budget_used_def migrate_priority_scale_def)
qed (use assms(2) budget_used_cong[OF brain_step_meta] in \<open>force simp del: brain_step.simps\<close>)+

lemma budget_used_run:
  "\<forall>x \<in> set ops. x \<noteq> Op_Reset_Budget key \<Longrightarrow> budget_used key b \<Longrightarrow> budget_used key (run_ops brain_step ops b)"
  by (induction ops arbitrary: b) (simp_all add: budget_used_step)

text \<open>A claim budget is spent by the first claim that takes a task under it: from then on, and
  through every run of operations that does not reset this very budget, each claim under the budget
  returns no task and writes nothing.\<close>

theorem claim_budget_spent_once:
  assumes "claim_next_task o1 o2 k c b = (Inr (Some r), c', b')" and "k_budget k = Some key" and "key \<noteq> []"
    and "\<forall>x \<in> set ops. x \<noteq> Op_Reset_Budget key"
    and "k_budget k2 = Some key" and "claim_request_error k2 = None"
  shows "\<exists>c3. claim_next_task o3 o4 k2 c2 (run_ops brain_step ops b') = (Inr None, c3, run_ops brain_step ops b')"
proof -
  have "budget_used key b'"
    using assms(1-3)
    by (auto simp: claim_next_task_def Let_def case_prod_beta budget_used_def claim_meta_def
        split: option.splits sum.splits if_splits)
  then have "budget_used key (run_ops brain_step ops b')"
    using assms(4) by (intro budget_used_run)
  then have "budget_spent k2 (run_ops brain_step ops b')"
    using assms(3,5) by (simp add: budget_spent_def budget_used_def)
  then show ?thesis
    using assms(6) by (simp add: claim_next_task_def Let_def case_prod_beta)
qed

section \<open>Deduplication\<close>

lemma active_task_for_SomeD:
  "active_task_for key b = Some r \<Longrightarrow> r \<in> set (tasks b) \<and> t_key r = key \<and> active (t_state r)"
  by (auto simp: active_task_for_def dest: first_by_in)

lemma active_task_for_None:
  "active_task_for key b = None \<longleftrightarrow> (\<forall>r \<in> set (tasks b). t_key r = key \<longrightarrow> \<not> active (t_state r))"
  by (auto simp: active_task_for_def filter_empty_conv)

lemma last_completed_for_SomeD:
  "last_completed_for key b = Some r \<Longrightarrow> r \<in> set (tasks b) \<and> t_key r = key \<and> t_state r = Completed \<and>
     (\<forall>x \<in> set (tasks b). t_key x = key \<and> t_state x = Completed \<longrightarrow> t_updated x \<le> t_updated r)"
  unfolding last_completed_for_def by (drule first_by_SomeD) auto

lemma last_completed_for_None:
  "last_completed_for key b = None \<longleftrightarrow> (\<forall>r \<in> set (tasks b). t_key r = key \<longrightarrow> t_state r \<noteq> Completed)"
  by (auto simp: last_completed_for_def filter_empty_conv)

abbreviation absorb_update :: "task_request \<Rightarrow> time \<Rightarrow> task \<Rightarrow> task" where
  "absorb_update q now \<equiv> \<lambda>r. r\<lparr>t_priority := q_priority q,
     t_source_event := (case q_source_event q of None \<Rightarrow> t_source_event r | Some e \<Rightarrow> Some e), t_updated := now\<rparr>"

lemma absorb_request_eq:
  assumes ok: "brain_ok b" and act: "act \<in> set (tasks b)" and "absorb_request q now act b = (res, b')"
  shows "res = Inr (t_id act, False)"
    and "get_task j b' = (if j = t_id act \<and> q_priority q < t_priority act
       then Some (absorb_update q now act) else get_task j b)"
proof -
  let ?p = "\<lambda>r. t_id r = t_id act" and ?f = "absorb_update q now"
  have row: "get_task (t_id act) b = Some act" using get_task_iff[OF ok] act by simp
  have "update_tasks ?p ?f b = Inr (1, b\<lparr>tasks := update_where ?p ?f (tasks b)\<rparr>)"
    by (rule update_tasks_hit[OF ok row]) (auto simp: update_guard_def guarded_columns_def)
  moreover have "get_task j (b\<lparr>tasks := update_where ?p ?f (tasks b)\<rparr>) =
      (if j = t_id act then Some (?f act) else get_task j b)" for j
    by (rule get_task_updated[OF ok row]) auto
  ultimately show "res = Inr (t_id act, False)"
    and "get_task j b' = (if j = t_id act \<and> q_priority q < t_priority act
       then Some (absorb_update q now act) else get_task j b)"
    using assms(3) by (auto simp: absorb_request_def split: if_splits)
qed

lemma insert_fresh:
  assumes ok: "brain_ok b" and "\<forall>r \<in> set (tasks b). t_key r = t_key x \<longrightarrow> \<not> active (t_state r)"
    and "t_protocol x = v2"
  shows "insert_task x b = Inr (next_task b, b\<lparr>tasks := tasks b @ [x\<lparr>t_id := next_task b\<rparr>], next_task := next_task b + 1\<rparr>)"
    and "get_task j (b\<lparr>tasks := tasks b @ [x\<lparr>t_id := next_task b\<rparr>], next_task := next_task b + 1\<rparr>) =
      (if j = next_task b then Some (x\<lparr>t_id := next_task b\<rparr>) else get_task j b)"
proof -
  have "unique_active_keys (tasks b @ [x\<lparr>t_id := next_task b\<rparr>])"
    using brain_okD(3)[OF ok] assms(2) by (auto simp: unique_active_keys_def)
  then show "insert_task x b = Inr (next_task b, b\<lparr>tasks := tasks b @ [x\<lparr>t_id := next_task b\<rparr>], next_task := next_task b + 1\<rparr>)"
    using assms(3) by (simp add: insert_task_def insert_guard_def)
  have "get_task (next_task b) b = None"
    using brain_okD(2)[OF ok] by (force simp: get_task_def find_None_iff)
  then show "get_task j (b\<lparr>tasks := tasks b @ [x\<lparr>t_id := next_task b\<rparr>], next_task := next_task b + 1\<rparr>) =
      (if j = next_task b then Some (x\<lparr>t_id := next_task b\<rparr>) else get_task j b)"
    by (auto simp: get_task_def find_append split: option.split)
qed

lemma enqueue_cases:
  assumes "brain_ok b" and "enqueue_task q now b = (res, b')"
  shows "(\<exists>act. act \<in> set (tasks b) \<and> t_key act = q_key q \<and> active (t_state act) \<and>
       res = Inr (t_id act, False) \<and>
       (\<forall>j. get_task j b' = (if j = t_id act \<and> q_priority q < t_priority act
          then Some (absorb_update q now act) else get_task j b))) \<or>
    (\<exists>d. d \<in> set (tasks b) \<and> t_key d = q_key q \<and> t_state d = Completed \<and> now - t_updated d < q_ttl q \<and>
       res = Inr (t_id d, False) \<and> b' = b) \<or>
    ((\<forall>r \<in> set (tasks b). t_key r = q_key q \<longrightarrow> \<not> active (t_state r) \<and>
          (t_state r = Completed \<longrightarrow> q_ttl q \<le> now - t_updated r)) \<and>
       res = Inr (next_task b, True) \<and>
       (\<forall>j. get_task j b' = (if j = next_task b then Some (new_task q now\<lparr>t_id := next_task b\<rparr>) else get_task j b)))"
proof (cases "active_task_for (q_key q) b")
  case (Some act)
  note A = active_task_for_SomeD[OF Some]
  have "absorb_request q now act b = (res, b')" using assms(2) Some by (simp add: enqueue_task_def)
  from absorb_request_eq[OF assms(1) _ this] A show ?thesis by blast
next
  case None
  have idle: "\<forall>r \<in> set (tasks b). t_key r = t_key (new_task q now) \<longrightarrow> \<not> active (t_state r)"
    using None by (simp add: active_task_for_None new_task_def)
  note I = insert_fresh[OF assms(1) idle]
  let ?enq = "case insert_task (new_task q now) b of Inr (tid, b') \<Rightarrow> (Inr (tid, True), b') | Inl e \<Rightarrow> (Inl e, b)"
  have new: "res = Inr (next_task b, True) \<and>
      (\<forall>j. get_task j b' = (if j = next_task b then Some (new_task q now\<lparr>t_id := next_task b\<rparr>) else get_task j b))"
    if "enqueue_task q now b = ?enq"
    using that assms(2) I by (auto simp: new_task_def)
  have idle': "\<forall>r \<in> set (tasks b). t_key r = q_key q \<longrightarrow> \<not> active (t_state r)"
    using None by (simp add: active_task_for_None)
  show ?thesis
  proof (cases "last_completed_for (q_key q) b")
    case none: None
    have "enqueue_task q now b = ?enq" by (simp add: enqueue_task_def None none split: sum.split)
    from new[OF this] idle' none[unfolded last_completed_for_None] show ?thesis by blast
  next
    case (Some d)
    note D = last_completed_for_SomeD[OF Some]
    show ?thesis
    proof (cases "now - t_updated d < q_ttl q")
      case True
      then have "res = Inr (t_id d, False)" "b' = b"
        using assms(2) None Some by (simp_all add: enqueue_task_def)
      with D True show ?thesis by blast
    next
      case False
      then have ttl: "\<forall>r \<in> set (tasks b). t_key r = q_key q \<longrightarrow> t_state r = Completed \<longrightarrow> q_ttl q \<le> now - t_updated r"
        using D by fastforce
      have "enqueue_task q now b = ?enq" by (simp add: enqueue_task_def None Some False split: sum.split)
      from new[OF this] idle' ttl show ?thesis by blast
    qed
  qed
qed

text \<open>C34 A request never creates a duplicate and never fails: an active task with the key absorbs it
  (taking its priority only when more urgent), a completion younger than the freshness window answers
  it without writing, and otherwise exactly one new task is added, leaving all others as they were.\<close>

theorem enqueue_deduplicates:
  assumes "brain_ok b" and "enqueue_task q now b = (res, b')"
  shows "(\<exists>act. act \<in> set (tasks b) \<and> t_key act = q_key q \<and> active (t_state act) \<and>
       res = Inr (t_id act, False) \<and>
       (\<forall>j. get_task j b' = (if j = t_id act \<and> q_priority q < t_priority act
          then Some (absorb_update q now act) else get_task j b))) \<or>
    (\<exists>d. d \<in> set (tasks b) \<and> t_key d = q_key q \<and> t_state d = Completed \<and> now - t_updated d < q_ttl q \<and>
       res = Inr (t_id d, False) \<and> b' = b) \<or>
    ((\<forall>r \<in> set (tasks b). t_key r = q_key q \<longrightarrow> \<not> active (t_state r) \<and>
          (t_state r = Completed \<longrightarrow> q_ttl q \<le> now - t_updated r)) \<and>
       res = Inr (next_task b, True) \<and>
       (\<forall>j. get_task j b' = (if j = next_task b then Some (new_task q now\<lparr>t_id := next_task b\<rparr>) else get_task j b)))"
  by (rule enqueue_cases[OF assms])

section \<open>Moving tasks under interleaving\<close>

lemma get_task_hit:
  assumes ok: "brain_ok b" and upd: "update_tasks p f b = Inr (1, b1)"
    and "\<And>r. p r \<Longrightarrow> t_id r = tid" and "\<And>r. t_id (f r) = t_id r"
  obtains row where "get_task tid b = Some row" and "p row"
    and "\<And>j. get_task j b1 = (if j = tid then Some (f row) else get_task j b)"
proof -
  obtain row where row: "row \<in> set (tasks b)" "p row"
    using update_tasks_InrD(2)[OF upd] rowcount_1_ex[of p "tasks b"] by auto
  then have "get_task tid b = Some row" using get_task_iff[OF ok] assms(3) by simp
  moreover have "get_task j b1 = (if j = tid then Some (f row) else get_task j b)" for j
    using get_task_updated[of b tid row p f, OF ok calculation row(2) assms(3,4)] update_tasks_InrD(1)[OF upd] by simp
  ultimately show ?thesis using row(2) that by blast
qed

lemma set_state_commit_Inr:
  assumes ok: "brain_ok b" and "set_state_commit obs t row state reason cols c b = (Inr (), c', b')"
  obtains cur new now where "get_task (t_id row) b = Some cur" and "t_seq cur = t_seq row"
    and "t_state cur = t_state row" and "t_fence cur = t_fence row"
    and "t_state new = state" and "t_reason new = reason"
    and "t_seq new = t_seq row + 1" and "t_fence new = t_fence row"
    and "t_owner new = (if state = Running then t_owner cur else None)"
    and "\<And>j. get_task j b' = (if j = t_id row then Some new else get_task j b)"
    and "transitions b' = transitions b @ [\<lparr>tr_task = t_id row, tr_from = t_state row, tr_to = state,
      tr_reason = reason, tr_owner = claim_owner_or_self c row, tr_fence = t_fence row,
      tr_seq = t_seq row + 1, tr_at = now\<rparr>]"
proof -
  obtain now c1 where now: "effective_now obs (Some t) c = (now, c1)" by fastforce
  define p where "p = (\<lambda>r :: task. t_id r = t_id row \<and> t_state r = t_state row \<and> t_fence r = t_fence row
      \<and> t_protocol r = v2 \<and> t_seq r = t_seq row
      \<and> (if t_owner row = None then t_owner r = None
         else t_owner r = Some (c_owner c) \<and> (case t_expires r of None \<Rightarrow> False | Some e \<Rightarrow> e > now)))"
  define f where "f = (\<lambda>r :: task. let r1 = r\<lparr>t_state := state, t_reason := reason, t_updated := now,
         t_protocol := v2, t_seq := t_seq row + 1\<rparr>; r2 = fold set_field cols r1
       in if state \<noteq> Running then r2\<lparr>t_owner := None, t_expires := None\<rparr> else r2)"
  have "set_state_commit obs t row state reason cols c b =
      (case update_tasks p f b of
         Inl e \<Rightarrow> (Inl e, c1, b)
       | Inr (n, b1) \<Rightarrow>
           if n \<noteq> 1 then (Inl (StaleTaskClaim ''task changed during transition''), c1, b)
           else (Inr (), (if state \<noteq> Running then c1\<lparr>c_claims := (c_claims c1)(t_id row := None)\<rparr> else c1),
             record_transition (t_id row) (t_state row) state reason now (claim_owner_or_self c row)
               (t_fence row) (t_seq row + 1) b1))"
    by (simp only: set_state_commit_def now p_def f_def Let_def prod.case)
  with assms(2) have "\<exists>b1. update_tasks p f b = Inr (1, b1) \<and>
      b' = record_transition (t_id row) (t_state row) state reason now (claim_owner_or_self c row)
        (t_fence row) (t_seq row + 1) b1"
    by (auto split: sum.splits if_splits)
  then obtain b1 where upd: "update_tasks p f b = Inr (1, b1)"
    and b': "b' = record_transition (t_id row) (t_state row) state reason now (claim_owner_or_self c row)
        (t_fence row) (t_seq row + 1) b1" by blast
  obtain cur where cur: "get_task (t_id row) b = Some cur" "p cur"
      "\<And>j. get_task j b1 = (if j = t_id row then Some (f cur) else get_task j b)"
    by (rule get_task_hit[OF ok upd, of "t_id row"]) (auto simp: p_def f_def Let_def)
  show ?thesis
  proof (rule that[OF cur(1)])
    show "transitions b' = transitions b @ [\<lparr>tr_task = t_id row, tr_from = t_state row, tr_to = state,
      tr_reason = reason, tr_owner = claim_owner_or_self c row, tr_fence = t_fence row,
      tr_seq = t_seq row + 1, tr_at = now\<rparr>]"
      using update_tasks_InrD(1)[OF upd] by (simp add: b' record_transition_def)
  qed (use cur in \<open>auto simp: p_def f_def Let_def b'\<close>)
qed

lemma set_state_commit_miss:
  assumes ok: "brain_ok b" and cur: "get_task (t_id row) b = Some cur" and "t_seq cur \<noteq> t_seq row"
  shows "\<exists>c'. set_state_commit obs t row state reason cols c b
    = (Inl (StaleTaskClaim ''task changed during transition''), c', b)"
proof -
  obtain now c1 where now: "effective_now obs (Some t) c = (now, c1)" by fastforce
  have "\<not> (t_id r = t_id row \<and> t_seq r = t_seq row)" if "r \<in> set (tasks b)" for r
    using get_task_iff[OF ok, of "t_id row" r] cur that assms(3) by auto
  then have "update_tasks (\<lambda>r. t_id r = t_id row \<and> t_state r = t_state row \<and> t_fence r = t_fence row
      \<and> t_protocol r = v2 \<and> t_seq r = t_seq row
      \<and> (if t_owner row = None then t_owner r = None
         else t_owner r = Some (c_owner c) \<and> (case t_expires r of None \<Rightarrow> False | Some e \<Rightarrow> e > now))) f b = Inr (0, b)" for f
    by (intro update_tasks_no_hit[OF ok]) blast
  then show ?thesis by (simp add: set_state_commit_def now)
qed

text \<open>C4 The compare-and-swap of \<open>_set_state\<close> is immune to interleaving: a row read at some time and
  committed after any run of operations by anyone is moved only if its state, claim, attempts, job and
  results are still exactly as read; the commit then advances the sequence, drops the claim unless the
  task keeps running, logs exactly this transition and touches no other task.  If anything guarded had
  changed, the commit raises and changes nothing.\<close>

theorem set_state_commit_exact:
  assumes "brain_ok b0" and "get_task (t_id row) b0 = Some row" and "b = run_ops brain_step ops b0"
    and "set_state_commit obs t row state reason cols c b = (res, c', b')"
  shows "\<exists>cur. get_task (t_id row) b = Some cur \<and>
    (guarded_columns cur \<noteq> guarded_columns row \<longrightarrow>
       res = Inl (StaleTaskClaim ''task changed during transition'') \<and> b' = b) \<and>
    (res = Inr () \<longrightarrow> guarded_columns cur = guarded_columns row \<and>
       (\<exists>new now. t_state new = state \<and> t_seq new = t_seq row + 1 \<and> t_fence new = t_fence row \<and>
          t_owner new = (if state = Running then t_owner row else None) \<and>
          (\<forall>j. get_task j b' = (if j = t_id row then Some new else get_task j b)) \<and>
          transitions b' = transitions b @ [\<lparr>tr_task = t_id row, tr_from = t_state row, tr_to = state,
            tr_reason = reason, tr_owner = claim_owner_or_self c row, tr_fence = t_fence row,
            tr_seq = t_seq row + 1, tr_at = now\<rparr>]))"
proof -
  have ok: "brain_ok b" using assms(1,3) brain_table.inv_run by simp
  obtain cur where cur: "get_task (t_id row) b = Some cur"
      "t_seq cur = t_seq row \<longrightarrow> guarded_columns cur = guarded_columns row"
    using brain_rows.row_run[OF assms(1,2), of ops] assms(3) by blast
  have moved: "res = Inl (StaleTaskClaim ''task changed during transition'') \<and> b' = b"
    if "guarded_columns cur \<noteq> guarded_columns row"
  proof -
    have "t_seq cur \<noteq> t_seq row" using cur(2) that by blast
    from set_state_commit_miss[OF ok cur(1) this, where c = c and obs = obs and t = t and state = state
        and reason = reason and cols = cols]
    show ?thesis using assms(4) by auto
  qed
  moreover have "guarded_columns cur = guarded_columns row \<and>
       (\<exists>new now. t_state new = state \<and> t_seq new = t_seq row + 1 \<and> t_fence new = t_fence row \<and>
          t_owner new = (if state = Running then t_owner row else None) \<and>
          (\<forall>j. get_task j b' = (if j = t_id row then Some new else get_task j b)) \<and>
          transitions b' = transitions b @ [\<lparr>tr_task = t_id row, tr_from = t_state row, tr_to = state,
            tr_reason = reason, tr_owner = claim_owner_or_self c row, tr_fence = t_fence row,
            tr_seq = t_seq row + 1, tr_at = now\<rparr>])" if fin: "res = Inr ()"
  proof -
    have same: "guarded_columns cur = guarded_columns row" using moved fin by blast
    then have "t_owner cur = t_owner row" by (simp add: guarded_columns_def)
    with same show ?thesis
      by (rule_tac set_state_commit_Inr[OF ok assms(4)[unfolded fin]]) (use cur(1) in auto)
  qed
  ultimately show ?thesis using cur(1) by blast
qed

lemma set_state_stale:
  assumes "get_task tid b = Some r" and "t_owner r \<noteq> None"
    and "\<not> holds_claim c (fst (effective_now o1 now c)) r"
  shows "\<exists>c'. set_state o1 o2 now tid state reason cols c b = (Inl (StaleTaskClaim ''stale claim for task''), c', b)"
  using assms by (auto simp: set_state_def set_state_read_def holds_claim_def case_prod_beta)

text \<open>While a task is claimed, only its claimant can end, park or return it: without the stored
  owner, the very token and an unexpired lease, completing, skipping, blocking, failing, deferring,
  requeueing and materializing all raise \<open>StaleTaskClaim\<close> and leave the database as it was.\<close>

theorem claimed_task_needs_claim:
  assumes "get_task tid b = Some r" and "t_owner r \<noteq> None"
    and "\<not> holds_claim c (fst (effective_now o1 now c)) r"
  shows "(\<exists>m c'. complete_task o1 o2 now tid rref rdir job reason c b = (Inl (StaleTaskClaim m), c', b)) \<and>
    (\<exists>m c'. skip_task o1 o2 now tid reason c b = (Inl (StaleTaskClaim m), c', b)) \<and>
    (\<exists>m c'. block_task o1 o2 now tid reason c b = (Inl (StaleTaskClaim m), c', b)) \<and>
    (\<exists>m c'. fail_task o1 o2 now tid reason c b = (Inl (StaleTaskClaim m), c', b)) \<and>
    (\<exists>m c'. defer_task o1 o2 now tid until reason c b = (Inl (StaleTaskClaim m), c', b)) \<and>
    (\<exists>m c'. requeue_task o1 o2 now tid reason c b = (Inl (StaleTaskClaim m), c', b)) \<and>
    (\<exists>m c'. materialize_task o1 o2 now tid job' c b = (Inl (StaleTaskClaim m), c', b))"
proof -
  have S: "\<exists>m c'. set_state o1 o2 now tid state rs cols c b = (Inl (StaleTaskClaim m), c', b)" for state rs cols
    using set_state_stale[OF assms] by blast
  show ?thesis
    unfolding complete_task_def skip_task_def block_task_def fail_task_def defer_task_def requeue_task_def
      materialize_task_def
    by (intro conjI S) (use assms(1) S in auto)
qed

section \<open>Returning expired claims\<close>

abbreviation requeue_pred :: "task \<Rightarrow> time \<Rightarrow> task \<Rightarrow> bool" where
  "requeue_pred row now \<equiv> \<lambda>r. t_id r = t_id row \<and> t_state r = Running \<and> t_owner r = t_owner row \<and> t_fence r = t_fence row
     \<and> (case t_expires r of None \<Rightarrow> False | Some e \<Rightarrow> e \<le> now) \<and> t_protocol r = v2 \<and> t_seq r = t_seq row"

abbreviation requeue_update :: "task \<Rightarrow> string \<Rightarrow> time \<Rightarrow> task \<Rightarrow> task" where
  "requeue_update row reason now \<equiv> \<lambda>r. r\<lparr>t_state := Queued, t_reason := reason, t_updated := now,
     t_owner := None, t_expires := None, t_protocol := v2, t_seq := t_seq row + 1\<rparr>"

text \<open>What the return does to one row.\<close>

definition returned :: "string \<Rightarrow> time \<Rightarrow> task \<Rightarrow> task" where
  "returned reason now r = r\<lparr>t_state := Queued, t_reason := reason, t_updated := now,
     t_owner := None, t_expires := None, t_seq := t_seq r + 1\<rparr>"

lemma returned_eq: "orphan now r \<Longrightarrow> requeue_update r reason now r = returned reason now r"
  by (simp add: orphan_def returned_def)

lemma requeue_orphans_eq:
  assumes "brain_ok b" and "distinct (map t_id rows)"
    and "\<And>r. r \<in> set rows \<Longrightarrow> get_task (t_id r) b = Some r \<and> orphan now r"
  shows "\<exists>c' b'. requeue_orphans reason now rows n c b = (Inr (n + length rows), c', b') \<and>
    (\<forall>j. get_task j b' = (case find (\<lambda>r. t_id r = j) rows of None \<Rightarrow> get_task j b | Some r \<Rightarrow> Some (returned reason now r)))"
  using assms
proof (induction rows arbitrary: n c b)
  case (Cons row rows)
  let ?b1 = "b\<lparr>tasks := update_where (requeue_pred row now) (requeue_update row reason now) (tasks b)\<rparr>"
  let ?b2 = "record_transition (t_id row) Running Queued reason now (str_or (t_owner row)) (t_fence row) (t_seq row + 1) ?b1"
  have row: "get_task (t_id row) b = Some row" and orph: "orphan now row" using Cons.prems(3)[of row] by simp_all
  have p: "requeue_pred row now row" using orph by (simp add: orphan_def)
  have upd: "update_tasks (requeue_pred row now) (requeue_update row reason now) b = Inr (1, ?b1)"
    using orph p by (intro update_tasks_hit[OF Cons.prems(1) row]) (auto simp: update_guard_def orphan_def)
  have get: "get_task j ?b1 = (if j = t_id row then Some (requeue_update row reason now row) else get_task j b)" for j
    using p by (intro get_task_updated[OF Cons.prems(1) row]) auto
  have ok2: "brain_ok ?b2" by (rule logged_update_ok[OF Cons.prems(1) upd refl cas_shape_requeue])
  have rest: "get_task (t_id r) ?b2 = Some r \<and> orphan now r" if "r \<in> set rows" for r
  proof -
    have "t_id r \<noteq> t_id row" using Cons.prems(2) that by (auto simp: image_iff)
    with Cons.prems(3)[of r] that show ?thesis by (simp add: get)
  qed
  obtain c' b' where IH: "requeue_orphans reason now rows (Suc n) (c\<lparr>c_claims := (c_claims c)(t_id row := None)\<rparr>) ?b2
        = (Inr (Suc n + length rows), c', b')"
      "\<forall>j. get_task j b' = (case find (\<lambda>r. t_id r = j) rows of None \<Rightarrow> get_task j ?b2 | Some r \<Rightarrow> Some (returned reason now r))"
    using Cons.IH[OF ok2 _ rest, of "Suc n" "c\<lparr>c_claims := (c_claims c)(t_id row := None)\<rparr>"] Cons.prems(2) by auto
  have "find (\<lambda>r. t_id r = t_id row) rows = None"
    using Cons.prems(2) by (auto simp: find_None_iff) (metis image_eqI)
  then have "get_task j b' = (case find (\<lambda>r. t_id r = j) (row # rows) of None \<Rightarrow> get_task j b
      | Some r \<Rightarrow> Some (returned reason now r))" for j
    using IH(2) returned_eq[OF orph, of reason] by (cases "j = t_id row"; cases "find (\<lambda>r. t_id r = j) rows") (simp_all add: get)
  moreover have "requeue_orphans reason now (row # rows) n c b = (Inr (n + length (row # rows)), c', b')"
    using IH(1) upd by simp
  ultimately show ?case by blast
qed simp

text \<open>The return of expired claims is exact: it never fails, it counts and requeues every running
  task whose claim has expired at the time it acts on, with the token kept and the sequence advanced,
  and it touches no other task, in particular no claim that is still live.\<close>

theorem reconcile_returns_expired:
  assumes "brain_ok b" and "effective_now o1 now c = (t1, c1)" and "effective_now o2 (Some t1) c1 = (t, c2)"
  shows "\<exists>c' b'. reconcile_orphan_running o1 o2 now reason c b = (Inr (rowcount (orphan t) (tasks b)), c', b') \<and>
    (\<forall>j. get_task j b' = map_option (\<lambda>r. if orphan t r then returned reason t r else r) (get_task j b))"
proof -
  let ?rows = "filter (orphan t) (tasks b)"
  note ok = assms(1)
  have distinct: "distinct (map t_id ?rows)"
    using brain_okD(1)[OF ok] by (simp add: distinct_map_filter)
  have rows: "get_task (t_id r) b = Some r \<and> orphan t r" if "r \<in> set ?rows" for r
    using that get_task_iff[OF ok] by simp
  obtain c' b' where *: "requeue_orphans reason t ?rows 0 c2 b = (Inr (0 + length ?rows), c', b')"
      "\<forall>j. get_task j b' = (case find (\<lambda>r. t_id r = j) ?rows of None \<Rightarrow> get_task j b | Some r \<Rightarrow> Some (returned reason t r))"
    using requeue_orphans_eq[OF ok distinct rows, of reason 0 c2] by blast
  have "(case find (\<lambda>r. t_id r = j) ?rows of None \<Rightarrow> get_task j b | Some r \<Rightarrow> Some (returned reason t r)) =
      map_option (\<lambda>r. if orphan t r then returned reason t r else r) (get_task j b)" for j
  proof (cases "find (\<lambda>r. t_id r = j) ?rows")
    case None
    have "\<not> orphan t r" if "get_task j b = Some r" for r
      using None get_task_mem[OF that] by (auto simp: find_None_iff)
    with None show ?thesis by (auto simp: map_option_case split: option.split)
  next
    case (Some r)
    with rows[of r] find_SomeD[OF Some] show ?thesis by auto
  qed
  with * assms(2,3) show ?thesis
    by (simp add: reconcile_orphan_running_def rowcount_def)
qed

section \<open>Witnesses\<close>

text \<open>One sweep task, queued at time 100; the same task claimed by \<open>w1\<close> until time 170.\<close>

definition demo_request :: task_request where
  "demo_request = \<lparr>q_type = ''run_sweep'', q_key = ''k'', q_priority = 20, q_symbol = None, q_group = None,
     q_timeframe = None, q_family = None, q_params_hash = None, q_fingerprint = None, q_depends = None,
     q_source_event = None, q_payload = JObj [], q_state = Queued, q_reason = [], q_deferred = None, q_ttl = 60\<rparr>"

definition demo_task :: task where
  "demo_task = (new_task demo_request 100)\<lparr>t_id := 1\<rparr>"

definition demo_running_task :: task where
  "demo_running_task = demo_task\<lparr>t_state := Running, t_owner := Some ''w1'', t_expires := Some 170,
     t_fence := 1, t_seq := 1, t_attempts := 1\<rparr>"

definition demo_queued :: brain where
  "demo_queued = empty_brain\<lparr>tasks := [demo_task], next_task := 2\<rparr>"

definition demo_running :: brain where
  "demo_running = empty_brain\<lparr>tasks := [demo_running_task], next_task := 2\<rparr>"

definition demo_conn :: conn where
  "demo_conn = \<lparr>c_owner = ''w1'', c_lease = 60, c_floor = 0, c_claims = Map.empty\<rparr>"

definition demo_holder :: conn where
  "demo_holder = demo_conn\<lparr>c_claims := [1 \<mapsto> 1]\<rparr>"

definition demo_claim :: claim_request where
  "demo_claim = \<lparr>k_types = [''run_sweep''], k_now = None, k_minimum_created = None,
     k_fairness = Some ''lane'', k_window = Some 50, k_fresh_every = 2, k_budget = Some ''run''\<rparr>"

lemmas demo_brain_defs = demo_request_def demo_task_def demo_running_task_def demo_queued_def demo_running_def
  demo_conn_def demo_holder_def demo_claim_def empty_brain_def new_task_def

lemma demo_brains_ok: "brain_ok demo_queued" "brain_ok demo_running"
  by (simp_all add: demo_brain_defs brain_ok_def audit_ok_def unique_active_keys_def row_ok_def)

lemma demo_get: "get_task 1 demo_queued = Some demo_task" "get_task 1 demo_running = Some demo_running_task"
  by (simp_all add: demo_brain_defs get_task_def)

lemma demo_clock: "effective_now 110 None demo_conn = (110, demo_conn\<lparr>c_floor := 110\<rparr>)"
    "effective_now 110 (Some 110) (demo_conn\<lparr>c_floor := 110\<rparr>) = (110, demo_conn\<lparr>c_floor := 110\<rparr>)"
    "effective_now 180 None demo_conn = (180, demo_conn\<lparr>c_floor := 180\<rparr>)"
    "effective_now 180 (Some 180) (demo_conn\<lparr>c_floor := 180\<rparr>) = (180, demo_conn\<lparr>c_floor := 180\<rparr>)"
  by (simp_all add: effective_now_def clock_max_def demo_conn_def)

lemma demo_claims: "claim_request_error demo_claim = None" "\<not> budget_spent demo_claim demo_queued"
    "claim_fair demo_claim" "claimable demo_claim 110 demo_queued demo_task"
  by (simp_all add: claim_request_error_def claim_fair_def budget_spent_def claimable_def eligible_def due_def
      dependency_done_def demo_brain_defs)

lemma demo_next: "next_claim demo_claim 110 110 demo_queued = Some demo_task"
  using demo_claims(4) by (simp add: next_claim_def demo_queued_def)

lemma demo_claim_result:
  "\<exists>c' b'. claim_next_task 110 110 demo_claim demo_conn demo_queued =
     (Inr (Some (claim_update demo_task 110 demo_conn demo_task)), c', b')"
proof -
  have "k_now demo_claim = None" by (simp add: demo_claim_def)
  from claim_next_task_eq[OF demo_brains_ok(1) demo_claims(1,2), of 110 demo_conn 110, unfolded this, OF demo_clock(1,2)]
  show ?thesis by (simp add: demo_next)
qed

lemma demo_assert: "\<exists>c'. assert_task_claim 150 None 1 1 demo_conn demo_running = (Inr demo_running_task, c')"
  by (simp add: assert_task_claim_def effective_now_def clock_max_def claim_row_def expires_after_def demo_brain_defs)

theorem claim_tokens_exclusive_witness:
  "\<exists>r c'. assert_task_claim 150 None 1 1 demo_conn demo_running = (Inr r, c') \<and>
     (1::int) \<le> 1 \<and> ((1::int) = 1 \<longrightarrow> c_owner demo_conn = c_owner demo_conn)"
proof -
  obtain c' where a: "assert_task_claim 150 None 1 1 demo_conn demo_running = (Inr demo_running_task, c')"
    using demo_assert by blast
  show ?thesis
    using claim_tokens_exclusive[OF demo_brains_ok(2) a, where ops = "[]", unfolded run_ops_Nil, OF a] a by blast
qed

theorem lost_claim_changes_nothing_witness:
  "\<exists>e c'. renew_task_claim_token 120 120 None 1 0 None (demo_conn\<lparr>c_claims := [1 \<mapsto> 0]\<rparr>) demo_running
     = (Inl e, c', demo_running)"
proof -
  have lost: "\<not> task_holds demo_running 1 (c_owner (demo_conn\<lparr>c_claims := [1 \<mapsto> 0]\<rparr>)) 0"
    using demo_get(2) by (simp add: task_holds_def demo_running_task_def)
  have fence: "0 \<le> task_fence demo_running 1"
    using demo_get(2) by (simp add: task_fence_def demo_running_task_def)
  have "demo_running = run_ops brain_step [] demo_running" by simp
  from lost_claim_changes_nothing[OF demo_brains_ok(2) lost fence this]
  show ?thesis by (simp add: demo_conn_def)
qed

theorem claim_next_task_selects_witness:
  "\<exists>b'. get_task 1 b' = Some (claim_update demo_task 110 demo_conn demo_task) \<and>
     (\<exists>c'. claim_next_task 110 110 demo_claim demo_conn demo_queued =
       (Inr (Some (claim_update demo_task 110 demo_conn demo_task)), c', b'))"
proof -
  obtain c' b' where r: "claim_next_task 110 110 demo_claim demo_conn demo_queued =
      (Inr (Some (claim_update demo_task 110 demo_conn demo_task)), c', b')"
    using demo_claim_result by blast
  have "k_now demo_claim = None" by (simp add: demo_claim_def)
  from claim_next_task_selects[OF demo_brains_ok(1) demo_claims(1,2), unfolded this, OF demo_clock(1,2) r]
  have "get_task 1 b' = Some (claim_update demo_task 110 demo_conn demo_task)"
    by (auto simp: demo_queued_def demo_task_def)
  with r show ?thesis by blast
qed

theorem fairness_slots_witness:
  "\<exists>b'. fairness_cursor demo_claim b' = fairness_cursor demo_claim demo_queued + 1"
proof -
  obtain c' b' where r: "claim_next_task 110 110 demo_claim demo_conn demo_queued =
      (Inr (Some (claim_update demo_task 110 demo_conn demo_task)), c', b')"
    using demo_claim_result by blast
  have n: "k_now demo_claim = None" by (simp add: demo_claim_def)
  have "t_priority demo_task = t_priority (claim_update demo_task 110 demo_conn demo_task)" by simp
  from fairness_slots[OF demo_brains_ok(1) demo_claims(3), unfolded n, OF demo_clock(1,2) r demo_get(1) demo_claims(4) this]
  show ?thesis by blast
qed

theorem claim_budget_spent_once_witness:
  "\<exists>b' c3. claim_next_task 120 120 demo_claim demo_conn b' = (Inr None, c3, b')"
proof -
  obtain c' b' where r: "claim_next_task 110 110 demo_claim demo_conn demo_queued =
      (Inr (Some (claim_update demo_task 110 demo_conn demo_task)), c', b')"
    using demo_claim_result by blast
  have k: "k_budget demo_claim = Some ''run''" "''run'' \<noteq> []" by (simp_all add: demo_claim_def)
  have "\<forall>x \<in> set []. x \<noteq> Op_Reset_Budget ''run''" by simp
  from claim_budget_spent_once[OF r k this k(1) demo_claims(1), unfolded run_ops_Nil]
  show ?thesis by blast
qed

theorem enqueue_deduplicates_witness: "fst (enqueue_task demo_request 130 demo_running) = Inr (1, False)"
proof -
  obtain res b' where e: "enqueue_task demo_request 130 demo_running = (res, b')" by fastforce
  from enqueue_deduplicates[OF demo_brains_ok(2) e] show ?thesis
    using e by (auto simp: demo_brain_defs)
qed

theorem set_state_commit_exact_witness:
  "\<exists>c' b'. set_state_commit 150 150 demo_running_task Completed ''ok'' [] demo_holder demo_running = (Inr (), c', b') \<and>
     (\<exists>new. get_task 1 b' = Some new \<and> t_state new = Completed \<and> t_owner new = None)"
proof -
  have "fst (set_state_commit 150 150 demo_running_task Completed ''ok'' [] demo_holder demo_running) = Inr ()"
    by (simp add: set_state_commit_def effective_now_def clock_max_def update_tasks_def update_guard_def
        unique_active_keys_def guarded_columns_def demo_brain_defs)
  then obtain c' b' where r:
      "set_state_commit 150 150 demo_running_task Completed ''ok'' [] demo_holder demo_running = (Inr (), c', b')"
    by (metis prod.collapse)
  have id: "t_id demo_running_task = 1" by (simp add: demo_running_task_def demo_task_def)
  have b: "demo_running = run_ops brain_step [] demo_running" by simp
  from set_state_commit_exact[OF demo_brains_ok(2) _ b r] show ?thesis
    using r demo_get(2) id by auto
qed

theorem claimed_task_needs_claim_witness:
  "\<exists>m c'. complete_task 150 150 None 1 None None None ''ok'' demo_conn demo_running = (Inl (StaleTaskClaim m), c', demo_running)"
proof -
  have "t_owner demo_running_task \<noteq> None" by (simp add: demo_running_task_def)
  moreover have "\<not> holds_claim demo_conn (fst (effective_now 150 None demo_conn)) demo_running_task"
    by (simp add: holds_claim_def demo_conn_def)
  ultimately show ?thesis using claimed_task_needs_claim[OF demo_get(2)] by blast
qed

theorem reconcile_returns_expired_witness:
  "\<exists>c' b'. reconcile_orphan_running 180 180 None ''lost'' demo_conn demo_running = (Inr 1, c', b') \<and>
     get_task 1 b' = Some (returned ''lost'' 180 demo_running_task)"
proof -
  have "orphan 180 demo_running_task" by (simp add: orphan_def demo_brain_defs)
  moreover from this have "rowcount (orphan 180) (tasks demo_running) = 1" by (simp add: demo_running_def)
  ultimately show ?thesis
    using reconcile_returns_expired[OF demo_brains_ok(2) demo_clock(3,4), of "''lost''"] demo_get(2) by auto
qed

end
