(* ===== verification/Validation_Safety.thy ===== *)
theory Validation_Safety
  imports Brain_Claims
begin

text \<open>
  The properties of the export-validation tasks and of the other tables: disposition plans are exact,
  applied as a whole and idempotent; a plan agrees with the classification of single tasks; intake
  events are delivered until consumed and never again; the batched id lookup is a plain lookup; the
  candidate table keeps one row per key; and the completion verdict says exactly what it counts.
\<close>

section \<open>Disposition plans\<close>

abbreviation skip_pred :: "task \<Rightarrow> task \<Rightarrow> bool" where
  "skip_pred row \<equiv> \<lambda>r. t_id r = t_id row \<and> t_state r = t_state row \<and> t_fence r = t_fence row \<and> t_protocol r = v2
     \<and> t_seq r = t_seq row \<and> t_owner r = None"

abbreviation skip_update :: "task \<Rightarrow> string \<Rightarrow> time \<Rightarrow> task \<Rightarrow> task" where
  "skip_update row reason now \<equiv> \<lambda>r. r\<lparr>t_state := Skipped, t_reason := reason, t_updated := now, t_protocol := v2,
     t_seq := t_seq row + 1, t_owner := None, t_expires := None\<rparr>"

text \<open>A row the plan has skipped, the row of every task after it, and the transitions it records.\<close>

definition skipped_by :: "disposition_entry \<Rightarrow> time \<Rightarrow> task \<Rightarrow> task" where
  "skipped_by d now r = r\<lparr>t_state := Skipped, t_reason := d_reason d, t_updated := now, t_protocol := v2,
     t_seq := t_seq r + 1, t_owner := None, t_expires := None\<rparr>"

definition disposed :: "disposition_entry list \<Rightarrow> time \<Rightarrow> task \<Rightarrow> task" where
  "disposed plan now r = (case find (\<lambda>d. d_task d = t_id r) plan of None \<Rightarrow> r | Some d \<Rightarrow> skipped_by d now r)"

definition skip_record :: "time \<Rightarrow> string \<Rightarrow> disposition_entry \<Rightarrow> transition" where
  "skip_record now owner d = \<lparr>tr_task = d_task d, tr_from = d_state d, tr_to = Skipped, tr_reason = d_reason d,
     tr_owner = owner, tr_fence = d_fence d, tr_seq = d_seq d + 1, tr_at = now\<rparr>"

definition disposed_brain :: "disposition_entry list \<Rightarrow> time \<Rightarrow> string \<Rightarrow> brain \<Rightarrow> brain" where
  "disposed_brain plan now owner b = b\<lparr>tasks := map (disposed plan now) (tasks b),
     transitions := transitions b @ map (skip_record now owner) plan\<rparr>"

lemma t_id_disposed [simp]: "t_id (disposed plan now r) = t_id r"
  by (simp add: disposed_def skipped_by_def split: option.split)

lemma disposed_Nil [simp]: "disposed_brain [] now owner b = b"
  by (simp add: disposed_brain_def disposed_def[abs_def])

lemma find_map_keep: "(\<And>x. P (f x) \<longleftrightarrow> P x) \<Longrightarrow> find P (map f xs) = map_option f (find P xs)"
  by (induction xs) simp_all

lemma get_task_disposed:
  "get_task j (disposed_brain plan now owner b) =
     (case find (\<lambda>d. d_task d = j) plan of None \<Rightarrow> get_task j b | Some d \<Rightarrow> map_option (skipped_by d now) (get_task j b))"
proof -
  have "get_task j (disposed_brain plan now owner b) = map_option (disposed plan now) (get_task j b)"
    by (simp add: get_task_def disposed_brain_def find_map_keep)
  then show ?thesis
    by (cases "get_task j b") (auto simp: disposed_def dest: get_task_mem split: option.split)
qed

text \<open>A planned task as the plan found it, and a task as the plan leaves it.\<close>

definition disposition_due :: "(json option \<Rightarrow> string) \<Rightarrow> brain \<Rightarrow> disposition_entry \<Rightarrow> bool" where
  "disposition_due ph b d \<longleftrightarrow> (\<exists>r. get_task (d_task d) b = Some r \<and> t_type r = ''export_validation'' \<and>
     t_state r = d_state d \<and> (t_state r = Queued \<or> t_state r = Deferred) \<and> t_fence r = d_fence d \<and> t_seq r = d_seq d \<and>
     ph (t_payload r) = d_hash d \<and> t_owner r = None)"

definition disposition_done :: "(json option \<Rightarrow> string) \<Rightarrow> brain \<Rightarrow> disposition_entry \<Rightarrow> bool" where
  "disposition_done ph b d \<longleftrightarrow> (\<exists>r. get_task (d_task d) b = Some r \<and> t_type r = ''export_validation'' \<and>
     t_state r = Skipped \<and> t_reason r = d_reason d \<and> t_fence r = d_fence d \<and> t_seq r = d_seq d + 1 \<and>
     ph (t_payload r) = d_hash d \<and> t_owner r = None)"

lemma check_entry_Pending:
  "check_entry ph d b = Still_Pending r \<Longrightarrow>
     get_task (d_task d) b = Some r \<and> t_type r = ''export_validation'' \<and> t_state r = d_state d \<and>
     (t_state r = Queued \<or> t_state r = Deferred) \<and> t_fence r = d_fence d \<and> t_seq r = d_seq d \<and>
     ph (t_payload r) = d_hash d \<and> t_owner r = None"
  by (auto simp: check_entry_def split: option.splits if_splits)

lemma check_entry_due: "(\<exists>r. check_entry ph d b = Still_Pending r) \<longleftrightarrow> disposition_due ph b d"
  by (auto simp: disposition_due_def check_entry_def split: option.splits if_splits)

lemma check_entry_done: "check_entry ph d b = Already \<longleftrightarrow> disposition_done ph b d"
  by (auto simp: disposition_done_def check_entry_def split: option.splits)

lemma skip_pending_exact:
  assumes "brain_ok b" and "distinct (map (d_task \<circ> snd) ps)"
    and "\<And>row d. (row, d) \<in> set ps \<Longrightarrow> check_entry ph d b = Still_Pending row"
  shows "skip_pending now ow ps b = Inr (disposed_brain (map snd ps) now ow b)"
  using assms
proof (induction ps arbitrary: b)
  case (Cons p ps)
  obtain row d where p: "p = (row, d)" by (cases p)
  let ?upd = "update_where (skip_pred row) (skip_update row (d_reason d) now) (tasks b)"
  let ?b1 = "b\<lparr>tasks := ?upd\<rparr>"
  let ?b2 = "record_transition (t_id row) (t_state row) Skipped (d_reason d) now ow (t_fence row) (t_seq row + 1) ?b1"
  note P = check_entry_Pending[OF Cons.prems(3)[of row d]]
  have row: "get_task (t_id row) b = Some row" "t_owner row = None" "t_id row = d_task d" "t_state row = d_state d"
      "t_fence row = d_fence d" "t_seq row = d_seq d"
    using P p get_task_mem[of "d_task d" b row] by simp_all
  have "row_ok row" using brain_okD(4)[OF Cons.prems(1)] get_task_mem[OF row(1)] by blast
  then have hit: "skip_pred row row" using row(2) by (simp add: row_ok_def)
  have upd: "update_tasks (skip_pred row) (skip_update row (d_reason d) now) b = Inr (1, ?b1)"
    using hit by (intro update_tasks_hit[OF Cons.prems(1) row(1)]) (auto simp: update_guard_def)
  have get: "get_task j ?b1 = (if j = t_id row then Some (skip_update row (d_reason d) now row) else get_task j b)" for j
    using hit by (intro get_task_updated[OF Cons.prems(1) row(1)]) auto
  have ok2: "brain_ok ?b2" by (rule logged_update_ok[OF Cons.prems(1) upd refl cas_shape_skip])
  have single: "?upd = update_where (\<lambda>r. r = row) (skip_update row (d_reason d) now) (tasks b)"
    using brain_okD(1)[OF Cons.prems(1)] row(1)[unfolded get_task_def] hit
    by (rule update_where_single(2)[where key = t_id]) simp
  have new: "d_task e \<noteq> d_task d" if "(r, e) \<in> set ps" for r e
    using Cons.prems(2) that p by (force simp: image_iff)
  have "check_entry ph e ?b2 = Still_Pending r" if re: "(r, e) \<in> set ps" for r e
  proof -
    have "get_task (d_task e) ?b2 = get_task (d_task e) b" using new[OF re] row(3) get[of "d_task e"] by simp
    then show ?thesis using Cons.prems(3)[of r e] re by (simp add: check_entry_def)
  qed
  moreover have "distinct (map (d_task \<circ> snd) ps)" using Cons.prems(2) by (simp add: comp_def)
  ultimately have IH: "skip_pending now ow ps ?b2 = Inr (disposed_brain (map snd ps) now ow ?b2)"
    by (intro Cons.IH[OF ok2]) blast+
  have none: "find (\<lambda>e. d_task e = d_task d) (map snd ps) = None"
    using new by (auto simp: find_None_iff)
  have each: "disposed (map snd ps) now (if r = row then skip_update row (d_reason d) now r else r) =
      disposed (map snd (p # ps)) now r" if r: "r \<in> set (tasks b)" for r
  proof (cases "r = row")
    case True
    then show ?thesis using none row(3) p by (simp add: disposed_def skipped_by_def)
  next
    case False
    then have "t_id r \<noteq> d_task d"
      using r row(1,3) get_task_iff[OF Cons.prems(1), of "d_task d" r] by auto
    with False show ?thesis using p by (simp add: disposed_def)
  qed
  have moved: "map (disposed (map snd ps) now) ?upd = map (disposed (map snd (p # ps)) now) (tasks b)"
    unfolding single unfolding update_where_def map_map comp_def by (rule map_cong[OF refl each])
  have "disposed_brain (map snd ps) now ow ?b2 = disposed_brain (map snd (p # ps)) now ow b"
    using moved row p by (simp add: disposed_brain_def record_transition_def skip_record_def)
  then show ?case using IH upd p by simp
qed simp

text \<open>The check of a plan: every entry is already applied, or every entry matches its row.\<close>

lemma check_plan_fresh:
  "check_plan ph plan b = Inr (0, ps) \<Longrightarrow>
     plan = map snd ps \<and> (\<forall>r d. (r, d) \<in> set ps \<longrightarrow> check_entry ph d b = Still_Pending r)"
  by (induction plan arbitrary: ps) (auto split: plan_check.splits sum.splits)

lemma check_plan_done: "check_plan ph plan b = Inr (n, []) \<Longrightarrow> n = length plan"
  by (induction plan arbitrary: n) (auto split: plan_check.splits sum.splits)

lemma check_plan_all:
  assumes "\<And>d. d \<in> set plan \<Longrightarrow> check_entry ph d b = Still_Pending (g d)"
  shows "check_plan ph plan b = Inr (0, map (\<lambda>d. (g d, d)) plan)"
  using assms by (induction plan) simp_all

lemma check_plan_already:
  assumes "\<And>d. d \<in> set plan \<Longrightarrow> check_entry ph d b = Already"
  shows "check_plan ph plan b = Inr (length plan, [])"
  using assms by (induction plan) simp_all

lemma check_plan_cases:
  assumes "check_plan ph plan b = res"
  shows "(case res of
       Inl e \<Rightarrow> (\<exists>msg. e = StaleTaskClaim msg) \<and> (\<exists>d \<in> set plan. \<not> disposition_due ph b d \<and> \<not> disposition_done ph b d)
     | Inr (k, ps) \<Rightarrow> (\<forall>d \<in> set plan. disposition_due ph b d \<or> disposition_done ph b d) \<and>
         (k = 0 \<longleftrightarrow> (\<forall>d \<in> set plan. disposition_due ph b d)) \<and> (ps = [] \<longleftrightarrow> (\<forall>d \<in> set plan. disposition_done ph b d)))"
  using assms
proof (induction plan arbitrary: res)
  case (Cons d plan)
  have not_both: "\<not> (disposition_due ph b d \<and> disposition_done ph b d)"
    by (auto simp: disposition_due_def disposition_done_def)
  show ?case
    using Cons.IH[OF refl] Cons.prems check_entry_due[of ph d b] check_entry_done[of ph d b] not_both
    by (cases "check_entry ph d b"; cases "check_plan ph plan b") (auto split: sum.splits)
qed auto

text \<open>Applying a plan none of whose entries is applied yet.\<close>

lemma apply_pending_plan:
  assumes "brain_ok b" and "distinct (map d_task plan)" and "check_plan ph plan b = Inr (0, ps)"
    and "effective_now obs now c = (t, c1)"
  shows "apply_disposition_plan ph obs now plan c b = (Inr (length plan), c1, disposed_brain plan t (c_owner c1) b)"
proof -
  have plan: "plan = map snd ps"
    and chk: "\<And>r d. (r, d) \<in> set ps \<Longrightarrow> check_entry ph d b = Still_Pending r"
    using check_plan_fresh[OF assms(3)] by blast+
  have "distinct (map (d_task \<circ> snd) ps)" using assms(2) unfolding plan by simp
  from skip_pending_exact[OF assms(1) this chk, of t "c_owner c1"] show ?thesis
    using assms(3,4) plan by (simp add: apply_disposition_plan_def)
qed

lemma done_after_skip:
  assumes "distinct (map d_task plan)" and "d \<in> set plan" and "disposition_due ph b d"
  shows "disposition_done ph (disposed_brain plan t ow b) d"
proof -
  have "find (\<lambda>x. d_task x = d_task d) plan = Some d" by (rule find_distinct_key[OF assms(1,2)])
  with assms(3) show ?thesis
    by (auto simp: disposition_due_def disposition_done_def get_task_disposed skipped_by_def)
qed

text \<open>C36 A disposition plan with distinct task ids is applied as a whole, exactly and once. It returns zero
  and writes nothing when every planned task already is as the plan leaves it: skipped with the planned
  reason, at the planned token and payload, one sequence number further. It returns the length of the
  plan when every planned task is an unclaimed validation task in its planned state, token, sequence
  and payload; then exactly these tasks are skipped with their reasons, one transition is recorded for each, and no
  other task or table changes. On any other state of the tasks, mixed ones included, it raises a
  stale claim and changes nothing. Applying an applied plan again, by anyone, writes nothing.\<close>

theorem disposition_exact_and_idempotent:
  assumes "brain_ok b" and "distinct (map d_task plan)"
    and "apply_disposition_plan ph obs now plan c b = (res, c', b')"
  shows "(if \<forall>d \<in> set plan. disposition_done ph b d then res = Inr 0 \<and> b' = b
      else if \<forall>d \<in> set plan. disposition_due ph b d
      then res = Inr (length plan) \<and> b' = disposed_brain plan (fst (effective_now obs now c)) (c_owner c) b
      else (\<exists>msg. res = Inl (StaleTaskClaim msg)) \<and> b' = b) \<and>
    (\<forall>n. res = Inr n \<longrightarrow> (\<exists>c3. apply_disposition_plan ph obs2 now2 plan c2 b' = (Inr 0, c3, b')))"
proof -
  obtain t c1 where t: "effective_now obs now c = (t, c1)" by fastforce
  have owner: "c_owner c1 = c_owner c" using t by (auto simp: effective_now_def Let_def)
  have finished: "\<exists>c3. apply_disposition_plan ph o3 n3 plan c4 b3 = (Inr 0, c3, b3)"
    if "\<forall>d \<in> set plan. disposition_done ph b3 d" for o3 n3 c4 b3
    using check_plan_already[where plan = plan and ph = ph and b = b3] that check_entry_done
    by (simp add: apply_disposition_plan_def case_prod_beta)
  show ?thesis
  proof (cases "\<forall>d \<in> set plan. disposition_done ph b d")
    case True
    with finished[OF True] assms(3) show ?thesis by (metis prod.inject)
  next
    case not_done: False
    show ?thesis
    proof (cases "\<forall>d \<in> set plan. disposition_due ph b d")
      case due: True
      then obtain ps where "check_plan ph plan b = Inr (0, ps)"
        using check_plan_cases[OF refl, where ph = ph and plan = plan and b = b] not_done
        by (cases "check_plan ph plan b") (auto simp: disposition_due_def disposition_done_def)
      from apply_pending_plan[OF assms(1,2) this t]
      have res: "res = Inr (length plan)" "b' = disposed_brain plan t (c_owner c) b"
        using assms(3) owner by simp_all
      have "\<forall>d \<in> set plan. disposition_done ph b' d"
        using done_after_skip[OF assms(2)] due res(2) by blast
      with finished[OF this] res due not_done t show ?thesis by auto
    next
      case False
      have "(\<exists>msg. res = Inl (StaleTaskClaim msg)) \<and> b' = b"
        using assms(3) t check_plan_cases[OF refl, where ph = ph and plan = plan and b = b] not_done False
        by (cases "check_plan ph plan b") (auto simp: apply_disposition_plan_def)
      with not_done False show ?thesis by auto
    qed
  qed
qed

section \<open>Plans and the classification of single tasks\<close>

lemma build_plan_entry:
  assumes "d \<in> set (build_disposition_plan ph rep t0 grace b)"
  obtains r where "r \<in> set (tasks b)" and "disposition_scope r" and "orphan_reason rep t0 grace b r \<noteq> []"
    and "d = \<lparr>d_task = t_id r, d_state = t_state r, d_fence = t_fence r, d_seq = t_seq r,
      d_hash = ph (t_payload r), d_reason = orphan_reason rep t0 grace b r\<rparr>"
  using assms by (auto simp: build_disposition_plan_def)

lemma build_plan_ids:
  "map d_task (build_disposition_plan ph rep t0 grace b) =
     map t_id (filter (\<lambda>r. orphan_reason rep t0 grace b r \<noteq> []) (sort_key t_id (filter disposition_scope (tasks b))))"
  by (simp add: build_disposition_plan_def)

lemma build_plan_distinct:
  assumes "brain_ok b"
  shows "distinct (map d_task (build_disposition_plan ph rep t0 grace b))"
proof -
  have "distinct (map t_id (filter disposition_scope (tasks b)))"
    using brain_okD(1)[OF assms] by (simp add: distinct_map_filter)
  then have "distinct (map t_id (sort_key t_id (filter disposition_scope (tasks b))))"
    by (simp add: distinct_map)
  then show ?thesis unfolding build_plan_ids by (simp add: distinct_map_filter)
qed

text \<open>A plan built from a database applies to that database without fail and skips exactly the
  unclaimed queued or deferred validation tasks that are orphaned, each with its reason; every other
  task is left as it was.\<close>

theorem fresh_plan_applies:
  assumes "brain_ok b"
  shows "\<exists>c' b'. apply_disposition_plan ph obs now (build_disposition_plan ph rep t0 grace b) c b =
      (Inr (length (build_disposition_plan ph rep t0 grace b)), c', b') \<and>
    (\<forall>j r. get_task j b = Some r \<longrightarrow> get_task j b' = Some
       (if disposition_scope r \<and> orphan_reason rep t0 grace b r \<noteq> []
        then r\<lparr>t_state := Skipped, t_reason := orphan_reason rep t0 grace b r,
               t_updated := fst (effective_now obs now c), t_protocol := v2, t_seq := t_seq r + 1,
               t_owner := None, t_expires := None\<rparr>
        else r))"
proof -
  let ?plan = "build_disposition_plan ph rep t0 grace b"
  obtain t c1 where t: "effective_now obs now c = (t, c1)" by fastforce
  define g where "g d = (SOME r. get_task (d_task d) b = Some r)" for d :: disposition_entry
  have entry: "check_entry ph d b = Still_Pending (g d)" if d: "d \<in> set ?plan" for d
  proof -
    obtain r where r: "r \<in> set (tasks b)" "disposition_scope r"
      "d = \<lparr>d_task = t_id r, d_state = t_state r, d_fence = t_fence r, d_seq = t_seq r,
        d_hash = ph (t_payload r), d_reason = orphan_reason rep t0 grace b r\<rparr>"
      by (rule build_plan_entry[OF d]) blast
    then have "get_task (d_task d) b = Some r" using get_task_iff[OF assms] by simp
    moreover from this have "g d = r" by (simp add: g_def)
    ultimately show ?thesis using r by (auto simp: check_entry_def disposition_scope_def)
  qed
  let ?b' = "disposed_brain ?plan t (c_owner c1) b"
  note app = apply_pending_plan[OF assms build_plan_distinct[OF assms] check_plan_all[OF entry] t]
  note rows = get_task_disposed
  have "get_task j ?b' = Some (if disposition_scope r \<and> orphan_reason rep t0 grace b r \<noteq> []
        then r\<lparr>t_state := Skipped, t_reason := orphan_reason rep t0 grace b r, t_updated := t, t_protocol := v2,
               t_seq := t_seq r + 1, t_owner := None, t_expires := None\<rparr> else r)" if j: "get_task j b = Some r" for j r
  proof (cases "find (\<lambda>d. d_task d = j) ?plan")
    case None
    have r: "r \<in> set (tasks b)" "t_id r = j" using get_task_mem[OF j] by simp_all
    have no: "\<not> (disposition_scope r \<and> orphan_reason rep t0 grace b r \<noteq> [])"
    proof
      assume "disposition_scope r \<and> orphan_reason rep t0 grace b r \<noteq> []"
      with r(1) have "t_id r \<in> set (map d_task ?plan)" unfolding build_plan_ids by auto
      with None r(2) show False by (auto simp: find_None_iff)
    qed
    have "get_task j ?b' = Some r" using None rows j by simp
    then show ?thesis unfolding if_not_P[OF no] .
  next
    case (Some d)
    from find_SomeD[OF Some] have "d \<in> set ?plan" "d_task d = j" by simp_all
    then obtain q where q: "q \<in> set (tasks b)" "disposition_scope q" "orphan_reason rep t0 grace b q \<noteq> []"
      "d_task d = t_id q" "d_reason d = orphan_reason rep t0 grace b q"
      by (elim build_plan_entry) auto
    then have "q = r" using get_task_iff[OF assms, of j q] j \<open>d_task d = j\<close> by simp
    with q Some rows j show ?thesis by (simp add: skipped_by_def)
  qed
  with app t show ?thesis by auto
qed

text \<open>The plan and the classification of a single task agree at the same instant: the plan skips a
  task exactly when the classification says skip, and for the same reason.\<close>

theorem plan_agrees_with_classification:
  assumes "disposition_scope r"
  shows "\<exists>act. fst (classify_export_validation_task rep obs now grace r c b) = Inr act \<and>
    (\<forall>reason. act = Act_Skip reason \<longleftrightarrow>
       reason \<noteq> [] \<and> orphan_reason rep (fst (effective_now obs now c)) grace b r = reason)"
proof -
  have type: "t_type r = ''export_validation''" using assms by (simp add: disposition_scope_def)
  show ?thesis
  proof (cases "payload_uc_key rep (t_payload r) = []")
    case True
    with type show ?thesis
      by (auto simp: classify_export_validation_task_def orphan_reason_def case_prod_beta)
  next
    case False
    with type show ?thesis
      by (cases "validation_status_of (payload_uc_key rep (t_payload r)) b")
         (auto simp: classify_export_validation_task_def orphan_reason_def case_prod_beta)
  qed
qed

section \<open>Intake events and candidates\<close>

lemma lookup_batches_eq: "0 < n \<Longrightarrow> lookup_batches n wanted b = {i \<in> i_id ` set (events b). i \<in> set wanted}"
proof (induction n wanted b rule: lookup_batches.induct)
  case (1 n wanted b)
  show ?case
  proof (cases "wanted = []")
    case False
    have "set wanted = set (take n wanted) \<union> set (drop n wanted)"
      by (metis append_take_drop_id set_append)
    with 1 False show ?thesis
      by (subst lookup_batches.simps) (auto simp: Let_def)
  qed (simp add: lookup_batches.simps)
qed

text \<open>Asking for existing events in batches is a plain lookup: the answer is the set of requested
  non-empty ids that have an event, whatever the number of ids and their repetitions.\<close>

theorem existing_ids_is_lookup:
  "existing_intake_event_ids ids b = {i. i \<in> set ids \<and> i \<noteq> [] \<and> i \<in> i_id ` set (events b)}"
  by (auto simp: existing_intake_event_ids_def lookup_batches_eq)

text \<open>Which operations write the tables of events and candidates.\<close>

fun writes_events :: "brain_op \<Rightarrow> bool" where
  "writes_events (Op_Intake e prio now) = True"
| "writes_events (Op_Consume eid) = True"
| "writes_events Op_Migrate = True"
| "writes_events _ = False"

fun writes_candidates :: "brain_op \<Rightarrow> bool" where
  "writes_candidates (Op_Candidate cand now) = True"
| "writes_candidates (Op_Candidate_Hard cid hard now) = True"
| "writes_candidates (Op_Unique_Hard key hard now) = True"
| "writes_candidates (Op_Unique_Paper key paper now) = True"
| "writes_candidates _ = False"

abbreviation side_tables :: "brain \<Rightarrow> intake_row list \<times> candidate_row list" where
  "side_tables b \<equiv> (events b, candidates b)"

lemma update_tasks_side: "update_tasks p f b = Inr (n, b1) \<Longrightarrow> events b1 = events b \<and> candidates b1 = candidates b"
  by (drule update_tasks_InrD(1)) simp

lemma insert_task_side: "insert_task r b = Inr (tid, b1) \<Longrightarrow> events b1 = events b \<and> candidates b1 = candidates b"
  by (drule insert_task_InrD(3)) simp

lemma requeue_orphans_side:
  "fst (requeue_orphans reason now rows n c b) = Inr m \<Longrightarrow>
     events (snd (snd (requeue_orphans reason now rows n c b))) = events b \<and>
     candidates (snd (snd (requeue_orphans reason now rows n c b))) = candidates b"
proof (induction rows arbitrary: n c b)
  case (Cons row rows)
  then show ?case by (auto split: sum.splits if_splits dest!: update_tasks_side)
qed simp

lemma skip_pending_side: "skip_pending now ow ps b = Inr b' \<Longrightarrow> events b' = events b \<and> candidates b' = candidates b"
proof (induction ps arbitrary: b)
  case (Cons p ps)
  then show ?case by (cases p) (auto split: sum.splits if_splits dest!: update_tasks_side)
qed simp

lemma set_state_commit_side:
  "events (snd (snd (set_state_commit obs t row s reason cols c b))) = events b"
  "candidates (snd (snd (set_state_commit obs t row s reason cols c b))) = candidates b"
  by (auto simp: set_state_commit_def Let_def case_prod_beta split: sum.split dest: update_tasks_side)

lemma set_state_side:
  "events (snd (snd (set_state o1 o2 now tid s reason cols c b))) = events b"
  "candidates (snd (snd (set_state o1 o2 now tid s reason cols c b))) = candidates b"
  by (auto simp: set_state_def set_state_commit_side split: prod.split sum.split)

lemma claim_side:
  "events (snd (snd (claim_next_task o1 o2 k c b))) = events b"
  "candidates (snd (snd (claim_next_task o1 o2 k c b))) = candidates b"
  by (auto simp: claim_next_task_def claim_meta_def Let_def case_prod_beta split: option.split sum.split
      dest: update_tasks_side)

lemma absorb_request_side:
  "events (snd (absorb_request q now act b)) = events b"
  "candidates (snd (absorb_request q now act b)) = candidates b"
  by (auto simp: absorb_request_def split: sum.split dest: update_tasks_side)

lemmas side_simps = set_state_commit_side set_state_side claim_side absorb_request_side

lemma brain_step_events: "\<not> writes_events x \<Longrightarrow> events (brain_step x b) = events b"
  by (cases x)
     (auto simp: op_defs table_defs side_simps Let_def case_prod_beta split: option.split sum.split prod.split
       dest: update_tasks_side insert_task_side requeue_orphans_side skip_pending_side)

lemma brain_step_candidates: "\<not> writes_candidates x \<Longrightarrow> candidates (brain_step x b) = candidates b"
  by (cases x)
     (auto simp: op_defs table_defs side_simps migrate_priority_scale_def Let_def case_prod_beta
       split: option.split sum.split prod.split
       dest: update_tasks_side insert_task_side requeue_orphans_side skip_pending_side)

text \<open>An event stays consumed: its row stays, and no row of its id is unconsumed.\<close>

definition event_consumed :: "string \<Rightarrow> brain \<Rightarrow> bool" where
  "event_consumed eid b \<longleftrightarrow> eid \<in> i_id ` set (events b) \<and> (\<forall>e \<in> set (events b). i_id e = eid \<longrightarrow> i_consumed e)"

lemma keys_update_where:
  assumes "\<And>e. key (f e) = key e"
  shows "key ` set (update_where p f rows) = key ` set rows"
  using arg_cong[OF map_key_update_where[of key f p rows, OF assms], of set] by simp

lemma event_consumed_update:
  assumes "\<And>e. i_id (f e) = i_id e" and "\<And>e. i_consumed e \<Longrightarrow> i_consumed (f e)" and "event_consumed eid b"
    and "events b' = update_where p f (events b)"
  shows "event_consumed eid b'"
proof -
  have "\<forall>e \<in> set (events b'). i_id e = eid \<longrightarrow> i_consumed e"
    using assms(1-3) unfolding assms(4) set_update_where by (auto simp: event_consumed_def)
  moreover have "eid \<in> i_id ` set (events b')"
    using assms(3) unfolding assms(4) keys_update_where[of i_id f, OF assms(1)] by (simp add: event_consumed_def)
  ultimately show ?thesis by (simp add: event_consumed_def)
qed

lemma mark_event_consumed_works:
  assumes "eid \<in> i_id ` set (events b)"
  shows "event_consumed eid (mark_event_consumed eid b)"
proof -
  let ?f = "\<lambda>r :: intake_row. r\<lparr>i_consumed := True\<rparr>"
  have "eid \<in> i_id ` set (update_where (\<lambda>r. i_id r = eid) ?f (events b))"
  proof -
    have "i_id ` set (update_where (\<lambda>r. i_id r = eid) ?f (events b)) = i_id ` set (events b)"
      by (rule keys_update_where) simp
    with assms show ?thesis by (simp only:)
  qed
  moreover have "\<forall>e \<in> set (update_where (\<lambda>r. i_id r = eid) ?f (events b)). i_id e = eid \<longrightarrow> i_consumed e"
  proof (intro ballI impI)
    fix e assume "e \<in> set (update_where (\<lambda>r. i_id r = eid) ?f (events b))" and id: "i_id e = eid"
    then obtain r where e: "e = (if i_id r = eid then ?f r else r)" unfolding set_update_where by blast
    show "i_consumed e"
    proof (cases "i_id r = eid")
      case True
      with e show ?thesis by simp
    next
      case False
      with e id show ?thesis by simp
    qed
  qed
  ultimately show ?thesis by (simp add: event_consumed_def mark_event_consumed_def)
qed

interpretation consumed: invariant_system brain_step "event_consumed eid" for eid
proof
  fix s x assume ok: "event_consumed eid s"
  show "event_consumed eid (brain_step x s)"
  proof (cases "writes_events x")
    case False
    with ok show ?thesis by (simp add: event_consumed_def brain_step_events)
  next
    case True
    then show ?thesis
    proof (cases x)
      case (Op_Intake e prio now)
      with ok show ?thesis
        by (auto simp: event_consumed_def upsert_intake_event_def list_ex_iff)
    next
      case (Op_Consume eid')
      then show ?thesis
        by (intro event_consumed_update[OF _ _ ok, where f = "\<lambda>r. r\<lparr>i_consumed := True\<rparr>"])
           (auto simp: mark_event_consumed_def)
    next
      case Op_Migrate
      then show ?thesis
        by (intro event_consumed_update[OF _ _ ok, where f = "\<lambda>r. r\<lparr>i_priority := migrated_priority (i_priority r)\<rparr>"])
           (auto simp: migrate_priority_scale_def)
    qed auto
  qed
qed

text \<open>An event is handed out until it is marked consumed and never afterwards: through any later run
  of operations, including the same event arriving again, it is not among the unconsumed events.\<close>

theorem consumed_event_not_redelivered:
  assumes "eid \<in> i_id ` set (events b)"
  shows "eid \<notin> i_id ` set (unconsumed_events limit (run_ops brain_step ops (mark_event_consumed eid b)))"
proof -
  have "event_consumed eid (mark_event_consumed eid b)" by (rule mark_event_consumed_works[OF assms])
  then have "event_consumed eid (run_ops brain_step ops (mark_event_consumed eid b))"
    by (rule consumed.inv_run)
  then show ?thesis
    by (auto simp: event_consumed_def unconsumed_events_def dest!: in_set_takeD)
qed

text \<open>Events and candidates keep one row per key.\<close>

definition keys_ok :: "brain \<Rightarrow> bool" where
  "keys_ok b \<longleftrightarrow> distinct (map i_id (events b)) \<and> distinct (map u_key (candidates b))"

interpretation keys: invariant_system brain_step keys_ok
proof
  fix s x assume ok: "keys_ok s"
  show "keys_ok (brain_step x s)"
  proof (cases "writes_events x \<or> writes_candidates x")
    case False
    then show ?thesis using ok brain_step_events[of x s] brain_step_candidates[of x s] by (simp add: keys_ok_def)
  next
    case True
    then show ?thesis
      by (cases x) (use ok in \<open>auto simp: keys_ok_def table_defs migrate_priority_scale_def Let_def list_ex_iff
        merge_candidate_def map_key_update_where\<close>)
  qed
qed

definition get_candidate :: "string \<Rightarrow> brain \<Rightarrow> candidate_row option" where
  "get_candidate key b = find (\<lambda>r. u_key r = key) (candidates b)"

lemma merge_candidate_key [simp]: "u_key (merge_candidate new old) = u_key old"
  by (simp add: merge_candidate_def)

lemma merge_candidate_idem:
  "merge_candidate (c\<lparr>u_updated := now\<rparr>) (merge_candidate (c\<lparr>u_updated := now\<rparr>) old) = merge_candidate (c\<lparr>u_updated := now\<rparr>) old"
  by (simp add: merge_candidate_def nullif_empty_def)

lemma merge_candidate_self: "merge_candidate c c = c"
  by (simp add: merge_candidate_def nullif_empty_def)

lemma upsert_get:
  "get_candidate k (upsert_unique_candidate cand now b) =
     (if k = u_key cand
      then Some (case get_candidate k b of None \<Rightarrow> cand\<lparr>u_updated := now\<rparr>
                 | Some old \<Rightarrow> merge_candidate (cand\<lparr>u_updated := now\<rparr>) old)
      else get_candidate k b)"
proof (cases "list_ex (\<lambda>r. u_key r = u_key cand) (candidates b)")
  case True
  then obtain old where "find (\<lambda>r. u_key r = u_key cand) (candidates b) = Some old"
    by (cases "find (\<lambda>r. u_key r = u_key cand) (candidates b)") (auto simp: find_None_iff list_ex_iff)
  with True show ?thesis
    by (auto simp: upsert_unique_candidate_def Let_def get_candidate_def find_update_where map_option_case
        split: option.split dest: find_SomeD)
next
  case False
  then have "find (\<lambda>r. u_key r = u_key cand) (candidates b) = None"
    by (auto simp: find_None_iff list_ex_iff)
  with False show ?thesis
    by (auto simp: upsert_unique_candidate_def Let_def get_candidate_def find_append split: option.split)
qed

text \<open>Recording a unique candidate is an upsert: its key has one row before and after, a known
  candidate keeps its symbol, timeframe, family, parameters hash and fingerprint and its paper, regime
  and search labels unless new ones are given, no other candidate changes, and recording the same
  result again at the same time changes nothing more.\<close>

theorem upsert_candidate_correct:
  assumes "keys_ok b"
  shows "keys_ok (upsert_unique_candidate cand now b) \<and>
    (\<exists>r. get_candidate (u_key cand) (upsert_unique_candidate cand now b) = Some r \<and>
       u_decision r = u_decision cand \<and> u_validation r = u_validation cand \<and> u_hard r = u_hard cand \<and> u_updated r = now \<and>
       (\<forall>old. get_candidate (u_key cand) b = Some old \<longrightarrow>
          u_symbol r = u_symbol old \<and> u_timeframe r = u_timeframe old \<and> u_family r = u_family old \<and>
          u_params_hash r = u_params_hash old \<and> u_fingerprint r = u_fingerprint old \<and>
          u_paper r = (if u_paper cand = [] then u_paper old else u_paper cand) \<and>
          u_regime r = (if u_regime cand = [] then u_regime old else u_regime cand))) \<and>
    (\<forall>k. k \<noteq> u_key cand \<longrightarrow> get_candidate k (upsert_unique_candidate cand now b) = get_candidate k b) \<and>
    (\<forall>k. get_candidate k (upsert_unique_candidate cand now (upsert_unique_candidate cand now b)) =
       get_candidate k (upsert_unique_candidate cand now b))"
proof (intro conjI)
  show "keys_ok (upsert_unique_candidate cand now b)"
    using keys.inv_step[OF assms, of "Op_Candidate cand now"] by simp
  show "\<exists>r. get_candidate (u_key cand) (upsert_unique_candidate cand now b) = Some r \<and>
       u_decision r = u_decision cand \<and> u_validation r = u_validation cand \<and> u_hard r = u_hard cand \<and> u_updated r = now \<and>
       (\<forall>old. get_candidate (u_key cand) b = Some old \<longrightarrow>
          u_symbol r = u_symbol old \<and> u_timeframe r = u_timeframe old \<and> u_family r = u_family old \<and>
          u_params_hash r = u_params_hash old \<and> u_fingerprint r = u_fingerprint old \<and>
          u_paper r = (if u_paper cand = [] then u_paper old else u_paper cand) \<and>
          u_regime r = (if u_regime cand = [] then u_regime old else u_regime cand))"
    by (auto simp: upsert_get merge_candidate_def nullif_empty_def split: option.split)
  show "\<forall>k. k \<noteq> u_key cand \<longrightarrow> get_candidate k (upsert_unique_candidate cand now b) = get_candidate k b"
    by (simp add: upsert_get)
  show "\<forall>k. get_candidate k (upsert_unique_candidate cand now (upsert_unique_candidate cand now b)) =
       get_candidate k (upsert_unique_candidate cand now b)"
    by (simp add: upsert_get merge_candidate_idem merge_candidate_self split: option.split)
qed

section \<open>Completion verdict and backlog\<close>

lemma deferred_split:
  "rowcount (\<lambda>r. t_state r = Deferred) rows =
     rowcount (\<lambda>r. t_state r = Deferred \<and> p r) rows + rowcount (\<lambda>r. t_state r = Deferred \<and> \<not> p r) rows"
  by (induction rows) auto

lemma rowcount_pos: "0 < rowcount p rows \<longleftrightarrow> (\<exists>r \<in> set rows. p r)"
  using rowcount_0[of p rows] by auto

lemma rowcount_imp: "(\<And>r. r \<in> set rows \<Longrightarrow> p r \<Longrightarrow> q r) \<Longrightarrow> rowcount p rows \<le> rowcount q rows"
  by (induction rows) (auto intro: le_SucI)

text \<open>The verdict \<open>DRAINED\<close> means exactly this and no more: nothing runs, nothing is blocked, every
  deferral is due, and each task still queued or deferred waits for a task that has not completed.  In
  particular a queue that waits on a failed task is reported as drained.\<close>

theorem drained_iff:
  "completion_verdict now b = Drained \<longleftrightarrow>
     (\<forall>r \<in> set (tasks b). t_state r \<noteq> Running \<and> t_state r \<noteq> Blocked \<and>
        (t_state r = Queued \<longrightarrow> \<not> dependency_done b r) \<and>
        (t_state r = Deferred \<longrightarrow> due now r \<and> \<not> dependency_done b r))"
proof -
  let ?due = "\<lambda>r. case t_deferred r of None \<Rightarrow> False | Some t \<Rightarrow> t \<le> now"
  have elig: "0 < eligible_count now [] b \<longleftrightarrow> (\<exists>r \<in> set (tasks b). due now r \<and> dependency_done b r)"
    by (simp add: eligible_count_def rowcount_pos eligible_def)
  have fut: "0 < int (rowcount (\<lambda>r. t_state r = Deferred) (tasks b)) - int (rowcount (\<lambda>r. t_state r = Deferred \<and> ?due r) (tasks b))
      \<longleftrightarrow> (\<exists>r \<in> set (tasks b). t_state r = Deferred \<and> \<not> ?due r)"
    by (simp add: deferred_split[of "tasks b" ?due] rowcount_pos)
  have unreasoned: "0 < rowcount (\<lambda>r. t_state r = Blocked \<and> t_reason r = []) (tasks b) \<Longrightarrow>
      0 < rowcount (\<lambda>r. t_state r = Blocked) (tasks b)"
    by (auto simp: rowcount_pos)
  have "completion_verdict now b = Drained \<longleftrightarrow>
      \<not> 0 < eligible_count now [] b \<and> \<not> 0 < rowcount (\<lambda>r. t_state r = Running) (tasks b) \<and>
      \<not> 0 < int (rowcount (\<lambda>r. t_state r = Deferred) (tasks b)) - int (rowcount (\<lambda>r. t_state r = Deferred \<and> ?due r) (tasks b)) \<and>
      \<not> 0 < rowcount (\<lambda>r. t_state r = Blocked) (tasks b)"
    using unreasoned by (simp add: completion_verdict_def Let_def)
  also have "\<dots> \<longleftrightarrow> (\<forall>r \<in> set (tasks b). t_state r \<noteq> Running \<and> t_state r \<noteq> Blocked \<and>
        (t_state r = Queued \<longrightarrow> \<not> dependency_done b r) \<and>
        (t_state r = Deferred \<longrightarrow> due now r \<and> \<not> dependency_done b r))"
    unfolding elig fut rowcount_pos by (auto simp: due_def)
  finally show ?thesis .
qed

lemma py_round_nonneg: "0 \<le> q \<Longrightarrow> 0 \<le> py_round n q"
  by (auto simp: py_round_def Let_def intro!: divide_nonneg_nonneg)

text \<open>The backlog report is consistent: freshly created eligible tasks are among the eligible ones,
  these among the active ones, ages are never negative, the estimated time to drain is given only
  when the backlog shrinks or is empty, and it is zero for an empty backlog.\<close>

theorem backlog_metrics_consistent:
  assumes "validation_backlog_metrics obs now window fresh c b = (m, c')"
  shows "m_fresh_eligible m \<le> m_eligible m \<and> m_eligible m \<le> m_active m \<and>
    0 \<le> m_oldest_age m \<and> 0 \<le> m_fresh_oldest_age m \<and>
    (m_active m = 0 \<longrightarrow> m_eta m = Some 0) \<and>
    (m_active m \<noteq> 0 \<and> m_terminal m \<le> m_arrivals m \<longrightarrow> m_eta m = None) \<and>
    (\<forall>eta. m_eta m = Some eta \<longrightarrow> 0 \<le> eta)"
proof -
  obtain t c1 where t: "effective_now obs now c = (t, c1)" by fastforce
  let ?exports = "filter (\<lambda>r. t_type r = ''export_validation'') (tasks b)"
  have elig: "m_eligible m = rowcount (\<lambda>r. due t r \<and> dependency_done b r) ?exports"
    and fresh: "m_fresh_eligible m = rowcount (\<lambda>r. t - max 1 fresh \<le> t_created r \<and> due t r \<and> dependency_done b r) ?exports"
    and act: "m_active m = rowcount (\<lambda>r. active (t_state r)) ?exports"
    using assms t
    by (auto simp: validation_backlog_metrics_def Let_def rowcount_def eligible_count_def eligible_def conj_ac
        intro!: arg_cong[where f = length] filter_cong)
  have "m_fresh_eligible m \<le> m_eligible m" unfolding elig fresh by (rule rowcount_imp) simp
  moreover have "m_eligible m \<le> m_active m" unfolding elig act by (rule rowcount_imp) (auto simp: due_def)
  moreover have "0 \<le> m_oldest_age m" "0 \<le> m_fresh_oldest_age m"
    using assms t by (auto simp: validation_backlog_metrics_def Let_def age_of_def intro!: py_round_nonneg split: option.split)
  moreover have "m_active m = 0 \<longrightarrow> m_eta m = Some 0"
    using assms t by (auto simp: validation_backlog_metrics_def Let_def)
  moreover have "m_active m \<noteq> 0 \<and> m_terminal m \<le> m_arrivals m \<longrightarrow> m_eta m = None"
    using assms t by (auto simp: validation_backlog_metrics_def Let_def divide_right_mono not_less
        intro!: divide_right_mono)
  moreover have "\<forall>eta. m_eta m = Some eta \<longrightarrow> 0 \<le> eta"
    using assms t by (auto simp: validation_backlog_metrics_def Let_def intro!: py_round_nonneg split: if_splits)
  ultimately show ?thesis by blast
qed

section \<open>Witnesses\<close>

text \<open>A queued validation task without a candidate key, and one event.\<close>

definition demo_export :: task where
  "demo_export = demo_task\<lparr>t_type := ''export_validation''\<rparr>"

definition demo_exports :: brain where
  "demo_exports = demo_queued\<lparr>tasks := [demo_export]\<rparr>"

definition demo_rep :: "json \<Rightarrow> string" where
  "demo_rep v = ''?''"

definition demo_hash :: "json option \<Rightarrow> string" where
  "demo_hash p = ''h''"

definition demo_plan :: "disposition_entry list" where
  "demo_plan = [\<lparr>d_task = 1, d_state = Queued, d_fence = 0, d_seq = 0, d_hash = ''h'',
     d_reason = ''validation_task_missing_uc_key''\<rparr>]"

definition demo_event :: intake_row where
  "demo_event = \<lparr>i_id = ''e'', i_symbol = None, i_source = None, i_reason = None, i_observed = None, i_priority = 20,
     i_class = None, i_timeframes = JArr [], i_evidence = JObj [], i_raw = JObj [], i_ingested = 100, i_consumed = False\<rparr>"

lemma demo_exports_ok: "brain_ok demo_exports"
  by (simp add: demo_exports_def demo_export_def demo_brain_defs brain_ok_def audit_ok_def unique_active_keys_def row_ok_def)

lemma demo_export_reason: "orphan_reason demo_rep 110 60 demo_exports demo_export = ''validation_task_missing_uc_key''"
  by (simp add: orphan_reason_def payload_uc_key_def demo_export_def demo_brain_defs str_of_json_def)

lemma demo_export_scope: "disposition_scope demo_export"
  by (simp add: disposition_scope_def demo_export_def demo_brain_defs)

lemma demo_build_plan: "build_disposition_plan demo_hash demo_rep 110 60 demo_exports = demo_plan"
proof -
  have "tasks demo_exports = [demo_export]" by (simp add: demo_exports_def)
  then show ?thesis
    using demo_export_reason demo_export_scope
    by (simp add: build_disposition_plan_def demo_plan_def demo_hash_def demo_export_def demo_brain_defs)
qed

lemma demo_export_get: "get_task 1 demo_exports = Some demo_export"
  by (simp add: get_task_def demo_exports_def demo_export_def demo_brain_defs)

theorem fresh_plan_applies_witness:
  "\<exists>c' b'. apply_disposition_plan demo_hash 110 None demo_plan demo_conn demo_exports = (Inr 1, c', b') \<and>
     (\<exists>r. get_task 1 b' = Some r \<and> t_state r = Skipped)"
proof -
  have len: "length demo_plan = 1" by (simp add: demo_plan_def)
  from fresh_plan_applies[OF demo_exports_ok, of demo_hash 110 None demo_rep 110 60 demo_conn, unfolded demo_build_plan len]
  obtain c' b' where r: "apply_disposition_plan demo_hash 110 None demo_plan demo_conn demo_exports = (Inr 1, c', b')"
    and rows: "\<forall>j r. get_task j demo_exports = Some r \<longrightarrow> get_task j b' = Some
       (if disposition_scope r \<and> orphan_reason demo_rep 110 60 demo_exports r \<noteq> []
        then r\<lparr>t_state := Skipped, t_reason := orphan_reason demo_rep 110 60 demo_exports r,
               t_updated := fst (effective_now 110 None demo_conn), t_protocol := v2, t_seq := t_seq r + 1,
               t_owner := None, t_expires := None\<rparr>
        else r)" by blast
  from rows demo_export_get have "\<exists>r. get_task 1 b' = Some r \<and> t_state r = Skipped"
    by (simp add: demo_export_scope demo_export_reason)
  with r show ?thesis by blast
qed

lemma demo_plan_run: "fst (apply_disposition_plan demo_hash 110 None demo_plan demo_conn demo_exports) = Inr 1"
proof -
  have "check_entry demo_hash (hd demo_plan) demo_exports = Still_Pending demo_export"
    using demo_export_get demo_export_scope
    by (simp add: check_entry_def demo_plan_def demo_hash_def demo_export_def demo_brain_defs)
  then have "check_plan demo_hash demo_plan demo_exports = Inr (0, [(demo_export, hd demo_plan)])"
    by (simp add: demo_plan_def)
  moreover have "distinct (map d_task demo_plan)" by (simp add: demo_plan_def)
  ultimately show ?thesis
    using apply_pending_plan[OF demo_exports_ok _ _ demo_clock(1), of demo_plan demo_hash] by (simp add: demo_plan_def)
qed

theorem disposition_exact_and_idempotent_witness:
  "\<exists>c' b' c3. apply_disposition_plan demo_hash 110 None demo_plan demo_conn demo_exports = (Inr 1, c', b') \<and>
     apply_disposition_plan demo_hash 120 None demo_plan demo_holder b' = (Inr 0, c3, b')"
proof -
  obtain c' b' where r: "apply_disposition_plan demo_hash 110 None demo_plan demo_conn demo_exports = (Inr 1, c', b')"
    using demo_plan_run by (metis prod.collapse)
  have "distinct (map d_task demo_plan)" by (simp add: demo_plan_def)
  from disposition_exact_and_idempotent[OF demo_exports_ok this r, where ?obs2.0 = 120 and ?now2.0 = None and ?c2.0 = demo_holder]
  have "\<exists>c3. apply_disposition_plan demo_hash 120 None demo_plan demo_holder b' = (Inr 0, c3, b')"
    by (simp del: fun_upd_apply)
  with r show ?thesis by blast
qed

theorem plan_agrees_with_classification_witness:
  "\<exists>act. fst (classify_export_validation_task demo_rep 110 None 60 demo_export demo_conn demo_exports) = Inr act \<and>
     act = Act_Skip ''validation_task_missing_uc_key''"
proof -
  have now: "fst (effective_now 110 None demo_conn) = 110" using demo_clock(1) by simp
  obtain act where act: "fst (classify_export_validation_task demo_rep 110 None 60 demo_export demo_conn demo_exports) = Inr act"
    and iff: "\<forall>reason. act = Act_Skip reason \<longleftrightarrow>
       reason \<noteq> [] \<and> orphan_reason demo_rep 110 60 demo_exports demo_export = reason"
    using plan_agrees_with_classification[OF demo_export_scope, of demo_rep 110 None 60 demo_conn demo_exports]
    unfolding now by blast
  from spec[OF iff, of "''validation_task_missing_uc_key''"] demo_export_reason
  have "act = Act_Skip ''validation_task_missing_uc_key''" by simp
  with act show ?thesis by blast
qed

theorem consumed_event_not_redelivered_witness:
  "''e'' \<notin> i_id ` set (unconsumed_events 10 (run_ops brain_step [Op_Intake demo_event None 120]
     (mark_event_consumed ''e'' (demo_queued\<lparr>events := [demo_event]\<rparr>))))"
  by (rule consumed_event_not_redelivered) (simp add: demo_event_def)

definition demo_candidate :: candidate_row where
  "demo_candidate = \<lparr>u_key = ''u'', u_symbol = Some ''BTC'', u_timeframe = None, u_family = None, u_params_hash = None,
     u_fingerprint = None, u_decision = None, u_validation = None, u_hard = None, u_trades = 0, u_avg_net = 0,
     u_candidate = None, u_run_dir = None, u_params = JObj [], u_task = None, u_paper = [], u_regime = [],
     u_search_family = [], u_search_trial = [], u_trials = 0, u_updated = 100\<rparr>"

theorem upsert_candidate_correct_witness:
  "keys_ok (upsert_unique_candidate demo_candidate 110 (demo_queued\<lparr>candidates := [demo_candidate\<lparr>u_paper := ''ok''\<rparr>]\<rparr>))"
proof -
  have "keys_ok (demo_queued\<lparr>candidates := [demo_candidate\<lparr>u_paper := ''ok''\<rparr>]\<rparr>)"
    by (simp add: keys_ok_def demo_brain_defs)
  from upsert_candidate_correct[OF this] show ?thesis by blast
qed

text \<open>A task that waits for a failed task: the verdict is still \<open>DRAINED\<close>.\<close>

theorem drained_iff_witness:
  "completion_verdict 200 (demo_queued\<lparr>tasks := [demo_task\<lparr>t_state := Failed\<rparr>,
     demo_task\<lparr>t_id := 2, t_key := ''k2'', t_depends := Some 1\<rparr>]\<rparr>) = Drained"
  unfolding drained_iff by (simp add: dependency_done_def demo_brain_defs)

theorem backlog_metrics_consistent_witness:
  "m_eligible (fst (validation_backlog_metrics 110 None 3600 3600 demo_conn demo_exports))
     \<le> m_active (fst (validation_backlog_metrics 110 None 3600 3600 demo_conn demo_exports))"
proof -
  have "validation_backlog_metrics 110 None 3600 3600 demo_conn demo_exports =
    (fst (validation_backlog_metrics 110 None 3600 3600 demo_conn demo_exports),
     snd (validation_backlog_metrics 110 None 3600 3600 demo_conn demo_exports))" by simp
  from backlog_metrics_consistent[OF this] show ?thesis by blast
qed

end
