(* ===== verification/Run_Import.thy ===== *)
theory Run_Import
  imports Farm_Base
begin

text \<open>
  The import of a finished run into the compute database, \<open>src/research_lab/state_db.py\<close>:
  \<open>import_run_dir\<close> with \<open>_import_farm_results\<close> and \<open>_import_runtime_stats\<close>.

  The files of the run directory are arguments: the decoded \<open>metrics.json\<close> (an empty object when it
  is missing or no object) and the rows of \<open>candidates.csv\<close>.  Python's printing of a decoded value
  that is no string (\<open>rep\<close>), its parsing of numbers and of JSON text (\<open>parse\<close>, \<open>loads\<close>), the symbol
  groups and the families with GPU kernels are parameters.  JSON columns keep the decoded value.
\<close>

section \<open>Reading decoded rows\<close>

definition py_or :: "json \<Rightarrow> json \<Rightarrow> json" where
  "py_or a b = (if truthy a then a else b)"

definition jhas :: "string \<Rightarrow> json \<Rightarrow> bool" where
  "jhas k v = (case v of JObj kvs \<Rightarrow> map_of kvs k \<noteq> None | _ \<Rightarrow> False)"

definition is_obj :: "json \<Rightarrow> bool" where
  "is_obj v = (case v of JObj _ \<Rightarrow> True | _ \<Rightarrow> False)"

definition py_text :: "(json \<Rightarrow> string) \<Rightarrow> json \<Rightarrow> string" where
  "py_text rep v = (case v of JStr s \<Rightarrow> s | _ \<Rightarrow> rep v)"

definition str_default :: "(json \<Rightarrow> string) \<Rightarrow> json \<Rightarrow> string \<Rightarrow> string" where
  "str_default rep v d = (if truthy v then py_text rep v else d)"

text \<open>\<open>int(v or 0)\<close>; \<open>int_text\<close> is Python's parsing of an integer from text.\<close>

definition int_of_json :: "(string \<Rightarrow> int option) \<Rightarrow> json \<Rightarrow> exn + int" where
  "int_of_json int_text v =
     (if \<not> truthy v then Inr 0
      else case v of
        JBool b \<Rightarrow> Inr 1
      | JInt n \<Rightarrow> Inr n
      | JFloat r \<Rightarrow> Inr (if r \<ge> 0 then floor r else - floor (- r))
      | JStr s \<Rightarrow> (case int_text s of None \<Rightarrow> Inl (ValueError ''invalid literal for int'') | Some n \<Rightarrow> Inr n)
      | _ \<Rightarrow> Inl (TypeError ''int''))"

definition extract_results :: "json \<Rightarrow> json list" where
  "extract_results payload = (case jget ''results'' payload of JArr rows \<Rightarrow> filter is_obj rows | _ \<Rightarrow> [])"

definition row_decision :: "(json \<Rightarrow> string) \<Rightarrow> json \<Rightarrow> string" where
  "row_decision rep row = str_default rep (jget ''decision'' row) ''UNKNOWN''"

definition decision_counts :: "(json \<Rightarrow> string) \<Rightarrow> json list \<Rightarrow> string \<Rightarrow> nat" where
  "decision_counts rep rows d = length (filter (\<lambda>row. row_decision rep row = d) rows)"

definition row_metric :: "json \<Rightarrow> string \<Rightarrow> json" where
  "row_metric row key =
     (if is_obj (jget ''metrics'' row) \<and> jhas key (jget ''metrics'' row)
      then jget key (jget ''metrics'' row) else jget key row)"

definition as_float :: "(string \<Rightarrow> rat option) \<Rightarrow> json \<Rightarrow> rat" where
  "as_float parse v =
     (case v of
        JBool b \<Rightarrow> if b then 1 else 0
      | JInt n \<Rightarrow> of_int n
      | JFloat q \<Rightarrow> q
      | JStr s \<Rightarrow> (case parse s of None \<Rightarrow> 0 | Some q \<Rightarrow> q)
      | _ \<Rightarrow> 0)"

text \<open>\<open>int\<close> truncates towards zero.\<close>

definition as_int :: "(string \<Rightarrow> rat option) \<Rightarrow> json \<Rightarrow> int" where
  "as_int parse v = (let q = as_float parse v in if q \<ge> 0 then floor q else - floor (- q))"

definition data_quality :: "int \<Rightarrow> int \<Rightarrow> string" where
  "data_quality n_trades min_trades =
     (if n_trades \<le> 0 then ''no_trades''
      else if min_trades \<noteq> 0 \<and> n_trades < min_trades then ''thin'' else ''ok'')"

fun join_bar :: "string list \<Rightarrow> string" where
  "join_bar [] = []"
| "join_bar [s] = s"
| "join_bar (s # t # ss) = s @ ''|'' @ join_bar (t # ss)"

text \<open>\<open>_reasons_text\<close> and \<open>_validation_reasons_text\<close>.\<close>

definition list_text :: "(json \<Rightarrow> string) \<Rightarrow> json \<Rightarrow> string" where
  "list_text rep v = (case v of JArr xs \<Rightarrow> join_bar (map (py_text rep) xs) | _ \<Rightarrow> str_default rep v [])"

definition csv_metric_keys :: "string list" where
  "csv_metric_keys = [''n_trades'', ''win_rate'', ''avg_net_pct'', ''total_net_pct'', ''profit_factor'',
     ''profit_factor_state'', ''max_drawdown_pct'', ''test_avg_net_pct'', ''best_trade_share'']"

definition metrics_from_csv_row :: "(string \<Rightarrow> json option) \<Rightarrow> json \<Rightarrow> json" where
  "metrics_from_csv_row loads row =
     JObj (map (\<lambda>k. (k, case jget ''profit_factor_state'' row of
                            JStr s \<Rightarrow> if k = ''profit_factor_state'' \<and> s \<noteq> []
                                      then (case loads s of None \<Rightarrow> JObj [] | Some v \<Rightarrow> v) else jget k row
                          | _ \<Rightarrow> jget k row))
            (filter (\<lambda>k. jhas k row) csv_metric_keys))"

text \<open>The part of the run name behind the second underscore, the whole name when there is none.\<close>

definition after_underscore :: "string \<Rightarrow> string option" where
  "after_underscore s = (case dropWhile (\<lambda>c. c \<noteq> CHR ''_'') s of [] \<Rightarrow> None | _ # r \<Rightarrow> Some r)"

definition experiment_from_run_name :: "string \<Rightarrow> string" where
  "experiment_from_run_name name =
     (case after_underscore name of
        None \<Rightarrow> name
      | Some r \<Rightarrow> (case after_underscore r of None \<Rightarrow> name | Some x \<Rightarrow> x))"

text \<open>\<open>_norm_symbol\<close>, upper case on ASCII letters.\<close>

definition upper_char :: "char \<Rightarrow> char" where
  "upper_char c = (if CHR ''a'' \<le> c \<and> c \<le> CHR ''z'' then char_of (of_char c - 32 :: nat) else c)"

definition norm_symbol :: "string \<Rightarrow> string" where
  "norm_symbol s = map (\<lambda>c. upper_char (if c = CHR ''-'' \<or> c = CHR ''/'' then CHR ''_'' else c)) s"

section \<open>Tables\<close>

record run_row =
  rr_id :: string
  rr_experiment :: string
  rr_created :: string
  rr_label :: string
  rr_count :: nat
  rr_promote :: nat
  rr_observe :: nat
  rr_reject :: nat
  rr_imported :: string

record run_candidate =
  rc_run :: string
  rc_id :: string
  rc_symbol :: string
  rc_family :: string
  rc_decision :: string
  rc_reasons :: string
  rc_metrics :: json
  rc_params :: json
  rc_validation :: string
  rc_validation_reasons :: string
  rc_next_action :: string

record farm_result =
  fr_run :: string
  fr_id :: string
  fr_symbol :: string
  fr_group :: string
  fr_timeframe :: string
  fr_family :: string
  fr_decision :: string
  fr_validation :: string
  fr_backend :: string
  fr_trades :: int
  fr_win_rate :: rat
  fr_avg_net :: rat
  fr_test_avg_net :: rat
  fr_profit_factor :: rat
  fr_profit_factor_state :: json
  fr_data_file :: string
  fr_data_quality :: string
  fr_next_action :: string
  fr_created :: string
  fr_drawdown :: rat
  fr_gpu :: bool

record runtime_row =
  ru_run :: string
  ru_requested :: string
  ru_effective :: string
  ru_signal :: string
  ru_simulation :: string
  ru_gpu :: bool
  ru_fallback :: string
  ru_accelerated :: int
  ru_elapsed :: rat
  ru_timeframe :: string
  ru_results :: nat
  ru_created :: string

record run_tables =
  rt_runs :: "run_row list"
  rt_candidates :: "run_candidate list"
  rt_results :: "farm_result list"
  rt_runtime :: "runtime_row list"

text \<open>What the import calls outside itself.\<close>

text \<open>The clock texts of one import: \<open>utc_now()\<close> is read for the run, for its results and for its runtime.\<close>

record import_stamps =
  ts_run :: string
  ts_results :: string
  ts_runtime :: string

record import_env =
  ie_rep :: "json \<Rightarrow> string"
  ie_parse :: "string \<Rightarrow> rat option"
  ie_loads :: "string \<Rightarrow> json option"
  ie_group :: "string \<Rightarrow> string option"
  ie_gpu_family :: "string \<Rightarrow> bool"

section \<open>Import\<close>

definition candidate_id_of :: "import_env \<Rightarrow> json \<Rightarrow> string" where
  "candidate_id_of env row = str_default (ie_rep env) (py_or (jget ''run_id'' row) (jget ''candidate_id'' row)) []"

definition candidate_of :: "import_env \<Rightarrow> string \<Rightarrow> json \<Rightarrow> run_candidate" where
  "candidate_of env run row =
     (let rep = ie_rep env
      in \<lparr>rc_run = run, rc_id = candidate_id_of env row,
          rc_symbol = str_default rep (jget ''symbol'' row) [], rc_family = str_default rep (jget ''family'' row) [],
          rc_decision = row_decision rep row, rc_reasons = list_text rep (jget ''reasons'' row),
          rc_metrics = py_or (jget ''metrics'' row) (metrics_from_csv_row (ie_loads env) row),
          rc_params = py_or (jget ''params'' row) (JObj []),
          rc_validation = str_default rep (jget ''validation_status'' row) [],
          rc_validation_reasons = list_text rep (jget ''validation_reasons'' row),
          rc_next_action = str_default rep (jget ''next_action'' row) []\<rparr>)"

text \<open>\<open>(payload.get('runtime') or {})\<close>: a truthy value that is no object has no \<open>get\<close>.\<close>

definition runtime_of :: "json \<Rightarrow> exn + json" where
  "runtime_of payload =
     (let v = py_or (jget ''runtime'' payload) (JObj [])
      in if is_obj v then Inr v else Inl (AttributeError ''get''))"

definition farm_result_of ::
  "import_env \<Rightarrow> string \<Rightarrow> string \<Rightarrow> json \<Rightarrow> json \<Rightarrow> json \<Rightarrow> farm_result" where
  "farm_result_of env stamp run payload runtime row =
     (let rep = ie_rep env;
          num = (\<lambda>key. as_float (ie_parse env) (row_metric row key));
          int_of = (\<lambda>key. as_int (ie_parse env) (row_metric row key));
          symbol = str_default rep (jget ''symbol'' row) [];
          family = str_default rep (jget ''family'' row) [];
          meta = py_or (jget ''plan_meta'' payload) (JObj []);
          planned = (if is_obj meta then str_default rep (jget ''group'' meta) [] else []);
          top_tf = str_default rep (jget ''timeframe'' payload) []
      in \<lparr>fr_run = run, fr_id = candidate_id_of env row, fr_symbol = symbol,
          fr_group = (if planned \<noteq> [] then planned else str_or (ie_group env (norm_symbol symbol))),
          fr_timeframe = str_default rep (row_metric row ''data_file_timeframe'') top_tf,
          fr_family = family, fr_decision = row_decision rep row,
          fr_validation = str_default rep (jget ''validation_status'' row) [],
          fr_backend = str_default rep (py_or (jget ''effective_backend'' runtime) (jget ''signal_backend'' runtime)) [],
          fr_trades = int_of ''n_trades'', fr_win_rate = num ''win_rate'', fr_avg_net = num ''avg_net_pct'',
          fr_test_avg_net = num ''test_avg_net_pct'', fr_profit_factor = num ''profit_factor'',
          fr_profit_factor_state = py_or (row_metric row ''profit_factor_state'') (JObj []),
          fr_data_file = str_default rep (row_metric row ''data_file_label'') [],
          fr_data_quality = data_quality (int_of ''n_trades'') (int_of ''min_trades''),
          fr_next_action = str_default rep (jget ''next_action'' row) [],
          fr_created = str_default rep (jget ''created_at'' payload) stamp,
          fr_drawdown = num ''max_drawdown_pct'', fr_gpu = ie_gpu_family env family\<rparr>)"

definition runtime_row_of :: "import_env \<Rightarrow> string \<Rightarrow> string \<Rightarrow> json \<Rightarrow> json \<Rightarrow> nat \<Rightarrow> runtime_row" where
  "runtime_row_of env stamp run payload runtime n =
     (let rep = ie_rep env
      in \<lparr>ru_run = run,
          ru_requested = str_default rep (py_or (jget ''requested_backend'' runtime) (jget ''requested_backend'' payload)) [],
          ru_effective = str_default rep (jget ''effective_backend'' runtime) [],
          ru_signal = str_default rep (jget ''signal_backend'' runtime) [],
          ru_simulation = str_default rep (jget ''simulation_backend'' runtime) [],
          ru_gpu = truthy (jget ''gpu_available'' runtime),
          ru_fallback = str_default rep (py_or (jget ''fallback_reason'' runtime) (jget ''simulation_fallback_reason'' runtime)) [],
          ru_accelerated = as_int (ie_parse env) (jget ''accelerated_runs'' runtime),
          ru_elapsed = as_float (ie_parse env) (jget ''elapsed_ms'' runtime),
          ru_timeframe = str_default rep (jget ''timeframe'' payload) [], ru_results = n,
          ru_created = str_default rep (jget ''created_at'' payload) stamp\<rparr>)"

definition run_row_of :: "import_env \<Rightarrow> string \<Rightarrow> string \<Rightarrow> string \<Rightarrow> json \<Rightarrow> json list \<Rightarrow> run_row" where
  "run_row_of env stamp run label payload rows =
     (let rep = ie_rep env; counts = decision_counts rep rows
      in \<lparr>rr_id = run,
          rr_experiment = str_default rep (jget ''experiment_id'' payload) (experiment_from_run_name run),
          rr_created = str_default rep (jget ''created_at'' payload) [], rr_label = label, rr_count = length rows,
          rr_promote = counts ''PROMOTE_FOR_PRESSURE_TEST'', rr_observe = counts ''OBSERVE'',
          rr_reject = counts ''REJECT'', rr_imported = stamp\<rparr>)"

text \<open>INSERT ... ON CONFLICT DO UPDATE keeps the row's place, INSERT OR REPLACE moves it to the end.\<close>

definition upsert_run :: "run_row \<Rightarrow> run_row list \<Rightarrow> run_row list" where
  "upsert_run r rows =
     (if list_ex (\<lambda>x. rr_id x = rr_id r) rows then update_where (\<lambda>x. rr_id x = rr_id r) (\<lambda>_. r) rows
      else rows @ [r])"

text \<open>The primary key of \<open>candidates\<close> and \<open>farm_results\<close> rejects a repeated candidate id in one run.\<close>

definition import_run_dir ::
  "import_env \<Rightarrow> import_stamps \<Rightarrow> string \<Rightarrow> string \<Rightarrow> json \<Rightarrow> json list \<Rightarrow> run_tables \<Rightarrow> exn + nat \<times> run_tables" where
  "import_run_dir env ts run label payload csv_rows t =
     (let rows = (if extract_results payload \<noteq> [] then extract_results payload else csv_rows)
      in if \<not> distinct (map (candidate_id_of env) rows)
         then Inl (IntegrityError ''UNIQUE constraint failed: candidates.run_id, candidates.candidate_id'')
         else case runtime_of payload of
           Inl e \<Rightarrow> Inl e
         | Inr runtime \<Rightarrow>
             Inr (length rows,
               t\<lparr>rt_runs := upsert_run (run_row_of env (ts_run ts) run label payload rows) (rt_runs t),
                 rt_candidates := filter (\<lambda>x. rc_run x \<noteq> run) (rt_candidates t) @ map (candidate_of env run) rows,
                 rt_results := filter (\<lambda>x. fr_run x \<noteq> run) (rt_results t)
                   @ map (farm_result_of env (ts_results ts) run payload runtime) rows,
                 rt_runtime := filter (\<lambda>x. ru_run x \<noteq> run) (rt_runtime t)
                   @ [runtime_row_of env (ts_runtime ts) run payload runtime (length rows)]\<rparr>))"

end
