(* ===== verification/Compute_Queue.thy ===== *)
theory Compute_Queue
  imports Fencing Run_Import
begin

text \<open>
  The compute queue \<open>src/research_lab/state_db.py\<close>: jobs under fenced leases, the attempt ledger, the
  content binding of materializations, the atomic publication of a finished run and the recovery of an
  interrupted rename.  The conventions are those of \<open>Brain\<close>: an operation takes the clock values it
  observes and the wall-clock text stamps it writes, and returns the result with the new state; a
  rolled back transaction returns the database it started from.
\<close>

section \<open>Rows\<close>

record job =
  j_id :: int
  j_spec :: string
  j_status :: string
  j_priority :: int
  j_created :: string
  j_started :: "string option"
  j_finished :: "string option"
  j_attempts :: int
  j_run_dir :: "string option"
  j_error :: "string option"
  j_owner :: "string option"
  j_expires :: "time option"
  j_fence :: int
  j_protocol :: string
  j_seq :: int
  j_mid :: "string option"
  j_digest :: "string option"

datatype attempt_state = At_Claimed | At_Executing | At_Ambiguous | At_Superseded | At_Completed | At_Failed

record attempt =
  at_job :: int
  at_owner :: string
  at_fence :: int
  at_state :: attempt_state
  at_claimed :: time
  at_executing :: "time option"
  at_finished :: "time option"
  at_detail :: string

datatype pub_state = Pending_Rename | Directory_Published | Published

record publication =
  p_id :: int
  p_job :: int
  p_fence :: int
  p_path :: string
  p_label :: string
  p_state :: pub_state
  p_created :: time
  p_published :: "time option"

record binding =
  qm_id :: string
  qm_job :: int
  qm_spec :: string
  qm_digest :: string
  qm_created :: string

record stale_event =
  se_job :: int
  se_owner :: string
  se_fence :: int
  se_op :: string
  se_at :: time

record queue_db =
  jobs :: "job list"
  next_job :: int
  attempts :: "attempt list"
  publications :: "publication list"
  next_publication :: int
  bindings :: "binding list"
  stale_events :: "stale_event list"
  run_data :: run_tables

text \<open>The clock floor of a connection that has one (\<open>authority_time_floor\<close>).\<close>

type_synonym floor_opt = "time option"

definition epoch :: "time \<Rightarrow> time option \<Rightarrow> floor_opt \<Rightarrow> time \<times> floor_opt" where
  "epoch observed supplied fl =
     (let t = clock_max (case fl of None \<Rightarrow> observed | Some f \<Rightarrow> f) observed supplied
      in (t, map_option (\<lambda>_. t) fl))"

section \<open>The guarded table\<close>

abbreviation queued :: string where "queued \<equiv> ''queued''"
abbreviation running :: string where "running \<equiv> ''running''"
abbreviation completed :: string where "completed \<equiv> ''completed''"
abbreviation failed :: string where "failed \<equiv> ''failed''"
abbreviation fenced_v2 :: string where "fenced_v2 \<equiv> ''fenced.v2''"

definition get_job :: "int \<Rightarrow> queue_db \<Rightarrow> job option" where
  "get_job jid q = find (\<lambda>r. j_id r = jid) (jobs q)"

text \<open>The columns the trigger \<open>queue_fenced_v2_guard\<close> watches.\<close>

definition job_guarded ::
  "job \<Rightarrow> string \<times> int \<times> string option \<times> time option \<times> int \<times> string option \<times> string option \<times> string option \<times> string option" where
  "job_guarded r =
     (j_status r, j_attempts r, j_owner r, j_expires r, j_fence r, j_mid r, j_digest r, j_run_dir r, j_error r)"

definition job_guard :: "job \<Rightarrow> job \<Rightarrow> bool" where
  "job_guard old new \<longleftrightarrow>
     \<not> (job_guarded new \<noteq> job_guarded old \<and> (j_protocol new \<noteq> fenced_v2 \<or> j_seq new \<noteq> j_seq old + 1))"

text \<open>The partial unique indexes \<open>idx_queue_spec_active\<close> and \<open>idx_queue_materialization\<close>.\<close>

definition active_job :: "job \<Rightarrow> bool" where
  "active_job r \<longleftrightarrow> j_status r = queued \<or> j_status r = running"

definition unique_jobs :: "job list \<Rightarrow> bool" where
  "unique_jobs rows \<longleftrightarrow>
     distinct (map j_spec (filter active_job rows)) \<and> distinct (map j_mid (filter (\<lambda>r. j_mid r \<noteq> None) rows))"

definition update_jobs :: "(job \<Rightarrow> bool) \<Rightarrow> (job \<Rightarrow> job) \<Rightarrow> queue_db \<Rightarrow> exn + nat \<times> queue_db" where
  "update_jobs p f q =
     (if list_ex (\<lambda>r. p r \<and> \<not> job_guard r (f r)) (jobs q)
      then Inl (IntegrityError ''fenced v2 writer required'')
      else let rows = update_where p f (jobs q)
           in if unique_jobs rows then Inr (rowcount p (jobs q), q\<lparr>jobs := rows\<rparr>)
              else Inl (IntegrityError ''UNIQUE constraint failed: queue''))"

definition new_job :: "string \<Rightarrow> string \<Rightarrow> int \<Rightarrow> string \<Rightarrow> string option \<Rightarrow> string option \<Rightarrow> job" where
  "new_job spec status prio stamp mid digest =
     \<lparr>j_id = 0, j_spec = spec, j_status = status, j_priority = prio, j_created = stamp, j_started = None,
      j_finished = None, j_attempts = 0, j_run_dir = None, j_error = None, j_owner = None, j_expires = None,
      j_fence = 0, j_protocol = fenced_v2, j_seq = 0, j_mid = mid, j_digest = digest\<rparr>"

definition insert_job :: "job \<Rightarrow> queue_db \<Rightarrow> exn + int \<times> queue_db" where
  "insert_job r q =
     (let row = r\<lparr>j_id := next_job q\<rparr>
      in if j_protocol row \<noteq> fenced_v2 then Inl (IntegrityError ''fenced v2 writer required'')
         else if \<not> unique_jobs (jobs q @ [row]) then Inl (IntegrityError ''UNIQUE constraint failed: queue'')
         else Inr (next_job q, q\<lparr>jobs := jobs q @ [row], next_job := next_job q + 1\<rparr>))"

definition insert_binding :: "binding \<Rightarrow> queue_db \<Rightarrow> exn + queue_db" where
  "insert_binding m q =
     (if list_ex (\<lambda>x. qm_id x = qm_id m) (bindings q)
      then Inl (IntegrityError ''UNIQUE constraint failed: queue_materializations'')
      else Inr (q\<lparr>bindings := bindings q @ [m]\<rparr>))"

section \<open>Enqueueing\<close>

text \<open>When the second insert fails the source leaves its transaction open; the state returned is the
  committed one.\<close>

definition enqueue_experiment ::
  "string \<Rightarrow> string \<Rightarrow> int \<Rightarrow> string \<Rightarrow> string option \<Rightarrow> string option \<Rightarrow> queue_db \<Rightarrow> (exn + int) \<times> queue_db" where
  "enqueue_experiment stamp spec prio status mid digest q =
     (case insert_job (new_job spec status prio stamp mid digest) q of
        Inl e \<Rightarrow> (Inl e, q)
      | Inr (jid, q1) \<Rightarrow>
          (case mid of
             None \<Rightarrow> (Inr jid, q1)
           | Some m \<Rightarrow>
               (case insert_binding \<lparr>qm_id = m, qm_job = jid, qm_spec = spec, qm_digest = str_or digest,
                                     qm_created = stamp\<rparr> q1 of
                  Inl e \<Rightarrow> (Inl e, q)
                | Inr q2 \<Rightarrow> (Inr jid, q2))))"

text \<open>The binding of a materialization id joined with its job.\<close>

definition bound_job :: "string \<Rightarrow> queue_db \<Rightarrow> (binding \<times> job) option" where
  "bound_job mid q =
     (case find (\<lambda>m. qm_id m = mid) (bindings q) of
        None \<Rightarrow> None
      | Some m \<Rightarrow> (case get_job (qm_job m) q of None \<Rightarrow> None | Some r \<Rightarrow> Some (m, r)))"

definition first_job :: "(job \<Rightarrow> bool) \<Rightarrow> queue_db \<Rightarrow> job option" where
  "first_job p q = first_by j_id (filter p (jobs q))"

text \<open>\<open>assert_current_content\<close>; \<open>digest_of\<close> is the digest of the text of a spec file, \<open>None\<close> when the
  file cannot be read.\<close>

definition content_error :: "(string \<Rightarrow> string option) \<Rightarrow> string \<Rightarrow> string option \<Rightarrow> string \<Rightarrow> exn option" where
  "content_error digest_of spec mid incoming =
     (case mid of
        None \<Rightarrow> None
      | Some _ \<Rightarrow>
          (case digest_of spec of
             None \<Rightarrow> Some (ValueError ''materialization spec content is unreadable'')
           | Some actual \<Rightarrow>
               if actual \<noteq> incoming then Some (ValueError ''materialization digest does not match spec content'')
               else None))"

definition binding_agrees :: "string \<Rightarrow> string \<Rightarrow> binding \<times> job \<Rightarrow> bool" where
  "binding_agrees spec incoming mr \<longleftrightarrow>
     qm_spec (fst mr) = spec \<and> qm_digest (fst mr) = incoming \<and> str_or (j_digest (snd mr)) = incoming"

text \<open>The job that already carries the requested content.\<close>

definition reusable_job :: "string \<Rightarrow> string option \<Rightarrow> string \<Rightarrow> queue_db \<Rightarrow> exn + job option" where
  "reusable_job spec mid incoming q =
     (case mid of
        None \<Rightarrow> Inr (first_job (\<lambda>r. j_spec r = spec \<and> (active_job r \<or> j_status r = completed)) q)
      | Some _ \<Rightarrow>
          (case first_job (\<lambda>r. j_spec r = spec \<and> active_job r) q of
             Some act \<Rightarrow>
               if str_or (j_digest act) \<noteq> incoming
               then Inl (ValueError ''active spec path is bound to different materialization content'')
               else Inr (Some act)
           | None \<Rightarrow>
               Inr (first_job (\<lambda>r. j_spec r = spec \<and> j_status r = completed \<and> j_digest r = Some incoming) q)))"

text \<open>What the handler of an \<open>IntegrityError\<close> does after its rollback.\<close>

definition ensure_after_conflict ::
  "(string \<Rightarrow> string option) \<Rightarrow> string \<Rightarrow> string \<Rightarrow> string option \<Rightarrow> string \<Rightarrow> exn \<Rightarrow> queue_db
     \<Rightarrow> (exn + int \<times> bool) \<times> queue_db" where
  "ensure_after_conflict digest_of stamp spec mid incoming e q =
     (case (case mid of None \<Rightarrow> None | Some m \<Rightarrow> bound_job m q) of
        Some mr \<Rightarrow>
          if \<not> binding_agrees spec incoming mr
          then (Inl (ValueError ''materialization id is bound to different spec content''), q)
          else (case content_error digest_of spec mid incoming of
                  Some e' \<Rightarrow> (Inl e', q) | None \<Rightarrow> (Inr (qm_job (fst mr), False), q))
      | None \<Rightarrow>
          (case content_error digest_of spec mid incoming of
             Some e' \<Rightarrow> (Inl e', q)
           | None \<Rightarrow>
               (case reusable_job spec mid incoming q of
                  Inl e' \<Rightarrow> (Inl e', q)
                | Inr None \<Rightarrow> (Inl e, q)
                | Inr (Some r) \<Rightarrow>
                    (case mid of
                       None \<Rightarrow> (Inr (j_id r, False), q)
                     | Some m \<Rightarrow>
                         let new = \<lparr>qm_id = m, qm_job = j_id r, qm_spec = spec, qm_digest = incoming, qm_created = stamp\<rparr>;
                             q1 = (case insert_binding new q of Inl _ \<Rightarrow> q | Inr q' \<Rightarrow> q')
                         in (case bound_job m q1 of
                               None \<Rightarrow> (Inl (ValueError ''materialization id is bound to different spec content''), q1)
                             | Some mr \<Rightarrow>
                                 if \<not> binding_agrees spec incoming mr
                                 then (Inl (ValueError ''materialization id is bound to different spec content''), q1)
                                 else (Inr (qm_job (fst mr), False), q1))))))"

definition ensure_experiment_queued ::
  "(string \<Rightarrow> string option) \<Rightarrow> string \<Rightarrow> string \<Rightarrow> int \<Rightarrow> string option \<Rightarrow> string option \<Rightarrow> queue_db
     \<Rightarrow> (exn + int \<times> bool) \<times> queue_db" where
  "ensure_experiment_queued digest_of stamp spec prio mid digest q =
     (let incoming = str_or digest;
          conflict = (\<lambda>e. ensure_after_conflict digest_of stamp spec mid incoming e q)
      in case (case mid of None \<Rightarrow> None | Some m \<Rightarrow> bound_job m q) of
           Some mr \<Rightarrow>
             if \<not> binding_agrees spec incoming mr
             then (Inl (ValueError ''materialization id is bound to different spec content''), q)
             else (case content_error digest_of spec mid incoming of
                     Some e \<Rightarrow> (Inl e, q) | None \<Rightarrow> (Inr (qm_job (fst mr), False), q))
         | None \<Rightarrow>
             (case content_error digest_of spec mid incoming of
                Some e \<Rightarrow> (Inl e, q)
              | None \<Rightarrow>
                  (case reusable_job spec mid incoming q of
                     Inl e \<Rightarrow> (Inl e, q)
                   | Inr (Some r) \<Rightarrow>
                       (case mid of
                          None \<Rightarrow> (Inr (j_id r, False), q)
                        | Some m \<Rightarrow>
                            (case insert_binding \<lparr>qm_id = m, qm_job = j_id r, qm_spec = spec,
                                                  qm_digest = incoming, qm_created = stamp\<rparr> q of
                               Inl e \<Rightarrow> conflict e | Inr q1 \<Rightarrow> (Inr (j_id r, False), q1)))
                   | Inr None \<Rightarrow>
                       (case insert_job (new_job spec queued prio stamp mid
                                           (if str_or mid = [] then None else Some incoming)) q of
                          Inl e \<Rightarrow> conflict e
                        | Inr (jid, q1) \<Rightarrow>
                            (case mid of
                               None \<Rightarrow> (Inr (jid, True), q1)
                             | Some m \<Rightarrow>
                                 (case insert_binding \<lparr>qm_id = m, qm_job = jid, qm_spec = spec,
                                                       qm_digest = incoming, qm_created = stamp\<rparr> q1 of
                                    Inl e \<Rightarrow> conflict e | Inr q2 \<Rightarrow> (Inr (jid, True), q2)))))))"

section \<open>Claiming and executing\<close>

definition insert_attempt :: "attempt \<Rightarrow> queue_db \<Rightarrow> exn + queue_db" where
  "insert_attempt a q =
     (if list_ex (\<lambda>x. at_job x = at_job a \<and> at_fence x = at_fence a) (attempts q)
      then Inl (IntegrityError ''UNIQUE constraint failed: job_attempts'')
      else Inr (q\<lparr>attempts := attempts q @ [a]\<rparr>))"

definition claim_next_job ::
  "time \<Rightarrow> time \<Rightarrow> string \<Rightarrow> string \<Rightarrow> time \<Rightarrow> time option \<Rightarrow> floor_opt \<Rightarrow> queue_db
     \<Rightarrow> (exn + job option) \<times> floor_opt \<times> queue_db" where
  "claim_next_job obs1 obs2 stamp owner lease now fl q =
     (if lease \<le> 0 then (Inl (ValueError ''lease_seconds must be positive''), fl, q)
      else
        let (t1, fl1) = epoch obs1 now fl;
            (t, fl2) = epoch obs2 (Some t1) fl1
        in case first_by (\<lambda>r. (j_priority r, j_created r, j_id r)) (filter (\<lambda>r. j_status r = queued) (jobs q)) of
             None \<Rightarrow> (Inr None, fl2, q)
           | Some row \<Rightarrow>
               let fence = j_fence row + 1
               in case update_jobs
                    (\<lambda>r. j_id r = j_id row \<and> j_status r = queued \<and> j_owner r = None \<and> j_fence r = j_fence row
                         \<and> j_protocol r = fenced_v2 \<and> j_seq r = j_seq row)
                    (\<lambda>r. r\<lparr>j_status := running, j_started := Some stamp, j_attempts := j_attempts r + 1,
                          j_owner := Some owner, j_expires := Some (t + lease), j_fence := fence,
                          j_protocol := fenced_v2, j_seq := j_seq row + 1\<rparr>) q of
                    Inl e \<Rightarrow> (Inl e, fl2, q)
                  | Inr (n, q1) \<Rightarrow>
                      if n \<noteq> 1 then (Inl (StaleJobClaim ''job changed during claim''), fl2, q)
                      else (case insert_attempt \<lparr>at_job = j_id row, at_owner = owner, at_fence = fence,
                                 at_state = At_Claimed, at_claimed = t, at_executing = None, at_finished = None,
                                 at_detail = []\<rparr> q1 of
                              Inl e \<Rightarrow> (Inl e, fl2, q)
                            | Inr q2 \<Rightarrow> (Inr (get_job (j_id row) q2), fl2, q2)))"

definition assert_job_claim :: "int \<Rightarrow> string \<Rightarrow> int \<Rightarrow> time \<Rightarrow> queue_db \<Rightarrow> exn + job" where
  "assert_job_claim jid owner fence now q =
     (case get_job jid q of
        None \<Rightarrow> Inl (StaleJobClaim ''stale claim for job'')
      | Some r \<Rightarrow>
          if j_status r \<noteq> running \<or> str_or (j_owner r) \<noteq> owner \<or> j_fence r \<noteq> fence \<or> or0 (j_expires r) \<le> now
          then Inl (StaleJobClaim ''stale claim for job'') else Inr r)"

text \<open>The row condition every claim holder's UPDATE repeats.\<close>

definition held_job :: "int \<Rightarrow> string \<Rightarrow> int \<Rightarrow> time \<Rightarrow> job \<Rightarrow> bool" where
  "held_job jid owner fence now r \<longleftrightarrow>
     j_id r = jid \<and> j_status r = running \<and> j_owner r = Some owner \<and> j_fence r = fence
     \<and> (case j_expires r of None \<Rightarrow> False | Some e \<Rightarrow> e > now) \<and> j_protocol r = fenced_v2"

text \<open>
  Marking, renewing and finishing read the row first and write later, with no transaction around both;
  the second half is a definition of its own, so that anything may happen between the two.
\<close>

definition mark_executing_commit ::
  "time \<Rightarrow> time \<Rightarrow> int \<Rightarrow> string \<Rightarrow> int \<Rightarrow> floor_opt \<Rightarrow> queue_db \<Rightarrow> (exn + unit) \<times> floor_opt \<times> queue_db" where
  "mark_executing_commit obs t1 jid owner fence fl q =
     (let (t, fl1) = epoch obs (Some t1) fl;
          p = (\<lambda>a. at_job a = jid \<and> at_owner a = owner \<and> at_fence a = fence \<and> at_state a = At_Claimed
                \<and> list_ex (held_job jid owner fence t) (jobs q))
      in if rowcount p (attempts q) \<noteq> 1 then (Inl (StaleJobClaim ''attempt changed for job''), fl1, q)
         else (Inr (), fl1,
               q\<lparr>attempts := update_where p (\<lambda>a. a\<lparr>at_state := At_Executing, at_executing := Some t\<rparr>) (attempts q)\<rparr>))"

definition mark_job_executing ::
  "time \<Rightarrow> time \<Rightarrow> int \<Rightarrow> string \<Rightarrow> int \<Rightarrow> time option \<Rightarrow> floor_opt \<Rightarrow> queue_db
     \<Rightarrow> (exn + unit) \<times> floor_opt \<times> queue_db" where
  "mark_job_executing obs1 obs2 jid owner fence now fl q =
     (let (t1, fl1) = epoch obs1 now fl
      in case assert_job_claim jid owner fence t1 q of
           Inl e \<Rightarrow> (Inl e, fl1, q)
         | Inr _ \<Rightarrow> mark_executing_commit obs2 t1 jid owner fence fl1 q)"

definition renew_commit ::
  "time \<Rightarrow> time \<Rightarrow> job \<Rightarrow> int \<Rightarrow> string \<Rightarrow> int \<Rightarrow> time \<Rightarrow> floor_opt \<Rightarrow> queue_db
     \<Rightarrow> (exn + time) \<times> floor_opt \<times> queue_db" where
  "renew_commit obs t1 row jid owner fence lease fl q =
     (let (t, fl1) = epoch obs (Some t1) fl
      in case assert_job_claim jid owner fence t q of
           Inl e \<Rightarrow> (Inl e, fl1, q)
         | Inr _ \<Rightarrow>
             (case update_jobs (\<lambda>r. held_job jid owner fence t r \<and> j_seq r = j_seq row)
                     (\<lambda>r. r\<lparr>j_expires := Some (t + lease), j_protocol := fenced_v2, j_seq := j_seq r + 1\<rparr>) q of
                Inl e \<Rightarrow> (Inl e, fl1, q)
              | Inr (n, q1) \<Rightarrow>
                  if n \<noteq> 1 then (Inl (StaleJobClaim ''job changed during renewal''), fl1, q)
                  else (Inr (t + lease), fl1, q1)))"

definition renew_job_lease ::
  "time \<Rightarrow> time \<Rightarrow> int \<Rightarrow> string \<Rightarrow> int \<Rightarrow> time \<Rightarrow> time option \<Rightarrow> floor_opt \<Rightarrow> queue_db
     \<Rightarrow> (exn + time) \<times> floor_opt \<times> queue_db" where
  "renew_job_lease obs1 obs2 jid owner fence lease now fl q =
     (if lease \<le> 0 then (Inl (ValueError ''lease_seconds must be positive''), fl, q)
      else
        let (t1, fl1) = epoch obs1 now fl
        in case assert_job_claim jid owner fence t1 q of
             Inl e \<Rightarrow> (Inl e, fl1, q)
           | Inr row \<Rightarrow> renew_commit obs2 t1 row jid owner fence lease fl1 q)"

section \<open>Reaping expired leases\<close>

definition expired_job :: "time \<Rightarrow> job \<Rightarrow> bool" where
  "expired_job now r \<longleftrightarrow>
     j_status r = running \<and> j_protocol r = fenced_v2 \<and> j_owner r \<noteq> None
     \<and> (case j_expires r of None \<Rightarrow> False | Some e \<Rightarrow> e \<le> now)"

text \<open>An attempt that may have had effects is kept as ambiguous, one that never started is superseded.\<close>

definition close_attempt :: "time \<Rightarrow> attempt \<Rightarrow> attempt" where
  "close_attempt now a =
     a\<lparr>at_state := (if at_state a = At_Executing then At_Ambiguous else At_Superseded), at_finished := Some now,
       at_detail := ''lease expired before terminal publication''\<rparr>"

fun reap_jobs :: "time \<Rightarrow> job list \<Rightarrow> nat \<Rightarrow> queue_db \<Rightarrow> exn + nat \<times> queue_db" where
  "reap_jobs now [] n q = Inr (n, q)"
| "reap_jobs now (row # rows) n q =
     (case update_jobs
          (\<lambda>r. j_id r = j_id row \<and> j_status r = running \<and> j_owner r = j_owner row \<and> j_fence r = j_fence row
               \<and> (case j_expires r of None \<Rightarrow> False | Some e \<Rightarrow> e \<le> now)
               \<and> j_protocol r = fenced_v2 \<and> j_seq r = j_seq row)
          (\<lambda>r. r\<lparr>j_status := queued, j_started := None, j_owner := None, j_expires := None,
                j_error := Some ''requeued stale running job: expired fenced lease'',
                j_protocol := fenced_v2, j_seq := j_seq row + 1\<rparr>) q of
        Inl e \<Rightarrow> Inl e
      | Inr (k, q1) \<Rightarrow>
          if k \<noteq> 1 then reap_jobs now rows n q1
          else reap_jobs now rows (Suc n)
                 (q1\<lparr>attempts := update_where (\<lambda>a. at_job a = j_id row \<and> at_fence a = j_fence row)
                                  (close_attempt now) (attempts q1)\<rparr>))"

definition reap_stale_jobs ::
  "time \<Rightarrow> time \<Rightarrow> time option \<Rightarrow> floor_opt \<Rightarrow> queue_db \<Rightarrow> (exn + nat) \<times> floor_opt \<times> queue_db" where
  "reap_stale_jobs obs1 obs2 now fl q =
     (let (t1, fl1) = epoch obs1 now fl;
          (t, fl2) = epoch obs2 (Some t1) fl1
      in case reap_jobs t (filter (expired_job t) (jobs q)) 0 q of
           Inl e \<Rightarrow> (Inl e, fl2, q)
         | Inr (n, q') \<Rightarrow> (Inr n, fl2, q'))"

section \<open>Finishing\<close>

definition open_attempt :: "attempt \<Rightarrow> bool" where
  "open_attempt a \<longleftrightarrow> at_state a = At_Claimed \<or> at_state a = At_Executing"

definition finish_commit ::
  "time \<Rightarrow> time \<Rightarrow> job \<Rightarrow> string \<Rightarrow> int \<Rightarrow> bool \<Rightarrow> string option \<Rightarrow> string \<Rightarrow> string \<Rightarrow> int \<Rightarrow> floor_opt
     \<Rightarrow> queue_db \<Rightarrow> (exn + unit) \<times> floor_opt \<times> queue_db" where
  "finish_commit obs t1 row stamp jid ok run_dir err owner fence fl q =
     (let (t, fl1) = epoch obs (Some t1) fl
      in case update_jobs (\<lambda>r. held_job jid owner fence t r \<and> j_seq r = j_seq row)
           (\<lambda>r. r\<lparr>j_status := (if ok then completed else failed), j_finished := Some stamp, j_run_dir := run_dir,
                 j_error := (if ok then None else Some (take 1000 err)), j_owner := None,
                 j_expires := None, j_protocol := fenced_v2, j_seq := j_seq row + 1\<rparr>) q of
           Inl e \<Rightarrow> (Inl e, fl1, q)
         | Inr (n, q1) \<Rightarrow>
             if n \<noteq> 1 then (Inl (StaleJobClaim ''job changed during finish''), fl1, q)
             else (Inr (), fl1,
                   q1\<lparr>attempts := update_where
                        (\<lambda>a. at_job a = jid \<and> at_fence a = j_fence row \<and> open_attempt a)
                        (\<lambda>a. a\<lparr>at_state := (if ok then At_Completed else At_Failed), at_finished := Some t,
                              at_detail := take 1000 err\<rparr>) (attempts q1)\<rparr>))"

text \<open>A stale finisher leaves an event behind and raises.\<close>

definition finish_job ::
  "time \<Rightarrow> time \<Rightarrow> string \<Rightarrow> int \<Rightarrow> bool \<Rightarrow> string option \<Rightarrow> string \<Rightarrow> string \<Rightarrow> int \<Rightarrow> time option \<Rightarrow> floor_opt
     \<Rightarrow> queue_db \<Rightarrow> (exn + unit) \<times> floor_opt \<times> queue_db" where
  "finish_job obs1 obs2 stamp jid ok run_dir err owner fence now fl q =
     (let (t1, fl1) = epoch obs1 now fl
      in if get_job jid q = None then (Inl (KeyError ''unknown job''), fl1, q)
         else case assert_job_claim jid owner fence t1 q of
           Inl e \<Rightarrow>
             (Inl e, fl1, q\<lparr>stale_events := stale_events q @
                [\<lparr>se_job = jid, se_owner = owner, se_fence = fence, se_op = (if ok then completed else failed),
                  se_at = t1\<rparr>]\<rparr>)
         | Inr row \<Rightarrow> finish_commit obs2 t1 row stamp jid ok run_dir err owner fence fl1 q)"

definition complete_job ::
  "time \<Rightarrow> time \<Rightarrow> string \<Rightarrow> int \<Rightarrow> string \<Rightarrow> string \<Rightarrow> int \<Rightarrow> time option \<Rightarrow> floor_opt \<Rightarrow> queue_db
     \<Rightarrow> (exn + unit) \<times> floor_opt \<times> queue_db" where
  "complete_job obs1 obs2 stamp jid run_dir owner fence now fl q =
     finish_job obs1 obs2 stamp jid True (Some run_dir) [] owner fence now fl q"

definition fail_job ::
  "time \<Rightarrow> time \<Rightarrow> string \<Rightarrow> int \<Rightarrow> string \<Rightarrow> string \<Rightarrow> int \<Rightarrow> time option \<Rightarrow> floor_opt \<Rightarrow> queue_db
     \<Rightarrow> (exn + unit) \<times> floor_opt \<times> queue_db" where
  "fail_job obs1 obs2 stamp jid err owner fence now fl q =
     finish_job obs1 obs2 stamp jid False None err owner fence now fl q"

end
