(* ===== verification/Publication.thy ===== *)
theory Publication
  imports Compute_Queue "HOL-Library.Sublist"
begin

text \<open>
  Publication of a finished run, \<open>src/research_lab/state_db.py\<close>: \<open>publish_completed_job\<close> imports the
  provisional run and completes its job in one transaction, the rename of the directory follows and is
  tracked by a publication row, and \<open>recover_pending_publications\<close> finishes interrupted renames.

  Paths are resolved absolute paths with forward slashes; the file system is the set of existing run
  directories.
\<close>

section \<open>Paths\<close>

definition path_under :: "string \<Rightarrow> string \<Rightarrow> bool" where
  "path_under base p \<longleftrightarrow> p = base \<or> prefix (base @ ''/'') p"

definition base_name :: "string \<Rightarrow> string" where
  "base_name p = rev (takeWhile (\<lambda>c. c \<noteq> CHR ''/'') (rev p))"

definition provisional_root :: "string \<Rightarrow> string" where
  "provisional_root base = base @ ''/experiments/provisional''"

definition completed_root :: "string \<Rightarrow> string" where
  "completed_root base = base @ ''/experiments/completed''"

definition label_dir :: "string \<Rightarrow> string \<Rightarrow> string" where
  "label_dir base label = base @ ''/'' @ label"

definition final_label :: "string \<Rightarrow> string" where
  "final_label prov = ''experiments/completed/'' @ base_name prov"

section \<open>Recovery of pending renames\<close>

text \<open>What stops the recovery at a publication row before it touches anything.\<close>

definition recovery_error :: "string \<Rightarrow> string set \<Rightarrow> publication \<Rightarrow> exn option" where
  "recovery_error base fs row =
     (if \<not> path_under (provisional_root base) (p_path row) then Some (ValueError ''not under the provisional root'')
      else if prefix ''/'' (p_label row) then Some (RuntimeError ''publication final label must be relative'')
      else if \<not> path_under (completed_root base) (label_dir base (p_label row))
      then Some (ValueError ''not under the completed root'')
      else if base_name (label_dir base (p_label row)) \<noteq> base_name (p_path row)
      then Some (RuntimeError ''publication paths identify different generations'')
      else if p_path row \<in> fs \<and> label_dir base (p_label row) \<in> fs
      then Some (RuntimeError ''publication has both provisional and final directories'')
      else None)"

text \<open>Moving a directory that is there may raise what the operating system reports; then nothing moved.\<close>

definition rename_dir :: "exn option \<Rightarrow> string \<Rightarrow> string \<Rightarrow> string set \<Rightarrow> exn + string set" where
  "rename_dir os src dst fs =
     (if src \<notin> fs then Inr fs
      else case os of Some e \<Rightarrow> Inl e | None \<Rightarrow> Inr (insert dst (fs - {src})))"

definition mark_directory :: "time \<Rightarrow> publication \<Rightarrow> publication" where
  "mark_directory t row = row\<lparr>p_state := Directory_Published, p_published := Some t\<rparr>"

text \<open>The loop; each row commits on its own, so an exception keeps what was done before it.  \<open>obs\<close> gives
  the clock observed at each publication, \<open>mv\<close> what its rename raises, if it does.\<close>

fun recover_rows ::
  "string \<Rightarrow> (int \<Rightarrow> time) \<Rightarrow> (int \<Rightarrow> exn option) \<Rightarrow> time option \<Rightarrow> publication list \<Rightarrow> nat \<Rightarrow> floor_opt \<Rightarrow> string set \<Rightarrow> queue_db
     \<Rightarrow> (exn + nat) \<times> floor_opt \<times> string set \<times> queue_db" where
  "recover_rows base obs mv now [] n fl fs q = (Inr n, fl, fs, q)"
| "recover_rows base obs mv now (row # rows) n fl fs q =
     (case recovery_error base fs row of
        Some e \<Rightarrow> (Inl e, fl, fs, q)
      | None \<Rightarrow>
          let fin = label_dir base (p_label row)
          in case rename_dir (mv (p_id row)) (p_path row) fin fs of
            Inl e \<Rightarrow> (Inl e, fl, fs, q)
          | Inr fs1 \<Rightarrow>
             if fin \<notin> fs1 then recover_rows base obs mv now rows n fl fs1 q
             else
               let (t, fl1) = epoch (obs (p_id row)) now fl;
                   p = (\<lambda>x. p_id x = p_id row \<and> p_state x = Pending_Rename \<and> p_job x = p_job row \<and> p_fence x = p_fence row)
               in if rowcount p (publications q) = 1
                  then recover_rows base obs mv now rows (Suc n) fl1 fs1
                         (q\<lparr>publications := update_where p (mark_directory t) (publications q)\<rparr>)
                  else recover_rows base obs mv now rows n fl1 fs1 q)"

definition pending_publication :: "int option \<Rightarrow> int option \<Rightarrow> publication \<Rightarrow> bool" where
  "pending_publication jid fence x \<longleftrightarrow>
     p_state x = Pending_Rename \<and> (case jid of None \<Rightarrow> True | Some j \<Rightarrow> p_job x = j)
     \<and> (case fence of None \<Rightarrow> True | Some f \<Rightarrow> p_fence x = f)"

definition recover_pending_publications ::
  "string \<Rightarrow> (int \<Rightarrow> time) \<Rightarrow> (int \<Rightarrow> exn option) \<Rightarrow> int option \<Rightarrow> int option \<Rightarrow> time option \<Rightarrow> floor_opt \<Rightarrow> string set \<Rightarrow> queue_db
     \<Rightarrow> (exn + nat) \<times> floor_opt \<times> string set \<times> queue_db" where
  "recover_pending_publications base obs mv jid fence now fl fs q =
     recover_rows base obs mv now (sort_key p_id (filter (pending_publication jid fence) (publications q))) 0 fl fs q"

section \<open>Publishing\<close>

text \<open>The identity file of the provisional directory names this very claim.\<close>

definition generation_error ::
  "(json \<Rightarrow> string) \<Rightarrow> (string \<Rightarrow> int option) \<Rightarrow> json option \<Rightarrow> int \<Rightarrow> string \<Rightarrow> int \<Rightarrow> exn option" where
  "generation_error rep int_text gen jid owner fence =
     (let mismatch = StaleJobClaim ''provisional generation identity does not match claim''
      in case gen of
           None \<Rightarrow> Some (StaleJobClaim ''provisional generation identity is missing'')
         | Some g \<Rightarrow>
             if \<not> is_obj g then Some (AttributeError ''get'')
             else if jget ''schema'' g \<noteq> JStr ''strategy_lab_publication_generation.v1'' then Some mismatch
             else (case int_of_json int_text (jget ''job_id'' g) of
                     Inl e \<Rightarrow> Some e
                   | Inr n \<Rightarrow>
                       if n \<noteq> jid then Some mismatch
                       else if str_of_json rep (jget ''owner_id'' g) \<noteq> owner then Some mismatch
                       else (case int_of_json int_text (jget ''fencing_token'' g) of
                               Inl e \<Rightarrow> Some e
                             | Inr f \<Rightarrow> if f \<noteq> fence then Some mismatch else None)))"

definition upsert_publication :: "int \<Rightarrow> int \<Rightarrow> string \<Rightarrow> string \<Rightarrow> time \<Rightarrow> queue_db \<Rightarrow> queue_db" where
  "upsert_publication jid fence path label t q =
     (if list_ex (\<lambda>x. p_job x = jid \<and> p_fence x = fence) (publications q)
      then q\<lparr>publications := update_where (\<lambda>x. p_job x = jid \<and> p_fence x = fence)
               (\<lambda>x. x\<lparr>p_path := path, p_label := label\<rparr>) (publications q)\<rparr>
      else q\<lparr>publications := publications q @
               [\<lparr>p_id = next_publication q, p_job = jid, p_fence = fence, p_path = path, p_label = label,
                 p_state = Pending_Rename, p_created = t, p_published = None\<rparr>],
             next_publication := next_publication q + 1\<rparr>)"

text \<open>What a run directory holds.\<close>

record run_files =
  rf_metrics :: json
  rf_rows :: "json list"
  rf_generation :: "json option"

text \<open>The transaction of \<open>publish_completed_job\<close>: import, recheck the claim, complete, record the
  publication; any exception rolls all of it back.\<close>

definition publish_transaction ::
  "import_env \<Rightarrow> time \<Rightarrow> import_stamps \<Rightarrow> string \<Rightarrow> string \<Rightarrow> run_files \<Rightarrow> int \<Rightarrow> string \<Rightarrow> int \<Rightarrow> time \<Rightarrow> time option \<Rightarrow> floor_opt
     \<Rightarrow> queue_db \<Rightarrow> (exn + nat) \<times> floor_opt \<times> queue_db" where
  "publish_transaction env obs ts stamp prov files jid owner fence t now fl q =
     (case assert_job_claim jid owner fence t q of
        Inl e \<Rightarrow> (Inl e, fl, q)
      | Inr _ \<Rightarrow>
          (case import_run_dir env ts (base_name prov) (final_label prov) (rf_metrics files) (rf_rows files) (run_data q) of
             Inl e \<Rightarrow> (Inl e, fl, q)
           | Inr (imported, tables) \<Rightarrow>
               let q0 = q\<lparr>run_data := tables\<rparr>;
                   (boundary, fl1) = epoch obs now fl
               in case assert_job_claim jid owner fence boundary q0 of
                    Inl e \<Rightarrow> (Inl e, fl1, q)
                  | Inr row \<Rightarrow>
                      (case update_jobs (\<lambda>r. held_job jid owner fence boundary r \<and> j_seq r = j_seq row)
                              (\<lambda>r. r\<lparr>j_status := completed, j_finished := Some stamp,
                                    j_run_dir := Some (final_label prov), j_error := None, j_owner := None,
                                    j_expires := None, j_protocol := fenced_v2, j_seq := j_seq row + 1\<rparr>) q0 of
                         Inl e \<Rightarrow> (Inl e, fl1, q)
                       | Inr (n, q1) \<Rightarrow>
                           if n \<noteq> 1 then (Inl (StaleJobClaim ''job changed during publication''), fl1, q)
                           else
                             let q2 = q1\<lparr>attempts := update_where
                                    (\<lambda>a. at_job a = jid \<and> at_owner a = owner \<and> at_fence a = fence \<and> open_attempt a)
                                    (\<lambda>a. a\<lparr>at_state := At_Completed, at_finished := Some boundary\<rparr>) (attempts q1)\<rparr>
                             in (Inr imported, fl1, upsert_publication jid fence prov (final_label prov) boundary q2))))"

definition publish_completed_job ::
  "import_env \<Rightarrow> (string \<Rightarrow> int option) \<Rightarrow> time \<Rightarrow> time \<Rightarrow> time \<Rightarrow> (int \<Rightarrow> time) \<Rightarrow> (int \<Rightarrow> exn option) \<Rightarrow> import_stamps \<Rightarrow> string \<Rightarrow> string \<Rightarrow> string \<Rightarrow> run_files
     \<Rightarrow> int \<Rightarrow> string \<Rightarrow> int \<Rightarrow> time option \<Rightarrow> floor_opt \<Rightarrow> string set \<Rightarrow> queue_db
     \<Rightarrow> (exn + string \<times> nat) \<times> floor_opt \<times> string set \<times> queue_db" where
  "publish_completed_job env int_text obs1 obs2 obs3 obs4 mv ts stamp base prov files jid owner fence now fl fs q =
     (let (t1, fl1) = epoch obs1 now fl
      in if \<not> path_under (provisional_root base) prov then (Inl (ValueError ''not under the provisional root''), fl1, fs, q)
         else case generation_error (ie_rep env) int_text (rf_generation files) jid owner fence of
           Some e \<Rightarrow> (Inl e, fl1, fs, q)
         | None \<Rightarrow>
             let (t, fl2) = epoch obs2 (Some t1) fl1
             in case publish_transaction env obs3 ts stamp prov files jid owner fence t now fl2 q of
                  (Inl e, fl3, _) \<Rightarrow> (Inl e, fl3, fs, q)
                | (Inr imported, fl3, q1) \<Rightarrow>
                    (case recover_pending_publications base obs4 mv (Some jid) (Some fence) now fl3 fs q1 of
                       (Inl e, fl4, fs1, q2) \<Rightarrow> (Inl e, fl4, fs1, q2)
                     | (Inr _, fl4, fs1, q2) \<Rightarrow>
                         (Inr (completed_root base @ ''/'' @ base_name prov, imported), fl4, fs1, q2)))"

definition mark_publication_indexes_published ::
  "time \<Rightarrow> int \<Rightarrow> int \<Rightarrow> time option \<Rightarrow> floor_opt \<Rightarrow> queue_db \<Rightarrow> (exn + unit) \<times> floor_opt \<times> queue_db" where
  "mark_publication_indexes_published obs jid fence now fl q =
     (let (t, fl1) = epoch obs now fl;
          p = (\<lambda>x. p_job x = jid \<and> p_fence x = fence \<and> (p_state x = Directory_Published \<or> p_state x = Published))
      in if rowcount p (publications q) \<noteq> 1
         then (Inl (RuntimeError ''publication generation is not ready for secondary indexes''), fl1, q)
         else (Inr (), fl1,
               q\<lparr>publications := update_where p (\<lambda>x. x\<lparr>p_state := Published, p_published := Some t\<rparr>) (publications q)\<rparr>))"

end
