(* ===== verification/Compute_Rows.thy ===== *)
theory Compute_Rows
  imports Publication
begin

text \<open>
  How the rows of the compute queue may change: the evolution of jobs (which freezes a finished job),
  the invariant that ties jobs, attempts, publications and bindings together, and the lemmas that
  carry each kind of write through both.
\<close>

section \<open>Evolution of jobs\<close>

definition finished_job :: "job \<Rightarrow> bool" where
  "finished_job r \<longleftrightarrow> j_status r = completed \<or> j_status r = failed"

definition job_step :: "job \<Rightarrow> job \<Rightarrow> bool" where
  "job_step r r' \<longleftrightarrow>
     j_id r' = j_id r \<and> j_spec r' = j_spec r \<and> j_priority r' = j_priority r \<and> j_created r' = j_created r \<and>
     j_mid r' = j_mid r \<and> j_digest r' = j_digest r \<and> (finished_job r \<longrightarrow> r' = r) \<and>
     fenced_step j_fence j_seq j_owner job_guarded r r'"

abbreviation fresh_job :: "job \<Rightarrow> bool" where
  "fresh_job \<equiv> fresh_fence j_fence j_owner"

definition queue_evolves :: "queue_db \<Rightarrow> queue_db \<Rightarrow> bool" where
  "queue_evolves q q' \<longleftrightarrow> rows_evolve job_step fresh_job (jobs q) (jobs q')"

lemma job_step_iff:
  "job_step r r' \<longleftrightarrow>
     j_id r' = j_id r \<and> j_spec r' = j_spec r \<and> j_priority r' = j_priority r \<and> j_created r' = j_created r \<and>
     j_mid r' = j_mid r \<and> j_digest r' = j_digest r \<and> (finished_job r \<longrightarrow> r' = r) \<and>
     j_fence r \<le> j_fence r' \<and> j_seq r \<le> j_seq r' \<and>
     (j_seq r' = j_seq r \<longrightarrow> job_guarded r' = job_guarded r) \<and>
     (\<forall>h. j_owner r' = Some h \<longrightarrow> (j_owner r = Some h \<and> j_fence r' = j_fence r) \<or> j_fence r < j_fence r')"
  by (simp add: job_step_def fenced_step_def)

interpretation job_rows: row_evolution j_id job_step fresh_job
proof
  show "job_step r1 r3" if "job_step r1 r2" "job_step r2 r3" for r1 r2 r3
    using that fenced_step_trans[of j_fence j_seq j_owner job_guarded r1 r2 r3] by (auto simp: job_step_def)
  show "fresh_job r'" if "fresh_job r" "job_step r r'" for r r'
    using that fresh_fence_step by (auto simp: job_step_def)
qed (simp_all add: job_step_def)

lemma queue_evolves_jobs: "jobs q' = jobs q \<Longrightarrow> queue_evolves q q'"
  by (simp add: queue_evolves_def job_rows.evolve_refl)

lemma queue_evolves_refl [simp]: "queue_evolves q q"
  by (simp add: queue_evolves_jobs)

lemma queue_evolves_trans: "queue_evolves q1 q2 \<Longrightarrow> queue_evolves q2 q3 \<Longrightarrow> queue_evolves q1 q3"
  unfolding queue_evolves_def by (rule job_rows.evolve_trans)

lemma get_job_evolves:
  assumes "queue_evolves q q'" and "get_job k q = Some r"
  obtains r' where "get_job k q' = Some r'" and "job_step r r'"
  using assms job_rows.find_evolves[of "jobs q" "jobs q'" k r thesis]
  unfolding queue_evolves_def get_job_def by blast

text \<open>Attempts stay in the ledger, and a closed one is never rewritten.\<close>

definition attempt_step :: "attempt \<Rightarrow> attempt \<Rightarrow> bool" where
  "attempt_step a a' \<longleftrightarrow>
     at_job a' = at_job a \<and> at_fence a' = at_fence a \<and> at_owner a' = at_owner a \<and> (\<not> open_attempt a \<longrightarrow> a' = a)"

definition ledger_evolves :: "queue_db \<Rightarrow> queue_db \<Rightarrow> bool" where
  "ledger_evolves q q' \<longleftrightarrow> rows_evolve attempt_step (\<lambda>_. True) (attempts q) (attempts q')"

interpretation attempt_rows: row_evolution "\<lambda>a. (at_job a, at_fence a)" attempt_step "\<lambda>_. True"
  by unfold_locales (auto simp: attempt_step_def)

lemma ledger_evolves_attempts: "attempts q' = attempts q \<Longrightarrow> ledger_evolves q q'"
  by (simp add: ledger_evolves_def attempt_rows.evolve_refl)

lemma ledger_evolves_trans: "ledger_evolves q1 q2 \<Longrightarrow> ledger_evolves q2 q3 \<Longrightarrow> ledger_evolves q1 q3"
  unfolding ledger_evolves_def by (rule attempt_rows.evolve_trans)

lemma ledger_evolves_closed:
  assumes "ledger_evolves q q'" and "a \<in> set (attempts q)" and "\<not> open_attempt a"
  shows "a \<in> set (attempts q')"
proof -
  obtain rows ext where *: "attempts q' = rows @ ext" "list_all2 attempt_step (attempts q) rows"
    using assms(1) by (auto simp: ledger_evolves_def rows_evolve_def)
  obtain a' where "a' \<in> set rows" "attempt_step a a'"
    using assms(2) *(2) by (metis in_set_conv_nth list_all2_conv_all_nth)
  then show ?thesis using assms(3) *(1) by (simp add: attempt_step_def)
qed

section \<open>Well-formed queues\<close>

definition job_ok :: "job \<Rightarrow> bool" where
  "job_ok r \<longleftrightarrow>
     (j_owner r \<noteq> None \<longrightarrow> j_status r = running \<and> j_expires r \<noteq> None) \<and>
     (j_owner r = None \<longrightarrow> j_expires r = None) \<and> j_protocol r = fenced_v2"

definition jobs_ok :: "queue_db \<Rightarrow> bool" where
  "jobs_ok q \<longleftrightarrow>
     distinct (map j_id (jobs q)) \<and> (\<forall>r \<in> set (jobs q). j_id r < next_job q \<and> job_ok r) \<and> unique_jobs (jobs q)"

text \<open>The ledger: one attempt per job and token; an attempt is open exactly while its own claim holds the
  job, and a held job has the attempt of its claim.\<close>

definition attempt_ok :: "queue_db \<Rightarrow> attempt \<Rightarrow> bool" where
  "attempt_ok q a \<longleftrightarrow>
     (\<exists>r. get_job (at_job a) q = Some r \<and> at_fence a \<le> j_fence r \<and>
        (open_attempt a \<longleftrightarrow> j_owner r = Some (at_owner a) \<and> j_fence r = at_fence a))"

definition ledger_ok :: "queue_db \<Rightarrow> bool" where
  "ledger_ok q \<longleftrightarrow>
     distinct (map (\<lambda>a. (at_job a, at_fence a)) (attempts q)) \<and> (\<forall>a \<in> set (attempts q). attempt_ok q a) \<and>
     (\<forall>k r h. get_job k q = Some r \<longrightarrow> j_owner r = Some h \<longrightarrow>
        (\<exists>a \<in> set (attempts q). at_job a = k \<and> at_fence a = j_fence r \<and> at_owner a = h))"

definition publication_ok :: "queue_db \<Rightarrow> publication \<Rightarrow> bool" where
  "publication_ok q p \<longleftrightarrow>
     (\<exists>r. get_job (p_job p) q = Some r \<and> j_status r = completed \<and> j_fence r = p_fence p
        \<and> j_run_dir r = Some (p_label p))"

definition publications_ok :: "queue_db \<Rightarrow> bool" where
  "publications_ok q \<longleftrightarrow>
     distinct (map (\<lambda>p. (p_job p, p_fence p)) (publications q)) \<and> distinct (map p_id (publications q)) \<and>
     (\<forall>p \<in> set (publications q). p_id p < next_publication q \<and> publication_ok q p)"

definition binding_ok :: "queue_db \<Rightarrow> binding \<Rightarrow> bool" where
  "binding_ok q m \<longleftrightarrow>
     (\<exists>r. get_job (qm_job m) q = Some r \<and> j_spec r = qm_spec m \<and>
        (qm_id m \<noteq> [] \<longrightarrow> str_or (j_digest r) = qm_digest m))"

definition bindings_ok :: "queue_db \<Rightarrow> bool" where
  "bindings_ok q \<longleftrightarrow> distinct (map qm_id (bindings q)) \<and> (\<forall>m \<in> set (bindings q). binding_ok q m)"

definition queue_ok :: "queue_db \<Rightarrow> bool" where
  "queue_ok q \<longleftrightarrow> jobs_ok q \<and> ledger_ok q \<and> publications_ok q \<and> bindings_ok q"

lemma jobs_okD:
  assumes "jobs_ok q"
  shows "distinct (map j_id (jobs q))" and "r \<in> set (jobs q) \<Longrightarrow> j_id r < next_job q"
    and "r \<in> set (jobs q) \<Longrightarrow> job_ok r" and "unique_jobs (jobs q)"
  using assms by (auto simp: jobs_ok_def)

lemma get_job_mem: "get_job k q = Some r \<Longrightarrow> r \<in> set (jobs q) \<and> j_id r = k"
  by (auto simp: get_job_def dest: find_SomeD)

lemma get_job_iff: "jobs_ok q \<Longrightarrow> get_job k q = Some r \<longleftrightarrow> r \<in> set (jobs q) \<and> j_id r = k"
  unfolding get_job_def by (rule find_key_iff) (rule jobs_okD)

lemma get_job_ok: "jobs_ok q \<Longrightarrow> get_job k q = Some r \<Longrightarrow> job_ok r"
  by (auto dest: get_job_mem jobs_okD)

text \<open>Whoever leaves the jobs alone keeps what the other tables say of them.\<close>

lemma get_job_cong: "jobs q' = jobs q \<Longrightarrow> get_job k q' = get_job k q"
  by (simp add: get_job_def)

lemma ok_other [simp]:
  "get_job k (q\<lparr>attempts := as\<rparr>) = get_job k q" "get_job k (q\<lparr>publications := ps\<rparr>) = get_job k q"
  "get_job k (q\<lparr>next_publication := n\<rparr>) = get_job k q" "get_job k (q\<lparr>bindings := bs\<rparr>) = get_job k q"
  "get_job k (q\<lparr>stale_events := es\<rparr>) = get_job k q" "get_job k (q\<lparr>run_data := d\<rparr>) = get_job k q"
  "queue_ok (q\<lparr>stale_events := es\<rparr>) = queue_ok q" "queue_ok (q\<lparr>run_data := d\<rparr>) = queue_ok q"
  by (simp_all add: get_job_def queue_ok_def jobs_ok_def ledger_ok_def attempt_ok_def publications_ok_def
      publication_ok_def bindings_ok_def binding_ok_def)

lemma publications_ok_evolves:
  assumes "publications_ok q" and "queue_evolves q q'"
    and "publications q' = publications q" and "next_publication q' = next_publication q"
  shows "publications_ok q'"
proof -
  have "publication_ok q' p" if ok: "publication_ok q p" for p
  proof -
    obtain r where r: "get_job (p_job p) q = Some r" "j_status r = completed" "j_fence r = p_fence p"
        "j_run_dir r = Some (p_label p)"
      using ok by (auto simp: publication_ok_def)
    obtain r' where "get_job (p_job p) q' = Some r'" "job_step r r'"
      using get_job_evolves[OF assms(2) r(1)] .
    with r show ?thesis by (auto simp: publication_ok_def job_step_def finished_job_def)
  qed
  then show ?thesis using assms(1,3,4) by (simp add: publications_ok_def)
qed

lemma bindings_ok_evolves:
  assumes "bindings_ok q" and "queue_evolves q q'" and "bindings q' = bindings q"
  shows "bindings_ok q'"
proof -
  have "binding_ok q' m" if ok: "binding_ok q m" for m
  proof -
    obtain r where r: "get_job (qm_job m) q = Some r" "j_spec r = qm_spec m"
        "qm_id m \<noteq> [] \<longrightarrow> str_or (j_digest r) = qm_digest m"
      using ok by (auto simp: binding_ok_def)
    obtain r' where "get_job (qm_job m) q' = Some r'" "job_step r r'"
      using get_job_evolves[OF assms(2) r(1)] .
    with r show ?thesis by (auto simp: binding_ok_def job_step_def)
  qed
  then show ?thesis using assms(1,3) by (simp add: bindings_ok_def)
qed

section \<open>Guarded updates of jobs\<close>

lemma update_jobs_InrD:
  assumes "update_jobs p f q = Inr (n, q')"
  shows "q' = q\<lparr>jobs := update_where p f (jobs q)\<rparr>" and "n = rowcount p (jobs q)"
    and "unique_jobs (jobs q')" and "r \<in> set (jobs q) \<Longrightarrow> p r \<Longrightarrow> job_guard r (f r)"
  using assms by (auto simp: update_jobs_def Let_def list_ex_iff split: if_splits)

text \<open>The shape every compare-and-swap on a job has.\<close>

definition job_shape :: "(job \<Rightarrow> bool) \<Rightarrow> (job \<Rightarrow> job) \<Rightarrow> bool" where
  "job_shape p f \<longleftrightarrow>
     (\<forall>r. j_id (f r) = j_id r) \<and> (\<forall>r. p r \<longrightarrow> job_step r (f r) \<and> (job_ok r \<longrightarrow> job_ok (f r)))"

lemma update_jobs_evolves:
  assumes "update_jobs p f q = Inr (n, q')" and "job_shape p f"
  shows "queue_evolves q q'"
  unfolding queue_evolves_def update_jobs_InrD(1)[OF assms(1)]
  using job_rows.update_evolves[of "jobs q" p f] assms(2) by (simp add: job_shape_def)

lemma update_jobs_ok:
  assumes "update_jobs p f q = Inr (n, q')" and "job_shape p f" and "jobs_ok q"
  shows "jobs_ok q'"
  using update_jobs_InrD[OF assms(1)] assms(2) jobs_okD[OF assms(3)]
  by (auto simp: jobs_ok_def job_shape_def map_key_update_where set_update_where)

lemma get_job_update:
  assumes "update_jobs p f q = Inr (n, q')" and "\<And>r. j_id (f r) = j_id r"
  shows "get_job k q' = map_option (\<lambda>r. if p r then f r else r) (get_job k q)"
  using update_jobs_InrD(1)[OF assms(1)] by (simp add: get_job_def find_update_where assms(2))

lemma update_jobs_frame:
  assumes "update_jobs p f q = Inr (n, q')"
  shows "attempts q' = attempts q" and "publications q' = publications q" and "bindings q' = bindings q"
    and "next_publication q' = next_publication q" and "next_job q' = next_job q"
    and "stale_events q' = stale_events q" and "run_data q' = run_data q"
  using update_jobs_InrD(1)[OF assms] by simp_all

lemma update_jobs_none:
  assumes "update_jobs p f q = Inr (0, q')"
  shows "q' = q"
  using update_jobs_InrD(1,2)[OF assms] by (simp add: rowcount_0_update)

lemma update_jobs_le_1:
  assumes "update_jobs p f q = Inr (n, q')" and "jobs_ok q" and "\<And>r. p r \<Longrightarrow> j_id r = k"
  shows "n \<le> 1"
proof -
  have "rowcount p (jobs q) = rowcount (\<lambda>r. j_id r = k \<and> p r) (jobs q)"
    using assms(3) unfolding rowcount_def by (metis (mono_tags, lifting))
  then show ?thesis
    using update_jobs_InrD(2)[OF assms(1)] rowcount_key[OF jobs_okD(1)[OF assms(2)], of k p]
    by (auto split: option.splits if_splits)
qed

lemma update_jobs_hit:
  assumes "update_jobs p f q = Inr (n, q')" and "n = 1" and "jobs_ok q" and "\<And>r. p r \<Longrightarrow> j_id r = k"
  obtains r where "get_job k q = Some r" and "p r"
proof -
  obtain r where "r \<in> set (jobs q)" "p r"
    using rowcount_1_ex update_jobs_InrD(2)[OF assms(1)] assms(2) by metis
  then show ?thesis using that assms(3,4) by (auto simp: get_job_iff)
qed

text \<open>A compare-and-swap whose row is there is accepted and touches this row only.\<close>

lemma update_jobs_single:
  assumes jok: "jobs_ok q" and row: "get_job k q = Some row" and "p row" and sel: "\<And>r. p r \<Longrightarrow> j_id r = k"
    and ids: "\<And>r. j_id (f r) = j_id r" and "job_guard row (f row)"
    and keeps: "j_spec (f row) = j_spec row" "j_mid (f row) = j_mid row" "active_job (f row) \<Longrightarrow> active_job row"
  shows "update_jobs p f q = Inr (1, q\<lparr>jobs := update_where p f (jobs q)\<rparr>)"
    and "get_job j (q\<lparr>jobs := update_where p f (jobs q)\<rparr>) = (if j = k then Some (f row) else get_job j q)"
proof -
  note S = update_where_single[where key = j_id and p = p, OF jobs_okD(1)[OF jok] row[unfolded get_job_def] \<open>p row\<close> sel]
  have only: "update_where p f (jobs q) = update_where (\<lambda>r. r = row) f (jobs q)" by (rule S(2))
  have "unique_jobs (update_where p f (jobs q))"
    unfolding only unique_jobs_def
    using jobs_okD(4)[OF jok] keeps distinct_index_update[of "\<lambda>r. r = row" j_spec f active_job "jobs q"]
      distinct_index_update[of "\<lambda>r. r = row" j_mid f "\<lambda>r. j_mid r \<noteq> None" "jobs q"]
    by (auto simp: unique_jobs_def)
  moreover have "\<not> list_ex (\<lambda>r. p r \<and> \<not> job_guard r (f r)) (jobs q)"
    using S(3) assms(6) by (auto simp: list_ex_iff)
  ultimately show upd: "update_jobs p f q = Inr (1, q\<lparr>jobs := update_where p f (jobs q)\<rparr>)"
    using S(1) by (simp add: update_jobs_def)
  show "get_job j (q\<lparr>jobs := update_where p f (jobs q)\<rparr>) = (if j = k then Some (f row) else get_job j q)"
    using get_job_update[OF upd ids, of j] row \<open>p row\<close> sel
    by (cases "get_job j q") (auto dest: get_job_mem)
qed

section \<open>Sound changes of the queue\<close>

definition sound_queue :: "queue_db \<Rightarrow> queue_db \<Rightarrow> bool" where
  "sound_queue q q' \<longleftrightarrow> queue_evolves q q' \<and> (queue_ok q \<longrightarrow> queue_ok q' \<and> ledger_evolves q q')"

lemma sound_queue_refl [simp]: "sound_queue q q"
  by (simp add: sound_queue_def ledger_evolves_attempts)

lemma sound_queue_trans: "sound_queue q1 q2 \<Longrightarrow> sound_queue q2 q3 \<Longrightarrow> sound_queue q1 q3"
  using queue_evolves_trans ledger_evolves_trans by (auto simp: sound_queue_def)

lemma sound_queue_other [simp]:
  "sound_queue q (q\<lparr>stale_events := es\<rparr>)" "sound_queue q (q\<lparr>run_data := d\<rparr>)"
  by (simp_all add: sound_queue_def queue_evolves_jobs ledger_evolves_attempts)

text \<open>An update that keeps token and holder (a renewal).\<close>

lemma sound_kept_claim:
  assumes upd: "update_jobs p f q = Inr (n, q')" and shape: "job_shape p f"
    and keeps: "\<And>r. p r \<Longrightarrow> j_fence (f r) = j_fence r \<and> j_owner (f r) = j_owner r"
  shows "sound_queue q q'"
proof -
  note F = update_jobs_frame[OF upd]
  have evo: "queue_evolves q q'" using upd shape by (rule update_jobs_evolves)
  have ids: "\<And>r. j_id (f r) = j_id r" using shape by (simp add: job_shape_def)
  have row: "get_job k q' = map_option (\<lambda>r. if p r then f r else r) (get_job k q)" for k
    using upd ids by (rule get_job_update)
  have "ledger_ok q'" if "ledger_ok q"
  proof -
    have "attempt_ok q' a \<longleftrightarrow> attempt_ok q a" for a
      using keeps by (cases "get_job (at_job a) q") (auto simp: attempt_ok_def row)
    then show ?thesis
      using that keeps by (auto simp: ledger_ok_def F row split: if_splits)
  qed
  then show ?thesis
    using evo update_jobs_ok[OF upd shape] publications_ok_evolves[OF _ evo] bindings_ok_evolves[OF _ evo] F
    by (auto simp: sound_queue_def queue_ok_def ledger_evolves_attempts)
qed

text \<open>The attempt at the token of a held job is the open attempt of its holder.\<close>

lemma ledger_held_open:
  assumes "ledger_ok q" and "get_job k q = Some r" and "j_owner r = Some h \<and> j_id r = k' \<and> j_fence r = fc"
    and "at_job a = k \<and> at_fence a = fc" and "a \<in> set (attempts q)"
  shows "open_attempt a"
proof -
  obtain b where b: "b \<in> set (attempts q)" "at_job b = k" "at_fence b = fc" "at_owner b = h"
    using assms(1-3) unfolding ledger_ok_def by blast
  have "a = b"
    using assms(1,4,5) b by (auto simp: ledger_ok_def dest: distinct_map[THEN iffD1] inj_onD)
  then show ?thesis
    using assms b unfolding ledger_ok_def attempt_ok_def by fastforce
qed

text \<open>An update that gives up the held claim of one job and closes the attempt of that claim.\<close>

lemma sound_closed_claim:
  assumes upd: "update_jobs p f q = Inr (n, q1)" and "n = 1" and shape: "job_shape p f"
    and sel: "\<And>r. p r \<Longrightarrow> j_id r = k \<and> j_owner r = Some h \<and> j_fence r = fc"
    and frees: "\<And>r. p r \<Longrightarrow> j_owner (f r) = None \<and> j_fence (f r) = j_fence r"
    and pa: "\<And>a. pa a \<Longrightarrow> at_job a = k \<and> at_fence a = fc"
    and pa_open: "\<And>a. at_job a = k \<Longrightarrow> at_fence a = fc \<Longrightarrow> at_owner a = h \<Longrightarrow> open_attempt a \<Longrightarrow> pa a"
    and g: "\<And>a. at_job (g a) = at_job a \<and> at_fence (g a) = at_fence a \<and> at_owner (g a) = at_owner a"
      "\<And>a. \<not> open_attempt (g a)"
  shows "sound_queue q (q1\<lparr>attempts := update_where pa g (attempts q1)\<rparr>)" (is "sound_queue q ?q2")
proof -
  note F = update_jobs_frame[OF upd]
  have evo1: "queue_evolves q q1" using upd shape by (rule update_jobs_evolves)
  have evo: "queue_evolves q ?q2" using evo1 by (simp add: queue_evolves_def)
  have ids: "\<And>r. j_id (f r) = j_id r" using shape by (simp add: job_shape_def)
  have row: "get_job j q1 = map_option (\<lambda>r. if p r then f r else r) (get_job j q)" for j
    using upd ids by (rule get_job_update)
  have "ledger_ok ?q2" if ok: "ledger_ok q" and jok: "jobs_ok q"
  proof -
    obtain r0 where r0: "get_job k q = Some r0" "p r0"
      using update_jobs_hit[OF upd \<open>n = 1\<close> jok, of k] sel by blast
    have "attempt_ok ?q2 (if pa a then g a else a)" if mem: "a \<in> set (attempts q)" for a
    proof -
      obtain r where r: "get_job (at_job a) q = Some r" "at_fence a \<le> j_fence r"
          "open_attempt a \<longleftrightarrow> j_owner r = Some (at_owner a) \<and> j_fence r = at_fence a"
        using mem ok unfolding ledger_ok_def attempt_ok_def by blast
      show ?thesis
      proof (cases "p r")
        case True
        then have r_r0: "r = r0" "at_job a = k" using r(1) r0 sel get_job_mem by fastforce+
        have "\<not> open_attempt a" if "\<not> pa a" using r that True pa_open[of a] sel[OF True] r_r0(2) by auto
        then show ?thesis using r True frees[OF True] g by (auto simp: attempt_ok_def row)
      next
        case False
        then have "at_job a \<noteq> k" using r(1) r0 by auto
        then show ?thesis using r False pa[of a] by (auto simp: attempt_ok_def row)
      qed
    qed
    moreover have "map (\<lambda>a. (at_job a, at_fence a)) (update_where pa g (attempts q)) =
        map (\<lambda>a. (at_job a, at_fence a)) (attempts q)"
      using g(1) by (intro map_key_update_where) simp
    moreover have "\<exists>a \<in> set (attempts ?q2). at_job a = j \<and> at_fence a = j_fence r \<and> at_owner a = h'"
      if r: "get_job j ?q2 = Some r" "j_owner r = Some h'" for j r h'
    proof -
      have "\<exists>a \<in> set (attempts q). at_job a = j \<and> at_fence a = j_fence r \<and> at_owner a = h'"
        using r ok frees by (auto simp: row ledger_ok_def split: if_splits)
      then obtain a where "a \<in> set (attempts q)" "at_job a = j" "at_fence a = j_fence r" "at_owner a = h'"
        by blast
      then show ?thesis
        using g(1) by (intro bexI[of _ "if pa a then g a else a"]) (auto simp: F set_update_where)
    qed
    ultimately show ?thesis
      unfolding ledger_ok_def by (simp add: ledger_ok_def F ball_update_where ok[unfolded ledger_ok_def])
  qed
  moreover have "jobs_ok ?q2" if "jobs_ok q"
    using update_jobs_ok[OF upd shape that] by (simp add: jobs_ok_def)
  moreover have "ledger_evolves q ?q2" if ok: "ledger_ok q" and jok: "jobs_ok q"
  proof -
    obtain r0 where r0: "get_job k q = Some r0" "p r0"
      using update_jobs_hit[OF upd \<open>n = 1\<close> jok, of k] sel by blast
    have "open_attempt a" if "a \<in> set (attempts q)" "pa a" for a
      using ledger_held_open[OF ok r0(1)] sel[OF r0(2)] pa[OF that(2)] that(1) by blast
    then show ?thesis
      unfolding ledger_evolves_def using g(1)
      by (simp add: F, intro attempt_rows.update_evolves) (simp add: attempt_step_def)
  qed
  ultimately show ?thesis
    using evo publications_ok_evolves[OF _ evo] bindings_ok_evolves[OF _ evo] F
    by (simp add: sound_queue_def queue_ok_def)
qed

text \<open>An update that grants one free job at the next token and records the attempt of the grant.\<close>

lemma insert_attempt_InrD:
  assumes "insert_attempt a q = Inr q'"
  shows "q' = q\<lparr>attempts := attempts q @ [a]\<rparr>"
    and "x \<in> set (attempts q) \<Longrightarrow> (at_job x, at_fence x) \<noteq> (at_job a, at_fence a)"
  using assms by (auto simp: insert_attempt_def list_ex_iff split: if_splits)

lemma sound_new_claim:
  assumes upd: "update_jobs p f q = Inr (n, q1)" and "n = 1" and shape: "job_shape p f"
    and sel: "\<And>r. p r \<Longrightarrow> j_id r = k \<and> j_owner r = None"
    and grants: "\<And>r. p r \<Longrightarrow> j_owner (f r) = Some h \<and> j_fence (f r) = fc \<and> j_fence r < fc"
    and ins: "insert_attempt a q1 = Inr q2"
    and a: "at_job a = k" "at_owner a = h" "at_fence a = fc" "open_attempt a"
  shows "sound_queue q q2"
proof -
  note F = update_jobs_frame[OF upd] and I = insert_attempt_InrD[OF ins]
  have evo1: "queue_evolves q q1" using upd shape by (rule update_jobs_evolves)
  have evo: "queue_evolves q q2" using evo1 by (simp add: queue_evolves_def I)
  have ids: "\<And>r. j_id (f r) = j_id r" using shape by (simp add: job_shape_def)
  have row: "get_job j q2 = map_option (\<lambda>r. if p r then f r else r) (get_job j q)" for j
    using get_job_update[OF upd ids] by (simp add: I)
  have "ledger_ok q2" if ok: "ledger_ok q" and jok: "jobs_ok q"
  proof -
    obtain r0 where r0: "get_job k q = Some r0" "p r0"
      using update_jobs_hit[OF upd \<open>n = 1\<close> jok, of k] sel by blast
    have "attempt_ok q2 x" if mem: "x \<in> set (attempts q)" for x
    proof -
      obtain r where r: "get_job (at_job x) q = Some r" "at_fence x \<le> j_fence r"
          "open_attempt x \<longleftrightarrow> j_owner r = Some (at_owner x) \<and> j_fence r = at_fence x"
        using mem ok unfolding ledger_ok_def attempt_ok_def by blast
      then show ?thesis
        using sel[of r] grants[of r] by (cases "p r") (auto simp: attempt_ok_def row)
    qed
    moreover have "attempt_ok q2 a"
      using r0 grants[OF r0(2)] a by (auto simp: attempt_ok_def row)
    moreover have "distinct (map (\<lambda>a. (at_job a, at_fence a)) (attempts q2))"
      using ok I(2) by (fastforce simp: I(1) F ledger_ok_def)
    moreover have "\<exists>x \<in> set (attempts q2). at_job x = j \<and> at_fence x = j_fence r \<and> at_owner x = h'"
      if r: "get_job j q2 = Some r" "j_owner r = Some h'" for j r h'
    proof (cases "j = k")
      case True
      then have "r = f r0" using r(1) r0 by (simp add: row)
      then show ?thesis using r(2) grants[OF r0(2)] a True by (auto simp: I(1))
    next
      case False
      then obtain r' where "get_job j q = Some r'" "r = r'"
        using r(1) get_job_mem sel by (fastforce simp: row split: if_splits)
      then show ?thesis using r(2) ok by (auto simp: ledger_ok_def I(1) F)
    qed
    ultimately show ?thesis by (simp add: ledger_ok_def I(1) F)
  qed
  moreover have "jobs_ok q2" if "jobs_ok q"
    using update_jobs_ok[OF upd shape that] by (simp add: jobs_ok_def I)
  moreover have "ledger_evolves q q2"
    using attempt_rows.append_evolves[of "attempts q" a] by (simp add: ledger_evolves_def I F)
  ultimately show ?thesis
    using evo publications_ok_evolves[OF _ evo] bindings_ok_evolves[OF _ evo] F
    by (simp add: sound_queue_def queue_ok_def I)
qed

text \<open>Steps of the ledger on its own, a new job, a new binding.\<close>

lemma sound_attempts:
  assumes "\<And>a. at_job (g a) = at_job a \<and> at_fence (g a) = at_fence a \<and> at_owner (g a) = at_owner a"
    and "\<And>a. pa a \<Longrightarrow> open_attempt a \<and> open_attempt (g a)"
  shows "sound_queue q (q\<lparr>attempts := update_where pa g (attempts q)\<rparr>)"
proof -
  have keys: "map (\<lambda>a. (at_job a, at_fence a)) (update_where pa g as) = map (\<lambda>a. (at_job a, at_fence a)) as" for as
    using assms(1) by (intro map_key_update_where) simp
  have upd: "attempt_ok q (g a)" if "attempt_ok q a" "pa a" for a
    using that assms by (auto simp: attempt_ok_def)
  then have "ledger_ok (q\<lparr>attempts := update_where pa g (attempts q)\<rparr>)" if "ledger_ok q"
  proof -
    let ?q = "q\<lparr>attempts := update_where pa g (attempts q)\<rparr>"
    have a: "attempt_ok ?q a = attempt_ok q a" for a by (simp add: attempt_ok_def)
    have "\<exists>a \<in> set (attempts ?q). at_job a = k \<and> at_fence a = j_fence r \<and> at_owner a = h"
      if held: "get_job k q = Some r" "j_owner r = Some h" for k r h
    proof -
      obtain a where "a \<in> set (attempts q)" "at_job a = k" "at_fence a = j_fence r" "at_owner a = h"
        using held \<open>ledger_ok q\<close> unfolding ledger_ok_def by blast
      then show ?thesis
        using assms(1) by (intro bexI[of _ "if pa a then g a else a"]) (auto simp: set_update_where)
    qed
    then show ?thesis
      using that upd by (simp add: ledger_ok_def a keys ball_update_where)
  qed
  moreover have "ledger_evolves q (q\<lparr>attempts := update_where pa g (attempts q)\<rparr>)"
    unfolding ledger_evolves_def using assms
    by (simp, intro attempt_rows.update_evolves) (simp add: attempt_step_def)
  ultimately show ?thesis
    by (simp add: sound_queue_def queue_evolves_jobs queue_ok_def jobs_ok_def publications_ok_def
        publication_ok_def bindings_ok_def binding_ok_def)
qed

lemma insert_job_InrD:
  assumes "insert_job r q = Inr (jid, q')"
  shows "jid = next_job q" and "j_protocol r = fenced_v2"
    and "q' = q\<lparr>jobs := jobs q @ [r\<lparr>j_id := jid\<rparr>], next_job := jid + 1\<rparr>" and "unique_jobs (jobs q')"
  using assms by (auto simp: insert_job_def Let_def split: if_splits)

lemma get_job_insert:
  assumes "insert_job r q = Inr (jid, q')" and "jobs_ok q"
  shows "get_job k q' = (if k = jid then Some (r\<lparr>j_id := jid\<rparr>) else get_job k q)" and "get_job jid q = None"
proof -
  show none: "get_job jid q = None"
    using jobs_okD(2)[OF assms(2)] get_job_mem insert_job_InrD(1)[OF assms(1)] by (cases "get_job jid q") fastforce+
  show "get_job k q' = (if k = jid then Some (r\<lparr>j_id := jid\<rparr>) else get_job k q)"
    using none insert_job_InrD(3)[OF assms(1)] by (auto simp: get_job_def find_append split: option.split)
qed

lemma sound_insert_job:
  assumes ins: "insert_job r q = Inr (jid, q')" and r: "j_fence r = 0" "j_owner r = None" "j_expires r = None"
  shows "sound_queue q q'"
proof -
  note I = insert_job_InrD[OF ins]
  have evo: "queue_evolves q q'"
    unfolding queue_evolves_def I(3)
    using job_rows.append_evolves[of "r\<lparr>j_id := jid\<rparr>" "jobs q"] r by (simp add: fresh_fence_def)
  have "queue_ok q'" if ok: "queue_ok q"
  proof -
    have jok: "jobs_ok q" and lok: "ledger_ok q" using ok by (simp_all add: queue_ok_def)
    have "jobs_ok q'"
      using jok I r by (force simp: jobs_ok_def job_ok_def)
    moreover have "attempt_ok q' a" if "attempt_ok q a" for a
      using that get_job_insert[OF ins jok] by (auto simp: attempt_ok_def)
    then have "ledger_ok q'"
      using lok I(3) get_job_insert[OF ins jok] r by (auto simp: ledger_ok_def split: if_splits)
    ultimately show ?thesis
      using ok evo publications_ok_evolves[of q q'] bindings_ok_evolves[of q q'] I(3) by (simp add: queue_ok_def)
  qed
  moreover have "ledger_evolves q q'" by (rule ledger_evolves_attempts) (simp add: I(3))
  ultimately show ?thesis using evo by (simp add: sound_queue_def)
qed

lemma insert_binding_InrD:
  assumes "insert_binding m q = Inr q'"
  shows "q' = q\<lparr>bindings := bindings q @ [m]\<rparr>" and "x \<in> set (bindings q) \<Longrightarrow> qm_id x \<noteq> qm_id m"
  using assms by (auto simp: insert_binding_def list_ex_iff split: if_splits)

lemma sound_insert_binding:
  assumes ins: "insert_binding m q = Inr q'" and m: "queue_ok q \<Longrightarrow> binding_ok q m"
  shows "sound_queue q q'"
proof -
  note I = insert_binding_InrD[OF ins]
  have "queue_ok q'" if "queue_ok q"
  proof -
    have "qm_id m \<notin> qm_id ` set (bindings q)" using I(2) by (metis imageE)
    moreover have "binding_ok q' x = binding_ok q x" for x by (simp add: binding_ok_def I(1))
    moreover have "jobs_ok q' = jobs_ok q" "ledger_ok q' = ledger_ok q" "publications_ok q' = publications_ok q"
      by (simp_all add: I(1) jobs_ok_def ledger_ok_def attempt_ok_def publications_ok_def publication_ok_def)
    ultimately show ?thesis
      using that m[OF that] by (auto simp: queue_ok_def bindings_ok_def I(1))
  qed
  then show ?thesis by (simp add: sound_queue_def queue_evolves_jobs ledger_evolves_attempts I)
qed

end
