(* ===== verification/Compute_Safety.thy ===== *)
theory Compute_Safety
  imports Compute_Rows
begin

text \<open>
  Every operation of the compute queue is a sound change: it evolves the jobs and keeps the invariant.
  The steps of the queue collect the operations with what each call observes; the fencing and the
  versioning contract follow.
\<close>

section \<open>The shapes of the updates\<close>

lemmas job_shape_simps = job_step_iff job_ok_def finished_job_def held_job_def

lemma claim_shape:
  assumes "p = (\<lambda>r. j_id r = k \<and> j_status r = queued \<and> j_owner r = None \<and> j_fence r = fence
      \<and> j_protocol r = fenced_v2 \<and> j_seq r = sq)"
  shows "job_shape p
    (\<lambda>r. r\<lparr>j_status := running, j_started := Some stamp, j_attempts := j_attempts r + 1,
          j_owner := Some owner, j_expires := Some e, j_fence := fence + 1, j_protocol := fenced_v2,
          j_seq := sq + 1\<rparr>)"
  unfolding assms by (auto simp: job_shape_def job_shape_simps)

lemma renew_shape:
  "job_shape (\<lambda>r. held_job jid owner fence t r \<and> j_seq r = sq)
     (\<lambda>r. r\<lparr>j_expires := Some e, j_protocol := fenced_v2, j_seq := j_seq r + 1\<rparr>)"
  by (auto simp: job_shape_def job_shape_simps)

lemma reap_shape:
  assumes "p = (\<lambda>r. j_id r = k \<and> j_status r = running \<and> j_owner r = ow \<and> j_fence r = fence
      \<and> (case j_expires r of None \<Rightarrow> False | Some e \<Rightarrow> e \<le> now) \<and> j_protocol r = fenced_v2 \<and> j_seq r = sq)"
  shows "job_shape p
    (\<lambda>r. r\<lparr>j_status := queued, j_started := None, j_owner := None, j_expires := None,
          j_error := msg, j_protocol := fenced_v2, j_seq := sq + 1\<rparr>)"
  unfolding assms by (auto simp: job_shape_def job_shape_simps)

lemma finish_shape:
  "job_shape (\<lambda>r. held_job jid owner fence t r \<and> j_seq r = sq)
     (\<lambda>r. r\<lparr>j_status := status, j_finished := stamp, j_run_dir := dir, j_error := err, j_owner := None,
           j_expires := None, j_protocol := fenced_v2, j_seq := sq + 1\<rparr>)"
  by (auto simp: job_shape_def job_shape_simps)

lemma held_jobD: "held_job jid owner fence t r \<Longrightarrow> j_id r = jid \<and> j_owner r = Some owner \<and> j_fence r = fence"
  by (simp add: held_job_def)

section \<open>Every operation is sound\<close>

lemma claim_next_job_sound: "sound_queue q (snd (snd (claim_next_job o1 o2 stamp owner lease now fl q)))"
proof -
  have "sound_queue q q2"
    if "update_jobs
        (\<lambda>r. j_id r = j_id row \<and> j_status r = queued \<and> j_owner r = None \<and> j_fence r = j_fence row
             \<and> j_protocol r = fenced_v2 \<and> j_seq r = j_seq row)
        (\<lambda>r. r\<lparr>j_status := running, j_started := Some stamp, j_attempts := j_attempts r + 1,
              j_owner := Some owner, j_expires := Some e, j_fence := j_fence row + 1, j_protocol := fenced_v2,
              j_seq := j_seq row + 1\<rparr>) q = Inr (1, q1)"
      and "insert_attempt \<lparr>at_job = j_id row, at_owner = owner, at_fence = j_fence row + 1, at_state = At_Claimed,
             at_claimed = t, at_executing = None, at_finished = None, at_detail = []\<rparr> q1 = Inr q2"
    for row :: job and e t q1 q2
    by (rule sound_new_claim[OF that(1) refl claim_shape[OF refl] _ _ that(2), where k = "j_id row"
          and h = owner and fc = "j_fence row + 1"]) (auto simp: open_attempt_def)
  then show ?thesis
    unfolding claim_next_job_def Let_def case_prod_beta
    by (auto split: option.split sum.split simp del: One_nat_def)
qed

lemma renew_commit_sound: "sound_queue q (snd (snd (renew_commit obs t1 row jid owner fence lease fl q)))"
proof -
  have "sound_queue q q1"
    if "update_jobs (\<lambda>r. held_job jid owner fence t r \<and> j_seq r = sq)
        (\<lambda>r. r\<lparr>j_expires := Some e, j_protocol := fenced_v2, j_seq := j_seq r + 1\<rparr>) q = Inr (n, q1)"
    for t sq e n q1
    by (rule sound_kept_claim[OF that renew_shape]) auto
  then show ?thesis
    unfolding renew_commit_def Let_def case_prod_beta by (auto split: sum.split)
qed

lemma renew_job_lease_sound: "sound_queue q (snd (snd (renew_job_lease o1 o2 jid owner fence lease now fl q)))"
  using renew_commit_sound by (simp add: renew_job_lease_def case_prod_beta split: sum.split)

lemma mark_executing_commit_sound: "sound_queue q (snd (snd (mark_executing_commit obs t1 jid owner fence fl q)))"
proof -
  have "sound_queue q (q\<lparr>attempts := update_where
      (\<lambda>a. at_job a = jid \<and> at_owner a = owner \<and> at_fence a = fence \<and> at_state a = At_Claimed \<and> c)
      (\<lambda>a. a\<lparr>at_state := At_Executing, at_executing := Some t\<rparr>) (attempts q)\<rparr>)" for c t
    by (rule sound_attempts) (auto simp: open_attempt_def)
  then show ?thesis
    unfolding mark_executing_commit_def Let_def case_prod_beta by auto
qed

lemma mark_job_executing_sound: "sound_queue q (snd (snd (mark_job_executing o1 o2 jid owner fence now fl q)))"
  using mark_executing_commit_sound by (simp add: mark_job_executing_def case_prod_beta split: sum.split)

lemma reap_jobs_sound: "(\<forall>r \<in> set rows. j_owner r \<noteq> None) \<Longrightarrow> queue_ok q \<Longrightarrow> reap_jobs now rows n q = Inr (m, q') \<Longrightarrow>
    sound_queue q q'"
proof (induction rows arbitrary: n q)
  case (Cons row rows)
  let ?p = "\<lambda>r. j_id r = j_id row \<and> j_status r = running \<and> j_owner r = j_owner row \<and> j_fence r = j_fence row
      \<and> (case j_expires r of None \<Rightarrow> False | Some e \<Rightarrow> e \<le> now) \<and> j_protocol r = fenced_v2 \<and> j_seq r = j_seq row"
  let ?f = "\<lambda>r. r\<lparr>j_status := queued, j_started := None, j_owner := None, j_expires := None,
      j_error := Some ''requeued stale running job: expired fenced lease'',
      j_protocol := fenced_v2, j_seq := j_seq row + 1\<rparr>"
  let ?close = "\<lambda>q1 :: queue_db. q1\<lparr>attempts := update_where (\<lambda>a. at_job a = j_id row \<and> at_fence a = j_fence row)
      (close_attempt now) (attempts q1)\<rparr>"
  obtain h where h: "j_owner row = Some h" using Cons.prems(1) by auto
  obtain k q1 where upd: "update_jobs ?p ?f q = Inr (k, q1)"
    using Cons.prems(3) by (cases "update_jobs ?p ?f q") auto
  have jok: "jobs_ok q" using Cons.prems(2) by (simp add: queue_ok_def)
  have "k \<le> 1" by (rule update_jobs_le_1[OF upd jok]) simp
  then consider "k = 0" | "k = 1" by linarith
  then show ?case
  proof cases
    case 1
    then show ?thesis using Cons upd update_jobs_none[of ?p ?f q q1] by simp
  next
    case 2
    have step: "sound_queue q (?close q1)"
      by (rule sound_closed_claim[OF upd 2 reap_shape[OF refl], where k = "j_id row" and h = h and fc = "j_fence row"])
         (auto simp: h close_attempt_def open_attempt_def)
    moreover have "sound_queue (?close q1) q'"
      using Cons.IH[of "?close q1" "Suc n"] Cons.prems step 2 upd by (simp add: sound_queue_def)
    ultimately show ?thesis by (rule sound_queue_trans)
  qed
qed simp

lemma reap_stale_jobs_sound:
  assumes "queue_ok q"
  shows "sound_queue q (snd (snd (reap_stale_jobs o1 o2 now fl q)))"
proof -
  have "sound_queue q q'" if "reap_jobs t (filter (expired_job t) (jobs q)) 0 q = Inr (n, q')" for t n q'
    by (rule reap_jobs_sound[OF _ assms that]) (auto simp: expired_job_def)
  then show ?thesis
    unfolding reap_stale_jobs_def Let_def case_prod_beta by (auto split: sum.split)
qed

lemma assert_job_claim_InrD:
  assumes "assert_job_claim jid owner fence t q = Inr r"
  shows "get_job jid q = Some r" and "j_status r = running" and "str_or (j_owner r) = owner"
    and "j_fence r = fence" and "t < or0 (j_expires r)"
  using assms by (auto simp: assert_job_claim_def split: option.splits if_splits)

text \<open>The commit of a finish with any row that was read at the caller's own token.\<close>

lemma finish_commit_sound:
  assumes "j_fence row = fence"
  shows "sound_queue q (snd (snd (finish_commit obs t1 row stamp jid ok dir err owner fence fl q)))"
proof -
  have "sound_queue q (q1\<lparr>attempts := update_where (\<lambda>a. at_job a = jid \<and> at_fence a = j_fence row \<and> open_attempt a)
      (\<lambda>a. a\<lparr>at_state := (if ok then At_Completed else At_Failed), at_finished := Some t, at_detail := take 1000 err\<rparr>)
      (attempts q1)\<rparr>)"
    if upd: "update_jobs (\<lambda>r. held_job jid owner fence t r \<and> j_seq r = j_seq row)
        (\<lambda>r. r\<lparr>j_status := (if ok then completed else failed), j_finished := Some stamp, j_run_dir := dir,
              j_error := (if ok then None else Some (take 1000 err)), j_owner := None,
              j_expires := None, j_protocol := fenced_v2, j_seq := j_seq row + 1\<rparr>) q = Inr (n, q1)"
      and "n = 1"
    for t q1 n
    by (rule sound_closed_claim[OF upd \<open>n = 1\<close> finish_shape, where k = jid and h = owner and fc = fence])
       (use assms in \<open>auto simp: held_job_def open_attempt_def\<close>)
  then show ?thesis
    unfolding finish_commit_def Let_def case_prod_beta by (auto split: sum.split simp del: One_nat_def)
qed

lemma finish_job_sound: "sound_queue q (snd (snd (finish_job o1 o2 stamp jid ok dir err owner fence now fl q)))"
  using finish_commit_sound assert_job_claim_InrD(4)
  by (simp add: finish_job_def case_prod_beta split: sum.split)

section \<open>Enqueueing is sound\<close>

lemma new_job_simps [simp]:
  "j_fence (new_job spec st prio stamp mid d) = 0" "j_owner (new_job spec st prio stamp mid d) = None"
  "j_expires (new_job spec st prio stamp mid d) = None" "j_spec (new_job spec st prio stamp mid d) = spec"
  "j_digest (new_job spec st prio stamp mid d) = d" "j_status (new_job spec st prio stamp mid d) = st"
  by (simp_all add: new_job_def)

lemma sound_new_bound_job:
  assumes ins: "insert_job (new_job spec st prio stamp mid d) q = Inr (jid, q1)"
    and bind: "insert_binding \<lparr>qm_id = m, qm_job = jid, qm_spec = spec, qm_digest = dg, qm_created = stamp\<rparr> q1 = Inr q2"
    and d: "m \<noteq> [] \<Longrightarrow> str_or d = dg" and ok: "queue_ok q"
  shows "sound_queue q q2"
proof -
  have jok: "jobs_ok q" using ok by (simp add: queue_ok_def)
  have 1: "sound_queue q q1" by (rule sound_insert_job[OF ins]) simp_all
  have "binding_ok q1 \<lparr>qm_id = m, qm_job = jid, qm_spec = spec, qm_digest = dg, qm_created = stamp\<rparr>"
    using get_job_insert(1)[OF ins jok, of jid] d by (auto simp: binding_ok_def)
  then show ?thesis using sound_insert_binding[OF bind] sound_queue_trans[OF 1] by blast
qed

lemma enqueue_experiment_sound:
  assumes "queue_ok q"
  shows "sound_queue q (snd (enqueue_experiment stamp spec prio status mid d q))"
proof -
  have 1: "sound_queue q q1" if "insert_job (new_job spec status prio stamp mid d) q = Inr (jid, q1)" for jid q1
    by (rule sound_insert_job[OF that]) simp_all
  show ?thesis
    using 1 sound_new_bound_job[OF _ _ _ assms, of spec status prio stamp mid d _ _ _ "str_or d"]
    unfolding enqueue_experiment_def by (auto split: sum.split option.split)
qed

text \<open>What a reusable job guarantees.\<close>

lemma first_job_mem: "first_job p q = Some r \<Longrightarrow> r \<in> set (jobs q) \<and> p r"
  using first_by_in by (fastforce simp: first_job_def)

lemma reusable_job_SomeD:
  assumes "reusable_job spec mid incoming q = Inr (Some r)"
  shows "r \<in> set (jobs q)" and "j_spec r = spec" and "mid \<noteq> None \<Longrightarrow> str_or (j_digest r) = incoming"
    and "active_job r \<or> j_status r = completed"
  using assms by (auto simp: reusable_job_def dest!: first_job_mem split: option.splits if_splits)

lemma sound_reuse:
  assumes "reusable_job spec mid incoming q = Inr (Some r)" and "mid \<noteq> None"
    and "insert_binding \<lparr>qm_id = m, qm_job = j_id r, qm_spec = spec, qm_digest = incoming, qm_created = stamp\<rparr> q = Inr q1"
  shows "sound_queue q q1"
proof (rule sound_insert_binding[OF assms(3)])
  assume "queue_ok q"
  then have "get_job (j_id r) q = Some r"
    using reusable_job_SomeD(1)[OF assms(1)] by (simp add: get_job_iff queue_ok_def)
  then show "binding_ok q \<lparr>qm_id = m, qm_job = j_id r, qm_spec = spec, qm_digest = incoming, qm_created = stamp\<rparr>"
    using reusable_job_SomeD(2,3)[OF assms(1)] assms(2) by (simp add: binding_ok_def)
qed

lemma ensure_after_conflict_sound: "sound_queue q (snd (ensure_after_conflict dg stamp spec mid incoming e q))"
  unfolding ensure_after_conflict_def
  by (auto simp: Let_def split: option.split sum.split intro: sound_reuse)

lemma ensure_experiment_queued_sound:
  assumes "queue_ok q"
  shows "sound_queue q (snd (ensure_experiment_queued dg stamp spec prio mid d q))"
proof (cases "case mid of None \<Rightarrow> None | Some m \<Rightarrow> bound_job m q")
  case (Some mr)
  then show ?thesis by (simp add: ensure_experiment_queued_def Let_def split: option.split)
next
  case unbound: None
  show ?thesis
  proof (cases "content_error dg spec mid (str_or d)")
    case (Some e)
    then show ?thesis by (simp add: ensure_experiment_queued_def Let_def unbound)
  next
    case content: None
    note D = ensure_experiment_queued_def Let_def unbound content option.case
    show ?thesis
    proof (cases "reusable_job spec mid (str_or d) q")
      case (Inl e)
      then show ?thesis by (simp add: D)
    next
      case (Inr found)
      show ?thesis
      proof (cases found)
        case (Some r)
        then have r: "reusable_job spec mid (str_or d) q = Inr (Some r)" using Inr by simp
        show ?thesis
          using sound_reuse[OF r] ensure_after_conflict_sound
          by (simp add: D r split: sum.split option.split)
      next
        case None
        then have r: "reusable_job spec mid (str_or d) q = Inr None" using Inr by simp
        let ?new = "new_job spec queued prio stamp mid (if str_or mid = [] then None else Some (str_or d))"
        show ?thesis
        proof (cases "insert_job ?new q")
          case (Inl e)
          then show ?thesis using ensure_after_conflict_sound by (simp add: D r)
        next
          case (Inr x)
          obtain jid q1 where x: "insert_job ?new q = Inr (jid, q1)" using Inr by (cases x) simp
          have "sound_queue q q1" by (rule sound_insert_job[OF x]) simp_all
          then show ?thesis
            using sound_new_bound_job[OF x _ _ assms] ensure_after_conflict_sound
            by (auto simp: D r x split: sum.split option.split)
        qed
      qed
    qed
  qed
qed

section \<open>Publication is sound\<close>

text \<open>Moving publication rows along keeps everything they are judged by.\<close>

lemma sound_publications:
  assumes "\<And>x. p_id (g x) = p_id x \<and> p_job (g x) = p_job x \<and> p_fence (g x) = p_fence x \<and> p_label (g x) = p_label x"
  shows "sound_queue q (q\<lparr>publications := update_where pa g (publications q)\<rparr>)"
proof -
  let ?q = "q\<lparr>publications := update_where pa g (publications q)\<rparr>"
  have "map (\<lambda>p. (p_job p, p_fence p)) (publications ?q) = map (\<lambda>p. (p_job p, p_fence p)) (publications q)"
    and "map p_id (publications ?q) = map p_id (publications q)"
    using assms by (simp_all add: update_where_def)
  moreover have "publication_ok ?q (g x) = publication_ok q x" "publication_ok ?q x = publication_ok q x" for x
    using assms by (simp_all add: publication_ok_def)
  ultimately have "publications_ok q \<Longrightarrow> publications_ok ?q"
    using assms by (simp add: publications_ok_def ball_update_where)
  then show ?thesis
    by (simp add: sound_queue_def queue_evolves_jobs ledger_evolves_attempts queue_ok_def jobs_ok_def ledger_ok_def attempt_ok_def
        bindings_ok_def binding_ok_def)
qed

lemma recover_rows_sound:
  "sound_queue q (snd (snd (snd (recover_rows base obs mv now rows n fl fs q))))"
proof (induction rows arbitrary: n fl fs q)
  case (Cons row rows)
  have "sound_queue q (q\<lparr>publications := update_where p (mark_directory t) (publications q)\<rparr>)" for p t
    by (rule sound_publications) (simp add: mark_directory_def)
  then show ?case
    using Cons.IH sound_queue_trans
    by (simp add: Let_def case_prod_beta split: option.split sum.split) blast
qed simp

lemma mark_published_sound:
  "sound_queue q (snd (snd (mark_publication_indexes_published obs jid fence now fl q)))"
proof -
  have "sound_queue q (q\<lparr>publications := update_where p (\<lambda>x. x\<lparr>p_state := Published, p_published := t\<rparr>)
      (publications q)\<rparr>)" for p t
    by (rule sound_publications) simp
  then show ?thesis
    by (simp add: mark_publication_indexes_published_def Let_def case_prod_beta)
qed

lemma sound_new_publication:
  assumes row: "get_job jid q = Some r" "j_status r = completed" "j_fence r = fence" "j_run_dir r = Some label"
    and new: "\<not> (\<exists>x \<in> set (publications q). p_job x = jid \<and> p_fence x = fence)"
  shows "sound_queue q (upsert_publication jid fence path label t q)"
proof -
  let ?x = "\<lparr>p_id = next_publication q, p_job = jid, p_fence = fence, p_path = path, p_label = label,
      p_state = Pending_Rename, p_created = t, p_published = None\<rparr>"
  let ?q = "q\<lparr>publications := publications q @ [?x], next_publication := next_publication q + 1\<rparr>"
  have eq: "upsert_publication jid fence path label t q = ?q"
    using new by (auto simp: upsert_publication_def list_ex_iff)
  have "publications_ok ?q" if ok: "publications_ok q"
  proof -
    have "publication_ok ?q ?x" using row by (simp add: publication_ok_def)
    moreover have "publication_ok ?q x = publication_ok q x" for x by (simp add: publication_ok_def)
    moreover have "next_publication q \<notin> p_id ` set (publications q)"
      using ok by (force simp: publications_ok_def)
    ultimately show ?thesis
      using ok new by (fastforce simp: publications_ok_def)
  qed
  then show ?thesis
    by (simp add: eq sound_queue_def queue_evolves_jobs ledger_evolves_attempts queue_ok_def jobs_ok_def ledger_ok_def attempt_ok_def
        bindings_ok_def binding_ok_def)
qed

lemma no_publication_while_running:
  assumes "publications_ok q" and "get_job jid q = Some r" and "j_status r = running"
  shows "x \<in> set (publications q) \<Longrightarrow> p_job x \<noteq> jid"
  using assms by (force simp: publications_ok_def publication_ok_def)

lemma publish_transaction_sound:
  assumes ok: "queue_ok q"
  shows "sound_queue q (snd (snd (publish_transaction env obs ts stamp prov files jid owner fence t now fl q)))"
proof -
  have "sound_queue q (upsert_publication jid fence prov label b
      (q1\<lparr>attempts := update_where (\<lambda>a. at_job a = jid \<and> at_owner a = owner \<and> at_fence a = fence \<and> open_attempt a)
         (\<lambda>a. a\<lparr>at_state := At_Completed, at_finished := Some b\<rparr>) (attempts q1)\<rparr>))"
    if row: "assert_job_claim jid owner fence b (q\<lparr>run_data := d\<rparr>) = Inr row"
      and upd: "update_jobs (\<lambda>r. held_job jid owner fence b r \<and> j_seq r = j_seq row)
          (\<lambda>r. r\<lparr>j_status := completed, j_finished := Some stamp, j_run_dir := Some label, j_error := None,
                j_owner := None, j_expires := None, j_protocol := fenced_v2, j_seq := j_seq row + 1\<rparr>)
          (q\<lparr>run_data := d\<rparr>) = Inr (n, q1)" and n: "n = 1"
    for b d row label n q1
  proof -
    let ?q0 = "q\<lparr>run_data := d\<rparr>"
    let ?q2 = "q1\<lparr>attempts := update_where (\<lambda>a. at_job a = jid \<and> at_owner a = owner \<and> at_fence a = fence \<and> open_attempt a)
         (\<lambda>a. a\<lparr>at_state := At_Completed, at_finished := Some b\<rparr>) (attempts q1)\<rparr>"
    have jok: "jobs_ok ?q0" and pok: "publications_ok ?q0" using ok
      by (simp_all add: queue_ok_def jobs_ok_def publications_ok_def publication_ok_def)
    have step: "sound_queue ?q0 ?q2"
      by (rule sound_closed_claim[OF upd n finish_shape, where k = jid and h = owner and fc = fence])
         (auto simp: held_job_def open_attempt_def)
    obtain r where r: "get_job jid ?q0 = Some r" "held_job jid owner fence b r"
      using update_jobs_hit[OF upd n jok, of jid] by (auto simp: held_job_def)
    have "\<exists>r'. get_job jid ?q2 = Some r' \<and> j_status r' = completed \<and> j_fence r' = fence \<and> j_run_dir r' = Some label"
      using get_job_update[OF upd, of jid] update_jobs_hit[OF upd n jok, of jid] r(1)
      by (auto simp: held_job_def)
    moreover have "\<not> (\<exists>x \<in> set (publications ?q2). p_job x = jid \<and> p_fence x = fence)"
      using no_publication_while_running[OF pok r(1)] r(2) update_jobs_frame(2)[OF upd] by (auto simp: held_job_def)
    ultimately have "sound_queue ?q2 (upsert_publication jid fence prov label b ?q2)"
      using sound_new_publication[of jid ?q2] by auto
    then show ?thesis using sound_queue_trans[OF sound_queue_trans[OF sound_queue_other(2) step]] by blast
  qed
  then show ?thesis
    unfolding publish_transaction_def Let_def case_prod_beta
    by (auto split: sum.split simp del: One_nat_def)
qed

lemma publish_completed_job_sound:
  assumes "queue_ok q"
  shows "sound_queue q (snd (snd (snd (publish_completed_job env it o1 o2 o3 o4 mv ts stamp base prov files jid owner fence now fl fs q))))"
proof -
  obtain t1 fl1 where e1: "epoch o1 now fl = (t1, fl1)" by fastforce
  obtain t fl2 where e2: "epoch o2 (Some t1) fl1 = (t, fl2)" by fastforce
  obtain x fl3 q1 where tr: "publish_transaction env o3 ts stamp prov files jid owner fence t now fl2 q = (x, fl3, q1)"
    by (cases "publish_transaction env o3 ts stamp prov files jid owner fence t now fl2 q") auto
  obtain y fl4 fs1 q2 where rc: "recover_pending_publications base o4 mv (Some jid) (Some fence) now fl3 fs q1 = (y, fl4, fs1, q2)"
    by (cases "recover_pending_publications base o4 mv (Some jid) (Some fence) now fl3 fs q1") auto
  have "sound_queue q q1"
    using publish_transaction_sound[OF assms, of env o3 ts stamp prov files jid owner fence t now fl2] tr by simp
  moreover have "sound_queue q1 q2"
    using recover_rows_sound rc by (metis recover_pending_publications_def snd_conv)
  ultimately have "sound_queue q q2" by (rule sound_queue_trans)
  then show ?thesis
    by (auto simp: publish_completed_job_def e1 e2 tr rc split: option.split sum.split)
qed

section \<open>Steps of the queue\<close>

text \<open>One constructor per operation, with what the call observed and the state of its connection; the
  file system a publication meets is a parameter of the step.  The \<open>Commit\<close> steps are the second halves
  on their own, with a row read at any earlier time.\<close>

datatype queue_op =
    Op_Enqueue_Experiment string string int string "string option" "string option"
  | Op_Ensure_Queued "string \<Rightarrow> string option" string string int "string option" "string option"
  | Op_Claim_Job time time string string time "time option" floor_opt
  | Op_Executing time time int string int "time option" floor_opt
  | Op_Renew_Lease time time int string int time "time option" floor_opt
  | Op_Executing_Commit time time int string int floor_opt
  | Op_Renew_Commit time time job int string int time floor_opt
  | Op_Finish_Commit time time job string int bool "string option" string string floor_opt
  | Op_Reap time time "time option" floor_opt
  | Op_Complete_Job time time string int string string int "time option" floor_opt
  | Op_Fail_Job time time string int string string int "time option" floor_opt
  | Op_Publish import_env "string \<Rightarrow> int option" time time time "int \<Rightarrow> time" "int \<Rightarrow> exn option" import_stamps
      string string string run_files int string int
      "time option" floor_opt "string set"
  | Op_Recover string "int \<Rightarrow> time" "int \<Rightarrow> exn option" "int option" "int option" "time option" floor_opt "string set"
  | Op_Mark_Published time int int "time option" floor_opt
  | Op_Import import_env import_stamps string string json "json list"

fun queue_step :: "queue_op \<Rightarrow> queue_db \<Rightarrow> queue_db" where
  "queue_step (Op_Enqueue_Experiment stamp spec prio status mid d) q =
     snd (enqueue_experiment stamp spec prio status mid d q)"
| "queue_step (Op_Ensure_Queued dg stamp spec prio mid d) q = snd (ensure_experiment_queued dg stamp spec prio mid d q)"
| "queue_step (Op_Claim_Job o1 o2 stamp owner lease now fl) q = snd (snd (claim_next_job o1 o2 stamp owner lease now fl q))"
| "queue_step (Op_Executing o1 o2 jid owner fence now fl) q = snd (snd (mark_job_executing o1 o2 jid owner fence now fl q))"
| "queue_step (Op_Renew_Lease o1 o2 jid owner fence lease now fl) q =
     snd (snd (renew_job_lease o1 o2 jid owner fence lease now fl q))"
| "queue_step (Op_Executing_Commit obs t jid owner fence fl) q =
     snd (snd (mark_executing_commit obs t jid owner fence fl q))"
| "queue_step (Op_Renew_Commit obs t row jid owner fence lease fl) q =
     snd (snd (renew_commit obs t row jid owner fence lease fl q))"
| "queue_step (Op_Finish_Commit obs t row stamp jid ok dir err owner fl) q =
     snd (snd (finish_commit obs t row stamp jid ok dir err owner (j_fence row) fl q))"
| "queue_step (Op_Reap o1 o2 now fl) q = snd (snd (reap_stale_jobs o1 o2 now fl q))"
| "queue_step (Op_Complete_Job o1 o2 stamp jid dir owner fence now fl) q =
     snd (snd (complete_job o1 o2 stamp jid dir owner fence now fl q))"
| "queue_step (Op_Fail_Job o1 o2 stamp jid err owner fence now fl) q =
     snd (snd (fail_job o1 o2 stamp jid err owner fence now fl q))"
| "queue_step (Op_Publish env it o1 o2 o3 o4 mv ts stamp base prov files jid owner fence now fl fs) q =
     snd (snd (snd (publish_completed_job env it o1 o2 o3 o4 mv ts stamp base prov files jid owner fence now fl fs q)))"
| "queue_step (Op_Recover base obs mv jid fence now fl fs) q =
     snd (snd (snd (recover_pending_publications base obs mv jid fence now fl fs q)))"
| "queue_step (Op_Mark_Published obs jid fence now fl) q =
     snd (snd (mark_publication_indexes_published obs jid fence now fl q))"
| "queue_step (Op_Import env ts name label metrics rows) q =
     (case import_run_dir env ts name label metrics rows (run_data q) of
        Inl e \<Rightarrow> q | Inr (n, d) \<Rightarrow> q\<lparr>run_data := d\<rparr>)"

text \<open>The database \<open>connect\<close> creates.\<close>

definition empty_queue :: "run_tables \<Rightarrow> queue_db" where
  "empty_queue d =
     \<lparr>jobs = [], next_job = 1, attempts = [], publications = [], next_publication = 1, bindings = [],
      stale_events = [], run_data = d\<rparr>"

lemma queue_step_sound: "queue_ok q \<Longrightarrow> sound_queue q (queue_step x q)"
  by (cases x)
     (auto simp: claim_next_job_sound renew_job_lease_sound mark_job_executing_sound reap_stale_jobs_sound
       complete_job_def fail_job_def finish_job_sound
       renew_commit_sound mark_executing_commit_sound finish_commit_sound enqueue_experiment_sound ensure_experiment_queued_sound
       publish_completed_job_sound recover_pending_publications_def recover_rows_sound mark_published_sound
       split: sum.split)

definition job_fence :: "queue_db \<Rightarrow> int \<Rightarrow> int" where
  "job_fence q k = (case get_job k q of None \<Rightarrow> 0 | Some r \<Rightarrow> j_fence r)"

definition job_holds :: "queue_db \<Rightarrow> int \<Rightarrow> string \<Rightarrow> int \<Rightarrow> bool" where
  "job_holds q k h f \<longleftrightarrow> (\<exists>r. get_job k q = Some r \<and> j_owner r = Some h \<and> j_fence r = f)"

interpretation queue_table: fenced_table queue_step queue_ok jobs j_id j_fence j_seq j_owner job_guarded job_step
proof unfold_locales
  show "queue_ok s \<Longrightarrow> queue_ok (queue_step x s)" for s x
    using queue_step_sound by (simp add: sound_queue_def)
  show "queue_ok s \<Longrightarrow> rows_evolve job_step fresh_job (jobs s) (jobs (queue_step x s))" for s x
    using queue_step_sound by (simp add: sound_queue_def queue_evolves_def)
qed (simp_all add: job_step_def job_rows.step_trans job_rows.fresh_step fresh_fence_step)

interpretation queue: fencing queue_step queue_ok job_fence job_holds
proof -
  have "job_fence = (\<lambda>q k. case find (\<lambda>r. j_id r = k) (jobs q) of None \<Rightarrow> 0 | Some r \<Rightarrow> j_fence r)"
    and "job_holds = (\<lambda>q k h f. \<exists>r. find (\<lambda>r. j_id r = k) (jobs q) = Some r \<and> j_owner r = Some h \<and> j_fence r = f)"
    by (simp_all add: fun_eq_iff job_fence_def job_holds_def get_job_def)
  then show "fencing queue_step queue_ok job_fence job_holds"
    using queue_table.table_fencing.fencing_axioms by simp
qed

interpretation queue_rows: versioned queue_step queue_ok "\<lambda>q k. get_job k q" j_seq job_guarded
  using queue_table.table_versions.versioned_axioms by (simp add: get_job_def)

lemma empty_queue_ok: "queue_ok (empty_queue d)"
  by (simp add: empty_queue_def queue_ok_def jobs_ok_def unique_jobs_def ledger_ok_def publications_ok_def
      bindings_ok_def get_job_def)

lemma queue_run_evolves: "queue_ok q \<Longrightarrow> queue_evolves q (run_ops queue_step ops q)"
proof (induction ops arbitrary: q)
  case (Cons x xs)
  have "sound_queue q (queue_step x q)" using Cons.prems by (rule queue_step_sound)
  then show ?case
    using Cons.IH[of "queue_step x q"] Cons.prems queue_evolves_trans by (auto simp: sound_queue_def)
qed simp

lemma ledger_run_evolves: "queue_ok q \<Longrightarrow> ledger_evolves q (run_ops queue_step ops q)"
proof (induction ops arbitrary: q)
  case (Cons x xs)
  have "sound_queue q (queue_step x q)" using Cons.prems by (rule queue_step_sound)
  then show ?case
    using Cons.IH[of "queue_step x q"] Cons.prems ledger_evolves_trans by (auto simp: sound_queue_def)
qed (simp add: ledger_evolves_attempts)

end
