(* ===== verification/Compute_Claims.thy ===== *)
theory Compute_Claims
  imports Compute_Safety
begin

text \<open>
  What the compute queue promises its workers: an exclusive lease per job, exact results of claiming,
  finishing and reaping, final jobs, attempts that are never rewritten.  The values \<open>demo_*\<close> are small
  databases the statements are applied to.
\<close>

section \<open>Example databases\<close>

definition demo_tables :: run_tables where
  "demo_tables = \<lparr>rt_runs = [], rt_candidates = [], rt_results = [], rt_runtime = []\<rparr>"

definition queued_demo :: queue_db where
  "queued_demo = run_ops queue_step
     [Op_Enqueue_Experiment ''t0'' ''a.json'' 50 queued None None,
      Op_Enqueue_Experiment ''t1'' ''b.json'' 20 queued None None] (empty_queue demo_tables)"

definition running_demo :: queue_db where
  "running_demo = queue_step (Op_Claim_Job 100 100 ''t2'' ''w1'' 30 None None) queued_demo"

lemma queued_demo_ok: "queue_ok queued_demo"
  unfolding queued_demo_def by (rule queue_table.inv_run[OF empty_queue_ok])

lemma running_demo_ok: "queue_ok running_demo"
  unfolding running_demo_def by (rule queue_table.inv_step[OF queued_demo_ok])

abbreviation demo_job :: "int \<Rightarrow> string \<Rightarrow> int \<Rightarrow> string \<Rightarrow> job" where
  "demo_job k spec prio stamp \<equiv> (new_job spec queued prio stamp None None)\<lparr>j_id := k\<rparr>"

abbreviation demo_running_job :: job where
  "demo_running_job \<equiv> (demo_job 2 ''b.json'' 20 ''t1'')\<lparr>j_status := running, j_started := Some ''t2'',
     j_attempts := 1, j_owner := Some ''w1'', j_expires := Some 130, j_fence := 1, j_seq := 1\<rparr>"

lemmas queue_simps = update_jobs_def update_where_def rowcount_def job_guard_def job_guarded_def unique_jobs_def
  active_job_def insert_job_def new_job_def get_job_def epoch_def clock_max_def insert_attempt_def Let_def

lemma queued_demo_eq:
  "queued_demo = (empty_queue demo_tables)\<lparr>jobs := [demo_job 1 ''a.json'' 50 ''t0'', demo_job 2 ''b.json'' 20 ''t1''],
     next_job := 3\<rparr>"
  by (simp add: queued_demo_def empty_queue_def enqueue_experiment_def queue_simps)

lemma running_demo_eq:
  "running_demo = (empty_queue demo_tables)\<lparr>jobs := [demo_job 1 ''a.json'' 50 ''t0'', demo_running_job],
     next_job := 3,
     attempts := [\<lparr>at_job = 2, at_owner = ''w1'', at_fence = 1, at_state = At_Claimed, at_claimed = 100,
                   at_executing = None, at_finished = None, at_detail = []\<rparr>]\<rparr>"
  by (simp add: running_demo_def queued_demo_eq empty_queue_def claim_next_job_def queue_simps)

section \<open>Reachable queues\<close>

text \<open>C37 The queue stays well formed along every run of operations by any number of processes: job ids
  are unique, one spec has at most one active job, only running jobs carry a lease, one attempt per job
  and token, open exactly while its own claim holds the job, every publication row belongs to a job
  completed at that token under that label, and every binding to a job of its spec and, unless its
  materialization id is the empty text, of its digest (an empty id is bound to a job inserted without one).\<close>

theorem queue_ok_reachable: "queue_ok (run_ops queue_step ops (empty_queue d))"
  by (rule queue_table.inv_run) (rule empty_queue_ok)

section \<open>Leases\<close>

lemma assert_job_claim_holds:
  assumes "queue_ok q" and "assert_job_claim k h f t q = Inr r" and "h \<noteq> []"
  shows "job_holds q k h f"
  using assert_job_claim_InrD[OF assms(2)] assms(3) by (cases "j_owner r") (auto simp: job_holds_def)

text \<open>C2 Exclusive leases: when two workers pass the claim check on one job, now and after any run of
  operations, the later token is not smaller, and equal tokens mean the same worker.\<close>

theorem job_claims_exclusive:
  assumes "queue_ok q" and "h1 \<noteq> []" and "h2 \<noteq> []"
    and "assert_job_claim k h1 f1 t1 q = Inr r1"
    and "assert_job_claim k h2 f2 t2 (run_ops queue_step ops q) = Inr r2"
  shows "f1 \<le> f2 \<and> (f1 = f2 \<longrightarrow> h1 = h2)"
proof -
  note ok' = queue_table.inv_run[OF assms(1), of ops]
  note c1 = assert_job_claim_holds[OF assms(1,4,2)]
  note c2 = assert_job_claim_holds[OF ok' assms(5,3)]
  show ?thesis
    using queue.later_token_larger[OF assms(1) c1 c2] queue.token_unique[OF assms(1) c1, of ops h2] c2
      queue.holds_fence[OF assms(1) c1] queue.fence_run[OF assms(1), of k ops]
      queue.holds_fence[OF ok' c2] by auto
qed

theorem job_claims_exclusive_witness:
  "\<exists>r1 r2. assert_job_claim 2 ''w1'' 1 110 running_demo = Inr r1 \<and>
     assert_job_claim 2 ''w2'' 2 210 (run_ops queue_step
       [Op_Reap 200 200 None None, Op_Claim_Job 200 200 ''t3'' ''w2'' 30 None None] running_demo) = Inr r2 \<and>
     (1::int) \<le> 2 \<and> ((1::int) = 2 \<longrightarrow> ''w1'' = ''w2'')"
proof -
  let ?ops = "[Op_Reap 200 200 None None, Op_Claim_Job 200 200 ''t3'' ''w2'' 30 None None]"
  obtain r1 where r1: "assert_job_claim 2 ''w1'' 1 110 running_demo = Inr r1"
    by (simp add: running_demo_eq empty_queue_def assert_job_claim_def queue_simps)
  obtain r2 where r2: "assert_job_claim 2 ''w2'' 2 210 (run_ops queue_step ?ops running_demo) = Inr r2"
    by (simp add: running_demo_eq empty_queue_def assert_job_claim_def reap_stale_jobs_def expired_job_def
        close_attempt_def claim_next_job_def queue_simps)
  show ?thesis
    using job_claims_exclusive[OF running_demo_ok _ _ r1 r2] r1 r2 by simp
qed

text \<open>Whoever does not hold the stored lease with this token fails the claim check at every instant.\<close>

lemma not_held_check:
  assumes "\<not> job_holds q k h f" and "h \<noteq> []"
  shows "\<exists>e. assert_job_claim k h f t q = Inl (StaleJobClaim e)"
  using assms by (auto simp: assert_job_claim_def job_holds_def str_or_def split: option.splits)

lemma not_held_job:
  assumes "\<not> job_holds q k h f" and "jobs_ok q" and "r \<in> set (jobs q)"
  shows "\<not> held_job k h f t r"
  using assms by (auto simp: held_job_def job_holds_def get_job_iff)

text \<open>A lease that was lost (expired and reaped, finished, or taken over) stays lost: after any run of
  operations its holder can neither mark the job executing, renew nor publish, with no change at all,
  and its attempt to complete or fail the job raises and leaves only one stale-claim event behind.\<close>

theorem lost_job_claim_only_logs:
  assumes "queue_ok q0" and "\<not> job_holds q0 k h f" and "f \<le> job_fence q0 k" and "h \<noteq> []"
    and "q = run_ops queue_step ops q0" and "get_job k q \<noteq> None" and "0 < lease"
  shows "(\<exists>e fl'. mark_job_executing o1 o2 k h f now fl q = (Inl (StaleJobClaim e), fl', q)) \<and>
    (\<exists>e fl'. renew_job_lease o1 o2 k h f lease now fl q = (Inl (StaleJobClaim e), fl', q)) \<and>
    (\<exists>e fl'. publish_transaction env o1 ts stamp prov files k h f t now fl q = (Inl (StaleJobClaim e), fl', q)) \<and>
    (\<exists>e fl' t1. complete_job o1 o2 stamp k dir h f now fl q = (Inl (StaleJobClaim e), fl',
       q\<lparr>stale_events := stale_events q @ [\<lparr>se_job = k, se_owner = h, se_fence = f, se_op = completed, se_at = t1\<rparr>]\<rparr>)) \<and>
    (\<exists>e fl' t1. fail_job o1 o2 stamp k err h f now fl q = (Inl (StaleJobClaim e), fl',
       q\<lparr>stale_events := stale_events q @ [\<lparr>se_job = k, se_owner = h, se_fence = f, se_op = failed, se_at = t1\<rparr>]\<rparr>))"
proof -
  have lost: "\<not> job_holds q k h f"
    unfolding assms(5) by (rule queue.no_revival[OF assms(1-3)])
  have check: "\<exists>e. assert_job_claim k h f u q = Inl (StaleJobClaim e)" for u
    using lost assms(4) by (rule not_held_check)
  obtain t1 fl1 where e1: "epoch o1 now fl = (t1, fl1)" by fastforce
  show ?thesis
    using check[of t1] check[of t] assms(6,7)
    by (auto simp: mark_job_executing_def renew_job_lease_def publish_transaction_def complete_job_def fail_job_def
        finish_job_def e1 Let_def)
qed

lemma demo_reaped_eq:
  "run_ops queue_step [Op_Reap 200 200 None None] running_demo =
     (empty_queue demo_tables)\<lparr>jobs := [demo_job 1 ''a.json'' 50 ''t0'',
        demo_running_job\<lparr>j_status := queued, j_started := None, j_owner := None, j_expires := None,
          j_error := Some ''requeued stale running job: expired fenced lease'', j_seq := 2\<rparr>],
      next_job := 3,
      attempts := [\<lparr>at_job = 2, at_owner = ''w1'', at_fence = 1, at_state = At_Superseded, at_claimed = 100,
                    at_executing = None, at_finished = Some 200,
                    at_detail = ''lease expired before terminal publication''\<rparr>]\<rparr>"
  by (simp add: running_demo_eq empty_queue_def reap_stale_jobs_def expired_job_def close_attempt_def queue_simps)

theorem lost_job_claim_only_logs_witness:
  "\<exists>e fl'. renew_job_lease 300 300 2 ''w1'' 1 30 None None
     (run_ops queue_step [] (run_ops queue_step [Op_Reap 200 200 None None] running_demo)) =
     (Inl (StaleJobClaim e), fl', run_ops queue_step [] (run_ops queue_step [Op_Reap 200 200 None None] running_demo))"
proof -
  let ?q = "run_ops queue_step [Op_Reap 200 200 None None] running_demo"
  have "queue_ok ?q" by (rule queue_table.inv_run[OF running_demo_ok])
  moreover have "\<not> job_holds ?q 2 ''w1'' 1" and "1 \<le> job_fence ?q 2" and "get_job 2 (run_ops queue_step [] ?q) \<noteq> None"
    by (simp_all only: demo_reaped_eq run_ops_Nil) (simp_all add: empty_queue_def job_holds_def job_fence_def queue_simps)
  ultimately show ?thesis
    using lost_job_claim_only_logs[of ?q 2 "''w1''" 1 "run_ops queue_step [] ?q" "[]" 30] by simp
qed

text \<open>A finished job is final: through any later run of operations by anyone its row stays exactly as
  it is, and every attempt recorded for it stays in the ledger, closed and unchanged.\<close>

theorem finished_job_is_final:
  assumes "queue_ok q" and "get_job k q = Some r" and "finished_job r"
  shows "get_job k (run_ops queue_step ops q) = Some r \<and>
    (\<forall>a \<in> set (attempts q). at_job a = k \<longrightarrow> \<not> open_attempt a \<and> a \<in> set (attempts (run_ops queue_step ops q)))"
proof -
  obtain r' where r': "get_job k (run_ops queue_step ops q) = Some r'" "job_step r r'"
    using get_job_evolves[OF queue_run_evolves[OF assms(1)] assms(2)] .
  have "j_owner r = None"
    using get_job_ok[OF _ assms(2)] assms(1,3) by (auto simp: queue_ok_def job_ok_def finished_job_def)
  then have "\<not> open_attempt a" if "a \<in> set (attempts q)" "at_job a = k" for a
    using that assms(1,2) by (fastforce simp: queue_ok_def ledger_ok_def attempt_ok_def)
  then show ?thesis
    using r' assms(3) ledger_evolves_closed[OF ledger_run_evolves[OF assms(1), of ops]] by (auto simp: job_step_def)
qed

definition finished_demo :: queue_db where
  "finished_demo = queue_step (Op_Complete_Job 110 110 ''t3'' 2 ''d'' ''w1'' 1 None None) running_demo"

abbreviation demo_finished_job :: job where
  "demo_finished_job \<equiv> demo_running_job\<lparr>j_status := completed, j_finished := Some ''t3'', j_run_dir := Some ''d'',
     j_owner := None, j_expires := None, j_seq := 2\<rparr>"

lemma finished_demo_ok: "queue_ok finished_demo"
  unfolding finished_demo_def by (rule queue_table.inv_step[OF running_demo_ok])

lemma finished_demo_job: "get_job 2 finished_demo = Some demo_finished_job"
  by (simp add: finished_demo_def running_demo_eq empty_queue_def complete_job_def finish_job_def finish_commit_def
      assert_job_claim_def held_job_def open_attempt_def queue_simps)

theorem finished_job_is_final_witness:
  "get_job 2 (run_ops queue_step [Op_Reap 999 999 None None] finished_demo) = Some demo_finished_job"
  using finished_job_is_final[OF finished_demo_ok finished_demo_job, of "[Op_Reap 999 999 None None]"]
  by (simp add: finished_job_def del: run_ops_Cons)

section \<open>Claiming\<close>

definition job_order :: "job \<Rightarrow> int \<times> string \<times> int" where
  "job_order r = (j_priority r, j_created r, j_id r)"

abbreviation job_claim_pred :: "job \<Rightarrow> job \<Rightarrow> bool" where
  "job_claim_pred row \<equiv> \<lambda>r. j_id r = j_id row \<and> j_status r = queued \<and> j_owner r = None \<and> j_fence r = j_fence row
     \<and> j_protocol r = fenced_v2 \<and> j_seq r = j_seq row"

definition leased :: "string \<Rightarrow> string \<Rightarrow> time \<Rightarrow> job \<Rightarrow> job" where
  "leased stamp owner expiry r = r\<lparr>j_status := running, j_started := Some stamp, j_attempts := j_attempts r + 1,
     j_owner := Some owner, j_expires := Some expiry, j_fence := j_fence r + 1, j_seq := j_seq r + 1\<rparr>"

definition first_attempt :: "job \<Rightarrow> string \<Rightarrow> time \<Rightarrow> attempt" where
  "first_attempt r owner t = \<lparr>at_job = j_id r, at_owner = owner, at_fence = j_fence r + 1, at_state = At_Claimed,
     at_claimed = t, at_executing = None, at_finished = None, at_detail = []\<rparr>"

lemma no_later_attempt:
  assumes "ledger_ok q" and "get_job k q = Some r" and "a \<in> set (attempts q)" and "at_job a = k"
  shows "at_fence a \<le> j_fence r"
  using assms unfolding ledger_ok_def attempt_ok_def by fastforce

lemma queued_job_free: "job_ok r \<Longrightarrow> j_status r = queued \<Longrightarrow> j_owner r = None \<and> j_expires r = None \<and> j_protocol r = fenced_v2"
  by (auto simp: job_ok_def)

text \<open>A claim takes exactly the first queued job by priority, creation time and id, or reports that
  none is queued and writes nothing; the job runs under the worker with the next token, a full lease
  and one more attempt, the ledger gains exactly this attempt, and a claim never fails.\<close>

theorem claim_next_job_selects:
  assumes "queue_ok q" and "0 < lease"
    and "epoch o1 now fl = (t1, fl1)" and "epoch o2 (Some t1) fl1 = (t, fl2)"
  shows "(claim_next_job o1 o2 stamp owner lease now fl q = (Inr None, fl2, q) \<and>
       (\<forall>r \<in> set (jobs q). j_status r \<noteq> queued)) \<or>
    (\<exists>row q'. claim_next_job o1 o2 stamp owner lease now fl q = (Inr (Some (leased stamp owner (t + lease) row)), fl2, q') \<and>
       row \<in> set (jobs q) \<and> j_status row = queued \<and>
       (\<forall>r \<in> set (jobs q). j_status r = queued \<longrightarrow> job_order row \<le> job_order r) \<and>
       (\<forall>j. get_job j q' = (if j = j_id row then Some (leased stamp owner (t + lease) row) else get_job j q)) \<and>
       attempts q' = attempts q @ [first_attempt row owner t])"
proof (cases "first_by job_order (filter (\<lambda>r. j_status r = queued) (jobs q))")
  case None
  then show ?thesis
    using assms(2-4) by (simp add: claim_next_job_def Let_def job_order_def[abs_def] filter_empty_conv)
next
  case (Some row)
  let ?f = "\<lambda>r. r\<lparr>j_status := running, j_started := Some stamp, j_attempts := j_attempts r + 1, j_owner := Some owner,
      j_expires := Some (t + lease), j_fence := j_fence row + 1, j_protocol := fenced_v2, j_seq := j_seq row + 1\<rparr>"
  let ?q1 = "q\<lparr>jobs := update_where (job_claim_pred row) ?f (jobs q)\<rparr>"
  have jok: "jobs_ok q" and lok: "ledger_ok q" using assms(1) by (simp_all add: queue_ok_def)
  have row: "row \<in> set (jobs q)" "j_status row = queued"
    and best: "\<forall>r \<in> set (jobs q). j_status r = queued \<longrightarrow> job_order row \<le> job_order r"
    using first_by_SomeD[OF Some] by auto
  have get: "get_job (j_id row) q = Some row" using get_job_iff[OF jok] row(1) by simp
  have free: "j_owner row = None" "j_protocol row = fenced_v2"
    using queued_job_free[OF jobs_okD(3)[OF jok row(1)] row(2)] by simp_all
  have hit: "update_jobs (job_claim_pred row) ?f q = Inr (1, ?q1)"
    by (rule update_jobs_single(1)[OF jok get]) (use row(2) free in \<open>auto simp: job_guard_def active_job_def\<close>)
  have get': "get_job j ?q1 = (if j = j_id row then Some (?f row) else get_job j q)" for j
    by (rule update_jobs_single(2)[OF jok get]) (use row(2) free in \<open>auto simp: job_guard_def active_job_def\<close>)
  have eq: "?f row = leased stamp owner (t + lease) row" using free by (simp add: leased_def)
  let ?q2 = "?q1\<lparr>attempts := attempts q @ [first_attempt row owner t]\<rparr>"
  have "insert_attempt (first_attempt row owner t) ?q1 = Inr ?q2"
    using no_later_attempt[OF lok get] by (fastforce simp: insert_attempt_def first_attempt_def list_ex_iff)
  then have "claim_next_job o1 o2 stamp owner lease now fl q =
      (Inr (get_job (j_id row) ?q2), fl2, ?q2)"
    using Some hit assms(2-4) unfolding claim_next_job_def Let_def job_order_def[abs_def] first_attempt_def
    by (simp del: ok_other)
  moreover have "get_job j ?q2 = (if j = j_id row then Some (leased stamp owner (t + lease) row) else get_job j q)" for j
    using get'[of j] eq by simp
  ultimately have "claim_next_job o1 o2 stamp owner lease now fl q = (Inr (Some (leased stamp owner (t + lease) row)), fl2, ?q2) \<and>
      (\<forall>j. get_job j ?q2 = (if j = j_id row then Some (leased stamp owner (t + lease) row) else get_job j q)) \<and>
      attempts ?q2 = attempts q @ [first_attempt row owner t]"
    by simp
  then show ?thesis using row best by blast
qed

theorem claim_next_job_selects_witness:
  "\<exists>q'. claim_next_job 100 100 ''t2'' ''w1'' 30 None None queued_demo =
     (Inr (Some (leased ''t2'' ''w1'' 130 (demo_job 2 ''b.json'' 20 ''t1''))), None, q')"
proof -
  have e: "epoch 100 None None = (100, None)" "epoch 100 (Some 100) None = (100, None)"
    by (simp_all add: epoch_def clock_max_def)
  have "\<not> (\<forall>r \<in> set (jobs queued_demo). j_status r \<noteq> queued)" by (simp add: queued_demo_eq new_job_def)
  then obtain row q' where
      "claim_next_job 100 100 ''t2'' ''w1'' 30 None None queued_demo = (Inr (Some (leased ''t2'' ''w1'' (100 + 30) row)), None, q')"
      "row \<in> set (jobs queued_demo)" "\<forall>r \<in> set (jobs queued_demo). j_status r = queued \<longrightarrow> job_order row \<le> job_order r"
    using claim_next_job_selects[OF queued_demo_ok _ e, of 30 "''t2''" "''w1''"] by auto
  then show ?thesis by (auto simp: queued_demo_eq empty_queue_def job_order_def new_job_def less_eq_prod_def)
qed

section \<open>Finishing\<close>

definition finished_row :: "string \<Rightarrow> bool \<Rightarrow> string option \<Rightarrow> string \<Rightarrow> job \<Rightarrow> job" where
  "finished_row stamp ok dir err r = r\<lparr>j_status := (if ok then completed else failed), j_finished := Some stamp,
     j_run_dir := dir, j_error := (if ok then None else Some (take 1000 err)), j_owner := None, j_expires := None,
     j_seq := j_seq r + 1\<rparr>"

definition closed_as :: "bool \<Rightarrow> time \<Rightarrow> string \<Rightarrow> attempt \<Rightarrow> attempt" where
  "closed_as ok t err a = a\<lparr>at_state := (if ok then At_Completed else At_Failed), at_finished := Some t,
     at_detail := take 1000 err\<rparr>"

lemma finish_swap:
  assumes "queue_ok q" and "get_job k q = Some row" and "held_job k h f t row"
  shows "update_jobs (\<lambda>r. held_job k h f t r \<and> j_seq r = j_seq row)
      (\<lambda>r. r\<lparr>j_status := (if ok then completed else failed), j_finished := Some stamp, j_run_dir := dir,
            j_error := (if ok then None else Some (take 1000 err)), j_owner := None, j_expires := None,
            j_protocol := fenced_v2, j_seq := j_seq row + 1\<rparr>) q =
      Inr (1, q\<lparr>jobs := update_where (\<lambda>r. r = row) (finished_row stamp ok dir err) (jobs q)\<rparr>)"
    and "get_job j (q\<lparr>jobs := update_where (\<lambda>r. r = row) (finished_row stamp ok dir err) (jobs q)\<rparr>) =
      (if j = k then Some (finished_row stamp ok dir err row) else get_job j q)"
proof -
  let ?p = "\<lambda>r. held_job k h f t r \<and> j_seq r = j_seq row"
  let ?f = "\<lambda>r. r\<lparr>j_status := (if ok then completed else failed), j_finished := Some stamp, j_run_dir := dir,
      j_error := (if ok then None else Some (take 1000 err)), j_owner := None, j_expires := None,
      j_protocol := fenced_v2, j_seq := j_seq row + 1\<rparr>"
  have jok: "jobs_ok q" using assms(1) by (simp add: queue_ok_def)
  have row: "?f row = finished_row stamp ok dir err row"
    using assms(3) by (simp add: finished_row_def held_job_def)
  have "update_where ?p ?f (jobs q) = update_where (\<lambda>r. r = row) ?f (jobs q)"
    by (rule update_where_single(2)[where key = j_id and k = k])
       (use assms(2,3) jobs_okD(1)[OF jok] in \<open>auto simp: get_job_def held_job_def\<close>)
  also have "\<dots> = update_where (\<lambda>r. r = row) (finished_row stamp ok dir err) (jobs q)"
    using row by (simp add: update_where_def)
  finally have eq: "update_where ?p ?f (jobs q) = update_where (\<lambda>r. r = row) (finished_row stamp ok dir err) (jobs q)" .
  have "update_jobs ?p ?f q = Inr (1, q\<lparr>jobs := update_where ?p ?f (jobs q)\<rparr>)"
    by (rule update_jobs_single(1)[OF jok assms(2)])
       (use assms(3) in \<open>auto simp: job_guard_def active_job_def held_job_def\<close>)
  then show "update_jobs ?p ?f q = Inr (1, q\<lparr>jobs := update_where (\<lambda>r. r = row) (finished_row stamp ok dir err) (jobs q)\<rparr>)"
    by (simp only: eq)
  have "get_job j (q\<lparr>jobs := update_where ?p ?f (jobs q)\<rparr>) = (if j = k then Some (?f row) else get_job j q)"
    by (rule update_jobs_single(2)[OF jok assms(2)])
       (use assms(3) in \<open>auto simp: job_guard_def active_job_def held_job_def\<close>)
  then show "get_job j (q\<lparr>jobs := update_where (\<lambda>r. r = row) (finished_row stamp ok dir err) (jobs q)\<rparr>) =
      (if j = k then Some (finished_row stamp ok dir err row) else get_job j q)"
    by (simp only: eq row)
qed

lemma update_jobs_held_hit:
  assumes "update_jobs (\<lambda>r. held_job k h f t r \<and> c r) g q = Inr (1, q')" and "jobs_ok q" and "get_job k q = Some row"
  shows "held_job k h f t row"
proof -
  obtain r where "r \<in> set (jobs q)" "held_job k h f t r"
    using update_jobs_InrD(2)[OF assms(1)] rowcount_1_ex[of "\<lambda>r. held_job k h f t r \<and> c r" "jobs q"] by auto
  then show ?thesis using assms(2,3) get_job_iff[OF assms(2), of k r] by (auto simp: held_job_def)
qed

text \<open>Closing the attempt of the held token closes exactly that attempt.\<close>

lemma held_attempt_update:
  assumes "queue_ok q" and "get_job k q = Some row" and "held_job k h f t row"
  shows "update_where (\<lambda>a. at_job a = k \<and> at_fence a = f \<and> open_attempt a) g (attempts q) =
    map (\<lambda>a. if at_job a = k \<and> at_fence a = f then g a else a) (attempts q)"
  unfolding update_where_def
  using ledger_held_open[of q k row h k f] assms by (auto simp: queue_ok_def held_job_def)

lemma finish_commit_InrD:
  assumes "finish_commit obs t1 row stamp k ok dir err h f fl q = (Inr (), fl', q')"
    and "epoch obs (Some t1) fl = (t, fla)"
  shows "\<exists>q1. update_jobs (\<lambda>r. held_job k h f t r \<and> j_seq r = j_seq row)
        (\<lambda>r. r\<lparr>j_status := (if ok then completed else failed), j_finished := Some stamp, j_run_dir := dir,
              j_error := (if ok then None else Some (take 1000 err)), j_owner := None, j_expires := None,
              j_protocol := fenced_v2, j_seq := j_seq row + 1\<rparr>) q = Inr (1, q1) \<and>
      q' = q1\<lparr>attempts := update_where (\<lambda>a. at_job a = k \<and> at_fence a = j_fence row \<and> open_attempt a)
        (closed_as ok t err) (attempts q1)\<rparr>"
  using assms unfolding finish_commit_def closed_as_def[abs_def]
  by (cases "update_jobs (\<lambda>r. held_job k h f t r \<and> j_seq r = j_seq row)
        (\<lambda>r. r\<lparr>j_status := (if ok then completed else failed), j_finished := Some stamp, j_run_dir := dir,
              j_error := (if ok then None else Some (take 1000 err)), j_owner := None, j_expires := None,
              j_protocol := fenced_v2, j_seq := j_seq row + 1\<rparr>) q")
     (auto split: if_split_asm prod.split_asm)

text \<open>Finishing is exact and happens once: it succeeds only for the holder of the unexpired lease; the
  job then ends as asked, its one attempt at this token is closed with it, and no other job or attempt
  changes; a failure changes no job, attempt, publication or binding; and after a success every further
  attempt to finish the job, by anyone and either way, raises and changes no job and no attempt.\<close>

theorem finish_job_exact:
  assumes "queue_ok q" and "finish_job o1 o2 stamp k ok dir err h f now fl q = (res, fl', q')"
  shows "(\<forall>e. res = Inl e \<longrightarrow> (\<exists>es. q' = q\<lparr>stale_events := es\<rparr>)) \<and>
    (res = Inr () \<longrightarrow> (\<exists>row t. get_job k q = Some row \<and> held_job k h f t row \<and>
       (\<forall>j. get_job j q' = (if j = k then Some (finished_row stamp ok dir err row) else get_job j q)) \<and>
       attempts q' = map (\<lambda>a. if at_job a = k \<and> at_fence a = f then closed_as ok t err a else a) (attempts q) \<and>
       (\<exists>e fl2 es. finish_job o3 o4 stamp2 k ok2 dir2 err2 h2 f2 now2 fl1 q' = (Inl e, fl2, q'\<lparr>stale_events := es\<rparr>))))"
proof (intro conjI allI impI)
  show "\<exists>es. q' = q\<lparr>stale_events := es\<rparr>" if "res = Inl e" for e
  proof -
    have same: "\<exists>es. q = q\<lparr>stale_events := es\<rparr>" by (intro exI[of _ "stale_events q"]) simp
    then show ?thesis
      using assms(2) that
      by (auto simp: finish_job_def finish_commit_def Let_def case_prod_beta split: if_splits sum.splits)
  qed
next
  assume "res = Inr ()"
  then obtain t1 fla row where get: "get_job k q = Some row" and fence: "j_fence row = f"
      and commit: "finish_commit o2 t1 row stamp k ok dir err h f fla q = (Inr (), fl', q')"
    using assms(2) assert_job_claim_InrD(1,4)[of k h f _ q]
    by (auto simp: finish_job_def Let_def case_prod_beta split: if_splits sum.splits)
  obtain t flb where e: "epoch o2 (Some t1) fla = (t, flb)" by fastforce
  obtain q1 where upd: "update_jobs (\<lambda>r. held_job k h f t r \<and> j_seq r = j_seq row)
        (\<lambda>r. r\<lparr>j_status := (if ok then completed else failed), j_finished := Some stamp, j_run_dir := dir,
              j_error := (if ok then None else Some (take 1000 err)), j_owner := None, j_expires := None,
              j_protocol := fenced_v2, j_seq := j_seq row + 1\<rparr>) q = Inr (1, q1)"
      and q': "q' = q1\<lparr>attempts := update_where (\<lambda>a. at_job a = k \<and> at_fence a = f \<and> open_attempt a)
        (closed_as ok t err) (attempts q1)\<rparr>"
    using finish_commit_InrD[OF commit e] unfolding fence by blast
  have held: "held_job k h f t row"
    using update_jobs_held_hit[OF upd _ get] assms(1) by (simp add: queue_ok_def)
  note S = finish_swap[OF assms(1) get held, where ok = ok and stamp = stamp and dir = dir and err = err]
  have q1: "q1 = q\<lparr>jobs := update_where (\<lambda>r. r = row) (finished_row stamp ok dir err) (jobs q)\<rparr>"
    using upd S(1) by simp
  have get': "get_job j q' = (if j = k then Some (finished_row stamp ok dir err row) else get_job j q)" for j
    using S(2)[of j] by (simp add: q' q1)
  have "attempts q' = map (\<lambda>a. if at_job a = k \<and> at_fence a = f then closed_as ok t err a else a) (attempts q)"
    using held_attempt_update[OF assms(1) get held] by (simp add: q' q1)
  moreover have "\<exists>e fl2 es. finish_job o3 o4 stamp2 k ok2 dir2 err2 h2 f2 now2 fl0 q' = (Inl e, fl2, q'\<lparr>stale_events := es\<rparr>)" for fl0
    using get'[of k] by (auto simp: finish_job_def Let_def case_prod_beta assert_job_claim_def finished_row_def)
  ultimately show "\<exists>row t. get_job k q = Some row \<and> held_job k h f t row \<and>
       (\<forall>j. get_job j q' = (if j = k then Some (finished_row stamp ok dir err row) else get_job j q)) \<and>
       attempts q' = map (\<lambda>a. if at_job a = k \<and> at_fence a = f then closed_as ok t err a else a) (attempts q) \<and>
       (\<exists>e fl2 es. finish_job o3 o4 stamp2 k ok2 dir2 err2 h2 f2 now2 fl1 q' = (Inl e, fl2, q'\<lparr>stale_events := es\<rparr>))"
    using get held get' by blast
qed

theorem finish_job_exact_witness:
  "\<exists>e fl2 es. finish_job 120 120 ''t4'' 2 False None ''x'' ''w2'' 9 None None finished_demo =
     (Inl e, fl2, finished_demo\<lparr>stale_events := es\<rparr>)"
proof -
  have "finish_job 110 110 ''t3'' 2 True (Some ''d'') [] ''w1'' 1 None None running_demo = (Inr (), None, finished_demo)"
    by (simp add: finished_demo_def running_demo_eq empty_queue_def complete_job_def finish_job_def finish_commit_def
      assert_job_claim_def held_job_def open_attempt_def queue_simps)
  from finish_job_exact[OF running_demo_ok this, of 120 120 "''t4''" False None "''x''" "''w2''" 9 None None]
  show ?thesis by blast
qed

section \<open>Reaping\<close>

definition reaped :: "job \<Rightarrow> job" where
  "reaped r = r\<lparr>j_status := queued, j_started := None, j_owner := None, j_expires := None,
     j_error := Some ''requeued stale running job: expired fenced lease'', j_seq := j_seq r + 1\<rparr>"

abbreviation reap_pred :: "time \<Rightarrow> job \<Rightarrow> job \<Rightarrow> bool" where
  "reap_pred now row \<equiv> \<lambda>r. j_id r = j_id row \<and> j_status r = running \<and> j_owner r = j_owner row \<and> j_fence r = j_fence row
     \<and> (case j_expires r of None \<Rightarrow> False | Some e \<Rightarrow> e \<le> now) \<and> j_protocol r = fenced_v2 \<and> j_seq r = j_seq row"

abbreviation reap_update :: "job \<Rightarrow> job \<Rightarrow> job" where
  "reap_update row \<equiv> \<lambda>r. r\<lparr>j_status := queued, j_started := None, j_owner := None, j_expires := None,
     j_error := Some ''requeued stale running job: expired fenced lease'',
     j_protocol := fenced_v2, j_seq := j_seq row + 1\<rparr>"

definition reaped_attempt :: "time \<Rightarrow> job option \<Rightarrow> attempt \<Rightarrow> attempt" where
  "reaped_attempt t r a = (case r of None \<Rightarrow> a | Some r \<Rightarrow> if at_fence a = j_fence r then close_attempt t a else a)"

lemma close_attempt_keys [simp]:
  "at_job (close_attempt t a) = at_job a" "at_fence (close_attempt t a) = at_fence a"
  by (simp_all add: close_attempt_def)

lemma reap_jobs_eq:
  assumes "jobs_ok q" and "distinct (map j_id rows)"
    and "\<And>r. r \<in> set rows \<Longrightarrow> get_job (j_id r) q = Some r \<and> expired_job t r"
  shows "\<exists>q'. reap_jobs t rows n q = Inr (n + length rows, q') \<and>
    (\<forall>j. get_job j q' = (case find (\<lambda>r. j_id r = j) rows of None \<Rightarrow> get_job j q | Some r \<Rightarrow> Some (reaped r))) \<and>
    attempts q' = map (\<lambda>a. reaped_attempt t (find (\<lambda>r. j_id r = at_job a) rows) a) (attempts q)"
  using assms
proof (induction rows arbitrary: n q)
  case Nil
  then show ?case by (simp add: reaped_attempt_def)
next
  case (Cons row rows)
  let ?q1 = "q\<lparr>jobs := update_where (reap_pred t row) (reap_update row) (jobs q)\<rparr>"
  let ?q2 = "?q1\<lparr>attempts := update_where (\<lambda>a. at_job a = j_id row \<and> at_fence a = j_fence row) (close_attempt t) (attempts q)\<rparr>"
  have row: "get_job (j_id row) q = Some row" and exp: "expired_job t row" using Cons.prems(3)[of row] by simp_all
  have upd: "update_jobs (reap_pred t row) (reap_update row) q = Inr (1, ?q1)"
    by (rule update_jobs_single(1)[OF Cons.prems(1) row])
       (use exp in \<open>auto simp: expired_job_def job_guard_def active_job_def\<close>)
  have get: "get_job j ?q1 = (if j = j_id row then Some (reap_update row row) else get_job j q)" for j
    by (rule update_jobs_single(2)[OF Cons.prems(1) row])
       (use exp in \<open>auto simp: expired_job_def job_guard_def active_job_def\<close>)
  have new: "reap_update row row = reaped row" using exp by (simp add: expired_job_def reaped_def)
  have "jobs_ok ?q1" by (rule update_jobs_ok[OF upd reap_shape[OF refl] Cons.prems(1)])
  then have jok2: "jobs_ok ?q2" by (simp add: jobs_ok_def)
  have get2: "get_job j ?q2 = (if j = j_id row then Some (reaped row) else get_job j q)" for j
    using get[of j] new by simp
  have rest: "get_job (j_id r) ?q2 = Some r \<and> expired_job t r" if "r \<in> set rows" for r
  proof -
    have "j_id r \<noteq> j_id row" using Cons.prems(2) that by (auto simp: image_iff)
    with Cons.prems(3)[of r] that get2[of "j_id r"] show ?thesis by simp
  qed
  obtain q' where IH: "reap_jobs t rows (Suc n) ?q2 = Inr (Suc n + length rows, q')"
      "\<forall>j. get_job j q' = (case find (\<lambda>r. j_id r = j) rows of None \<Rightarrow> get_job j ?q2 | Some r \<Rightarrow> Some (reaped r))"
      "attempts q' = map (\<lambda>a. reaped_attempt t (find (\<lambda>r. j_id r = at_job a) rows) a) (attempts ?q2)"
    using Cons.IH[OF jok2 _ rest, of "Suc n"] Cons.prems(2) by auto
  have gone: "find (\<lambda>r. j_id r = j_id row) rows = None"
    using Cons.prems(2) by (auto simp: find_None_iff) (metis image_eqI)
  have "get_job j q' = (case find (\<lambda>r. j_id r = j) (row # rows) of None \<Rightarrow> get_job j q | Some r \<Rightarrow> Some (reaped r))" for j
    using IH(2) get2[of j] gone by (cases "j = j_id row"; cases "find (\<lambda>r. j_id r = j) rows") simp_all
  moreover have "attempts q' = map (\<lambda>a. reaped_attempt t (find (\<lambda>r. j_id r = at_job a) (row # rows)) a) (attempts q)"
    using gone unfolding IH(3) by (auto simp: update_where_def reaped_attempt_def)
  moreover have "reap_jobs t (row # rows) n q = Inr (n + length (row # rows), q')"
    using IH(1) upd by simp
  ultimately show ?case by blast
qed

text \<open>Reaping is exact and never fails: it counts and requeues every running job whose lease has
  expired at the time it acts on, keeping the token; the attempt of the expired claim becomes ambiguous
  when it had started executing and superseded when it had not; no other job or attempt changes.\<close>

theorem reap_stale_jobs_exact:
  assumes "queue_ok q" and "epoch o1 now fl = (t1, fl1)" and "epoch o2 (Some t1) fl1 = (t, fl2)"
  shows "\<exists>q'. reap_stale_jobs o1 o2 now fl q = (Inr (rowcount (expired_job t) (jobs q)), fl2, q') \<and>
    (\<forall>j. get_job j q' = map_option (\<lambda>r. if expired_job t r then reaped r else r) (get_job j q)) \<and>
    attempts q' = map (\<lambda>a. if \<exists>r. get_job (at_job a) q = Some r \<and> expired_job t r \<and> at_fence a = j_fence r
       then close_attempt t a else a) (attempts q)"
proof -
  let ?rows = "filter (expired_job t) (jobs q)"
  have jok: "jobs_ok q" using assms(1) by (simp add: queue_ok_def)
  have distinct: "distinct (map j_id ?rows)" using jobs_okD(1)[OF jok] by (simp add: distinct_map_filter)
  have rows: "get_job (j_id r) q = Some r \<and> expired_job t r" if "r \<in> set ?rows" for r
    using that get_job_iff[OF jok] by simp
  have found: "find (\<lambda>r. j_id r = j) ?rows = (case get_job j q of None \<Rightarrow> None | Some r \<Rightarrow> if expired_job t r then Some r else None)" for j
    unfolding get_job_def by (rule find_filter_key[OF jobs_okD(1)[OF jok]])
  obtain q' where q': "reap_jobs t ?rows 0 q = Inr (0 + length ?rows, q')"
      "\<forall>j. get_job j q' = (case find (\<lambda>r. j_id r = j) ?rows of None \<Rightarrow> get_job j q | Some r \<Rightarrow> Some (reaped r))"
      "attempts q' = map (\<lambda>a. reaped_attempt t (find (\<lambda>r. j_id r = at_job a) ?rows) a) (attempts q)"
    using reap_jobs_eq[OF jok distinct rows, of 0] by blast
  have "reap_stale_jobs o1 o2 now fl q = (Inr (rowcount (expired_job t) (jobs q)), fl2, q')"
    using q'(1) assms(2,3) by (simp add: reap_stale_jobs_def rowcount_def)
  moreover have "get_job j q' = map_option (\<lambda>r. if expired_job t r then reaped r else r) (get_job j q)" for j
    using q'(2) by (auto simp: found split: option.split)
  moreover have "attempts q' = map (\<lambda>a. if \<exists>r. get_job (at_job a) q = Some r \<and> expired_job t r \<and> at_fence a = j_fence r
       then close_attempt t a else a) (attempts q)"
    unfolding q'(3) by (auto simp: found reaped_attempt_def split: option.split)
  ultimately show ?thesis by blast
qed

theorem reap_stale_jobs_exact_witness:
  "\<exists>q'. reap_stale_jobs 200 200 None None running_demo = (Inr 1, None, q') \<and>
     get_job 2 q' = Some (reaped demo_running_job)"
proof -
  have "epoch 200 None None = (200, None)" "epoch 200 (Some 200) None = (200, None)"
    by (simp_all add: epoch_def clock_max_def)
  from reap_stale_jobs_exact[OF running_demo_ok this] show ?thesis
    by (auto simp: running_demo_eq empty_queue_def rowcount_def expired_job_def get_job_def new_job_def)
qed

end
