(* ===== verification/Publication_Claims.thy ===== *)
theory Publication_Claims
  imports Compute_Claims
begin

text \<open>
  What importing, publishing, recovering and enqueueing a run promise: an import replaces exactly its
  own run, a publication commits all of its database effects or none, an interrupted rename is finished
  once, and a materialization id is bound to one job of one content.
\<close>

section \<open>Importing a run\<close>

definition imported_rows :: "json \<Rightarrow> json list \<Rightarrow> json list" where
  "imported_rows payload csv_rows = (if extract_results payload \<noteq> [] then extract_results payload else csv_rows)"

lemma update_own_rows:
  "key r = k \<Longrightarrow> filter (\<lambda>x. key x \<noteq> k) (update_where (\<lambda>x. key x = k) (\<lambda>_. r) rows) = filter (\<lambda>x. key x \<noteq> k) rows"
  by (induction rows) auto

lemma upsert_run_other: "filter (\<lambda>x. rr_id x \<noteq> rr_id r) (upsert_run r rows) = filter (\<lambda>x. rr_id x \<noteq> rr_id r) rows"
  by (simp add: upsert_run_def update_own_rows)

lemma upsert_run_there: "r \<in> set (upsert_run r rows)"
  by (auto simp: upsert_run_def set_update_where list_ex_iff)

lemma upsert_run_twice: "upsert_run r (upsert_run r rows) = upsert_run r rows"
proof -
  have "list_ex (\<lambda>x. rr_id x = rr_id r) (upsert_run r rows)"
    using upsert_run_there by (auto simp: list_ex_iff)
  moreover have "update_where (\<lambda>x. rr_id x = rr_id r) (\<lambda>_. r) (upsert_run r rows) = upsert_run r rows"
    by (auto simp: upsert_run_def update_where_def list_ex_iff intro!: map_idI)
  ultimately show ?thesis by (subst (1) upsert_run_def) simp
qed

text \<open>Rows without their import times.\<close>

definition unstamped_run :: "run_row \<Rightarrow> run_row" where
  "unstamped_run r = r\<lparr>rr_imported := []\<rparr>"

definition unstamped_result :: "farm_result \<Rightarrow> farm_result" where
  "unstamped_result r = r\<lparr>fr_created := []\<rparr>"

definition unstamped_runtime :: "runtime_row \<Rightarrow> runtime_row" where
  "unstamped_runtime r = r\<lparr>ru_created := []\<rparr>"

definition unstamped :: "run_tables \<Rightarrow> run_tables" where
  "unstamped t = t\<lparr>rt_runs := map unstamped_run (rt_runs t), rt_results := map unstamped_result (rt_results t),
     rt_runtime := map unstamped_runtime (rt_runtime t)\<rparr>"

lemma farm_result_unstamped:
  "unstamped_result (farm_result_of env st run payload runtime x) = unstamped_result (farm_result_of env su run payload runtime x)"
  unfolding unstamped_result_def farm_result_of_def Let_def by (simp only: farm_result.update_convs)

lemma runtime_row_unstamped:
  "unstamped_runtime (runtime_row_of env st run payload runtime k) = unstamped_runtime (runtime_row_of env st2 run payload runtime k)"
  unfolding unstamped_runtime_def runtime_row_of_def Let_def by (simp only: runtime_row.update_convs)

lemma upsert_run_unstamped:
  assumes "rr_id r = rr_id r2" "unstamped_run r2 = unstamped_run r"
  shows "map unstamped_run (upsert_run r2 (upsert_run r rows)) = map unstamped_run (upsert_run r rows)"
proof -
  have there: "list_ex (\<lambda>x. rr_id x = rr_id r2) (upsert_run r rows)"
    using upsert_run_there[of r rows] assms(1) by (auto simp: list_ex_iff)
  have "unstamped_run x = unstamped_run r" if "x \<in> set (upsert_run r rows)" "rr_id x = rr_id r" for x
    using that by (auto simp: upsert_run_def list_ex_iff update_where_def split: if_splits)
  then show ?thesis
    using there assms by (auto simp: upsert_run_def[of r2] update_where_def)
qed

text \<open>C38 An import replaces exactly its own run: every table keeps the rows of all other runs, the run
  has one candidate and one result per imported row, with the same distinct ids, its row counts them,
  and importing the same files again, at whatever later times, changes nothing but the
  time stamps of the run, its results and its runtime row, and with the same time stamps nothing at all.\<close>

theorem import_replaces_own_run:
  assumes "import_run_dir env ts run label payload csv_rows t = Inr (n, t')"
  shows "n = length (imported_rows payload csv_rows) \<and>
    filter (\<lambda>x. rr_id x \<noteq> run) (rt_runs t') = filter (\<lambda>x. rr_id x \<noteq> run) (rt_runs t) \<and>
    filter (\<lambda>x. rc_run x \<noteq> run) (rt_candidates t') = filter (\<lambda>x. rc_run x \<noteq> run) (rt_candidates t) \<and>
    filter (\<lambda>x. fr_run x \<noteq> run) (rt_results t') = filter (\<lambda>x. fr_run x \<noteq> run) (rt_results t) \<and>
    filter (\<lambda>x. ru_run x \<noteq> run) (rt_runtime t') = filter (\<lambda>x. ru_run x \<noteq> run) (rt_runtime t) \<and>
    map rc_id (filter (\<lambda>x. rc_run x = run) (rt_candidates t')) = map (candidate_id_of env) (imported_rows payload csv_rows) \<and>
    map fr_id (filter (\<lambda>x. fr_run x = run) (rt_results t')) = map (candidate_id_of env) (imported_rows payload csv_rows) \<and>
    distinct (map (candidate_id_of env) (imported_rows payload csv_rows)) \<and>
    (\<exists>r \<in> set (rt_runs t'). rr_id r = run \<and> rr_count r = n \<and> rr_promote r + rr_observe r + rr_reject r \<le> n) \<and>
    (\<exists>t2. import_run_dir env ts2 run label payload csv_rows t' = Inr (n, t2) \<and> unstamped t2 = unstamped t' \<and>
       (ts2 = ts \<longrightarrow> t2 = t'))"
proof -
  let ?rows = "imported_rows payload csv_rows"
  obtain runtime where rt: "runtime_of payload = Inr runtime" and distinct: "distinct (map (candidate_id_of env) ?rows)"
    and n: "n = length ?rows" and t': "t' = t\<lparr>rt_runs := upsert_run (run_row_of env (ts_run ts) run label payload ?rows) (rt_runs t),
      rt_candidates := filter (\<lambda>x. rc_run x \<noteq> run) (rt_candidates t) @ map (candidate_of env run) ?rows,
      rt_results := filter (\<lambda>x. fr_run x \<noteq> run) (rt_results t) @ map (farm_result_of env (ts_results ts) run payload runtime) ?rows,
      rt_runtime := filter (\<lambda>x. ru_run x \<noteq> run) (rt_runtime t)
        @ [runtime_row_of env (ts_runtime ts) run payload runtime (length ?rows)]\<rparr>"
    using assms by (auto simp: import_run_dir_def Let_def imported_rows_def[symmetric] split: if_splits sum.splits)
  let ?r = "run_row_of env (ts_run ts) run label payload ?rows"
  have keys: "rc_run (candidate_of env run x) = run" "fr_run (farm_result_of env st run payload runtime x) = run"
    "rc_id (candidate_of env run x) = candidate_id_of env x"
    "fr_id (farm_result_of env st run payload runtime x) = candidate_id_of env x"
    "ru_run (runtime_row_of env st run payload runtime k) = run"
    "rr_id (run_row_of env st run label payload ?rows) = run" "rr_count ?r = length ?rows" for x k st
    by (simp_all add: candidate_of_def farm_result_of_def runtime_row_of_def run_row_of_def Let_def)
  have filters: "filter (\<lambda>x. rc_run x \<noteq> run) (map (candidate_of env run) xs) = []"
    "filter (\<lambda>x. fr_run x \<noteq> run) (map (farm_result_of env st run payload runtime) xs) = []"
    "filter (\<lambda>x. rc_run x = run) (map (candidate_of env run) xs) = map (candidate_of env run) xs"
    "filter (\<lambda>x. fr_run x = run) (map (farm_result_of env st run payload runtime) xs) =
       map (farm_result_of env st run payload runtime) xs" for xs st
    by (induction xs) (simp_all add: keys)
  let ?t2 = "t\<lparr>rt_runs := upsert_run (run_row_of env (ts_run ts2) run label payload ?rows) (upsert_run ?r (rt_runs t)),
      rt_candidates := rt_candidates t',
      rt_results := filter (\<lambda>x. fr_run x \<noteq> run) (rt_results t) @ map (farm_result_of env (ts_results ts2) run payload runtime) ?rows,
      rt_runtime := filter (\<lambda>x. ru_run x \<noteq> run) (rt_runtime t)
        @ [runtime_row_of env (ts_runtime ts2) run payload runtime (length ?rows)]\<rparr>"
  have again: "import_run_dir env ts2 run label payload csv_rows t' = Inr (n, ?t2)"
    using distinct unfolding import_run_dir_def imported_rows_def[symmetric]
    by (simp add: rt n t' filters keys Let_def)
  have "rr_id ?r = rr_id (run_row_of env (ts_run ts2) run label payload ?rows)" by (simp only: keys)
  then have runs: "map unstamped_run (upsert_run (run_row_of env (ts_run ts2) run label payload ?rows) (upsert_run ?r (rt_runs t))) =
      map unstamped_run (upsert_run ?r (rt_runs t))"
    by (intro upsert_run_unstamped) (simp_all add: run_row_of_def unstamped_run_def Let_def)
  have results: "map unstamped_result (map (farm_result_of env (ts_results ts2) run payload runtime) ?rows) =
      map unstamped_result (map (farm_result_of env (ts_results ts) run payload runtime) ?rows)"
    by (simp only: map_map comp_def farm_result_unstamped [where st = "ts_results ts2" and su = "ts_results ts"])
  have runtime: "unstamped_runtime (runtime_row_of env (ts_runtime ts2) run payload runtime (length ?rows)) =
      unstamped_runtime (runtime_row_of env (ts_runtime ts) run payload runtime (length ?rows))"
    by (rule runtime_row_unstamped)
  have same: "unstamped ?t2 = unstamped t'"
    unfolding unstamped_def t' by (simp add: runs results runtime del: map_map)
  have "ts2 = ts \<longrightarrow> ?t2 = t'" by (simp add: t' upsert_run_twice)
  with again same have again: "\<exists>t2. import_run_dir env ts2 run label payload csv_rows t' = Inr (n, t2) \<and>
      unstamped t2 = unstamped t' \<and> (ts2 = ts \<longrightarrow> t2 = t')" by blast
  have counts: "rr_promote ?r + rr_observe ?r + rr_reject ?r \<le> length ?rows"
  proof -
    have "decision_counts rep xs ''PROMOTE_FOR_PRESSURE_TEST'' + decision_counts rep xs ''OBSERVE''
        + decision_counts rep xs ''REJECT'' \<le> length xs" for rep xs
      by (induction xs) (auto simp: decision_counts_def)
    then show ?thesis by (simp add: run_row_of_def Let_def)
  qed
  have "\<exists>r \<in> set (rt_runs t'). rr_id r = run \<and> rr_count r = n \<and> rr_promote r + rr_observe r + rr_reject r \<le> n"
    using upsert_run_there[of ?r "rt_runs t"] counts by (intro bexI[of _ ?r]) (simp_all add: t' n keys)
  then show ?thesis
    using upsert_run_other[of ?r "rt_runs t"] distinct again by (simp add: t' n filters keys)
qed

definition demo_env :: import_env where
  "demo_env = \<lparr>ie_rep = (\<lambda>_. []), ie_parse = (\<lambda>_. None), ie_loads = (\<lambda>_. None), ie_group = (\<lambda>_. None),
     ie_gpu_family = (\<lambda>_. False)\<rparr>"

definition demo_metrics :: json where
  "demo_metrics = JObj [(''results'', JArr [JObj [(''candidate_id'', JStr ''c1''), (''decision'', JStr ''OBSERVE'')],
     JObj [(''candidate_id'', JStr ''c2'')]])]"

definition demo_stamps :: "string \<Rightarrow> import_stamps" where
  "demo_stamps s = \<lparr>ts_run = s, ts_results = s, ts_runtime = s\<rparr>"

lemma demo_import_ok: "\<exists>t'. import_run_dir demo_env ts run label demo_metrics [] demo_tables = Inr (2, t')"
  by (simp add: import_run_dir_def Let_def extract_results_def demo_metrics_def is_obj_def candidate_id_of_def
      str_default_def py_or_def py_text_def runtime_of_def)

theorem import_replaces_own_run_witness:
  "\<exists>t' t2. import_run_dir demo_env (demo_stamps ''t'') ''r_1_x'' ''l'' demo_metrics [] demo_tables = Inr (2, t') \<and>
     import_run_dir demo_env (demo_stamps ''u'') ''r_1_x'' ''l'' demo_metrics [] t' = Inr (2, t2) \<and> unstamped t2 = unstamped t'"
proof -
  obtain t' where t': "import_run_dir demo_env (demo_stamps ''t'') ''r_1_x'' ''l'' demo_metrics [] demo_tables = Inr (2, t')"
    using demo_import_ok by blast
  from import_replaces_own_run[OF this, of "demo_stamps ''u''"] t' show ?thesis by blast
qed

section \<open>Publishing\<close>

lemma base_name_no_slash: "CHR ''/'' \<notin> set (base_name p)"
  by (auto simp: base_name_def dest: set_takeWhileD)

lemma base_name_last: "CHR ''/'' \<notin> set n \<Longrightarrow> base_name (d @ ''/'' @ n) = n"
proof -
  assume "CHR ''/'' \<notin> set n"
  then have "takeWhile (\<lambda>c. c \<noteq> CHR ''/'') (rev n @ CHR ''/'' # rev d) = rev n @ takeWhile (\<lambda>c. c \<noteq> CHR ''/'') (CHR ''/'' # rev d)"
    by (intro takeWhile_append2) auto
  then show ?thesis by (simp add: base_name_def)
qed

text \<open>The final directory of a provisional one.\<close>

definition final_dir :: "string \<Rightarrow> string \<Rightarrow> string" where
  "final_dir base prov = completed_root base @ ''/'' @ base_name prov"

lemma label_dir_final: "label_dir base (final_label prov) = final_dir base prov"
  by (simp add: label_dir_def final_label_def final_dir_def completed_root_def)

text \<open>A publication row written by \<open>publish_completed_job\<close> passes every check of the recovery but the last.\<close>

lemma recovery_error_own:
  assumes "path_under (provisional_root base) prov" and "p_path x = prov" and "p_label x = final_label prov"
  shows "recovery_error base fs x = (if prov \<in> fs \<and> final_dir base prov \<in> fs
    then Some (RuntimeError ''publication has both provisional and final directories'') else None)"
proof -
  have "path_under (completed_root base) (final_dir base prov)" by (simp add: path_under_def final_dir_def)
  moreover have "base_name (final_dir base prov) = base_name prov"
    unfolding final_dir_def by (rule base_name_last) (rule base_name_no_slash)
  moreover have "\<not> prefix ''/'' (final_label prov)" by (simp add: final_label_def)
  ultimately show ?thesis using assms by (simp add: recovery_error_def label_dir_final)
qed

lemma publish_transaction_InrD:
  assumes ok: "queue_ok q" and tr: "publish_transaction env obs ts stamp prov files k h f t now fl q = (Inr n, fl', q')"
  shows "\<exists>row d b. get_job k q = Some row \<and> held_job k h f b row \<and>
    import_run_dir env ts (base_name prov) (final_label prov) (rf_metrics files) (rf_rows files) (run_data q) = Inr (n, d) \<and>
    q' = q\<lparr>run_data := d,
      jobs := update_where (\<lambda>r. r = row) (finished_row stamp True (Some (final_label prov)) []) (jobs q),
      attempts := map (\<lambda>a. if at_job a = k \<and> at_fence a = f then a\<lparr>at_state := At_Completed, at_finished := Some b\<rparr> else a)
        (attempts q),
      publications := publications q @ [\<lparr>p_id = next_publication q, p_job = k, p_fence = f, p_path = prov,
        p_label = final_label prov, p_state = Pending_Rename, p_created = b, p_published = None\<rparr>],
      next_publication := next_publication q + 1\<rparr>"
proof -
  obtain d where imp: "import_run_dir env ts (base_name prov) (final_label prov) (rf_metrics files) (rf_rows files)
      (run_data q) = Inr (n, d)"
    using tr by (auto simp: publish_transaction_def Let_def case_prod_beta split: sum.splits if_splits)
  let ?q0 = "q\<lparr>run_data := d\<rparr>"
  obtain b fla where e: "epoch obs now fl = (b, fla)" by fastforce
  obtain row q1 where row: "assert_job_claim k h f b ?q0 = Inr row"
    and upd: "update_jobs (\<lambda>r. held_job k h f b r \<and> j_seq r = j_seq row)
        (\<lambda>r. r\<lparr>j_status := completed, j_finished := Some stamp, j_run_dir := Some (final_label prov), j_error := None,
              j_owner := None, j_expires := None, j_protocol := fenced_v2, j_seq := j_seq row + 1\<rparr>) ?q0 = Inr (1, q1)"
    and q': "q' = upsert_publication k f prov (final_label prov) b (q1\<lparr>attempts := update_where
        (\<lambda>a. at_job a = k \<and> at_owner a = h \<and> at_fence a = f \<and> open_attempt a)
        (\<lambda>a. a\<lparr>at_state := At_Completed, at_finished := Some b\<rparr>) (attempts q1)\<rparr>)"
    using tr imp e by (auto simp: publish_transaction_def Let_def split: sum.splits if_splits)
  have ok0: "queue_ok ?q0" using ok by simp
  have get: "get_job k ?q0 = Some row" using assert_job_claim_InrD(1)[OF row] .
  have held: "held_job k h f b row"
    using update_jobs_held_hit[OF upd _ get] ok0 by (simp add: queue_ok_def)
  have q1: "q1 = ?q0\<lparr>jobs := update_where (\<lambda>r. r = row) (finished_row stamp True (Some (final_label prov)) []) (jobs q)\<rparr>"
    using finish_swap(1)[OF ok0 get held, where ok = True and stamp = stamp and dir = "Some (final_label prov)" and err = "[]"] upd
    by simp
  have own: "at_owner a = h" if "a \<in> set (attempts q)" "at_job a = k" "at_fence a = f" for a
  proof -
    have "open_attempt a"
      using ledger_held_open[of ?q0 k row h k f a] ok0 get held that by (simp add: queue_ok_def held_job_def)
    then show ?thesis
      using ok0 get that held unfolding queue_ok_def ledger_ok_def attempt_ok_def by (fastforce simp: held_job_def)
  qed
  have att: "update_where (\<lambda>a. at_job a = k \<and> at_owner a = h \<and> at_fence a = f \<and> open_attempt a)
      (\<lambda>a. a\<lparr>at_state := At_Completed, at_finished := Some b\<rparr>) (attempts q) =
    map (\<lambda>a. if at_job a = k \<and> at_fence a = f then a\<lparr>at_state := At_Completed, at_finished := Some b\<rparr> else a) (attempts q)"
    unfolding update_where_def
    using own ledger_held_open[of ?q0 k row h k f] ok0 get held by (auto simp: queue_ok_def held_job_def)
  have none: "\<not> list_ex (\<lambda>x. p_job x = k \<and> p_fence x = f) (publications q)"
    using no_publication_while_running[of ?q0 k row] ok0 get held by (auto simp: queue_ok_def held_job_def list_ex_iff)
  show ?thesis
    using get held imp att none by (intro exI[of _ row] exI[of _ d] exI[of _ b]) (simp add: q' q1 upsert_publication_def)
qed

text \<open>The recovery of one own publication behind others.\<close>

lemma recover_own_publication:
  assumes under: "path_under (provisional_root base) prov" and pubs: "publications q = ps @ [x]"
    and new: "\<forall>p \<in> set ps. p_job p \<noteq> k \<and> p_id p \<noteq> p_id x"
    and x: "p_job x = k" "p_fence x = f" "p_state x = Pending_Rename" "p_path x = prov" "p_label x = final_label prov"
    and e: "epoch (obs (p_id x)) now fl = (t, fl')"
  shows "recover_pending_publications base obs mv (Some k) (Some f) now fl fs q =
    (if prov \<in> fs \<and> final_dir base prov \<in> fs
     then (Inl (RuntimeError ''publication has both provisional and final directories''), fl, fs, q)
     else if prov \<notin> fs \<and> final_dir base prov \<notin> fs then (Inr 0, fl, fs, q)
     else case rename_dir (mv (p_id x)) prov (final_dir base prov) fs of
       Inl err \<Rightarrow> (Inl err, fl, fs, q)
     | Inr fs1 \<Rightarrow> (Inr 1, fl', fs1, q\<lparr>publications := ps @ [mark_directory t x]\<rparr>))"
proof -
  let ?p = "\<lambda>y. p_id y = p_id x \<and> p_state y = Pending_Rename \<and> p_job y = k \<and> p_fence y = f"
  have "filter (pending_publication (Some k) (Some f)) (publications q) = [x]"
    using new x by (auto simp: pubs pending_publication_def filter_empty_conv)
  moreover have "rowcount ?p (publications q) = 1"
    using new x by (auto simp: pubs rowcount_def filter_empty_conv)
  moreover have "update_where ?p g (publications q) = ps @ [g x]" for g
    using new x by (auto simp: pubs update_where_def intro!: map_idI)
  ultimately show ?thesis
    using x e recovery_error_own[OF under x(4,5), of fs]
    by (auto simp: recover_pending_publications_def Let_def label_dir_final rename_dir_def split: option.split)
qed

text \<open>What the rename at the end of a publication, or its recovery, makes of the directories and the row, and what
  the call then returns; \<open>os\<close> is what the operating system raises, if it does.\<close>

definition rename_outcome :: "exn option \<Rightarrow> string \<Rightarrow> string \<Rightarrow> string set \<Rightarrow> string set \<Rightarrow> pub_state \<Rightarrow> bool" where
  "rename_outcome os base prov fs fs' st \<longleftrightarrow>
     (if prov \<in> fs \<and> final_dir base prov \<notin> fs \<and> os = None
      then fs' = insert (final_dir base prov) (fs - {prov}) \<and> st = Directory_Published
      else fs' = fs \<and> st = (if prov \<notin> fs \<and> final_dir base prov \<in> fs then Directory_Published else Pending_Rename))"

definition publish_result :: "exn option \<Rightarrow> string \<Rightarrow> string \<Rightarrow> string set \<Rightarrow> nat \<Rightarrow> exn + string \<times> nat" where
  "publish_result os base prov fs n =
     (if prov \<in> fs \<and> final_dir base prov \<in> fs
      then Inl (RuntimeError ''publication has both provisional and final directories'')
      else case (if prov \<in> fs then os else None) of Some e \<Rightarrow> Inl e | None \<Rightarrow> Inr (final_dir base prov, n))"

text \<open>The half of \<open>publish_completed_job\<close> behind its commit.\<close>

lemma publish_after_commit:
  assumes under: "path_under (provisional_root base) prov" and pubs: "publications q1 = ps @ [x]"
    and new: "\<forall>p \<in> set ps. p_job p \<noteq> k \<and> p_id p \<noteq> p_id x"
    and x: "p_job x = k" "p_fence x = f" "p_state x = Pending_Rename" "p_path x = prov" "p_label x = final_label prov"
    and run: "(res, fl', fs', q') = (case recover_pending_publications base obs mv (Some k) (Some f) now fl fs q1 of
        (Inl e, z) \<Rightarrow> (Inl e, z) | (Inr _, z) \<Rightarrow> (Inr (final_dir base prov, n), z))"
  shows "\<exists>x'. q' = q1\<lparr>publications := ps @ [x']\<rparr> \<and> p_job x' = k \<and> p_fence x' = f \<and> p_path x' = prov \<and>
    p_label x' = final_label prov \<and> p_id x' = p_id x \<and> rename_outcome (mv (p_id x)) base prov fs fs' (p_state x') \<and>
    res = publish_result (mv (p_id x)) base prov fs n"
proof -
  obtain t fl4 where e: "epoch (obs (p_id x)) now fl = (t, fl4)" by fastforce
  note R = recover_own_publication[where obs = obs and mv = mv and x = x and now = now, OF under pubs new x e, of fs]
  have same: "q1 = q1\<lparr>publications := ps @ [x]\<rparr>" using pubs by simp
  show ?thesis
  proof (cases "prov \<in> fs \<longleftrightarrow> final_dir base prov \<in> fs")
    case True
    then have "q' = q1" "fs' = fs" "res = publish_result (mv (p_id x)) base prov fs n"
      using run unfolding R by (auto simp: publish_result_def split: if_split_asm)
    with True same x show ?thesis by (intro exI[of _ x]) (auto simp: rename_outcome_def)
  next
    case False
    show ?thesis
    proof (cases "prov \<in> fs \<and> mv (p_id x) \<noteq> None")
      case True
      then have "q' = q1" "fs' = fs" "res = publish_result (mv (p_id x)) base prov fs n"
        using run False unfolding R by (auto simp: publish_result_def rename_dir_def)
      with True False same x show ?thesis by (intro exI[of _ x]) (auto simp: rename_outcome_def)
    next
      case ok: False
      then have "q' = q1\<lparr>publications := ps @ [mark_directory t x]\<rparr>" "res = publish_result (mv (p_id x)) base prov fs n"
        "fs' = (if prov \<in> fs then insert (final_dir base prov) (fs - {prov}) else fs)"
        using run False unfolding R by (auto simp: publish_result_def rename_dir_def)
      with ok False x show ?thesis
        by (intro exI[of _ "mark_directory t x"]) (auto simp: mark_directory_def rename_outcome_def)
    qed
  qed
qed

text \<open>A later recovery whose rename succeeds finishes a publication that was left behind.\<close>

definition finished_later :: "string \<Rightarrow> string \<Rightarrow> int \<Rightarrow> int \<Rightarrow> int \<Rightarrow> string set \<Rightarrow> queue_db \<Rightarrow> bool" where
  "finished_later base prov k f i fs q \<longleftrightarrow>
     (\<forall>obs mv now fl. mv i = None \<longrightarrow>
        (\<exists>fl2 q2 x2. recover_pending_publications base obs mv (Some k) (Some f) now fl fs q =
             (Inr 1, fl2, insert (final_dir base prov) (fs - {prov}), q2) \<and>
           q2 = q\<lparr>publications := publications q2\<rparr> \<and>
           x2 \<in> set (publications q2) \<and> p_id x2 = i \<and> p_state x2 = Directory_Published))"

lemma publication_finished_later:
  assumes "path_under (provisional_root base) prov" "publications q1 = ps @ [x]"
    "\<forall>p \<in> set ps. p_job p \<noteq> k \<and> p_id p \<noteq> p_id x"
    "p_job x = k" "p_fence x = f" "p_state x = Pending_Rename" "p_path x = prov" "p_label x = final_label prov"
    and fs: "prov \<in> fs" "final_dir base prov \<notin> fs"
  shows "finished_later base prov k f (p_id x) fs q1"
  unfolding finished_later_def
proof (intro allI impI)
  fix obs :: "int \<Rightarrow> time" and mv :: "int \<Rightarrow> exn option" and now fl
  assume mv: "mv (p_id x) = None"
  obtain t fl4 where e: "epoch (obs (p_id x)) now fl = (t, fl4)" by fastforce
  show "\<exists>fl2 q2 x2. recover_pending_publications base obs mv (Some k) (Some f) now fl fs q1 =
      (Inr 1, fl2, insert (final_dir base prov) (fs - {prov}), q2) \<and> q2 = q1\<lparr>publications := publications q2\<rparr> \<and>
      x2 \<in> set (publications q2) \<and> p_id x2 = p_id x \<and> p_state x2 = Directory_Published"
    unfolding recover_own_publication[where obs = obs and mv = mv and x = x and now = now, OF assms(1-8) e, of fs]
    using fs mv by (intro exI[of _ "mark_directory t x"] exI[of _ fl4] exI[of _ "q1\<lparr>publications := ps @ [mark_directory t x]\<rparr>"])
      (simp add: rename_dir_def mark_directory_def)
qed

text \<open>What its commit writes.\<close>

lemma publish_committed:
  assumes ok: "queue_ok q" and tr: "publish_transaction env obs ts stamp prov files k h f t now fl q = (Inr n, fl', q1)"
  shows "\<exists>row b x. get_job k q = Some row \<and> held_job k h f b row \<and>
    import_run_dir env ts (base_name prov) (final_label prov) (rf_metrics files) (rf_rows files) (run_data q)
      = Inr (n, run_data q1) \<and>
    (\<forall>j. get_job j q1 = (if j = k then Some (finished_row stamp True (Some (final_label prov)) [] row) else get_job j q)) \<and>
    (\<forall>a \<in> set (attempts q1). at_job a = k \<and> at_fence a = f \<longrightarrow> at_state a = At_Completed) \<and>
    publications q1 = publications q @ [x] \<and> (\<forall>p \<in> set (publications q). p_job p \<noteq> k \<and> p_id p \<noteq> p_id x) \<and>
    p_job x = k \<and> p_fence x = f \<and> p_state x = Pending_Rename \<and> p_path x = prov \<and> p_label x = final_label prov"
proof -
  obtain row d b where get: "get_job k q = Some row" and held: "held_job k h f b row"
    and imp: "import_run_dir env ts (base_name prov) (final_label prov) (rf_metrics files) (rf_rows files) (run_data q) = Inr (n, d)"
    and q1: "q1 = q\<lparr>run_data := d,
      jobs := update_where (\<lambda>r. r = row) (finished_row stamp True (Some (final_label prov)) []) (jobs q),
      attempts := map (\<lambda>a. if at_job a = k \<and> at_fence a = f then a\<lparr>at_state := At_Completed, at_finished := Some b\<rparr> else a)
        (attempts q),
      publications := publications q @ [\<lparr>p_id = next_publication q, p_job = k, p_fence = f, p_path = prov,
        p_label = final_label prov, p_state = Pending_Rename, p_created = b, p_published = None\<rparr>],
      next_publication := next_publication q + 1\<rparr>"
    using publish_transaction_InrD[OF ok tr] by (elim exE conjE) (rule that)
  let ?x = "\<lparr>p_id = next_publication q, p_job = k, p_fence = f, p_path = prov, p_label = final_label prov,
    p_state = Pending_Rename, p_created = b, p_published = None\<rparr>"
  have J: "\<forall>j. get_job j q1 = (if j = k then Some (finished_row stamp True (Some (final_label prov)) [] row) else get_job j q)"
    using finish_swap(2)[OF ok get held, where ok = True and stamp = stamp and dir = "Some (final_label prov)" and err = "[]"]
    by (simp add: q1 get_job_def)
  have N: "\<forall>p \<in> set (publications q). p_job p \<noteq> k \<and> p_id p \<noteq> p_id ?x"
  proof
    fix p assume p: "p \<in> set (publications q)"
    have pok: "publications_ok q" and run: "j_status row = running" using ok held by (simp_all add: queue_ok_def held_job_def)
    show "p_job p \<noteq> k \<and> p_id p \<noteq> p_id ?x"
      using no_publication_while_running[OF pok get run p] pok p by (force simp: publications_ok_def)
  qed
  have A: "\<forall>a \<in> set (attempts q1). at_job a = k \<and> at_fence a = f \<longrightarrow> at_state a = At_Completed"
    unfolding q1 by (simp add: ball_Un) blast
  have I: "import_run_dir env ts (base_name prov) (final_label prov) (rf_metrics files) (rf_rows files) (run_data q)
      = Inr (n, run_data q1)" using imp by (simp add: q1)
  have P: "publications q1 = publications q @ [?x]" by (simp add: q1)
  show ?thesis
    by (intro exI conjI, rule get, rule held, rule I, rule J, rule A, rule P, rule N) simp_all
qed

text \<open>C3 What a publication does to the database is all or nothing: either it raises with the database and the directories
  exactly as they were, or its holder's unexpired lease ended in one commit that imported the run, completed
  the job under its final label, closed its attempt and recorded the publication, and no other job changed.
  Behind that commit the directory moves: the call can still raise, with what the operating system reports or because
  both directories exist, and then the publication stays committed, its row pending and the directories as they were;
  when only the move failed, any later recovery of it whose move succeeds finishes it.\<close>

theorem publish_all_or_nothing:
  assumes "queue_ok q"
    and "publish_completed_job env it o1 o2 o3 o4 mv ts stamp base prov files k h f now fl fs q = (res, fl', fs', q')"
  shows "(fs' = fs \<and> q' = q \<and> (\<exists>e. res = Inl e)) \<or>
    (\<exists>row b n x. get_job k q = Some row \<and> held_job k h f b row \<and>
       import_run_dir env ts (base_name prov) (final_label prov) (rf_metrics files) (rf_rows files) (run_data q)
         = Inr (n, run_data q') \<and>
       (\<forall>j. get_job j q' = (if j = k then Some (finished_row stamp True (Some (final_label prov)) [] row) else get_job j q)) \<and>
       (\<forall>a \<in> set (attempts q'). at_job a = k \<and> at_fence a = f \<longrightarrow> at_state a = At_Completed) \<and>
       publications q' = publications q @ [x] \<and> p_job x = k \<and> p_fence x = f \<and> p_path x = prov \<and> p_label x = final_label prov \<and>
       rename_outcome (mv (p_id x)) base prov fs fs' (p_state x) \<and> res = publish_result (mv (p_id x)) base prov fs n \<and>
       (prov \<in> fs \<and> final_dir base prov \<notin> fs \<and> mv (p_id x) \<noteq> None \<longrightarrow> finished_later base prov k f (p_id x) fs' q'))"
proof -
  obtain t1 fl1 where e1: "epoch o1 now fl = (t1, fl1)" by fastforce
  obtain t fl2 where e2: "epoch o2 (Some t1) fl1 = (t, fl2)" by fastforce
  obtain y fl3 q1 where tr: "publish_transaction env o3 ts stamp prov files k h f t now fl2 q = (y, fl3, q1)"
    by (cases "publish_transaction env o3 ts stamp prov files k h f t now fl2 q") auto
  show ?thesis
  proof (cases "path_under (provisional_root base) prov \<and> generation_error (ie_rep env) it (rf_generation files) k h f = None
      \<and> (\<exists>n. y = Inr n)")
    case False
    then have "fs' = fs \<and> q' = q \<and> (\<exists>e. res = Inl e)"
      using assms(2) by (auto simp: publish_completed_job_def e1 e2 tr split: if_splits option.splits sum.splits)
    then show ?thesis by simp
  next
    case True
    then obtain n where under: "path_under (provisional_root base) prov"
      and gen: "generation_error (ie_rep env) it (rf_generation files) k h f = None" and y: "y = Inr n" by blast
    obtain row b x where C: "get_job k q = Some row" "held_job k h f b row"
        "import_run_dir env ts (base_name prov) (final_label prov) (rf_metrics files) (rf_rows files) (run_data q) = Inr (n, run_data q1)"
        "\<forall>j. get_job j q1 = (if j = k then Some (finished_row stamp True (Some (final_label prov)) [] row) else get_job j q)"
        "\<forall>a \<in> set (attempts q1). at_job a = k \<and> at_fence a = f \<longrightarrow> at_state a = At_Completed"
      and X: "publications q1 = publications q @ [x]" "\<forall>p \<in> set (publications q). p_job p \<noteq> k \<and> p_id p \<noteq> p_id x"
        "p_job x = k" "p_fence x = f" "p_state x = Pending_Rename" "p_path x = prov" "p_label x = final_label prov"
      using publish_committed[OF assms(1) tr[unfolded y]] by blast
    have "(res, fl', fs', q') = (case recover_pending_publications base o4 mv (Some k) (Some f) now fl3 fs q1 of
        (Inl e, z) \<Rightarrow> (Inl e, z) | (Inr _, z) \<Rightarrow> (Inr (final_dir base prov, n), z))"
      using assms(2) under gen
      by (simp add: publish_completed_job_def e1 e2 tr y final_dir_def split: prod.splits sum.splits)
    from publish_after_commit[OF under X this] obtain x' where q': "q' = q1\<lparr>publications := publications q @ [x']\<rparr>"
      and X': "p_job x' = k" "p_fence x' = f" "p_path x' = prov" "p_label x' = final_label prov"
        "p_id x' = p_id x" "rename_outcome (mv (p_id x)) base prov fs fs' (p_state x')"
        "res = publish_result (mv (p_id x)) base prov fs n" by blast
    have later: "finished_later base prov k f (p_id x) fs' q'"
      if left: "prov \<in> fs" "final_dir base prov \<notin> fs" "mv (p_id x) \<noteq> None"
      by (rule publication_finished_later[OF under, where x = x' and ps = "publications q", unfolded X'(5)])
        (use left X' X(2) in \<open>simp_all add: q' rename_outcome_def\<close>)
    show ?thesis
      using later by (intro disjI2 exI[of _ row] exI[of _ b] exI[of _ n] exI[of _ x']) (simp add: C X' q')
  qed
qed

definition demo_files :: run_files where
  "demo_files = \<lparr>rf_metrics = demo_metrics, rf_rows = [], rf_generation = Some (JObj
     [(''schema'', JStr ''strategy_lab_publication_generation.v1''), (''job_id'', JInt 2), (''owner_id'', JStr ''w1''),
      (''fencing_token'', JInt 1)])\<rparr>"

abbreviation demo_publish ::
  "string set \<Rightarrow> (exn + string \<times> nat) \<times> floor_opt \<times> string set \<times> queue_db" where
  "demo_publish fs \<equiv> publish_completed_job demo_env (\<lambda>_. None) 110 110 110 (\<lambda>_. 110) (\<lambda>_. None) (demo_stamps ''t3'') ''t3'' ''/p''
     ''/p/experiments/provisional/r_1_x'' demo_files 2 ''w1'' 1 None None fs running_demo"

lemmas publish_simps = publish_completed_job_def publish_transaction_def demo_files_def generation_error_def
  int_of_json_def is_obj_def path_under_def provisional_root_def completed_root_def base_name_def final_label_def
  label_dir_def str_of_json_def running_demo_eq empty_queue_def assert_job_claim_def held_job_def open_attempt_def
  upsert_publication_def recover_pending_publications_def pending_publication_def recovery_error_def
  rename_dir_def mark_directory_def queue_simps

theorem publish_all_or_nothing_witness:
  "\<exists>q' x. demo_publish {''/p/experiments/provisional/r_1_x''} =
     (Inr (''/p/experiments/completed/r_1_x'', 2), None, {''/p/experiments/completed/r_1_x''}, q') \<and>
     publications q' = publications running_demo @ [x] \<and> p_state x = Directory_Published"
proof -
  let ?fs = "{''/p/experiments/provisional/r_1_x''}"
  have fin: "final_dir ''/p'' ''/p/experiments/provisional/r_1_x'' = ''/p/experiments/completed/r_1_x''"
    by (simp add: final_dir_def completed_root_def base_name_def)
  obtain d where d: "import_run_dir demo_env (demo_stamps ''t3'') ''r_1_x'' ''experiments/completed/r_1_x'' demo_metrics [] demo_tables = Inr (2, d)"
    using demo_import_ok by blast
  obtain n' q' where run: "demo_publish ?fs = (Inr (''/p/experiments/completed/r_1_x'', 2), None, n', q')"
    using d
    by (simp add: publish_simps)
  show ?thesis
    using publish_all_or_nothing[OF running_demo_ok run] run by (auto simp: fin rename_outcome_def publish_result_def)
qed

section \<open>Recovery\<close>

text \<open>A row the recovery can do nothing for: it passes the checks, but neither directory is there.\<close>

definition missing_run :: "string \<Rightarrow> string set \<Rightarrow> publication \<Rightarrow> bool" where
  "missing_run base fs x \<longleftrightarrow> recovery_error base fs x = None \<and> p_path x \<notin> fs \<and> label_dir base (p_label x) \<notin> fs"

lemma recover_missing:
  "\<forall>x \<in> set rows. missing_run base fs x \<Longrightarrow> recover_rows base obs mv now rows n fl fs q = (Inr n, fl, fs, q)"
  by (induction rows) (auto simp: missing_run_def rename_dir_def)

text \<open>The directories a recovery adds are final directories of rows whose checks passed.\<close>

lemma recover_rows_dirs:
  assumes "recover_rows base obs mv now rows n fl fs q = (res, fl', fs', q')"
  shows "fs' \<subseteq> fs \<union> {label_dir base (p_label x) | x. x \<in> set rows \<and> path_under (completed_root base) (label_dir base (p_label x))}"
  using assms
proof (induction rows arbitrary: n fl fs q)
  case (Cons row rows)
  show ?case
  proof (cases "recovery_error base fs row")
    case (Some e)
    then show ?thesis using Cons.prems by simp
  next
    case None
    then have "path_under (completed_root base) (label_dir base (p_label row))"
      by (simp add: recovery_error_def split: if_splits)
    moreover have "fs1 \<subseteq> insert d fs" if "rename_dir os p d fs = Inr fs1" for os p d fs1
      using that by (auto simp: rename_dir_def split: if_splits option.splits)
    ultimately show ?thesis
      using Cons.prems None by (fastforce simp: Let_def case_prod_beta split: if_split_asm sum.splits dest!: Cons.IH)
  qed
qed simp

lemma provisional_not_completed:
  "path_under (provisional_root base) p \<Longrightarrow> \<not> path_under (completed_root base) p"
  by (auto simp: path_under_def provisional_root_def completed_root_def prefix_def)

text \<open>It never removes a final directory, nor brings a provisional one back.\<close>

lemma recover_rows_dirs_keep:
  assumes "recover_rows base obs mv now rows n fl fs q = (res, fl', fs', q')"
  shows "(path_under (completed_root base) d \<longrightarrow> d \<in> fs \<longrightarrow> d \<in> fs') \<and>
    (path_under (provisional_root base) d \<longrightarrow> d \<notin> fs \<longrightarrow> d \<notin> fs')"
  using assms
proof (induction rows arbitrary: n fl fs q)
  case (Cons row rows)
  show ?case
  proof (cases "recovery_error base fs row")
    case (Some e)
    then show ?thesis using Cons.prems by simp
  next
    case None
    then have checks: "path_under (provisional_root base) (p_path row)" "path_under (completed_root base) (label_dir base (p_label row))"
      by (simp_all add: recovery_error_def split: if_splits)
    show ?thesis
    proof (cases "rename_dir (mv (p_id row)) (p_path row) (label_dir base (p_label row)) fs")
      case (Inl e)
      then show ?thesis using Cons.prems None by (simp add: Let_def)
    next
      case (Inr fs1)
      then have "(path_under (completed_root base) d \<longrightarrow> d \<in> fs \<longrightarrow> d \<in> fs1) \<and>
          (path_under (provisional_root base) d \<longrightarrow> d \<notin> fs \<longrightarrow> d \<notin> fs1)"
        using checks provisional_not_completed by (auto simp: rename_dir_def split: if_splits option.splits)
      then show ?thesis
        using Cons.prems None Inr by (auto simp: Let_def case_prod_beta split: if_split_asm dest!: Cons.IH)
    qed
  qed
qed simp

lemma label_dir_inject [simp]: "label_dir base l = label_dir base l' \<longleftrightarrow> l = l'"
  by (simp add: label_dir_def)

text \<open>Directories added later for other labels leave a missing run missing.\<close>

lemma missing_run_later:
  assumes "missing_run base fs x"
    and "fs' \<subseteq> fs \<union> {label_dir base (p_label y) | y. y \<in> ys \<and> path_under (completed_root base) (label_dir base (p_label y))}"
    and "\<forall>y \<in> ys. p_label y \<noteq> p_label x"
  shows "missing_run base fs' x"
proof -
  have "path_under (provisional_root base) (p_path x)"
    using assms(1) by (simp add: missing_run_def recovery_error_def split: if_splits)
  then have "p_path x \<notin> fs'"
    using provisional_not_completed assms(1,2) by (fastforce simp: missing_run_def)
  moreover have "label_dir base (p_label x) \<notin> fs'"
    using assms by (fastforce simp: missing_run_def)
  ultimately show ?thesis using assms(1) by (simp add: missing_run_def recovery_error_def split: if_splits)
qed

lemma recover_rows_frame:
  assumes "recover_rows base obs mv now rows n fl fs q = (res, fl', fs', q')"
  shows "q' = q\<lparr>publications := publications q'\<rparr>"
  using assms
proof (induction rows arbitrary: n fl fs q)
  case (Cons row rows)
  have "q' = q\<lparr>publications := ps\<rparr>\<lparr>publications := publications q'\<rparr> \<Longrightarrow> q' = q\<lparr>publications := publications q'\<rparr>" for ps
    by simp
  then show ?case
    using Cons.prems by (auto simp: Let_def case_prod_beta split: option.splits sum.splits if_split_asm dest!: Cons.IH)
qed simp

lemma mark_row_publications:
  assumes "distinct (map p_id ps)" and "x \<in> set ps" and "p_id x \<noteq> p_id row \<or> p_state x \<noteq> Pending_Rename"
  shows "x \<in> set (update_where (\<lambda>y. p_id y = p_id row \<and> p_state y = Pending_Rename \<and> p_job y = p_job row \<and> p_fence y = p_fence row)
    (mark_directory t) ps)"
  using assms by (auto simp: set_update_where)

lemma map_id_marked: "map p_id (update_where p (mark_directory t) ps) = map p_id ps"
  by (rule map_key_update_where) (simp add: mark_directory_def)

lemma recover_rows_leaves:
  assumes "recover_rows base obs mv now rows n fl fs q = (Inr m, fl', fs', q')"
    and "distinct (map p_label rows)" and "distinct (map p_id (publications q))"
    and "set rows \<subseteq> set (publications q)" and "\<forall>x \<in> set rows. p_state x = Pending_Rename"
  shows "(\<forall>x \<in> set rows. if x \<in> set (publications q') then missing_run base fs' x
      else label_dir base (p_label x) \<in> fs' \<and> p_path x \<notin> fs' \<and> (\<exists>t. mark_directory t x \<in> set (publications q'))) \<and>
    m = n + length (filter (\<lambda>x. label_dir base (p_label x) \<in> fs') rows) \<and>
    (\<forall>y \<in> set (publications q'). p_state y = Pending_Rename \<longrightarrow> y \<in> set (publications q)) \<and>
    (\<forall>y \<in> set (publications q). p_state y \<noteq> Pending_Rename \<or> p_id y \<notin> p_id ` set rows \<longrightarrow> y \<in> set (publications q'))"
  using assms
proof (induction rows arbitrary: n fl fs q)
  case (Cons row rows)
  let ?fin = "label_dir base (p_label row)"
  let ?p = "\<lambda>x. p_id x = p_id row \<and> p_state x = Pending_Rename \<and> p_job x = p_job row \<and> p_fence x = p_fence row"
  have err: "recovery_error base fs row = None" using Cons.prems(1) by (auto split: option.splits)
  obtain fs1 where mvd: "rename_dir (mv (p_id row)) (p_path row) ?fin fs = Inr fs1"
    using Cons.prems(1) err by (cases "rename_dir (mv (p_id row)) (p_path row) ?fin fs") (simp_all add: Let_def)
  have labels: "\<forall>y \<in> set rows. p_label y \<noteq> p_label row" using Cons.prems(2) by (simp add: image_iff) metis
  show ?case
  proof (cases "?fin \<in> fs1")
    case False
    then have rest: "recover_rows base obs mv now rows n fl fs1 q = (Inr m, fl', fs', q')"
      using Cons.prems(1) err mvd by (simp add: Let_def)
    have "missing_run base fs1 row"
      using False err mvd by (auto simp: missing_run_def rename_dir_def split: if_splits option.splits)
    then have "missing_run base fs' row"
      using missing_run_later recover_rows_dirs[OF rest] labels by blast
    moreover have "row \<in> set (publications q')" if "row \<in> set (publications q)" "p_id row \<notin> p_id ` set rows"
      using Cons.IH[OF rest] Cons.prems(2-5) that by auto
    moreover have "p_id row \<notin> p_id ` set rows"
    proof
      assume "p_id row \<in> p_id ` set rows"
      then obtain y where y: "y \<in> set rows" "p_id row = p_id y" by (rule imageE)
      then have "row = y" using distinct_key_eq[OF Cons.prems(3), of row y] Cons.prems(4) by auto
      with y(1) labels show False by blast
    qed
    ultimately show ?thesis using Cons.IH[OF rest] Cons.prems(2-5) by (auto simp: missing_run_def)
  next
    case True
    obtain t fl1 where e: "epoch (obs (p_id row)) now fl = (t, fl1)" by fastforce
    let ?q1 = "q\<lparr>publications := update_where ?p (mark_directory t) (publications q)\<rparr>"
    have mem: "row \<in> set (publications q)" "p_state row = Pending_Rename" using Cons.prems(4,5) by simp_all
    have row: "find (\<lambda>x. p_id x = p_id row) (publications q) = Some row"
      using find_distinct_key[OF Cons.prems(3) mem(1)] .
    note S = update_where_single[where key = p_id and p = ?p, OF Cons.prems(3) row]
    have one: "rowcount ?p (publications q) = 1" using S(1) mem(2) by simp
    have rest: "recover_rows base obs mv now rows (Suc n) fl1 fs1 ?q1 = (Inr m, fl', fs', q')"
      using Cons.prems(1) err mvd True e one by (simp add: Let_def)
    have other: "p_id x \<noteq> p_id row" if "x \<in> set rows" for x
    proof -
      have "x \<noteq> row" using labels that by auto
      then show ?thesis
        using distinct_key_eq[OF Cons.prems(3), of x row] Cons.prems(4) that mem(1) by auto
    qed
    have gone: "y \<noteq> row \<and> y \<in> set (publications q)" if "y \<in> set (publications ?q1)" "p_state y = Pending_Rename" for y
    proof -
      have "y \<in> set (update_where ?p (mark_directory t) (publications q))" using that(1) by simp
      then show ?thesis
      proof (cases rule: update_whereE)
        case (1 z)
        then show ?thesis using that(2) by (simp add: mark_directory_def)
      next
        case 2
        then show ?thesis using mem(2) by blast
      qed
    qed
    have sub: "set rows \<subseteq> set (publications ?q1)"
    proof
      fix x assume x: "x \<in> set rows"
      then have "x \<in> set (publications q)" using Cons.prems(4) by auto
      with other[OF x] show "x \<in> set (publications ?q1)"
        using mark_row_publications[OF Cons.prems(3), of x row t] by simp
    qed
    have "distinct (map p_id (publications ?q1))" using Cons.prems(3) by (simp add: map_id_marked)
    with Cons.IH[OF rest _ _ sub] Cons.prems(2,5)
    have IH: "\<forall>x \<in> set rows. if x \<in> set (publications q') then missing_run base fs' x
        else label_dir base (p_label x) \<in> fs' \<and> p_path x \<notin> fs' \<and> (\<exists>t. mark_directory t x \<in> set (publications q'))"
      "m = Suc n + length (filter (\<lambda>x. label_dir base (p_label x) \<in> fs') rows)"
      "\<And>y. y \<in> set (publications q') \<Longrightarrow> p_state y = Pending_Rename \<Longrightarrow> y \<in> set (publications ?q1)"
      "\<And>y. y \<in> set (publications ?q1) \<Longrightarrow> p_state y \<noteq> Pending_Rename \<or> p_id y \<notin> p_id ` set rows \<Longrightarrow> y \<in> set (publications q')"
      by simp_all
    have left: "row \<notin> set (publications q')" using IH(3) gone mem(2) by blast
    have checks: "path_under (provisional_root base) (p_path row)" "path_under (completed_root base) ?fin"
      using err by (simp_all add: recovery_error_def split: if_splits)
    have "p_path row \<noteq> ?fin" using checks provisional_not_completed by metis
    then have "p_path row \<notin> fs1" using mvd by (auto simp: rename_dir_def split: if_splits option.splits)
    then have dirs: "?fin \<in> fs'" "p_path row \<notin> fs'" using recover_rows_dirs_keep[OF rest] checks True by blast+
    have "mark_directory t row \<in> set (publications ?q1)"
      using mem by (auto simp: set_update_where)
    then have marked: "mark_directory t row \<in> set (publications q')" by (rule IH(4)) (simp add: mark_directory_def)
    have kept: "y \<in> set (publications q')"
      if "y \<in> set (publications q)" "p_state y \<noteq> Pending_Rename \<or> p_id y \<notin> p_id ` set (row # rows)" for y
      using IH(4)[of y] mark_row_publications[OF Cons.prems(3) that(1), of row t] that(2) by auto
    have counted: "m = n + length (filter (\<lambda>x. label_dir base (p_label x) \<in> fs') (row # rows))"
      using IH(2) dirs(1) by simp
    have pending: "\<forall>y \<in> set (publications q'). p_state y = Pending_Rename \<longrightarrow> y \<in> set (publications q)"
      using IH(3) gone by blast
    have "if x \<in> set (publications q') then missing_run base fs' x
        else label_dir base (p_label x) \<in> fs' \<and> p_path x \<notin> fs' \<and> (\<exists>t. mark_directory t x \<in> set (publications q'))"
      if "x \<in> set (row # rows)" for x
      using that IH(1) left dirs marked by auto
    with counted pending kept show ?thesis by blast
  qed
qed simp

text \<open>C39 Recovering interrupted publications finishes what it can and only that. For selected rows with different labels,
  a recovery that raises nothing either marks a selected row published, and then its final directory is there and its
  provisional one is gone, or leaves the row as it was, and then its checks pass and neither directory exists; it
  reports exactly the rows it finished, every other publication row and every other table stays as it was, new
  directories are final directories of selected rows, and running it again at once, by anyone, changes nothing
  and reports none.\<close>

theorem recovery_finishes_once:
  assumes "queue_ok q" and "distinct (map p_label (filter (pending_publication jid fence) (publications q)))"
    and "recover_pending_publications base obs mv jid fence now fl fs q = (Inr m, fl', fs', q')"
  shows "q' = q\<lparr>publications := publications q'\<rparr> \<and>
    (\<forall>x \<in> set (publications q). pending_publication jid fence x \<longrightarrow>
       (if label_dir base (p_label x) \<in> fs'
        then p_path x \<notin> fs' \<and> x \<notin> set (publications q') \<and> (\<exists>t. mark_directory t x \<in> set (publications q'))
        else missing_run base fs' x \<and> x \<in> set (publications q'))) \<and>
    (\<forall>x \<in> set (publications q'). pending_publication jid fence x \<longrightarrow> x \<in> set (publications q)) \<and>
    m = length (filter (\<lambda>x. pending_publication jid fence x \<and> label_dir base (p_label x) \<in> fs') (publications q)) \<and>
    (\<forall>x \<in> set (publications q). \<not> pending_publication jid fence x \<longrightarrow> x \<in> set (publications q')) \<and>
    fs' \<subseteq> fs \<union> {label_dir base (p_label x) | x. x \<in> set (publications q) \<and> pending_publication jid fence x} \<and>
    recover_pending_publications base obs2 mv2 jid fence now2 fl2 fs' q' = (Inr 0, fl2, fs', q')"
proof -
  let ?sel = "filter (pending_publication jid fence) (publications q)"
  let ?rows = "sort_key p_id ?sel"
  have run: "recover_rows base obs mv now ?rows 0 fl fs q = (Inr m, fl', fs', q')"
    using assms(3) by (simp add: recover_pending_publications_def)
  have ids: "distinct (map p_id (publications q))" using assms(1) by (simp add: queue_ok_def publications_ok_def)
  have labels: "distinct (map p_label ?rows)" using assms(2) by (simp add: distinct_map)
  have sub: "set ?rows \<subseteq> set (publications q)" by auto
  have pend: "\<forall>x \<in> set ?rows. p_state x = Pending_Rename" by (simp add: pending_publication_def)
  have L: "\<forall>x \<in> set ?rows. if x \<in> set (publications q') then missing_run base fs' x
        else label_dir base (p_label x) \<in> fs' \<and> p_path x \<notin> fs' \<and> (\<exists>t. mark_directory t x \<in> set (publications q'))"
      "m = length (filter (\<lambda>x. label_dir base (p_label x) \<in> fs') ?rows)"
      "\<forall>y \<in> set (publications q'). p_state y = Pending_Rename \<longrightarrow> y \<in> set (publications q)"
      "\<forall>y \<in> set (publications q). p_state y \<noteq> Pending_Rename \<or> p_id y \<notin> p_id ` set ?rows \<longrightarrow> y \<in> set (publications q')"
    using recover_rows_leaves[OF run labels ids sub pend] by (simp_all only: add_0) (blast+)
  have prior: "\<forall>x \<in> set (publications q'). pending_publication jid fence x \<longrightarrow> x \<in> set (publications q)"
    using L(3) by (simp add: pending_publication_def)
  have left: "\<forall>x \<in> set (publications q'). pending_publication jid fence x \<longrightarrow> missing_run base fs' x"
    using L(1) prior by (auto split: if_splits)
  have each: "\<forall>x \<in> set (publications q). pending_publication jid fence x \<longrightarrow>
       (if label_dir base (p_label x) \<in> fs'
        then p_path x \<notin> fs' \<and> x \<notin> set (publications q') \<and> (\<exists>t. mark_directory t x \<in> set (publications q'))
        else missing_run base fs' x \<and> x \<in> set (publications q'))"
    using L(1) by (auto simp: missing_run_def split: if_splits)
  have "m = length (filter (\<lambda>x. label_dir base (p_label x) \<in> fs') ?sel)"
    unfolding L(2) by (simp only: filter_sort length_sort)
  then have count: "m = length (filter (\<lambda>x. pending_publication jid fence x \<and> label_dir base (p_label x) \<in> fs') (publications q))"
    by (simp add: conj_commute)
  have "p_id x \<notin> p_id ` set ?rows" if "x \<in> set (publications q)" "\<not> pending_publication jid fence x" for x
  proof
    assume "p_id x \<in> p_id ` set ?rows"
    then obtain y where y: "p_id x = p_id y" "y \<in> set ?rows" by (rule imageE)
    from y(2) have y': "y \<in> set (publications q)" "pending_publication jid fence y" by simp_all
    from distinct_key_eq[OF ids that(1) y'(1) y(1)] y'(2) that(2) show False by simp
  qed
  then have kept: "\<forall>x \<in> set (publications q). \<not> pending_publication jid fence x \<longrightarrow> x \<in> set (publications q')"
    using L(4) by blast
  have repeat: "recover_pending_publications base obs2 mv2 jid fence now2 fl2 fs' q' = (Inr 0, fl2, fs', q')"
    unfolding recover_pending_publications_def using left by (intro recover_missing) simp
  have dirs: "fs' \<subseteq> fs \<union> {label_dir base (p_label x) | x. x \<in> set (publications q) \<and> pending_publication jid fence x}"
    using recover_rows_dirs[OF run] by auto
  show ?thesis
    by (intro conjI recover_rows_frame[OF run] each prior count kept dirs repeat)
qed

definition pending_demo :: queue_db where
  "pending_demo = snd (snd (snd (demo_publish {})))"

lemma pending_demo_ok: "queue_ok pending_demo"
  using publish_completed_job_sound[OF running_demo_ok] running_demo_ok by (simp add: pending_demo_def sound_queue_def)

lemma pending_demo_publications:
  "publications pending_demo = [\<lparr>p_id = 1, p_job = 2, p_fence = 1, p_path = ''/p/experiments/provisional/r_1_x'',
     p_label = ''experiments/completed/r_1_x'', p_state = Pending_Rename, p_created = 110, p_published = None\<rparr>]"
proof -
  obtain d where d: "import_run_dir demo_env (demo_stamps ''t3'') ''r_1_x'' ''experiments/completed/r_1_x'' demo_metrics [] demo_tables = Inr (2, d)"
    using demo_import_ok by blast
  then show ?thesis by (simp add: pending_demo_def publish_simps)
qed

theorem recovery_finishes_once_witness:
  "\<exists>m q' fs'. recover_pending_publications ''/p'' (\<lambda>_. 120) (\<lambda>_. None) None None None None
       {''/p/experiments/provisional/r_1_x''} pending_demo = (Inr m, None, fs', q') \<and>
     recover_pending_publications ''/p'' (\<lambda>_. 130) (\<lambda>_. None) None None None None fs' q' = (Inr 0, None, fs', q')"
proof -
  obtain m q' fs' where run: "recover_pending_publications ''/p'' (\<lambda>_. 120) (\<lambda>_. None) None None None None
       {''/p/experiments/provisional/r_1_x''} pending_demo = (Inr m, None, fs', q')"
    by (simp add: pending_demo_publications publish_simps)
  have "distinct (map p_label (filter (pending_publication None None) (publications pending_demo)))"
    by (simp add: pending_demo_publications pending_publication_def)
  from recovery_finishes_once[OF pending_demo_ok this run, of "\<lambda>_. 130" "\<lambda>_. None" None None] run show ?thesis by blast
qed

end
