(* ===== verification/Enqueue_Claims.thy ===== *)
theory Enqueue_Claims
  imports Publication_Claims
begin

text \<open>Content-bound enqueueing of \<^verbatim>\<open>research_db/state_db.py\<close>: what the answer of
  \<^verbatim>\<open>ensure_experiment_queued\<close> says about the queue, and that the same request again is answered
  the same way and changes nothing.\<close>

section \<open>Enqueueing by content\<close>

lemma unbound_id_is_free:
  assumes "bindings_ok q" and "bound_job m q = None"
  shows "\<not> list_ex (\<lambda>x. qm_id x = m) (bindings q)"
proof (cases "find (\<lambda>x. qm_id x = m) (bindings q)")
  case None
  then show ?thesis by (auto simp: find_None_iff list_ex_iff)
next
  case (Some b)
  then have "binding_ok q b" using assms(1) find_SomeD[OF Some] by (simp add: bindings_ok_def)
  then show ?thesis using assms(2) Some by (auto simp: bound_job_def binding_ok_def)
qed

lemma bound_after_insert:
  assumes "\<not> list_ex (\<lambda>x. qm_id x = qm_id b) (bindings q)" and "get_job (qm_job b) q = Some r"
  shows "bound_job (qm_id b) (q\<lparr>bindings := bindings q @ [b]\<rparr>) = Some (b, r)"
proof -
  have "find (\<lambda>x. qm_id x = qm_id b) (bindings q) = None"
    using assms(1) by (simp add: find_None_iff list_ex_iff)
  then show ?thesis using assms(2) by (simp add: bound_job_def find_append)
qed

text \<open>What a job must look like to answer a request for this content.\<close>

definition answers :: "string \<Rightarrow> string option \<Rightarrow> string \<Rightarrow> int \<Rightarrow> queue_db \<Rightarrow> bool" where
  "answers spec mid incoming jid q \<longleftrightarrow>
     (case mid of
        None \<Rightarrow> (\<exists>r. reusable_job spec None incoming q = Inr (Some r) \<and> j_id r = jid)
      | Some m \<Rightarrow> (\<exists>b r. bound_job m q = Some (b, r) \<and> qm_job b = jid \<and> binding_agrees spec incoming (b, r)))"

lemma answers_again:
  assumes "answers spec mid (str_or d) jid q" and "content_error dg spec mid (str_or d) = None"
  shows "ensure_experiment_queued dg stamp spec prio mid d q = (Inr (jid, False), q)"
  using assms by (cases mid) (auto simp: answers_def ensure_experiment_queued_def Let_def)

lemma ensure_Inr_answers:
  assumes ok: "queue_ok q" and mid: "mid \<noteq> Some []"
    and run: "ensure_experiment_queued dg stamp spec prio mid d q = (Inr (jid, created), q')"
  shows "content_error dg spec mid (str_or d) = None \<and> answers spec mid (str_or d) jid q' \<and>
    (if created then get_job jid q = None \<and> (\<exists>r. get_job jid q' = Some r \<and> j_status r = queued) else jobs q' = jobs q)"
proof (cases "case mid of None \<Rightarrow> None | Some m \<Rightarrow> bound_job m q")
  case (Some mr)
  then show ?thesis
    using run by (cases mr) (auto simp: ensure_experiment_queued_def answers_def Let_def split: option.splits if_splits)
next
  case unbound: None
  have jok: "jobs_ok q" and bok: "bindings_ok q" using ok by (simp_all add: queue_ok_def)
  have free: "\<not> list_ex (\<lambda>x. qm_id x = m) (bindings q)" if "mid = Some m" for m
    using unbound_id_is_free[OF bok, of m] unbound that by simp
  have content: "content_error dg spec mid (str_or d) = None"
    using run unbound
    by (cases "content_error dg spec mid (str_or d)") (auto simp: ensure_experiment_queued_def Let_def split: option.splits)
  note D = ensure_experiment_queued_def Let_def unbound content option.case
  obtain found where found: "reusable_job spec mid (str_or d) q = Inr found"
    using run by (cases "reusable_job spec mid (str_or d) q") (simp_all add: D)
  show ?thesis
  proof (cases found)
    case (Some r)
    note R = reusable_job_SomeD[OF found[unfolded Some]]
    have get: "get_job (j_id r) q = Some r" using get_job_iff[OF jok] R(1) by simp
    show ?thesis
    proof (cases mid)
      case None
      then show ?thesis using run content found Some by (auto simp: D answers_def)
    next
      case (Some m)
      let ?b = "\<lparr>qm_id = m, qm_job = j_id r, qm_spec = spec, qm_digest = str_or d, qm_created = stamp\<rparr>"
      have "jid = j_id r \<and> \<not> created \<and> q' = q\<lparr>bindings := bindings q @ [?b]\<rparr>"
        using run free[OF Some] found \<open>found = Some r\<close> Some unbound content
        by (auto simp: ensure_experiment_queued_def insert_binding_def Let_def)
      then show ?thesis
        using content R(2,3) Some bound_after_insert[of ?b q r] free[OF Some] get
        by (simp add: answers_def binding_agrees_def)
    qed
  next
    case None
    let ?new = "new_job spec queued prio stamp mid (if str_or mid = [] then None else Some (str_or d))"
    show ?thesis
    proof (cases "insert_job ?new q")
      case (Inl e)
      then have "ensure_experiment_queued dg stamp spec prio mid d q = (Inl e, q)"
        using found None by (simp add: D ensure_after_conflict_def)
      then show ?thesis using run by simp
    next
      case (Inr x)
      obtain k q1 where ins: "insert_job ?new q = Inr (k, q1)" using Inr by (cases x) simp
      note I = insert_job_InrD(3)[OF ins] get_job_insert[OF ins jok]
      show ?thesis
      proof (cases mid)
        case mid_None: None
        have "first_job (\<lambda>r. j_spec r = spec \<and> (active_job r \<or> j_status r = completed)) q = None"
          using found None mid_None by (simp add: reusable_job_def)
        then have "reusable_job spec None (str_or d) q1 = Inr (Some (?new\<lparr>j_id := k\<rparr>))"
          by (simp add: reusable_job_def first_job_def I(1) active_job_def filter_empty_conv)
        then show ?thesis
          using run content found None ins I(2)[of k] I(3) mid_None by (simp add: D answers_def)
      next
        case (Some m)
        let ?b = "\<lparr>qm_id = m, qm_job = k, qm_spec = spec, qm_digest = str_or d, qm_created = stamp\<rparr>"
        have free1: "\<not> list_ex (\<lambda>x. qm_id x = m) (bindings q1)" using free[OF Some] by (simp add: I(1))
        have "jid = k \<and> created \<and> q' = q1\<lparr>bindings := bindings q1 @ [?b]\<rparr>"
          using run found None ins Some free1 unbound content
          by (auto simp: ensure_experiment_queued_def insert_binding_def Let_def)
        then show ?thesis
          using content Some mid bound_after_insert[of ?b q1] free1 I(2)[of k] I(3)
          by (simp add: answers_def binding_agrees_def)
      qed
    qed
  qed
qed

lemma ensure_binds:
  assumes "queue_ok q" and "mid \<noteq> Some []"
    and "ensure_experiment_queued dg stamp spec prio mid d q = (Inr (jid, created), q')"
  shows "(\<exists>r. get_job jid q' = Some r \<and> j_spec r = spec \<and>
      (\<forall>m. mid = Some m \<longrightarrow> dg spec = Some (str_or d) \<and> str_or (j_digest r) = str_or d \<and>
         (\<exists>b \<in> set (bindings q'). qm_id b = m \<and> qm_job b = jid \<and> qm_spec b = spec \<and> qm_digest b = str_or d))) \<and>
    (if created then get_job jid q = None \<and> (\<exists>r. get_job jid q' = Some r \<and> j_status r = queued) else jobs q' = jobs q) \<and>
    ensure_experiment_queued dg stamp2 spec prio2 mid d q' = (Inr (jid, False), q')"
proof -
  note A = ensure_Inr_answers[OF assms]
  have ok': "queue_ok q'"
    using ensure_experiment_queued_sound[OF assms(1), of dg stamp spec prio mid d] assms(1,3) by (simp add: sound_queue_def)
  have again: "ensure_experiment_queued dg stamp2 spec prio2 mid d q' = (Inr (jid, False), q')"
    using A answers_again by blast
  have job: "\<exists>r. get_job jid q' = Some r \<and> j_spec r = spec \<and>
      (\<forall>m. mid = Some m \<longrightarrow> dg spec = Some (str_or d) \<and> str_or (j_digest r) = str_or d \<and>
         (\<exists>b \<in> set (bindings q'). qm_id b = m \<and> qm_job b = jid \<and> qm_spec b = spec \<and> qm_digest b = str_or d))"
  proof (cases mid)
    case None
    then obtain r where r: "reusable_job spec None (str_or d) q' = Inr (Some r)" "j_id r = jid"
      using A by (auto simp: answers_def)
    then show ?thesis
      using reusable_job_SomeD(1,2)[OF r(1)] ok' None by (auto simp: get_job_iff queue_ok_def)
  next
    case (Some m)
    then obtain b r where b: "bound_job m q' = Some (b, r)" "qm_job b = jid" "binding_agrees spec (str_or d) (b, r)"
      using A by (auto simp: answers_def)
    then have mem: "b \<in> set (bindings q')" "qm_id b = m" and get: "get_job jid q' = Some r"
      by (auto simp: bound_job_def dest: find_SomeD split: option.splits)
    then have "j_spec r = spec"
      using ok' b(2,3) by (fastforce simp: queue_ok_def bindings_ok_def binding_ok_def binding_agrees_def)
    moreover have "dg spec = Some (str_or d)"
      using A Some by (auto simp: content_error_def split: option.splits if_splits)
    ultimately show ?thesis using b mem get Some by (auto simp: binding_agrees_def)
  qed
  show ?thesis using job A again by blast
qed

text \<open>C40 Enqueueing is bound to content and idempotent, for a request without a materialization id or with one that
  is not the empty text (for the empty id nothing is claimed: its job is inserted without a digest, so the same
  request again is refused): an answer names a job of the requested spec; it
  creates a job only when it says so and changes no job otherwise; with a materialization id the spec
  file has the claimed digest, the job carries it, and the id is bound to exactly this job, spec and
  digest; the same request again, at any time and priority, names the same job and changes nothing.\<close>

theorem ensure_queued_binds_content:
  assumes "queue_ok q" and "mid \<noteq> Some []"
    and "ensure_experiment_queued dg stamp spec prio mid d q = (Inr (jid, created), q')"
  shows "(\<exists>r. get_job jid q' = Some r \<and> j_spec r = spec \<and>
      (\<forall>m. mid = Some m \<longrightarrow> dg spec = Some (str_or d) \<and> str_or (j_digest r) = str_or d \<and>
         (\<exists>b \<in> set (bindings q'). qm_id b = m \<and> qm_job b = jid \<and> qm_spec b = spec \<and> qm_digest b = str_or d))) \<and>
    (if created then get_job jid q = None \<and> (\<exists>r. get_job jid q' = Some r \<and> j_status r = queued) else jobs q' = jobs q) \<and>
    ensure_experiment_queued dg stamp2 spec prio2 mid d q' = (Inr (jid, False), q')"
  by (rule ensure_binds[OF assms])

theorem ensure_queued_binds_content_witness:
  "\<exists>q'. ensure_experiment_queued (\<lambda>_. Some ''h'') ''t5'' ''c.json'' 10 (Some ''m1'') (Some ''h'') running_demo
       = (Inr (3, True), q') \<and>
     ensure_experiment_queued (\<lambda>_. Some ''h'') ''t6'' ''c.json'' 99 (Some ''m1'') (Some ''h'') q' = (Inr (3, False), q')"
proof -
  obtain q' where "ensure_experiment_queued (\<lambda>_. Some ''h'') ''t5'' ''c.json'' 10 (Some ''m1'') (Some ''h'') running_demo
      = (Inr (3, True), q')"
    by (simp add: running_demo_eq empty_queue_def ensure_experiment_queued_def bound_job_def content_error_def
        reusable_job_def first_job_def insert_binding_def queue_simps)
  with ensure_queued_binds_content[OF running_demo_ok _ this, of "''t6''" 99] show ?thesis by auto
qed

end
