(* ===== verification/Recovery.thy ===== *)
theory Recovery
  imports Materialization Validation_Tasks Publication
begin

text \<open>
  The hash-bound recovery of a materialization that reached the compute queue before its task was
  acknowledged, \<open>src/research_lab/materialization_recovery.py\<close>: a plan is built from the farm
  database and the compute database, kept as JSON, and applied once its digest has been confirmed.

  Parameters: \<open>sha\<close> is the hexadecimal SHA-256 of a value's canonical JSON text, \<open>resolve\<close> the
  resolved text of a path, \<open>rep\<close> and \<open>int_text\<close> Python's \<open>str\<close> of other JSON values and \<open>int\<close> of a
  text.  Both databases are activated for fencing; a plan is a decoded JSON object.
\<close>

section \<open>The plan and its identity\<close>

abbreviation recovery_schema :: string where
  "recovery_schema \<equiv> ''ExpiredMaterializationRecoveryPlan.v1''"

definition recovery_identity :: "json \<Rightarrow> json" where
  "recovery_identity plan =
     JObj [(''schema'', jget ''schema'' plan), (''farm_database'', jget ''farm_database'' plan),
           (''compute_database'', jget ''compute_database'' plan), (''entry'', jget ''entry'' plan)]"

definition recovery_plan_digest :: "(json \<Rightarrow> string) \<Rightarrow> json \<Rightarrow> string" where
  "recovery_plan_digest sha plan = sha (recovery_identity plan)"

section \<open>Reading the two databases\<close>

text \<open>The text of the state columns.\<close>

fun state_text :: "task_state \<Rightarrow> string" where
  "state_text Queued = ''queued''" | "state_text Running = ''running''"
| "state_text Deferred = ''deferred''" | "state_text Blocked = ''blocked''"
| "state_text Completed = ''completed''" | "state_text Skipped = ''skipped''"
| "state_text Failed = ''failed''"

fun outbox_state_text :: "outbox_state \<Rightarrow> string" where
  "outbox_state_text Pending = ''pending''" | "outbox_state_text Dispatched = ''dispatched''"
| "outbox_state_text Superseded = ''superseded''" | "outbox_state_text Acknowledged = ''acknowledged''"
| "outbox_state_text Ambiguous = ''ambiguous''"

text \<open>The join of \<open>queue_materializations\<close> and \<open>queue\<close>, which the recovery and
  \<open>adopt_expired_materialization\<close> both read.\<close>

definition queue_binding_of :: "string \<Rightarrow> queue_db \<Rightarrow> queue_binding option" where
  "queue_binding_of mid q =
     map_option (\<lambda>(m, r). \<lparr>bind_job = qm_job m, bind_path = qm_spec m, bind_digest = qm_digest m,
         bind_status = j_status r, bind_queue_mid = j_mid r, bind_queue_digest = j_digest r\<rparr>)
       (bound_job mid q)"

definition recovery_outboxes :: "int \<Rightarrow> brain \<Rightarrow> outbox_row list" where
  "recovery_outboxes tid b =
     sort_key o_id (filter (\<lambda>i. o_task i = tid \<and>
       (o_state i = Pending \<or> o_state i = Dispatched \<or> o_state i = Acknowledged)) (outbox b))"

definition binding_disagrees :: "outbox_row \<Rightarrow> queue_binding \<Rightarrow> bool" where
  "binding_disagrees ob q \<longleftrightarrow>
     bind_path q \<noteq> o_path ob \<or> bind_digest q \<noteq> o_digest ob \<or> str_or (bind_queue_mid q) \<noteq> o_id ob
     \<or> str_or (bind_queue_digest q) \<noteq> o_digest ob"

definition recovery_adopted :: "task \<Rightarrow> outbox_row \<Rightarrow> queue_binding \<Rightarrow> bool" where
  "recovery_adopted row ob q \<longleftrightarrow>
     t_type row = ''run_sweep'' \<and> t_state row = Deferred \<and> t_protocol row = v2 \<and> t_owner row = None
     \<and> t_expires row = None \<and> int_or0 (t_job row) = bind_job q \<and> o_state ob = Acknowledged
     \<and> int_or0 (o_job ob) = bind_job q"

definition recovery_ineligible :: "time \<Rightarrow> task \<Rightarrow> outbox_row \<Rightarrow> queue_binding \<Rightarrow> bool" where
  "recovery_ineligible observed row ob q \<longleftrightarrow>
     t_type row \<noteq> ''run_sweep'' \<or> t_state row \<noteq> Running \<or> t_owner row = None
     \<or> or0 (t_expires row) > observed \<or> t_protocol row \<noteq> v2 \<or> t_job row \<noteq> None
     \<or> o_fence ob \<noteq> t_fence row \<or> \<not> replayable (o_state ob)
     \<or> (o_job ob \<noteq> None \<and> o_job ob \<noteq> Some (bind_job q))"

section \<open>Building a plan\<close>

definition recovery_entry :: "task \<Rightarrow> outbox_row \<Rightarrow> queue_binding \<Rightarrow> json" where
  "recovery_entry row ob q =
     JObj [(''task_id'', JInt (t_id row)), (''task_type'', JStr (t_type row)),
       (''state'', JStr (state_text (t_state row))), (''fencing_token'', JInt (t_fence row)),
       (''mutation_seq'', JInt (t_seq row - (if recovery_adopted row ob q then 1 else 0))),
       (''materialization_id'', JStr (o_id ob)), (''outbox_state'', JStr (outbox_state_text (o_state ob))),
       (''queue_job_id'', JInt (bind_job q)), (''queue_status'', JStr (bind_status q)),
       (''spec_path'', JStr (o_path ob)), (''spec_digest'', JStr (o_digest ob)),
       (''already_adopted'', JBool (recovery_adopted row ob q))]"

definition recovery_plan_of ::
  "(json \<Rightarrow> string) \<Rightarrow> (string \<Rightarrow> string) \<Rightarrow> string \<Rightarrow> string \<Rightarrow> time \<Rightarrow> json \<Rightarrow> json" where
  "recovery_plan_of sha resolve farm compute observed entry =
     (let plan = [(''schema'', JStr recovery_schema), (''observed_at'', JFloat observed),
           (''farm_database'', JStr (resolve farm)), (''compute_database'', JStr (resolve compute)),
           (''entry'', entry)]
      in JObj (plan @ [(''plan_digest'', JStr (recovery_plan_digest sha (JObj plan)))]))"

definition recovery_build_plan ::
  "(json \<Rightarrow> string) \<Rightarrow> (string \<Rightarrow> string) \<Rightarrow> string \<Rightarrow> string \<Rightarrow> time \<Rightarrow> time option \<Rightarrow> int \<Rightarrow> brain
     \<Rightarrow> queue_db \<Rightarrow> exn + json" where
  "recovery_build_plan sha resolve farm compute clock now tid b q =
     (let observed = (case now of None \<Rightarrow> clock | Some t \<Rightarrow> t)
      in case get_task tid b of
           None \<Rightarrow> Inl (ValueError ''recovery task is missing'')
         | Some row \<Rightarrow>
             (case recovery_outboxes tid b of
                [ob] \<Rightarrow>
                  (case queue_binding_of (o_id ob) q of
                     None \<Rightarrow> Inl (ValueError ''recovery compute binding is missing'')
                   | Some binding \<Rightarrow>
                       if binding_disagrees ob binding
                       then Inl (ValueError ''recovery compute binding disagrees with outbox'')
                       else if \<not> recovery_adopted row ob binding \<and> recovery_ineligible observed row ob binding
                       then Inl (ValueError ''recovery task or outbox is not eligible'')
                       else Inr (recovery_plan_of sha resolve farm compute observed
                                   (recovery_entry row ob binding)))
              | _ \<Rightarrow> Inl (ValueError ''recovery requires exactly one materialization outbox'')))"

section \<open>Applying a plan\<close>

text \<open>The connection \<open>FarmTasksDB(path, owner_id="materialization-recovery")\<close> opens.\<close>

definition recovery_conn :: "time \<Rightarrow> conn" where
  "recovery_conn obs = \<lparr>c_owner = ''materialization-recovery'', c_lease = 300, c_floor = obs, c_claims = (\<lambda>_. None)\<rparr>"

text \<open>The arguments of \<open>adopt_expired_materialization\<close>, read from the entry in the order of the call.\<close>

definition adoption_of_entry ::
  "(json \<Rightarrow> string) \<Rightarrow> (string \<Rightarrow> int option) \<Rightarrow> json \<Rightarrow> exn + adoption" where
  "adoption_of_entry rep int_text entry =
     (case int_of_json int_text (jget ''task_id'' entry) of
        Inl e \<Rightarrow> Inl e
      | Inr tid \<Rightarrow>
          (case int_of_json int_text (jget ''fencing_token'' entry) of
             Inl e \<Rightarrow> Inl e
           | Inr fence \<Rightarrow>
               (case int_of_json int_text (jget ''mutation_seq'' entry) of
                  Inl e \<Rightarrow> Inl e
                | Inr seq \<Rightarrow>
                    (case int_of_json int_text (jget ''queue_job_id'' entry) of
                       Inl e \<Rightarrow> Inl e
                     | Inr job \<Rightarrow>
                         Inr \<lparr>ad_task = tid, ad_fence = fence, ad_seq = seq,
                              ad_mid = str_of_json rep (jget ''materialization_id'' entry), ad_job = job,
                              ad_path = str_of_json rep (jget ''spec_path'' entry),
                              ad_digest = str_of_json rep (jget ''spec_digest'' entry),
                              ad_status = str_of_json rep (jget ''queue_status'' entry)\<rparr>))))"

definition recovery_plan_error ::
  "(json \<Rightarrow> string) \<Rightarrow> (json \<Rightarrow> string) \<Rightarrow> (string \<Rightarrow> string) \<Rightarrow> string \<Rightarrow> string \<Rightarrow> string \<Rightarrow> json \<Rightarrow> exn option" where
  "recovery_plan_error sha rep resolve farm compute expected plan =
     (let actual = recovery_plan_digest sha plan
      in if jget ''schema'' plan \<noteq> JStr recovery_schema
         then Some (ValueError ''unsupported materialization recovery plan schema'')
         else if actual \<noteq> str_of_json rep (jget ''plan_digest'' plan)
         then Some (ValueError ''materialization recovery plan self-digest mismatch'')
         else if actual \<noteq> expected
         then Some (ValueError ''materialization recovery expected digest mismatch'')
         else if resolve (str_of_json rep (jget ''farm_database'' plan)) \<noteq> resolve farm
                 \<or> resolve (str_of_json rep (jget ''compute_database'' plan)) \<noteq> resolve compute
         then Some (ValueError ''materialization recovery database capability mismatch'')
         else None)"

text \<open>\<open>dict(plan.get("entry") or {})\<close>; a truthy entry that is no object is refused.\<close>

definition entry_of_plan :: "json \<Rightarrow> exn + json" where
  "entry_of_plan plan =
     (let e = jget ''entry'' plan
      in if \<not> truthy e then Inr (JObj []) else if is_obj e then Inr e else Inl (TypeError ''entry''))"

text \<open>
  \<open>apply_plan\<close>: the farm database is opened before the values of the entry are read.  \<open>obs0\<close> is the reading of the clock when no time is given, \<open>obs1\<close> the one of the new
  connection, \<open>obs2\<close> and \<open>obs3\<close> those inside the adoption.  The result is the number of tasks
  changed; the dictionary around it only repeats the digest, the ids and this number.
\<close>

definition recovery_apply_plan ::
  "(json \<Rightarrow> string) \<Rightarrow> (json \<Rightarrow> string) \<Rightarrow> (string \<Rightarrow> int option) \<Rightarrow> (string \<Rightarrow> string) \<Rightarrow> string \<Rightarrow> string
     \<Rightarrow> time \<Rightarrow> time \<Rightarrow> time \<Rightarrow> time \<Rightarrow> json \<Rightarrow> string \<Rightarrow> time option \<Rightarrow> brain \<Rightarrow> queue_db \<Rightarrow> (exn + nat) \<times> brain" where
  "recovery_apply_plan sha rep int_text resolve farm compute obs0 obs1 obs2 obs3 plan expected now b q =
     (case recovery_plan_error sha rep resolve farm compute expected plan of
        Some e \<Rightarrow> (Inl e, b)
      | None \<Rightarrow>
          (case entry_of_plan plan of
             Inl e \<Rightarrow> (Inl e, b)
           | Inr entry \<Rightarrow>
               (case open_farm_db b of
                  Inl e \<Rightarrow> (Inl e, b)
                | Inr b0 \<Rightarrow>
                    (case adoption_of_entry rep int_text entry of
                       Inl e \<Rightarrow> (Inl e, b0)
                     | Inr a \<Rightarrow>
                         let current = (case now of None \<Rightarrow> obs0 | Some t \<Rightarrow> t);
                             (res, _, b1) = adopt_expired_materialization obs2 obs3 (Some current) a
                                              (queue_binding_of (ad_mid a) q) (recovery_conn obs1) b0
                         in (res, b1)))))"

end
