(* ===== verification/Materialization_Safety.thy ===== *)
theory Materialization_Safety
  imports Brain_Claims
begin

text \<open>
  The properties of the materialization outbox: intents are bound to one content and one claim
  generation, a commit links exactly the intent of the running claim, a parked task is finished once
  and only through its acknowledged generation, the recovery of an expired claim is exact and
  idempotent, and the release of payload copies drops nothing but verified text.
\<close>

section \<open>The outbox table\<close>

definition intent_ok :: "brain \<Rightarrow> outbox_row \<Rightarrow> bool" where
  "intent_ok b i \<longleftrightarrow>
     o_fence i \<le> task_fence b (o_task i) \<and>
     (o_state i = Pending \<longrightarrow> o_job i = None) \<and> (o_state i = Dispatched \<longrightarrow> o_job i \<noteq> None) \<and>
     (o_state i = Acknowledged \<longrightarrow> o_job i \<noteq> None \<and> o_spec i = [])"

definition outbox_ok :: "brain \<Rightarrow> bool" where
  "outbox_ok b \<longleftrightarrow> distinct (map o_id (outbox b)) \<and> (\<forall>i \<in> set (outbox b). intent_ok b i)"

lemma intent_ok_mono:
  "task_fence b (o_task i) \<le> task_fence b' (o_task i) \<Longrightarrow> intent_ok b i \<Longrightarrow> intent_ok b' i"
  by (auto simp: intent_ok_def)

lemma outbox_ok_same:
  assumes "brain_evolves b b'" and "outbox b' = outbox b" and "outbox_ok b"
  shows "outbox_ok b'"
  using assms brain_evolves_fence[OF assms(1)] unfolding outbox_ok_def
  by (auto intro: intent_ok_mono)

lemma outbox_ok_update:
  assumes "brain_evolves b b'" and "outbox b' = update_where p f (outbox b)" and "outbox_ok b"
    and "\<And>i. o_id (f i) = o_id i"
    and "\<And>i. i \<in> set (outbox b) \<Longrightarrow> p i \<Longrightarrow> intent_ok b i \<Longrightarrow> intent_ok b' (f i)"
  shows "outbox_ok b'"
proof -
  have "distinct (map o_id (outbox b'))"
    using assms(3) by (simp add: assms(2) outbox_ok_def map_key_update_where assms(4))
  moreover have "intent_ok b' j" if j: "j \<in> set (outbox b')" for j
  proof -
    obtain i where i: "i \<in> set (outbox b)" "j = (if p i then f i else i)"
      using j unfolding assms(2) set_update_where by blast
    then have "intent_ok b i" using assms(3) by (simp add: outbox_ok_def)
    then show ?thesis
      using i assms(5) intent_ok_mono[OF brain_evolves_fence[OF assms(1)]] by (cases "p i") auto
  qed
  ultimately show ?thesis by (simp add: outbox_ok_def)
qed

lemma get_outbox_iff:
  assumes "outbox_ok b"
  shows "get_outbox mid b = Some i \<longleftrightarrow> i \<in> set (outbox b) \<and> o_id i = mid"
  unfolding get_outbox_def by (rule find_key_iff) (use assms in \<open>simp add: outbox_ok_def\<close>)

lemma get_outbox_updated:
  assumes "\<And>i. o_id (f i) = o_id i"
  shows "get_outbox mid (b\<lparr>outbox := update_where p f (outbox b)\<rparr>) =
    map_option (\<lambda>i. if p i then f i else i) (get_outbox mid b)"
  by (simp add: get_outbox_def find_update_where assms)

lemma get_outbox_simps [simp]:
  "get_outbox mid (record_transition tid s s' reason now ow fence seq b) = get_outbox mid b"
  "get_outbox mid (b\<lparr>tasks := x\<rparr>) = get_outbox mid b"
  by (simp_all add: get_outbox_def)

section \<open>Only five operations write the outbox\<close>

lemma update_tasks_outbox: "update_tasks p f b = Inr (n, b1) \<Longrightarrow> outbox b1 = outbox b"
  by (drule update_tasks_InrD(1)) simp

lemma insert_task_outbox: "insert_task r b = Inr (tid, b1) \<Longrightarrow> outbox b1 = outbox b"
  by (drule insert_task_InrD(3)) simp

lemma requeue_orphans_outbox:
  "fst (requeue_orphans reason now rows n c b) = Inr m \<Longrightarrow>
     outbox (snd (snd (requeue_orphans reason now rows n c b))) = outbox b"
proof (induction rows arbitrary: n c b)
  case (Cons row rows)
  then show ?case
    by (auto split: sum.splits if_splits dest!: update_tasks_outbox)
qed simp

lemma skip_pending_outbox: "skip_pending now ow ps b = Inr b' \<Longrightarrow> outbox b' = outbox b"
proof (induction ps arbitrary: b)
  case (Cons p ps)
  then show ?case
    by (cases p) (auto split: sum.splits if_splits dest!: update_tasks_outbox)
qed simp

lemma absorb_request_outbox: "outbox (snd (absorb_request q now act b)) = outbox b"
  by (auto simp: absorb_request_def split: sum.split dest: update_tasks_outbox)

lemma set_state_commit_outbox: "outbox (snd (snd (set_state_commit obs t row s reason cols c b))) = outbox b"
  by (auto simp: set_state_commit_def Let_def case_prod_beta split: sum.split dest: update_tasks_outbox)

lemma set_state_outbox: "outbox (snd (snd (set_state o1 o2 now tid s reason cols c b))) = outbox b"
  by (auto simp: set_state_def set_state_commit_outbox split: prod.split sum.split)

lemma claim_outbox: "outbox (snd (snd (claim_next_task o1 o2 k c b))) = outbox b"
  by (auto simp: claim_next_task_def claim_meta_def Let_def case_prod_beta split: option.split sum.split
      dest: update_tasks_outbox)

fun writes_outbox :: "brain_op \<Rightarrow> bool" where
  "writes_outbox (Op_Prepare o1 o2 now tid mid path digest spec prio c) = True"
| "writes_outbox (Op_Commit o1 o2 now tid mid job c) = True"
| "writes_outbox (Op_Dispatched o1 o2 now mid job c) = True"
| "writes_outbox (Op_Ambiguous o1 o2 now mid c) = True"
| "writes_outbox (Op_Adopt o1 o2 now a q c) = True"
| "writes_outbox (Op_Release sha fs ph integ ro app expected compaction) = True"
| "writes_outbox _ = False"

lemma brain_step_outbox: "\<not> writes_outbox x \<Longrightarrow> outbox (brain_step x b) = outbox b"
  by (cases x)
     (auto simp: op_defs table_defs migrate_priority_scale_def Let_def case_prod_beta set_state_outbox
       set_state_commit_outbox absorb_request_outbox claim_outbox split: option.split sum.split prod.split
       dest: update_tasks_outbox insert_task_outbox requeue_orphans_outbox skip_pending_outbox)

section \<open>What the writers write\<close>

definition commit_target :: "string \<Rightarrow> int \<Rightarrow> int \<Rightarrow> outbox_row \<Rightarrow> bool" where
  "commit_target mid tid fence i \<longleftrightarrow> o_id i = mid \<and> o_task i = tid \<and> o_fence i = fence \<and> replayable (o_state i)"

lemma commit_InrD:
  assumes "commit_materialization o1 o2 now tid mid job c b = (Inr (), c', b')"
  obtains t c2 row ob b1 where "effective_now o2 (Some (fst (effective_now o1 now c))) (snd (effective_now o1 now c)) = (t, c2)"
    and "get_task tid b = Some row" and "get_outbox mid b = Some ob" and "o_task ob = tid"
    and "running_claim c2 t row" and "o_fence ob = t_fence row"
    and "update_tasks (\<lambda>r. claim_row c2 tid (t_fence row) r \<and> expires_after t r \<and> t_seq r = t_seq row)
          (park_task job t (t_seq row + 1)) b = Inr (1, b1)"
    and "rowcount (commit_target mid tid (t_fence row)) (outbox b) = 1"
    and "b' = (record_transition tid Running Deferred ''materialized_awaiting_worker'' t (c_owner c2) (t_fence row)
          (t_seq row + 1) b1)
          \<lparr>outbox := update_where (commit_target mid tid (t_fence row)) (acknowledge_outbox job t) (outbox b)\<rparr>"
    and "c' = c2\<lparr>c_claims := (c_claims c2)(tid := None)\<rparr>"
    and "outbox b' = update_where (commit_target mid tid (t_fence row)) (acknowledge_outbox job t) (outbox b)"
  using assms that
  by (auto simp: commit_materialization_def Let_def case_prod_beta record_transition_outbox prod_eq_iff
      commit_target_def[abs_def] update_tasks_outbox split: option.splits sum.splits if_splits)

definition adopt_target :: "adoption \<Rightarrow> outbox_row \<Rightarrow> bool" where
  "adopt_target a i \<longleftrightarrow> o_id i = ad_mid a \<and> o_task i = ad_task a \<and> o_fence i = ad_fence a
     \<and> replayable (o_state i) \<and> o_path i = ad_path a \<and> o_digest i = ad_digest a"

definition adopt_row :: "adoption \<Rightarrow> time \<Rightarrow> task \<Rightarrow> bool" where
  "adopt_row a t r \<longleftrightarrow> t_id r = ad_task a \<and> t_type r = ''run_sweep'' \<and> t_state r = Running \<and> t_owner r \<noteq> None
     \<and> (case t_expires r of None \<Rightarrow> False | Some e \<Rightarrow> e \<le> t) \<and> t_fence r = ad_fence a
     \<and> t_protocol r = v2 \<and> t_seq r = ad_seq a \<and> t_job r = None"

text \<open>The write of the adoption, once its checks have passed.\<close>

definition adopt_move :: "adoption \<Rightarrow> time \<Rightarrow> task \<Rightarrow> conn \<Rightarrow> brain \<Rightarrow> (exn + nat) \<times> conn \<times> brain" where
  "adopt_move a t row c b =
     (case update_tasks (adopt_row a t) (park_task (ad_job a) t (ad_seq a + 1)) b of
        Inl e \<Rightarrow> (Inl e, c, b)
      | Inr (n, b1) \<Rightarrow>
          if n \<noteq> 1 \<or> rowcount (adopt_target a) (outbox b1) \<noteq> 1
          then (Inl (StaleTaskClaim ''expired materialization changed during recovery''), c, b)
          else (Inr 1, c\<lparr>c_claims := (c_claims c)(ad_task a := None)\<rparr>,
                record_transition (ad_task a) Running Deferred ''recovered_existing_compute_materialization'' t
                  (str_or (t_owner row)) (ad_fence a) (ad_seq a + 1)
                  (b1\<lparr>outbox := update_where (adopt_target a) (acknowledge_outbox (ad_job a) t) (outbox b1)\<rparr>)))"

lemma adopt_unfold:
  assumes t: "t = fst (effective_now o2 (Some (fst (effective_now o1 now c))) (snd (effective_now o1 now c)))"
    and "get_task (ad_task a) b = Some row" and "get_outbox (ad_mid a) b = Some ob" and "o_task ob = ad_task a"
    and "binding_matches a qb" and "\<not> already_adopted a row ob" and "\<not> adoption_stale a t row ob b"
  shows "adopt_expired_materialization o1 o2 now a (Some qb) c b =
    adopt_move a t row (snd (effective_now o2 (Some (fst (effective_now o1 now c))) (snd (effective_now o1 now c)))) b"
  unfolding t adopt_move_def adopt_expired_materialization_def Let_def case_prod_beta adopt_row_def adopt_target_def
  using assms(2-6) assms(7)[unfolded t] by (simp add: case_prod_beta)

lemma adopt_InrD:
  assumes "adopt_expired_materialization o1 o2 now a q c b = (Inr n, c', b')"
  obtains t row ob binding where "t = fst (effective_now o2 (Some (fst (effective_now o1 now c))) (snd (effective_now o1 now c)))"
    and "get_task (ad_task a) b = Some row" and "get_outbox (ad_mid a) b = Some ob" and "o_task ob = ad_task a"
    and "q = Some binding" and "binding_matches a binding"
    and "n = 0 \<and> b' = b \<and> already_adopted a row ob \<or>
      (\<exists>b1. n = 1 \<and> \<not> already_adopted a row ob \<and> \<not> adoption_stale a t row ob b \<and>
         update_tasks (adopt_row a t) (park_task (ad_job a) t (ad_seq a + 1)) b = Inr (1, b1) \<and>
         rowcount (adopt_target a) (outbox b) = 1 \<and>
         b' = (record_transition (ad_task a) Running Deferred ''recovered_existing_compute_materialization'' t
                 (str_or (t_owner row)) (ad_fence a) (ad_seq a + 1) b1)
               \<lparr>outbox := update_where (adopt_target a) (acknowledge_outbox (ad_job a) t) (outbox b)\<rparr> \<and>
         outbox b' = update_where (adopt_target a) (acknowledge_outbox (ad_job a) t) (outbox b))"
proof -
  let ?t = "fst (effective_now o2 (Some (fst (effective_now o1 now c))) (snd (effective_now o1 now c)))"
  obtain row ob where row: "get_task (ad_task a) b = Some row" "get_outbox (ad_mid a) b = Some ob"
      "o_task ob = ad_task a"
    using assms by (auto simp: adopt_expired_materialization_def Let_def case_prod_beta split: option.splits if_splits)
  obtain binding where q: "q = Some binding" "binding_matches a binding"
    using assms row
    by (auto simp: adopt_expired_materialization_def Let_def case_prod_beta split: option.splits if_splits)
  show ?thesis
  proof (rule that[OF refl row q], cases "already_adopted a row ob")
    case True
    then show "n = 0 \<and> b' = b \<and> already_adopted a row ob \<or> (\<exists>b1. n = 1 \<and> \<not> already_adopted a row ob \<and>
         \<not> adoption_stale a ?t row ob b \<and>
         update_tasks (adopt_row a ?t) (park_task (ad_job a) ?t (ad_seq a + 1)) b = Inr (1, b1) \<and>
         rowcount (adopt_target a) (outbox b) = 1 \<and>
         b' = (record_transition (ad_task a) Running Deferred ''recovered_existing_compute_materialization'' ?t
                 (str_or (t_owner row)) (ad_fence a) (ad_seq a + 1) b1)
               \<lparr>outbox := update_where (adopt_target a) (acknowledge_outbox (ad_job a) ?t) (outbox b)\<rparr> \<and>
         outbox b' = update_where (adopt_target a) (acknowledge_outbox (ad_job a) ?t) (outbox b))"
      using assms row q by (simp add: adopt_expired_materialization_def Let_def case_prod_beta)
  next
    case False
    have fresh: "\<not> adoption_stale a ?t row ob b"
      using assms row q False
      by (auto simp: adopt_expired_materialization_def Let_def case_prod_beta split: if_splits)
    have "adopt_expired_materialization o1 o2 now a q c b = adopt_move a ?t row
        (snd (effective_now o2 (Some (fst (effective_now o1 now c))) (snd (effective_now o1 now c)))) b"
      unfolding q(1) by (rule adopt_unfold[OF refl row q(2) False fresh])
    with assms show "n = 0 \<and> b' = b \<and> already_adopted a row ob \<or> (\<exists>b1. n = 1 \<and> \<not> already_adopted a row ob \<and>
         \<not> adoption_stale a ?t row ob b \<and>
         update_tasks (adopt_row a ?t) (park_task (ad_job a) ?t (ad_seq a + 1)) b = Inr (1, b1) \<and>
         rowcount (adopt_target a) (outbox b) = 1 \<and>
         b' = (record_transition (ad_task a) Running Deferred ''recovered_existing_compute_materialization'' ?t
                 (str_or (t_owner row)) (ad_fence a) (ad_seq a + 1) b1)
               \<lparr>outbox := update_where (adopt_target a) (acknowledge_outbox (ad_job a) ?t) (outbox b)\<rparr> \<and>
         outbox b' = update_where (adopt_target a) (acknowledge_outbox (ad_job a) ?t) (outbox b))"
      using False fresh
      by (auto simp: adopt_move_def record_transition_outbox update_tasks_outbox split: sum.splits if_splits)
  qed
qed

lemma intent_ok_acknowledge:
  "task_fence b (o_task i) \<le> task_fence b' (o_task i) \<Longrightarrow> intent_ok b i \<Longrightarrow> intent_ok b' (acknowledge_outbox job t i)"
  by (auto simp: intent_ok_def acknowledge_outbox_def)

lemma acknowledge_outbox_id [simp]: "o_id (acknowledge_outbox job t i) = o_id i"
  by (simp add: acknowledge_outbox_def)

lemma commit_outbox_ok:
  assumes "outbox_ok b"
  shows "outbox_ok (snd (snd (commit_materialization o1 o2 now tid mid job c b)))"
proof -
  obtain res c' b' where r: "commit_materialization o1 o2 now tid mid job c b = (res, c', b')"
    by (metis prod.collapse)
  have ev: "brain_evolves b b'" using commit_sound[of b o1 o2 now tid mid job c] r by (simp add: sound_change_def)
  show ?thesis
  proof (cases res)
    case (Inl e)
    then have "b' = b"
      using r by (auto simp: commit_materialization_def Let_def case_prod_beta split: option.splits sum.splits if_splits)
    with r assms show ?thesis by simp
  next
    case (Inr u)
    then have "commit_materialization o1 o2 now tid mid job c b = (Inr (), c', b')" using r by simp
    then obtain t and row :: task where "outbox b' =
        update_where (commit_target mid tid (t_fence row)) (acknowledge_outbox job t) (outbox b)"
      by (rule commit_InrD) blast
    from outbox_ok_update[OF ev this assms acknowledge_outbox_id intent_ok_acknowledge[OF brain_evolves_fence[OF ev]]]
    show ?thesis using r by simp
  qed
qed

lemma adopt_outbox_ok:
  assumes "outbox_ok b"
  shows "outbox_ok (snd (snd (adopt_expired_materialization o1 o2 now a q c b)))"
proof -
  obtain res c' b' where r: "adopt_expired_materialization o1 o2 now a q c b = (res, c', b')"
    by (metis prod.collapse)
  have ev: "brain_evolves b b'" using adopt_sound[of b o1 o2 now a q c] r by (simp add: sound_change_def)
  show ?thesis
  proof (cases res)
    case (Inl e)
    then have "b' = b"
      using r by (auto simp: adopt_expired_materialization_def Let_def case_prod_beta split: option.splits sum.splits if_splits)
    with r assms show ?thesis by simp
  next
    case (Inr n)
    then have "adopt_expired_materialization o1 o2 now a q c b = (Inr n, c', b')" using r by simp
    then consider "b' = b" | t where "outbox b' =
        update_where (adopt_target a) (acknowledge_outbox (ad_job a) t) (outbox b)"
      by (rule adopt_InrD) blast
    then show ?thesis
    proof cases
      case 2
      from outbox_ok_update[OF ev this assms acknowledge_outbox_id intent_ok_acknowledge[OF brain_evolves_fence[OF ev]]]
      show ?thesis using r by simp
    qed (use r assms in simp)
  qed
qed

lemma prepare_outbox_ok:
  assumes "outbox_ok b"
  shows "outbox_ok (snd (snd (prepare_materialization o1 o2 now tid mid path digest spec prio c b)))"
proof -
  let ?sup = "\<lambda>row t. update_where (\<lambda>i. o_task i = tid \<and> replayable (o_state i) \<and> o_fence i \<noteq> t_fence row)
      (\<lambda>i. i\<lparr>o_state := Superseded, o_updated := t\<rparr>) (outbox b)"
  have sup: "outbox_ok (b\<lparr>outbox := ?sup row t\<rparr>)" for row t
    by (rule outbox_ok_update[OF brain_evolves_tasks _ assms, where
          p = "\<lambda>i. o_task i = tid \<and> replayable (o_state i) \<and> o_fence i \<noteq> t_fence row" and
          f = "\<lambda>i. i\<lparr>o_state := Superseded, o_updated := t\<rparr>"]) (auto simp: intent_ok_def task_fence_def)
  have "outbox_ok (b\<lparr>outbox := ?sup row t @ [new]\<rparr>)"
    if "get_task tid b = Some row" "get_outbox mid b = None" "o_id new = mid" "o_task new = tid"
      "o_fence new = t_fence row" "o_state new = Pending" "o_job new = None" for row t new
  proof -
    have "mid \<notin> o_id ` set (outbox b)" using that(2) by (auto simp: get_outbox_def find_None_iff)
    then have "mid \<notin> o_id ` set (?sup row t)" by (auto simp: set_update_where)
    then show ?thesis
      using sup[of row t] that by (auto simp: outbox_ok_def intent_ok_def task_fence_def)
  qed
  then show ?thesis
    using assms by (simp add: prepare_materialization_def Let_def case_prod_beta split: option.split)
qed

lemma mark_outbox_ok:
  assumes "outbox_ok b" and "\<And>t i. o_id (upd t i) = o_id i" and "\<And>t i. intent_ok b i \<Longrightarrow> intent_ok b (upd t i)"
  shows "outbox_ok (snd (snd (mark_materialization o1 o2 now mid upd msg c b)))"
proof -
  have "outbox_ok (b\<lparr>outbox := update_where p (upd t) (outbox b)\<rparr>)" for p t
    by (rule outbox_ok_update[OF brain_evolves_tasks _ assms(1), where p = p and f = "upd t"])
       (auto simp: assms(2) intro!: intent_ok_mono[OF _ assms(3)] simp: task_fence_def)
  then show ?thesis
    using assms(1) by (simp add: mark_materialization_def Let_def case_prod_beta split: option.split)
qed

lemma apply_release_rows:
  "apply_release plan rows = Inr rows' \<Longrightarrow>
     \<exists>drop. rows' = update_where drop (\<lambda>i. i\<lparr>o_spec := []\<rparr>) rows \<and> (\<forall>i. drop i \<longrightarrow> o_state i = Acknowledged)"
proof (induction plan arbitrary: rows)
  case Nil
  then show ?case by (intro exI[of _ "\<lambda>_. False"]) (simp add: update_where_def)
next
  case (Cons x plan)
  obtain mid digest len where x: "x = (mid, digest, len)" by (cases x)
  let ?p = "\<lambda>i. o_id i = mid \<and> o_state i = Acknowledged \<and> o_digest i = digest \<and> length (o_spec i) = len"
  have "apply_release plan (update_where ?p (\<lambda>i. i\<lparr>o_spec := []\<rparr>) rows) = Inr rows'"
    using Cons.prems by (simp add: x Let_def split: if_splits)
  from Cons.IH[OF this] obtain drop where d: "rows' = update_where drop (\<lambda>i. i\<lparr>o_spec := []\<rparr>)
      (update_where ?p (\<lambda>i. i\<lparr>o_spec := []\<rparr>) rows)" "\<forall>i. drop i \<longrightarrow> o_state i = Acknowledged" by blast
  let ?drop = "\<lambda>i. ?p i \<or> drop (if ?p i then i\<lparr>o_spec := []\<rparr> else i)"
  have "rows' = update_where ?drop (\<lambda>i. i\<lparr>o_spec := []\<rparr>) rows"
    unfolding d(1) by (simp add: update_where_def)
  moreover have "\<forall>i. ?drop i \<longrightarrow> o_state i = Acknowledged" using d(2) by (force split: if_splits)
  ultimately show ?case by blast
qed

lemma release_outbox_ok:
  assumes "outbox_ok b"
  shows "outbox_ok (snd (release_payloads sha fs ph integ ro app expected compaction b))"
proof -
  have "outbox_ok (b\<lparr>outbox := rows\<rparr>)" if rel: "apply_release plan (outbox b) = Inr rows" for plan rows
  proof -
    obtain drop where "rows = update_where drop (\<lambda>i. i\<lparr>o_spec := []\<rparr>) (outbox b)"
      using apply_release_rows[OF rel] by blast
    then show ?thesis
      by (intro outbox_ok_update[OF brain_evolves_tasks _ assms, where p = drop and f = "\<lambda>i. i\<lparr>o_spec := []\<rparr>"])
         (auto simp: intent_ok_def task_fence_def)
  qed
  then show ?thesis using assms by (auto simp: release_payloads_def Let_def split: sum.split)
qed

interpretation outbox: invariant_system brain_step outbox_ok
proof
  fix s x assume ok: "outbox_ok s"
  show "outbox_ok (brain_step x s)"
  proof (cases "writes_outbox x")
    case False
    then show ?thesis using outbox_ok_same[OF brain_step_evolves brain_step_outbox ok] by simp
  next
    case True
    then show ?thesis
      by (cases x) (use ok in \<open>auto simp: mark_materialization_dispatched_def mark_materialization_ambiguous_def
        intent_ok_def intro!: commit_outbox_ok adopt_outbox_ok prepare_outbox_ok release_outbox_ok mark_outbox_ok\<close>)
  qed
qed

section \<open>Properties\<close>

lemma empty_outbox_ok: "outbox_ok empty_brain"
  by (simp add: outbox_ok_def empty_brain_def)

text \<open>C35 The outbox stays consistent along every run of operations by any number of connections: an
  intent id is recorded once, no intent carries a token its task has not reached, a pending intent has
  no job, a dispatched or acknowledged one has, and an acknowledged one has dropped its payload copy.\<close>

theorem outbox_ok_reachable: "outbox_ok (run_ops brain_step ops empty_brain)"
  by (rule outbox.inv_run) (rule empty_outbox_ok)

lemma update_outbox_get:
  assumes "outbox_ok b" and "get_outbox mid b = Some i" and "p i" and "\<And>x. p x \<Longrightarrow> o_id x = mid"
    and "\<And>x. o_id (f x) = o_id x"
  shows "get_outbox m (b'\<lparr>outbox := update_where p f (outbox b)\<rparr>) = (if m = mid then Some (f i) else get_outbox m b)"
proof -
  have "get_outbox m (b'\<lparr>outbox := update_where p f (outbox b)\<rparr>) =
      map_option (\<lambda>x. if p x then f x else x) (get_outbox m b)"
    by (simp add: get_outbox_def find_update_where assms(5))
  also have "\<dots> = (if m = mid then Some (f i) else get_outbox m b)"
  proof (cases "m = mid")
    case False
    then have "\<not> p x" if "get_outbox m b = Some x" for x
      using that assms(4) get_outbox_iff[OF assms(1), of m x] by auto
    with False show ?thesis by (cases "get_outbox m b") auto
  qed (simp add: assms(2,3))
  finally show ?thesis .
qed

lemma commit_exact:
  assumes "brain_ok b" and "outbox_ok b"
    and "commit_materialization o1 o2 now tid mid job c b = (res, c', b')"
  shows "(\<forall>e. res = Inl e \<longrightarrow> b' = b) \<and>
    (res = Inr () \<longrightarrow> (\<exists>t row i.
       t = fst (effective_now o2 (Some (fst (effective_now o1 now c))) (snd (effective_now o1 now c))) \<and>
       get_task tid b = Some row \<and> t_state row = Running \<and> holds_claim c t row \<and>
       get_outbox mid b = Some i \<and> o_task i = tid \<and> o_fence i = t_fence row \<and> replayable (o_state i) \<and>
       (\<forall>j. get_task j b' = (if j = tid then Some (park_task job t (t_seq row + 1) row) else get_task j b)) \<and>
       (\<forall>m. get_outbox m b' = (if m = mid then Some (acknowledge_outbox job t i) else get_outbox m b)) \<and>
       c_claims c' tid = None))"
proof (intro conjI impI allI)
  show "b' = b" if "res = Inl e" for e
    using assms(3) that
    by (auto simp: commit_materialization_def Let_def case_prod_beta split: option.splits sum.splits if_splits)
  assume "res = Inr ()"
  with assms(3) have "commit_materialization o1 o2 now tid mid job c b = (Inr (), c', b')" by simp
  then obtain t c2 and row :: task and ob :: outbox_row and b1 where
      D: "effective_now o2 (Some (fst (effective_now o1 now c))) (snd (effective_now o1 now c)) = (t, c2)"
      "get_task tid b = Some row" "get_outbox mid b = Some ob" "o_task ob = tid" "running_claim c2 t row"
      "o_fence ob = t_fence row"
    and upd: "update_tasks (\<lambda>r. claim_row c2 tid (t_fence row) r \<and> expires_after t r \<and> t_seq r = t_seq row)
          (park_task job t (t_seq row + 1)) b = Inr (1, b1)"
    and cnt: "rowcount (commit_target mid tid (t_fence row)) (outbox b) = 1"
    and b': "b' = (record_transition tid Running Deferred ''materialized_awaiting_worker'' t (c_owner c2) (t_fence row)
          (t_seq row + 1) b1)
          \<lparr>outbox := update_where (commit_target mid tid (t_fence row)) (acknowledge_outbox job t) (outbox b)\<rparr>"
    and c': "c' = c2\<lparr>c_claims := (c_claims c2)(tid := None)\<rparr>"
    by (rule commit_InrD) blast
  have c2: "c_owner c2 = c_owner c" "c_claims c2 = c_claims c"
    using effective_now_keeps(1,3)[OF D(1)] by simp_all
  obtain r where r: "get_task tid b = Some r" "claim_row c2 tid (t_fence row) r"
      "\<And>j. get_task j b1 = (if j = tid then Some (park_task job t (t_seq row + 1) r) else get_task j b)"
    by (rule get_task_hit[OF assms(1) upd, of tid]) (auto simp: claim_row_def park_task_def)
  have [simp]: "r = row" using r(1) D(2) by simp
  obtain i where i: "i \<in> set (outbox b)" "commit_target mid tid (t_fence row) i"
    using cnt rowcount_1_ex by blast
  then have "get_outbox mid b = Some i" using get_outbox_iff[OF assms(2)] by (simp add: commit_target_def)
  then have [simp]: "i = ob" using D(3) by simp
  have "get_outbox m b' = (if m = mid then Some (acknowledge_outbox job t ob) else get_outbox m b)" for m
    unfolding b' using i(2) by (intro update_outbox_get[OF assms(2) D(3)]) (auto simp: commit_target_def)
  moreover have "get_task j b' = (if j = tid then Some (park_task job t (t_seq row + 1) row) else get_task j b)" for j
    unfolding b' using r(3) by simp
  moreover have "holds_claim c t row" "t_state row = Running"
    using D(5) r(2) c2 get_task_mem[OF D(2)] by (auto simp: running_claim_def claim_row_def holds_claim_def)
  moreover have "t = fst (effective_now o2 (Some (fst (effective_now o1 now c))) (snd (effective_now o1 now c)))"
    using D(1) by simp
  moreover have "replayable (o_state ob)" using i(2) by (simp add: commit_target_def)
  moreover have "c_claims c' tid = None" using c' by simp
  ultimately show "\<exists>t row i.
       t = fst (effective_now o2 (Some (fst (effective_now o1 now c))) (snd (effective_now o1 now c))) \<and>
       get_task tid b = Some row \<and> t_state row = Running \<and> holds_claim c t row \<and>
       get_outbox mid b = Some i \<and> o_task i = tid \<and> o_fence i = t_fence row \<and> replayable (o_state i) \<and>
       (\<forall>j. get_task j b' = (if j = tid then Some (park_task job t (t_seq row + 1) row) else get_task j b)) \<and>
       (\<forall>m. get_outbox m b' = (if m = mid then Some (acknowledge_outbox job t i) else get_outbox m b)) \<and>
       c_claims c' tid = None"
    using D(2,3,4,6) by blast
qed

text \<open>Committing a materialization is exact: it succeeds only for the connection whose unexpired
  claim runs the task, through a replayable intent of this very claim generation; it then parks the
  task without a claim on the job, acknowledges that one intent, drops the cached claim and changes no
  other task or intent.  Every failure leaves the database as it was.\<close>

theorem commit_materialization_exact:
  assumes "brain_ok b" and "outbox_ok b"
    and "commit_materialization o1 o2 now tid mid job c b = (res, c', b')"
  shows "(\<forall>e. res = Inl e \<longrightarrow> b' = b) \<and>
    (res = Inr () \<longrightarrow> (\<exists>t row i.
       t = fst (effective_now o2 (Some (fst (effective_now o1 now c))) (snd (effective_now o1 now c))) \<and>
       get_task tid b = Some row \<and> t_state row = Running \<and> holds_claim c t row \<and>
       get_outbox mid b = Some i \<and> o_task i = tid \<and> o_fence i = t_fence row \<and> replayable (o_state i) \<and>
       (\<forall>j. get_task j b' = (if j = tid then Some (park_task job t (t_seq row + 1) row) else get_task j b)) \<and>
       (\<forall>m. get_outbox m b' = (if m = mid then Some (acknowledge_outbox job t i) else get_outbox m b)) \<and>
       c_claims c' tid = None))"
  by (rule commit_exact[OF assms])

text \<open>The recovery of an expired materialization is exact and idempotent: when it acts, the task was
  still running at the planned token and sequence under a claim that had expired, its only replayable
  intent matched the plan and the compute job; the task is parked on that job, the intent acknowledged
  and nothing else changed.  Repeating the same plan, by any connection, then changes nothing.\<close>

lemma adopt_Inl:
  assumes "adopt_expired_materialization o1 o2 now a q c b = (Inl e, c', b')"
  shows "b' = b"
  using assms
  by (auto simp: adopt_expired_materialization_def Let_def case_prod_beta split: option.splits sum.splits if_splits)

lemma adopt_expired_exactly_once:
  assumes "brain_ok b" and "outbox_ok b"
    and "adopt_expired_materialization o1 o2 now a q c b = (Inr n, c', b')"
  shows "(n = 0 \<and> b' = b \<or>
    n = 1 \<and> (\<exists>t row i e.
       t = fst (effective_now o2 (Some (fst (effective_now o1 now c))) (snd (effective_now o1 now c))) \<and>
       get_task (ad_task a) b = Some row \<and> t_state row = Running \<and> t_owner row \<noteq> None \<and>
       t_expires row = Some e \<and> e \<le> t \<and> t_fence row = ad_fence a \<and> t_seq row = ad_seq a \<and>
       get_outbox (ad_mid a) b = Some i \<and> adopt_target a i \<and>
       (\<forall>j. get_task j b' = (if j = ad_task a then Some (park_task (ad_job a) t (ad_seq a + 1) row) else get_task j b)) \<and>
       (\<forall>m. get_outbox m b' = (if m = ad_mid a then Some (acknowledge_outbox (ad_job a) t i) else get_outbox m b)))) \<and>
    (\<exists>c3. adopt_expired_materialization o3 o4 now2 a q c2 b' = (Inr 0, c3, b'))"
proof -
  obtain t row ob binding where t: "t = fst (effective_now o2 (Some (fst (effective_now o1 now c))) (snd (effective_now o1 now c)))"
    and D: "get_task (ad_task a) b = Some row" "get_outbox (ad_mid a) b = Some ob" "o_task ob = ad_task a"
      "q = Some binding" "binding_matches a binding"
    and cases: "n = 0 \<and> b' = b \<and> already_adopted a row ob \<or>
      (\<exists>b1. n = 1 \<and> \<not> already_adopted a row ob \<and> \<not> adoption_stale a t row ob b \<and>
         update_tasks (adopt_row a t) (park_task (ad_job a) t (ad_seq a + 1)) b = Inr (1, b1) \<and>
         rowcount (adopt_target a) (outbox b) = 1 \<and>
         b' = (record_transition (ad_task a) Running Deferred ''recovered_existing_compute_materialization'' t
                 (str_or (t_owner row)) (ad_fence a) (ad_seq a + 1) b1)
               \<lparr>outbox := update_where (adopt_target a) (acknowledge_outbox (ad_job a) t) (outbox b)\<rparr> \<and>
         outbox b' = update_where (adopt_target a) (acknowledge_outbox (ad_job a) t) (outbox b))"
    by (rule adopt_InrD[OF assms(3)]) blast
  have again: "\<exists>c3. adopt_expired_materialization o3 o4 now2 a q c2 b2 = (Inr 0, c3, b2)"
    if "get_task (ad_task a) b2 = Some r2" "get_outbox (ad_mid a) b2 = Some i2" "o_task i2 = ad_task a"
      "already_adopted a r2 i2" for b2 r2 i2
    using that D(4,5) by (simp add: adopt_expired_materialization_def case_prod_beta)
  from cases show ?thesis
  proof
    assume "n = 0 \<and> b' = b \<and> already_adopted a row ob"
    then show ?thesis using again[OF D(1-3)] by blast
  next
    assume "\<exists>b1. n = 1 \<and> \<not> already_adopted a row ob \<and> \<not> adoption_stale a t row ob b \<and>
         update_tasks (adopt_row a t) (park_task (ad_job a) t (ad_seq a + 1)) b = Inr (1, b1) \<and>
         rowcount (adopt_target a) (outbox b) = 1 \<and>
         b' = (record_transition (ad_task a) Running Deferred ''recovered_existing_compute_materialization'' t
                 (str_or (t_owner row)) (ad_fence a) (ad_seq a + 1) b1)
               \<lparr>outbox := update_where (adopt_target a) (acknowledge_outbox (ad_job a) t) (outbox b)\<rparr> \<and>
         outbox b' = update_where (adopt_target a) (acknowledge_outbox (ad_job a) t) (outbox b)"
    then obtain b1 where n: "n = 1"
      and upd: "update_tasks (adopt_row a t) (park_task (ad_job a) t (ad_seq a + 1)) b = Inr (1, b1)"
      and cnt: "rowcount (adopt_target a) (outbox b) = 1"
      and b': "b' = (record_transition (ad_task a) Running Deferred ''recovered_existing_compute_materialization'' t
                 (str_or (t_owner row)) (ad_fence a) (ad_seq a + 1) b1)
               \<lparr>outbox := update_where (adopt_target a) (acknowledge_outbox (ad_job a) t) (outbox b)\<rparr>" by blast
    obtain r where r: "get_task (ad_task a) b = Some r" "adopt_row a t r"
        "\<And>j. get_task j b1 = (if j = ad_task a then Some (park_task (ad_job a) t (ad_seq a + 1) r) else get_task j b)"
      by (rule get_task_hit[OF assms(1) upd, of "ad_task a"]) (auto simp: adopt_row_def park_task_def)
    have [simp]: "r = row" using r(1) D(1) by simp
    obtain i where i: "i \<in> set (outbox b)" "adopt_target a i" using cnt rowcount_1_ex by blast
    then have "get_outbox (ad_mid a) b = Some i" using get_outbox_iff[OF assms(2)] by (simp add: adopt_target_def)
    then have [simp]: "i = ob" using D(2) by simp
    have outs: "get_outbox m b' = (if m = ad_mid a then Some (acknowledge_outbox (ad_job a) t ob) else get_outbox m b)" for m
      unfolding b' using i(2) by (intro update_outbox_get[OF assms(2) D(2)]) (auto simp: adopt_target_def)
    have rows: "get_task j b' = (if j = ad_task a then Some (park_task (ad_job a) t (ad_seq a + 1) row) else get_task j b)" for j
      unfolding b' using r(3) by simp
    obtain e where e: "t_expires row = Some e" "e \<le> t" using r(2) by (auto simp: adopt_row_def split: option.splits)
    have "already_adopted a (park_task (ad_job a) t (ad_seq a + 1) row) (acknowledge_outbox (ad_job a) t ob)"
      using r(2) i(2) by (simp add: already_adopted_def adopt_row_def adopt_target_def park_task_def acknowledge_outbox_def)
    then have "\<exists>c3. adopt_expired_materialization o3 o4 now2 a q c2 b' = (Inr 0, c3, b')"
      using D(3) by (intro again[OF _ _ _ \<open>already_adopted _ _ _\<close>]) (simp_all add: rows outs acknowledge_outbox_def)
    moreover have "t_state row = Running" "t_owner row \<noteq> None" "t_fence row = ad_fence a" "t_seq row = ad_seq a"
      using r(2) by (simp_all add: adopt_row_def)
    ultimately show ?thesis using n t D(1,2) e i(2) rows outs by auto
  qed
qed

text \<open>What finishing writes to the parked row.\<close>

abbreviation finish_update ::
  "string \<Rightarrow> time \<Rightarrow> string option \<Rightarrow> string option \<Rightarrow> int \<Rightarrow> int \<Rightarrow> task \<Rightarrow> task" where
  "finish_update status t rref rdir job seq \<equiv> \<lambda>r.
     r\<lparr>t_state := (if status = ''completed'' then Completed else Failed),
       t_reason := (if status = ''completed'' then ''compute_completed'' else ''compute_failed''),
       t_updated := t, t_result_ref := rref, t_run_dir := rdir, t_job := Some job, t_deferred := None,
       t_protocol := v2, t_seq := seq\<rparr>"

lemma finish_InrD:
  assumes "finish_materialized_task o1 o2 now tid mid job status rref rdir c b = (Inr (), c', b')"
  obtains t row i b1 where "status = ''completed'' \<or> status = ''failed''"
    and "t = fst (effective_now o2 (Some (fst (effective_now o1 now c))) (snd (effective_now o1 now c)))"
    and "get_task tid b = Some row"
    and "find (\<lambda>i. o_id i = mid \<and> o_task i = tid \<and> o_job i = Some job \<and> o_state i = Acknowledged) (outbox b) = Some i"
    and "parked_for i job row"
    and "update_tasks (\<lambda>r. t_id r = tid \<and> t_state r = Deferred \<and> t_reason r = ''materialized_awaiting_worker''
            \<and> t_owner r = None \<and> t_expires r = None \<and> t_fence r = t_fence row \<and> t_protocol r = v2 \<and> t_seq r = t_seq row)
          (finish_update status t rref rdir job (t_seq row + 1)) b = Inr (1, b1)"
    and "b' = record_transition tid Deferred (if status = ''completed'' then Completed else Failed)
          (if status = ''completed'' then ''compute_completed'' else ''compute_failed'') t (c_owner c)
          (t_fence row) (t_seq row + 1) b1"
proof (cases "status = ''completed''")
  case True
  then show ?thesis using assms that
    by (auto simp: finish_materialized_task_def Let_def case_prod_beta split: option.splits sum.splits if_splits)
next
  case False
  then show ?thesis using assms that
    by (auto simp: finish_materialized_task_def Let_def case_prod_beta split: option.splits sum.splits if_splits)
qed

lemma finish_not_parked:
  assumes "get_task tid b = Some row" and "t_state row \<noteq> Deferred"
  shows "\<exists>e c'. finish_materialized_task o1 o2 now tid mid job status rref rdir c b = (Inl e, c', b)"
  using assms by (auto simp: finish_materialized_task_def Let_def case_prod_beta parked_for_def split: option.split)

lemma finish_once:
  assumes "brain_ok b" and "finish_materialized_task o1 o2 now tid mid job status rref rdir c b = (Inr (), c', b')"
  shows "\<exists>t row i. get_task tid b = Some row \<and> i \<in> set (outbox b) \<and> o_id i = mid \<and> o_task i = tid \<and>
    o_job i = Some job \<and> o_state i = Acknowledged \<and> parked_for i job row \<and>
    (status = ''completed'' \<or> status = ''failed'') \<and>
    (\<forall>j. get_task j b' = (if j = tid
       then Some (finish_update status t rref rdir job (t_seq row + 1) row)
       else get_task j b)) \<and>
    (\<exists>e c3. finish_materialized_task o3 o4 now2 tid mid2 job2 status2 rref2 rdir2 c2 b' = (Inl e, c3, b'))"
proof -
  obtain t and row :: task and i b1 where F: "status = ''completed'' \<or> status = ''failed''" "get_task tid b = Some row"
      "find (\<lambda>i. o_id i = mid \<and> o_task i = tid \<and> o_job i = Some job \<and> o_state i = Acknowledged) (outbox b) = Some i"
      "parked_for i job row"
    and upd: "update_tasks (\<lambda>r. t_id r = tid \<and> t_state r = Deferred \<and> t_reason r = ''materialized_awaiting_worker''
            \<and> t_owner r = None \<and> t_expires r = None \<and> t_fence r = t_fence row \<and> t_protocol r = v2 \<and> t_seq r = t_seq row)
          (finish_update status t rref rdir job (t_seq row + 1)) b = Inr (1, b1)"
    and b': "b' = record_transition tid Deferred (if status = ''completed'' then Completed else Failed)
          (if status = ''completed'' then ''compute_completed'' else ''compute_failed'') t (c_owner c)
          (t_fence row) (t_seq row + 1) b1"
    by (rule finish_InrD[OF assms(2)]) blast
  obtain r where r: "get_task tid b = Some r" and rows: "\<And>j. get_task j b1 = (if j = tid then
      Some (finish_update status t rref rdir job (t_seq row + 1) r) else get_task j b)"
    by (rule get_task_hit[OF assms(1) upd, of tid]) auto
  have [simp]: "r = row" using r F(2) by simp
  have again: "\<exists>e c3. finish_materialized_task o3 o4 now2 tid mid2 job2 status2 rref2 rdir2 c2 b' = (Inl e, c3, b')"
    by (rule finish_not_parked[of tid _ "finish_update status t rref rdir job (t_seq row + 1) row"])
       (simp_all add: b' rows)
  have rows': "\<forall>j. get_task j b' = (if j = tid
       then Some (finish_update status t rref rdir job (t_seq row + 1) row)
       else get_task j b)"
    by (simp add: b' rows)
  show ?thesis
    using F(1,2,4) find_SomeD[OF F(3)] again rows' by blast
qed

text \<open>A parked task is finished exactly once and only by the job of the generation that parked it:
  success means the compute status was terminal, the task was parked without a claim, and an
  acknowledged intent of the task's current token names the job; the task then ends as that status
  says, no other task changes, and finishing it again, by anyone and with any status, raises.\<close>

theorem finish_materialized_once:
  assumes "brain_ok b" and "finish_materialized_task o1 o2 now tid mid job status rref rdir c b = (Inr (), c', b')"
  shows "\<exists>t row i. get_task tid b = Some row \<and> i \<in> set (outbox b) \<and> o_id i = mid \<and> o_task i = tid \<and>
    o_job i = Some job \<and> o_state i = Acknowledged \<and> parked_for i job row \<and>
    (status = ''completed'' \<or> status = ''failed'') \<and>
    (\<forall>j. get_task j b' = (if j = tid
       then Some (finish_update status t rref rdir job (t_seq row + 1) row)
       else get_task j b)) \<and>
    (\<exists>e c3. finish_materialized_task o3 o4 now2 tid mid2 job2 status2 rref2 rdir2 c2 b' = (Inl e, c3, b'))"
  by (rule finish_once[OF assms])

text \<open>Recording an intent binds its id to one content: after a success the id names this task, its
  current token, path and digest; no task changes; every other intent keeps its content and at most
  becomes superseded, and only when it is an older generation of this task; recording the id again
  with another path or digest raises, whoever asks.\<close>

theorem prepare_binds_content:
  assumes "outbox_ok b" and "prepare_materialization o1 o2 now tid mid path digest spec prio c b = (Inr (), c', b')"
    and "(path2, digest2) \<noteq> (path, digest)"
  shows "tasks b' = tasks b \<and>
    (\<exists>row i. get_task tid b = Some row \<and> get_outbox mid b' = Some i \<and> o_task i = tid \<and> o_fence i = t_fence row \<and>
       o_path i = path \<and> o_digest i = digest \<and>
       (\<forall>m x. m \<noteq> mid \<and> get_outbox m b = Some x \<longrightarrow>
          get_outbox m b' = Some x \<or>
          o_task x = tid \<and> o_fence x \<noteq> t_fence row \<and> (\<exists>t. get_outbox m b' = Some (x\<lparr>o_state := Superseded, o_updated := t\<rparr>)))) \<and>
    (\<exists>e c3. prepare_materialization o3 o4 now2 tid mid path2 digest2 spec2 prio2 c2 b' = (Inl e, c3, b'))"
proof -
  let ?c2 = "snd (effective_now o2 (Some (fst (effective_now o1 now c))) (snd (effective_now o1 now c)))"
  let ?t = "fst (effective_now o2 (Some (fst (effective_now o1 now c))) (snd (effective_now o1 now c)))"
  obtain row where row: "get_task tid b = Some row" "running_claim ?c2 ?t row"
    using assms(2) by (auto simp: prepare_materialization_def Let_def case_prod_beta split: option.splits if_splits)
  have reject: "\<exists>e c3. prepare_materialization o3 o4 now2 tid mid path2 digest2 spec2 prio2 c2 b2 = (Inl e, c3, b2)"
    if "get_task tid b2 = Some row" "get_outbox mid b2 = Some i" "o_path i = path" "o_digest i = digest" for b2 i
    using that assms(3) by (auto simp: prepare_materialization_def Let_def case_prod_beta)
  show ?thesis
  proof (cases "get_outbox mid b")
    case (Some i)
    then have "b' = b" "o_task i = tid" "o_fence i = t_fence row" "o_path i = path" "o_digest i = digest"
      using assms(2) row by (auto simp: prepare_materialization_def Let_def case_prod_beta split: if_splits)
    with Some row(1) reject[OF row(1) Some] show ?thesis by blast
  next
    case None
    define p where "p = (\<lambda>i :: outbox_row. o_task i = tid \<and> replayable (o_state i) \<and> o_fence i \<noteq> t_fence row)"
    define f where "f = (\<lambda>i :: outbox_row. i\<lparr>o_state := Superseded, o_updated := ?t\<rparr>)"
    define new where "new = \<lparr>o_id = mid, o_task = tid, o_fence = t_fence row, o_path = path,
        o_digest = digest, o_spec = spec, o_priority = prio, o_state = Pending, o_job = None, o_created = ?t, o_updated = ?t\<rparr>"
    have b': "b' = b\<lparr>outbox := update_where p f (outbox b) @ [new]\<rparr>"
      using assms(2) row None unfolding p_def f_def new_def
      by (simp add: prepare_materialization_def Let_def case_prod_beta)
    have get: "get_outbox m b' = (case get_outbox m b of Some x \<Rightarrow> Some (if p x then f x else x)
        | None \<Rightarrow> if m = mid then Some new else None)" for m
      using find_update_where[of o_id f m p "outbox b"]
      by (simp add: b' get_outbox_def find_append f_def new_def split: option.split)
    have new: "get_outbox mid b' = Some new" using get[of mid] None by simp
    have "get_task tid b' = Some row" "tasks b' = tasks b" using row(1) by (simp_all add: b')
    moreover have "get_outbox m b' = Some x \<or> o_task x = tid \<and> o_fence x \<noteq> t_fence row \<and>
        (\<exists>t. get_outbox m b' = Some (x\<lparr>o_state := Superseded, o_updated := t\<rparr>))"
      if "m \<noteq> mid \<and> get_outbox m b = Some x" for m x
      using get[of m] that by (auto simp: p_def f_def)
    ultimately show ?thesis
      using row(1) new reject[of b', OF _ new] by (auto simp: new_def)
  qed
qed

text \<open>Dispatch marks and replays need the live claim of the intent's own generation: without it both
  marks and the replay authorization raise and the database is unchanged; with it a dispatch mark
  succeeds on every replayable intent.\<close>

theorem marks_need_live_claim:
  assumes "brain_ok b" and "outbox_ok b" and "get_outbox mid b = Some i"
  shows "(\<not> task_holds b (o_task i) (c_owner c) (o_fence i) \<and> c_owner c \<noteq> [] \<longrightarrow>
       (\<exists>e c'. mark_materialization_dispatched o1 o2 now mid job c b = (Inl e, c', b)) \<and>
       (\<exists>e c'. mark_materialization_ambiguous o1 o2 now mid c b = (Inl e, c', b)) \<and>
       (\<exists>e c'. authorize_materialization_replay o1 now mid c b = (Inl e, c'))) \<and>
    (replayable (o_state i) \<and>
       (\<exists>r. get_task (o_task i) b = Some r \<and> t_state r = Running \<and> t_fence r = o_fence i \<and>
          holds_claim c (fst (effective_now o2 (Some (fst (effective_now o1 now c))) (snd (effective_now o1 now c)))) r) \<longrightarrow>
       (\<exists>t c'. mark_materialization_dispatched o1 o2 now mid job c b =
          (Inr (), c', b\<lparr>outbox := update_where (\<lambda>x. o_id x = mid)
             (\<lambda>x. x\<lparr>o_state := Dispatched, o_job := Some job, o_updated := t\<rparr>) (outbox b)\<rparr>)))"
proof (intro conjI impI)
  assume no: "\<not> task_holds b (o_task i) (c_owner c) (o_fence i) \<and> c_owner c \<noteq> []"
  have auth: "\<exists>e. materialization_authority mid t (snd (effective_now o1 now c)) b = Some e" for t
  proof (cases "get_task (o_task i) b")
    case (Some r)
    with no assms(3) show ?thesis
      by (cases "t_owner r") (auto simp: materialization_authority_def task_holds_def)
  qed (simp add: materialization_authority_def assms(3))
  show "\<exists>e c'. mark_materialization_dispatched o1 o2 now mid job c b = (Inl e, c', b)"
    "\<exists>e c'. mark_materialization_ambiguous o1 o2 now mid c b = (Inl e, c', b)"
    "\<exists>e c'. authorize_materialization_replay o1 now mid c b = (Inl e, c')"
    using auth[of "fst (effective_now o1 now c)"]
    by (auto simp: mark_materialization_dispatched_def mark_materialization_ambiguous_def mark_materialization_def
        authorize_materialization_replay_def case_prod_beta)
next
  let ?t1 = "fst (effective_now o1 now c)" and ?c1 = "snd (effective_now o1 now c)"
  let ?t = "fst (effective_now o2 (Some ?t1) ?c1)" and ?c2 = "snd (effective_now o2 (Some ?t1) ?c1)"
  assume yes: "replayable (o_state i) \<and>
       (\<exists>r. get_task (o_task i) b = Some r \<and> t_state r = Running \<and> t_fence r = o_fence i \<and> holds_claim c ?t r)"
  then obtain r where r: "get_task (o_task i) b = Some r" "t_state r = Running" "t_fence r = o_fence i" "holds_claim c ?t r"
    by blast
  have id: "t_id r = o_task i" "r \<in> set (tasks b)" using get_task_mem[OF r(1)] by simp_all
  have "?t1 \<le> ?t" by (simp add: effective_now_def Let_def)
  then have "materialization_authority mid ?t1 ?c1 b = None"
    using r id assms(3) by (auto simp: materialization_authority_def holds_claim_def)
  moreover have "rowcount (\<lambda>x. o_id x = mid \<and> replayable (o_state x)
      \<and> list_ex (\<lambda>r. claim_row ?c2 (o_task x) (o_fence x) r \<and> expires_after ?t r) (tasks b)) (outbox b) = 1"
    and "update_where (\<lambda>x. o_id x = mid \<and> replayable (o_state x)
      \<and> list_ex (\<lambda>r. claim_row ?c2 (o_task x) (o_fence x) r \<and> expires_after ?t r) (tasks b)) f (outbox b) =
      update_where (\<lambda>x. o_id x = mid) f (outbox b)" for f
  proof -
    let ?q = "\<lambda>x. replayable (o_state x)
      \<and> list_ex (\<lambda>r. claim_row ?c2 (o_task x) (o_fence x) r \<and> expires_after ?t r) (tasks b)"
    have "row_ok r" using brain_okD(4)[OF assms(1) id(2)] .
    then have "?q i" using yes r id
      by (auto simp: list_ex_iff claim_row_def expires_after_def holds_claim_def row_ok_def)
    have "distinct (map o_id (outbox b))" using assms(2) by (simp add: outbox_ok_def)
    from rowcount_key[OF this, of mid ?q] \<open>?q i\<close> assms(3)
    show "rowcount (\<lambda>x. o_id x = mid \<and> ?q x) (outbox b) = 1" by (simp add: get_outbox_def)
    have same: "x = i" if "x \<in> set (outbox b)" "o_id x = mid" for x
      using get_outbox_iff[OF assms(2), of mid x] assms(3) that by simp
    show "update_where (\<lambda>x. o_id x = mid \<and> ?q x) f (outbox b) = update_where (\<lambda>x. o_id x = mid) f (outbox b)"
      unfolding update_where_def
    proof (rule map_cong[OF refl])
      fix x assume "x \<in> set (outbox b)"
      then show "(if o_id x = mid \<and> ?q x then f x else x) = (if o_id x = mid then f x else x)"
        using same \<open>?q i\<close> by (cases "o_id x = mid") auto
    qed
  qed
  ultimately show "\<exists>t c'. mark_materialization_dispatched o1 o2 now mid job c b =
      (Inr (), c', b\<lparr>outbox := update_where (\<lambda>x. o_id x = mid)
         (\<lambda>x. x\<lparr>o_state := Dispatched, o_job := Some job, o_updated := t\<rparr>) (outbox b)\<rparr>)"
    by (simp add: mark_materialization_dispatched_def mark_materialization_def case_prod_beta) blast
qed

section \<open>Payload release\<close>

abbreviation drop_text :: "outbox_row \<Rightarrow> outbox_row" where
  "drop_text i \<equiv> i\<lparr>o_spec := []\<rparr>"

lemma apply_release_ids:
  assumes "distinct (map o_id rows)" and "apply_release plan rows = Inr rows'"
  shows "rows' = update_where (\<lambda>i. o_id i \<in> fst ` set plan) drop_text rows"
  using assms
proof (induction plan arbitrary: rows)
  case Nil
  then show ?case by (simp add: update_where_def)
next
  case (Cons x plan)
  obtain mid digest len where x: "x = (mid, digest, len)" by (cases x)
  let ?p = "\<lambda>i. o_id i = mid \<and> o_state i = Acknowledged \<and> o_digest i = digest \<and> length (o_spec i) = len"
  have rel: "apply_release plan (update_where ?p drop_text rows) = Inr rows'" and one: "rowcount ?p rows = 1"
    using Cons.prems(2) by (simp_all add: x Let_def split: if_splits)
  have dist: "distinct (map o_id (update_where ?p drop_text rows))"
    using Cons.prems(1) by (simp add: map_key_update_where)
  obtain i where i: "i \<in> set rows" "?p i" using one rowcount_1_ex by blast
  have "j = i" if "j \<in> set rows" "o_id j = mid" for j
    using Cons.prems(1) that i by (auto simp: distinct_map dest: inj_onD)
  then have "?p j = (o_id j = mid)" if "j \<in> set rows" for j using i(2) that by blast
  then have "update_where ?p drop_text rows = update_where (\<lambda>i. o_id i = mid) drop_text rows"
    unfolding update_where_def by (intro map_cong[OF refl]) simp
  with Cons.IH[OF dist rel] show ?case
    by (auto simp: x update_where_def)
qed

definition text_verified :: "(string \<Rightarrow> string) \<Rightarrow> (string \<Rightarrow> artifact) option \<Rightarrow> outbox_row \<Rightarrow> bool" where
  "text_verified sha fs i \<longleftrightarrow> sha (o_spec i) = o_digest i \<and>
     (case fs of None \<Rightarrow> True | Some art \<Rightarrow> (\<exists>text. art (o_path i) = Content text \<and> sha text = o_digest i))"

lemma plan_release_InrD:
  "plan_release sha fs rows = Inr plan \<Longrightarrow> fst ` set plan = o_id ` set rows \<and> (\<forall>i \<in> set rows. text_verified sha fs i)"
proof (induction rows arbitrary: plan)
  case (Cons i rows)
  from Cons.prems obtain plan' where "plan_release sha fs rows = Inr plan'" "plan = (o_id i, sha (o_spec i), length (o_spec i)) # plan'"
    "text_verified sha fs i"
    by (auto simp: Let_def text_verified_def split: if_splits option.splits artifact.splits sum.splits)
  with Cons.IH show ?case by simp
qed simp

text \<open>Releasing payload copies loses nothing: whatever the call reports, either the database is
  unchanged, or exactly the payload text of acknowledged intents is cleared, and every cleared text
  hashed to the digest its intent records (and so did the spec artifact on disk, when a root was
  given); ids, digests, links, tasks and all other tables stay.  A dry run changes nothing.\<close>

theorem release_drops_only_verified_text:
  assumes "distinct (map o_id (outbox b))"
    and "release_payloads sha fs plan_hash integrity ro app expected compaction b = (res, b')" and "b' \<noteq> b"
  shows "app \<and> b' = b\<lparr>outbox := update_where (\<lambda>i. o_state i = Acknowledged \<and> o_spec i \<noteq> []) drop_text (outbox b)\<rparr> \<and>
    (\<forall>i \<in> set (outbox b). o_state i = Acknowledged \<and> o_spec i \<noteq> [] \<longrightarrow> text_verified sha fs i)"
proof -
  obtain plan rows where plan: "plan_release sha fs (release_candidates b) = Inr plan"
    and rows: "apply_release plan (outbox b) = Inr rows" "b' = b\<lparr>outbox := rows\<rparr>" and "app"
    using assms(2,3) by (auto simp: release_payloads_def Let_def split: if_splits sum.splits)
  note P = plan_release_InrD[OF plan]
  have cands: "set (release_candidates b) = {i \<in> set (outbox b). o_state i = Acknowledged \<and> o_spec i \<noteq> []}"
    by (auto simp: release_candidates_def)
  have "o_id i \<in> fst ` set plan \<longleftrightarrow> o_state i = Acknowledged \<and> o_spec i \<noteq> []" if "i \<in> set (outbox b)" for i
    using P cands that assms(1) by (auto simp: distinct_map dest: inj_onD)
  then have "update_where (\<lambda>i. o_id i \<in> fst ` set plan) drop_text (outbox b) =
      update_where (\<lambda>i. o_state i = Acknowledged \<and> o_spec i \<noteq> []) drop_text (outbox b)"
    unfolding update_where_def by (intro map_cong[OF refl]) simp
  then show ?thesis
    using apply_release_ids[OF assms(1) rows(1)] rows(2) \<open>app\<close> P cands by auto
qed

section \<open>Witnesses\<close>

text \<open>The claimed task of \<open>Brain_Claims\<close> with a recorded intent, and parked on job 5.\<close>

definition demo_intent :: outbox_row where
  "demo_intent = \<lparr>o_id = ''m'', o_task = 1, o_fence = 1, o_path = ''p'', o_digest = ''d'', o_spec = ''s'',
     o_priority = 20, o_state = Pending, o_job = None, o_created = 120, o_updated = 120\<rparr>"

definition demo_prepared :: brain where
  "demo_prepared = demo_running\<lparr>outbox := [demo_intent]\<rparr>"

definition demo_parked :: brain where
  "demo_parked = demo_running\<lparr>tasks := [park_task 5 130 2 demo_running_task],
     outbox := [acknowledge_outbox 5 130 demo_intent]\<rparr>"

definition demo_adoption :: adoption where
  "demo_adoption = \<lparr>ad_task = 1, ad_fence = 1, ad_seq = 1, ad_mid = ''m'', ad_job = 5, ad_path = ''p'',
     ad_digest = ''d'', ad_status = ''completed''\<rparr>"

definition demo_binding :: queue_binding where
  "demo_binding = \<lparr>bind_job = 5, bind_path = ''p'', bind_digest = ''d'', bind_status = ''completed'',
     bind_queue_mid = Some ''m'', bind_queue_digest = Some ''d''\<rparr>"

definition demo_copied :: brain where
  "demo_copied = demo_running\<lparr>outbox := [demo_intent\<lparr>o_state := Acknowledged, o_job := Some 5, o_digest := ''s''\<rparr>]\<rparr>"

lemmas demo_outbox_defs = demo_intent_def demo_prepared_def demo_parked_def demo_adoption_def demo_binding_def
  park_task_def acknowledge_outbox_def

lemma demo_outbox_ok: "brain_ok demo_prepared" "outbox_ok demo_prepared" "brain_ok demo_parked" "outbox_ok demo_running"
  by (simp_all add: demo_outbox_defs demo_brain_defs brain_ok_def audit_ok_def unique_active_keys_def row_ok_def
      outbox_ok_def intent_ok_def task_fence_def get_task_def)

lemma demo_prepared_get: "get_task 1 demo_prepared = Some demo_running_task" "get_outbox ''m'' demo_prepared = Some demo_intent"
    "get_task 1 demo_running = Some demo_running_task"
  using demo_get(2) by (simp_all add: demo_prepared_def get_outbox_def demo_intent_def)

lemma result_triple: "fst x = r \<Longrightarrow> \<exists>c' b'. x = (r, c', b')"
  by (cases x) auto

lemmas demo_eval = Let_def effective_now_def clock_max_def update_tasks_def update_guard_def
  unique_active_keys_def guarded_columns_def claim_row_def expires_after_def running_claim_def

theorem commit_materialization_exact_witness:
  "\<exists>c' b'. commit_materialization 150 150 None 1 ''m'' 5 demo_holder demo_prepared = (Inr (), c', b') \<and>
     get_outbox ''m'' b' = Some (acknowledge_outbox 5 150 demo_intent)"
proof -
  have "fst (commit_materialization 150 150 None 1 ''m'' 5 demo_holder demo_prepared) = Inr ()"
    by (simp add: commit_materialization_def demo_prepared_get)
       (simp add: demo_eval demo_outbox_defs demo_brain_defs)
  from result_triple[OF this] obtain c' b' where
    r: "commit_materialization 150 150 None 1 ''m'' 5 demo_holder demo_prepared = (Inr (), c', b')" by blast
  from commit_materialization_exact[OF demo_outbox_ok(1,2) r] show ?thesis
    using r by (auto simp: demo_prepared_get effective_now_def clock_max_def demo_holder_def demo_conn_def Let_def)
qed

theorem finish_materialized_once_witness:
  "\<exists>c' b'. finish_materialized_task 200 200 None 1 ''m'' 5 ''completed'' None None demo_conn demo_parked = (Inr (), c', b') \<and>
     (\<exists>e c3. finish_materialized_task 210 210 None 1 ''m'' 5 ''failed'' None None demo_conn b' = (Inl e, c3, b'))"
proof -
  have "fst (finish_materialized_task 200 200 None 1 ''m'' 5 ''completed'' None None demo_conn demo_parked) = Inr ()"
    by (simp add: finish_materialized_task_def demo_eval demo_outbox_defs demo_brain_defs parked_for_def get_task_def)
  from result_triple[OF this] obtain c' b' where
    r: "finish_materialized_task 200 200 None 1 ''m'' 5 ''completed'' None None demo_conn demo_parked = (Inr (), c', b')" by blast
  from finish_materialized_once[OF demo_outbox_ok(3) r] show ?thesis using r by blast
qed

theorem prepare_binds_content_witness:
  "\<exists>c' b'. prepare_materialization 120 120 None 1 ''m'' ''p'' ''d'' ''s'' 20 demo_holder demo_running = (Inr (), c', b') \<and>
     (\<exists>e c3. prepare_materialization 121 121 None 1 ''m'' ''p'' ''other'' ''s'' 20 demo_holder b' = (Inl e, c3, b'))"
proof -
  have "fst (prepare_materialization 120 120 None 1 ''m'' ''p'' ''d'' ''s'' 20 demo_holder demo_running) = Inr ()"
    by (simp add: prepare_materialization_def demo_prepared_get)
       (simp add: demo_eval demo_brain_defs get_outbox_def)
  from result_triple[OF this] obtain c' b' where
    r: "prepare_materialization 120 120 None 1 ''m'' ''p'' ''d'' ''s'' 20 demo_holder demo_running = (Inr (), c', b')" by blast
  have "(''p'', ''other'') \<noteq> (''p'', ''d'')" by simp
  from prepare_binds_content[OF demo_outbox_ok(4) r this] show ?thesis using r by blast
qed

theorem marks_need_live_claim_witness:
  "\<exists>e c'. mark_materialization_dispatched 120 120 None ''m'' 5 (demo_conn\<lparr>c_owner := ''w2''\<rparr>) demo_prepared = (Inl e, c', demo_prepared)"
proof -
  have "\<not> task_holds demo_prepared (o_task demo_intent) (c_owner (demo_conn\<lparr>c_owner := ''w2''\<rparr>)) (o_fence demo_intent)"
    using demo_prepared_get(1) by (simp add: task_holds_def demo_intent_def demo_running_task_def)
  then show ?thesis
    using marks_need_live_claim[OF demo_outbox_ok(1,2) demo_prepared_get(2), where c = "demo_conn\<lparr>c_owner := ''w2''\<rparr>"]
    by simp
qed

theorem release_drops_only_verified_text_witness:
  "text_verified (\<lambda>s. s) None (demo_intent\<lparr>o_state := Acknowledged, o_job := Some 5, o_digest := ''s''\<rparr>)"
proof -
  let ?i = "demo_intent\<lparr>o_state := Acknowledged, o_job := Some 5, o_digest := ''s''\<rparr>"
  let ?x = "release_payloads (\<lambda>s. s) None (\<lambda>_. ''h'') [] False True ''h'' False demo_copied"
  have b': "snd ?x = demo_copied\<lparr>outbox := [drop_text ?i]\<rparr>"
    by (simp add: release_payloads_def release_candidates_def demo_copied_def demo_intent_def)
  have "snd ?x \<noteq> demo_copied"
    unfolding b' by (simp add: demo_copied_def demo_intent_def demo_brain_defs)
  moreover have "distinct (map o_id (outbox demo_copied))" by (simp add: demo_copied_def)
  moreover have "?x = (fst ?x, snd ?x)" by simp
  ultimately have "\<forall>i \<in> set (outbox demo_copied). o_state i = Acknowledged \<and> o_spec i \<noteq> [] \<longrightarrow> text_verified (\<lambda>s. s) None i"
    using release_drops_only_verified_text by blast
  then show ?thesis by (simp add: demo_copied_def demo_intent_def)
qed

end
