(* ===== verification/Recovery_Claims.thy ===== *)
theory Recovery_Claims
  imports Recovery Materialization_Safety Compute_Claims
begin

text \<open>
  What a recovery plan guarantees across the farm database and the compute database: applying any
  plan is exact, and a plan built from the two databases is accepted by them.
\<close>

section \<open>Values of a plan\<close>

lemma str_of_json_JStr [simp]: "str_of_json rep (JStr s) = s"
  by (simp add: str_of_json_def)

lemma int_of_json_JInt [simp]: "int_of_json it (JInt n) = Inr n"
  by (simp add: int_of_json_def)

lemma recovery_plan_of_gets [simp]:
  "jget ''schema'' (recovery_plan_of sha resolve f c t e) = JStr recovery_schema"
  "jget ''farm_database'' (recovery_plan_of sha resolve f c t e) = JStr (resolve f)"
  "jget ''compute_database'' (recovery_plan_of sha resolve f c t e) = JStr (resolve c)"
  "jget ''entry'' (recovery_plan_of sha resolve f c t e) = e"
  by (simp_all add: recovery_plan_of_def Let_def)

lemma recovery_plan_of_digest [simp]:
  "jget ''plan_digest'' (recovery_plan_of sha resolve f c t e) =
     JStr (recovery_plan_digest sha (recovery_plan_of sha resolve f c t e))"
  by (simp add: recovery_plan_of_def recovery_plan_digest_def recovery_identity_def Let_def)

lemma recovery_entry_adoption:
  "adoption_of_entry rep it (recovery_entry row ob q) =
     Inr \<lparr>ad_task = t_id row, ad_fence = t_fence row,
          ad_seq = t_seq row - (if recovery_adopted row ob q then 1 else 0), ad_mid = o_id ob,
          ad_job = bind_job q, ad_path = o_path ob, ad_digest = o_digest ob, ad_status = bind_status q\<rparr>"
  by (simp add: adoption_of_entry_def recovery_entry_def)

lemma recovery_entry_adopted:
  "jget ''already_adopted'' (recovery_entry row ob q) = JBool (recovery_adopted row ob q)"
  by (simp add: recovery_entry_def)

lemma recovery_entry_of_plan: "entry_of_plan (recovery_plan_of sha resolve f c t (recovery_entry row ob q)) =
    Inr (recovery_entry row ob q)"
  by (simp add: entry_of_plan_def Let_def) (simp add: recovery_entry_def is_obj_def)

lemma built_plan_accepted:
  assumes "\<And>p. resolve (resolve p) = resolve p"
  shows "recovery_plan_error sha rep resolve f c (recovery_plan_digest sha (recovery_plan_of sha resolve f c t e))
           (recovery_plan_of sha resolve f c t e) = None"
  by (simp add: recovery_plan_error_def assms)

lemma queue_binding_of_SomeD:
  assumes "queue_binding_of mid q = Some qb"
  obtains m r where "bound_job mid q = Some (m, r)" and "m \<in> set (bindings q)" and "qm_id m = mid"
    and "get_job (qm_job m) q = Some r" and "bind_job qb = qm_job m" and "bind_path qb = qm_spec m"
    and "bind_digest qb = qm_digest m" and "bind_status qb = j_status r"
    and "bind_queue_mid qb = j_mid r" and "bind_queue_digest qb = j_digest r"
  using assms that
  by (auto simp: queue_binding_of_def bound_job_def dest!: find_SomeD split: option.splits)

section \<open>Outboxes of a plan\<close>

lemma recovery_outboxes_single:
  assumes "recovery_outboxes tid b = [ob]"
  shows "ob \<in> set (outbox b)" and "o_task ob = tid"
    and "i \<in> set (outbox b) \<Longrightarrow> o_task i = tid \<Longrightarrow> o_state i \<in> {Pending, Dispatched, Acknowledged} \<Longrightarrow> i = ob"
proof -
  have "set (recovery_outboxes tid b) = {ob}" using assms by simp
  then have s: "{i \<in> set (outbox b). o_task i = tid \<and> (o_state i = Pending \<or> o_state i = Dispatched \<or> o_state i = Acknowledged)} = {ob}"
    by (simp add: recovery_outboxes_def)
  then show "ob \<in> set (outbox b)" "o_task ob = tid" by auto
  show "i \<in> set (outbox b) \<Longrightarrow> o_task i = tid \<Longrightarrow> o_state i \<in> {Pending, Dispatched, Acknowledged} \<Longrightarrow> i = ob"
    using s by auto
qed

lemma single_replayable:
  assumes "outbox_ok b" and "recovery_outboxes tid b = [ob]" and "replayable (o_state ob)"
  shows "rowcount (\<lambda>i. o_task i = tid \<and> replayable (o_state i)) (outbox b) = 1"
proof -
  note S = recovery_outboxes_single[OF assms(2)]
  have "(o_task i = tid \<and> replayable (o_state i)) = (o_id i = o_id ob \<and> True)" if mem: "i \<in> set (outbox b)" for i
  proof
    assume "o_task i = tid \<and> replayable (o_state i)"
    then show "o_id i = o_id ob \<and> True" using S(3)[OF mem] by (cases "o_state i") simp_all
  next
    assume "o_id i = o_id ob \<and> True"
    then have "i = ob" using distinct_key_eq[of o_id "outbox b" i ob] assms(1) mem S(1) by (simp add: outbox_ok_def)
    then show "o_task i = tid \<and> replayable (o_state i)" using S(2) assms(3) by simp
  qed
  then have "rowcount (\<lambda>i. o_task i = tid \<and> replayable (o_state i)) (outbox b) =
      rowcount (\<lambda>i. o_id i = o_id ob \<and> True) (outbox b)"
    unfolding rowcount_def by (intro arg_cong[where f = length] filter_cong) auto
  then show ?thesis
    using rowcount_key[of o_id "outbox b" "o_id ob" "\<lambda>_. True"] assms(1) S(1) get_outbox_iff[OF assms(1), of "o_id ob" ob]
    by (simp add: outbox_ok_def get_outbox_def)
qed

section \<open>Opening the farm database\<close>

text \<open>What opening leaves: the two markers, and no priority of the legacy scale.\<close>

definition settled :: "brain \<Rightarrow> bool" where
  "settled b \<longleftrightarrow> meta b ''fencing_protocol'' = Some (MText ''v2'') \<and> meta b ''priority_scale'' = Some (MText ''v2'') \<and>
     (\<forall>r \<in> set (tasks b). \<not> (1 \<le> t_priority r \<and> t_priority r \<le> 4)) \<and>
     (\<forall>e \<in> set (events b). \<not> (1 \<le> i_priority e \<and> i_priority e \<le> 4))"

lemma update_where_none: "(\<And>r. r \<in> set rows \<Longrightarrow> \<not> p r) \<Longrightarrow> update_where p f rows = rows"
  by (simp add: update_where_def map_idI)

lemma migrated_priority_settled: "\<not> (1 \<le> migrated_priority p \<and> migrated_priority p \<le> 4)"
  by (simp add: migrated_priority_def)

lemma settled_opens: "settled b \<Longrightarrow> open_farm_db b = Inr b"
  by (simp add: settled_def open_farm_db_def migrate_priority_scale_def update_where_none fun_upd_idem Let_def)

lemma opened_settled:
  assumes "open_farm_db b = Inr b0"
  shows "settled b0"
proof -
  have b0: "b0 = (migrate_priority_scale b)\<lparr>meta := (meta (migrate_priority_scale b))(''fencing_protocol'' \<mapsto> MText ''v2'')\<rparr>"
    using assms by (auto simp: open_farm_db_def Let_def split: if_splits)
  show ?thesis
    using migrated_priority_settled by (auto simp: b0 settled_def migrate_priority_scale_def set_update_where)
qed

lemma open_ok:
  assumes "open_farm_db b = Inr b0" and "brain_ok b" and "outbox_ok b"
  shows "brain_ok b0" and "outbox_ok b0"
proof -
  have b0: "b0 = (brain_step Op_Migrate b)\<lparr>meta := (meta (brain_step Op_Migrate b))(''fencing_protocol'' \<mapsto> MText ''v2'')\<rparr>"
    using assms(1) by (auto simp: open_farm_db_def Let_def split: if_splits)
  show "brain_ok b0" unfolding b0 using brain_table.inv_step[OF assms(2), of Op_Migrate] by simp
  have "outbox_ok (brain_step Op_Migrate b)"
    by (rule outbox_ok_same[OF brain_step_evolves brain_step_outbox assms(3)]) simp
  then show "outbox_ok b0" unfolding b0 by (simp add: outbox_ok_def intent_ok_def task_fence_def)
qed

section \<open>Applying any plan\<close>

text \<open>The instant of an adoption, and the database after it: the task parked on the job, its intent
  acknowledged, one transition recorded, and all else as before.\<close>

definition adoption_time :: "time \<Rightarrow> time \<Rightarrow> time \<Rightarrow> time \<Rightarrow> time option \<Rightarrow> time" where
  "adoption_time o0 o1 o2 o3 now =
     (let (t1, c1) = effective_now o2 (Some (case now of None \<Rightarrow> o0 | Some t \<Rightarrow> t)) (recovery_conn o1)
      in fst (effective_now o3 (Some t1) c1))"

definition adopted_brain :: "adoption \<Rightarrow> time \<Rightarrow> task \<Rightarrow> brain \<Rightarrow> brain" where
  "adopted_brain a t row b =
     b\<lparr>tasks := update_where (\<lambda>r. t_id r = ad_task a) (park_task (ad_job a) t (ad_seq a + 1)) (tasks b),
       outbox := update_where (\<lambda>i. o_id i = ad_mid a) (acknowledge_outbox (ad_job a) t) (outbox b),
       transitions := transitions b @
         [\<lparr>tr_task = ad_task a, tr_from = Running, tr_to = Deferred, tr_reason = ''recovered_existing_compute_materialization'',
           tr_owner = str_or (t_owner row), tr_fence = ad_fence a, tr_seq = ad_seq a + 1, tr_at = t\<rparr>]\<rparr>"

lemma update_where_key:
  assumes "distinct (map key rows)" and "find (\<lambda>r. key r = k) rows = Some row" and "p row" and "\<And>r. p r \<Longrightarrow> key r = k"
  shows "update_where p f rows = update_where (\<lambda>r. key r = k) f rows"
proof -
  have "key row = k" using find_SomeD[OF assms(2)] by simp
  then have "update_where (\<lambda>r. key r = k) f rows = update_where (\<lambda>r. r = row) f rows"
    by (intro update_where_single(2)[where key = key and k = k and p = "\<lambda>r. key r = k", OF assms(1,2)]) simp_all
  moreover have "update_where p f rows = update_where (\<lambda>r. r = row) f rows"
    using assms(4) by (intro update_where_single(2)[where key = key and p = p, OF assms(1,2,3)])
  ultimately show ?thesis by simp
qed

lemma adopt_effect:
  assumes ok: "brain_ok b" "outbox_ok b" and run: "adopt_expired_materialization o2 o3 (Some t0) a q (recovery_conn o1) b = (Inr n, c', b')"
    and t0: "t0 = (case now of None \<Rightarrow> o0 | Some t \<Rightarrow> t)" and t: "t = adoption_time o0 o1 o2 o3 now"
  obtains row i where "get_task (ad_task a) b = Some row" and "get_outbox (ad_mid a) b = Some i" and "o_task i = ad_task a"
    and "n = 0 \<and> b' = b \<and> already_adopted a row i \<or>
      n = 1 \<and> \<not> adoption_stale a t row i b \<and> (\<exists>e. t_expires row = Some e \<and> e \<le> t) \<and> b' = adopted_brain a t row b"
proof -
  have time: "fst (effective_now o3 (Some (fst (effective_now o2 (Some t0) (recovery_conn o1))))
      (snd (effective_now o2 (Some t0) (recovery_conn o1)))) = t"
    by (simp add: t t0 adoption_time_def case_prod_beta)
  obtain row i where D: "get_task (ad_task a) b = Some row" "get_outbox (ad_mid a) b = Some i" "o_task i = ad_task a"
    and cases: "n = 0 \<and> b' = b \<and> already_adopted a row i \<or>
      (\<exists>b1. n = 1 \<and> \<not> already_adopted a row i \<and> \<not> adoption_stale a t row i b \<and>
         update_tasks (adopt_row a t) (park_task (ad_job a) t (ad_seq a + 1)) b = Inr (1, b1) \<and>
         rowcount (adopt_target a) (outbox b) = 1 \<and>
         b' = (record_transition (ad_task a) Running Deferred ''recovered_existing_compute_materialization'' t
                 (str_or (t_owner row)) (ad_fence a) (ad_seq a + 1) b1)
               \<lparr>outbox := update_where (adopt_target a) (acknowledge_outbox (ad_job a) t) (outbox b)\<rparr>)"
    by (rule adopt_InrD[OF run]) (auto simp: time)
  show ?thesis
  proof (rule that[OF D])
    from cases show "n = 0 \<and> b' = b \<and> already_adopted a row i \<or>
      n = 1 \<and> \<not> adoption_stale a t row i b \<and> (\<exists>e. t_expires row = Some e \<and> e \<le> t) \<and> b' = adopted_brain a t row b"
    proof (elim disjE exE conjE)
      fix b1 assume n: "n = 1" and fresh: "\<not> adoption_stale a t row i b"
        and upd: "update_tasks (adopt_row a t) (park_task (ad_job a) t (ad_seq a + 1)) b = Inr (1, b1)"
        and b': "b' = (record_transition (ad_task a) Running Deferred ''recovered_existing_compute_materialization'' t
                 (str_or (t_owner row)) (ad_fence a) (ad_seq a + 1) b1)
               \<lparr>outbox := update_where (adopt_target a) (acknowledge_outbox (ad_job a) t) (outbox b)\<rparr>"
      obtain e where e: "t_expires row = Some e"
        using brain_okD(4)[OF ok(1)] get_task_mem[OF D(1)] fresh by (auto simp: row_ok_def adoption_stale_def)
      have hit: "adopt_row a t row" using fresh e get_task_mem[OF D(1)] by (auto simp: adopt_row_def adoption_stale_def)
      have target: "adopt_target a i"
        using fresh D(2,3) get_outbox_iff[OF ok(2)] by (auto simp: adopt_target_def adoption_stale_def)
      have "update_where (adopt_row a t) f (tasks b) = update_where (\<lambda>r. t_id r = ad_task a) f (tasks b)" for f
        using brain_okD(1)[OF ok(1)] D(1) hit
        by (intro update_where_key[where row = row]) (simp_all add: get_task_def adopt_row_def)
      moreover have "update_where (adopt_target a) f (outbox b) = update_where (\<lambda>i. o_id i = ad_mid a) f (outbox b)" for f
        using ok(2) D(2) target
        by (intro update_where_key[where row = i]) (simp_all add: outbox_ok_def get_outbox_def adopt_target_def)
      ultimately have "b' = adopted_brain a t row b"
        using b' update_tasks_InrD(1)[OF upd] by (simp add: adopted_brain_def record_transition_def)
      moreover have "e \<le> t" using hit e by (simp add: adopt_row_def)
      ultimately show ?thesis using n fresh e by blast
    qed simp
  qed
qed

lemma adopt_settled:
  assumes "settled b" and "brain_ok b" and "outbox_ok b"
    and "adopt_expired_materialization o2 o3 (Some (case now of None \<Rightarrow> o0 | Some t \<Rightarrow> t)) a q (recovery_conn o1) b = (Inr n, c', b')"
  shows "settled b'"
proof -
  obtain row where "b' = b \<or> b' = adopted_brain a (adoption_time o0 o1 o2 o3 now) row b"
    by (rule adopt_effect[OF assms(2-4) refl refl]) blast
  then show ?thesis
    using assms(1) by (auto simp: settled_def adopted_brain_def set_update_where park_task_def)
qed

lemma recovery_apply_cases:
  assumes "recovery_apply_plan sha rep it resolve farm compute o0 o1 o2 o3 plan expected now b q = (res, b')"
  obtains e where "res = Inl e" and "b' = b"
  | e where "recovery_plan_error sha rep resolve farm compute expected plan = None" and "res = Inl e" and "open_farm_db b = Inr b'"
  | b0 entry a where "recovery_plan_error sha rep resolve farm compute expected plan = None"
    and "entry_of_plan plan = Inr entry" and "open_farm_db b = Inr b0" and "adoption_of_entry rep it entry = Inr a"
    and "\<exists>c'. adopt_expired_materialization o2 o3 (Some (case now of None \<Rightarrow> o0 | Some t \<Rightarrow> t)) a
           (queue_binding_of (ad_mid a) q) (recovery_conn o1) b0 = (res, c', b')"
  using assms
  by (auto simp: recovery_apply_plan_def Let_def split: option.splits sum.splits prod.splits)

lemma recovery_apply_adopts:
  assumes "recovery_plan_error sha rep resolve farm compute expected plan = None"
    and "entry_of_plan plan = Inr entry" and "open_farm_db b = Inr b0" and "adoption_of_entry rep it entry = Inr a"
    and "adopt_expired_materialization o2 o3 (Some (case now of None \<Rightarrow> o0 | Some t \<Rightarrow> t)) a
           (queue_binding_of (ad_mid a) q) (recovery_conn o1) b0 = (res, c', b')"
  shows "recovery_apply_plan sha rep it resolve farm compute o0 o1 o2 o3 plan expected now b q = (res, b')"
  using assms by (simp add: recovery_apply_plan_def)

text \<open>C5 Applying a recovery plan is exact and idempotent, whatever plan it is given.  A plan that is refused changes
  nothing, a later failure nothing but what opening the database does (it translates legacy priorities and writes two
  markers).  A success means the plan hashes to the confirmed digest, the compute database binds the plan's id to its
  job, spec and digest with the planned status, and the plan's task and intent are there.  Zero means the
  adoption had already happened: the task waits on that job, one sequence number past the plan, with its intent
  acknowledged, and nothing is written.  One means the sweep task was running at the planned token and sequence, on no job, under
  a claim that had expired at the instant of the adoption, with the planned intent its only replayable one; it is then
  parked on the job with the intent acknowledged and one transition recorded, and no other row and no other table
  changed.  Applying the same plan again, at any time, returns zero and changes nothing.\<close>

theorem recovery_apply_exact:
  assumes "brain_ok b" and "outbox_ok b"
    and "recovery_apply_plan sha rep it resolve farm compute o0 o1 o2 o3 plan expected now b q = (res, b')"
  shows "(\<forall>e. res = Inl e \<longrightarrow> b' = b \<or>
      recovery_plan_error sha rep resolve farm compute expected plan = None \<and> open_farm_db b = Inr b') \<and>
    (\<forall>n. res = Inr n \<longrightarrow>
      recovery_plan_digest sha plan = expected \<and>
      (\<exists>b0 entry a m r row i t. open_farm_db b = Inr b0 \<and> entry_of_plan plan = Inr entry \<and> adoption_of_entry rep it entry = Inr a \<and>
        bound_job (ad_mid a) q = Some (m, r) \<and> qm_job m = ad_job a \<and> qm_spec m = ad_path a \<and>
        qm_digest m = ad_digest a \<and> j_status r = ad_status a \<and>
        get_task (ad_task a) b0 = Some row \<and> get_outbox (ad_mid a) b0 = Some i \<and> o_task i = ad_task a \<and>
        t = adoption_time o0 o1 o2 o3 now \<and>
        (n = 0 \<and> b' = b0 \<and> t_type row = ''run_sweep'' \<and> t_state row = Deferred \<and> t_owner row = None \<and>
           int_or0 (t_job row) = ad_job a \<and> t_fence row = ad_fence a \<and> t_seq row = ad_seq a + 1 \<and>
           o_state i = Acknowledged \<and> int_or0 (o_job i) = ad_job a \<or>
         n = 1 \<and> t_type row = ''run_sweep'' \<and> t_state row = Running \<and> t_owner row \<noteq> None \<and> t_job row = None \<and>
           (\<exists>e. t_expires row = Some e \<and> e \<le> t) \<and> t_fence row = ad_fence a \<and> t_seq row = ad_seq a \<and>
           o_fence i = ad_fence a \<and> replayable (o_state i) \<and> o_path i = ad_path a \<and> o_digest i = ad_digest a \<and>
           rowcount (\<lambda>x. o_task x = ad_task a \<and> replayable (o_state x)) (outbox b0) = 1 \<and>
           b' = adopted_brain a t row b0)) \<and>
      recovery_apply_plan sha rep it resolve farm compute p0 p1 p2 p3 plan expected now2 b' q = (Inr 0, b'))"
  using assms(3)
proof (cases rule: recovery_apply_cases)
  case (3 b0 entry a)
  let ?t0 = "case now of None \<Rightarrow> o0 | Some t \<Rightarrow> t"
  obtain c' where run: "adopt_expired_materialization o2 o3 (Some ?t0) a
      (queue_binding_of (ad_mid a) q) (recovery_conn o1) b0 = (res, c', b')" using 3(5) by blast
  show ?thesis
  proof (cases res)
    case (Inl e)
    then have "b' = b0" using adopt_Inl[OF run[unfolded Inl]] by simp
    then show ?thesis using Inl 3(1,3) by simp
  next
    case (Inr n)
    note ok = open_ok[OF 3(3) assms(1,2)]
    note run = run[unfolded Inr]
    obtain qb where qb: "queue_binding_of (ad_mid a) q = Some qb" "binding_matches a qb"
      by (rule adopt_InrD[OF run]) blast
    obtain m r where m: "bound_job (ad_mid a) q = Some (m, r)" "bind_job qb = qm_job m" "bind_path qb = qm_spec m"
        "bind_digest qb = qm_digest m" "bind_status qb = j_status r"
      by (rule queue_binding_of_SomeD[OF qb(1)])
    have digest: "recovery_plan_digest sha plan = expected"
      using 3(1) by (auto simp: recovery_plan_error_def Let_def split: if_splits)
    have bound: "qm_job m = ad_job a \<and> qm_spec m = ad_path a \<and> qm_digest m = ad_digest a \<and> j_status r = ad_status a"
      using qb(2) m by (simp add: binding_matches_def)
    have "settled b'" by (rule adopt_settled[OF opened_settled[OF 3(3)] ok run])
    moreover obtain c3 where "adopt_expired_materialization p2 p3 (Some (case now2 of None \<Rightarrow> p0 | Some t \<Rightarrow> t)) a
        (queue_binding_of (ad_mid a) q) (recovery_conn p1) b' = (Inr 0, c3, b')"
      using adopt_expired_exactly_once[OF ok run] by blast
    ultimately have again: "recovery_apply_plan sha rep it resolve farm compute p0 p1 p2 p3 plan expected now2 b' q = (Inr 0, b')"
      by (intro recovery_apply_adopts[OF 3(1,2) settled_opens 3(4)])
    obtain row i where row: "get_task (ad_task a) b0 = Some row" "get_outbox (ad_mid a) b0 = Some i" "o_task i = ad_task a"
      and eff: "n = 0 \<and> b' = b0 \<and> already_adopted a row i \<or>
        n = 1 \<and> \<not> adoption_stale a (adoption_time o0 o1 o2 o3 now) row i b0 \<and>
        (\<exists>e. t_expires row = Some e \<and> e \<le> adoption_time o0 o1 o2 o3 now) \<and>
        b' = adopted_brain a (adoption_time o0 o1 o2 o3 now) row b0"
      by (rule adopt_effect[OF ok run refl refl])
    let ?t = "adoption_time o0 o1 o2 o3 now"
    have "n = 0 \<and> b' = b0 \<and> t_type row = ''run_sweep'' \<and> t_state row = Deferred \<and> t_owner row = None \<and>
           int_or0 (t_job row) = ad_job a \<and> t_fence row = ad_fence a \<and> t_seq row = ad_seq a + 1 \<and>
           o_state i = Acknowledged \<and> int_or0 (o_job i) = ad_job a \<or>
         n = 1 \<and> t_type row = ''run_sweep'' \<and> t_state row = Running \<and> t_owner row \<noteq> None \<and> t_job row = None \<and>
           (\<exists>e. t_expires row = Some e \<and> e \<le> ?t) \<and> t_fence row = ad_fence a \<and> t_seq row = ad_seq a \<and>
           o_fence i = ad_fence a \<and> replayable (o_state i) \<and> o_path i = ad_path a \<and> o_digest i = ad_digest a \<and>
           rowcount (\<lambda>x. o_task x = ad_task a \<and> replayable (o_state x)) (outbox b0) = 1 \<and>
           b' = adopted_brain a ?t row b0"
      using eff by (elim disjE) (simp_all add: already_adopted_def adoption_stale_def)
    with digest bound again m(1) row 3(2,3,4) Inr show ?thesis by blast
  qed
qed simp_all

section \<open>Plans that apply\<close>

lemma adopt_fires:
  assumes ok: "brain_ok b" "outbox_ok b"
    and t: "t = fst (effective_now o2 (Some (fst (effective_now o1 now c))) (snd (effective_now o1 now c)))"
    and row: "get_task (ad_task a) b = Some row" and ob: "get_outbox (ad_mid a) b = Some ob"
    and task: "o_task ob = ad_task a" and qb: "binding_matches a qb"
    and old: "\<not> already_adopted a row ob" and fresh: "\<not> adoption_stale a t row ob b"
  shows "\<exists>c' b'. adopt_expired_materialization o1 o2 now a (Some qb) c b = (Inr 1, c', b')"
proof -
  have F: "t_type row = ''run_sweep''" "t_state row = Running" "t_owner row \<noteq> None" "or0 (t_expires row) \<le> t"
      "t_fence row = ad_fence a" "t_protocol row = v2" "t_seq row = ad_seq a" "t_job row = None"
      "o_fence ob = ad_fence a" "replayable (o_state ob)" "o_path ob = ad_path a" "o_digest ob = ad_digest a"
    using fresh by (auto simp: adoption_stale_def)
  obtain e where e: "t_expires row = Some e"
    using brain_okD(4)[OF ok(1)] get_task_mem[OF row] F(3) by (auto simp: row_ok_def)
  have hit: "adopt_row a t row" using F e get_task_mem[OF row] by (simp add: adopt_row_def)
  have upd: "update_tasks (adopt_row a t) (park_task (ad_job a) t (ad_seq a + 1)) b =
      Inr (1, b\<lparr>tasks := update_where (adopt_row a t) (park_task (ad_job a) t (ad_seq a + 1)) (tasks b)\<rparr>)"
    using F by (intro update_tasks_hit[where tid = "ad_task a" and row = row] ok(1) row hit)
      (auto simp: adopt_row_def park_task_def update_guard_def guarded_columns_def)
  have mem: "ob \<in> set (outbox b)" "o_id ob = ad_mid a" using ob get_outbox_iff[OF ok(2)] by auto
  have target: "adopt_target a ob" using F(9-12) mem(2) task by (simp add: adopt_target_def)
  have "rowcount (adopt_target a) (outbox b) = 1"
    using update_where_single(1)[where key = o_id and p = "adopt_target a" and k = "ad_mid a" and row = ob
        and rows = "outbox b"] ok(2) ob target
    by (simp add: outbox_ok_def get_outbox_def adopt_target_def)
  then show ?thesis unfolding adopt_unfold[OF t row ob task qb old fresh] by (simp add: adopt_move_def upd)
qed

text \<open>What a built plan says about the two databases.\<close>

lemma recovery_build_InrD:
  assumes "recovery_build_plan sha resolve farm compute clock now tid b q = Inr plan"
  obtains row ob qb where "get_task tid b = Some row" and "recovery_outboxes tid b = [ob]"
    and "queue_binding_of (o_id ob) q = Some qb" and "\<not> binding_disagrees ob qb"
    and "recovery_adopted row ob qb \<or> \<not> recovery_ineligible (case now of None \<Rightarrow> clock | Some t \<Rightarrow> t) row ob qb"
    and "plan = recovery_plan_of sha resolve farm compute (case now of None \<Rightarrow> clock | Some t \<Rightarrow> t) (recovery_entry row ob qb)"
  using assms that
  by (auto simp: recovery_build_plan_def Let_def split: option.splits list.splits if_splits)

text \<open>The arguments a plan for a task that still runs adopts with.\<close>

definition fresh_adoption :: "task \<Rightarrow> outbox_row \<Rightarrow> queue_binding \<Rightarrow> adoption" where
  "fresh_adoption row ob qb = \<lparr>ad_task = t_id row, ad_fence = t_fence row, ad_seq = t_seq row, ad_mid = o_id ob,
     ad_job = bind_job qb, ad_path = o_path ob, ad_digest = o_digest ob, ad_status = bind_status qb\<rparr>"

lemma eligible_is_adoptable:
  assumes ok: "brain_ok b" "outbox_ok b" and row: "get_task tid b = Some row" and obs: "recovery_outboxes tid b = [ob]"
    and qb: "\<not> binding_disagrees ob qb" and elig: "\<not> recovery_ineligible t0 row ob qb" and "t0 \<le> t"
  shows "get_outbox (o_id ob) b = Some ob" and "o_task ob = t_id row"
    and "binding_matches (fresh_adoption row ob qb) qb" and "\<not> already_adopted (fresh_adoption row ob qb) row ob"
    and "\<not> adoption_stale (fresh_adoption row ob qb) t row ob b"
proof -
  note S = recovery_outboxes_single[OF obs]
  have id: "t_id row = tid" using get_task_mem[OF row] by simp
  have rep: "replayable (o_state ob)" and E: "t_type row = ''run_sweep''" "t_state row = Running" "t_owner row \<noteq> None"
      "or0 (t_expires row) \<le> t0" "t_protocol row = v2" "t_job row = None" "o_fence ob = t_fence row"
      "o_job ob = None \<or> o_job ob = Some (bind_job qb)"
    using elig by (auto simp: recovery_ineligible_def)
  show "get_outbox (o_id ob) b = Some ob" using get_outbox_iff[OF ok(2)] S(1) by simp
  show "o_task ob = t_id row" using S(2) id by simp
  show "binding_matches (fresh_adoption row ob qb) qb"
    using qb by (simp add: fresh_adoption_def binding_matches_def binding_disagrees_def)
  show "\<not> already_adopted (fresh_adoption row ob qb) row ob"
    using E(2) by (simp add: already_adopted_def)
  show "\<not> adoption_stale (fresh_adoption row ob qb) t row ob b"
    using E rep \<open>t0 \<le> t\<close> single_replayable[OF ok(2) obs rep] id
    by (auto simp: adoption_stale_def fresh_adoption_def)
qed

text \<open>After the adoption the two databases give a plan that says so.\<close>

lemma distinct_singleton: "distinct xs \<Longrightarrow> set xs = {x} \<Longrightarrow> xs = [x]"
  by (cases xs) (auto simp: subset_singleton_iff insert_eq_iff)

lemma adopted_outboxes:
  assumes ok: "outbox_ok b" "outbox_ok b'" and obs: "recovery_outboxes tid b = [ob]"
    and "\<forall>x. get_outbox x b' = (if x = o_id ob then Some (acknowledge_outbox job t ob) else get_outbox x b)"
  shows "recovery_outboxes tid b' = [acknowledge_outbox job t ob]"
proof -
  note S = recovery_outboxes_single[OF obs]
  let ?p = "\<lambda>i. o_task i = tid \<and> (o_state i = Pending \<or> o_state i = Dispatched \<or> o_state i = Acknowledged)"
  have mem: "i \<in> set (outbox b') \<and> ?p i \<longleftrightarrow> i = acknowledge_outbox job t ob" for i
  proof
    assume i: "i \<in> set (outbox b') \<and> ?p i"
    then have get: "get_outbox (o_id i) b' = Some i" using get_outbox_iff[OF ok(2)] by simp
    show "i = acknowledge_outbox job t ob"
    proof (cases "o_id i = o_id ob")
      case False
      then have "i \<in> set (outbox b)" using get assms(4) get_outbox_iff[OF ok(1)] by simp
      then show ?thesis using S(3)[of i] i False by auto
    qed (use get assms(4) in simp)
  next
    assume "i = acknowledge_outbox job t ob"
    then show "i \<in> set (outbox b') \<and> ?p i"
      using assms(4) get_outbox_iff[OF ok(2), of "o_id ob" i] S(2) by (simp add: acknowledge_outbox_def)
  qed
  have "distinct (filter ?p (outbox b'))"
    using ok(2) by (auto simp: outbox_ok_def distinct_map)
  moreover have "set (filter ?p (outbox b')) = {acknowledge_outbox job t ob}" using mem by auto
  ultimately have "filter ?p (outbox b') = [acknowledge_outbox job t ob]"
    by (rule distinct_singleton)
  then show ?thesis by (simp add: recovery_outboxes_def)
qed

lemma recovery_apply_built:
  assumes "\<And>p. resolve (resolve p) = resolve p"
    and "adoption_of_entry rep it (recovery_entry row ob qb) = Inr a" and "queue_binding_of (ad_mid a) q = Some qb2"
    and "adopt_expired_materialization o2 o3 (Some (case now of None \<Rightarrow> o0 | Some t \<Rightarrow> t)) a (Some qb2) (recovery_conn o1) b
      = (res, c', b')" and "settled b"
  shows "recovery_apply_plan sha rep it resolve farm compute o0 o1 o2 o3
      (recovery_plan_of sha resolve farm compute t0 (recovery_entry row ob qb))
      (recovery_plan_digest sha (recovery_plan_of sha resolve farm compute t0 (recovery_entry row ob qb))) now b q = (res, b')"
  by (rule recovery_apply_adopts[OF built_plan_accepted[OF assms(1)] recovery_entry_of_plan settled_opens[OF assms(5)] assms(2)])
     (use assms(3,4) in simp)

text \<open>C11 A recovery plan built for a task not yet adopted applies to the databases it was built from: when the farm
  database has been opened before by this version, path resolution is idempotent and the plan is applied at
  the time it was built or later, it is accepted under its own digest and parks the running task, whose claim has expired, on
  the job the compute database binds to its one intent, a job of the same spec and digest, and changes no other task; a
  plan built from the result reports the adoption as already made, and applying that one changes nothing.\<close>

theorem recovery_plan_applies:
  assumes "brain_ok b" and "outbox_ok b" and "queue_ok q" and "\<forall>p. resolve (resolve p) = resolve p"
    and "recovery_build_plan sha resolve farm compute clock0 now0 tid b q = Inr plan"
    and "jget ''already_adopted'' (jget ''entry'' plan) = JBool False"
    and "(case now0 of None \<Rightarrow> clock0 | Some t \<Rightarrow> t) \<le> (case now of None \<Rightarrow> o0 | Some t \<Rightarrow> t)"
    and "open_farm_db b = Inr b"
  shows "\<exists>b' row ob m r t plan2.
    recovery_apply_plan sha rep it resolve farm compute o0 o1 o2 o3 plan (recovery_plan_digest sha plan) now b q = (Inr 1, b') \<and>
    get_task tid b = Some row \<and> recovery_outboxes tid b = [ob] \<and>
    bound_job (o_id ob) q = Some (m, r) \<and> j_spec r = o_path ob \<and> str_or (j_digest r) = o_digest ob \<and>
    (\<forall>j. get_task j b' = (if j = tid then Some (park_task (qm_job m) t (t_seq row + 1) row) else get_task j b)) \<and>
    recovery_build_plan sha resolve farm compute clock2 now2 tid b' q = Inr plan2 \<and>
    jget ''already_adopted'' (jget ''entry'' plan2) = JBool True \<and>
    recovery_apply_plan sha rep it resolve farm compute p0 p1 p2 p3 plan2 (recovery_plan_digest sha plan2) now3 b' q = (Inr 0, b')"
proof -
  obtain row ob qb where row: "get_task tid b = Some row" and obs: "recovery_outboxes tid b = [ob]"
    and qb: "queue_binding_of (o_id ob) q = Some qb" and agree: "\<not> binding_disagrees ob qb"
    and elig: "recovery_adopted row ob qb \<or> \<not> recovery_ineligible (case now0 of None \<Rightarrow> clock0 | Some t \<Rightarrow> t) row ob qb"
    and plan: "plan = recovery_plan_of sha resolve farm compute (case now0 of None \<Rightarrow> clock0 | Some t \<Rightarrow> t) (recovery_entry row ob qb)"
    by (rule recovery_build_InrD[OF assms(5)])
  have new: "\<not> recovery_adopted row ob qb" using assms(6) by (simp add: plan recovery_entry_adopted)
  have res: "\<And>p. resolve (resolve p) = resolve p" using assms(4) by simp
  let ?a = "fresh_adoption row ob qb"
  let ?now = "Some (case now of None \<Rightarrow> o0 | Some t \<Rightarrow> t)"
  define t where "t = fst (effective_now o3 (Some (fst (effective_now o2 ?now (recovery_conn o1))))
      (snd (effective_now o2 ?now (recovery_conn o1))))"
  have "(case now0 of None \<Rightarrow> clock0 | Some t \<Rightarrow> t) \<le> t"
    using assms(7) by (auto simp: t_def effective_now_def clock_max_def Let_def)
  note E = eligible_is_adoptable[OF assms(1,2) row obs agree _ this]
  have elig: "\<not> recovery_ineligible (case now0 of None \<Rightarrow> clock0 | Some t \<Rightarrow> t) row ob qb" using elig new by blast
  have id: "t_id row = tid" using get_task_mem[OF row] by simp
  have sel: "ad_task ?a = tid" "ad_mid ?a = o_id ob" "ad_job ?a = bind_job qb" "ad_seq ?a = t_seq row"
    by (simp_all add: fresh_adoption_def id)
  have entry: "adoption_of_entry rep it (recovery_entry row ob qb) = Inr ?a"
    using new by (simp add: recovery_entry_adoption fresh_adoption_def)
  obtain c' b' where run: "adopt_expired_materialization o2 o3 ?now ?a (Some qb) (recovery_conn o1) b = (Inr 1, c', b')"
    using adopt_fires[OF assms(1,2) t_def _ _ _ E(3,4,5)[OF elig]] row E(1,2)[OF elig] id sel by auto
  obtain t' row' i where eff: "get_task tid b = Some row'" "get_outbox (o_id ob) b = Some i"
      "\<forall>j. get_task j b' = (if j = tid then Some (park_task (bind_job qb) t' (t_seq row + 1) row') else get_task j b)"
      "\<forall>x. get_outbox x b' = (if x = o_id ob then Some (acknowledge_outbox (bind_job qb) t' i) else get_outbox x b)"
    using conjunct1[OF adopt_expired_exactly_once[OF assms(1,2) run]] sel by auto
  have [simp]: "row' = row" "i = ob" using eff(1,2) row E(1)[OF elig] by simp_all
  have "outbox_ok b'" using adopt_outbox_ok[OF assms(2), of o2 o3 ?now ?a "Some qb" "recovery_conn o1"] run by simp
  note obs' = adopted_outboxes[OF assms(2) this obs, of "bind_job qb" t']
  let ?row = "park_task (bind_job qb) t' (t_seq row + 1) row" and ?ob = "acknowledge_outbox (bind_job qb) t' ob"
  have adopted: "recovery_adopted ?row ?ob qb"
    using elig by (simp add: recovery_adopted_def recovery_ineligible_def park_task_def acknowledge_outbox_def)
  have ids: "o_id ?ob = o_id ob" "o_path ?ob = o_path ob" "o_digest ?ob = o_digest ob"
    by (simp_all add: acknowledge_outbox_def)
  then have agree': "\<not> binding_disagrees ?ob qb" using agree by (simp add: binding_disagrees_def)
  let ?plan2 = "recovery_plan_of sha resolve farm compute (case now2 of None \<Rightarrow> clock2 | Some t \<Rightarrow> t) (recovery_entry ?row ?ob qb)"
  have built: "recovery_build_plan sha resolve farm compute clock2 now2 tid b' q = Inr ?plan2"
    using eff obs' qb agree' adopted by (simp add: recovery_build_plan_def Let_def ids)
  have entry2: "adoption_of_entry rep it (recovery_entry ?row ?ob qb) = Inr ?a"
    using adopted by (simp add: recovery_entry_adoption fresh_adoption_def ids) (simp add: park_task_def)
  obtain c3 where again: "adopt_expired_materialization p2 p3 (Some (case now3 of None \<Rightarrow> p0 | Some t \<Rightarrow> t)) ?a (Some qb)
      (recovery_conn p1) b' = (Inr 0, c3, b')"
    using conjunct2[OF adopt_expired_exactly_once[OF assms(1,2) run]] by blast
  obtain m r where m: "bound_job (o_id ob) q = Some (m, r)" "m \<in> set (bindings q)" "get_job (qm_job m) q = Some r"
      "bind_job qb = qm_job m" "bind_path qb = qm_spec m" "bind_digest qb = qm_digest m" "bind_queue_digest qb = j_digest r"
    by (rule queue_binding_of_SomeD[OF qb])
  have spec: "j_spec r = o_path ob" "str_or (j_digest r) = o_digest ob"
    using m assms(3) agree by (auto simp: queue_ok_def bindings_ok_def binding_ok_def binding_disagrees_def)
  have old: "settled b" by (rule opened_settled[OF assms(8)])
  have settled: "settled b'" by (rule adopt_settled[OF old assms(1,2) run])
  have "recovery_apply_plan sha rep it resolve farm compute o0 o1 o2 o3 plan (recovery_plan_digest sha plan) now b q = (Inr 1, b')"
    unfolding plan by (rule recovery_apply_built[OF res entry _ run old]) (simp add: sel qb)
  moreover have "recovery_apply_plan sha rep it resolve farm compute p0 p1 p2 p3 ?plan2 (recovery_plan_digest sha ?plan2) now3 b' q = (Inr 0, b')"
    by (rule recovery_apply_built[OF res entry2 _ again settled]) (simp add: sel qb)
  moreover have "jget ''already_adopted'' (jget ''entry'' ?plan2) = JBool True"
    using adopted by (simp add: recovery_entry_adopted)
  ultimately show ?thesis using row obs m(1,4) spec eff(3) built by auto
qed

section \<open>Witnesses\<close>

text \<open>The claimed task of \<open>Brain_Claims\<close> with its intent, and the queue after the compute side of it.\<close>

definition demo_opened :: brain where
  "demo_opened = demo_prepared\<lparr>meta := [''fencing_protocol'' \<mapsto> MText ''v2'', ''priority_scale'' \<mapsto> MText ''v2'']\<rparr>"

lemma demo_opened_settled: "settled demo_opened"
  by (simp add: settled_def demo_opened_def demo_outbox_defs demo_brain_defs)

lemma demo_opened_simps [simp]:
  "get_task k demo_opened = get_task k demo_prepared" "get_outbox m demo_opened = get_outbox m demo_prepared"
  "tasks demo_opened = tasks demo_prepared" "outbox demo_opened = outbox demo_prepared" "brain_ok demo_opened" "outbox_ok demo_opened"
  using demo_outbox_ok(1,2)
  by (simp_all add: demo_opened_def get_outbox_def outbox_ok_def intent_ok_def task_fence_def)

definition demo_bound_queue :: queue_db where
  "demo_bound_queue = snd (ensure_experiment_queued (\<lambda>_. Some ''d'') ''t1'' ''p'' 20 (Some ''m'') (Some ''d'') (empty_queue demo_tables))"

lemma demo_bound_queue_ok: "queue_ok demo_bound_queue"
  using ensure_experiment_queued_sound[of "empty_queue demo_tables" "\<lambda>_. Some ''d''" "''t1''" "''p''" 20 "Some ''m''" "Some ''d''"]
    empty_queue_ok
  by (simp add: demo_bound_queue_def sound_queue_def)

lemma demo_bound_queue_binding:
  "queue_binding_of ''m'' demo_bound_queue = Some \<lparr>bind_job = 1, bind_path = ''p'', bind_digest = ''d'',
     bind_status = ''queued'', bind_queue_mid = Some ''m'', bind_queue_digest = Some ''d''\<rparr>"
  by (simp add: demo_bound_queue_def empty_queue_def ensure_experiment_queued_def queue_binding_of_def bound_job_def
      content_error_def reusable_job_def first_job_def insert_binding_def queue_simps)

definition demo_recovery_plan :: json where
  "demo_recovery_plan = recovery_plan_of (\<lambda>_. ''sha'') (\<lambda>p. p) ''farm'' ''compute'' 180
     (JObj [(''task_id'', JInt 1), (''task_type'', JStr ''run_sweep''), (''state'', JStr ''running''),
        (''fencing_token'', JInt 1), (''mutation_seq'', JInt 1), (''materialization_id'', JStr ''m''),
        (''outbox_state'', JStr ''pending''), (''queue_job_id'', JInt 1), (''queue_status'', JStr ''queued''),
        (''spec_path'', JStr ''p''), (''spec_digest'', JStr ''d''), (''already_adopted'', JBool False)])"

lemma demo_recovery_build:
  "recovery_build_plan (\<lambda>_. ''sha'') (\<lambda>p. p) ''farm'' ''compute'' 180 None 1 demo_opened demo_bound_queue = Inr demo_recovery_plan"
proof -
  have "recovery_outboxes 1 demo_opened = [demo_intent]"
    by (simp add: recovery_outboxes_def demo_prepared_def demo_intent_def)
  then show ?thesis
    by (simp add: recovery_build_plan_def demo_prepared_get demo_intent_def demo_bound_queue_binding)
       (simp add: demo_brain_defs binding_disagrees_def recovery_adopted_def recovery_ineligible_def recovery_entry_def
          demo_recovery_plan_def)
qed

theorem recovery_plan_applies_witness:
  "\<exists>b' row. recovery_apply_plan (\<lambda>_. ''sha'') (\<lambda>_. []) (\<lambda>_. None) (\<lambda>p. p) ''farm'' ''compute'' 190 190 190 190
     demo_recovery_plan ''sha'' None demo_opened demo_bound_queue = (Inr 1, b') \<and>
     get_task 1 b' = Some row \<and> t_state row = Deferred \<and> t_job row = Some 1"
proof -
  have flag: "jget ''already_adopted'' (jget ''entry'' demo_recovery_plan) = JBool False"
    by (simp add: demo_recovery_plan_def)
  have res: "\<forall>p. (\<lambda>p. p) ((\<lambda>p. p) p) = (\<lambda>p. p) (p :: string)" by simp
  have le: "(case None of None \<Rightarrow> 180 | Some t \<Rightarrow> t) \<le> (case None of None \<Rightarrow> 190 | Some t \<Rightarrow> (t :: rat))" by simp
  note T = recovery_plan_applies[OF demo_opened_simps(5,6) demo_bound_queue_ok res demo_recovery_build flag le settled_opens[OF demo_opened_settled],
      where ?o1.0 = 190 and ?o2.0 = 190 and ?o3.0 = 190 and rep = "\<lambda>_. []" and it = "\<lambda>_. None" and ?clock2.0 = 200
        and ?now2.0 = None and ?p0.0 = 200 and ?p1.0 = 200 and ?p2.0 = 200 and ?p3.0 = 200 and ?now3.0 = None]
  obtain b' row ob m r t where R: "recovery_apply_plan (\<lambda>_. ''sha'') (\<lambda>_. []) (\<lambda>_. None) (\<lambda>p. p) ''farm'' ''compute'' 190 190 190 190
       demo_recovery_plan (recovery_plan_digest (\<lambda>_. ''sha'') demo_recovery_plan) None demo_opened demo_bound_queue = (Inr 1, b')"
      "recovery_outboxes 1 demo_opened = [ob]" "bound_job (o_id ob) demo_bound_queue = Some (m, r)"
      "\<forall>j. get_task j b' = (if j = 1 then Some (park_task (qm_job m) t (t_seq row + 1) row) else get_task j demo_opened)"
    using T by blast
  have "ob = demo_intent" using R(2) by (simp add: recovery_outboxes_def demo_prepared_def demo_intent_def)
  then have "qm_job m = 1" using R(3) demo_bound_queue_binding by (simp add: demo_intent_def queue_binding_of_def)
  then show ?thesis using R(1,4) by (auto simp: recovery_plan_digest_def park_task_def)
qed

theorem recovery_apply_exact_witness:
  "\<exists>b'. recovery_apply_plan (\<lambda>_. ''sha'') (\<lambda>_. []) (\<lambda>_. None) (\<lambda>p. p) ''farm'' ''compute'' 190 190 190 190
     demo_recovery_plan ''sha'' None demo_opened demo_bound_queue = (Inr 1, b') \<and>
     recovery_apply_plan (\<lambda>_. ''sha'') (\<lambda>_. []) (\<lambda>_. None) (\<lambda>p. p) ''farm'' ''compute'' 200 200 200 200
       demo_recovery_plan ''sha'' None b' demo_bound_queue = (Inr 0, b')"
proof -
  have "adoption_of_entry (\<lambda>_. []) (\<lambda>_. None) (jget ''entry'' demo_recovery_plan) = Inr (demo_adoption\<lparr>ad_job := 1, ad_status := ''queued''\<rparr>)"
    by (simp add: demo_recovery_plan_def adoption_of_entry_def demo_adoption_def)
  moreover have "entry_of_plan demo_recovery_plan = Inr (jget ''entry'' demo_recovery_plan)"
    by (simp add: entry_of_plan_def demo_recovery_plan_def is_obj_def)
  moreover have "recovery_plan_error (\<lambda>_. ''sha'') (\<lambda>_. []) (\<lambda>p. p) ''farm'' ''compute'' ''sha'' demo_recovery_plan = None"
    by (simp add: recovery_plan_error_def demo_recovery_plan_def recovery_plan_digest_def recovery_plan_of_def Let_def)
  moreover have "fst (adopt_expired_materialization 190 190 (Some 190) (demo_adoption\<lparr>ad_job := 1, ad_status := ''queued''\<rparr>)
      (queue_binding_of ''m'' demo_bound_queue) (recovery_conn 190) demo_opened) = Inr 1"
    unfolding demo_bound_queue_binding
    by (simp add: adopt_expired_materialization_def demo_prepared_get demo_adoption_def)
       (simp add: demo_eval demo_outbox_defs demo_brain_defs binding_matches_def already_adopted_def adoption_stale_def
          recovery_conn_def)
  ultimately have "fst (recovery_apply_plan (\<lambda>_. ''sha'') (\<lambda>_. []) (\<lambda>_. None) (\<lambda>p. p) ''farm'' ''compute'' 190 190 190 190
      demo_recovery_plan ''sha'' None demo_opened demo_bound_queue) = Inr 1"
    by (simp add: recovery_apply_plan_def case_prod_beta demo_adoption_def settled_opens[OF demo_opened_settled])
  then obtain b' where r: "recovery_apply_plan (\<lambda>_. ''sha'') (\<lambda>_. []) (\<lambda>_. None) (\<lambda>p. p) ''farm'' ''compute'' 190 190 190 190
      demo_recovery_plan ''sha'' None demo_opened demo_bound_queue = (Inr 1, b')"
    by (metis prod.collapse)
  from recovery_apply_exact[OF demo_opened_simps(5,6) r, where ?p0.0 = 200 and ?p1.0 = 200 and ?p2.0 = 200 and ?p3.0 = 200 and ?now2.0 = None]
  show ?thesis using r by blast
qed

end
