(* ===== verification/Scheduler.thy ===== *)
theory Scheduler
  imports Run_Import Validation_Tasks "HOL-Library.Sublist"
begin

text \<open>
  What to research next, \<open>src/research_lab/farm_scheduler.py\<close> with \<open>watch_verdict\<close> of
  \<open>farm_priority.py\<close>, and the classification of a finished run into unique candidates,
  \<open>src/research_lab/farm_classifier.py\<close>.  A watch record and a run payload are decoded JSON values;
  \<open>rep\<close> is Python's \<open>str\<close> of a value that is not a text.  \<open>upper\<close>, \<open>lower\<close> and \<open>strip\<close> act on ASCII.
\<close>

section \<open>Text\<close>

definition text_upper :: "string \<Rightarrow> string" where
  "text_upper s = map upper_char s"

definition lower_char :: "char \<Rightarrow> char" where
  "lower_char c = (if CHR ''A'' \<le> c \<and> c \<le> CHR ''Z'' then char_of (of_char c + 32 :: nat) else c)"

definition text_lower :: "string \<Rightarrow> string" where
  "text_lower s = map lower_char s"

definition is_space :: "char \<Rightarrow> bool" where
  "is_space c \<longleftrightarrow> of_char c \<in> {9, 10, 11, 12, 13, 28, 29, 30, 31, 32 :: nat}"

definition text_strip :: "string \<Rightarrow> string" where
  "text_strip s = rev (dropWhile is_space (rev (dropWhile is_space s)))"

section \<open>Watches\<close>

text \<open>\<open>watch.get(k) or {}\<close>; the keys read below a value that is neither falsy nor an object make the
  code raise, see \<open>watch_malformed\<close>.\<close>

definition sub_obj :: "string \<Rightarrow> json \<Rightarrow> json" where
  "sub_obj k w = py_or (jget k w) (JObj [])"

definition watch_malformed :: "json \<Rightarrow> bool" where
  "watch_malformed w \<longleftrightarrow>
     \<not> is_obj w \<or> list_ex (\<lambda>k. truthy (jget k w) \<and> \<not> is_obj (jget k w)) [''scanner'', ''trigger'', ''asset'', ''farm'']"

definition watch_verdict :: "(json \<Rightarrow> string) \<Rightarrow> json \<Rightarrow> string" where
  "watch_verdict rep w =
     text_upper (text_strip (py_text rep
       (py_or (py_or (jget ''verdict'' (sub_obj ''scanner'' w)) (jget ''verdict'' w)) (JStr ''WATCH''))))"

definition classify_watch :: "(json \<Rightarrow> string) \<Rightarrow> json \<Rightarrow> int \<times> string" where
  "classify_watch rep w =
     (let scanner = sub_obj ''scanner'' w;
          source = text_lower (str_of_json rep (jget ''source'' (sub_obj ''trigger'' w)));
          event_type = text_lower (str_of_json rep (jget ''event_type'' scanner))
      in if watch_verdict rep w = ''GO'' then (10, ''scanner_go'')
         else if event_type = ''market_mover'' \<or> sublist ''market_tape'' source then (40, ''okx_market_mover'')
         else if sublist ''okx_announcement'' source \<or> event_type = ''listing'' then (30, ''okx_announcement'')
         else (20, ''scanner_watch''))"

section \<open>Planning\<close>

record farm_job =
  fj_inst :: json
  fj_symbol :: json
  fj_timeframe :: json
  fj_priority :: int
  fj_kind :: string
  fj_watch :: json
  fj_reason :: string

record counters =
  n_read :: nat
  n_resolved :: nat
  n_unresolved :: nat
  n_eligible :: nat
  n_usable :: nat
  n_short :: nat
  n_recheck :: nat
  n_queued :: nat
  n_pending :: nat
  n_completed :: nat
  n_no_instrument :: nat
  n_no_data :: nat

record plan_state =
  pl_jobs :: "farm_job list"
  pl_skipped :: "(json \<times> json) list"
  pl_counters :: counters
  pl_seen :: "string list"

definition empty_counters :: counters where
  "empty_counters = \<lparr>n_read = 0, n_resolved = 0, n_unresolved = 0, n_eligible = 0, n_usable = 0, n_short = 0,
     n_recheck = 0, n_queued = 0, n_pending = 0, n_completed = 0, n_no_instrument = 0, n_no_data = 0\<rparr>"

definition missing_data_reasons :: "string list" where
  "missing_data_reasons = [''missing'', ''too_short'', ''provider_error'', ''readiness_not_assessed'']"

text \<open>\<open>str(inst or symbol or "").upper()\<close>.\<close>

definition watch_key :: "(json \<Rightarrow> string) \<Rightarrow> json \<Rightarrow> string" where
  "watch_key rep w =
     (let asset = sub_obj ''asset'' w
      in text_upper (str_of_json rep (py_or (jget ''okx_inst'' asset) (jget ''symbol'' asset))))"

definition watch_eligible :: "json \<Rightarrow> bool" where
  "watch_eligible w \<longleftrightarrow>
     jget ''okx_resolved'' (sub_obj ''asset'' w) \<noteq> JBool False \<and> jget ''eligible'' (sub_obj ''farm'' w) = JBool True"

definition job_of_watch :: "(json \<Rightarrow> string) \<Rightarrow> json \<Rightarrow> farm_job" where
  "job_of_watch rep w =
     \<lparr>fj_inst = jget ''okx_inst'' (sub_obj ''asset'' w), fj_symbol = jget ''symbol'' (sub_obj ''asset'' w),
      fj_timeframe = jget ''selected_timeframe'' (sub_obj ''farm'' w), fj_priority = fst (classify_watch rep w),
      fj_kind = snd (classify_watch rep w), fj_watch = jget ''watch_id'' w, fj_reason = ''queued''\<rparr>"

text \<open>The counters a watch moves before any decision.\<close>

definition count_watch :: "(json \<Rightarrow> string) \<Rightarrow> json \<Rightarrow> counters \<Rightarrow> counters" where
  "count_watch rep w k =
     (let resolved = jget ''okx_resolved'' (sub_obj ''asset'' w);
          readiness = str_of_json rep (jget ''data_readiness_status'' (sub_obj ''farm'' w));
          k1 = k\<lparr>n_read := n_read k + 1\<rparr>;
          k2 = (if resolved = JBool True then k1\<lparr>n_resolved := n_resolved k1 + 1\<rparr>
                else if resolved = JBool False then k1\<lparr>n_unresolved := n_unresolved k1 + 1\<rparr> else k1)
      in if readiness = ''usable'' then k2\<lparr>n_usable := n_usable k2 + 1\<rparr>
         else if readiness = ''too_short'' then k2\<lparr>n_short := n_short k2 + 1\<rparr>
         else if readiness = ''fresh_listing_pending'' then k2\<lparr>n_recheck := n_recheck k2 + 1\<rparr>
         else k2)"

definition skip_watch :: "json \<Rightarrow> json \<Rightarrow> plan_state \<Rightarrow> plan_state" where
  "skip_watch symbol reason st = st\<lparr>pl_skipped := pl_skipped st @ [(symbol, reason)]\<rparr>"

text \<open>One turn of the loop over the ranked watches.\<close>

definition plan_watch ::
  "(json \<Rightarrow> string) \<Rightarrow> int \<Rightarrow> string list \<Rightarrow> string list \<Rightarrow> json \<Rightarrow> plan_state \<Rightarrow> plan_state" where
  "plan_watch rep max_jobs completed pending w st =
     (let farm = sub_obj ''farm'' w;
          symbol = jget ''symbol'' (sub_obj ''asset'' w);
          readiness = str_of_json rep (jget ''data_readiness_status'' farm);
          k = count_watch rep w (pl_counters st);
          key = watch_key rep w
      in if jget ''okx_resolved'' (sub_obj ''asset'' w) = JBool False
         then skip_watch symbol (py_or (jget ''pending_reason'' farm) (JStr ''no_okx_instrument''))
                (st\<lparr>pl_counters := k\<lparr>n_no_instrument := n_no_instrument k + 1\<rparr>\<rparr>)
         else if jget ''eligible'' farm \<noteq> JBool True
         then let reason = py_text rep (py_or (py_or (jget ''pending_reason'' farm) (JStr readiness))
                                          (JStr ''readiness_not_assessed''));
                  k1 = (if reason \<in> set missing_data_reasons then k\<lparr>n_no_data := n_no_data k + 1\<rparr> else k)
              in skip_watch symbol (JStr reason) (st\<lparr>pl_counters := k1\<rparr>)
         else
           let k1 = k\<lparr>n_eligible := n_eligible k + 1\<rparr>; st1 = st\<lparr>pl_counters := k1\<rparr>
           in if key = [] then skip_watch symbol (JStr ''no_symbol'') st1
              else if key \<in> set (pl_seen st) then st1
              else if key \<in> set completed
              then skip_watch symbol (JStr ''already_completed'') (st1\<lparr>pl_counters := k1\<lparr>n_completed := n_completed k1 + 1\<rparr>\<rparr>)
              else if key \<in> set pending
              then skip_watch symbol (JStr ''already_pending'') (st1\<lparr>pl_counters := k1\<lparr>n_pending := n_pending k1 + 1\<rparr>\<rparr>)
              else if int (length (pl_jobs st)) \<ge> max_jobs then skip_watch symbol (JStr ''queue_cap_reached'') st1
              else st1\<lparr>pl_seen := key # pl_seen st, pl_jobs := pl_jobs st @ [job_of_watch rep w],
                       pl_counters := k1\<lparr>n_queued := n_queued k1 + 1\<rparr>\<rparr>)"

definition job_of_backlog :: "string \<Rightarrow> farm_job" where
  "job_of_backlog symbol =
     \<lparr>fj_inst = JStr symbol, fj_symbol = JStr symbol, fj_timeframe = JNull, fj_priority = 90,
      fj_kind = ''universe_backlog'', fj_watch = JNull, fj_reason = ''refill_keep_gpu_busy''\<rparr>"

fun refill_jobs :: "int \<Rightarrow> string list \<Rightarrow> string list \<Rightarrow> string list \<Rightarrow> plan_state \<Rightarrow> plan_state" where
  "refill_jobs max_jobs completed pending [] st = st"
| "refill_jobs max_jobs completed pending (symbol # symbols) st =
     (if int (length (pl_jobs st)) \<ge> max_jobs then st
      else let key = text_upper symbol
           in if key = [] \<or> key \<in> set (pl_seen st) \<or> key \<in> set completed \<or> key \<in> set pending
              then refill_jobs max_jobs completed pending symbols st
              else refill_jobs max_jobs completed pending symbols
                     (st\<lparr>pl_seen := key # pl_seen st, pl_jobs := pl_jobs st @ [job_of_backlog symbol],
                         pl_counters := (pl_counters st)\<lparr>n_queued := n_queued (pl_counters st) + 1\<rparr>\<rparr>))"

definition rank_watches :: "(json \<Rightarrow> string) \<Rightarrow> json list \<Rightarrow> json list" where
  "rank_watches rep watches =
     sort_key (\<lambda>w. (fst (classify_watch rep w), str_of_json rep (jget ''created_at'' w))) watches"

definition plan_jobs ::
  "(json \<Rightarrow> string) \<Rightarrow> json list \<Rightarrow> int \<Rightarrow> string list \<Rightarrow> string list \<Rightarrow> string list \<Rightarrow> exn + plan_state" where
  "plan_jobs rep watches max_jobs backlog completed_inst pending_inst =
     (let completed = map text_upper completed_inst; pending = map text_upper pending_inst;
          start = \<lparr>pl_jobs = [], pl_skipped = [], pl_counters = empty_counters, pl_seen = []\<rparr>
      in if list_ex watch_malformed watches then Inl (AttributeError ''get'')
         else Inr (refill_jobs max_jobs completed pending backlog
                (fold (plan_watch rep max_jobs completed pending) (rank_watches rep watches) start)))"

section \<open>Classifying a finished run\<close>

text \<open>
  \<open>classify_run\<close> on the decoded \<open>metrics.json\<close> of the run, \<open>None\<close> when it cannot be read or decoded.
  \<open>hash\<close> is \<open>params_hash\<close>, the digest of a value's canonical text; \<open>float_text\<close> and \<open>int_text\<close> are Python's
  parsers.  A truthy \<open>params\<close> that is no object is refused.
\<close>

definition float_of_json :: "(string \<Rightarrow> rat option) \<Rightarrow> json \<Rightarrow> exn + rat" where
  "float_of_json float_text v =
     (if \<not> truthy v then Inr 0
      else case v of
        JBool b \<Rightarrow> Inr 1
      | JInt n \<Rightarrow> Inr (of_int n)
      | JFloat r \<Rightarrow> Inr r
      | JStr s \<Rightarrow> (case float_text s of None \<Rightarrow> Inl (ValueError ''could not convert string to float'') | Some r \<Rightarrow> Inr r)
      | _ \<Rightarrow> Inl (TypeError ''float''))"

definition obj_or_empty :: "json \<Rightarrow> json" where
  "obj_or_empty v = (if is_obj v then v else JObj [])"

definition unique_key :: "string \<Rightarrow> string \<Rightarrow> string \<Rightarrow> string \<Rightarrow> string \<Rightarrow> string" where
  "unique_key symbol timeframe family ph fp =
     symbol @ ''::'' @ timeframe @ ''::'' @ family @ ''::'' @ ph @ ''::'' @ fp"

definition classify_row ::
  "(json \<Rightarrow> string) \<Rightarrow> (string \<Rightarrow> int option) \<Rightarrow> (string \<Rightarrow> rat option) \<Rightarrow> (json \<Rightarrow> string) \<Rightarrow> string \<Rightarrow> string
     \<Rightarrow> string \<Rightarrow> int option \<Rightarrow> json \<Rightarrow> exn + candidate_row" where
  "classify_row rep int_text float_text hash label timeframe fp task row =
     (let symbol = norm_symbol (str_of_json rep (jget ''symbol'' row));
          family = str_of_json rep (jget ''family'' row);
          params = py_or (jget ''params'' row) (JObj []);
          ph = hash params;
          metrics = obj_or_empty (jget ''metrics'' row);
          regime = obj_or_empty (jget ''regime_summary'' row);
          text_of = (\<lambda>k. str_of_json rep (py_or (jget k row) (jget k metrics)))
      in case int_of_json int_text (jget ''n_trades'' metrics) of
           Inl e \<Rightarrow> Inl e
         | Inr n \<Rightarrow>
             (case float_of_json float_text (jget ''avg_net_pct'' metrics) of
                Inl e \<Rightarrow> Inl e
              | Inr avg \<Rightarrow>
                  if \<not> is_obj params then Inl (TypeError ''params'')
                  else case int_of_json int_text (jget ''effective_n_trials'' metrics) of
                         Inl e \<Rightarrow> Inl e
                       | Inr trials \<Rightarrow>
                           Inr \<lparr>u_key = unique_key symbol timeframe family ph fp, u_symbol = Some symbol,
                              u_timeframe = Some timeframe, u_family = Some family, u_params_hash = Some ph,
                              u_fingerprint = Some fp,
                              u_decision = Some (str_default rep (jget ''decision'' row) ''UNKNOWN''),
                              u_validation = Some (str_of_json rep (jget ''validation_status'' row)), u_hard = Some [],
                              u_trades = n, u_avg_net = avg,
                              u_candidate = Some (str_of_json rep (py_or (jget ''run_id'' row) (jget ''candidate_id'' row))),
                              u_run_dir = Some label, u_params = params, u_task = task, u_paper = [],
                              u_regime = str_of_json rep (jget ''dominant_bucket'' regime),
                              u_search_family = text_of ''search_family_id'', u_search_trial = text_of ''search_trial_id'',
                              u_trials = trials, u_updated = 0\<rparr>))"

fun sequence_rows :: "(exn + 'a) list \<Rightarrow> exn + 'a list" where
  "sequence_rows [] = Inr []"
| "sequence_rows (Inl e # xs) = Inl e"
| "sequence_rows (Inr x # xs) = (case sequence_rows xs of Inl e \<Rightarrow> Inl e | Inr ys \<Rightarrow> Inr (x # ys))"

definition classify_run ::
  "(json \<Rightarrow> string) \<Rightarrow> (string \<Rightarrow> int option) \<Rightarrow> (string \<Rightarrow> rat option) \<Rightarrow> (json \<Rightarrow> string) \<Rightarrow> string \<Rightarrow> string
     \<Rightarrow> string option \<Rightarrow> int option \<Rightarrow> json option \<Rightarrow> exn + candidate_row list" where
  "classify_run rep int_text float_text hash label timeframe fingerprint task payload =
     (case payload of
        None \<Rightarrow> Inr []
      | Some p \<Rightarrow>
          (case jget ''results'' p of
             JArr rows \<Rightarrow>
               sequence_rows (map (classify_row rep int_text float_text hash label timeframe
                   (if str_or fingerprint = [] then ''nofp'' else str_or fingerprint) task) (filter is_obj rows))
           | _ \<Rightarrow> Inr []))"

end
