(* ===== verification/Scheduler_Claims.thy ===== *)
theory Scheduler_Claims
  imports Scheduler
begin

text \<open>
  The plan of \<^verbatim>\<open>farm_scheduler.py\<close> against a reference: the first admissible candidates, one per
  instrument, in rank order, up to the cap.
\<close>

section \<open>The reference plan\<close>

definition job_key :: "(json \<Rightarrow> string) \<Rightarrow> farm_job \<Rightarrow> string" where
  "job_key rep j = text_upper (str_of_json rep (py_or (fj_inst j) (fj_symbol j)))"

fun first_per_key :: "('a \<Rightarrow> 'k) \<Rightarrow> 'k set \<Rightarrow> 'a list \<Rightarrow> 'a list" where
  "first_per_key key seen [] = []"
| "first_per_key key seen (x # xs) =
     (if key x \<in> seen then first_per_key key seen xs
      else x # first_per_key key (insert (key x) seen) xs)"

definition admissible :: "(json \<Rightarrow> string) \<Rightarrow> string list \<Rightarrow> string list \<Rightarrow> farm_job \<Rightarrow> bool" where
  "admissible rep completed pending j \<longleftrightarrow>
     job_key rep j \<noteq> [] \<and> job_key rep j \<notin> text_upper ` set completed \<and> job_key rep j \<notin> text_upper ` set pending"

definition job_candidates :: "(json \<Rightarrow> string) \<Rightarrow> json list \<Rightarrow> string list \<Rightarrow> farm_job list" where
  "job_candidates rep watches backlog =
     map (job_of_watch rep) (filter watch_eligible (rank_watches rep watches)) @ map job_of_backlog backlog"

definition reference_jobs ::
  "(json \<Rightarrow> string) \<Rightarrow> json list \<Rightarrow> int \<Rightarrow> string list \<Rightarrow> string list \<Rightarrow> string list \<Rightarrow> farm_job list" where
  "reference_jobs rep watches max_jobs backlog completed pending =
     take (nat max_jobs)
       (first_per_key (job_key rep) {} (filter (admissible rep completed pending) (job_candidates rep watches backlog)))"

lemma job_key_watch [simp]: "job_key rep (job_of_watch rep w) = watch_key rep w"
  by (simp add: job_key_def job_of_watch_def watch_key_def Let_def)

lemma str_of_json_text [simp]: "str_of_json rep (JStr s) = s"
  by (simp add: str_of_json_def)

lemma job_key_backlog [simp]: "job_key rep (job_of_backlog s) = text_upper s"
  by (simp add: job_key_def job_of_backlog_def py_or_def)

section \<open>First per key\<close>

lemma first_per_key_set: "set (first_per_key key seen xs) \<subseteq> set xs"
  by (induction xs arbitrary: seen) auto

lemma first_per_key_distinct:
  "distinct (map key (first_per_key key seen xs)) \<and> (\<forall>x \<in> set (first_per_key key seen xs). key x \<notin> seen)"
proof (induction xs arbitrary: seen)
  case (Cons x xs)
  show ?case using Cons.IH[of seen] Cons.IH[of "insert (key x) seen"] by auto
qed simp

lemma first_per_key_covers: "x \<in> set xs \<Longrightarrow> key x \<notin> seen \<Longrightarrow> key x \<in> key ` set (first_per_key key seen xs)"
  by (induction xs arbitrary: seen) auto

lemma first_per_key_earliest:
  assumes "sorted (map f xs)" and "x \<in> set xs" and "key x \<notin> seen"
  shows "\<exists>y \<in> set (first_per_key key seen xs). key y = key x \<and> f y \<le> f x"
  using assms
proof (induction xs arbitrary: seen)
  case (Cons a xs)
  then show ?case by (cases "key a \<in> seen"; cases "key a = key x") auto
qed simp

lemma first_per_key_append:
  "first_per_key key seen (xs @ ys) =
     first_per_key key seen xs @ first_per_key key (seen \<union> key ` set (first_per_key key seen xs)) ys"
  by (induction xs arbitrary: seen) auto

lemma first_per_key_sorted: "sorted (map f xs) \<Longrightarrow> sorted (map f (first_per_key key seen xs))"
proof (induction xs arbitrary: seen)
  case (Cons x xs)
  then show ?case using first_per_key_set[of key "insert (key x) seen" xs] by (auto simp: image_iff)
qed simp

section \<open>The loops compute the reference\<close>

text \<open>Whether a candidate is taken in a state.\<close>

definition takes ::
  "(json \<Rightarrow> string) \<Rightarrow> int \<Rightarrow> string list \<Rightarrow> string list \<Rightarrow> farm_job \<Rightarrow> plan_state \<Rightarrow> bool" where
  "takes rep max_jobs completed pending j st \<longleftrightarrow>
     admissible rep completed pending j \<and> job_key rep j \<notin> set (pl_seen st) \<and> int (length (pl_jobs st)) < max_jobs"

abbreviation upper_all :: "string list \<Rightarrow> string list" where
  "upper_all \<equiv> map text_upper"

lemma plan_watch_effect:
  "pl_jobs (plan_watch rep m (upper_all completed) (upper_all pending) w st) =
     (if watch_eligible w \<and> takes rep m completed pending (job_of_watch rep w) st
      then pl_jobs st @ [job_of_watch rep w] else pl_jobs st)"
  "pl_seen (plan_watch rep m (upper_all completed) (upper_all pending) w st) =
     (if watch_eligible w \<and> takes rep m completed pending (job_of_watch rep w) st
      then watch_key rep w # pl_seen st else pl_seen st)"
  by (auto simp: plan_watch_def Let_def skip_watch_def watch_eligible_def takes_def admissible_def)

text \<open>Consuming one candidate against \<open>first_per_key\<close> and the remaining room.\<close>

lemma first_per_key_room:
  assumes "int (length js) < m \<and> key x \<notin> seen"
  shows "js @ take (nat (m - int (length js))) (first_per_key key seen (x # xs)) =
    (js @ [x]) @ take (nat (m - int (length (js @ [x])))) (first_per_key key (insert (key x) seen) xs)"
proof -
  obtain k where "m - (1 + int (length js)) = int k"
    using assms zero_le_imp_eq_int[of "m - (1 + int (length js))"] by auto
  then have "m - int (length js) = int (Suc k)" and "m - int (length (js @ [x])) = int k" by simp_all
  then show ?thesis using assms by (simp only: nat_int) simp
qed

lemma first_per_key_skip:
  assumes "\<not> (int (length js) < m \<and> key x \<notin> seen)"
  shows "js @ take (nat (m - int (length js))) (first_per_key key seen (x # xs)) =
    js @ take (nat (m - int (length js))) (first_per_key key seen xs)"
  using assms by auto

lemma plan_watches_jobs:
  "pl_jobs (fold (plan_watch rep m (upper_all completed) (upper_all pending)) ws st) =
     pl_jobs st @ take (nat (m - int (length (pl_jobs st))))
       (first_per_key (job_key rep) (set (pl_seen st))
         (filter (admissible rep completed pending) (map (job_of_watch rep) (filter watch_eligible ws))))"
proof (induction ws arbitrary: st)
  case (Cons w ws)
  let ?st = "plan_watch rep m (upper_all completed) (upper_all pending) w st"
  have E: "pl_jobs ?st = (if watch_eligible w \<and> takes rep m completed pending (job_of_watch rep w) st
        then pl_jobs st @ [job_of_watch rep w] else pl_jobs st)"
      "pl_seen ?st = (if watch_eligible w \<and> takes rep m completed pending (job_of_watch rep w) st
        then watch_key rep w # pl_seen st else pl_seen st)"
    by (rule plan_watch_effect)+
  show ?case
  proof (cases "watch_eligible w \<and> admissible rep completed pending (job_of_watch rep w)")
    case True
    note R = first_per_key_room[of "pl_jobs st" m "job_key rep" "job_of_watch rep w" "set (pl_seen st)"]
      first_per_key_skip[of "pl_jobs st" m "job_key rep" "job_of_watch rep w" "set (pl_seen st)"]
    show ?thesis
    proof (cases "int (length (pl_jobs st)) < m \<and> watch_key rep w \<notin> set (pl_seen st)")
      case room: True
      then have "takes rep m completed pending (job_of_watch rep w) st" using True by (simp add: takes_def)
      then show ?thesis using True room R(1) Cons.IH[of ?st] by (simp add: E)
    next
      case full: False
      then have "\<not> takes rep m completed pending (job_of_watch rep w) st" by (auto simp: takes_def)
      then show ?thesis using True full R(2) Cons.IH[of ?st] by (simp add: E del: first_per_key.simps)
    qed
  next
    case False
    then have "\<not> (watch_eligible w \<and> takes rep m completed pending (job_of_watch rep w) st)" by (auto simp: takes_def)
    then show ?thesis using False Cons.IH[of ?st] by (auto simp: E)
  qed
qed simp

lemma plan_watches_seen:
  assumes "set (pl_seen st) = job_key rep ` set (pl_jobs st)"
  shows "set (pl_seen (fold (plan_watch rep m (upper_all completed) (upper_all pending)) ws st)) =
    job_key rep ` set (pl_jobs (fold (plan_watch rep m (upper_all completed) (upper_all pending)) ws st))"
  using assms
proof (induction ws arbitrary: st)
  case (Cons w ws)
  show ?case by (simp, rule Cons.IH) (auto simp: plan_watch_effect Cons.prems)
qed simp

lemma refill_jobs_full: "m \<le> int (length (pl_jobs st)) \<Longrightarrow> refill_jobs m completed pending symbols st = st"
  by (cases symbols) auto

lemma refill_jobs_jobs:
  "pl_jobs (refill_jobs m (upper_all completed) (upper_all pending) symbols st) =
     pl_jobs st @ take (nat (m - int (length (pl_jobs st))))
       (first_per_key (job_key rep) (set (pl_seen st))
         (filter (admissible rep completed pending) (map job_of_backlog symbols)))"
proof (induction symbols arbitrary: st)
  case (Cons s symbols)
  show ?case
  proof (cases "m \<le> int (length (pl_jobs st))")
    case True
    then show ?thesis by (simp add: refill_jobs_full)
  next
    case room: False
    show ?thesis
    proof (cases "admissible rep completed pending (job_of_backlog s) \<and> text_upper s \<notin> set (pl_seen st)")
      case True
      then have "text_upper s \<noteq> [] \<and> text_upper s \<notin> set (upper_all completed) \<and> text_upper s \<notin> set (upper_all pending)"
        by (auto simp: admissible_def)
      then show ?thesis
        using True room first_per_key_room[of "pl_jobs st" m "job_key rep" "job_of_backlog s" "set (pl_seen st)"]
        by (simp add: Cons.IH Let_def)
    next
      case False
      then have "text_upper s = [] \<or> text_upper s \<in> set (pl_seen st) \<or> text_upper s \<in> set (upper_all completed)
          \<or> text_upper s \<in> set (upper_all pending)"
        by (auto simp: admissible_def)
      then have "refill_jobs m (upper_all completed) (upper_all pending) (s # symbols) st =
          refill_jobs m (upper_all completed) (upper_all pending) symbols st"
        using room by (simp add: Let_def)
      then show ?thesis using False by (auto simp: Cons.IH)
    qed
  qed
qed simp

section \<open>Counters\<close>

lemma count_watch_simps [simp]:
  "n_read (count_watch rep w k) = Suc (n_read k)"
  "n_eligible (count_watch rep w k) = n_eligible k"
  "n_queued (count_watch rep w k) = n_queued k"
  by (simp_all add: count_watch_def Let_def)

lemma plan_watch_counters:
  "n_read (pl_counters (plan_watch rep m (upper_all completed) (upper_all pending) w st)) = Suc (n_read (pl_counters st))"
  "n_eligible (pl_counters (plan_watch rep m (upper_all completed) (upper_all pending) w st)) =
     (if watch_eligible w then Suc (n_eligible (pl_counters st)) else n_eligible (pl_counters st))"
  "n_queued (pl_counters st) = length (pl_jobs st) \<Longrightarrow>
     n_queued (pl_counters (plan_watch rep m (upper_all completed) (upper_all pending) w st)) =
       length (pl_jobs (plan_watch rep m (upper_all completed) (upper_all pending) w st))"
  by (auto simp: plan_watch_def Let_def skip_watch_def watch_eligible_def)

lemma plan_watches_counters:
  assumes "n_queued (pl_counters st) = length (pl_jobs st)"
  shows "n_read (pl_counters (fold (plan_watch rep m (upper_all completed) (upper_all pending)) ws st)) =
      n_read (pl_counters st) + length ws \<and>
    n_eligible (pl_counters (fold (plan_watch rep m (upper_all completed) (upper_all pending)) ws st)) =
      n_eligible (pl_counters st) + rowcount watch_eligible ws \<and>
    n_queued (pl_counters (fold (plan_watch rep m (upper_all completed) (upper_all pending)) ws st)) =
      length (pl_jobs (fold (plan_watch rep m (upper_all completed) (upper_all pending)) ws st))"
  using assms
proof (induction ws arbitrary: st)
  case (Cons w ws)
  note I = Cons.IH[OF plan_watch_counters(3)[OF Cons.prems, of rep m completed pending w]]
  show ?case using I by (simp add: plan_watch_counters(1,2) rowcount_def)
qed (simp add: rowcount_def)

lemma refill_counters:
  assumes "n_queued (pl_counters st) = length (pl_jobs st)"
  shows "n_read (pl_counters (refill_jobs m completed pending symbols st)) = n_read (pl_counters st) \<and>
    n_eligible (pl_counters (refill_jobs m completed pending symbols st)) = n_eligible (pl_counters st) \<and>
    n_queued (pl_counters (refill_jobs m completed pending symbols st)) =
      length (pl_jobs (refill_jobs m completed pending symbols st))"
  using assms by (induction m completed pending symbols st rule: refill_jobs.induct) (auto simp: Let_def)

section \<open>Properties\<close>

lemma rank_watches_mset: "set (rank_watches rep watches) = set watches" "length (rank_watches rep watches) = length watches"
    "rowcount watch_eligible (rank_watches rep watches) = rowcount watch_eligible watches"
proof -
  show "set (rank_watches rep watches) = set watches" "length (rank_watches rep watches) = length watches"
    by (simp_all add: rank_watches_def)
  show "rowcount watch_eligible (rank_watches rep watches) = rowcount watch_eligible watches"
    by (simp add: rowcount_def rank_watches_def filter_sort)
qed

lemma plan_jobs_state:
  assumes "plan_jobs rep watches m backlog completed pending = Inr p"
  shows "p = refill_jobs m (upper_all completed) (upper_all pending) backlog
    (fold (plan_watch rep m (upper_all completed) (upper_all pending)) (rank_watches rep watches)
      \<lparr>pl_jobs = [], pl_skipped = [], pl_counters = empty_counters, pl_seen = []\<rparr>)"
  using assms by (simp add: plan_jobs_def Let_def split: if_splits)

lemma plan_jobs_is_reference:
  assumes "plan_jobs rep watches m backlog completed pending = Inr p"
  shows "pl_jobs p = reference_jobs rep watches m backlog completed pending"
proof -
  let ?start = "\<lparr>pl_jobs = [], pl_skipped = [], pl_counters = empty_counters, pl_seen = []\<rparr>"
  let ?st = "fold (plan_watch rep m (upper_all completed) (upper_all pending)) (rank_watches rep watches) ?start"
  let ?adm = "filter (admissible rep completed pending)"
  let ?F = "first_per_key (job_key rep) {} (?adm (map (job_of_watch rep) (filter watch_eligible (rank_watches rep watches))))"
  let ?B = "?adm (map job_of_backlog backlog)"
  have J: "pl_jobs ?st = take (nat m) ?F" using plan_watches_jobs[of rep m completed pending "rank_watches rep watches" ?start] by simp
  have S: "set (pl_seen ?st) = job_key rep ` set (pl_jobs ?st)" by (rule plan_watches_seen) simp
  have "pl_jobs p = pl_jobs ?st @ take (nat (m - int (length (pl_jobs ?st))))
      (first_per_key (job_key rep) (set (pl_seen ?st)) ?B)"
    by (subst plan_jobs_state[OF assms]) (rule refill_jobs_jobs)
  also have "\<dots> = take (nat m) ?F @ take (nat (m - int (length (take (nat m) ?F))))
      (first_per_key (job_key rep) (job_key rep ` set (take (nat m) ?F)) ?B)"
    by (simp only: S J)
  also have "\<dots> = take (nat m) (?F @ first_per_key (job_key rep) ({} \<union> job_key rep ` set ?F) ?B)"
  proof (cases "length ?F \<le> nat m")
    case True
    moreover have "nat (m - int k) = nat m - k" for k by arith
    ultimately show ?thesis by simp
  next
    case False
    then have "nat (m - int (length (take (nat m) ?F))) = 0" by auto
    then show ?thesis using False by simp
  qed
  also have "\<dots> = reference_jobs rep watches m backlog completed pending"
    by (simp add: reference_jobs_def job_candidates_def first_per_key_append)
  finally show ?thesis .
qed

lemma job_priority_bounds: "fst (classify_watch rep w) \<le> 40"
  by (simp add: classify_watch_def Let_def)

lemma candidates_sorted: "sorted (map fj_priority (job_candidates rep watches backlog))"
proof -
  have "sorted (map (\<lambda>w. (fst (classify_watch rep w), str_of_json rep (jget ''created_at'' w))) (rank_watches rep watches))"
    by (simp add: rank_watches_def)
  then have "sorted (map (\<lambda>w. fst (classify_watch rep w)) (rank_watches rep watches))"
    by (induction "rank_watches rep watches" rule: rev_induct) (auto simp: sorted_map less_eq_prod_def elim!: sorted_wrt_mono_rel[rotated])
  then have "sorted (map (\<lambda>w. fst (classify_watch rep w)) (filter watch_eligible (rank_watches rep watches)))"
    by (rule sorted_filter)
  moreover have "sorted (map (\<lambda>x. 90 :: int) backlog)" by (induction backlog) auto
  moreover have "fst (classify_watch rep w) \<le> 90" for w using job_priority_bounds[of rep w] by simp
  ultimately show ?thesis
    by (auto simp: job_candidates_def sorted_append job_of_watch_def job_of_backlog_def comp_def)
qed

lemma sorted_before_dropped:
  assumes "sorted (map f xs)" and "y \<in> set (drop n xs)" and "x \<in> set (take n xs)"
  shows "f x \<le> f y"
proof -
  have "sorted (map f (take n xs) @ map f (drop n xs))" using assms(1) by (simp flip: map_append)
  then show ?thesis using assms(2,3) by (simp add: sorted_append)
qed

lemma take_or_late:
  assumes "sorted (map f xs)" and "x \<in> set xs"
  shows "x \<in> set (take n xs) \<or> length (take n xs) = n \<and> (\<forall>y \<in> set (take n xs). f y \<le> f x)"
proof (cases "x \<in> set (take n xs)")
  case False
  then have "x \<in> set (drop n xs)" using assms(2) by (metis Un_iff append_take_drop_id set_append)
  then have "n < length xs" by (metis drop_eq_Nil2 empty_iff empty_set not_le)
  then show ?thesis using sorted_before_dropped[OF assms(1) \<open>x \<in> set (drop n xs)\<close>] by simp
qed simp

text \<open>C28 The plan is the reference plan: of the eligible watches in rank order, followed by the backlog, the
  candidates with a usable key that is neither completed nor pending, the first one for each key, cut at
  the cap; and the counters agree with it.\<close>

theorem plan_jobs_reference:
  assumes "plan_jobs rep watches m backlog completed pending = Inr p"
  shows "pl_jobs p = reference_jobs rep watches m backlog completed pending \<and>
    n_queued (pl_counters p) = length (pl_jobs p) \<and> n_read (pl_counters p) = length watches \<and>
    n_eligible (pl_counters p) = rowcount watch_eligible watches"
proof -
  let ?start = "\<lparr>pl_jobs = [], pl_skipped = [], pl_counters = empty_counters, pl_seen = []\<rparr>"
  let ?st = "fold (plan_watch rep m (upper_all completed) (upper_all pending)) (rank_watches rep watches) ?start"
  have C: "n_read (pl_counters ?st) = length watches" "n_eligible (pl_counters ?st) = rowcount watch_eligible watches"
      "n_queued (pl_counters ?st) = length (pl_jobs ?st)"
    using plan_watches_counters[of ?start rep m completed pending "rank_watches rep watches"]
    by (simp_all add: empty_counters_def rank_watches_mset)
  show ?thesis
    using plan_jobs_is_reference[OF assms] refill_counters[OF C(3), of m "upper_all completed" "upper_all pending" backlog] C
    by (simp add: plan_jobs_state[OF assms, symmetric])
qed

lemma reference_covers:
  assumes P: "jobs = take (nat m) (first_per_key (job_key rep) {} (filter (admissible rep completed pending) (job_candidates rep watches backlog)))"
    and j: "j \<in> set (job_candidates rep watches backlog)" "admissible rep completed pending j"
  shows "job_key rep j \<in> job_key rep ` set jobs \<or>
    int (length jobs) = max 0 m \<and> (\<forall>y \<in> set jobs. fj_priority y \<le> fj_priority j)"
proof -
  let ?F = "first_per_key (job_key rep) {} (filter (admissible rep completed pending) (job_candidates rep watches backlog))"
  have sorted: "sorted (map fj_priority ?F)"
    by (intro first_per_key_sorted sorted_filter candidates_sorted)
  obtain x where x: "x \<in> set ?F" "job_key rep x = job_key rep j" "fj_priority x \<le> fj_priority j"
    using first_per_key_earliest[OF sorted_filter[OF candidates_sorted], of j "admissible rep completed pending" rep watches backlog
        "job_key rep" "{}"] j by auto
  from take_or_late[OF sorted x(1), of "nat m"] show ?thesis
  proof
    assume "x \<in> set (take (nat m) ?F)"
    then have "job_key rep x \<in> job_key rep ` set (jobs)" unfolding P by (rule imageI)
    then show ?thesis using x(2) by simp
  next
    assume "length (take (nat m) ?F) = nat m \<and> (\<forall>y \<in> set (take (nat m) ?F). fj_priority y \<le> fj_priority x)"
    then have full: "int (length (jobs)) = int (nat m)" and late: "\<forall>y \<in> set (jobs). fj_priority y \<le> fj_priority x"
      by (simp_all add: P)
    have "\<forall>y \<in> set (jobs). fj_priority y \<le> fj_priority j" using late x(3) by (auto intro: order_trans)
    with full show ?thesis by (simp add: max_def)
  qed
qed

text \<open>What a plan guarantees: at most \<open>max_jobs\<close> jobs, one per instrument, none completed or pending,
  the most urgent first and the backlog last; every eligible watch with a fresh key is either served by a
  job for its instrument or crowded out by a full plan of jobs at least as urgent, and the backlog fills
  the plan as long as there is room.\<close>

theorem plan_jobs_guarantees:
  assumes "plan_jobs rep watches m backlog completed pending = Inr p"
  shows "int (length (pl_jobs p)) \<le> max 0 m \<and> distinct (map (job_key rep) (pl_jobs p)) \<and>
    sorted (map fj_priority (pl_jobs p)) \<and>
    (\<forall>j \<in> set (pl_jobs p). admissible rep completed pending j \<and>
       ((\<exists>w \<in> set watches. watch_eligible w \<and> j = job_of_watch rep w) \<or> (\<exists>s \<in> set backlog. j = job_of_backlog s))) \<and>
    (\<forall>w \<in> set watches. watch_eligible w \<and> admissible rep completed pending (job_of_watch rep w) \<longrightarrow>
       watch_key rep w \<in> job_key rep ` set (pl_jobs p) \<or>
       int (length (pl_jobs p)) = max 0 m \<and> (\<forall>j \<in> set (pl_jobs p). fj_priority j \<le> fst (classify_watch rep w))) \<and>
    (\<forall>s \<in> set backlog. admissible rep completed pending (job_of_backlog s) \<longrightarrow>
       text_upper s \<in> job_key rep ` set (pl_jobs p) \<or> int (length (pl_jobs p)) = max 0 m)"
proof -
  define F where "F = first_per_key (job_key rep) {} (filter (admissible rep completed pending) (job_candidates rep watches backlog))"
  have P: "pl_jobs p = take (nat m) F"
    using plan_jobs_is_reference[OF assms] by (simp add: reference_jobs_def F_def)
  have sub: "set F \<subseteq> {j \<in> set (job_candidates rep watches backlog). admissible rep completed pending j}"
    using first_per_key_set[of "job_key rep" "{}" "filter (admissible rep completed pending) (job_candidates rep watches backlog)"]
    by (auto simp: F_def)
  have sorted: "sorted (map fj_priority F)"
    unfolding F_def by (intro first_per_key_sorted sorted_filter candidates_sorted)
  have dist: "distinct (map (job_key rep) F)" using first_per_key_distinct[of "job_key rep" "{}"] by (simp add: F_def)
  note cover = reference_covers[OF P[unfolded F_def]]
  have cands: "job_of_watch rep w \<in> set (job_candidates rep watches backlog)" if "w \<in> set watches" "watch_eligible w" for w
    using that by (simp add: job_candidates_def rank_watches_mset)
  have backs: "job_of_backlog x \<in> set (job_candidates rep watches backlog)" if "x \<in> set backlog" for x
    using that by (simp add: job_candidates_def)
  have prio: "fj_priority (job_of_watch rep w) = fst (classify_watch rep w)" for w by (simp add: job_of_watch_def)
  have in_F: "set (pl_jobs p) \<subseteq> set F" unfolding P by (rule set_take_subset)
  show ?thesis
  proof (intro conjI ballI impI)
    show "int (length (pl_jobs p)) \<le> max 0 m" by (simp add: P)
    show "distinct (map (job_key rep) (pl_jobs p))" using dist by (simp add: P take_map[symmetric])
    show "sorted (map fj_priority (pl_jobs p))" using sorted by (simp add: P take_map[symmetric])
  next
    fix j assume j: "j \<in> set (pl_jobs p)"
    show "admissible rep completed pending j" using in_F sub j by blast
    have "j \<in> set (job_candidates rep watches backlog)" using in_F sub j by blast
    then show "(\<exists>w \<in> set watches. watch_eligible w \<and> j = job_of_watch rep w) \<or> (\<exists>s \<in> set backlog. j = job_of_backlog s)"
      by (auto simp: job_candidates_def rank_watches_mset)
  next
    fix w assume w: "w \<in> set watches" "watch_eligible w \<and> admissible rep completed pending (job_of_watch rep w)"
    show "watch_key rep w \<in> job_key rep ` set (pl_jobs p) \<or>
        int (length (pl_jobs p)) = max 0 m \<and> (\<forall>j \<in> set (pl_jobs p). fj_priority j \<le> fst (classify_watch rep w))"
      using cover[OF cands, of w] w prio by simp
  next
    fix x assume x: "x \<in> set backlog" "admissible rep completed pending (job_of_backlog x)"
    show "text_upper x \<in> job_key rep ` set (pl_jobs p) \<or> int (length (pl_jobs p)) = max 0 m"
      using cover[OF backs, of x] x by auto
  qed
qed

section \<open>Witnesses\<close>

definition demo_watch :: "string \<Rightarrow> string \<Rightarrow> string \<Rightarrow> json" where
  "demo_watch inst verdict created = JObj [(''watch_id'', JStr inst), (''created_at'', JStr created),
     (''scanner'', JObj [(''verdict'', JStr verdict)]),
     (''asset'', JObj [(''symbol'', JStr inst), (''okx_inst'', JStr inst), (''okx_resolved'', JBool True)]),
     (''farm'', JObj [(''eligible'', JBool True), (''data_readiness_status'', JStr ''usable'')])]"

definition demo_watches :: "json list" where
  "demo_watches = [demo_watch ''ETH'' ''WATCH'' ''1'', demo_watch ''BTC'' '' go '' ''2'', demo_watch ''btc'' ''GO'' ''3'']"

lemma demo_watch_simps:
  "jget ''created_at'' (demo_watch i v c) = JStr c" "sub_obj ''scanner'' (demo_watch i v c) = JObj [(''verdict'', JStr v)]"
  "sub_obj ''asset'' (demo_watch i v c) = JObj [(''symbol'', JStr i), (''okx_inst'', JStr i), (''okx_resolved'', JBool True)]"
  "sub_obj ''farm'' (demo_watch i v c) = JObj [(''eligible'', JBool True), (''data_readiness_status'', JStr ''usable'')]"
  "sub_obj ''trigger'' (demo_watch i v c) = JObj []" "jget ''verdict'' (demo_watch i v c) = JNull"
  "jget ''watch_id'' (demo_watch i v c) = JStr i" "\<not> watch_malformed (demo_watch i v c)"
  by (simp_all add: demo_watch_def sub_obj_def py_or_def watch_malformed_def is_obj_def)

lemma demo_upper: "text_upper ''go'' = ''GO''" "text_upper ''GO'' = ''GO''" "text_upper ''WATCH'' = ''WATCH''"
    "text_upper ''BTC'' = ''BTC''" "text_upper ''btc'' = ''BTC''" "text_upper ''ETH'' = ''ETH''" "text_upper ''SOL'' = ''SOL''"
    "text_strip '' go '' = ''go''" "text_strip ''GO'' = ''GO''" "text_strip ''WATCH'' = ''WATCH''"
  by code_simp+

lemma demo_classify:
  "fst (classify_watch rep (demo_watch i ''WATCH'' c)) = 20"
  "fst (classify_watch rep (demo_watch i ''GO'' c)) = 10"
  "fst (classify_watch rep (demo_watch i '' go '' c)) = 10"
  by (simp_all add: classify_watch_def watch_verdict_def demo_watch_simps py_or_def py_text_def demo_upper
      text_lower_def str_of_json_def Let_def)

lemma demo_plan: "\<exists>p. plan_jobs (\<lambda>_. []) demo_watches 2 [''ETH'', ''SOL''] [] [] = Inr p"
  by (simp add: plan_jobs_def demo_watches_def demo_watch_simps Let_def)

lemma demo_rank: "rank_watches (\<lambda>_. []) demo_watches =
    [demo_watch ''BTC'' '' go '' ''2'', demo_watch ''btc'' ''GO'' ''3'', demo_watch ''ETH'' ''WATCH'' ''1'']"
  by (simp add: rank_watches_def demo_watches_def demo_classify demo_watch_simps)

theorem plan_jobs_reference_witness:
  "\<exists>p. plan_jobs (\<lambda>_. []) demo_watches 2 [''ETH'', ''SOL''] [] [] = Inr p \<and>
     map (job_key (\<lambda>_. [])) (pl_jobs p) = [''BTC'', ''ETH''] \<and> n_eligible (pl_counters p) = 3"
proof -
  obtain p where p: "plan_jobs (\<lambda>_. []) demo_watches 2 [''ETH'', ''SOL''] [] [] = Inr p" using demo_plan by blast
  have keys: "watch_key (\<lambda>_. []) (demo_watch i v c) = text_upper i" if "i \<noteq> []" for i v c
    using that by (simp add: watch_key_def demo_watch_simps py_or_def)
  have elig: "watch_eligible (demo_watch i v c)" for i v c by (simp add: watch_eligible_def demo_watch_simps)
  have "map (job_key (\<lambda>_. [])) (reference_jobs (\<lambda>_. []) demo_watches 2 [''ETH'', ''SOL''] [] []) = [''BTC'', ''ETH'']"
    by (simp add: reference_jobs_def job_candidates_def demo_rank elig admissible_def keys demo_upper)
  then show ?thesis
    using plan_jobs_reference[OF p] p by (simp add: demo_watches_def elig rowcount_def)
qed

theorem plan_jobs_guarantees_witness:
  "\<exists>p. plan_jobs (\<lambda>_. []) demo_watches 2 [''ETH'', ''SOL''] [] [] = Inr p \<and> length (pl_jobs p) \<le> 2 \<and>
     distinct (map (job_key (\<lambda>_. [])) (pl_jobs p))"
proof -
  obtain p where p: "plan_jobs (\<lambda>_. []) demo_watches 2 [''ETH'', ''SOL''] [] [] = Inr p" using demo_plan by blast
  from plan_jobs_guarantees[OF p] p show ?thesis by auto
qed

end
