(* ===== verification/Outcome_Memory.thy ===== *)
theory Outcome_Memory
  imports Validation_Tasks
begin

text \<open>
  The read-through gate of \<open>src/research_lab/setup_outcome_memory.py\<close>: prior outcomes of the unique
  candidates aggregated per exact sweep, per parameter set and per family cell, what that memory says
  about a new sweep or proposal, and when a known-bad cell may be computed again.  A dict is the list of
  its items in insertion order; its keys are the texts the code builds.
\<close>

section \<open>Dicts\<close>

text \<open>\<open>f(d.setdefault(k, z))\<close> for an update in place of the stored value.\<close>

fun dict_adjust :: "'k \<Rightarrow> 'v \<Rightarrow> ('v \<Rightarrow> 'v) \<Rightarrow> ('k \<times> 'v) list \<Rightarrow> ('k \<times> 'v) list" where
  "dict_adjust k z f [] = [(k, f z)]"
| "dict_adjust k z f ((k2, v) # d) = (if k2 = k then (k2, f v) # d else (k2, v) # dict_adjust k z f d)"

lemma map_of_dict_adjust:
  "map_of (dict_adjust k z f d) x =
     (if x = k then Some (f (case map_of d k of None \<Rightarrow> z | Some v \<Rightarrow> v)) else map_of d x)"
  by (induction d) auto

lemma keys_dict_adjust:
  "map fst (dict_adjust k z f d) = map fst d @ (if k \<in> fst ` set d then [] else [k])"
  by (induction d) (auto simp: rev_image_eqI)

section \<open>Labels\<close>

definition hard_failed :: "string list" where
  "hard_failed = [''HARD_REJECT'', ''FAILED_OVERFIT'', ''FAILED_COSTS'', ''FAILED_FRAGILITY'', ''FAILED_OOS'',
     ''FAILED_DATA_QUALITY'', ''REGIME_ONLY'']"

definition power_floor :: int where
  "power_floor = 10"

definition eligible_lite :: "string list" where
  "eligible_lite = [''FORWARD_PAPER'', ''REGIME_SPECIFIC'']"

definition cost_class :: "rat \<Rightarrow> string" where
  "cost_class net =
     (if net > 0 then ''cost_ok''
      else if net + (1 / 10 - 2 / 100) > 0 then ''cost_bound_maker_unlock''
      else if net + 1 / 10 > 0 then ''cost_marginal''
      else ''cost_dead'')"

definition tactical_class :: "int \<Rightarrow> rat \<Rightarrow> string \<Rightarrow> string" where
  "tactical_class n net hard =
     (if hard = ''PAPER_FORWARD_READY'' then ''statistical_edge_candidate''
      else if 1 \<le> n \<and> n < power_floor \<and> net > 0 then ''one_shot_candidate'' else [])"

definition next_action :: "string \<Rightarrow> string \<Rightarrow> string \<Rightarrow> string" where
  "next_action outcome cost tactical =
     (if outcome = ''CONFIRMED_BAD'' then ''known_bad_freeze''
      else if outcome = ''WRONG_EXIT'' then ''exit_grid_phase2''
      else if outcome \<in> {''NEEDS_OI_DATA'', ''INSUFFICIENT_DATA''} then ''await_new_data''
      else if cost = ''cost_bound_maker_unlock'' then ''maker_cost_sensitivity_research''
      else if tactical = ''one_shot_candidate'' then ''shadow_forward_watch''
      else if outcome = ''POSITIVE_VALIDATED'' then ''hard_passed_await_human_go''
      else ''characterize_or_park'')"

definition subreason_classes :: "(string \<times> string) list" where
  "subreason_classes =
     [(''tactical_candidate'', ''TACTICAL_1_2_TRADE''),
      (''validator_too_strict'', ''THIN_BUT_PROMISING''),
      (''wrong_exit'', ''WRONG_EXIT''),
      (''wrong_timeframe'', ''WRONG_TIMEFRAME''),
      (''wrong_costs'', ''COST_SENSITIVE''),
      (''missing_oi_micro'', ''NEEDS_OI_DATA''),
      (''confirmed_bad'', ''CONFIRMED_BAD''),
      (''insufficient_data'', ''INSUFFICIENT_DATA''),
      (''uncharacterized'', ''UNCHARACTERIZED'')]"

definition positive_states :: "string list" where
  "positive_states = [''HARD_PASSED'', ''PAPER_PLAN_READY'', ''PAPER_POSITIVE_OBSERVED'']"

definition derive_outcome_class :: "string \<Rightarrow> string \<Rightarrow> bool \<Rightarrow> string \<Rightarrow> string" where
  "derive_outcome_class state subreason recovered hard =
     (if hard = ''PAPER_FORWARD_READY'' \<or> state \<in> set positive_states then ''POSITIVE_VALIDATED''
      else if recovered then ''EXIT_RECOVERED''
      else if state = ''HARD_ELIGIBLE'' then ''STATISTICAL_CANDIDATE''
      else case map_of subreason_classes subreason of None \<Rightarrow> ''UNCHARACTERIZED'' | Some c \<Rightarrow> c)"

section \<open>The gate index\<close>

record prior_agg =
  ga_n :: nat
  ga_eligible :: nat
  ga_bad :: nat
  ga_rejected :: nat
  ga_max_trades :: int
  ga_fingerprints :: "string set"
  ga_params :: "string set"
  ga_newest :: int

text \<open>The last three keys exist in the aggregates of a cell only; they stay empty in the others.\<close>

record gate_index =
  by_sweep :: "(string \<times> prior_agg) list"
  by_cell :: "(string \<times> prior_agg) list"
  by_params :: "(string \<times> prior_agg) list"

definition cell_key :: "string \<Rightarrow> string \<Rightarrow> string \<Rightarrow> string" where
  "cell_key sy tf fam = sy @ ''|'' @ tf @ ''|'' @ fam"

definition sweep_key :: "string \<Rightarrow> string \<Rightarrow> string \<Rightarrow> string \<Rightarrow> string" where
  "sweep_key sy tf fam x = sy @ ''|'' @ tf @ ''|'' @ fam @ ''|'' @ x"

definition row_cell :: "candidate_row \<Rightarrow> string" where
  "row_cell u = cell_key (str_or (u_symbol u)) (str_or (u_timeframe u)) (str_or (u_family u))"

definition row_sweep :: "candidate_row \<Rightarrow> string" where
  "row_sweep u = sweep_key (str_or (u_symbol u)) (str_or (u_timeframe u)) (str_or (u_family u)) (str_or (u_fingerprint u))"

definition row_params :: "candidate_row \<Rightarrow> string" where
  "row_params u = sweep_key (str_or (u_symbol u)) (str_or (u_timeframe u)) (str_or (u_family u)) (str_or (u_params_hash u))"

definition row_eligible :: "candidate_row \<Rightarrow> bool" where
  "row_eligible u \<longleftrightarrow> str_or (u_validation u) \<in> set eligible_lite \<or> str_or (u_hard u) = ''PAPER_FORWARD_READY''"

definition row_confirmed_bad :: "candidate_row \<Rightarrow> bool" where
  "row_confirmed_bad u \<longleftrightarrow> u_trades u \<ge> power_floor \<and> u_avg_net u \<le> 0"

definition row_rejected :: "candidate_row \<Rightarrow> bool" where
  "row_rejected u \<longleftrightarrow>
     str_or (u_decision u) = ''REJECT'' \<or> str_or (u_validation u) = ''REJECT'' \<or> str_or (u_hard u) \<in> set hard_failed"

text \<open>\<open>int(float(updated_at))\<close> truncates towards zero.\<close>

definition as_ms :: "time \<Rightarrow> int" where
  "as_ms t = (if t \<ge> 0 then floor t else - floor (- t))"

definition empty_agg :: prior_agg where
  "empty_agg = \<lparr>ga_n = 0, ga_eligible = 0, ga_bad = 0, ga_rejected = 0, ga_max_trades = 0,
     ga_fingerprints = {}, ga_params = {}, ga_newest = 0\<rparr>"

definition count_prior :: "candidate_row \<Rightarrow> prior_agg \<Rightarrow> prior_agg" where
  "count_prior u a =
     a\<lparr>ga_n := ga_n a + 1,
       ga_eligible := ga_eligible a + of_bool (row_eligible u),
       ga_bad := ga_bad a + of_bool (row_confirmed_bad u),
       ga_rejected := ga_rejected a + of_bool (row_rejected u),
       ga_max_trades := max (ga_max_trades a) (u_trades u)\<rparr>"

definition remember_prior :: "candidate_row \<Rightarrow> prior_agg \<Rightarrow> prior_agg" where
  "remember_prior u a =
     a\<lparr>ga_fingerprints := insert (str_or (u_fingerprint u)) (ga_fingerprints a),
       ga_params := insert (str_or (u_params_hash u)) (ga_params a),
       ga_newest := max (ga_newest a) (as_ms (u_updated u))\<rparr>"

definition add_candidate :: "gate_index \<Rightarrow> candidate_row \<Rightarrow> gate_index" where
  "add_candidate idx u =
     \<lparr>by_sweep = dict_adjust (row_sweep u) empty_agg (count_prior u) (by_sweep idx),
      by_cell = dict_adjust (row_cell u) empty_agg (\<lambda>a. remember_prior u (count_prior u a)) (by_cell idx),
      by_params = dict_adjust (row_params u) empty_agg (count_prior u) (by_params idx)\<rparr>"

definition build_gate_index :: "candidate_row list \<Rightarrow> gate_index" where
  "build_gate_index rows = foldl add_candidate \<lparr>by_sweep = [], by_cell = [], by_params = []\<rparr> rows"

section \<open>What the memory says\<close>

record memory_verdict =
  mv_action :: string
  mv_reason :: string
  mv_matched :: string
  mv_eligible :: nat
  mv_bad :: nat
  mv_max :: int

definition deprioritize_min :: nat where
  "deprioritize_min = 5"

definition cell_dead :: "prior_agg \<Rightarrow> bool" where
  "cell_dead c \<longleftrightarrow> ga_n c \<ge> deprioritize_min \<and> (of_nat (ga_rejected c) / of_nat (ga_n c) :: rat) \<ge> 8 / 10"

definition lookup_cell :: "gate_index \<Rightarrow> string \<Rightarrow> memory_verdict" where
  "lookup_cell idx key =
     (let fresh = \<lparr>mv_action = ''fresh'', mv_reason = ''unseen_or_inconclusive'', mv_matched = ''none'',
                    mv_eligible = 0, mv_bad = 0, mv_max = 0\<rparr>
      in case map_of (by_cell idx) key of
           None \<Rightarrow> fresh
         | Some c \<Rightarrow>
             if ga_n c > 0 \<and> ga_eligible c > 0
             then \<lparr>mv_action = ''revisit'', mv_reason = ''cell_has_eligible_prior'', mv_matched = ''cell'',
                   mv_eligible = ga_eligible c, mv_bad = ga_bad c, mv_max = ga_max_trades c\<rparr>
             else if ga_n c > 0 \<and> cell_dead c
             then \<lparr>mv_action = ''deprioritize'', mv_reason = ''cell_historically_all_rejected'', mv_matched = ''cell'',
                   mv_eligible = 0, mv_bad = ga_bad c, mv_max = ga_max_trades c\<rparr>
             else fresh)"

definition lookup :: "gate_index \<Rightarrow> string \<Rightarrow> string \<Rightarrow> string \<Rightarrow> string \<Rightarrow> memory_verdict" where
  "lookup idx sy tf fam fp =
     (case map_of (by_sweep idx) (sweep_key sy tf fam fp) of
        Some s \<Rightarrow>
          if ga_n s > 0
          then (if ga_eligible s > 0
                then \<lparr>mv_action = ''revisit'', mv_reason = ''prior_eligible_on_identical_data'', mv_matched = ''exact'',
                      mv_eligible = ga_eligible s, mv_bad = ga_bad s, mv_max = ga_max_trades s\<rparr>
                else \<lparr>mv_action = ''skip_known_bad'',
                      mv_reason = (if ga_bad s > 0 then ''confirmed_bad_identical_data'' else ''no_eligible_identical_data''),
                      mv_matched = ''exact'', mv_eligible = ga_eligible s, mv_bad = ga_bad s, mv_max = ga_max_trades s\<rparr>)
          else lookup_cell idx (cell_key sy tf fam)
      | None \<Rightarrow> lookup_cell idx (cell_key sy tf fam))"

definition proposal_verdict :: "gate_index \<Rightarrow> string \<Rightarrow> string \<Rightarrow> string \<Rightarrow> string \<Rightarrow> string \<times> string \<times> string" where
  "proposal_verdict idx sy tf fam ph =
     (if (case map_of (by_params idx) (sweep_key sy tf fam ph) of
            None \<Rightarrow> False | Some e \<Rightarrow> ga_n e > 0 \<and> ga_eligible e = 0 \<and> ga_bad e > 0)
      then (''known_bad'', ''params_confirmed_bad'', ''params'')
      else case map_of (by_cell idx) (cell_key sy tf fam) of
             None \<Rightarrow> (''fresh'', ''unseen_or_inconclusive'', ''none'')
           | Some c \<Rightarrow>
               if ga_n c > 0 \<and> ga_eligible c > 0 then (''revisit'', ''cell_has_eligible_prior'', ''cell'')
               else if ga_n c > 0 \<and> cell_dead c \<and> ga_max_trades c \<ge> power_floor
               then (''known_bad'', ''cell_confirmed_dead_with_power'', ''cell'')
               else (''fresh'', ''unseen_or_inconclusive'', ''none''))"

text \<open>\<open>gate_distribution\<close>: a key of the index split at its first three bars; a key without them is passed over.\<close>

definition split_bar :: "string \<Rightarrow> (string \<times> string) option" where
  "split_bar s = (case dropWhile (\<lambda>c. c \<noteq> CHR ''|'') s of
                    [] \<Rightarrow> None | _ # rest \<Rightarrow> Some (takeWhile (\<lambda>c. c \<noteq> CHR ''|'') s, rest))"

definition split_key :: "string \<Rightarrow> (string \<times> string \<times> string \<times> string) option" where
  "split_key s =
     (case split_bar s of None \<Rightarrow> None | Some (a, s1) \<Rightarrow>
        (case split_bar s1 of None \<Rightarrow> None | Some (b, s2) \<Rightarrow>
           (case split_bar s2 of None \<Rightarrow> None | Some (c, d) \<Rightarrow> Some (a, b, c, d))))"

definition gate_distribution :: "gate_index \<Rightarrow> (string \<times> nat) list" where
  "gate_distribution idx =
     foldl (\<lambda>out (key, _).
              case split_key key of
                None \<Rightarrow> out
              | Some (sy, tf, fam, fp) \<Rightarrow> dict_adjust (mv_action (lookup idx sy tf fam fp)) 0 (\<lambda>n. n + 1) out)
       [(''skip_known_bad'', 0), (''revisit'', 0), (''deprioritize'', 0), (''fresh'', 0)] (by_sweep idx)"

section \<open>Revisiting a known-bad cell\<close>

record prior_record =
  pr_fingerprints :: "string set"
  pr_params :: "string set"
  pr_horizons :: "string set"
  pr_oi_funding :: bool
  pr_newest :: int
  pr_eligible :: nat

text \<open>The record of a cell never has the keys \<open>horizons\<close> and \<open>had_oi_funding_context\<close>; an unseen cell
  gives the empty dict.\<close>

definition prior_for_cell :: "gate_index \<Rightarrow> string \<Rightarrow> string \<Rightarrow> string \<Rightarrow> prior_record" where
  "prior_for_cell idx sy tf fam =
     (case map_of (by_cell idx) (cell_key sy tf fam) of
        None \<Rightarrow> \<lparr>pr_fingerprints = {}, pr_params = {}, pr_horizons = {}, pr_oi_funding = False, pr_newest = 0, pr_eligible = 0\<rparr>
      | Some c \<Rightarrow> \<lparr>pr_fingerprints = ga_fingerprints c, pr_params = ga_params c, pr_horizons = {}, pr_oi_funding = False,
                   pr_newest = ga_newest c, pr_eligible = ga_eligible c\<rparr>)"

record revisit_candidate =
  rc_fingerprint :: "string option"
  rc_params :: "string option"
  rc_horizon :: "string option"
  rc_oi_funding :: bool
  rc_manual_go :: bool

definition ms_per_day :: int where
  "ms_per_day = 86400000"

definition revisit_policy :: "prior_record \<Rightarrow> revisit_candidate \<Rightarrow> int \<Rightarrow> int option \<Rightarrow> bool \<times> string list" where
  "revisit_policy prior c ttl_days now_ts =
     (let triggers =
        (if str_or (rc_fingerprint c) \<noteq> [] \<and> str_or (rc_fingerprint c) \<notin> pr_fingerprints prior
         then [''new_data_fingerprint''] else []) @
        (if str_or (rc_params c) \<noteq> [] \<and> str_or (rc_params c) \<notin> pr_params prior
         then [''new_params_or_exit''] else []) @
        (case rc_horizon c of None \<Rightarrow> [] | Some h \<Rightarrow> if h \<notin> pr_horizons prior then [''new_timeframe_horizon''] else []) @
        (if rc_oi_funding c \<and> \<not> pr_oi_funding prior then [''new_oi_funding_context''] else []) @
        (case now_ts of None \<Rightarrow> [] | Some now \<Rightarrow>
           if pr_newest prior > 0 \<and> now - pr_newest prior \<ge> ttl_days * ms_per_day then [''ttl_expired''] else []) @
        (if rc_manual_go c then [''manual_go''] else [])
      in (triggers \<noteq> [], triggers))"

section \<open>The index is the aggregation of the rows\<close>

definition prior_of :: "candidate_row list \<Rightarrow> prior_agg" where
  "prior_of rows =
     \<lparr>ga_n = length rows,
      ga_eligible = length (filter row_eligible rows),
      ga_bad = length (filter row_confirmed_bad rows),
      ga_rejected = length (filter row_rejected rows),
      ga_max_trades = Max (insert 0 (u_trades ` set rows)),
      ga_fingerprints = {}, ga_params = {}, ga_newest = 0\<rparr>"

definition cell_prior_of :: "candidate_row list \<Rightarrow> prior_agg" where
  "cell_prior_of rows =
     (prior_of rows)
       \<lparr>ga_fingerprints := (\<lambda>u. str_or (u_fingerprint u)) ` set rows,
        ga_params := (\<lambda>u. str_or (u_params_hash u)) ` set rows,
        ga_newest := Max (insert 0 ((\<lambda>u. as_ms (u_updated u)) ` set rows))\<rparr>"

definition keyed :: "(candidate_row \<Rightarrow> string) \<Rightarrow> (candidate_row list \<Rightarrow> prior_agg) \<Rightarrow> candidate_row list \<Rightarrow> string \<Rightarrow> prior_agg option" where
  "keyed key agg rows k =
     (let group = filter (\<lambda>u. key u = k) rows in if group = [] then None else Some (agg group))"

lemma prior_of_Nil: "prior_of [] = empty_agg" "cell_prior_of [] = empty_agg"
  by (simp_all add: prior_of_def cell_prior_of_def empty_agg_def)

lemma Max_insert0_snoc: "Max (insert (0::int) (insert x (f ` set rows))) = max (Max (insert 0 (f ` set rows))) x"
proof -
  have "insert 0 (insert x (f ` set rows)) = insert x (insert 0 (f ` set rows))" by auto
  then show ?thesis by (simp only: Max_insert finite_insert finite_imageI List.finite_set insert_not_empty not_False_eq_True simp_thms max.commute)
qed

lemma prior_of_snoc: "prior_of (rows @ [u]) = count_prior u (prior_of rows)"
  using Max_insert0_snoc[of "u_trades u" u_trades rows] by (simp add: prior_of_def count_prior_def)

lemma cell_prior_of_snoc: "cell_prior_of (rows @ [u]) = remember_prior u (count_prior u (cell_prior_of rows))"
  using Max_insert0_snoc[of "u_trades u" u_trades rows] Max_insert0_snoc[of "as_ms (u_updated u)" "\<lambda>u. as_ms (u_updated u)" rows]
  by (simp add: cell_prior_of_def prior_of_def remember_prior_def count_prior_def)

lemma keyed_snoc:
  assumes "\<And>rows u. agg (rows @ [u]) = f u (agg rows)" and "agg [] = empty_agg"
  shows "keyed key agg (rows @ [u]) k =
    (if k = key u then Some (f u (case keyed key agg rows k of None \<Rightarrow> empty_agg | Some a \<Rightarrow> a)) else keyed key agg rows k)"
  using assms(1)[of "[]" u] by (auto simp: keyed_def Let_def assms)

lemma build_gate_index_snoc: "build_gate_index (rows @ [u]) = add_candidate (build_gate_index rows) u"
  by (simp add: build_gate_index_def)

lemma keyed_Nil [simp]: "keyed key agg [] = Map.empty"
  by (simp add: keyed_def fun_eq_iff)

lemma build_gate_index_keyed:
  "map_of (by_sweep (build_gate_index rows)) = keyed row_sweep prior_of rows"
  "map_of (by_params (build_gate_index rows)) = keyed row_params prior_of rows"
  "map_of (by_cell (build_gate_index rows)) = keyed row_cell cell_prior_of rows"
proof (induction rows rule: rev_induct)
  case Nil
  {
    case 1 show ?case by (simp add: build_gate_index_def)
  next
    case 2 show ?case by (simp add: build_gate_index_def)
  next
    case 3 show ?case by (simp add: build_gate_index_def)
  }
next
  case (snoc u rows)
  {
    case 1 show ?case
      using snoc.IH(1) keyed_snoc[of prior_of count_prior row_sweep rows u]
      by (simp add: fun_eq_iff build_gate_index_snoc add_candidate_def map_of_dict_adjust prior_of_snoc prior_of_Nil)
  next
    case 2 show ?case
      using snoc.IH(2) keyed_snoc[of prior_of count_prior row_params rows u]
      by (simp add: fun_eq_iff build_gate_index_snoc add_candidate_def map_of_dict_adjust prior_of_snoc prior_of_Nil)
  next
    case 3 show ?case
      using snoc.IH(3) keyed_snoc[of cell_prior_of "\<lambda>u a. remember_prior u (count_prior u a)" row_cell rows u]
      by (simp add: fun_eq_iff build_gate_index_snoc add_candidate_def map_of_dict_adjust cell_prior_of_snoc prior_of_Nil)
  }
qed

end
