(* ===== verification/Strategy_Registry.thy ===== *)
theory Strategy_Registry
  imports Scheduler
begin

text \<open>
  The catalog of strategies, \<open>src/research_lab/strategy_registry.py\<close>: every entry with the checks its
  constructor makes, the warm-up a parameter set needs, and the lookups other modules make in it.  The
  signal generators, descriptions and risk notes of the entries are not part of the model.
\<close>

section \<open>Entries\<close>

record history_formula =
  hf_terms :: "(string \<times> int) list"
  hf_offset :: int

record strategy =
  st_id :: string
  st_name :: string
  st_family :: string
  st_assets :: "string list"
  st_timeframes :: "string list"
  st_defaults :: "(string \<times> json) list"
  st_axes :: "string list"
  st_required :: "string list"
  st_formulas :: "history_formula list"

definition all_tf :: "string list" where
  "all_tf = [''15m'', ''1H'', ''4H'', ''1D'']"

definition daily_up :: "string list" where
  "daily_up = [''4H'', ''1D'']"

definition crypto :: "string list" where
  "crypto = [''crypto_perp'']"

definition adaptive_axes :: "(string \<times> string list) list" where
  "adaptive_axes =
    [(''momentum_breakout'', [''lookback'', ''threshold_pct'']),
     (''donchian_breakout'', [''lookback'']),
     (''range_breakout'', [''lookback'', ''max_range_pct'']),
     (''volatility_squeeze_breakout'', [''lookback'', ''squeeze_ratio'']),
     (''breakout_retest'', [''lookback'', ''retest_window'', ''retest_tol_pct'']),
     (''mean_reversion_fade'', [''lookback'', ''move_pct'']),
     (''rsi_reversal'', [''period'', ''oversold'', ''overbought'']),
     (''volume_exhaustion_fade'', [''lookback'', ''move_bars'', ''min_move_pct'', ''vol_mult'']),
     (''trend_pullback'', [''trend_ma'', ''pullback_ma'']),
     (''moving_average_reclaim'', [''ma'', ''below_bars'']),
     (''volume_shock_continuation'', [''lookback'', ''vol_mult'', ''min_body_pct'']),
     (''impulse_continuation'', [''min_body_pct'', ''min_close_pos'']),
     (''main_fast_swing_regime'', [''ema_fast'', ''ema_slow'', ''adx_period'', ''adx_trend'', ''di_trend'',
         ''breakout_lookback'', ''min_vol_ratio'']),
     (''range_volume_breakout'', [''range_lookback'', ''max_range_pct'', ''min_accumulation'', ''min_vol_ratio'',
         ''vol_period'']),
     (''volatility_squeeze_breakout_v2'', [''squeeze_lookback'', ''squeeze_ratio'', ''atr_pct_max'', ''min_vol_ratio'',
         ''atr_period'', ''vol_period'']),
     (''vwap_reclaim_reject'', [''vwap_period'', ''ema_fast'', ''ema_slow'', ''max_day_position'']),
     (''fvg_reclaim_reject'', [''fvg_lookback'', ''max_distance_pct'']),
     (''fractal_swing_break_retest'', [''swing_lookback'', ''retest_window'', ''retest_tol_pct'']),
     (''exhaustion_fade'', [''run_lookback'', ''run_pct'', ''vol_climax_mult'']),
     (''sfp_liquidity_sweep'', [''lookback'', ''vol_mult'', ''reclaim_buf_pct'']),
     (''oi_funding_squeeze'', [''oi_lookback'', ''oi_surge_min'', ''funding_warn'', ''funding_block'']),
     (''oi_price_quadrant'', [''oi_lookback'']),
     (''oi_price_quadrant_continuation'', [''oi_lookback'']),
     (''oi_price_quadrant_trap_fade'', [''oi_lookback'']),
     (''bb_volume_fade'', [''bb_period'', ''bb_std'', ''pct_b_extreme_high'', ''pct_b_extreme_low'',
         ''max_vol_ratio'', ''max_adx'', ''min_width_pct'', ''adx_period'',
         ''vol_period'']),
     (''pump_dump_scalp'', [''min_body_pct'', ''vol_mult'', ''vol_period'', ''min_close_pos'']),
     (''microstructure_confirmed_breakout'', [''range_lookback'', ''min_obi'', ''min_trade_delta'', ''max_spread_bps''])]"

definition history_formulas_of :: "(string \<times> history_formula list) list" where
  "history_formulas_of =
    [(''momentum_breakout'', [\<lparr>hf_terms = [(''lookback'', 1)], hf_offset = 0\<rparr>]),
     (''donchian_breakout'', [\<lparr>hf_terms = [(''lookback'', 1)], hf_offset = 0\<rparr>]),
     (''range_breakout'', [\<lparr>hf_terms = [(''lookback'', 1)], hf_offset = 0\<rparr>]),
     (''volatility_squeeze_breakout'', [\<lparr>hf_terms = [(''lookback'', 2)], hf_offset = 0\<rparr>]),
     (''breakout_retest'', [\<lparr>hf_terms = [(''lookback'', 1), (''retest_window'', 1)], hf_offset = 0\<rparr>]),
     (''mean_reversion_fade'', [\<lparr>hf_terms = [(''lookback'', 1)], hf_offset = 0\<rparr>]),
     (''rsi_reversal'', [\<lparr>hf_terms = [(''period'', 1)], hf_offset = 1\<rparr>]),
     (''volume_exhaustion_fade'', [\<lparr>hf_terms = [(''lookback'', 1)], hf_offset = 0\<rparr>,
        \<lparr>hf_terms = [(''move_bars'', 1)], hf_offset = 0\<rparr>]),
     (''trend_pullback'', [\<lparr>hf_terms = [(''trend_ma'', 1)], hf_offset = 0\<rparr>,
        \<lparr>hf_terms = [(''pullback_ma'', 1)], hf_offset = 0\<rparr>]),
     (''moving_average_reclaim'', [\<lparr>hf_terms = [(''ma'', 1), (''below_bars'', 1)], hf_offset = 0\<rparr>]),
     (''volume_shock_continuation'', [\<lparr>hf_terms = [(''lookback'', 1)], hf_offset = 0\<rparr>]),
     (''impulse_continuation'', [\<lparr>hf_terms = [], hf_offset = 1\<rparr>]),
     (''main_fast_swing_regime'', [\<lparr>hf_terms = [(''adx_period'', 2)], hf_offset = 0\<rparr>,
        \<lparr>hf_terms = [(''ema_slow'', 1)], hf_offset = 0\<rparr>,
        \<lparr>hf_terms = [(''breakout_lookback'', 1)], hf_offset = 0\<rparr>,
        \<lparr>hf_terms = [(''vol_period'', 1)], hf_offset = 0\<rparr>]),
     (''range_volume_breakout'', [\<lparr>hf_terms = [(''range_lookback'', 2)], hf_offset = 0\<rparr>,
        \<lparr>hf_terms = [(''vol_period'', 1)], hf_offset = 0\<rparr>]),
     (''volatility_squeeze_breakout_v2'', [\<lparr>hf_terms = [(''squeeze_lookback'', 2)], hf_offset = 0\<rparr>,
        \<lparr>hf_terms = [(''atr_period'', 1)], hf_offset = 12\<rparr>,
        \<lparr>hf_terms = [(''vol_period'', 1)], hf_offset = 0\<rparr>]),
     (''vwap_reclaim_reject'', [\<lparr>hf_terms = [(''vwap_period'', 1)], hf_offset = 1\<rparr>,
        \<lparr>hf_terms = [(''ema_slow'', 1)], hf_offset = 0\<rparr>]),
     (''fvg_reclaim_reject'', [\<lparr>hf_terms = [(''fvg_lookback'', 1)], hf_offset = 0\<rparr>,
        \<lparr>hf_terms = [], hf_offset = 3\<rparr>]),
     (''fractal_swing_break_retest'', [\<lparr>hf_terms = [(''swing_lookback'', 2), (''retest_window'', 1)], hf_offset = 0\<rparr>]),
     (''exhaustion_fade'', [\<lparr>hf_terms = [(''run_lookback'', 1)], hf_offset = 0\<rparr>]),
     (''sfp_liquidity_sweep'', [\<lparr>hf_terms = [(''lookback'', 1)], hf_offset = 0\<rparr>]),
     (''oi_funding_squeeze'', [\<lparr>hf_terms = [(''oi_lookback'', 1)], hf_offset = 0\<rparr>]),
     (''oi_price_quadrant'', [\<lparr>hf_terms = [(''oi_lookback'', 1)], hf_offset = 0\<rparr>]),
     (''oi_price_quadrant_continuation'', [\<lparr>hf_terms = [(''oi_lookback'', 1)], hf_offset = 0\<rparr>]),
     (''oi_price_quadrant_trap_fade'', [\<lparr>hf_terms = [(''oi_lookback'', 1)], hf_offset = 0\<rparr>]),
     (''bb_volume_fade'', [\<lparr>hf_terms = [(''bb_period'', 1)], hf_offset = 0\<rparr>,
        \<lparr>hf_terms = [(''adx_period'', 2)], hf_offset = 0\<rparr>,
        \<lparr>hf_terms = [(''vol_period'', 1)], hf_offset = 0\<rparr>]),
     (''pump_dump_scalp'', [\<lparr>hf_terms = [(''vol_period'', 1)], hf_offset = 0\<rparr>]),
     (''microstructure_confirmed_breakout'', [\<lparr>hf_terms = [(''range_lookback'', 1)], hf_offset = 0\<rparr>])]"

text \<open>\<open>HistoryFormula.evaluate\<close>: \<open>int(params.get(key, 0) or 0)\<close> raises on a value that is no number.\<close>

fun term_sum :: "(string \<Rightarrow> int option) \<Rightarrow> json \<Rightarrow> (string \<times> int) list \<Rightarrow> exn + int" where
  "term_sum int_text ps [] = Inr 0"
| "term_sum int_text ps ((k, m) # ts) =
     (case int_of_json int_text (jget k ps) of
        Inl e \<Rightarrow> Inl e
      | Inr v \<Rightarrow> (case term_sum int_text ps ts of Inl e \<Rightarrow> Inl e | Inr w \<Rightarrow> Inr (v * m + w)))"

definition evaluate_formula :: "(string \<Rightarrow> int option) \<Rightarrow> history_formula \<Rightarrow> json \<Rightarrow> exn + int" where
  "evaluate_formula int_text h ps =
     (case term_sum int_text ps (hf_terms h) of Inl e \<Rightarrow> Inl e | Inr s \<Rightarrow> Inr (max 1 (hf_offset h + s)))"

text \<open>The constructor with \<open>__post_init__\<close>: axes and formulas that are not given come from the tables.\<close>

definition new_strategy ::
  "string \<Rightarrow> string \<Rightarrow> string \<Rightarrow> string list \<Rightarrow> (string \<times> json) list \<Rightarrow> string list \<Rightarrow> string list
     \<Rightarrow> history_formula list \<Rightarrow> exn + strategy" where
  "new_strategy sid name fam timeframes defaults axes required formulas =
     (let axes = (if axes \<noteq> [] then axes else case map_of adaptive_axes sid of None \<Rightarrow> [] | Some a \<Rightarrow> a);
          formulas = (if formulas \<noteq> [] then formulas else case map_of history_formulas_of sid of None \<Rightarrow> [] | Some f \<Rightarrow> f);
          known = map fst defaults
      in if \<not> list_all (\<lambda>a. List.member known a) axes then Inl (ValueError ''unknown adaptive axes'')
         else if formulas = [] then Inl (ValueError ''missing candle-history manifest'')
         else if \<not> list_all (\<lambda>h. list_all (\<lambda>(k, _). List.member known k) (hf_terms h)) formulas
         then Inl (ValueError ''unknown history parameters'')
         else Inr \<lparr>st_id = sid, st_name = name, st_family = fam, st_assets = crypto, st_timeframes = timeframes,
                   st_defaults = defaults, st_axes = axes, st_required = required, st_formulas = formulas\<rparr>)"

section \<open>The catalog\<close>

definition breakout_strategies :: "(exn + strategy) list" where
  "breakout_strategies =
    [new_strategy ''momentum_breakout'' ''Momentum Breakout'' ''breakout''
       all_tf
       [(''lookback'', JInt 20), (''threshold_pct'', JFloat 0), (''hold_bars'', JInt 5),
        (''stop_pct'', JInt 10), (''take_pct'', JInt 20)] [] [] [],
     new_strategy ''donchian_breakout'' ''Donchian Channel Pierce'' ''breakout''
       all_tf
       [(''lookback'', JInt 20), (''hold_bars'', JInt 5), (''stop_pct'', JInt 10),
        (''take_pct'', JInt 20)] [] [] [],
     new_strategy ''range_breakout'' ''Tight Range Breakout'' ''breakout''
       all_tf
       [(''lookback'', JInt 30), (''max_range_pct'', JFloat 12), (''hold_bars'', JInt 5),
        (''stop_pct'', JInt 8), (''take_pct'', JInt 16)] [] [] [],
     new_strategy ''volatility_squeeze_breakout'' ''Volatility Squeeze Breakout'' ''breakout''
       all_tf
       [(''lookback'', JInt 20), (''squeeze_ratio'', JFloat (3 / 5)), (''hold_bars'', JInt 5),
        (''stop_pct'', JInt 8), (''take_pct'', JInt 16)] [] [] [],
     new_strategy ''breakout_retest'' ''Breakout Retest Hold'' ''breakout''
       all_tf
       [(''lookback'', JInt 20), (''retest_window'', JInt 5), (''retest_tol_pct'', JFloat 1),
        (''hold_bars'', JInt 5), (''stop_pct'', JInt 8), (''take_pct'', JInt 16)] [] [] []]"

definition reversion_strategies :: "(exn + strategy) list" where
  "reversion_strategies =
    [new_strategy ''mean_reversion_fade'' ''Mean Reversion Fade'' ''mean_reversion''
       all_tf
       [(''lookback'', JInt 5), (''move_pct'', JFloat 8), (''hold_bars'', JInt 3),
        (''stop_pct'', JInt 10), (''take_pct'', JInt 8)] [] [] [],
     new_strategy ''rsi_reversal'' ''RSI Zone Exit Reversal'' ''mean_reversion''
       all_tf
       [(''period'', JInt 14), (''oversold'', JInt 30), (''overbought'', JInt 70),
        (''hold_bars'', JInt 4), (''stop_pct'', JInt 8), (''take_pct'', JInt 12)] [] [] [],
     new_strategy ''volume_exhaustion_fade'' ''Volume Exhaustion Fade'' ''mean_reversion''
       all_tf
       [(''lookback'', JInt 20), (''move_bars'', JInt 3), (''min_move_pct'', JFloat 10),
        (''vol_mult'', JFloat 3), (''hold_bars'', JInt 3), (''stop_pct'', JInt 12),
        (''take_pct'', JInt 10)] [] [] []]"

definition trend_strategies :: "(exn + strategy) list" where
  "trend_strategies =
    [new_strategy ''trend_pullback'' ''Trend Pullback Hold'' ''trend''
       daily_up
       [(''trend_ma'', JInt 30), (''pullback_ma'', JInt 10), (''hold_bars'', JInt 5),
        (''stop_pct'', JInt 8), (''take_pct'', JInt 16)] [] [] [],
     new_strategy ''moving_average_reclaim'' ''Moving Average Reclaim'' ''trend''
       daily_up
       [(''ma'', JInt 20), (''below_bars'', JInt 3), (''hold_bars'', JInt 5),
        (''stop_pct'', JInt 8), (''take_pct'', JInt 16)] [] [] [],
     new_strategy ''volume_shock_continuation'' ''Volume Shock Continuation'' ''volume''
       all_tf
       [(''lookback'', JInt 20), (''vol_mult'', JFloat 2), (''min_body_pct'', JFloat 3),
        (''hold_bars'', JInt 2), (''stop_pct'', JInt 8), (''take_pct'', JInt 14)] [] [] [],
     new_strategy ''impulse_continuation'' ''Impulse Continuation'' ''volume''
       all_tf
       [(''min_body_pct'', JFloat 6), (''min_close_pos'', JFloat (7 / 10)),
        (''hold_bars'', JInt 3), (''stop_pct'', JInt 10), (''take_pct'', JInt 16)] [] [] []]"

definition ported_strategies :: "(exn + strategy) list" where
  "ported_strategies =
    [new_strategy ''main_fast_swing_regime'' ''Main Regime-Gated Breakout'' ''regime''
       all_tf
       [(''ema_fast'', JInt 20), (''ema_slow'', JInt 50), (''adx_period'', JInt 14),
        (''adx_trend'', JFloat 22), (''di_trend'', JFloat 10), (''breakout_lookback'', JInt 20),
        (''min_vol_ratio'', JFloat (6 / 5)), (''vol_period'', JInt 20), (''hold_bars'', JInt 5),
        (''stop_pct'', JInt 8), (''take_pct'', JInt 16)] [] [] [],
     new_strategy ''range_volume_breakout'' ''Range Accumulation Breakout'' ''breakout''
       all_tf
       [(''range_lookback'', JInt 20), (''max_range_pct'', JFloat 12),
        (''min_accumulation'', JFloat 1), (''min_vol_ratio'', JFloat (3 / 2)),
        (''vol_period'', JInt 20), (''hold_bars'', JInt 5), (''stop_pct'', JInt 8),
        (''take_pct'', JInt 16)] [] [] [],
     new_strategy ''volatility_squeeze_breakout_v2'' ''Volatility Squeeze Breakout v2'' ''breakout''
       all_tf
       [(''squeeze_lookback'', JInt 20), (''squeeze_ratio'', JFloat (3 / 5)),
        (''atr_pct_max'', JFloat 40), (''min_vol_ratio'', JFloat (13 / 10)),
        (''atr_period'', JInt 14), (''vol_period'', JInt 20), (''hold_bars'', JInt 5),
        (''stop_pct'', JInt 8), (''take_pct'', JInt 16)] [] [] [],
     new_strategy ''vwap_reclaim_reject'' ''VWAP Reclaim / Reject'' ''vwap''
       all_tf
       [(''vwap_period'', JInt 20), (''ema_fast'', JInt 20), (''ema_slow'', JInt 50),
        (''max_day_position'', JFloat (7 / 10)), (''use_day_filter'', JBool True),
        (''hold_bars'', JInt 5), (''stop_pct'', JInt 8), (''take_pct'', JInt 14)] [] [] [],
     new_strategy ''fvg_reclaim_reject'' ''FVG Reclaim / Reject'' ''structure''
       all_tf
       [(''fvg_lookback'', JInt 30), (''max_distance_pct'', JFloat 3), (''hold_bars'', JInt 5),
        (''stop_pct'', JInt 8), (''take_pct'', JInt 16)] [] [] [],
     new_strategy ''fractal_swing_break_retest'' ''Fractal Break + Retest'' ''structure''
       all_tf
       [(''swing_lookback'', JInt 3), (''retest_window'', JInt 5),
        (''retest_tol_pct'', JFloat 1), (''hold_bars'', JInt 5), (''stop_pct'', JInt 8),
        (''take_pct'', JInt 16)] [] [] [],
     new_strategy ''exhaustion_fade'' ''Exhaustion Fade'' ''mean_reversion''
       all_tf
       [(''run_lookback'', JInt 6), (''run_pct'', JFloat 15),
        (''vol_climax_mult'', JFloat (3 / 2)), (''hold_bars'', JInt 6), (''stop_pct'', JInt 6),
        (''take_pct'', JInt 12)] [] [] [],
     new_strategy ''sfp_liquidity_sweep'' ''SFP / Liquidity Sweep'' ''structure''
       all_tf
       [(''lookback'', JInt 20), (''vol_mult'', JFloat 0), (''reclaim_buf_pct'', JFloat 0),
        (''hold_bars'', JInt 8), (''stop_pct'', JInt 5), (''take_pct'', JInt 10)] [] [] []]"

definition flow_strategies :: "(exn + strategy) list" where
  "flow_strategies =
    [new_strategy ''oi_funding_squeeze'' ''OI + Funding Squeeze'' ''flow''
       all_tf
       [(''oi_lookback'', JInt 5), (''oi_surge_min'', JFloat 1),
        (''funding_warn'', JFloat (1 / 2000)), (''funding_block'', JFloat (1 / 1000)),
        (''hold_bars'', JInt 4), (''stop_pct'', JInt 8), (''take_pct'', JInt 12)] [] [''oi'', ''funding''] [],
     new_strategy ''oi_price_quadrant'' ''OI x Price Quadrant'' ''flow''
       all_tf
       [(''oi_lookback'', JInt 5), (''fade_traps'', JBool False), (''hold_bars'', JInt 4),
        (''stop_pct'', JInt 8), (''take_pct'', JInt 12)] [] [''oi''] [],
     new_strategy ''oi_price_quadrant_continuation'' ''OI x Price Quadrant (Continuation A)'' ''flow''
       all_tf
       [(''oi_lookback'', JInt 5), (''hold_bars'', JInt 4), (''stop_pct'', JInt 8),
        (''take_pct'', JInt 12)] [] [''oi''] [],
     new_strategy ''oi_price_quadrant_trap_fade'' ''OI x Price Quadrant (Trap-Fade B)'' ''flow''
       all_tf
       [(''oi_lookback'', JInt 5), (''hold_bars'', JInt 4), (''stop_pct'', JInt 8),
        (''take_pct'', JInt 12)] [] [''oi''] []]"

definition gated_strategies :: "(exn + strategy) list" where
  "gated_strategies =
    [new_strategy ''bb_volume_fade'' ''Bollinger Volume Fade'' ''mean_reversion''
       [''15m'', ''1H'', ''4H'']
       [(''bb_period'', JInt 20), (''bb_std'', JFloat 2), (''pct_b_extreme_high'', JFloat 95),
        (''pct_b_extreme_low'', JFloat 5), (''max_vol_ratio'', JFloat (7 / 10)),
        (''max_adx'', JFloat 20), (''min_width_pct'', JFloat 2), (''adx_period'', JInt 14),
        (''vol_period'', JInt 20), (''hold_bars'', JInt 4), (''stop_pct'', JInt 6),
        (''take_pct'', JInt 8)] [] [] [],
     new_strategy ''pump_dump_scalp'' ''Pump/Dump Volume-Shock Scalp'' ''volume''
       [''15m'', ''1H'']
       [(''min_body_pct'', JFloat 3), (''vol_mult'', JFloat 3), (''vol_period'', JInt 20),
        (''min_close_pos'', JFloat (3 / 5)), (''hold_bars'', JInt 2), (''stop_pct'', JInt 8),
        (''take_pct'', JInt 12)] [] [] [],
     new_strategy ''microstructure_confirmed_breakout'' ''Microstructure-Confirmed Breakout'' ''microstructure''
       [''15m'', ''1H'']
       [(''range_lookback'', JInt 20), (''min_obi'', JFloat (3 / 20)),
        (''min_trade_delta'', JFloat 0), (''max_spread_bps'', JFloat 5), (''hold_bars'', JInt 3),
        (''stop_pct'', JInt 8), (''take_pct'', JInt 12)] [] [''microstructure''] []]"

definition strategy_definitions :: "exn + strategy list" where
  "strategy_definitions =
     sequence_rows (breakout_strategies @ reversion_strategies @ trend_strategies @ ported_strategies @
       flow_strategies @ gated_strategies)"

text \<open>\<open>REGISTRY\<close>, the entries by their id. The module has no registry when a constructor raises.\<close>

definition strategy_registry :: "strategy list" where
  "strategy_registry = (case strategy_definitions of Inl _ \<Rightarrow> [] | Inr ds \<Rightarrow> ds)"

definition get_strategy :: "string \<Rightarrow> exn + strategy" where
  "get_strategy sid =
     (case find (\<lambda>d. st_id d = sid) strategy_registry of None \<Rightarrow> Inl (ValueError ''unknown strategy'') | Some d \<Rightarrow> Inr d)"

definition list_strategies :: "strategy list" where
  "list_strategies = sort_key (\<lambda>d. (st_family d, st_id d)) strategy_registry"

definition strategy_ids :: "string list" where
  "strategy_ids = sort (map st_id strategy_registry)"

text \<open>\<open>{**defaults, **params}\<close>.\<close>

definition merged_params :: "(string \<times> json) list \<Rightarrow> (string \<times> json) list \<Rightarrow> json" where
  "merged_params defaults ps = JObj (ps @ defaults)"

fun max_bars :: "(string \<Rightarrow> int option) \<Rightarrow> json \<Rightarrow> history_formula list \<Rightarrow> exn + int" where
  "max_bars int_text ps [] = Inl (ValueError ''max() arg is an empty sequence'')"
| "max_bars int_text ps [h] = evaluate_formula int_text h ps"
| "max_bars int_text ps (h # h2 # hs) =
     (case evaluate_formula int_text h ps of
        Inl e \<Rightarrow> Inl e
      | Inr n \<Rightarrow> (case max_bars int_text ps (h2 # hs) of Inl e \<Rightarrow> Inl e | Inr m \<Rightarrow> Inr (max n m)))"

definition required_history_bars :: "(string \<Rightarrow> int option) \<Rightarrow> strategy \<Rightarrow> (string \<times> json) list \<Rightarrow> exn + int" where
  "required_history_bars int_text d ps = max_bars int_text (merged_params (st_defaults d) ps) (st_formulas d)"

text \<open>\<open>compatible_families\<close> of \<open>research_plan.py\<close>; an unknown family raises.\<close>

definition tf_to_registry :: "(string \<times> string) list" where
  "tf_to_registry = [(''1d'', ''1D''), (''1h'', ''1H''), (''15m'', ''15m''), (''4h'', ''4H''), (''1m'', ''1m'')]"

fun families_for :: "string \<Rightarrow> string list \<Rightarrow> exn + string list" where
  "families_for tf [] = Inr []"
| "families_for tf (fam # fams) =
     (case get_strategy fam of
        Inl e \<Rightarrow> Inl e
      | Inr d \<Rightarrow>
          (case families_for tf fams of
             Inl e \<Rightarrow> Inl e
           | Inr out \<Rightarrow> Inr (if List.member (st_timeframes d) tf then fam # out else out)))"

definition compatible_families :: "string \<Rightarrow> string list \<Rightarrow> exn + string list" where
  "compatible_families timeframe fams =
     families_for (case map_of tf_to_registry (text_lower timeframe) of None \<Rightarrow> timeframe | Some t \<Rightarrow> t) fams"

text \<open>\<open>_oi_micro_families\<close> of \<open>setup_lifecycle.py\<close>.\<close>

definition oi_micro_families :: "(string \<times> string) list" where
  "oi_micro_families =
     concat (map (\<lambda>d. if ''oi'' \<in> set (st_required d) then [(st_id d, ''oi'')]
                       else if ''microstructure'' \<in> set (st_required d) then [(st_id d, ''micro'')] else []) strategy_registry)"

section \<open>The catalog loads\<close>

definition strategy_wf :: "strategy \<Rightarrow> bool" where
  "strategy_wf d \<longleftrightarrow>
     set (st_axes d) \<subseteq> fst ` set (st_defaults d) \<and> st_formulas d \<noteq> [] \<and>
     (\<forall>h \<in> set (st_formulas d). fst ` set (hf_terms h) \<subseteq> fst ` set (st_defaults d))"

lemma new_strategy_wf: "new_strategy sid name fam tfs ds axes req fs = Inr d \<Longrightarrow> strategy_wf d \<and> st_id d = sid"
  by (fastforce simp: new_strategy_def strategy_wf_def Let_def list_all_iff split: if_splits)

lemma strategy_definitions_load:
  "case strategy_definitions of Inl _ \<Rightarrow> False | Inr ds \<Rightarrow> map st_id ds =
     [''momentum_breakout'', ''donchian_breakout'', ''range_breakout'', ''volatility_squeeze_breakout'',
      ''breakout_retest'', ''mean_reversion_fade'', ''rsi_reversal'', ''volume_exhaustion_fade'', ''trend_pullback'',
      ''moving_average_reclaim'', ''volume_shock_continuation'', ''impulse_continuation'', ''main_fast_swing_regime'',
      ''range_volume_breakout'', ''volatility_squeeze_breakout_v2'', ''vwap_reclaim_reject'', ''fvg_reclaim_reject'',
      ''fractal_swing_break_retest'', ''exhaustion_fade'', ''sfp_liquidity_sweep'', ''oi_funding_squeeze'',
      ''oi_price_quadrant'', ''oi_price_quadrant_continuation'', ''oi_price_quadrant_trap_fade'', ''bb_volume_fade'',
      ''pump_dump_scalp'', ''microstructure_confirmed_breakout'']"
  by code_simp

end
