(* ===== verification/Lifecycle.thy ===== *)
theory Lifecycle
  imports Outcome_Memory Strategy_Registry
begin

text \<open>
  The derived lifecycle of every unique candidate, \<open>src/research_lab/setup_lifecycle.py\<close> with
  \<open>validation_state\<close> of \<open>validation_handoff.py\<close>.  The artifacts it joins are decoded values: the current
  generation of validation payloads, or, when there is none, the files of the legacy directories as
  pairs of file stem and content (an empty object for a file that cannot be read).  Progress callbacks
  are not modelled.
\<close>

section \<open>Labels of one candidate\<close>

definition validation_state :: "string \<Rightarrow> string \<Rightarrow> bool \<Rightarrow> string" where
  "validation_state status hard exported =
     (if hard = ''PAPER_FORWARD_READY'' then ''VALIDATION_PASSED''
      else if hard \<in> set hard_failed then ''VALIDATION_FAILED''
      else if hard = ''NEEDS_MORE_DATA'' then ''NEEDS_MORE_DATA''
      else if exported then ''VALIDATION_EXPORTED''
      else if status \<noteq> [] then status else ''PENDING'')"

definition derive_tactical_status :: "candidate_row \<Rightarrow> string \<Rightarrow> (string \<times> string) list \<Rightarrow> string" where
  "derive_tactical_status u hard oi_micro =
     (let n = u_trades u; avg = u_avg_net u; lite = str_or (u_validation u)
      in if \<not> (str_or (u_decision u) = ''REJECT'' \<or> lite = ''REJECT'' \<or> hard \<in> set hard_failed) then []
         else if map_of oi_micro (str_or (u_family u)) = Some ''oi'' then ''NEEDS_OI_CONTEXT''
         else if map_of oi_micro (str_or (u_family u)) = Some ''micro'' then ''NEEDS_MICRO_DATA''
         else if hard = ''REGIME_ONLY'' \<or> (lite = ''REGIME_SPECIFIC'' \<and> u_regime u \<noteq> []) then ''TACTICAL_REGIME_ONLY''
         else if hard = ''FAILED_COSTS'' then ''TACTICAL_COST_SENSITIVE''
         else if 1 \<le> n \<and> n \<le> 2 \<and> avg > 0 then ''TACTICAL_THIN_WINDOW''
         else if n = 0 \<or> hard = ''NEEDS_MORE_DATA'' \<or> (1 \<le> n \<and> n \<le> 2 \<and> avg \<le> 0) then ''TACTICAL_UNDERDATA''
         else if n \<ge> power_floor \<and> avg \<le> 0 then ''REJECTED_CONFIRMED_BAD''
         else ''NOT_TACTICAL'')"

record paper_bucket =
  pb_count :: nat
  pb_net :: rat
  pb_wins :: nat
  pb_losses :: nat
  pb_latest :: string

definition empty_bucket :: paper_bucket where
  "empty_bucket = \<lparr>pb_count = 0, pb_net = 0, pb_wins = 0, pb_losses = 0, pb_latest = []\<rparr>"

definition derive_state :: "candidate_row \<Rightarrow> string \<Rightarrow> json option \<Rightarrow> paper_bucket \<Rightarrow> string" where
  "derive_state u hard crd paper =
     (if pb_count paper > 0
      then (if pb_net paper > 0 then ''PAPER_POSITIVE_OBSERVED''
            else if pb_net paper < 0 then ''PAPER_NEGATIVE_OBSERVED'' else ''PAPER_MIXED_OR_FLAT'')
      else if (case crd of None \<Rightarrow> False | Some c \<Rightarrow> truthy c \<and> truthy (jget ''paper_forward_ready'' c))
      then ''PAPER_PLAN_READY''
      else if hard = ''PAPER_FORWARD_READY'' then ''HARD_PASSED''
      else if hard = ''NEEDS_MORE_DATA'' then ''NEEDS_MORE_DATA''
      else if hard \<in> set hard_failed then ''HARD_FAILED''
      else if str_or (u_validation u) \<in> set eligible_lite then ''HARD_ELIGIBLE''
      else if str_or (u_decision u) = ''REJECT'' then ''LITE_REJECTED''
      else if str_or (u_decision u) \<noteq> [] then ''LITE_OBSERVE'' else ''DISCOVERED'')"

section \<open>Artifacts\<close>

text \<open>The payloads of the current generation, each with its request, verdict and setup card; or the three
  legacy directories.\<close>

datatype artifacts =
    Generation bool "(string \<times> json \<times> json \<times> json) list"
  | Legacy "(string \<times> json) list" "(string \<times> json) list" "(string \<times> json) list"

definition active_payloads :: "bool \<Rightarrow> (string \<times> json \<times> json \<times> json) list \<Rightarrow> (string \<times> json \<times> json \<times> json) list" where
  "active_payloads usable payloads = (if usable then sort_key fst payloads else [])"

definition dict_set :: "'k \<Rightarrow> 'v \<Rightarrow> ('k \<times> 'v) list \<Rightarrow> ('k \<times> 'v) list" where
  "dict_set k v d = dict_adjust k v (\<lambda>_. v) d"

definition request_uc :: "(json \<Rightarrow> string) \<Rightarrow> json \<Rightarrow> string" where
  "request_uc rep data = str_of_json rep (jget ''uc_key'' (obj_or_empty (jget ''metrics'' data)))"

definition add_request ::
  "(json \<Rightarrow> string) \<Rightarrow> string \<Rightarrow> json \<Rightarrow> (string \<times> json) list \<times> (string \<times> string) list
     \<Rightarrow> (string \<times> json) list \<times> (string \<times> string) list" where
  "add_request rep cid data acc =
     (dict_set cid data (fst acc),
      if request_uc rep data \<noteq> [] then dict_set cid (request_uc rep data) (snd acc) else snd acc)"

fun request_contexts :: "(json \<Rightarrow> string) \<Rightarrow> artifacts \<Rightarrow> (string \<times> json) list \<times> (string \<times> string) list" where
  "request_contexts rep (Generation usable payloads) =
     foldl (\<lambda>acc (cid, req, _). if truthy req then add_request rep cid req acc else acc) ([], [])
       (active_payloads usable payloads)"
| "request_contexts rep (Legacy requests _ _) =
     foldl (\<lambda>acc (stem, data).
              let cid = str_default rep (jget ''candidate_id'' data) stem
              in if cid = [] then acc else add_request rep cid data acc) ([], []) requests"

fun verdicts :: "(json \<Rightarrow> string) \<Rightarrow> artifacts \<Rightarrow> (string \<times> string) list" where
  "verdicts rep (Generation usable payloads) =
     foldl (\<lambda>out (cid, _, verdict, _).
              if truthy verdict then dict_set cid (str_of_json rep (jget ''hard_status'' verdict)) out else out) []
       (active_payloads usable payloads)"
| "verdicts rep (Legacy _ files _) =
     foldl (\<lambda>out (stem, data).
              let cid = str_default rep (jget ''candidate_id'' data) stem
              in if cid = [] then out else dict_set cid (str_of_json rep (jget ''hard_status'' data)) out) [] files"

fun setup_cards :: "(json \<Rightarrow> string) \<Rightarrow> artifacts \<Rightarrow> (string \<times> json) list" where
  "setup_cards rep (Generation usable payloads) =
     foldl (\<lambda>out (cid, _, _, crd). dict_set cid crd out) [] (active_payloads usable payloads)"
| "setup_cards rep (Legacy _ _ files) =
     foldl (\<lambda>out (_, data).
              let cid = str_of_json rep (jget ''candidate_id'' data)
              in if cid = [] then out else dict_set cid data out) [] files"

definition add_outcome :: "(json \<Rightarrow> string) \<Rightarrow> json \<Rightarrow> rat \<Rightarrow> paper_bucket \<Rightarrow> paper_bucket" where
  "add_outcome rep row net p =
     \<lparr>pb_count = pb_count p + 1, pb_net = pb_net p + net, pb_wins = pb_wins p + of_bool (net > 0),
      pb_losses = pb_losses p + of_bool (net < 0),
      pb_latest = str_default rep (jget ''state'' row) (pb_latest p)\<rparr>"

text \<open>An outcome whose candidate has no known setup is passed over before its return is read.\<close>

fun paper_by_uc ::
  "(json \<Rightarrow> string) \<Rightarrow> (string \<Rightarrow> rat option) \<Rightarrow> (string \<times> string) list \<Rightarrow> json list
     \<Rightarrow> (string \<times> paper_bucket) list \<Rightarrow> exn + (string \<times> paper_bucket) list" where
  "paper_by_uc rep float_text to_uc [] out = Inr out"
| "paper_by_uc rep float_text to_uc (row # rows) out =
     (let uc = str_or (map_of to_uc (str_of_json rep (jget ''candidate_id'' row)))
      in if uc = [] then paper_by_uc rep float_text to_uc rows out
         else case float_of_json float_text (jget ''net_pct'' row) of
                Inl e \<Rightarrow> Inl e
              | Inr net \<Rightarrow> paper_by_uc rep float_text to_uc rows (dict_adjust uc empty_bucket (add_outcome rep row net) out))"

section \<open>The rows of the read model\<close>

record lifecycle_row =
  lc_uc_key :: string
  lc_validation_id :: string
  lc_setup_id :: string
  lc_source_id :: string
  lc_symbol :: string
  lc_timeframe :: string
  lc_family :: string
  lc_params_hash :: string
  lc_fingerprint :: string
  lc_lite :: string
  lc_hard :: string
  lc_validation_state :: string
  lc_card_exists :: bool
  lc_ready :: bool
  lc_paper_count :: nat
  lc_paper_net :: rat
  lc_paper_avg :: rat
  lc_paper_wins :: nat
  lc_paper_losses :: nat
  lc_paper_latest :: string
  lc_state :: string
  lc_trades :: int
  lc_avg_net :: rat
  lc_regime :: string
  lc_tactical :: string

definition candidate_validation_id :: "(string \<times> string) list \<Rightarrow> candidate_row \<Rightarrow> string" where
  "candidate_validation_id uc_to_validation u =
     (case map_of uc_to_validation (u_key u) of None \<Rightarrow> str_or (u_candidate u) | Some cid \<Rightarrow> cid)"

text \<open>\<open>{uc: cid for cid, uc in ...}\<close>: the last candidate of a key wins.\<close>

definition invert :: "(string \<times> string) list \<Rightarrow> (string \<times> string) list" where
  "invert d = foldl (\<lambda>out (cid, uc). dict_set uc cid out) [] d"

definition lifecycle_row_of ::
  "(json \<Rightarrow> string) \<Rightarrow> (string \<times> json) list \<Rightarrow> (string \<times> string) list \<Rightarrow> (string \<times> json) list
     \<Rightarrow> (string \<times> string) list \<Rightarrow> (string \<times> paper_bucket) list \<Rightarrow> candidate_row \<Rightarrow> lifecycle_row" where
  "lifecycle_row_of rep reqs hards cards uc_to_validation papers u =
     (let vid = candidate_validation_id uc_to_validation u;
          crd = map_of cards vid;
          card_obj = (case crd of None \<Rightarrow> JObj [] | Some c \<Rightarrow> py_or c (JObj []));
          hard = (if str_or (map_of hards vid) \<noteq> [] then str_or (map_of hards vid) else str_or (u_hard u));
          p = (case map_of papers (u_key u) of None \<Rightarrow> empty_bucket | Some b \<Rightarrow> b)
      in \<lparr>lc_uc_key = u_key u, lc_validation_id = vid, lc_setup_id = str_of_json rep (jget ''setup_id'' card_obj),
          lc_source_id = str_or (u_candidate u), lc_symbol = str_or (u_symbol u), lc_timeframe = str_or (u_timeframe u),
          lc_family = str_or (u_family u), lc_params_hash = str_or (u_params_hash u),
          lc_fingerprint = str_or (u_fingerprint u), lc_lite = str_or (u_validation u), lc_hard = hard,
          lc_validation_state = validation_state (str_or (u_validation u)) hard (map_of reqs vid \<noteq> None),
          lc_card_exists = truthy card_obj, lc_ready = truthy (jget ''paper_forward_ready'' card_obj),
          lc_paper_count = pb_count p, lc_paper_net = py_round 6 (pb_net p),
          lc_paper_avg = py_round 6 (pb_net p / of_nat (max 1 (pb_count p))),
          lc_paper_wins = pb_wins p, lc_paper_losses = pb_losses p, lc_paper_latest = pb_latest p,
          lc_state = derive_state u hard crd p, lc_trades = u_trades u, lc_avg_net = py_round 6 (u_avg_net u),
          lc_regime = u_regime u, lc_tactical = derive_tactical_status u hard oi_micro_families\<rparr>)"

text \<open>\<open>SELECT * FROM unique_candidates ORDER BY updated_at DESC\<close>.\<close>

definition load_unique_candidates :: "brain \<Rightarrow> candidate_row list" where
  "load_unique_candidates b = sort_key (\<lambda>u. - u_updated u) (candidates b)"

definition derive_setup_lifecycle ::
  "(json \<Rightarrow> string) \<Rightarrow> (string \<Rightarrow> rat option) \<Rightarrow> artifacts \<Rightarrow> json list \<Rightarrow> brain \<Rightarrow> exn + lifecycle_row list" where
  "derive_setup_lifecycle rep float_text arts outcomes b =
     (let (reqs, to_uc) = request_contexts rep arts
      in case paper_by_uc rep float_text to_uc outcomes [] of
           Inl e \<Rightarrow> Inl e
         | Inr papers \<Rightarrow>
             Inr (map (lifecycle_row_of rep reqs (verdicts rep arts) (setup_cards rep arts) (invert to_uc) papers)
                    (load_unique_candidates b)))"

record lifecycle_summary =
  ls_total :: nat
  ls_by_state :: "(string \<times> nat) list"
  ls_hard :: "(string \<times> nat) list"
  ls_tactical :: "(string \<times> nat) list"
  ls_positive :: nat
  ls_negative :: nat
  ls_mixed :: nat
  ls_no_paper :: nat

definition tally :: "string list \<Rightarrow> (string \<times> nat) list" where
  "tally ks = foldl (\<lambda>d k. dict_adjust k 0 (\<lambda>n. n + 1) d) [] ks"

definition summarize_rows :: "lifecycle_row list \<Rightarrow> lifecycle_summary" where
  "summarize_rows rows =
     \<lparr>ls_total = length rows,
      ls_by_state = tally (map lc_state rows),
      ls_hard = tally (filter (\<lambda>h. h \<noteq> []) (map lc_hard rows)),
      ls_tactical = sort_key (\<lambda>(_, n). - int n) (tally (filter (\<lambda>t. t \<noteq> []) (map lc_tactical rows))),
      ls_positive = length (filter (\<lambda>r. lc_state r = ''PAPER_POSITIVE_OBSERVED'') rows),
      ls_negative = length (filter (\<lambda>r. lc_state r = ''PAPER_NEGATIVE_OBSERVED'') rows),
      ls_mixed = length (filter (\<lambda>r. lc_state r = ''PAPER_MIXED_OR_FLAT'') rows),
      ls_no_paper = length (filter (\<lambda>r. lc_paper_count r = 0) rows)\<rparr>"

definition summarize_setup_lifecycle ::
  "(json \<Rightarrow> string) \<Rightarrow> (string \<Rightarrow> rat option) \<Rightarrow> artifacts \<Rightarrow> json list \<Rightarrow> brain \<Rightarrow> exn + lifecycle_summary" where
  "summarize_setup_lifecycle rep float_text arts outcomes b =
     (case derive_setup_lifecycle rep float_text arts outcomes b of Inl e \<Rightarrow> Inl e | Inr rows \<Rightarrow> Inr (summarize_rows rows))"

end
