(* ===== verification/Data_Planner.thy ===== *)
theory Data_Planner
  imports Strategy_Registry
begin

text \<open>
  What a symbol needs before compute, \<open>src/research_lab/data_planner.py\<close>.  The configuration it reads
  (\<open>timeframes_for_asset_class\<close>, \<open>min_rows_for\<close>) and the probe of the local data are arguments.
\<close>

section \<open>Probes and decisions\<close>

text \<open>The result of \<open>data_state(symbol, tf)\<close>, a missing or empty entry being the empty value.\<close>

record data_probe =
  dp_status :: string
  dp_rows :: int
  dp_enrichment :: "string list"
  dp_fingerprint :: "string option"

record decision =
  de_action :: string
  de_symbol :: string
  de_timeframe :: string
  de_reason :: string
  de_family :: string
  de_until :: time
  de_block :: bool
  de_enrich :: string
  de_fingerprint :: "string option"

definition tf_seconds :: "(string \<times> int) list" where
  "tf_seconds = [(''15m'', 900), (''1h'', 3600), (''4h'', 14400), (''1d'', 86400)]"

definition farm_timeframes :: "string list" where
  "farm_timeframes = [''15m'', ''1h'', ''4h'', ''1d'']"

definition min_defer :: int where
  "min_defer = 3600"

definition max_defer :: int where
  "max_defer = 7 * 86400"

definition eligible_farm_timeframes :: "(string option \<Rightarrow> string list) \<Rightarrow> string option \<Rightarrow> string list" where
  "eligible_farm_timeframes timeframes_for asset =
     filter (\<lambda>tf. List.member farm_timeframes (text_lower tf)) (timeframes_for asset)"

definition defer_until :: "(string \<Rightarrow> int) \<Rightarrow> time \<Rightarrow> string \<Rightarrow> int \<Rightarrow> time" where
  "defer_until min_rows now timeframe rows =
     (let interval = (case map_of tf_seconds (text_lower timeframe) of None \<Rightarrow> 3600 | Some s \<Rightarrow> s);
          wait = max min_defer ((min_rows timeframe - max 0 rows) * interval)
      in now + of_int (min max_defer wait))"

text \<open>\<open>_decision\<close>: the keys a decision does not carry are empty.\<close>

definition decision_of :: "string \<Rightarrow> string \<Rightarrow> string \<Rightarrow> string \<Rightarrow> decision" where
  "decision_of action symbol tf reason =
     \<lparr>de_action = action, de_symbol = symbol, de_timeframe = tf, de_reason = reason, de_family = [], de_until = 0,
      de_block = False, de_enrich = [], de_fingerprint = None\<rparr>"

definition family_decision :: "string \<Rightarrow> string \<Rightarrow> string \<Rightarrow> data_probe \<Rightarrow> exn + decision" where
  "family_decision symbol tf fam state =
     (case compatible_families tf [fam] of
        Inl e \<Rightarrow> Inl e
      | Inr [] \<Rightarrow> Inr ((decision_of ''skip'' symbol tf ''tf_family_incompatible'')\<lparr>de_family := fam\<rparr>)
      | Inr _ \<Rightarrow>
          (case get_strategy fam of
             Inl e \<Rightarrow> Inl e
           | Inr d \<Rightarrow>
               let required = set (st_required d); enrichment = set (dp_enrichment state);
                   run = \<lambda>reason. (decision_of ''run_sweep'' symbol tf reason)\<lparr>de_family := fam\<rparr>
               in if ''microstructure'' \<in> required then Inr ((run ''NEEDS_MICRO_DATA'')\<lparr>de_block := True\<rparr>)
                  else if ''oi'' \<in> required \<and> ''oi'' \<notin> enrichment
                  then Inr ((run ''NEEDS_OI_DATA'')\<lparr>de_block := True, de_enrich := ''oi''\<rparr>)
                  else if ''funding'' \<in> required \<and> ''funding'' \<notin> enrichment
                  then Inr ((run ''NEEDS_FLOW_DATA'')\<lparr>de_block := True, de_enrich := ''funding''\<rparr>)
                  else Inr ((run ''data_ready'')\<lparr>de_fingerprint := dp_fingerprint state\<rparr>)))"

definition probe_status :: "data_probe \<Rightarrow> string" where
  "probe_status p = (if dp_status p = [] then ''missing'' else dp_status p)"

definition plan_timeframe ::
  "(string \<Rightarrow> int) \<Rightarrow> string \<Rightarrow> string list \<Rightarrow> time \<Rightarrow> string \<Rightarrow> data_probe \<Rightarrow> exn + decision list" where
  "plan_timeframe min_rows symbol families now tf state =
     (let status = probe_status state
      in if status = ''missing'' then Inr [decision_of ''prepare_data'' symbol tf ''data_missing'']
         else if status \<in> {''too_short'', ''fresh_listing_pending''}
         then Inr [(decision_of ''defer'' symbol tf status)\<lparr>de_until := defer_until min_rows now tf (dp_rows state)\<rparr>]
         else if status = ''provider_error''
         then Inr [(decision_of ''defer'' symbol tf ''provider_error'')\<lparr>de_until := now + of_int min_defer\<rparr>]
         else sequence_rows (map (\<lambda>fam. family_decision symbol tf fam state) families))"

fun plan_timeframes ::
  "(string \<Rightarrow> int) \<Rightarrow> (string \<Rightarrow> data_probe) \<Rightarrow> string \<Rightarrow> string list \<Rightarrow> time \<Rightarrow> string list \<Rightarrow> exn + decision list" where
  "plan_timeframes min_rows probe symbol families now [] = Inr []"
| "plan_timeframes min_rows probe symbol families now (tf # tfs) =
     (case plan_timeframe min_rows symbol families now tf (probe tf) of
        Inl e \<Rightarrow> Inl e
      | Inr ds \<Rightarrow>
          (case plan_timeframes min_rows probe symbol families now tfs of
             Inl e \<Rightarrow> Inl e | Inr rest \<Rightarrow> Inr (ds @ rest)))"

definition plan_symbol ::
  "(string option \<Rightarrow> string list) \<Rightarrow> (string \<Rightarrow> int) \<Rightarrow> (string \<Rightarrow> string \<Rightarrow> data_probe) \<Rightarrow> string \<Rightarrow> string option
     \<Rightarrow> string list \<Rightarrow> time \<Rightarrow> exn + decision list" where
  "plan_symbol timeframes_for min_rows data_state symbol asset families now =
     (let tfs = eligible_farm_timeframes timeframes_for asset
      in if tfs = [] then Inr [decision_of ''skip'' symbol [] ''no_eligible_timeframe'']
         else plan_timeframes min_rows (data_state symbol) symbol families now tfs)"

end
