(* ===== verification/Farm_Routine.thy ===== *)
theory Farm_Routine
  imports Recovery Lifecycle Data_Planner
begin

text \<open>
  The setting of the coordinator, \<open>src/research_lab/farm_coordinator.py\<close>: one process with its connections
  to the task brain and to the compute queue, the spec files, the counters of a cycle, and everything it
  observes from outside.  A routine takes the farm and returns the exception it raises or its result, with
  the farm after it; what it wrote before an exception stays.
\<close>

section \<open>The farm and its surroundings\<close>

text \<open>\<open>counters\<close> maps a key to its number, zero for a key not set, \<open>f_errors\<close> the
  length of the error list; \<open>f_tick\<close> counts the observations made.\<close>

record farm =
  f_brain :: brain
  f_conn :: conn
  f_queue :: queue_db
  f_files :: "string \<Rightarrow> string option"
  f_count :: "string \<Rightarrow> rat"
  f_errors :: nat
  f_tick :: nat

text \<open>
  What is observed at a tick: the clock; the time stamps the compute queue writes; the local data of a
  symbol; the universe file; the answers of the data providers (\<open>w_prepare\<close> is \<open>_ensure_local_data\<close>,
  \<open>w_candle_file\<close> is \<open>choose_symbol_file\<close>, \<open>w_funding\<close> and \<open>w_oi\<close> the two enrichments); the evidence hash of
  the canonical candles; the checks of the claim heartbeat; the building of a spec, whether its snapshot
  set is complete, and the compiled spec as path and text;
  the payload of a finished run; the events discovery proposes; what a worker does to the queue.  \<open>w_sha\<close>
  is the digest of a text with its prefix, the other fields are Python's conversions.
\<close>

datatype worker_outcome = Worker_Status string | Worker_Lease_Lost | Worker_Error

record world =
  w_clock :: "nat \<Rightarrow> time"
  w_stamp :: "nat \<Rightarrow> string"
  w_sha :: "string \<Rightarrow> string"
  w_rep :: "json \<Rightarrow> string"
  w_int_text :: "string \<Rightarrow> int option"
  w_float_text :: "string \<Rightarrow> rat option"
  w_hash :: "json \<Rightarrow> string"
  w_timeframes_for :: "string option \<Rightarrow> string list"
  w_min_rows :: "string \<Rightarrow> int"
  w_probe :: "nat \<Rightarrow> string \<Rightarrow> string \<Rightarrow> data_probe"
  w_universe :: "nat \<Rightarrow> string list"
  w_has_provider :: bool
  w_has_flow :: bool
  w_has_oi :: bool
  w_prepare :: "nat \<Rightarrow> task \<Rightarrow> string \<times> int"
  w_candle_file :: "nat \<Rightarrow> task \<Rightarrow> bool"
  w_funding :: "nat \<Rightarrow> task \<Rightarrow> bool"
  w_oi :: "nat \<Rightarrow> task \<Rightarrow> string"
  w_candles :: "nat \<Rightarrow> task \<Rightarrow> string option"
  w_guard :: "nat \<Rightarrow> exn option"
  w_spec_error :: "nat \<Rightarrow> task \<Rightarrow> string \<Rightarrow> exn option"
  w_snapshot :: "nat \<Rightarrow> task \<Rightarrow> bool"
  w_compile :: "nat \<Rightarrow> task \<Rightarrow> string \<Rightarrow> exn + string \<times> string"
  w_run_payload :: "nat \<Rightarrow> string \<Rightarrow> json option"
  w_discovery :: "nat \<Rightarrow> string list \<Rightarrow> intake_row list"
  w_worker :: "nat \<Rightarrow> queue_db \<Rightarrow> worker_outcome \<times> queue_db"

type_synonym 'a routine = "farm \<Rightarrow> (exn + 'a) \<times> farm"

section \<open>Sequencing\<close>

definition return_r :: "'a \<Rightarrow> 'a routine" where
  "return_r v f = (Inr v, f)"

definition raise_r :: "exn \<Rightarrow> 'a routine" where
  "raise_r e f = (Inl e, f)"

definition bind_r :: "'a routine \<Rightarrow> ('a \<Rightarrow> 'b routine) \<Rightarrow> 'b routine" where
  "bind_r m k f = (case m f of (Inl e, f1) \<Rightarrow> (Inl e, f1) | (Inr v, f1) \<Rightarrow> k v f1)"

definition then_r :: "'a routine \<Rightarrow> 'b routine \<Rightarrow> 'b routine" where
  "then_r m k = bind_r m (\<lambda>_. k)"

text \<open>\<open>try: m except StaleTaskClaimError: h\<close>, and the same for every exception.\<close>

definition catch_stale :: "'a routine \<Rightarrow> 'a routine \<Rightarrow> 'a routine" where
  "catch_stale m h f =
     (case m f of (Inl e, f1) \<Rightarrow> (if stale_claim_error e then h f1 else (Inl e, f1)) | r \<Rightarrow> r)"

text \<open>\<open>for x in xs: body(x)\<close>, and \<open>for _ in range(n)\<close> with a body that says whether to go on.\<close>

fun each_r :: "('x \<Rightarrow> unit routine) \<Rightarrow> 'x list \<Rightarrow> unit routine" where
  "each_r body [] = return_r ()"
| "each_r body (x # xs) = then_r (body x) (each_r body xs)"

fun times_r :: "nat \<Rightarrow> bool routine \<Rightarrow> unit routine" where
  "times_r 0 body = return_r ()"
| "times_r (Suc n) body = bind_r body (\<lambda>go_on. if go_on then times_r n body else return_r ())"

definition when_r :: "bool \<Rightarrow> unit routine \<Rightarrow> unit routine" where
  "when_r c m = (if c then m else return_r ())"

definition read_r :: "(farm \<Rightarrow> 'a) \<Rightarrow> 'a routine" where
  "read_r g f = (Inr (g f), f)"

text \<open>One observation of the surroundings.\<close>

definition observe_r :: "(nat \<Rightarrow> 'a) \<Rightarrow> 'a routine" where
  "observe_r g f = (Inr (g (f_tick f)), f\<lparr>f_tick := f_tick f + 1\<rparr>)"

section \<open>Calls of the databases\<close>

text \<open>An operation of \<open>FarmTasksDB\<close> observes the clock at most twice.\<close>

definition brain_r :: "world \<Rightarrow> (time \<Rightarrow> time \<Rightarrow> conn \<Rightarrow> brain \<Rightarrow> (exn + 'a) \<times> conn \<times> brain) \<Rightarrow> 'a routine" where
  "brain_r w opn f =
     (let (r, c, b) = opn (w_clock w (f_tick f)) (w_clock w (f_tick f + 1)) (f_conn f) (f_brain f)
      in (r, f\<lparr>f_conn := c, f_brain := b, f_tick := f_tick f + 2\<rparr>))"

text \<open>Operations without the clock and the connection.\<close>

definition table_r :: "(brain \<Rightarrow> 'a \<times> brain) \<Rightarrow> 'a routine" where
  "table_r opn f = (let (r, b) = opn (f_brain f) in (Inr r, f\<lparr>f_brain := b\<rparr>))"

definition enqueue_r :: "task_request \<Rightarrow> time \<Rightarrow> (int \<times> bool) routine" where
  "enqueue_r q now f = (let (r, b) = enqueue_task q now (f_brain f) in (r, f\<lparr>f_brain := b\<rparr>))"

definition claim_r :: "world \<Rightarrow> string list \<Rightarrow> time \<Rightarrow> task option routine" where
  "claim_r w types now =
     brain_r w (\<lambda>o1 o2. claim_next_task o1 o2
       \<lparr>k_types = types, k_now = Some now, k_minimum_created = None, k_fairness = None, k_window = None,
        k_fresh_every = 2, k_budget = None\<rparr>)"

definition complete_r :: "world \<Rightarrow> int \<Rightarrow> string \<Rightarrow> time \<Rightarrow> unit routine" where
  "complete_r w tid reason now = brain_r w (\<lambda>o1 o2. complete_task o1 o2 (Some now) tid None None None reason)"

definition skip_r :: "world \<Rightarrow> int \<Rightarrow> string \<Rightarrow> time \<Rightarrow> unit routine" where
  "skip_r w tid reason now = brain_r w (\<lambda>o1 o2. skip_task o1 o2 (Some now) tid reason)"

definition block_r :: "world \<Rightarrow> int \<Rightarrow> string \<Rightarrow> time \<Rightarrow> unit routine" where
  "block_r w tid reason now = brain_r w (\<lambda>o1 o2. block_task o1 o2 (Some now) tid reason)"

definition defer_r :: "world \<Rightarrow> int \<Rightarrow> time \<Rightarrow> string \<Rightarrow> time \<Rightarrow> unit routine" where
  "defer_r w tid until reason now = brain_r w (\<lambda>o1 o2. defer_task o1 o2 (Some now) tid until reason)"

definition requeue_r :: "world \<Rightarrow> int \<Rightarrow> string \<Rightarrow> time \<Rightarrow> unit routine" where
  "requeue_r w tid reason now = brain_r w (\<lambda>o1 o2. requeue_task o1 o2 (Some now) tid reason)"

definition dispatched_r :: "world \<Rightarrow> string \<Rightarrow> int \<Rightarrow> time \<Rightarrow> unit routine" where
  "dispatched_r w mid jid now = brain_r w (\<lambda>o1 o2. mark_materialization_dispatched o1 o2 (Some now) mid jid)"

definition ambiguous_r :: "world \<Rightarrow> string \<Rightarrow> time \<Rightarrow> unit routine" where
  "ambiguous_r w mid now = brain_r w (\<lambda>o1 o2. mark_materialization_ambiguous o1 o2 (Some now) mid)"

definition commit_r :: "world \<Rightarrow> int \<Rightarrow> string \<Rightarrow> int \<Rightarrow> time \<Rightarrow> unit routine" where
  "commit_r w tid mid jid now = brain_r w (\<lambda>o1 o2. commit_materialization o1 o2 (Some now) tid mid jid)"

definition authorize_r :: "world \<Rightarrow> string \<Rightarrow> time \<Rightarrow> outbox_row routine" where
  "authorize_r w mid now =
     brain_r w (\<lambda>o1 o2 c b. let (r, c1) = authorize_materialization_replay o1 (Some now) mid c b in (r, c1, b))"

text \<open>\<open>ensure_experiment_queued\<close> reads the spec file it is given.\<close>

definition ensure_r :: "world \<Rightarrow> string \<Rightarrow> int \<Rightarrow> string option \<Rightarrow> string option \<Rightarrow> (int \<times> bool) routine" where
  "ensure_r w path prio mid digest f =
     (let (r, q) = ensure_experiment_queued (\<lambda>p. map_option (w_sha w) (f_files f p)) (w_stamp w (f_tick f)) path
                     prio mid digest (f_queue f)
      in (r, f\<lparr>f_queue := q, f_tick := f_tick f + 1\<rparr>))"

definition write_file_r :: "string \<Rightarrow> string \<Rightarrow> unit routine" where
  "write_file_r path text f = (Inr (), f\<lparr>f_files := (f_files f)(path \<mapsto> text)\<rparr>)"

text \<open>\<open>_bump\<close> and a direct assignment of a counter.\<close>

definition bump_r :: "string \<Rightarrow> rat \<Rightarrow> unit routine" where
  "bump_r key n f = (Inr (), f\<lparr>f_count := (f_count f)(key := f_count f key + n)\<rparr>)"

definition set_count_r :: "string \<Rightarrow> rat \<Rightarrow> unit routine" where
  "set_count_r key n f = (Inr (), f\<lparr>f_count := (f_count f)(key := n)\<rparr>)"

end
