(* ===== verification/Coordinator.thy ===== *)
theory Coordinator
  imports Farm_Routine
begin

text \<open>
  The planning half of \<open>src/research_lab/farm_coordinator.py\<close>: intake events and finished downloads become
  tasks, blocked sweeps are released when their data has appeared, downloads that cannot succeed are
  parked, and the pivot that ends a cycle.  \<open>gate\<close> is the outcome memory of the cycle, \<open>None\<close> when it is off.
\<close>

section \<open>Requests\<close>

definition opt_json :: "string option \<Rightarrow> json" where
  "opt_json x = (case x of None \<Rightarrow> JNull | Some s \<Rightarrow> JStr s)"

definition json_opt :: "(json \<Rightarrow> string) \<Rightarrow> json \<Rightarrow> string option" where
  "json_opt rep v = (if v = JNull then None else Some (py_text rep v))"

text \<open>The defaults of the parameters of \<open>enqueue_task\<close>.\<close>

definition task_request_of :: "string \<Rightarrow> string \<Rightarrow> int \<Rightarrow> string option \<Rightarrow> string option \<Rightarrow> task_request" where
  "task_request_of type key prio symbol tf =
     \<lparr>q_type = type, q_key = key, q_priority = prio, q_symbol = symbol, q_group = None, q_timeframe = tf,
      q_family = None, q_params_hash = None, q_fingerprint = None, q_depends = None, q_source_event = None,
      q_payload = JNull, q_state = Queued, q_reason = [], q_deferred = None, q_ttl = 12 * 3600\<rparr>"

definition default_families :: "string list" where
  "default_families = [''momentum_breakout'', ''mean_reversion_fade'', ''bb_volume_fade'']"

definition bump_created :: "string \<Rightarrow> bool \<Rightarrow> unit routine" where
  "bump_created planned created =
     then_r (bump_r planned 1) (bump_r (if created then ''tasks_created'' else ''tasks_deduped'') 1)"

definition lift_r :: "exn + 'a \<Rightarrow> 'a routine" where
  "lift_r x = (case x of Inl e \<Rightarrow> raise_r e | Inr v \<Rightarrow> return_r v)"

section \<open>Planning\<close>

text \<open>The keys of an intake event, or of the task that stands for one, that planning reads.\<close>

record plan_event =
  pe_id :: "string option"
  pe_priority :: "int option"
  pe_class :: "string option"

definition prepare_request ::
  "decision \<Rightarrow> plan_event \<Rightarrow> string list \<Rightarrow> task_request" where
  "prepare_request dec ev families =
     (let sy = norm_symbol (de_symbol dec); tf = de_timeframe dec
      in (task_request_of ''prepare_data'' (''prepare::'' @ sy @ ''::'' @ tf) (priority_value (pe_priority ev) 100)
            (Some sy) (Some tf))
           \<lparr>q_source_event := pe_id ev, q_reason := de_reason dec,
            q_payload := JObj [(''asset_class'', opt_json (pe_class ev)), (''families'', JArr (map JStr families))]\<rparr>)"

definition sweep_task_key :: "string \<Rightarrow> string \<Rightarrow> string \<Rightarrow> string \<Rightarrow> string" where
  "sweep_task_key sy tf fam part = ''run_sweep::'' @ sy @ ''::'' @ tf @ ''::'' @ fam @ ''::'' @ part"

definition create_blocked_sweep ::
  "decision \<Rightarrow> string \<Rightarrow> string \<Rightarrow> int \<Rightarrow> string option \<Rightarrow> time \<Rightarrow> unit routine" where
  "create_blocked_sweep dec sy tf prio src now =
     (let fam = de_family dec
      in bind_r (enqueue_r ((task_request_of ''run_sweep'' (sweep_task_key sy tf fam ''gate'') prio (Some sy) (Some tf))
             \<lparr>q_family := Some fam, q_source_event := src, q_state := Blocked, q_reason := de_reason dec\<rparr>) now)
           (\<lambda>(_, created).
              then_r (bump_created ''planned_blocked'' created)
                (if de_enrich dec \<in> {''funding'', ''oi''}
                 then bind_r (enqueue_r ((task_request_of (''enrich_'' @ de_enrich dec)
                          (''enrich_'' @ de_enrich dec @ ''::'' @ sy @ ''::'' @ tf) prio (Some sy) (Some tf))
                          \<lparr>q_source_event := src\<rparr>) now) (\<lambda>_. return_r ())
                 else return_r ())))"

definition create_run_sweep ::
  "decision \<Rightarrow> string \<Rightarrow> string \<Rightarrow> int \<Rightarrow> string option \<Rightarrow> gate_index option \<Rightarrow> time \<Rightarrow> unit routine" where
  "create_run_sweep dec sy tf prio src gate now =
     (if de_block dec then create_blocked_sweep dec sy tf prio src now
      else
        let fam = de_family dec;
            fp = (if str_or (de_fingerprint dec) = [] then ''nofp'' else str_or (de_fingerprint dec));
            action = (case gate of None \<Rightarrow> ''fresh'' | Some g \<Rightarrow> mv_action (lookup g sy tf fam fp))
        in if action = ''skip_known_bad'' then bump_r ''sweeps_skipped_memory'' 1
           else
             then_r (when_r (action = ''deprioritize'') (bump_r ''sweeps_deprioritized'' 1))
               (bind_r (enqueue_r ((task_request_of ''run_sweep'' (sweep_task_key sy tf fam fp)
                            (if action = ''deprioritize'' then prio + 50 else prio) (Some sy) (Some tf))
                          \<lparr>q_family := Some fam, q_fingerprint := Some fp, q_source_event := src,
                           q_reason := (if action = ''deprioritize'' then ''data_ready:memory_deprioritized'' else ''data_ready'')\<rparr>) now)
                  (\<lambda>(_, created). bump_created ''planned_run_sweep'' created)))"

definition create_from_decision ::
  "decision \<Rightarrow> plan_event \<Rightarrow> string list \<Rightarrow> gate_index option \<Rightarrow> time \<Rightarrow> unit routine" where
  "create_from_decision dec ev families gate now =
     (if de_action dec = ''skip'' then bump_r ''planned_skipped'' 1
      else if de_action dec = ''prepare_data''
      then bind_r (enqueue_r (prepare_request dec ev families) now) (\<lambda>(_, created). bump_created ''planned_prepare'' created)
      else if de_action dec = ''defer''
      then bind_r (enqueue_r ((prepare_request dec ev families)\<lparr>q_state := Deferred, q_deferred := Some (de_until dec)\<rparr>) now)
             (\<lambda>(_, created). bump_created ''planned_deferred'' created)
      else if de_action dec = ''run_sweep''
      then create_run_sweep dec (norm_symbol (de_symbol dec)) (de_timeframe dec) (priority_value (pe_priority ev) 100)
             (pe_id ev) gate now
      else return_r ())"

definition plan_symbol_r :: "world \<Rightarrow> string \<Rightarrow> string option \<Rightarrow> string list \<Rightarrow> time \<Rightarrow> decision list routine" where
  "plan_symbol_r w symbol asset families now =
     bind_r (observe_r (w_probe w))
       (\<lambda>probe. lift_r (plan_symbol (w_timeframes_for w) (w_min_rows w) probe symbol asset families now))"

definition count_active :: "brain \<Rightarrow> nat" where
  "count_active b =
     length (tasks_in_state Queued None b) + length (tasks_in_state Deferred None b) + length (tasks_in_state Blocked None b)"

definition event_of_row :: "intake_row \<Rightarrow> plan_event" where
  "event_of_row e = \<lparr>pe_id = Some (i_id e), pe_priority = Some (i_priority e), pe_class = i_class e\<rparr>"

definition plan_event_r :: "world \<Rightarrow> string list \<Rightarrow> gate_index option \<Rightarrow> time \<Rightarrow> intake_row \<Rightarrow> unit routine" where
  "plan_event_r w families gate now e =
     bind_r (plan_symbol_r w (py_str (i_symbol e)) (i_class e) families now)
       (\<lambda>decs.
          then_r (each_r (\<lambda>dec. create_from_decision dec (event_of_row e) families gate now) decs)
            (then_r (table_r (\<lambda>b. ((), mark_event_consumed (i_id e) b))) (bump_r ''events_consumed'' 1)))"

definition plan_events :: "world \<Rightarrow> string list \<Rightarrow> gate_index option \<Rightarrow> time \<Rightarrow> intake_row list \<Rightarrow> int routine" where
  "plan_events w families gate now evs =
     bind_r (read_r (\<lambda>f. int (count_active (f_brain f))))
       (\<lambda>before. then_r (each_r (plan_event_r w families gate now) evs)
                   (read_r (\<lambda>f. int (count_active (f_brain f)) - before)))"

section \<open>Releasing blocked sweeps\<close>

definition gate_clear :: "task \<Rightarrow> (string \<Rightarrow> string \<Rightarrow> data_probe) \<Rightarrow> exn + bool" where
  "gate_clear r probe =
     (if str_or (t_family r) = [] then Inr False
      else case get_strategy (str_or (t_family r)) of
             Inl e \<Rightarrow> Inl e
           | Inr d \<Rightarrow>
               let required = set (st_required d);
                   enrichment = set (dp_enrichment (probe (py_str (t_symbol r)) (py_str (t_timeframe r))))
               in if ''oi'' \<in> required then Inr (''oi'' \<in> enrichment)
                  else if ''funding'' \<in> required then Inr (''funding'' \<in> enrichment)
                  else if ''microstructure'' \<in> required then Inr (''obi_top5'' \<in> enrichment)
                  else Inr True)"

definition unblock_task :: "world \<Rightarrow> time \<Rightarrow> task \<Rightarrow> unit routine" where
  "unblock_task w now r =
     bind_r (bind_r (observe_r (w_probe w)) (\<lambda>probe. lift_r (gate_clear r probe)))
       (\<lambda>clear. when_r clear (then_r (requeue_r w (t_id r) ''gate_cleared'' now) (bump_r ''unblocked'' 1)))"

definition unblock :: "world \<Rightarrow> time \<Rightarrow> unit routine" where
  "unblock w now =
     bind_r (read_r (\<lambda>f. tasks_in_state Blocked (Some ''run_sweep'') (f_brain f))) (each_r (unblock_task w now))"

definition park_provider_error :: "world \<Rightarrow> string list \<Rightarrow> time \<Rightarrow> task \<Rightarrow> unit routine" where
  "park_provider_error w universe now r =
     (let sy = norm_symbol (str_or (t_symbol r))
      in when_r (t_reason r = ''prepare_backoff:provider_error'' \<and> sy \<noteq> [] \<and> sy \<notin> set universe)
           (then_r (skip_r w (t_id r) ''parked:no_instrument_or_delisted'' now)
              (bump_r ''prepare_provider_error_parked'' 1)))"

definition park_terminal_prepare_provider_errors :: "world \<Rightarrow> time \<Rightarrow> unit routine" where
  "park_terminal_prepare_provider_errors w now =
     bind_r (observe_r (w_universe w))
       (\<lambda>universe. if universe = [] then return_r ()
          else bind_r (read_r (\<lambda>f. tasks_in_state Blocked (Some ''prepare_data'') (f_brain f)))
                 (each_r (park_provider_error w universe now)))"

section \<open>Planning again after a download\<close>

text \<open>\<open>tuple(payload.get("families") or DEFAULT_FAMILIES)\<close>; the payload text must be JSON and an object.\<close>

definition families_of_payload :: "(json \<Rightarrow> string) \<Rightarrow> json \<Rightarrow> exn + string list" where
  "families_of_payload rep p =
     (let v = jget ''families'' p
      in if \<not> truthy v then Inr default_families
         else case v of
                JArr xs \<Rightarrow> Inr (map (py_text rep) xs)
              | JStr s \<Rightarrow> Inr (map (\<lambda>c. [c]) s)
              | JObj kvs \<Rightarrow> Inr (map fst kvs)
              | _ \<Rightarrow> Inl (TypeError ''object is not iterable''))"

definition payload_object :: "task \<Rightarrow> exn + json" where
  "payload_object r =
     (case t_payload r of
        None \<Rightarrow> Inl (ValueError ''JSONDecodeError'')
      | Some p \<Rightarrow> if is_obj p then Inr p else Inl (AttributeError ''get''))"

definition replan_after_prepare :: "world \<Rightarrow> gate_index option \<Rightarrow> time \<Rightarrow> task \<Rightarrow> unit routine" where
  "replan_after_prepare w gate now r =
     bind_r (lift_r (payload_object r)) (\<lambda>p.
     bind_r (lift_r (families_of_payload (w_rep w) p)) (\<lambda>families.
       let asset = json_opt (w_rep w) (jget ''asset_class'' p);
           ev = \<lparr>pe_id = t_source_event r, pe_priority = Some (t_priority r), pe_class = asset\<rparr>
       in bind_r (plan_symbol_r w (py_str (t_symbol r)) asset families now)
            (each_r (\<lambda>dec. when_r (de_action dec = ''run_sweep'') (create_from_decision dec ev families gate now)))))"

section \<open>The pivot\<close>

definition active_symbols :: "brain \<Rightarrow> string list" where
  "active_symbols b =
     concat (map (\<lambda>r. if active (t_state r) then (case t_symbol r of None \<Rightarrow> [] | Some s \<Rightarrow> [text_upper s]) else []) (tasks b))"

definition covered_symbols :: "brain \<Rightarrow> string list" where
  "covered_symbols b = active_symbols b @ map (\<lambda>u. text_upper (py_str (u_symbol u))) (latest_unique_candidates 2000 b)"

text \<open>\<open>snapshot\<close> says whether there is a discovery snapshot; the events it proposes are observed.\<close>

definition decide_pivot ::
  "world \<Rightarrow> bool \<Rightarrow> string list \<Rightarrow> gate_index option \<Rightarrow> time \<Rightarrow> int \<Rightarrow> bool \<Rightarrow> string routine" where
  "decide_pivot w snapshot families gate now new_tasks did_work =
     bind_r (read_r f_brain) (\<lambda>b.
       if eligible_count now [] b > 0 then return_r ''work_available''
       else if new_tasks > 0 \<or> did_work then return_r ''advanced_lifecycle''
       else if snapshot then
         bind_r (observe_r (\<lambda>n. w_discovery w n (covered_symbols b))) (\<lambda>evs.
         then_r (each_r (\<lambda>e. bind_r (table_r (upsert_intake_event e (Some (i_priority e)) now)) (\<lambda>_. return_r ())) evs)
           (bind_r (plan_events w families gate now evs) (\<lambda>created.
              return_r (if created > 0 then ''discovery_refill'' else ''blocked:no_eligible_tasks''))))
       else return_r ''blocked:no_eligible_tasks'')"

end
