(* ===== verification/Coordinator_Run.thy ===== *)
theory Coordinator_Run
  imports Coordinator
begin

text \<open>
  The executing half of \<open>src/research_lab/farm_coordinator.py\<close> with \<open>queue_sweep\<close> of
  \<open>farm_sweep_runner.py\<close>: the replay of interrupted materializations, the drains of the task types, the
  synchronisation with the compute queue, the classification of finished runs, and the cycle.
  \<open>guard\<close> is what the claim heartbeat of a sweep answers at a checkpoint: the exception it raises, if any.
\<close>

section \<open>Numbers as text\<close>

fun nat_text :: "nat \<Rightarrow> string" where
  "nat_text n = (if n < 10 then [char_of (48 + n)] else nat_text (n div 10) @ [char_of (48 + n mod 10)])"

declare nat_text.simps [simp del]

definition int_as_text :: "int \<Rightarrow> string" where
  "int_as_text n = (if n < 0 then ''-'' @ nat_text (nat (- n)) else nat_text (nat n))"

definition materialization_id_of :: "task \<Rightarrow> string" where
  "materialization_id_of r = ''task:'' @ int_as_text (t_id r) @ '':fence:'' @ int_as_text (t_fence r)"

section \<open>Replaying the outbox\<close>

text \<open>\<open>try: v = m except StaleTaskClaimError: continue\<close>: no value when the loop goes on.\<close>

definition attempt_r :: "'a routine \<Rightarrow> 'a option routine" where
  "attempt_r m = catch_stale (bind_r m (\<lambda>v. return_r (Some v))) (return_r None)"

definition replay_publish :: "world \<Rightarrow> time \<Rightarrow> outbox_row \<Rightarrow> bool routine" where
  "replay_publish w now intent =
     bind_r (attempt_r (authorize_r w (o_id intent) now)) (\<lambda>again.
       if again = None then return_r False
       else bind_r (ensure_r w (o_path intent) (o_priority intent) (Some (o_id intent)) (Some (o_digest intent)))
         (\<lambda>(jid, _).
            bind_r (attempt_r (then_r (dispatched_r w (o_id intent) jid now) (commit_r w (o_task intent) (o_id intent) jid now)))
              (\<lambda>finished. return_r (finished \<noteq> None))))"

definition replay_one :: "world \<Rightarrow> time \<Rightarrow> outbox_row \<Rightarrow> bool routine" where
  "replay_one w now pending =
     bind_r (attempt_r (authorize_r w (o_id pending) now)) (\<lambda>authorized.
       case authorized of
         None \<Rightarrow> return_r False
       | Some intent \<Rightarrow>
           if w_sha w (o_spec intent) \<noteq> o_digest intent
           then then_r (ambiguous_r w (o_id intent) now) (return_r False)
           else bind_r (read_r (\<lambda>f. f_files f (o_path intent))) (\<lambda>existing.
             case existing of
               Some text \<Rightarrow>
                 if text \<noteq> o_spec intent then then_r (ambiguous_r w (o_id intent) now) (return_r False)
                 else replay_publish w now intent
             | None \<Rightarrow> then_r (write_file_r (o_path intent) (o_spec intent)) (replay_publish w now intent)))"

fun replay_each :: "world \<Rightarrow> time \<Rightarrow> outbox_row list \<Rightarrow> nat routine" where
  "replay_each w now [] = return_r 0"
| "replay_each w now (p # ps) =
     bind_r (replay_one w now p) (\<lambda>delivered. bind_r (replay_each w now ps) (\<lambda>n. return_r (of_bool delivered + n)))"

definition replay_materialization_outbox :: "world \<Rightarrow> time \<Rightarrow> nat routine" where
  "replay_materialization_outbox w now =
     bind_r (read_r (\<lambda>f. pending_materializations (f_brain f))) (replay_each w now)"

section \<open>Draining the task types\<close>

text \<open>Claim a task of the type and run the body on it, at most \<open>limit\<close> times.\<close>

definition drain_r :: "world \<Rightarrow> string list \<Rightarrow> time \<Rightarrow> nat \<Rightarrow> (task \<Rightarrow> unit routine) \<Rightarrow> unit routine" where
  "drain_r w types now limit body =
     times_r limit (bind_r (claim_r w types now)
       (\<lambda>claimed. case claimed of None \<Rightarrow> return_r False | Some r \<Rightarrow> then_r (body r) (return_r True)))"

definition defer_and_count :: "world \<Rightarrow> task \<Rightarrow> time \<Rightarrow> string \<Rightarrow> string \<Rightarrow> time \<Rightarrow> unit routine" where
  "defer_and_count w r until reason key now =
     then_r (defer_r w (t_id r) until reason now) (bump_r key 1)"

definition prepare_backoff :: "int \<Rightarrow> time" where
  "prepare_backoff attempts_made =
     (let n = max 1 (if attempts_made = 0 then 1 else attempts_made)
      in min (6 * 3600) (15 * 60 * 2 ^ nat (min (n - 1) 4)))"

definition prepare_task :: "world \<Rightarrow> gate_index option \<Rightarrow> time \<Rightarrow> task \<Rightarrow> unit routine" where
  "prepare_task w gate now r =
     (if \<not> w_has_provider w then defer_and_count w r (now + 3600) ''no_provider_configured'' ''prepared_deferred'' now
      else bind_r (observe_r (\<lambda>n. w_prepare w n r)) (\<lambda>(status, rows).
        if status \<in> {''usable'', ''prepared''}
        then then_r (complete_r w (t_id r) status now) (then_r (bump_r ''prepared_ok'' 1) (replan_after_prepare w gate now r))
        else if status \<in> {''too_short'', ''fresh_listing_pending''}
        then defer_and_count w r (defer_until (w_min_rows w) now (py_str (t_timeframe r)) rows) status ''prepared_deferred'' now
        else if status \<in> {''provider_transient'', ''preopen''}
        then defer_and_count w r (now + prepare_backoff (t_attempts r)) status ''prepared_deferred'' now
        else if t_attempts r \<ge> 3
        then then_r (block_r w (t_id r) (''prepare_backoff:'' @ status) now) (bump_r ''prepared_blocked'' 1)
        else defer_and_count w r (now + 3600) status ''prepared_deferred'' now))"

definition drain_prepare :: "world \<Rightarrow> gate_index option \<Rightarrow> nat \<Rightarrow> time \<Rightarrow> unit routine" where
  "drain_prepare w gate limit now = drain_r w [''prepare_data''] now limit (prepare_task w gate now)"

definition enrich_task :: "world \<Rightarrow> time \<Rightarrow> task \<Rightarrow> unit routine" where
  "enrich_task w now r =
     (if \<not> w_has_flow w then defer_and_count w r (now + 3600) ''no_funding_provider'' ''enrich_deferred'' now
      else bind_r (observe_r (\<lambda>n. w_candle_file w n r)) (\<lambda>found.
        if \<not> found then defer_and_count w r (now + 3600) ''no_prepared_file'' ''enrich_deferred'' now
        else bind_r (observe_r (\<lambda>n. w_funding w n r)) (\<lambda>enriched.
          if enriched then then_r (complete_r w (t_id r) ''enriched'' now) (bump_r ''enriched_ok'' 1)
          else defer_and_count w r (now + 6 * 3600) ''enrich_no_points'' ''enrich_deferred'' now)))"

definition drain_enrich :: "world \<Rightarrow> nat \<Rightarrow> time \<Rightarrow> unit routine" where
  "drain_enrich w limit now = drain_r w [''enrich_funding''] now limit (enrich_task w now)"

definition oi_defer_reason :: "string \<Rightarrow> string" where
  "oi_defer_reason status =
     (case map_of [(''no_candles'', ''oi_window_too_short''), (''fetch_failed'', ''oi_provider_failed''),
                   (''no_points'', ''oi_not_available_for_instrument''),
                   (''not_enough_coverage'', ''oi_loaded_not_enough_points'')] status of
        None \<Rightarrow> ''oi_'' @ status | Some reason \<Rightarrow> reason)"

definition mark_oi_unmeasured_sweeps :: "world \<Rightarrow> task \<Rightarrow> time \<Rightarrow> unit routine" where
  "mark_oi_unmeasured_sweeps w r now =
     bind_r (read_r (\<lambda>f. tasks_in_state Blocked (Some ''run_sweep'') (f_brain f)))
       (each_r (\<lambda>t. when_r (t_symbol t = t_symbol r \<and> t_timeframe t = t_timeframe r \<and> t_reason t = ''NEEDS_OI_DATA'')
                      (skip_r w (t_id t) ''oi_unmeasured'' now)))"

definition enrich_oi_task :: "world \<Rightarrow> time \<Rightarrow> task \<Rightarrow> unit routine" where
  "enrich_oi_task w now r =
     (if \<not> w_has_oi w then defer_and_count w r (now + 3600) ''no_oi_provider'' ''enrich_oi_deferred'' now
      else bind_r (observe_r (\<lambda>n. w_candle_file w n r)) (\<lambda>found.
        if \<not> found then defer_and_count w r (now + 3600) ''no_prepared_file'' ''enrich_oi_deferred'' now
        else bind_r (observe_r (\<lambda>n. w_oi w n r)) (\<lambda>status.
          if status = ''enriched''
          then then_r (complete_r w (t_id r) ''oi_loaded'' now) (bump_r ''enriched_oi_ok'' 1)
          else if status \<in> {''no_candles'', ''no_points'', ''not_enough_coverage''} \<and> t_attempts r \<ge> 3
          then then_r (skip_r w (t_id r) ''oi_unmeasured'' now)
                 (then_r (mark_oi_unmeasured_sweeps w r now) (bump_r ''oi_marked_unmeasured'' 1))
          else defer_and_count w r (now + 6 * 3600) (oi_defer_reason status) ''enrich_oi_deferred'' now)))"

definition drain_enrich_oi :: "world \<Rightarrow> nat \<Rightarrow> time \<Rightarrow> unit routine" where
  "drain_enrich_oi w limit now = drain_r w [''enrich_oi''] now limit (enrich_oi_task w now)"

section \<open>Sweeps into the compute queue\<close>

definition checkpoint_r :: "world \<Rightarrow> unit routine" where
  "checkpoint_r w = bind_r (observe_r (w_guard w)) (\<lambda>x. case x of None \<Rightarrow> return_r () | Some e \<Rightarrow> raise_r e)"

definition write_immutable_spec :: "string \<Rightarrow> string \<Rightarrow> unit routine" where
  "write_immutable_spec path text =
     bind_r (read_r (\<lambda>f. f_files f path)) (\<lambda>existing.
       case existing of
         Some old \<Rightarrow> if old \<noteq> text then raise_r (ValueError ''immutable experiment spec collision'') else return_r ()
       | None \<Rightarrow> write_file_r path text)"

definition prepare_intent :: "world \<Rightarrow> task \<Rightarrow> string \<Rightarrow> string \<Rightarrow> string \<Rightarrow> int \<Rightarrow> time \<Rightarrow> unit routine" where
  "prepare_intent w r path text digest prio now =
     then_r (checkpoint_r w)
       (brain_r w (\<lambda>o1 o2. prepare_materialization o1 o2 (Some now) (t_id r) (materialization_id_of r) path digest text prio))"

definition queue_sweep :: "world \<Rightarrow> task \<Rightarrow> string \<Rightarrow> int \<Rightarrow> time \<Rightarrow> (int \<times> bool) routine" where
  "queue_sweep w r fp prio now =
     bind_r (bind_r (observe_r (\<lambda>n. w_compile w n r fp)) lift_r) (\<lambda>(path, text).
       then_r (prepare_intent w r path text (w_sha w text) prio now)
         (then_r (checkpoint_r w)
            (then_r (write_immutable_spec path text)
               (ensure_r w path prio (Some (materialization_id_of r)) (Some (w_sha w text))))))"

definition bind_sweep :: "world \<Rightarrow> task \<Rightarrow> int \<Rightarrow> time \<Rightarrow> unit routine" where
  "bind_sweep w r jid now =
     then_r (checkpoint_r w)
       (then_r (dispatched_r w (materialization_id_of r) jid now)
          (commit_r w (t_id r) (materialization_id_of r) jid now))"

definition sweep_task :: "world \<Rightarrow> int \<Rightarrow> time \<Rightarrow> task \<Rightarrow> unit routine" where
  "sweep_task w priority_base now r =
     then_r (checkpoint_r w)
       (bind_r (observe_r (\<lambda>n. w_candles w n r)) (\<lambda>evidence.
          if str_or evidence = [] then defer_and_count w r (now + 3600) ''snapshot_missing_before_queue'' ''sweeps_snapshot_drift'' now
          else
            let fp = str_or evidence; prio = priority_base + priority_value (Some (t_priority r)) 100
            in then_r (bind_r (observe_r (\<lambda>n. w_spec_error w n r fp)) (\<lambda>x. case x of None \<Rightarrow> return_r () | Some e \<Rightarrow> raise_r e))
                 (then_r (checkpoint_r w)
                    (bind_r (observe_r (\<lambda>n. w_snapshot w n r)) (\<lambda>complete.
                       if \<not> complete
                       then defer_and_count w r (now + 3600) ''snapshot_set_incomplete_before_queue'' ''sweeps_snapshot_drift'' now
                       else then_r (checkpoint_r w)
                              (bind_r (queue_sweep w r fp prio now) (\<lambda>(jid, created).
                                 then_r (checkpoint_r w)
                                   (then_r (bind_sweep w r jid now)
                                      (bump_r (if created then ''sweeps_materialized'' else ''sweeps_deduped'') 1)))))))))"

definition drain_run_sweep :: "world \<Rightarrow> int \<Rightarrow> nat \<Rightarrow> time \<Rightarrow> unit routine" where
  "drain_run_sweep w priority_base limit now =
     bind_r (replay_materialization_outbox w now) (\<lambda>replayed.
       then_r (when_r (replayed > 0) (bump_r ''sweeps_materialized'' (of_nat replayed)))
         (drain_r w [''run_sweep''] now limit (sweep_task w priority_base now)))"

section \<open>Finished jobs\<close>

text \<open>The acknowledged intent of a waiting task and its row of the compute queue.\<close>

definition waiting_sweeps :: "brain \<Rightarrow> task list" where
  "waiting_sweeps b =
     filter (\<lambda>r. t_reason r = ''materialized_awaiting_worker'') (tasks_in_state Deferred (Some ''run_sweep'') b)
     @ filter (\<lambda>r. t_reason r = ''materialized_awaiting_worker'') (tasks_in_state Running (Some ''run_sweep'') b)"

definition acknowledged_intent :: "int \<Rightarrow> int \<Rightarrow> brain \<Rightarrow> outbox_row option" where
  "acknowledged_intent tid jid b =
     first_by (\<lambda>i. - o_updated i)
       (filter (\<lambda>i. o_task i = tid \<and> o_job i = Some jid \<and> o_state i = Acknowledged) (outbox b))"

definition bound_compute_row :: "int \<Rightarrow> string \<Rightarrow> queue_db \<Rightarrow> (binding \<times> job) option" where
  "bound_compute_row jid mid q =
     (case bound_job mid q of None \<Rightarrow> None | Some mr \<Rightarrow> if qm_job (fst mr) = jid then Some mr else None)"

definition parked :: "task \<Rightarrow> bool" where
  "parked r \<longleftrightarrow> t_state r = Deferred"

definition lost_r :: "task \<Rightarrow> string \<Rightarrow> unit routine" where
  "lost_r r msg = (if parked r then raise_r (PriorityWorkerFatal msg) else return_r ())"

definition classify_request :: "task \<Rightarrow> int \<Rightarrow> string option \<Rightarrow> task_request" where
  "classify_request r jid label =
     (task_request_of ''classify_result'' (''classify::'' @ int_as_text jid) 100 (t_symbol r) (t_timeframe r))
       \<lparr>q_family := t_family r, q_fingerprint := t_fingerprint r,
        q_payload := JObj [(''run_dir_label'', opt_json label), (''timeframe'', opt_json (t_timeframe r)),
                           (''data_fingerprint'', opt_json (t_fingerprint r))]\<rparr>"

definition finish_r :: "world \<Rightarrow> task \<Rightarrow> string \<Rightarrow> int \<Rightarrow> string \<Rightarrow> string option \<Rightarrow> time \<Rightarrow> unit routine" where
  "finish_r w r mid jid status label now =
     brain_r w (\<lambda>o1 o2.
       if parked r then finish_materialized_task o1 o2 (Some now) (t_id r) mid jid status label label
       else if status = ''completed'' then complete_task o1 o2 (Some now) (t_id r) label label (Some jid) ''compute_completed''
       else fail_task o1 o2 (Some now) (t_id r) ''compute_failed'')"

definition sync_terminal :: "world \<Rightarrow> time \<Rightarrow> task \<Rightarrow> string \<Rightarrow> int \<Rightarrow> job \<Rightarrow> unit routine" where
  "sync_terminal w now r mid jid row =
     (if j_status row = ''completed'' then
        bind_r (attempt_r (finish_r w r mid jid ''completed'' (j_run_dir row) now)) (\<lambda>finished.
          if finished = None then lost_r r ''parked materialization changed during completion''
          else bind_r (enqueue_r (classify_request r jid (j_run_dir row)) now) (\<lambda>_. bump_r ''runs_completed'' 1))
      else if j_status row = ''failed'' then
        bind_r (attempt_r (finish_r w r mid jid ''failed'' None now)) (\<lambda>finished.
          if finished = None then lost_r r ''parked materialization changed during failure sync''
          else bump_r ''runs_failed'' 1)
      else if j_status row \<notin> {''queued'', ''running''}
      then lost_r r ''parked materialization entered an ambiguous compute state''
      else return_r ())"

definition sync_renew :: "world \<Rightarrow> time \<Rightarrow> task \<Rightarrow> bool routine" where
  "sync_renew w now r =
     (if t_state r = Running
      then bind_r (attempt_r (brain_r w (\<lambda>o1 o2. renew_task_claim o1 o2 (Some now) (t_id r) None))) (\<lambda>x. return_r (x \<noteq> None))
      else return_r True)"

definition sync_bound :: "world \<Rightarrow> time \<Rightarrow> task \<Rightarrow> int \<Rightarrow> outbox_row \<Rightarrow> binding \<times> job \<Rightarrow> unit routine" where
  "sync_bound w now r jid intent mr =
     bind_r (read_r (\<lambda>f. f_files f (j_spec (snd mr)))) (\<lambda>spec.
       case spec of
         None \<Rightarrow> lost_r r ''parked materialization spec is unavailable''
       | Some text \<Rightarrow>
           if w_sha w text \<noteq> o_digest intent then lost_r r ''parked materialization spec digest changed''
           else if qm_id (fst mr) \<noteq> o_id intent \<or> qm_digest (fst mr) \<noteq> o_digest intent
                   \<or> str_or (j_digest (snd mr)) \<noteq> o_digest intent
           then lost_r r ''parked materialization queue binding changed''
           else bind_r (sync_renew w now r) (\<lambda>renewed.
                  if renewed then sync_terminal w now r (o_id intent) jid (snd mr) else return_r ()))"

definition sync_task :: "world \<Rightarrow> time \<Rightarrow> task \<Rightarrow> unit routine" where
  "sync_task w now r =
     (if int_or0 (t_job r) = 0 then lost_r r ''parked materialization is missing its compute job binding''
      else
        let jid = int_or0 (t_job r)
        in bind_r (read_r (\<lambda>f. acknowledged_intent (t_id r) jid (f_brain f))) (\<lambda>found.
             case found of
               None \<Rightarrow> lost_r r ''parked materialization lost its acknowledged fence binding''
             | Some intent \<Rightarrow>
                 if o_fence intent \<noteq> t_fence r then lost_r r ''parked materialization lost its acknowledged fence binding''
                 else bind_r (read_r (\<lambda>f. bound_compute_row jid (o_id intent) (f_queue f))) (\<lambda>row.
                   case row of
                     None \<Rightarrow> lost_r r ''parked materialization is missing its exact compute row''
                   | Some mr \<Rightarrow> sync_bound w now r jid intent mr)))"

definition sync_completions :: "world \<Rightarrow> time \<Rightarrow> unit routine" where
  "sync_completions w now = bind_r (read_r (\<lambda>f. waiting_sweeps (f_brain f))) (each_r (sync_task w now))"

end
