(* ===== verification/Coordinator_Cycle.thy ===== *)
theory Coordinator_Cycle
  imports Coordinator_Run
begin

text \<open>
  Classification of finished runs, the worker of a cycle and \<open>run_coordinator_cycle\<close> itself
  (\<open>src/research_lab/farm_coordinator.py\<close>), with follow-ups and validation switched off
  (\<open>run_followups=False\<close>, \<open>run_validation=False\<close>).
\<close>

section \<open>Classifying\<close>

abbreviation pressure_budget :: string where
  "pressure_budget \<equiv> ''validation_backpressure_fresh_classify''"

definition backlog_r :: "world \<Rightarrow> time \<Rightarrow> backlog routine" where
  "backlog_r w now =
     brain_r w (\<lambda>o1 o2 c b. let (m, c1) = validation_backlog_metrics o1 (Some now) 3600 3600 c b in (Inr m, c1, b))"

definition count_backlog :: "backlog \<Rightarrow> unit routine" where
  "count_backlog m =
     then_r (set_count_r ''validation_backlog_active'' (of_nat (m_active m)))
       (then_r (set_count_r ''validation_backlog_eligible'' (of_nat (m_eligible m)))
          (then_r (set_count_r ''validation_backlog_oldest_age_seconds'' (m_oldest_age m))
             (then_r (set_count_r ''validation_arrival_rate_per_hour'' (m_arrival_rate m))
                (set_count_r ''validation_service_rate_per_hour'' (m_service_rate m)))))"

text \<open>Under back-pressure one fresh task per budget may pass; otherwise the budget is armed again.\<close>

definition claim_classify :: "world \<Rightarrow> nat \<Rightarrow> time \<Rightarrow> task option routine" where
  "claim_classify w high_water now =
     bind_r (backlog_r w now) (\<lambda>m.
     then_r (count_backlog m)
       (if m_active m \<ge> high_water then
          then_r (set_count_r ''validation_backpressure_active'' 1)
            (bind_r (brain_r w (\<lambda>o1 o2. claim_next_task o1 o2
                 \<lparr>k_types = [''classify_result''], k_now = Some now, k_minimum_created = Some (now - 300),
                  k_fairness = None, k_window = None, k_fresh_every = 2, k_budget = Some pressure_budget\<rparr>)) (\<lambda>claimed.
               then_r (case claimed of
                         None \<Rightarrow> bind_r (read_r (\<lambda>f. eligible_count now [''classify_result''] (f_brain f)))
                                   (\<lambda>n. set_count_r ''validation_classify_yielded'' (of_nat n))
                       | Some _ \<Rightarrow> set_count_r ''validation_freshness_bypass'' 1)
                 (return_r claimed)))
        else
          then_r (bind_r (table_r (reset_claim_budget pressure_budget)) (\<lambda>_. return_r ()))
            (claim_r w [''classify_result''] now)))"

definition export_request :: "candidate_row \<Rightarrow> task_request" where
  "export_request u =
     (task_request_of ''export_validation'' (''export::'' @ u_key u) 100 (u_symbol u) (u_timeframe u))
       \<lparr>q_family := u_family u, q_params_hash := u_params_hash u, q_fingerprint := u_fingerprint u,
        q_payload := JObj [(''candidate_id'', opt_json (u_candidate u)), (''uc_key'', JStr (u_key u))]\<rparr>"

definition store_candidate :: "time \<Rightarrow> candidate_row \<Rightarrow> unit routine" where
  "store_candidate now u =
     then_r (table_r (\<lambda>b. ((), upsert_unique_candidate u now b)))
       (then_r (bump_r ''unique_upserted'' 1)
          (if str_or (u_validation u) \<in> set eligible_lite
           then bind_r (enqueue_r (export_request u) now) (\<lambda>(_, created). when_r created (bump_r ''exports_created'' 1))
           else return_r ()))"

text \<open>The label of the run: \<open>Path(root) / None\<close> raises.\<close>

definition run_label :: "(json \<Rightarrow> string) \<Rightarrow> json \<Rightarrow> exn + string" where
  "run_label rep p =
     (case jget ''run_dir_label'' p of
        JStr s \<Rightarrow> Inr s
      | JNull \<Rightarrow> if jhas ''run_dir_label'' p then Inl (TypeError ''unsupported operand'') else Inr []
      | _ \<Rightarrow> Inl (TypeError ''unsupported operand''))"

definition classify_task :: "world \<Rightarrow> time \<Rightarrow> task \<Rightarrow> unit routine" where
  "classify_task w now r =
     bind_r (lift_r (payload_object r)) (\<lambda>p.
     bind_r (lift_r (run_label (w_rep w) p)) (\<lambda>label.
     bind_r (observe_r (\<lambda>n. w_run_payload w n label)) (\<lambda>metrics.
     bind_r (lift_r (classify_run (w_rep w) (w_int_text w) (w_float_text w) (w_hash w) label
                       (if truthy (jget ''timeframe'' p) then py_text (w_rep w) (jget ''timeframe'' p) else py_str (t_timeframe r))
                       (json_opt (w_rep w) (jget ''data_fingerprint'' p)) (Some (t_id r)) metrics)) (\<lambda>rows.
     then_r (each_r (store_candidate now) rows)
       (then_r (complete_r w (t_id r) ''classified'' now) (bump_r ''classified'' 1))))))"

definition classify_due :: "world \<Rightarrow> int \<Rightarrow> nat \<Rightarrow> time \<Rightarrow> unit routine" where
  "classify_due w high_water limit now =
     then_r (times_r limit (bind_r (claim_classify w (nat (max 1 high_water)) now)
               (\<lambda>claimed. case claimed of None \<Rightarrow> return_r False | Some r \<Rightarrow> then_r (classify_task w now r) (return_r True))))
       (bind_r (backlog_r w now) count_backlog)"

section \<open>The worker\<close>

definition worker_once :: "world \<Rightarrow> bool routine" where
  "worker_once w f =
     (let (outcome, q) = w_worker w (f_tick f) (f_queue f);
          f1 = f\<lparr>f_queue := q, f_tick := f_tick f + 1\<rparr>
      in case outcome of
           Worker_Status s \<Rightarrow> (Inr (s \<notin> {''queue_empty'', ''deferred''}), f1)
         | Worker_Lease_Lost \<Rightarrow> (Inl (PriorityWorkerFatal ''compute worker lease lifecycle failed''), f1)
         | Worker_Error \<Rightarrow> (Inr False, f1\<lparr>f_errors := f_errors f1 + 1\<rparr>))"

definition drain_worker :: "world \<Rightarrow> nat \<Rightarrow> unit routine" where
  "drain_worker w max_jobs = times_r max_jobs (worker_once w)"

section \<open>The cycle\<close>

record cycle_config =
  cf_families :: "string list"
  cf_apply :: bool
  cf_plan_events :: nat
  cf_prepares :: nat
  cf_enrich :: nat
  cf_sweeps :: nat
  cf_classify :: nat
  cf_run_worker :: bool
  cf_worker_jobs :: nat
  cf_priority_base :: int
  cf_snapshot :: bool
  cf_high_water :: int
  cf_memory :: bool

definition ingest_event :: "time \<Rightarrow> intake_row \<Rightarrow> unit routine" where
  "ingest_event now e =
     bind_r (table_r (upsert_intake_event e (Some (i_priority e)) now))
       (\<lambda>(_, created). when_r created (bump_r ''events_ingested'' 1))"

definition apply_work :: "world \<Rightarrow> cycle_config \<Rightarrow> gate_index option \<Rightarrow> time \<Rightarrow> unit routine" where
  "apply_work w cf gate now =
     then_r (drain_prepare w gate (cf_prepares cf) now)
       (then_r (drain_enrich w (cf_enrich cf) now)
          (then_r (drain_enrich_oi w (cf_enrich cf) now)
             (then_r (drain_run_sweep w (cf_priority_base cf) (cf_sweeps cf) now)
                (then_r (sync_completions w now)
                   (then_r (when_r (cf_run_worker cf) (then_r (drain_worker w (cf_worker_jobs cf)) (sync_completions w now)))
                      (classify_due w (cf_high_water cf) (cf_classify cf) now))))))"

definition work_counters :: "string list" where
  "work_counters = [''prepared_ok'', ''enriched_ok'', ''enriched_oi_ok'', ''sweeps_materialized'', ''runs_completed'',
     ''classified'', ''unblocked'', ''followup_sweeps_planned'', ''outcome_retest_sweeps_planned'',
     ''followups_scheduled'', ''advisor_sweeps_planned'']"

definition did_work :: "farm \<Rightarrow> bool" where
  "did_work f \<longleftrightarrow> list_ex (\<lambda>k. f_count f k \<noteq> 0) work_counters"

text \<open>The result is the pivot and the number of active tasks; the counters are those of the farm.\<close>

definition run_coordinator_cycle :: "world \<Rightarrow> cycle_config \<Rightarrow> intake_row list \<Rightarrow> time \<Rightarrow> (string \<times> nat) routine" where
  "run_coordinator_cycle w cf intake now f0 =
     (let gate = (if cf_memory cf then Some (build_gate_index (candidates (f_brain f0))) else None);
          routine =
            then_r (each_r (ingest_event now) intake)
              (bind_r (read_r (\<lambda>f. unconsumed_events (cf_plan_events cf) (f_brain f))) (\<lambda>fresh.
               bind_r (plan_events w (cf_families cf) gate now fresh) (\<lambda>new_tasks.
               then_r (unblock w now)
                 (then_r (park_terminal_prepare_provider_errors w now)
                    (then_r (when_r (cf_apply cf) (apply_work w cf gate now))
                       (bind_r (read_r did_work) (\<lambda>worked.
                        bind_r (decide_pivot w (cf_snapshot cf) (cf_families cf) gate now new_tasks worked) (\<lambda>pivot.
                        read_r (\<lambda>f. (pivot, count_active (f_brain f)))))))))))
      in routine (f0\<lparr>f_count := (\<lambda>_. 0), f_errors := 0\<rparr>))"

end
