(* ===== verification/Coordinator_Safety.thy ===== *)
theory Coordinator_Safety
  imports Coordinator_Cycle Validation_Safety Compute_Safety
begin

text \<open>
  What a cycle of the coordinator can do to the stores.  \<open>farm_relation\<close> is the contract of a relation between
  the farm before and after: reflexive, transitive, and kept by every primitive write of the coordinator;
  inside it every routine up to the whole cycle keeps the relation.  It is interpreted twice: the databases
  move only by operations of their own interfaces, and a published spec file never changes.
\<close>

section \<open>The contract\<close>

locale farm_relation =
  fixes R :: "farm \<Rightarrow> farm \<Rightarrow> bool"
    and w :: world
  assumes R_refl: "R f f"
    and R_trans: "R f g \<Longrightarrow> R g h \<Longrightarrow> R f h"
    and R_local: "R f (f\<lparr>f_conn := c, f_count := k, f_errors := e, f_tick := n\<rparr>)"
    and R_brain: "R f (f\<lparr>f_brain := brain_step x (f_brain f)\<rparr>)"
    and R_queue: "R f (f\<lparr>f_queue := queue_step y (f_queue f)\<rparr>)"
    and R_worker: "R f (f\<lparr>f_queue := snd (w_worker w n (f_queue f))\<rparr>)"
    and R_file: "f_files f p = None \<Longrightarrow> R f (f\<lparr>f_files := (f_files f)(p \<mapsto> t)\<rparr>)"
begin

definition keeps :: "'a routine \<Rightarrow> bool" where
  "keeps m \<longleftrightarrow> (\<forall>f. R f (snd (m f)))"

lemma keepsI: "(\<And>f. R f (snd (m f))) \<Longrightarrow> keeps m"
  by (simp add: keeps_def)

lemma keepsD: "keeps m \<Longrightarrow> R f (snd (m f))"
  by (simp add: keeps_def)

lemma R_tick: "R f (f\<lparr>f_tick := n\<rparr>)"
  using R_local[where f = f and c = "f_conn f" and k = "f_count f" and e = "f_errors f" and n = n] by simp

lemma R_count: "R f (f\<lparr>f_count := k\<rparr>)"
  using R_local[where f = f and c = "f_conn f" and k = k and e = "f_errors f" and n = "f_tick f"] by simp

lemma R_conn: "R f (f\<lparr>f_conn := c, f_tick := n\<rparr>)"
  using R_local[where f = f and c = c and k = "f_count f" and e = "f_errors f" and n = n] by simp

lemma keeps_return [intro!, simp]: "keeps (return_r v)"
  by (simp add: keeps_def return_r_def R_refl)

lemma keeps_raise [intro!, simp]: "keeps (raise_r e)"
  by (simp add: keeps_def raise_r_def R_refl)

lemma keeps_read [intro!, simp]: "keeps (read_r g)"
  by (simp add: keeps_def read_r_def R_refl)

lemma keeps_observe [intro!, simp]: "keeps (observe_r g)"
  by (simp add: keeps_def observe_r_def R_tick)

lemma keeps_lift [intro!, simp]: "keeps (lift_r x)"
  by (cases x) (simp_all add: lift_r_def)

lemma keeps_bind [intro!]: "keeps m \<Longrightarrow> (\<And>v. keeps (k v)) \<Longrightarrow> keeps (bind_r m k)"
  unfolding keeps_def bind_r_def
  by (auto split: prod.splits sum.splits) (metis R_trans snd_conv)+

lemma keeps_then [intro!]: "keeps m \<Longrightarrow> keeps k \<Longrightarrow> keeps (then_r m k)"
  by (simp add: then_r_def keeps_bind)

lemma keeps_catch [intro!]: "keeps m \<Longrightarrow> keeps h \<Longrightarrow> keeps (catch_stale m h)"
  unfolding keeps_def catch_stale_def
  by (auto split: prod.splits sum.splits) (metis R_trans snd_conv)+

lemma keeps_attempt [intro!]: "keeps m \<Longrightarrow> keeps (attempt_r m)"
  by (simp add: attempt_r_def keeps_bind keeps_catch)

lemma keeps_when [intro!]: "keeps m \<Longrightarrow> keeps (when_r c m)"
  by (simp add: when_r_def)

lemma keeps_if [intro!]: "keeps m \<Longrightarrow> keeps k \<Longrightarrow> keeps (if c then m else k)"
  by simp

lemma keeps_each [intro!]: "(\<And>x. keeps (body x)) \<Longrightarrow> keeps (each_r body xs)"
  by (induction xs) (auto intro: keeps_then)

lemma keeps_times [intro!]: "keeps body \<Longrightarrow> keeps (times_r n body)"
  by (induction n) auto

lemma keeps_option [intro!]: "keeps m \<Longrightarrow> (\<And>v. keeps (k v)) \<Longrightarrow> keeps (case x of None \<Rightarrow> m | Some v \<Rightarrow> k v)"
  by (cases x) auto

lemma keeps_prod [intro!]: "(\<And>u v. keeps (k u v)) \<Longrightarrow> keeps (case x of (u, v) \<Rightarrow> k u v)"
  by (cases x) auto

lemma keeps_Let [intro!]: "keeps (k v) \<Longrightarrow> keeps (Let v k)"
  by simp

lemma keeps_bump [intro!, simp]: "keeps (bump_r key n)" and keeps_set_count [intro!, simp]: "keeps (set_count_r key n)"
  by (simp_all add: keeps_def bump_r_def set_count_r_def R_count)

text \<open>The calls of the task brain.\<close>

lemma keeps_brain:
  assumes "\<And>o1 o2 c b. snd (snd (opn o1 o2 c b)) = b \<or> (\<exists>x. snd (snd (opn o1 o2 c b)) = brain_step x b)"
  shows "keeps (brain_r w opn)"
proof (rule keepsI)
  fix f :: farm
  obtain r c b where run: "opn (w_clock w (f_tick f)) (w_clock w (f_tick f + 1)) (f_conn f) (f_brain f) = (r, c, b)"
    by (cases "opn (w_clock w (f_tick f)) (w_clock w (f_tick f + 1)) (f_conn f) (f_brain f)") auto
  have "b = f_brain f \<or> (\<exists>x. b = brain_step x (f_brain f))"
    using assms[of "w_clock w (f_tick f)" "w_clock w (f_tick f + 1)" "f_conn f" "f_brain f"] unfolding run by simp
  then have "R f (f\<lparr>f_brain := b\<rparr>)"
    using R_brain[of f] R_refl[of f] by auto
  moreover have "R (f\<lparr>f_brain := b\<rparr>) (f\<lparr>f_brain := b, f_conn := c, f_tick := f_tick f + 2\<rparr>)"
    using R_conn[where f = "f\<lparr>f_brain := b\<rparr>" and c = c and n = "f_tick f + 2"] by simp
  moreover have "snd (brain_r w opn f) = f\<lparr>f_brain := b, f_conn := c, f_tick := f_tick f + 2\<rparr>"
    unfolding brain_r_def run Let_def by (cases f) simp
  ultimately show "R f (snd (brain_r w opn f))"
    by (auto intro: R_trans)
qed

lemma keeps_move:
  assumes "\<And>o1 o2 c b. opn o1 o2 c b = set_state o1 o2 now tid s reason cols c b"
  shows "keeps (brain_r w opn)"
  by (rule keeps_brain) (metis assms brain_step.simps(4))

lemma keeps_moves [intro!, simp]:
  "keeps (complete_r w tid reason now)" "keeps (skip_r w tid reason now)" "keeps (block_r w tid reason now)"
  "keeps (defer_r w tid until reason now)" "keeps (requeue_r w tid reason now)"
  unfolding complete_r_def skip_r_def block_r_def defer_r_def requeue_r_def
  by (rule keeps_move; rule complete_task_def skip_task_def block_task_def defer_task_def requeue_task_def)+

lemma keeps_claim_request: "keeps (brain_r w (\<lambda>o1 o2. claim_next_task o1 o2 k))"
  by (rule keeps_brain) (metis brain_step.simps(2))

lemma keeps_claim [intro!, simp]: "keeps (claim_r w types now)"
  by (simp add: claim_r_def keeps_claim_request)

lemma keeps_marks [intro!, simp]:
  "keeps (dispatched_r w mid jid now)" "keeps (ambiguous_r w mid now)" "keeps (commit_r w tid mid jid now)"
  unfolding dispatched_r_def ambiguous_r_def commit_r_def
  by (rule keeps_brain; metis brain_step.simps(10,12,13))+

lemma keeps_authorize [intro!, simp]: "keeps (authorize_r w mid now)"
  unfolding authorize_r_def by (rule keeps_brain) (simp add: case_prod_beta Let_def)

lemma keeps_prepare [intro!, simp]: "keeps (prepare_intent w r path text digest prio now)"
  unfolding prepare_intent_def checkpoint_r_def
  by (intro keeps_then keeps_bind keeps_option keeps_observe keeps_return keeps_raise keeps_brain)
     (metis brain_step.simps(9))

lemma keeps_table: "(\<And>b. \<exists>x. snd (opn b) = brain_step x b) \<Longrightarrow> keeps (table_r opn)"
  unfolding keeps_def table_r_def by (auto simp: case_prod_beta Let_def) (metis R_brain)

lemma keeps_tables [intro!, simp]:
  "keeps (table_r (upsert_intake_event e prio now))"
  "keeps (table_r (\<lambda>b. ((), mark_event_consumed eid b)))"
  "keeps (table_r (\<lambda>b. ((), upsert_unique_candidate u now b)))"
  "keeps (table_r (reset_claim_budget key))"
  by (rule keeps_table, metis brain_step.simps(3,18,19,20) snd_conv)+

lemma keeps_enqueue [intro!, simp]: "keeps (enqueue_r q now)"
  unfolding keeps_def enqueue_r_def
  by (auto simp: case_prod_beta Let_def) (metis R_brain brain_step.simps(1))

lemma renew_is_step:
  "snd (snd (renew_task_claim o1 o2 now tid secs c b)) = b \<or>
   (\<exists>x. snd (snd (renew_task_claim o1 o2 now tid secs c b)) = brain_step x b)"
proof (cases "c_claims c tid")
  case (Some fence)
  then have "snd (snd (renew_task_claim o1 o2 now tid secs c b)) = brain_step (Op_Renew o1 o2 now tid fence secs c) b"
    by (simp add: renew_task_claim_def)
  then show ?thesis by blast
qed (simp add: renew_task_claim_def)

lemma keeps_renew [intro!, simp]: "keeps (brain_r w (\<lambda>o1 o2. renew_task_claim o1 o2 now tid secs))"
  by (rule keeps_brain) (rule renew_is_step)

lemma keeps_finish [intro!, simp]: "keeps (finish_r w r mid jid status label now)"
proof -
  have parked: "keeps (brain_r w (\<lambda>o1 o2. finish_materialized_task o1 o2 (Some now) (t_id r) mid jid status label label))"
    by (rule keeps_brain) (metis brain_step.simps(11))
  have moved: "keeps (brain_r w (\<lambda>o1 o2. complete_task o1 o2 (Some now) (t_id r) label label (Some jid) reason))" for reason
    by (rule keeps_move; rule complete_task_def)
  have lost: "keeps (brain_r w (\<lambda>o1 o2. fail_task o1 o2 (Some now) (t_id r) reason))" for reason
    by (rule keeps_move; rule fail_task_def)
  show ?thesis
    unfolding finish_r_def using parked moved lost by (cases "parked r"; cases "status = ''completed''") simp_all
qed

text \<open>The compute queue and the spec files.\<close>

lemma keeps_ensure [intro!, simp]: "keeps (ensure_r w path prio mid digest)"
proof (rule keepsI)
  fix f :: farm
  let ?op = "Op_Ensure_Queued (\<lambda>p. map_option (w_sha w) (f_files f p)) (w_stamp w (f_tick f)) path prio mid digest"
  have "R f (f\<lparr>f_queue := queue_step ?op (f_queue f)\<rparr>)" by (rule R_queue)
  then show "R f (snd (ensure_r w path prio mid digest f))"
    using R_tick by (auto simp: ensure_r_def case_prod_beta Let_def intro: R_trans)
qed

lemma keeps_worker [intro!, simp]: "keeps (worker_once w)"
proof (rule keepsI)
  fix f :: farm
  obtain outcome q where run: "w_worker w (f_tick f) (f_queue f) = (outcome, q)"
    by (cases "w_worker w (f_tick f) (f_queue f)")
  have moved: "R f (f\<lparr>f_queue := q\<rparr>)" using R_worker[where f = f and n = "f_tick f"] by (simp add: run)
  have "R (f\<lparr>f_queue := q\<rparr>) (f\<lparr>f_queue := q, f_tick := n, f_errors := e\<rparr>)" for e n
    using R_local[where f = "f\<lparr>f_queue := q\<rparr>" and c = "f_conn f" and k = "f_count f" and e = e and n = n] by (cases f) simp
  from R_trans[OF moved this] R_trans[OF moved R_tick[where f = "f\<lparr>f_queue := q\<rparr>"]]
  show "R f (snd (worker_once w f))"
    by (cases outcome) (auto simp: worker_once_def run)
qed

lemma keeps_write_new:
  assumes "\<And>old. keeps (a old)" and "keeps k"
  shows "keeps (bind_r (read_r (\<lambda>f. f_files f p)) (\<lambda>x. case x of None \<Rightarrow> then_r (write_file_r p t) k | Some old \<Rightarrow> a old))"
proof (rule keepsI)
  fix f :: farm
  show "R f (snd (bind_r (read_r (\<lambda>f. f_files f p)) (\<lambda>x. case x of None \<Rightarrow> then_r (write_file_r p t) k | Some old \<Rightarrow> a old) f))"
  proof (cases "f_files f p")
    case None
    then have "R f (f\<lparr>f_files := (f_files f)(p \<mapsto> t)\<rparr>)" by (rule R_file)
    moreover have "R (f\<lparr>f_files := (f_files f)(p \<mapsto> t)\<rparr>) (snd (k (f\<lparr>f_files := (f_files f)(p \<mapsto> t)\<rparr>)))"
      using assms(2) by (rule keepsD)
    ultimately show ?thesis
      using None by (auto simp: bind_r_def read_r_def then_r_def write_file_r_def intro: R_trans)
  next
    case (Some old)
    then show ?thesis using keepsD[OF assms(1)] by (simp add: bind_r_def read_r_def)
  qed
qed

section \<open>Every routine keeps the relation\<close>

lemma keeps_checkpoint [intro!, simp]: "keeps (checkpoint_r w)"
  unfolding checkpoint_r_def by (intro keeps_bind keeps_option keeps_observe keeps_return keeps_raise)

lemma keeps_bump_created [intro!, simp]: "keeps (bump_created key created)"
  unfolding bump_created_def by (intro keeps_then keeps_bump)

lemma keeps_plan_symbol [intro!, simp]: "keeps (plan_symbol_r w sy asset families now)"
  unfolding plan_symbol_r_def by (intro keeps_bind keeps_observe keeps_lift)

lemma keeps_create [intro!, simp]: "keeps (create_from_decision dec ev families gate now)"
  unfolding create_from_decision_def create_run_sweep_def create_blocked_sweep_def Let_def
  by (intro keeps_if keeps_bind keeps_prod keeps_then keeps_when keeps_enqueue keeps_bump_created keeps_bump keeps_return)

lemma keeps_plan_events [intro!, simp]: "keeps (plan_events w families gate now evs)"
  unfolding plan_events_def plan_event_r_def
  by (intro keeps_bind keeps_then keeps_each keeps_create keeps_plan_symbol keeps_tables keeps_bump keeps_read)

lemma keeps_unblock [intro!, simp]: "keeps (unblock w now)"
  unfolding unblock_def unblock_task_def
  by (intro keeps_bind keeps_then keeps_each keeps_when keeps_moves keeps_bump keeps_read keeps_observe keeps_lift)

lemma keeps_park [intro!, simp]: "keeps (park_terminal_prepare_provider_errors w now)"
  unfolding park_terminal_prepare_provider_errors_def park_provider_error_def Let_def
  by (intro keeps_bind keeps_if keeps_then keeps_each keeps_when keeps_moves keeps_bump keeps_read keeps_observe keeps_return)

lemma keeps_replan [intro!, simp]: "keeps (replan_after_prepare w gate now r)"
  unfolding replan_after_prepare_def Let_def
  by (intro keeps_bind keeps_each keeps_when keeps_create keeps_lift keeps_plan_symbol)

lemma keeps_pivot [intro!, simp]: "keeps (decide_pivot w snapshot families gate now n worked)"
  unfolding decide_pivot_def
  by (intro keeps_bind keeps_if keeps_then keeps_each keeps_plan_events keeps_tables keeps_read keeps_observe keeps_return)

lemma keeps_defer_and_count [intro!, simp]: "keeps (defer_and_count w r until reason key now)"
  unfolding defer_and_count_def by (intro keeps_then keeps_moves keeps_bump)

lemma keeps_drain [intro!]: "(\<And>r. keeps (body r)) \<Longrightarrow> keeps (drain_r w types now limit body)"
  unfolding drain_r_def by (intro keeps_times keeps_bind keeps_claim keeps_option keeps_return keeps_then)

lemma keeps_drain_prepare [intro!, simp]: "keeps (drain_prepare w gate limit now)"
  unfolding drain_prepare_def prepare_task_def
  by (intro keeps_drain keeps_if keeps_bind keeps_prod keeps_observe keeps_then keeps_moves keeps_bump keeps_replan
      keeps_defer_and_count)

lemma keeps_drain_enrich [intro!, simp]: "keeps (drain_enrich w limit now)"
  unfolding drain_enrich_def enrich_task_def
  by (intro keeps_drain keeps_if keeps_bind keeps_observe keeps_then keeps_moves keeps_bump keeps_defer_and_count)

lemma keeps_drain_enrich_oi [intro!, simp]: "keeps (drain_enrich_oi w limit now)"
  unfolding drain_enrich_oi_def enrich_oi_task_def mark_oi_unmeasured_sweeps_def
  by (intro keeps_drain keeps_if keeps_bind keeps_each keeps_when keeps_read keeps_observe keeps_then keeps_moves
      keeps_bump keeps_defer_and_count)

lemma keeps_replay_publish [intro!, simp]: "keeps (replay_publish w now intent)"
  unfolding replay_publish_def
  by (intro keeps_bind keeps_attempt keeps_authorize keeps_if keeps_return keeps_ensure keeps_prod keeps_then keeps_marks)

lemma option_swap: "(case x of Some v \<Rightarrow> a v | None \<Rightarrow> b) = (case x of None \<Rightarrow> b | Some v \<Rightarrow> a v)"
  by (rule refl)

lemma keeps_replay_one [intro!, simp]: "keeps (replay_one w now p)"
  unfolding replay_one_def
  by (intro keeps_bind keeps_attempt keeps_authorize keeps_option keeps_return keeps_if keeps_then keeps_marks
      keeps_write_new keeps_replay_publish)

lemma keeps_replay [intro!, simp]: "keeps (replay_materialization_outbox w now)"
proof -
  have "keeps (replay_each w now ps)" for ps
    by (induction ps) (auto intro!: keeps_bind)
  then show ?thesis unfolding replay_materialization_outbox_def by (intro keeps_bind keeps_read)
qed

lemma then_return: "then_r m (return_r ()) = m"
  by (auto simp: then_r_def bind_r_def return_r_def fun_eq_iff split: prod.split sum.split)

lemma keeps_write_spec [intro!, simp]: "keeps (write_immutable_spec path text)"
  unfolding write_immutable_spec_def
  using keeps_write_new[of "\<lambda>old. if old \<noteq> text then raise_r (ValueError ''immutable experiment spec collision'') else return_r ()"
      "return_r ()" path "text"]
  by (simp add: then_return keeps_if)

lemma keeps_queue_sweep [intro!, simp]: "keeps (queue_sweep w r fp prio now)"
  unfolding queue_sweep_def
  by (intro keeps_bind keeps_observe keeps_lift keeps_prod keeps_then keeps_prepare keeps_checkpoint keeps_write_spec keeps_ensure)

lemma keeps_sweep_task [intro!, simp]: "keeps (sweep_task w base now r)"
  unfolding sweep_task_def bind_sweep_def Let_def
  by (intro keeps_then keeps_bind keeps_observe keeps_option keeps_if keeps_return keeps_raise keeps_checkpoint
      keeps_defer_and_count keeps_queue_sweep keeps_prod keeps_marks keeps_bump)

lemma keeps_drain_run_sweep [intro!, simp]: "keeps (drain_run_sweep w base limit now)"
  unfolding drain_run_sweep_def
  by (intro keeps_bind keeps_then keeps_when keeps_replay keeps_bump keeps_drain keeps_sweep_task)

lemma keeps_lost [intro!, simp]: "keeps (lost_r r msg)"
  unfolding lost_r_def by (intro keeps_if keeps_raise keeps_return)

lemma keeps_sync_task [intro!, simp]: "keeps (sync_task w now r)"
  unfolding sync_task_def sync_bound_def sync_terminal_def sync_renew_def Let_def
  by (intro keeps_if keeps_lost keeps_bind keeps_read keeps_option keeps_attempt keeps_finish keeps_enqueue keeps_bump
      keeps_return keeps_renew)

lemma keeps_sync [intro!, simp]: "keeps (sync_completions w now)"
  unfolding sync_completions_def by (intro keeps_bind keeps_read keeps_each keeps_sync_task)

lemma keeps_backlog [intro!, simp]: "keeps (backlog_r w now)"
  unfolding backlog_r_def by (rule keeps_brain) (simp add: case_prod_beta Let_def)

lemma keeps_count_backlog [intro!, simp]: "keeps (count_backlog m)"
  unfolding count_backlog_def by (intro keeps_then keeps_set_count)

lemma keeps_claim_classify [intro!, simp]: "keeps (claim_classify w high now)"
  unfolding claim_classify_def
  by (intro keeps_bind keeps_then keeps_if keeps_option keeps_backlog keeps_count_backlog keeps_set_count keeps_claim_request
      keeps_claim keeps_tables keeps_read keeps_return)

lemma keeps_classify_task [intro!, simp]: "keeps (classify_task w now r)"
  unfolding classify_task_def store_candidate_def
  by (intro keeps_bind keeps_then keeps_each keeps_if keeps_prod keeps_when keeps_lift keeps_observe keeps_tables keeps_bump
      keeps_enqueue keeps_moves keeps_return)

lemma keeps_classify_due [intro!, simp]: "keeps (classify_due w high limit now)"
  unfolding classify_due_def
  by (intro keeps_then keeps_times keeps_bind keeps_option keeps_claim_classify keeps_classify_task keeps_return
      keeps_backlog keeps_count_backlog)

lemma keeps_apply_work [intro!, simp]: "keeps (apply_work w cf gate now)"
  unfolding apply_work_def drain_worker_def
  by (intro keeps_then keeps_when keeps_times keeps_drain_prepare keeps_drain_enrich keeps_drain_enrich_oi
      keeps_drain_run_sweep keeps_sync keeps_worker keeps_classify_due)

lemma keeps_ingest [intro!, simp]: "keeps (ingest_event now e)"
  unfolding ingest_event_def by (intro keeps_bind keeps_prod keeps_when keeps_tables keeps_bump)

lemma cycle_keeps: "R f (snd (run_coordinator_cycle w cf intake now f))"
proof -
  have "R f (f\<lparr>f_count := (\<lambda>_. 0), f_errors := 0\<rparr>)"
    using R_local[where f = f and c = "f_conn f" and k = "\<lambda>_. 0" and e = 0 and n = "f_tick f"] by simp
  then show ?thesis
    unfolding run_coordinator_cycle_def Let_def
    by (rule R_trans)
       (intro keepsD keeps_then keeps_each keeps_bind keeps_when keeps_ingest keeps_read keeps_plan_events keeps_unblock
         keeps_park keeps_apply_work keeps_pivot)
qed

end

section \<open>The two contracts of the cycle\<close>

text \<open>What the worker does to the queue is made of the operations of the queue.\<close>

definition honest_worker :: "world \<Rightarrow> bool" where
  "honest_worker w \<longleftrightarrow> (\<forall>n q. \<exists>ops. snd (w_worker w n q) = run_ops queue_step ops q)"

definition farm_reaches :: "world \<Rightarrow> farm \<Rightarrow> farm \<Rightarrow> bool" where
  "farm_reaches w f g \<longleftrightarrow>
     (honest_worker w \<longrightarrow>
        (\<exists>ops. f_brain g = run_ops brain_step ops (f_brain f)) \<and> (\<exists>ops. f_queue g = run_ops queue_step ops (f_queue f)))"

definition files_kept :: "farm \<Rightarrow> farm \<Rightarrow> bool" where
  "files_kept f g \<longleftrightarrow> (\<forall>p t. f_files f p = Some t \<longrightarrow> f_files g p = Some t)"

lemma run_one: "step x s = run_ops step [x] s"
  by simp

interpretation steps: farm_relation "farm_reaches w" w for w
proof unfold_locales
  show "farm_reaches w f f" for f
    by (auto simp: farm_reaches_def intro: exI[of _ "[]"])
  show "farm_reaches w f h" if fg: "farm_reaches w f g" and gh: "farm_reaches w g h" for f g h
    using fg gh unfolding farm_reaches_def by (metis run_ops_append)
  show "farm_reaches w f (f\<lparr>f_conn := c, f_count := k, f_errors := e, f_tick := n\<rparr>)" for f c k e n
    by (auto simp: farm_reaches_def intro: exI[of _ "[]"])
  show "farm_reaches w f (f\<lparr>f_brain := brain_step x (f_brain f)\<rparr>)" for f x
    by (auto simp: farm_reaches_def intro: exI[of _ "[]"] exI[of _ "[x]"])
  show "farm_reaches w f (f\<lparr>f_queue := queue_step y (f_queue f)\<rparr>)" for f y
    by (auto simp: farm_reaches_def intro: exI[of _ "[]"] exI[of _ "[y]"])
  show "farm_reaches w f (f\<lparr>f_queue := snd (w_worker w n (f_queue f))\<rparr>)" for f n
    by (auto simp: farm_reaches_def honest_worker_def intro: exI[of _ "[]"])
  show "farm_reaches w f (f\<lparr>f_files := (f_files f)(p \<mapsto> t)\<rparr>)" for f p t
    by (auto simp: farm_reaches_def intro: exI[of _ "[]"])
qed

interpretation specs: farm_relation files_kept w for w
  by unfold_locales (auto simp: files_kept_def)

end
