(* ===== verification/Coordinator_Claims.thy ===== *)
theory Coordinator_Claims
  imports Coordinator_Safety Enqueue_Claims Materialization_Safety
begin

text \<open>
  The properties of the coordinator: what a cycle may do to the stores, the replay of interrupted
  materializations, and the synchronisation of parked tasks with their jobs.
\<close>

section \<open>The cycle and the stores\<close>

text \<open>C10 The coordinator refines the interfaces of its stores: whatever it is given and however the cycle
  ends, an exception included, the task brain has moved by a sequence of its own operations and the
  compute queue by a sequence of its own, provided the worker's changes are made of queue operations.\<close>

theorem cycle_refines_interfaces:
  assumes "honest_worker w"
  shows "(\<exists>ops. f_brain (snd (run_coordinator_cycle w cf intake now f)) = run_ops brain_step ops (f_brain f)) \<and>
    (\<exists>ops. f_queue (snd (run_coordinator_cycle w cf intake now f)) = run_ops queue_step ops (f_queue f))"
  using steps.cycle_keeps[of w f cf intake now] assms by (simp add: farm_reaches_def)

text \<open>C12 A spec file that exists keeps its content through every cycle: the coordinator publishes a spec
  only where there is no file, whatever the intents in the outbox say.\<close>

theorem published_specs_never_change:
  assumes "f_files f p = Some t"
  shows "f_files (snd (run_coordinator_cycle w cf intake now f)) p = Some t"
  using specs.cycle_keeps[of f w cf intake now] assms by (simp add: files_kept_def)

text \<open>A cycle whose worker changes the queue by its operations only keeps every invariant of the stores: the rows
  and the audit log of the brain, the outbox, the keys of events and candidates, and the queue with its attempts
  and bindings.\<close>

theorem cycle_keeps_invariants:
  assumes "honest_worker w" and "brain_ok (f_brain f)" and "outbox_ok (f_brain f)" and "keys_ok (f_brain f)"
    and "queue_ok (f_queue f)"
  shows "brain_ok (f_brain (snd (run_coordinator_cycle w cf intake now f))) \<and>
    outbox_ok (f_brain (snd (run_coordinator_cycle w cf intake now f))) \<and>
    keys_ok (f_brain (snd (run_coordinator_cycle w cf intake now f))) \<and>
    queue_ok (f_queue (snd (run_coordinator_cycle w cf intake now f)))"
proof -
  obtain ops qops where "f_brain (snd (run_coordinator_cycle w cf intake now f)) = run_ops brain_step ops (f_brain f)"
    and "f_queue (snd (run_coordinator_cycle w cf intake now f)) = run_ops queue_step qops (f_queue f)"
    using steps.cycle_keeps[of w f cf intake now] assms(1) by (auto simp: farm_reaches_def)
  then show ?thesis
    using assms(2-5) by (simp add: brain_table.inv_run outbox.inv_run keys.inv_run queue_table.inv_run)
qed

section \<open>Reading a routine backwards\<close>

lemma bind_r_Inr: "bind_r m k f = (Inr v, f2) \<longleftrightarrow> (\<exists>x f1. m f = (Inr x, f1) \<and> k x f1 = (Inr v, f2))"
  by (auto simp: bind_r_def split: prod.splits sum.splits)

lemma then_r_Inr: "then_r m k f = (Inr v, f2) \<longleftrightarrow> (\<exists>x f1. m f = (Inr x, f1) \<and> k f1 = (Inr v, f2))"
  by (simp add: then_r_def bind_r_Inr)

lemma return_r_Inr [simp]: "return_r x f = (r, f2) \<longleftrightarrow> r = Inr x \<and> f2 = f"
  and read_r_Inr [simp]: "read_r g f = (r, f2) \<longleftrightarrow> r = Inr (g f) \<and> f2 = f"
  and raise_r_Inr [simp]: "raise_r e f = (r, f2) \<longleftrightarrow> r = Inl e \<and> f2 = f"
  and write_file_r_Inr [simp]: "write_file_r p t f = (r', f2) \<longleftrightarrow> r' = Inr () \<and> f2 = f\<lparr>f_files := (f_files f)(p \<mapsto> t)\<rparr>"
  by (auto simp: return_r_def read_r_def raise_r_def write_file_r_def)

lemma attempt_r_Some: "attempt_r m f = (Inr (Some v), f2) \<longleftrightarrow> m f = (Inr v, f2)"
  by (auto simp: attempt_r_def catch_stale_def bind_r_def split: prod.splits sum.splits if_splits)

lemma brain_r_Inr:
  "brain_r w opn f = (r, f2) \<longleftrightarrow>
     (\<exists>c b. opn (w_clock w (f_tick f)) (w_clock w (f_tick f + 1)) (f_conn f) (f_brain f) = (r, c, b) \<and>
        f2 = f\<lparr>f_conn := c, f_brain := b, f_tick := f_tick f + 2\<rparr>)"
  by (auto simp: brain_r_def Let_def split: prod.splits)

lemmas routine_Inr = bind_r_Inr then_r_Inr attempt_r_Some brain_r_Inr

section \<open>Replaying an intent\<close>

lemma authorize_r_InrD:
  assumes "outbox_ok (f_brain f)" and "authorize_r w mid now f = (Inr i, f1)"
  shows "get_outbox mid (f_brain f) = Some i \<and> replayable (o_state i) \<and>
    (\<exists>c n. f1 = f\<lparr>f_conn := c, f_tick := n\<rparr> \<and> c_owner c = c_owner (f_conn f) \<and> c_claims c = c_claims (f_conn f))"
proof -
  obtain t c1 where e: "effective_now (w_clock w (f_tick f)) (Some now) (f_conn f) = (t, c1)"
    by (cases "effective_now (w_clock w (f_tick f)) (Some now) (f_conn f)")
  have auth: "materialization_authority mid t c1 (f_brain f) = None"
    and found: "find (\<lambda>o'. o_id o' = mid \<and> replayable (o_state o')) (outbox (f_brain f)) = Some i"
    and f1: "f1 = f\<lparr>f_conn := c1, f_brain := f_brain f, f_tick := f_tick f + 2\<rparr>"
    using assms(2) by (auto simp: authorize_r_def brain_r_def authorize_materialization_replay_def e split: option.splits)
  have "get_outbox mid (f_brain f) = Some i" "replayable (o_state i)"
    using find_SomeD[OF found] get_outbox_iff[OF assms(1)] by auto
  moreover have "f1 = f\<lparr>f_conn := c1, f_tick := f_tick f + 2\<rparr>" by (simp add: f1)
  ultimately show ?thesis using effective_now_keeps(1,3)[OF e] by blast
qed

lemma mark_dispatched_InrD:
  assumes "outbox_ok b" and "get_outbox mid b = Some i"
    and "mark_materialization_dispatched o1 o2 (Some now) mid jid c b = (Inr (), c2, b2)"
  shows "c_owner c2 = c_owner c \<and> c_claims c2 = c_claims c \<and> tasks b2 = tasks b \<and>
    (\<exists>t. get_outbox mid b2 = Some (i\<lparr>o_state := Dispatched, o_job := Some jid, o_updated := t\<rparr>)) \<and>
    (\<exists>x. b2 = brain_step x b)"
proof -
  obtain t1 c1 where e1: "effective_now o1 (Some now) c = (t1, c1)" by (cases "effective_now o1 (Some now) c")
  obtain t c3 where e2: "effective_now o2 (Some t1) c1 = (t, c3)" by (cases "effective_now o2 (Some t1) c1")
  let ?p = "\<lambda>o'. o_id o' = mid \<and> replayable (o_state o')
              \<and> list_ex (\<lambda>r. claim_row c3 (o_task o') (o_fence o') r \<and> expires_after t r) (tasks b)"
  let ?f = "\<lambda>o'. o'\<lparr>o_state := Dispatched, o_job := Some jid, o_updated := t\<rparr>"
  have one: "rowcount ?p (outbox b) = 1" and c2: "c2 = c3" and b2: "b2 = b\<lparr>outbox := update_where ?p ?f (outbox b)\<rparr>"
    using assms(3) by (auto simp: mark_materialization_dispatched_def mark_materialization_def e1 e2 Let_def
        split: option.splits if_splits)
  obtain x where x: "x \<in> set (outbox b)" "?p x" using rowcount_1_ex[OF one] by blast
  then have [simp]: "x = i" using get_outbox_iff[OF assms(1), of mid x] assms(2) by simp
  have "get_outbox mid b2 = Some (?f i)"
    unfolding b2 using update_outbox_get[OF assms(1,2), of ?p ?f mid b] x(2) by simp
  moreover have "\<exists>x. b2 = brain_step x b"
    by (rule exI[of _ "Op_Dispatched o1 o2 (Some now) mid jid c"]) (simp add: assms(3))
  moreover have "tasks b2 = tasks b" by (simp add: b2)
  moreover have "c_owner c2 = c_owner c" "c_claims c2 = c_claims c"
    using effective_now_keeps(1,3)[OF e1] effective_now_keeps(1,3)[OF e2] c2 by simp_all
  ultimately show ?thesis by blast
qed

lemma dispatched_r_InrD:
  assumes "outbox_ok (f_brain f)" and "get_outbox mid (f_brain f) = Some i"
    and "dispatched_r w mid jid now f = (Inr (), f1)"
  obtains c b n t where "f1 = f\<lparr>f_conn := c, f_brain := b, f_tick := n\<rparr>"
    and "c_owner c = c_owner (f_conn f)" and "c_claims c = c_claims (f_conn f)"
    and "tasks b = tasks (f_brain f)"
    and "get_outbox mid b = Some (i\<lparr>o_state := Dispatched, o_job := Some jid, o_updated := t\<rparr>)"
    and "\<exists>x. b = brain_step x (f_brain f)"
proof -
  obtain c b where run: "mark_materialization_dispatched (w_clock w (f_tick f)) (w_clock w (f_tick f + 1)) (Some now) mid jid
        (f_conn f) (f_brain f) = (Inr (), c, b)"
    and f1: "f1 = f\<lparr>f_conn := c, f_brain := b, f_tick := f_tick f + 2\<rparr>"
    using assms(3) by (auto simp: dispatched_r_def brain_r_Inr)
  note D = mark_dispatched_InrD[OF assms(1,2) run]
  then obtain t where "get_outbox mid b = Some (i\<lparr>o_state := Dispatched, o_job := Some jid, o_updated := t\<rparr>)" by blast
  then show ?thesis using that[OF f1] D by blast
qed

text \<open>The state a delivered intent leaves: the job of the spec bound to the intent, the intent acknowledged
  and the task parked on the job, with no other task changed.\<close>

definition delivered :: "outbox_row \<Rightarrow> farm \<Rightarrow> farm \<Rightarrow> bool" where
  "delivered i f g \<longleftrightarrow>
     f_files g (o_path i) = Some (o_spec i) \<and>
     (\<exists>jid r m x t.
        get_job jid (f_queue g) = Some r \<and> j_spec r = o_path i \<and> str_or (j_digest r) = o_digest i \<and>
        m \<in> set (bindings (f_queue g)) \<and> qm_id m = o_id i \<and> qm_job m = jid \<and> qm_digest m = o_digest i \<and>
        get_outbox (o_id i) (f_brain g) = Some (acknowledge_outbox jid t (i\<lparr>o_state := Dispatched, o_job := Some jid\<rparr>)) \<and>
        get_task (o_task i) (f_brain f) = Some x \<and> t_state x = Running \<and> t_owner x = Some (c_owner (f_conn f)) \<and>
        t_fence x = o_fence i \<and>
        (\<forall>k. get_task k (f_brain g) =
           (if k = o_task i then Some (park_task jid t (t_seq x + 1) x) else get_task k (f_brain f))))"

lemma replay_publish_delivers:
  assumes ok: "brain_ok (f_brain f)" "outbox_ok (f_brain f)" "queue_ok (f_queue f)"
    and i: "get_outbox (o_id i) (f_brain f) = Some i" "o_id i \<noteq> []"
    and spec: "f_files f (o_path i) = Some (o_spec i)"
    and run: "replay_publish w now i f = (Inr True, g)"
  shows "delivered i f g"
proof -
  obtain i1 f1 jid created f2 f3 where
      auth: "authorize_r w (o_id i) now f = (Inr i1, f1)"
    and ens: "ensure_r w (o_path i) (o_priority i) (Some (o_id i)) (Some (o_digest i)) f1 = (Inr (jid, created), f2)"
    and disp: "dispatched_r w (o_id i) jid now f2 = (Inr (), f3)"
    and com: "commit_r w (o_task i) (o_id i) jid now f3 = (Inr (), g)"
    using run by (auto simp: replay_publish_def routine_Inr split: if_splits)
  obtain c1 n1 where f1: "f1 = f\<lparr>f_conn := c1, f_tick := n1\<rparr>"
      and c1: "c_owner c1 = c_owner (f_conn f)" "c_claims c1 = c_claims (f_conn f)"
    using authorize_r_InrD[OF ok(2) auth] by blast
  obtain q where q: "ensure_experiment_queued (\<lambda>p. map_option (w_sha w) (f_files f p)) (w_stamp w n1) (o_path i) (o_priority i)
        (Some (o_id i)) (Some (o_digest i)) (f_queue f) = (Inr (jid, created), q)"
    and f2: "f2 = f\<lparr>f_conn := c1, f_queue := q, f_tick := n1 + 1\<rparr>"
    using ens by (auto simp: ensure_r_def f1 Let_def split: prod.splits)
  have queue: "\<exists>r m. get_job jid q = Some r \<and> j_spec r = o_path i \<and> str_or (j_digest r) = o_digest i \<and>
      m \<in> set (bindings q) \<and> qm_id m = o_id i \<and> qm_job m = jid \<and> qm_digest m = o_digest i"
    using ensure_binds[OF ok(3) _ q] i(2) by fastforce
  obtain c3 b3 n3 t3 where f3: "f3 = f2\<lparr>f_conn := c3, f_brain := b3, f_tick := n3\<rparr>"
      and c3: "c_owner c3 = c_owner (f_conn f2)" "c_claims c3 = c_claims (f_conn f2)"
      and b3: "tasks b3 = tasks (f_brain f2)"
        "get_outbox (o_id i) b3 = Some (i\<lparr>o_state := Dispatched, o_job := Some jid, o_updated := t3\<rparr>)"
      and step: "\<exists>x. b3 = brain_step x (f_brain f2)"
    by (rule dispatched_r_InrD[OF _ _ disp, of i]) (use ok(2) i(1) f2 in auto)
  have ok3: "brain_ok b3" "outbox_ok b3"
    using step brain_table.inv_step outbox.inv_step ok(1,2) f2 by auto
  obtain c4 b4 where com4: "commit_materialization (w_clock w (f_tick f3)) (w_clock w (f_tick f3 + 1)) (Some now) (o_task i)
        (o_id i) jid c3 b3 = (Inr (), c4, b4)"
    and g: "g = f3\<lparr>f_conn := c4, f_brain := b4, f_tick := f_tick f3 + 2\<rparr>"
    using com by (auto simp: commit_r_def brain_r_Inr f3)
  obtain t x i4 where X: "get_task (o_task i) b3 = Some x" "t_state x = Running" "holds_claim c3 t x"
      "get_outbox (o_id i) b3 = Some i4" "o_fence i4 = t_fence x"
      "\<forall>j. get_task j b4 = (if j = o_task i then Some (park_task jid t (t_seq x + 1) x) else get_task j b3)"
      "\<forall>m. get_outbox m b4 = (if m = o_id i then Some (acknowledge_outbox jid t i4) else get_outbox m b3)"
    using commit_exact[OF ok3 com4] by blast
  have tasks_same: "get_task k b3 = get_task k (f_brain f)" for k
    using b3(1) f2 by (simp add: get_task_def)
  have i4: "i4 = i\<lparr>o_state := Dispatched, o_job := Some jid, o_updated := t3\<rparr>" using X(4) b3(2) by simp
  have ack: "acknowledge_outbox jid t i4 = acknowledge_outbox jid t (i\<lparr>o_state := Dispatched, o_job := Some jid\<rparr>)"
    by (simp add: acknowledge_outbox_def i4)
  have "f_files g = f_files f" "f_queue g = q" "f_brain g = b4" by (simp_all add: g f3 f2)
  moreover have "t_owner x = Some (c_owner (f_conn f))"
    using X(3) c1 c3 f2 by (simp add: holds_claim_def)
  ultimately show ?thesis
    using queue spec X(1,2,5,6,7) tasks_same ack i4 unfolding delivered_def by fastforce
qed

text \<open>C13 The replay of an interrupted materialization is exact: when it counts an intent as delivered, the
  intent's text has the recorded digest and is what the spec file now holds, the compute queue has a job
  of that file with that digest bound to the intent, the intent is acknowledged with the job, and its task,
  which was still running at the intent's token under a claim of this very connection's owner, is parked
  on the job; no other task has changed.\<close>

theorem replay_delivers_exactly:
  assumes "brain_ok (f_brain f)" and "outbox_ok (f_brain f)" and "queue_ok (f_queue f)" and "o_id p \<noteq> []"
    and "replay_one w now p f = (Inr True, g)"
  shows "\<exists>i. get_outbox (o_id p) (f_brain f) = Some i \<and> replayable (o_state i) \<and> w_sha w (o_spec i) = o_digest i \<and>
    f_files f (o_path i) \<in> {None, Some (o_spec i)} \<and> delivered i f g"
proof -
  obtain found f1 where found: "attempt_r (authorize_r w (o_id p) now) f = (Inr found, f1)"
    and after: "(case found of
         None \<Rightarrow> return_r False
       | Some i \<Rightarrow>
           if w_sha w (o_spec i) \<noteq> o_digest i then then_r (ambiguous_r w (o_id i) now) (return_r False)
           else bind_r (read_r (\<lambda>f. f_files f (o_path i))) (\<lambda>existing.
             case existing of
               Some old \<Rightarrow> if old \<noteq> o_spec i then then_r (ambiguous_r w (o_id i) now) (return_r False)
                          else replay_publish w now i
             | None \<Rightarrow> then_r (write_file_r (o_path i) (o_spec i)) (replay_publish w now i))) f1 = (Inr True, g)"
    using assms(5) unfolding replay_one_def bind_r_Inr by blast
  obtain i where [simp]: "found = Some i" using after by (cases found) auto
  have auth: "authorize_r w (o_id p) now f = (Inr i, f1)" using found by (simp add: attempt_r_Some)
  have digest: "w_sha w (o_spec i) = o_digest i" using after by (auto simp: then_r_Inr split: if_splits)
  have rest: "(case f_files f1 (o_path i) of
               Some old \<Rightarrow> old = o_spec i \<and> replay_publish w now i f1 = (Inr True, g)
             | None \<Rightarrow> replay_publish w now i (f1\<lparr>f_files := (f_files f1)(o_path i \<mapsto> o_spec i)\<rparr>) = (Inr True, g))"
    using after digest by (auto simp: bind_r_Inr then_r_Inr split: option.splits if_splits)
  obtain c n where f1: "f1 = f\<lparr>f_conn := c, f_tick := n\<rparr>" "c_owner c = c_owner (f_conn f)"
    and got: "get_outbox (o_id p) (f_brain f) = Some i" "replayable (o_state i)"
    using authorize_r_InrD[OF assms(2) auth] by blast
  have id: "o_id i = o_id p" using got(1) get_outbox_iff[OF assms(2)] by simp
  define f2 where "f2 = f1\<lparr>f_files := (f_files f1)(o_path i \<mapsto> o_spec i)\<rparr>"
  have both: "f_files f (o_path i) \<in> {None, Some (o_spec i)} \<and> replay_publish w now i f2 = (Inr True, g)"
  proof (cases "f_files f (o_path i)")
    case (Some old)
    then have "f2 = f1" using rest by (auto simp: f2_def f1 fun_upd_idem)
    then show ?thesis using rest Some by (simp add: f1)
  next
    case None
    then show ?thesis using rest by (simp add: f2_def f1)
  qed
  then have known: "f_files f (o_path i) \<in> {None, Some (o_spec i)}" and run: "replay_publish w now i f2 = (Inr True, g)"
    by simp_all
  have "delivered i f2 g"
    by (rule replay_publish_delivers[OF _ _ _ _ _ _ run]) (use assms(1-4) got(1) id in \<open>simp_all add: f2_def f1\<close>)
  moreover have same: "f_brain f2 = f_brain f" "c_owner (f_conn f2) = c_owner (f_conn f)" by (simp_all add: f2_def f1)
  ultimately have "delivered i f g" unfolding delivered_def same by fast
  then show ?thesis using got digest known by blast
qed

lemma authority_stale: "materialization_authority mid t c b = Some e \<Longrightarrow> stale_claim_error e"
  by (auto simp: materialization_authority_def split: option.splits if_splits)

lemma attempt_authorize:
  obtains (lost) c n where "attempt_r (authorize_r w mid now) f = (Inr None, f\<lparr>f_conn := c, f_tick := n\<rparr>)"
  | (held) i f1 where "attempt_r (authorize_r w mid now) f = (Inr (Some i), f1)" and "authorize_r w mid now f = (Inr i, f1)"
proof -
  let ?o1 = "w_clock w (f_tick f)"
  obtain t c where e: "effective_now ?o1 (Some now) (f_conn f) = (t, c)" by (cases "effective_now ?o1 (Some now) (f_conn f)")
  consider (err) e where "materialization_authority mid t c (f_brain f) = Some e"
    | (gone) "materialization_authority mid t c (f_brain f) = None"
        "find (\<lambda>o'. o_id o' = mid \<and> replayable (o_state o')) (outbox (f_brain f)) = None"
    | (ok) i where "materialization_authority mid t c (f_brain f) = None"
        "find (\<lambda>o'. o_id o' = mid \<and> replayable (o_state o')) (outbox (f_brain f)) = Some i"
    by (cases "materialization_authority mid t c (f_brain f)";
        cases "find (\<lambda>o'. o_id o' = mid \<and> replayable (o_state o')) (outbox (f_brain f))") auto
  then show ?thesis
  proof cases
    case (err x)
    then have "authorize_r w mid now f = (Inl x, f\<lparr>f_conn := c, f_brain := f_brain f, f_tick := f_tick f + 2\<rparr>)"
      by (simp add: authorize_r_def brain_r_def authorize_materialization_replay_def e)
    then show ?thesis
      using authority_stale[OF err] lost[where c = c and n = "f_tick f + 2"]
      by (simp add: attempt_r_def catch_stale_def bind_r_def return_r_def)
  next
    case gone
    then have "authorize_r w mid now f = (Inl (StaleTaskClaim ''materialization intent is not replayable''),
        f\<lparr>f_conn := c, f_brain := f_brain f, f_tick := f_tick f + 2\<rparr>)"
      by (simp add: authorize_r_def brain_r_def authorize_materialization_replay_def e)
    then show ?thesis
      using lost[where c = c and n = "f_tick f + 2"] by (simp add: attempt_r_def catch_stale_def bind_r_def return_r_def)
  next
    case (ok i)
    then have "authorize_r w mid now f = (Inr i, f\<lparr>f_conn := c, f_brain := f_brain f, f_tick := f_tick f + 2\<rparr>)"
      by (simp add: authorize_r_def brain_r_def authorize_materialization_replay_def e)
    then show ?thesis using held by (simp add: attempt_r_Some)
  qed
qed

lemma ambiguous_r_frame:
  "f_queue (snd (ambiguous_r w mid now f)) = f_queue f" "f_files (snd (ambiguous_r w mid now f)) = f_files f"
  "tasks (f_brain (snd (ambiguous_r w mid now f))) = tasks (f_brain f)"
  by (auto simp: ambiguous_r_def brain_r_def mark_materialization_ambiguous_def mark_materialization_def Let_def
      split: prod.splits option.splits)

lemma held_authority:
  assumes "authorize_r w mid now f = (Inr i, f1)" and "outbox_ok (f_brain f)" and "c_owner (f_conn f) \<noteq> []"
  shows "task_holds (f_brain f) (o_task i) (c_owner (f_conn f)) (o_fence i)"
proof -
  let ?o1 = "w_clock w (f_tick f)"
  obtain t c where e: "effective_now ?o1 (Some now) (f_conn f) = (t, c)" by (cases "effective_now ?o1 (Some now) (f_conn f)")
  have "materialization_authority mid t c (f_brain f) = None"
    using assms(1) by (auto simp: authorize_r_def brain_r_def authorize_materialization_replay_def e split: option.splits)
  moreover have "get_outbox mid (f_brain f) = Some i" using authorize_r_InrD[OF assms(2,1)] by blast
  ultimately obtain r where r: "get_task (o_task i) (f_brain f) = Some r" "str_or (t_owner r) = c_owner (f_conn f)"
      "t_fence r = o_fence i"
    using effective_now_keeps(1)[OF e]
    by (auto simp: materialization_authority_def split: option.splits if_splits)
  moreover have "t_owner r = Some (c_owner (f_conn f))" using r(2) assms(3) by (cases "t_owner r") auto
  ultimately show ?thesis by (auto simp: task_holds_def)
qed

text \<open>C14 The replay fails closed: an intent whose task is not held by this owner at the intent's token, whose
  text does not have its digest, or whose spec file holds something else, is never delivered; neither the
  compute queue nor any file nor any task changes, whatever the replay returns or raises.\<close>

theorem replay_fails_closed:
  assumes "outbox_ok (f_brain f)" and "get_outbox (o_id p) (f_brain f) = Some i" and "c_owner (f_conn f) \<noteq> []"
    and "\<not> task_holds (f_brain f) (o_task i) (c_owner (f_conn f)) (o_fence i) \<or> w_sha w (o_spec i) \<noteq> o_digest i \<or>
      f_files f (o_path i) \<notin> {None, Some (o_spec i)}"
  shows "f_queue (snd (replay_one w now p f)) = f_queue f \<and> f_files (snd (replay_one w now p f)) = f_files f \<and>
    tasks (f_brain (snd (replay_one w now p f))) = tasks (f_brain f) \<and> fst (replay_one w now p f) \<noteq> Inr True"
proof (rule attempt_authorize[of w "o_id p" now f])
  fix c n assume "attempt_r (authorize_r w (o_id p) now) f = (Inr None, f\<lparr>f_conn := c, f_tick := n\<rparr>)"
  then show ?thesis by (simp add: replay_one_def bind_r_def return_r_def)
next
  fix i2 f1
  assume got: "attempt_r (authorize_r w (o_id p) now) f = (Inr (Some i2), f1)" "authorize_r w (o_id p) now f = (Inr i2, f1)"
  then obtain c n where f1: "f1 = f\<lparr>f_conn := c, f_tick := n\<rparr>" and [simp]: "i2 = i"
    using authorize_r_InrD[OF assms(1) got(2)] assms(2) by auto
  let ?amb = "then_r (ambiguous_r w (o_id i) now) (return_r False) f1"
  have "replay_one w now p f = ?amb"
    using assms(4) held_authority[OF got(2) assms(1,3)] got(1)
    by (auto simp: replay_one_def bind_r_def[of "attempt_r _"] bind_r_def[of "read_r _"] f1 read_r_def split: option.splits)
  moreover have "f_queue (snd ?amb) = f_queue f" "f_files (snd ?amb) = f_files f" "tasks (f_brain (snd ?amb)) = tasks (f_brain f)"
    "fst ?amb \<noteq> Inr True"
    using ambiguous_r_frame[of w "o_id i" now f1]
    by (auto simp: then_r_def bind_r_def return_r_def f1 split: prod.splits sum.splits)
  ultimately show ?thesis by simp
qed

section \<open>Synchronising parked tasks\<close>

text \<open>After a request there is a task with its key, and tasks that are not active are as they were.\<close>

lemma enqueue_leaves_key:
  assumes "brain_ok b" and "enqueue_task q now b = (res, b2)"
  shows "(\<exists>k c. get_task k b2 = Some c \<and> t_key c = q_key q \<and>
      (active (t_state c) \<or> t_state c = Completed \<or> t_state c = q_state q)) \<and>
    (\<forall>k x. get_task k b = Some x \<longrightarrow> \<not> active (t_state x) \<longrightarrow> get_task k b2 = Some x)"
  using enqueue_cases[OF assms]
proof (elim disjE)
  assume "\<exists>act. act \<in> set (tasks b) \<and> t_key act = q_key q \<and> active (t_state act) \<and> res = Inr (t_id act, False) \<and>
       (\<forall>j. get_task j b2 = (if j = t_id act \<and> q_priority q < t_priority act
          then Some (absorb_update q now act) else get_task j b))"
  then obtain act where act: "act \<in> set (tasks b)" "t_key act = q_key q" "active (t_state act)"
    and rows: "\<And>j. get_task j b2 = (if j = t_id act \<and> q_priority q < t_priority act
          then Some (absorb_update q now act) else get_task j b)" by blast
  have got: "get_task (t_id act) b = Some act" using get_task_iff[OF assms(1)] act(1) by simp
  show ?thesis
    using rows[of "t_id act"] got act(2,3) by (auto simp: rows intro!: exI[of _ "t_id act"])
next
  assume "\<exists>d. d \<in> set (tasks b) \<and> t_key d = q_key q \<and> t_state d = Completed \<and> now - t_updated d < q_ttl q \<and>
       res = Inr (t_id d, False) \<and> b2 = b"
  then show ?thesis using get_task_iff[OF assms(1)] by blast
next
  assume new: "(\<forall>r \<in> set (tasks b). t_key r = q_key q \<longrightarrow> \<not> active (t_state r) \<and>
          (t_state r = Completed \<longrightarrow> q_ttl q \<le> now - t_updated r)) \<and> res = Inr (next_task b, True) \<and>
       (\<forall>j. get_task j b2 = (if j = next_task b then Some (new_task q now\<lparr>t_id := next_task b\<rparr>) else get_task j b))"
  have "k < next_task b" if "get_task k b = Some x" for k x
    using get_task_mem[OF that] brain_okD(2)[OF assms(1)] by auto
  then show ?thesis using new by (fastforce simp: new_task_def intro!: exI[of _ "next_task b"])
qed

lemma finish_r_InrD:
  assumes "brain_ok (f_brain f)" and "parked r" and "finish_r w r mid jid status label now f = (Inr (), g)"
  shows "\<exists>c b n t x. g = f\<lparr>f_conn := c, f_brain := b, f_tick := n\<rparr> \<and> brain_ok b \<and>
    get_task (t_id r) (f_brain f) = Some x \<and> t_state x = Deferred \<and> t_owner x = None \<and>
    (\<forall>k. get_task k b = (if k = t_id r then Some (finish_update status t label label jid (t_seq x + 1) x)
                          else get_task k (f_brain f)))"
proof -
  obtain c b where run: "finish_materialized_task (w_clock w (f_tick f)) (w_clock w (f_tick f + 1)) (Some now) (t_id r) mid jid
        status label label (f_conn f) (f_brain f) = (Inr (), c, b)"
    and g: "g = f\<lparr>f_conn := c, f_brain := b, f_tick := f_tick f + 2\<rparr>"
    using assms(2,3) by (auto simp: finish_r_def brain_r_Inr)
  have "b = brain_step (Op_Finish (w_clock w (f_tick f)) (w_clock w (f_tick f + 1)) (Some now) (t_id r) mid jid status label
          label (f_conn f)) (f_brain f)" by (simp only: brain_step.simps run snd_conv)
  then have "brain_ok b" using brain_table.inv_step[OF assms(1)] by (simp only:)
  moreover obtain t x i where "get_task (t_id r) (f_brain f) = Some x" "parked_for i jid x"
      "\<forall>j. get_task j b = (if j = t_id r then Some (finish_update status t label label jid (t_seq x + 1) x)
         else get_task j (f_brain f))"
    using finish_once[OF assms(1) run, of 0 0 None "[]" 0 "[]" None None "f_conn f"] by blast
  moreover from this(2) have "t_state x = Deferred" "t_owner x = None" by (simp_all add: parked_for_def)
  ultimately show ?thesis using g by blast
qed

text \<open>What a successful synchronisation has checked: the acknowledged intent of the task's token and job, the
  compute row bound to that intent, and the content of the spec file.\<close>

definition bound_exactly :: "world \<Rightarrow> farm \<Rightarrow> task \<Rightarrow> outbox_row \<Rightarrow> job \<Rightarrow> bool" where
  "bound_exactly w f r i row \<longleftrightarrow>
     int_or0 (t_job r) \<noteq> 0 \<and> acknowledged_intent (t_id r) (int_or0 (t_job r)) (f_brain f) = Some i \<and> o_fence i = t_fence r \<and>
     (\<exists>m spec. bound_compute_row (int_or0 (t_job r)) (o_id i) (f_queue f) = Some (m, row) \<and>
        qm_id m = o_id i \<and> qm_digest m = o_digest i \<and> str_or (j_digest row) = o_digest i \<and>
        f_files f (j_spec row) = Some spec \<and> w_sha w spec = o_digest i)"

lemma lost_parked: "parked r \<Longrightarrow> lost_r r msg f = (Inl (PriorityWorkerFatal msg), f)"
  by (simp add: lost_r_def raise_r_def)

lemma sync_task_parked:
  assumes "parked r"
  shows "(\<exists>i row. bound_exactly w f r i row \<and>
      sync_task w now r f = sync_terminal w now r (o_id i) (int_or0 (t_job r)) row f) \<or>
    ((\<forall>i row. \<not> bound_exactly w f r i row) \<and> (\<exists>msg. sync_task w now r f = (Inl (PriorityWorkerFatal msg), f)))"
proof (cases "int_or0 (t_job r) = 0")
  case True
  then show ?thesis using assms by (auto simp: sync_task_def Let_def lost_parked bound_exactly_def)
next
  case job: False
  let ?j = "int_or0 (t_job r)"
  show ?thesis
  proof (cases "acknowledged_intent (t_id r) ?j (f_brain f)")
    case None
    then show ?thesis
      using assms job by (auto simp: sync_task_def Let_def lost_parked bound_exactly_def bind_r_def read_r_def)
  next
    case (Some i)
    show ?thesis
    proof (cases "o_fence i = t_fence r \<and> bound_compute_row ?j (o_id i) (f_queue f) \<noteq> None")
      case False
      then show ?thesis
        using assms job Some
        by (cases "bound_compute_row ?j (o_id i) (f_queue f)")
           (auto simp: sync_task_def Let_def lost_parked bound_exactly_def bind_r_def read_r_def)
    next
      case True
      then obtain m row where row: "bound_compute_row ?j (o_id i) (f_queue f) = Some (m, row)" by auto
      have eq: "sync_task w now r f = sync_bound w now r ?j i (m, row) f"
        using job Some True row by (simp add: sync_task_def Let_def bind_r_def read_r_def)
      have renew: "sync_renew w now r = return_r True" using assms by (simp add: sync_renew_def parked_def)
      show ?thesis
        using assms job Some True row renew
        by (cases "f_files f (j_spec row)")
           (auto simp: eq sync_bound_def lost_parked bound_exactly_def bind_r_def read_r_def return_r_def)
    qed
  qed
qed

text \<open>C15 A parked sweep is finished only through its exact binding: when the synchronisation of a parked task
  returns, the acknowledged intent of its token names a job whose row, spec file and digests all agree;
  neither the queue nor a file changes; a completed job completes the task with the label of its run and
  leaves a classification task for the job, a failed job fails it, and a job still waiting changes
  nothing.  Any disagreement raises the fatal error and changes nothing.\<close>

theorem sync_parked_exact:
  assumes "brain_ok (f_brain f)" and "t_state r = Deferred" and "sync_task w now r f = (res, g)"
  shows "(res = Inr () \<longrightarrow> f_queue g = f_queue f \<and> f_files g = f_files f \<and>
      (\<exists>i row x. bound_exactly w f r i row \<and>
        (if j_status row = ''completed''
         then get_task (t_id r) (f_brain f) = Some x \<and> t_state x = Deferred \<and>
           (\<exists>t. get_task (t_id r) (f_brain g) = Some (finish_update ''completed'' t (j_run_dir row) (j_run_dir row)
               (int_or0 (t_job r)) (t_seq x + 1) x)) \<and>
           (\<exists>k c. get_task k (f_brain g) = Some c \<and> t_key c = ''classify::'' @ int_as_text (int_or0 (t_job r)) \<and>
              t_state c \<noteq> Failed \<and> t_state c \<noteq> Skipped)
         else if j_status row = ''failed''
         then get_task (t_id r) (f_brain f) = Some x \<and> t_state x = Deferred \<and>
           (\<exists>t. get_task (t_id r) (f_brain g) =
              Some (finish_update ''failed'' t None None (int_or0 (t_job r)) (t_seq x + 1) x))
         else j_status row \<in> {''queued'', ''running''} \<and> g = f))) \<and>
    ((\<forall>i row. \<not> bound_exactly w f r i row) \<longrightarrow> (\<exists>msg. res = Inl (PriorityWorkerFatal msg)) \<and> g = f)"
proof (intro conjI impI)
  have parked: "parked r" using assms(2) by (simp add: parked_def)
  show "\<exists>msg. res = Inl (PriorityWorkerFatal msg)" "g = f" if "\<forall>i row. \<not> bound_exactly w f r i row"
    using sync_task_parked[OF parked, of w f now] that assms(3) by auto
  assume "res = Inr ()"
  then obtain i row where bound: "bound_exactly w f r i row"
    and run: "sync_terminal w now r (o_id i) (int_or0 (t_job r)) row f = (Inr (), g)"
    using sync_task_parked[OF parked, of w f now] assms(3) by auto
  let ?j = "int_or0 (t_job r)"
  consider (finished) "j_status row = ''completed''" | (lost) "j_status row = ''failed''"
    | (wait) "j_status row \<noteq> ''completed''" "j_status row \<noteq> ''failed''" by blast
  then have "f_queue g = f_queue f \<and> f_files g = f_files f \<and> (\<exists>x.
        (if j_status row = ''completed''
         then get_task (t_id r) (f_brain f) = Some x \<and> t_state x = Deferred \<and>
           (\<exists>t. get_task (t_id r) (f_brain g) = Some (finish_update ''completed'' t (j_run_dir row) (j_run_dir row)
               ?j (t_seq x + 1) x)) \<and>
           (\<exists>k c. get_task k (f_brain g) = Some c \<and> t_key c = ''classify::'' @ int_as_text ?j \<and>
              t_state c \<noteq> Failed \<and> t_state c \<noteq> Skipped)
         else if j_status row = ''failed''
         then get_task (t_id r) (f_brain f) = Some x \<and> t_state x = Deferred \<and>
           (\<exists>t. get_task (t_id r) (f_brain g) = Some (finish_update ''failed'' t None None ?j (t_seq x + 1) x))
         else j_status row \<in> {''queued'', ''running''} \<and> g = f))"
  proof cases
    case finished
    then obtain f1 where fin: "finish_r w r (o_id i) ?j ''completed'' (j_run_dir row) now f = (Inr (), f1)"
      and enq: "bind_r (enqueue_r (classify_request r ?j (j_run_dir row)) now) (\<lambda>_. bump_r ''runs_completed'' 1) f1 = (Inr (), g)"
      using run parked by (auto simp: sync_terminal_def bind_r_Inr attempt_r_Some lost_parked split: if_splits)
    obtain c b n t x where F: "f1 = f\<lparr>f_conn := c, f_brain := b, f_tick := n\<rparr>" "brain_ok b"
        "get_task (t_id r) (f_brain f) = Some x" "t_state x = Deferred"
        "\<forall>k. get_task k b = (if k = t_id r
           then Some (finish_update ''completed'' t (j_run_dir row) (j_run_dir row) ?j (t_seq x + 1) x)
           else get_task k (f_brain f))"
      using finish_r_InrD[OF assms(1) parked fin] by blast
    obtain res2 b2 where e: "enqueue_task (classify_request r ?j (j_run_dir row)) now b = (res2, b2)"
      and g: "f_brain g = b2" "f_queue g = f_queue f" "f_files g = f_files f"
      using enq by (auto simp: bind_r_Inr enqueue_r_def bump_r_def F(1) Let_def split: prod.splits)
    note K = enqueue_leaves_key[OF F(2) e]
    have "get_task (t_id r) b2 = Some (finish_update ''completed'' t (j_run_dir row) (j_run_dir row) ?j (t_seq x + 1) x)"
      using K F(5) by auto
    moreover obtain k c where "get_task k b2 = Some c" "t_key c = ''classify::'' @ int_as_text ?j"
        "active (t_state c) \<or> t_state c = Completed"
      using K by (auto simp: classify_request_def task_request_of_def)
    moreover from this(3) have "t_state c \<noteq> Failed \<and> t_state c \<noteq> Skipped" by auto
    ultimately show ?thesis unfolding if_P[OF finished] g using F(3,4) by blast
  next
    case lost
    then obtain f1 where fin: "finish_r w r (o_id i) ?j ''failed'' None now f = (Inr (), f1)"
      and g: "g = f1\<lparr>f_count := f_count g\<rparr>"
      using run parked by (auto simp: sync_terminal_def bind_r_Inr attempt_r_Some lost_parked bump_r_def split: if_splits)
    from finish_r_InrD[OF assms(1) parked fin] show ?thesis using lost g by (cases g) auto
  next
    case wait
    then show ?thesis using run parked by (auto simp: sync_terminal_def lost_parked split: if_splits)
  qed
  then show "f_queue g = f_queue f" "f_files g = f_files f"
    "\<exists>i row x. bound_exactly w f r i row \<and>
        (if j_status row = ''completed''
         then get_task (t_id r) (f_brain f) = Some x \<and> t_state x = Deferred \<and>
           (\<exists>t. get_task (t_id r) (f_brain g) = Some (finish_update ''completed'' t (j_run_dir row) (j_run_dir row)
               ?j (t_seq x + 1) x)) \<and>
           (\<exists>k c. get_task k (f_brain g) = Some c \<and> t_key c = ''classify::'' @ int_as_text ?j \<and>
              t_state c \<noteq> Failed \<and> t_state c \<noteq> Skipped)
         else if j_status row = ''failed''
         then get_task (t_id r) (f_brain f) = Some x \<and> t_state x = Deferred \<and>
           (\<exists>t. get_task (t_id r) (f_brain g) = Some (finish_update ''failed'' t None None ?j (t_seq x + 1) x))
         else j_status row \<in> {''queued'', ''running''} \<and> g = f)"
    using bound by blast+
qed

end
