(* ===== verification/Coordinator_Witnesses.thy ===== *)
theory Coordinator_Witnesses
  imports Coordinator_Claims
begin

text \<open>Concrete farms on which the hypotheses of the coordinator's properties hold.\<close>

definition demo_world :: world where
  "demo_world = \<lparr>w_clock = (\<lambda>_. 130), w_stamp = (\<lambda>_. ''t''), w_sha = (\<lambda>_. ''d''), w_rep = (\<lambda>_. []), w_int_text = (\<lambda>_. None),
     w_float_text = (\<lambda>_. None), w_hash = (\<lambda>_. []), w_timeframes_for = (\<lambda>_. []), w_min_rows = (\<lambda>_. 0),
     w_probe = (\<lambda>_ _ _. \<lparr>dp_status = [], dp_rows = 0, dp_enrichment = [], dp_fingerprint = None\<rparr>), w_universe = (\<lambda>_. []),
     w_has_provider = False, w_has_flow = False, w_has_oi = False, w_prepare = (\<lambda>_ _. ([], 0)),
     w_candle_file = (\<lambda>_ _. False), w_funding = (\<lambda>_ _. False), w_oi = (\<lambda>_ _. []), w_candles = (\<lambda>_ _. None),
     w_guard = (\<lambda>_. None), w_spec_error = (\<lambda>_ _ _. None), w_snapshot = (\<lambda>_ _. False),
     w_compile = (\<lambda>_ _ _. Inl (ValueError [])), w_run_payload = (\<lambda>_ _. None), w_discovery = (\<lambda>_ _. []),
     w_worker = (\<lambda>_ q. (Worker_Status ''queue_empty'', q))\<rparr>"

definition demo_farm :: farm where
  "demo_farm = \<lparr>f_brain = demo_prepared, f_conn = demo_conn\<lparr>c_claims := [1 \<mapsto> 1]\<rparr>, f_queue = empty_queue demo_tables,
     f_files = Map.empty, f_count = (\<lambda>_. 0), f_errors = 0, f_tick = 0\<rparr>"

definition demo_cycle :: cycle_config where
  "demo_cycle = \<lparr>cf_families = default_families, cf_apply = True, cf_plan_events = 20, cf_prepares = 4, cf_enrich = 4,
     cf_sweeps = 4, cf_classify = 8, cf_run_worker = True, cf_worker_jobs = 4, cf_priority_base = 100, cf_snapshot = False,
     cf_high_water = 256, cf_memory = True\<rparr>"

lemma demo_worker_honest: "honest_worker demo_world"
  by (auto simp: honest_worker_def demo_world_def intro: exI[of _ "[]"])

lemma demo_farm_simps [simp]:
  "f_brain demo_farm = demo_prepared" "f_queue demo_farm = empty_queue demo_tables" "f_files demo_farm = Map.empty"
  "c_owner (f_conn demo_farm) = ''w1''"
  by (simp_all add: demo_farm_def demo_conn_def)

theorem cycle_refines_interfaces_witness:
  "\<exists>ops. f_brain (snd (run_coordinator_cycle demo_world demo_cycle [] 130 demo_farm)) = run_ops brain_step ops demo_prepared"
  using cycle_refines_interfaces[OF demo_worker_honest, of demo_cycle "[]" 130 demo_farm] by simp

theorem published_specs_never_change_witness:
  "f_files (snd (run_coordinator_cycle demo_world demo_cycle [] 130 (demo_farm\<lparr>f_files := [''p'' \<mapsto> ''other'']\<rparr>))) ''p'' = Some ''other''"
  by (rule published_specs_never_change) simp

theorem cycle_keeps_invariants_witness:
  "brain_ok (f_brain (snd (run_coordinator_cycle demo_world demo_cycle [] 130 demo_farm)))"
proof -
  have "keys_ok demo_prepared" by (simp add: keys_ok_def demo_prepared_def demo_running_def empty_brain_def)
  then show ?thesis
    using cycle_keeps_invariants[OF demo_worker_honest, of demo_farm demo_cycle "[]" 130] demo_outbox_ok(1,2)
    by (simp add: empty_queue_ok)
qed

lemma demo_replay: "fst (replay_one demo_world 130 demo_intent demo_farm) = Inr True"
  by (simp add: replay_one_def replay_publish_def attempt_r_def catch_stale_def bind_r_def then_r_def return_r_def read_r_def
      write_file_r_def authorize_r_def dispatched_r_def commit_r_def ensure_r_def brain_r_def demo_world_def demo_farm_def
      authorize_materialization_replay_def materialization_authority_def mark_materialization_dispatched_def
      mark_materialization_def commit_materialization_def demo_eval demo_outbox_defs demo_brain_defs
      empty_queue_def ensure_experiment_queued_def bound_job_def content_error_def
      reusable_job_def first_job_def insert_binding_def queue_simps get_outbox_def get_task_def record_transition_def)

theorem replay_delivers_exactly_witness:
  "\<exists>g. replay_one demo_world 130 demo_intent demo_farm = (Inr True, g) \<and> delivered demo_intent demo_farm g"
proof -
  obtain g where g: "replay_one demo_world 130 demo_intent demo_farm = (Inr True, g)"
    using demo_replay by (metis prod.collapse)
  have "o_id demo_intent \<noteq> []" and [simp]: "o_id demo_intent = ''m''" by (simp_all add: demo_intent_def)
  from replay_delivers_exactly[of demo_farm demo_intent demo_world 130 g] this(1) g demo_outbox_ok(1,2) demo_prepared_get(2)
  show ?thesis by (auto simp: empty_queue_ok)
qed

theorem replay_fails_closed_witness:
  "f_queue (snd (replay_one (demo_world\<lparr>w_sha := (\<lambda>_. ''x'')\<rparr>) 130 demo_intent demo_farm)) = empty_queue demo_tables"
proof -
  have "get_outbox (o_id demo_intent) (f_brain demo_farm) = Some demo_intent"
    using demo_prepared_get(2) by (simp add: demo_intent_def)
  from replay_fails_closed[OF _ this, of "demo_world\<lparr>w_sha := (\<lambda>_. ''x'')\<rparr>" 130] demo_outbox_ok(2)
  show ?thesis by (simp add: demo_intent_def)
qed

definition demo_parked_task :: task where
  "demo_parked_task = park_task 1 130 2 demo_running_task"

definition demo_synced :: farm where
  "demo_synced = demo_farm\<lparr>
     f_brain := demo_running\<lparr>tasks := [demo_parked_task], outbox := [acknowledge_outbox 1 130 demo_intent]\<rparr>,
     f_queue := (empty_queue demo_tables)\<lparr>
       jobs := [(new_job ''p'' ''completed'' 20 ''t'' (Some ''m'') (Some ''d''))\<lparr>j_id := 1, j_run_dir := Some ''runs/1''\<rparr>],
       bindings := [\<lparr>qm_id = ''m'', qm_job = 1, qm_spec = ''p'', qm_digest = ''d'', qm_created = ''t''\<rparr>]\<rparr>,
     f_files := [''p'' \<mapsto> ''s'']\<rparr>"

lemma demo_synced_ok: "brain_ok (f_brain demo_synced)"
  by (simp add: demo_synced_def demo_parked_task_def demo_outbox_defs demo_brain_defs brain_ok_def audit_ok_def
      unique_active_keys_def row_ok_def)

lemma demo_sync: "fst (sync_task demo_world 140 demo_parked_task demo_synced) = Inr ()"
  by (simp add: sync_task_def sync_bound_def sync_terminal_def sync_renew_def finish_r_def parked_def attempt_r_def
      catch_stale_def bind_r_def then_r_def return_r_def read_r_def enqueue_r_def bump_r_def brain_r_def lost_r_def
      acknowledged_intent_def bound_compute_row_def finish_materialized_task_def parked_for_def
      demo_synced_def demo_world_def demo_farm_def demo_parked_task_def demo_eval demo_outbox_defs demo_brain_defs
      empty_queue_def bound_job_def queue_simps get_outbox_def get_task_def record_transition_def
      enqueue_task_def active_task_for_def last_completed_for_def insert_task_def insert_guard_def new_task_def
      classify_request_def task_request_of_def)

theorem sync_parked_exact_witness:
  "\<exists>g k c. sync_task demo_world 140 demo_parked_task demo_synced = (Inr (), g) \<and>
     get_task k (f_brain g) = Some c \<and> t_key c = ''classify::1''"
proof -
  obtain g where g: "sync_task demo_world 140 demo_parked_task demo_synced = (Inr (), g)"
    using demo_sync by (metis prod.collapse)
  have "t_state demo_parked_task = Deferred" and job: "int_or0 (t_job demo_parked_task) = 1"
    by (simp_all add: demo_parked_task_def park_task_def)
  from sync_parked_exact[OF demo_synced_ok this(1) g] obtain i row where
    "bound_exactly demo_world demo_synced demo_parked_task i row"
    and "j_status row = ''completed'' \<longrightarrow> (\<exists>k c. get_task k (f_brain g) = Some c \<and> t_key c = ''classify::'' @ int_as_text 1)"
    by (auto simp: job split: if_splits)
  moreover from this(1) have "j_status row = ''completed''"
    by (auto simp: bound_exactly_def bound_compute_row_def bound_job_def get_job_def demo_synced_def new_job_def empty_queue_def
        split: option.splits if_splits)
  moreover have "int_as_text 1 = ''1''" by code_simp
  ultimately show ?thesis using g by auto
qed

end
