(* ===== verification/Planning_Claims.thy ===== *)
theory Planning_Claims
  imports Coordinator
begin

text \<open>
  Properties of the planners: the strategy catalog, the data planner, the outcome memory and the
  lifecycle read model.
\<close>

section \<open>The catalog\<close>

lemma sequence_rows_Inr: "sequence_rows xs = Inr ys \<Longrightarrow> xs = map Inr ys"
  by (induction xs arbitrary: ys rule: sequence_rows.induct) (auto split: sum.splits)

lemma strategy_definitions_Inr: "strategy_definitions = Inr strategy_registry"
proof (cases strategy_definitions)
  case (Inl e)
  have False using strategy_definitions_load unfolding Inl sum.case .
  then show ?thesis ..
next
  case (Inr ds)
  show ?thesis unfolding strategy_registry_def Inr sum.case ..
qed

text \<open>A number or a truth value, what \<open>int(...)\<close> always converts.\<close>

definition numeric :: "json \<Rightarrow> bool" where
  "numeric v \<longleftrightarrow> (case v of JInt _ \<Rightarrow> True | JFloat _ \<Rightarrow> True | JBool _ \<Rightarrow> True | _ \<Rightarrow> False)"

definition known_entry :: "strategy \<Rightarrow> bool" where
  "known_entry d \<longleftrightarrow>
     strategy_wf d \<and> set (st_required d) \<subseteq> {''oi'', ''funding'', ''microstructure''} \<and> set (st_timeframes d) \<subseteq> set all_tf \<and>
     list_all (\<lambda>(_, v). numeric v) (st_defaults d)"

lemma registry_checked: "list_all known_entry strategy_registry \<and> length strategy_registry = 27 \<and> distinct (map st_id strategy_registry)"
  by code_simp

lemma registry_entry:
  assumes "d \<in> set strategy_registry"
  shows "known_entry d" and "get_strategy (st_id d) = Inr d"
proof -
  show "known_entry d" using registry_checked assms by (simp add: list_all_iff)
  have "find (\<lambda>x. st_id x = st_id d) strategy_registry = Some d"
    using registry_checked assms by (intro find_distinct_key) auto
  then show "get_strategy (st_id d) = Inr d" by (simp add: get_strategy_def)
qed

lemma get_strategy_InrD: "get_strategy sid = Inr d \<Longrightarrow> d \<in> set strategy_registry \<and> st_id d = sid"
  by (auto simp: get_strategy_def dest: find_SomeD split: option.splits)

text \<open>The strategy catalog loads and is well formed: every constructor check passes, the 27 ids are
  distinct and each is found under its id, and every entry asks only for known data, runs only on known
  timeframes, and has its tunable axes and warm-up parameters among its numeric defaults.\<close>

theorem registry_loads:
  "strategy_definitions = Inr strategy_registry \<and> length strategy_registry = 27 \<and> distinct (map st_id strategy_registry) \<and>
   list_all (\<lambda>d. known_entry d \<and> get_strategy (st_id d) = Inr d) strategy_registry"
  unfolding list_all_iff using strategy_definitions_Inr registry_checked registry_entry by blast

text \<open>The warm-up of an entry, read off its formulas with the numbers of the merged parameters.\<close>

definition json_int :: "json \<Rightarrow> int" where
  "json_int v = (case v of JInt n \<Rightarrow> n | JFloat r \<Rightarrow> (if r \<ge> 0 then floor r else - floor (- r))
     | JBool b \<Rightarrow> (if b then 1 else 0) | _ \<Rightarrow> 0)"

definition formula_value :: "json \<Rightarrow> history_formula \<Rightarrow> int" where
  "formula_value p h = max 1 (hf_offset h + sum_list (map (\<lambda>(k, m). json_int (jget k p) * m) (hf_terms h)))"

lemma int_of_numeric: "numeric v \<Longrightarrow> int_of_json int_text v = Inr (json_int v)"
  by (cases v) (auto simp: numeric_def int_of_json_def json_int_def)

lemma term_sum_numeric:
  "(\<forall>(k, m) \<in> set ts. numeric (jget k p)) \<Longrightarrow> term_sum int_text p ts = Inr (sum_list (map (\<lambda>(k, m). json_int (jget k p) * m) ts))"
  by (induction ts) (auto simp: int_of_numeric)

lemma max_bars_numeric:
  "hs \<noteq> [] \<Longrightarrow> (\<And>h. h \<in> set hs \<Longrightarrow> evaluate_formula int_text h p = Inr (g h)) \<Longrightarrow>
     max_bars int_text p hs = Inr (Max (g ` set hs))"
proof (induction hs rule: induct_list012)
  case (3 h h2 hs)
  have "max_bars int_text p (h2 # hs) = Inr (Max (g ` set (h2 # hs)))"
    using 3 by (intro "3.IH"(2)) auto
  moreover have "Max (g ` set (h # h2 # hs)) = max (g h) (Max (g ` set (h2 # hs)))"
    by (subst list.set(2), subst image_insert, rule Max_insert) auto
  ultimately show ?case using "3.prems"(2)[of h] by simp
qed simp_all

lemma merged_numeric:
  assumes "\<forall>(k, v) \<in> set ps. numeric v" and "\<forall>(k, v) \<in> set ds. numeric v" and "k \<in> fst ` set ds"
  shows "numeric (jget k (merged_params ds ps))"
proof -
  obtain v where "map_of (ps @ ds) k = Some v"
    using assms(3) by (cases "map_of (ps @ ds) k") (auto simp: map_of_eq_None_iff)
  then have "(k, v) \<in> set ps \<or> (k, v) \<in> set ds" using map_of_SomeD by fastforce
  then show ?thesis using assms(1,2) \<open>map_of (ps @ ds) k = Some v\<close> by (auto simp: merged_params_def)
qed

text \<open>The warm-up of a registered strategy is total and exact: for numeric parameters it never raises and is
  the largest value of the entry's formulas on the defaults overridden by the parameters, at least one bar.\<close>

theorem required_history_exact:
  assumes "d \<in> set strategy_registry" and "\<forall>(k, v) \<in> set ps. numeric v"
  shows "required_history_bars int_text d ps =
      Inr (Max (formula_value (merged_params (st_defaults d) ps) ` set (st_formulas d))) \<and>
    Max (formula_value (merged_params (st_defaults d) ps) ` set (st_formulas d)) \<ge> 1"
proof
  let ?p = "merged_params (st_defaults d) ps"
  have entry: "known_entry d" using registry_entry(1)[OF assms(1)] .
  then have nums: "\<forall>(k, v) \<in> set (st_defaults d). numeric v"
    by (simp add: known_entry_def list_all_iff)
  have wf: "st_formulas d \<noteq> []" and keys: "\<forall>h \<in> set (st_formulas d). fst ` set (hf_terms h) \<subseteq> fst ` set (st_defaults d)"
    using entry unfolding known_entry_def strategy_wf_def by blast+
  have "evaluate_formula int_text h ?p = Inr (formula_value ?p h)" if "h \<in> set (st_formulas d)" for h
  proof -
    have "\<forall>(k, m) \<in> set (hf_terms h). numeric (jget k ?p)"
    proof (intro ballI, clarify)
      fix k m
      assume "(k, m) \<in> set (hf_terms h)"
      then have "k \<in> fst ` set (st_defaults d)" using keys that by force
      then show "numeric (jget k ?p)" by (rule merged_numeric[OF assms(2) nums])
    qed
    then show ?thesis by (simp add: term_sum_numeric evaluate_formula_def formula_value_def)
  qed
  then show "required_history_bars int_text d ps = Inr (Max (formula_value ?p ` set (st_formulas d)))"
    unfolding required_history_bars_def by (intro max_bars_numeric wf)
  obtain h where h: "h \<in> set (st_formulas d)" using wf by (cases "st_formulas d") auto
  have "1 \<le> formula_value ?p h" by (simp add: formula_value_def)
  also have "\<dots> \<le> Max (formula_value ?p ` set (st_formulas d))" using h by (intro Max_ge) auto
  finally show "Max (formula_value ?p ` set (st_formulas d)) \<ge> 1" .
qed

section \<open>Planning a symbol\<close>

lemma compatible_single:
  "compatible_families tf [fam] = Inr out \<Longrightarrow> out \<noteq> [] \<Longrightarrow>
     \<exists>d. get_strategy fam = Inr d \<and>
       (case map_of tf_to_registry (text_lower tf) of None \<Rightarrow> tf | Some t \<Rightarrow> t) \<in> set (st_timeframes d)"
  by (auto simp: compatible_families_def split: sum.splits option.splits if_splits)

lemma plan_timeframes_mem:
  "plan_timeframes min_rows probe symbol families now tfs = Inr ds \<Longrightarrow> d \<in> set ds \<Longrightarrow>
     \<exists>tf \<in> set tfs. \<exists>part. plan_timeframe min_rows symbol families now tf (probe tf) = Inr part \<and> d \<in> set part"
proof (induction tfs arbitrary: ds)
  case (Cons tf tfs)
  obtain part rest where parts: "plan_timeframe min_rows symbol families now tf (probe tf) = Inr part"
      "plan_timeframes min_rows probe symbol families now tfs = Inr rest" "ds = part @ rest"
    using Cons.prems(1) by (auto split: sum.splits)
  then show ?case using Cons.IH[OF parts(2)] Cons.prems(2) by auto
qed simp

lemma plan_symbol_mem:
  assumes "plan_symbol timeframes_for min_rows data_state symbol asset families now = Inr ds" and "d \<in> set ds"
    and "de_action d \<noteq> ''skip''"
  obtains tf part where "tf \<in> set (eligible_farm_timeframes timeframes_for asset)"
    and "plan_timeframe min_rows symbol families now tf (data_state symbol tf) = Inr part" and "d \<in> set part"
proof (cases "eligible_farm_timeframes timeframes_for asset = []")
  case True
  then show ?thesis using assms by (auto simp: plan_symbol_def Let_def decision_of_def)
next
  case False
  then have "plan_timeframes min_rows (data_state symbol) symbol families now (eligible_farm_timeframes timeframes_for asset) = Inr ds"
    using assms(1) by (simp add: plan_symbol_def Let_def)
  from plan_timeframes_mem[OF this assms(2)] that show ?thesis by blast
qed

lemma family_decision_cases:
  assumes "family_decision symbol tf fam state = Inr d"
  shows "de_timeframe d = tf \<and> de_family d = fam \<and> de_symbol d = symbol \<and>
    (de_action d = ''skip'' \<or> de_action d = ''run_sweep'' \<and> (\<exists>s. get_strategy fam = Inr s \<and>
       (case map_of tf_to_registry (text_lower tf) of None \<Rightarrow> tf | Some t \<Rightarrow> t) \<in> set (st_timeframes s) \<and>
       (\<not> de_block d \<longrightarrow> ''microstructure'' \<notin> set (st_required s) \<and> de_fingerprint d = dp_fingerprint state \<and>
          (''oi'' \<in> set (st_required s) \<longrightarrow> ''oi'' \<in> set (dp_enrichment state)) \<and>
          (''funding'' \<in> set (st_required s) \<longrightarrow> ''funding'' \<in> set (dp_enrichment state)))))"
proof (cases "compatible_families tf [fam]")
  case (Inr out)
  show ?thesis
  proof (cases out)
    case Nil
    then show ?thesis using assms Inr by (auto simp: family_decision_def decision_of_def)
  next
    case (Cons x xs)
    obtain s where "get_strategy fam = Inr s"
      "(case map_of tf_to_registry (text_lower tf) of None \<Rightarrow> tf | Some t \<Rightarrow> t) \<in> set (st_timeframes s)"
      using compatible_single[OF Inr] Cons by auto
    then show ?thesis
      using assms Inr Cons by (auto simp: family_decision_def decision_of_def Let_def split: if_splits)
  qed
qed (use assms in \<open>simp add: family_decision_def\<close>)

lemma plan_timeframe_cases:
  assumes "plan_timeframe min_rows symbol families now tf state = Inr part" and "d \<in> set part"
  shows "(\<exists>fam \<in> set families. family_decision symbol tf fam state = Inr d \<and>
      probe_status state \<notin> {''missing'', ''too_short'', ''fresh_listing_pending'', ''provider_error''}) \<or>
    de_action d = ''prepare_data'' \<or>
    (de_action d = ''defer'' \<and> (de_until d = defer_until min_rows now tf (dp_rows state) \<or> de_until d = now + of_int min_defer))"
proof (cases "probe_status state \<in> {''missing'', ''too_short'', ''fresh_listing_pending'', ''provider_error''}")
  case True
  then show ?thesis using assms by (auto simp: plan_timeframe_def Let_def decision_of_def split: if_splits)
next
  case False
  then have "map (\<lambda>fam. family_decision symbol tf fam state) families = map Inr part"
    using assms(1) sequence_rows_Inr by (auto simp: plan_timeframe_def Let_def)
  then have "Inr d \<in> (\<lambda>fam. family_decision symbol tf fam state) ` set families"
    using assms(2) by (metis (mono_tags, lifting) image_eqI image_set)
  then show ?thesis using False by auto
qed

text \<open>C23 A sweep is planned to run at once only on data that is ready: its timeframe is one the asset class and
  the family allow, the local candles are neither missing, short, fresh nor failed, every kind of extra data
  the family needs is merged into them, and the sweep carries the fingerprint of exactly this data.\<close>

theorem planned_sweep_ready:
  assumes "plan_symbol timeframes_for min_rows data_state symbol asset families now = Inr ds" and "d \<in> set ds"
    and "de_action d = ''run_sweep''" and "\<not> de_block d"
  shows "\<exists>s. get_strategy (de_family d) = Inr s \<and> de_family d \<in> set families \<and>
    de_timeframe d \<in> set (eligible_farm_timeframes timeframes_for asset) \<and>
    (case map_of tf_to_registry (text_lower (de_timeframe d)) of None \<Rightarrow> de_timeframe d | Some t \<Rightarrow> t) \<in> set (st_timeframes s) \<and>
    set (st_required s) \<subseteq> set (dp_enrichment (data_state symbol (de_timeframe d))) \<and>
    probe_status (data_state symbol (de_timeframe d)) \<notin> {''missing'', ''too_short'', ''fresh_listing_pending'', ''provider_error''} \<and>
    de_fingerprint d = dp_fingerprint (data_state symbol (de_timeframe d))"
proof -
  obtain tf part where tf: "tf \<in> set (eligible_farm_timeframes timeframes_for asset)"
      "plan_timeframe min_rows symbol families now tf (data_state symbol tf) = Inr part" "d \<in> set part"
    by (rule plan_symbol_mem[OF assms(1,2)]) (use assms(3) in auto)
  obtain fam where fam: "fam \<in> set families" "family_decision symbol tf fam (data_state symbol tf) = Inr d"
      "probe_status (data_state symbol tf) \<notin> {''missing'', ''too_short'', ''fresh_listing_pending'', ''provider_error''}"
    using plan_timeframe_cases[OF tf(2,3)] assms(3) by auto
  note D = family_decision_cases[OF fam(2)]
  then obtain s where s: "get_strategy fam = Inr s"
      "(case map_of tf_to_registry (text_lower tf) of None \<Rightarrow> tf | Some t \<Rightarrow> t) \<in> set (st_timeframes s)"
      "''microstructure'' \<notin> set (st_required s)" "de_fingerprint d = dp_fingerprint (data_state symbol tf)"
      "''oi'' \<in> set (st_required s) \<longrightarrow> ''oi'' \<in> set (dp_enrichment (data_state symbol tf))"
      "''funding'' \<in> set (st_required s) \<longrightarrow> ''funding'' \<in> set (dp_enrichment (data_state symbol tf))"
    using assms(3,4) by auto
  have "set (st_required s) \<subseteq> {''oi'', ''funding'', ''microstructure''}"
    using registry_entry(1) get_strategy_InrD[OF s(1)] by (simp add: known_entry_def)
  then have "set (st_required s) \<subseteq> set (dp_enrichment (data_state symbol tf))" using s(3,5,6) by auto
  then show ?thesis using D s fam(1,3) tf(1) by auto
qed

text \<open>A deferred download is tried again no sooner than an hour and no later than a week from now, whatever
  the configured minimum, the interval and the number of rows.\<close>

theorem deferral_bounds:
  assumes "plan_symbol timeframes_for min_rows data_state symbol asset families now = Inr ds" and "d \<in> set ds"
    and "de_action d = ''defer''"
  shows "now + 3600 \<le> de_until d \<and> de_until d \<le> now + 7 * 86400"
proof -
  obtain tf part where tf: "plan_timeframe min_rows symbol families now tf (data_state symbol tf) = Inr part" "d \<in> set part"
    by (rule plan_symbol_mem[OF assms(1,2)]) (use assms(3) in auto)
  have "now + 3600 \<le> defer_until min_rows now tf rows \<and> defer_until min_rows now tf rows \<le> now + 7 * 86400" for rows
  proof -
    define wait where "wait = min max_defer (max min_defer ((min_rows tf - max 0 rows) *
        (case map_of tf_seconds (text_lower tf) of None \<Rightarrow> 3600 | Some s \<Rightarrow> s)))"
    have "3600 \<le> wait" "wait \<le> 604800" by (auto simp: wait_def max_defer_def min_defer_def)
    then have "(3600 :: rat) \<le> of_int wait" "of_int wait \<le> (604800 :: rat)" by linarith+
    then show ?thesis by (simp add: defer_until_def Let_def wait_def)
  qed
  then show ?thesis
    using plan_timeframe_cases[OF tf] assms(3) family_decision_cases by (fastforce simp: min_defer_def)
qed

end
