(* ===== verification/Memory_Claims.thy ===== *)
theory Memory_Claims
  imports Planning_Claims
begin

text \<open>
  Properties of the outcome memory and of the lifecycle read model: both are aggregations of rows, and the
  sweeps the coordinator queues follow from them.
\<close>

section \<open>The verdict of the memory\<close>

text \<open>The verdict read off the candidates, without the index.\<close>

definition memory_action :: "candidate_row list \<Rightarrow> string \<Rightarrow> string \<Rightarrow> string \<Rightarrow> string \<Rightarrow> string" where
  "memory_action rows sy tf fam fp =
     (let same = filter (\<lambda>u. row_sweep u = sweep_key sy tf fam fp) rows;
          cell = filter (\<lambda>u. row_cell u = cell_key sy tf fam) rows
      in if same \<noteq> [] then (if list_ex row_eligible same then ''revisit'' else ''skip_known_bad'')
         else if list_ex row_eligible cell then ''revisit''
         else if length cell \<ge> 5 \<and> 5 * length (filter row_rejected cell) \<ge> 4 * length cell then ''deprioritize''
         else ''fresh'')"

lemma filter_length_pos: "0 < length (filter P xs) \<longleftrightarrow> list_ex P xs"
  by (induction xs) auto

lemma share_bound: "n > 0 \<Longrightarrow> ((8 :: rat) / 10 \<le> of_nat r / of_nat n) \<longleftrightarrow> 4 * n \<le> 5 * r"
proof -
  assume n: "n > 0"
  have "((8 :: rat) / 10 \<le> of_nat r / of_nat n) \<longleftrightarrow> of_nat (4 * n) \<le> (of_nat (5 * r) :: rat)"
    using n by (simp add: field_simps)
  also have "\<dots> \<longleftrightarrow> 4 * n \<le> 5 * r" by (simp only: of_nat_le_iff)
  finally show ?thesis .
qed

lemma lookup_cell_action:
  "mv_action (lookup_cell (build_gate_index rows) key) =
     (let cell = filter (\<lambda>u. row_cell u = key) rows
      in if list_ex row_eligible cell then ''revisit''
         else if length cell \<ge> 5 \<and> 5 * length (filter row_rejected cell) \<ge> 4 * length cell then ''deprioritize''
         else ''fresh'')"
proof (cases "filter (\<lambda>u. row_cell u = key) rows = []")
  case True
  then show ?thesis by (simp add: lookup_cell_def build_gate_index_keyed keyed_def)
next
  case False
  let ?cell = "filter (\<lambda>u. row_cell u = key) rows"
  have found: "map_of (by_cell (build_gate_index rows)) key = Some (cell_prior_of ?cell)"
    using False by (simp add: build_gate_index_keyed keyed_def)
  have dead: "cell_dead (cell_prior_of ?cell) \<longleftrightarrow> length ?cell \<ge> 5 \<and> 5 * length (filter row_rejected ?cell) \<ge> 4 * length ?cell"
    using share_bound[of "length ?cell" "length (filter row_rejected ?cell)"] False
    by (simp add: cell_dead_def cell_prior_of_def prior_of_def deprioritize_min_def)
  have "ga_n (cell_prior_of ?cell) > 0" "0 < ga_eligible (cell_prior_of ?cell) \<longleftrightarrow> list_ex row_eligible ?cell"
    using False filter_length_pos[of row_eligible ?cell] by (simp_all add: cell_prior_of_def prior_of_def)
  then show ?thesis by (simp add: lookup_cell_def found dead Let_def)
qed

lemma lookup_action: "mv_action (lookup (build_gate_index rows) sy tf fam fp) = memory_action rows sy tf fam fp"
proof -
  let ?same = "filter (\<lambda>u. row_sweep u = sweep_key sy tf fam fp) rows"
  have eligible: "0 < ga_eligible (prior_of ?same) \<longleftrightarrow> list_ex row_eligible ?same"
    using filter_length_pos[of row_eligible ?same] by (simp add: prior_of_def)
  have count: "ga_n (prior_of ?same) = length ?same" by (simp add: prior_of_def)
  show ?thesis
  proof (cases "?same = []")
    case True
    then have "map_of (by_sweep (build_gate_index rows)) (sweep_key sy tf fam fp) = None"
      by (simp add: build_gate_index_keyed keyed_def)
    then show ?thesis using True by (simp add: lookup_def memory_action_def lookup_cell_action Let_def)
  next
    case False
    then have "map_of (by_sweep (build_gate_index rows)) (sweep_key sy tf fam fp) = Some (prior_of ?same)"
      by (simp add: build_gate_index_keyed keyed_def)
    then show ?thesis using False eligible count by (simp add: lookup_def memory_action_def Let_def)
  qed
qed

lemma memory_action_skip:
  assumes "u \<in> set rows" and "row_sweep u = sweep_key sy tf fam fp"
    and "\<And>v. v \<in> set rows \<Longrightarrow> row_sweep v = row_sweep u \<Longrightarrow> \<not> row_eligible v"
  shows "memory_action rows sy tf fam fp = ''skip_known_bad''"
proof -
  have "filter (\<lambda>v. row_sweep v = sweep_key sy tf fam fp) rows \<noteq> []"
    using assms(1,2) unfolding filter_empty_conv by blast
  moreover have "\<not> list_ex row_eligible (filter (\<lambda>v. row_sweep v = sweep_key sy tf fam fp) rows)"
    using assms(3) unfolding assms(2) by (auto simp: list_ex_iff)
  ultimately show ?thesis by (simp only: memory_action_def Let_def if_True if_False not_False_eq_True)
qed

text \<open>C24 The gate's verdict is what the candidates say: \<open>lookup\<close> on the index built from any rows skips a sweep
  exactly when rows of the identical data exist and none was eligible, revisits on an eligible row of the
  same data or else of the same cell, and deprioritizes a cell of at least five rows of which four fifths
  were rejected.\<close>

theorem gate_verdict_reference:
  "mv_action (lookup (build_gate_index rows) sy tf fam fp) = memory_action rows sy tf fam fp"
  by (rule lookup_action)

section \<open>The sweeps that are queued\<close>

lemma then_r_bump: "then_r (bump_r key n) m f = m (f\<lparr>f_count := (f_count f)(key := f_count f key + n)\<rparr>)"
  by (simp add: then_r_def bind_r_def bump_r_def)

text \<open>C25 A sweep whose identical data already failed is not queued: when the memory was built from rows of
  which at least one has the symbol, interval, family and data fingerprint of the planned sweep and no such
  row was eligible, planning the sweep writes no task, event or transition; it only counts the skip.\<close>

theorem known_bad_sweep_not_queued:
  assumes "\<not> de_block dec" and "u \<in> set rows"
    and "row_sweep u = sweep_key sy tf (de_family dec) (if str_or (de_fingerprint dec) = [] then ''nofp'' else str_or (de_fingerprint dec))"
    and "\<And>v. v \<in> set rows \<Longrightarrow> row_sweep v = row_sweep u \<Longrightarrow> \<not> row_eligible v"
  shows "create_run_sweep dec sy tf prio src (Some (build_gate_index rows)) now f =
    (Inr (), f\<lparr>f_count := (f_count f)(''sweeps_skipped_memory'' := f_count f ''sweeps_skipped_memory'' + 1)\<rparr>)"
proof -
  define fp where "fp = (if str_or (de_fingerprint dec) = [] then ''nofp'' else str_or (de_fingerprint dec))"
  have u: "row_sweep u = sweep_key sy tf (de_family dec) fp" using assms(3) unfolding fp_def .
  have "mv_action (lookup (build_gate_index rows) sy tf (de_family dec) fp) = ''skip_known_bad''"
    unfolding lookup_action by (rule memory_action_skip[OF assms(2) u assms(4)])
  then show ?thesis
    using assms(1) unfolding create_run_sweep_def Let_def fp_def[symmetric] option.case
    by (simp only: if_False if_True bump_r_def simp_thms)
qed

section \<open>The release of blocked sweeps\<close>

lemma registry_needs:
  "list_all (\<lambda>s. st_id s \<noteq> [] \<and> (''funding'' \<in> set (st_required s) \<longrightarrow> ''oi'' \<in> set (st_required s)) \<and>
     (''microstructure'' \<in> set (st_required s) \<longrightarrow> ''oi'' \<notin> set (st_required s))) strategy_registry"
  by code_simp

text \<open>C26 Blocked sweeps are released in step with the planner, wherever the planner does not hold them back for funding
  data (no claim is made there: the release check looks at the first kind of extra data only): on the data the
  planner has just judged for a family, the release check passes for every sweep the planner would run at once, fails
  for every sweep it holds back for open-interest data, and passes for one it holds back for microstructure
  data exactly when the order-book column is there.\<close>

theorem release_follows_planner:
  assumes "family_decision sy tf fam (probe sy tf) = Inr d" and "de_action d = ''run_sweep''"
    and "de_reason d \<noteq> ''NEEDS_FLOW_DATA''"
    and "t_family r = Some fam" and "t_symbol r = Some sy" and "t_timeframe r = Some tf"
  shows "(de_block d \<longleftrightarrow> de_reason d = ''NEEDS_OI_DATA'' \<or> de_reason d = ''NEEDS_MICRO_DATA'') \<and>
    gate_clear r probe = Inr (if de_reason d = ''NEEDS_MICRO_DATA'' then ''obi_top5'' \<in> set (dp_enrichment (probe sy tf))
      else \<not> de_block d)"
proof -
  obtain out where out: "compatible_families tf [fam] = Inr out" "out \<noteq> []"
    using assms(1,2) by (auto simp: family_decision_def decision_of_def split: sum.splits list.splits)
  obtain s where s: "get_strategy fam = Inr s" using compatible_single[OF out] by blast
  have "s \<in> set strategy_registry" "st_id s = fam" using get_strategy_InrD[OF s] by auto
  then have needs: "fam \<noteq> []" "''funding'' \<in> set (st_required s) \<longrightarrow> ''oi'' \<in> set (st_required s)"
      "''microstructure'' \<in> set (st_required s) \<longrightarrow> ''oi'' \<notin> set (st_required s)"
    using registry_needs unfolding list_all_iff by blast+
  obtain x xs where x: "out = x # xs" using out(2) by (cases out) auto
  show ?thesis
    using assms(1,3) needs
    by (auto simp: family_decision_def gate_clear_def decision_of_def out(1) x s assms(4-6) Let_def py_str_def split: if_splits)
qed

section \<open>The lifecycle read model\<close>

lemma sum_dict_adjust: "sum_list (map snd (dict_adjust k (0 :: nat) Suc d)) = Suc (sum_list (map snd d))"
  by (induction d) auto

lemma sum_tally: "sum_list (map snd (tally ks)) = length ks"
  by (induction ks rule: rev_induct) (simp_all add: tally_def sum_dict_adjust)

lemma derive_state_paper:
  "derive_state u hard crd p = ''PAPER_POSITIVE_OBSERVED'' \<longleftrightarrow> pb_count p > 0 \<and> pb_net p > 0"
  "derive_state u hard crd p = ''PAPER_NEGATIVE_OBSERVED'' \<longleftrightarrow> pb_count p > 0 \<and> pb_net p < 0"
  "derive_state u hard crd p = ''PAPER_MIXED_OR_FLAT'' \<longleftrightarrow> pb_count p > 0 \<and> pb_net p = 0"
  by (auto simp: derive_state_def)

lemma lifecycle_row_paper:
  defines "p \<equiv> \<lambda>papers u. case map_of papers (u_key u) of None \<Rightarrow> empty_bucket | Some b \<Rightarrow> b"
  shows "lc_paper_count (lifecycle_row_of rep reqs hards cards uc papers u) = pb_count (p papers u)"
    and "\<exists>hard crd. lc_state (lifecycle_row_of rep reqs hards cards uc papers u) = derive_state u hard crd (p papers u)"
  by (auto simp: lifecycle_row_of_def p_def Let_def)

text \<open>The outcomes that count for a candidate, and the bucket they make.\<close>

definition outcome_setup :: "(json \<Rightarrow> string) \<Rightarrow> (string \<times> string) list \<Rightarrow> json \<Rightarrow> string" where
  "outcome_setup rep to_uc row = str_or (map_of to_uc (str_of_json rep (jget ''candidate_id'' row)))"

definition net_value :: "(string \<Rightarrow> rat option) \<Rightarrow> json \<Rightarrow> rat" where
  "net_value float_text row = (case float_of_json float_text (jget ''net_pct'' row) of Inl _ \<Rightarrow> 0 | Inr r \<Rightarrow> r)"

definition bucket_of :: "paper_bucket option \<Rightarrow> paper_bucket" where
  "bucket_of x = (case x of None \<Rightarrow> empty_bucket | Some b \<Rightarrow> b)"

lemma paper_by_uc_totals:
  "paper_by_uc rep float_text to_uc rows out = Inr papers \<Longrightarrow> k \<noteq> [] \<Longrightarrow>
     (let own = filter (\<lambda>r. outcome_setup rep to_uc r = k) rows; b = bucket_of (map_of out k)
      in pb_count (bucket_of (map_of papers k)) = pb_count b + length own \<and>
         pb_net (bucket_of (map_of papers k)) = pb_net b + sum_list (map (net_value float_text) own))"
proof (induction rows arbitrary: out)
  case (Cons row rows)
  show ?case
  proof (cases "outcome_setup rep to_uc row = []")
    case True
    then have "paper_by_uc rep float_text to_uc rows out = Inr papers"
      using Cons.prems(1) by (simp add: outcome_setup_def Let_def)
    from Cons.IH[OF this Cons.prems(2)] True Cons.prems(2) show ?thesis by (simp add: Let_def)
  next
    case False
    let ?uc = "outcome_setup rep to_uc row"
    obtain net where net: "float_of_json float_text (jget ''net_pct'' row) = Inr net"
        "paper_by_uc rep float_text to_uc rows (dict_adjust ?uc empty_bucket (add_outcome rep row net) out) = Inr papers"
      using False Cons.prems(1) by (auto simp: outcome_setup_def Let_def split: sum.splits)
    have "bucket_of (map_of (dict_adjust ?uc empty_bucket (add_outcome rep row net) out) k) =
        (if k = ?uc then add_outcome rep row net (bucket_of (map_of out k)) else bucket_of (map_of out k))"
      by (simp add: bucket_of_def map_of_dict_adjust)
    with Cons.IH[OF net(2) Cons.prems(2)] net(1) show ?thesis
      by (auto simp: Let_def add_outcome_def net_value_def)
  qed
qed simp

text \<open>The paper results of a lifecycle row are exact: when the read model is derived, its rows are the stored
  candidates, newest first, and each row of a candidate with a key counts precisely the outcomes whose
  validation request names that key; its state says positive, negative or flat by the sign of the sum of
  their returns, and nothing of paper trading when there are none.\<close>

theorem lifecycle_paper_exact:
  assumes "derive_setup_lifecycle rep float_text arts outcomes b = Inr rows" and "i < length rows"
    and "u_key (load_unique_candidates b ! i) \<noteq> []"
  shows "let u = load_unique_candidates b ! i;
      own = filter (\<lambda>r. outcome_setup rep (snd (request_contexts rep arts)) r = u_key u) outcomes;
      net = sum_list (map (net_value float_text) own)
    in length rows = length (candidates b) \<and> lc_uc_key (rows ! i) = u_key u \<and> lc_paper_count (rows ! i) = length own \<and>
       lc_paper_net (rows ! i) = py_round 6 net \<and>
       (lc_state (rows ! i) = ''PAPER_POSITIVE_OBSERVED'' \<longleftrightarrow> own \<noteq> [] \<and> net > 0) \<and>
       (lc_state (rows ! i) = ''PAPER_NEGATIVE_OBSERVED'' \<longleftrightarrow> own \<noteq> [] \<and> net < 0) \<and>
       (lc_state (rows ! i) = ''PAPER_MIXED_OR_FLAT'' \<longleftrightarrow> own \<noteq> [] \<and> net = 0)"
proof -
  obtain reqs to_uc papers where parts: "request_contexts rep arts = (reqs, to_uc)"
      "paper_by_uc rep float_text to_uc outcomes [] = Inr papers"
      "rows = map (lifecycle_row_of rep reqs (verdicts rep arts) (setup_cards rep arts) (invert to_uc) papers)
         (load_unique_candidates b)"
    using assms(1) by (auto simp: derive_setup_lifecycle_def split: prod.splits sum.splits)
  define u where "u = load_unique_candidates b ! i"
  define own where "own = filter (\<lambda>r. outcome_setup rep to_uc r = u_key u) outcomes"
  have row: "rows ! i = lifecycle_row_of rep reqs (verdicts rep arts) (setup_cards rep arts) (invert to_uc) papers u"
    using assms(2) parts(3) by (simp add: u_def)
  have totals: "pb_count (bucket_of (map_of papers (u_key u))) = length own"
      "pb_net (bucket_of (map_of papers (u_key u))) = sum_list (map (net_value float_text) own)"
    using paper_by_uc_totals[OF parts(2) assms(3)]
    by (simp_all add: u_def own_def Let_def bucket_of_def empty_bucket_def)
  obtain hard crd where state: "lc_state (rows ! i) = derive_state u hard crd (bucket_of (map_of papers (u_key u)))"
    using lifecycle_row_paper(2) unfolding row bucket_of_def by blast
  have "lc_uc_key (rows ! i) = u_key u" "lc_paper_count (rows ! i) = length own"
      "lc_paper_net (rows ! i) = py_round 6 (sum_list (map (net_value float_text) own))"
    using totals unfolding row by (simp_all add: lifecycle_row_of_def bucket_of_def Let_def)
  moreover have "length rows = length (candidates b)" by (simp add: parts(3) load_unique_candidates_def)
  ultimately show ?thesis
    unfolding Let_def parts(1) snd_conv u_def[symmetric] own_def[symmetric] state derive_state_paper
    by (simp add: totals)
qed

text \<open>The lifecycle summary partitions the candidates: the positive, negative and flat setups and those without
  a paper result add up to all of them, and so do the counts per state.\<close>

theorem lifecycle_summary_partition:
  assumes "summarize_setup_lifecycle rep float_text arts outcomes b = Inr s"
  shows "ls_total s = length (candidates b) \<and>
    ls_positive s + ls_negative s + ls_mixed s + ls_no_paper s = ls_total s \<and>
    sum_list (map snd (ls_by_state s)) = ls_total s"
proof -
  obtain reqs to_uc papers where s: "s = summarize_rows (map (lifecycle_row_of rep reqs (verdicts rep arts)
      (setup_cards rep arts) (invert to_uc) papers) (load_unique_candidates b))"
    using assms
    by (auto simp: summarize_setup_lifecycle_def derive_setup_lifecycle_def split: prod.splits sum.splits)
  let ?row = "lifecycle_row_of rep reqs (verdicts rep arts) (setup_cards rep arts) (invert to_uc) papers"
  have one: "of_bool (lc_state (?row u) = ''PAPER_POSITIVE_OBSERVED'') + of_bool (lc_state (?row u) = ''PAPER_NEGATIVE_OBSERVED'')
      + of_bool (lc_state (?row u) = ''PAPER_MIXED_OR_FLAT'') + of_bool (lc_paper_count (?row u) = 0) = (1 :: nat)" for u
  proof -
    obtain hard crd p where "lc_state (?row u) = derive_state u hard crd p" "lc_paper_count (?row u) = pb_count p"
      using lifecycle_row_paper[of rep reqs _ _ _ papers u] by metis
    then show ?thesis by (simp add: derive_state_paper)
  qed
  have count: "length (filter P xs) = sum_list (map (\<lambda>x. of_bool (P x)) xs)" for P and xs :: "lifecycle_row list"
    by (induction xs) auto
  have "ls_positive s + ls_negative s + ls_mixed s + ls_no_paper s = sum_list (map (\<lambda>u. 1) (load_unique_candidates b))"
    unfolding s summarize_rows_def lifecycle_summary.simps count sum_list_addf[symmetric] map_map comp_def one ..
  then show ?thesis by (simp add: s summarize_rows_def sum_tally load_unique_candidates_def sum_list_triv)
qed

end
