(* ===== verification/Planning_Witnesses.thy ===== *)
theory Planning_Witnesses
  imports Memory_Claims Brain_Safety
begin

text \<open>
  The properties of the planners at concrete inputs.
\<close>

definition breakout_entry :: strategy where
  "breakout_entry = hd strategy_registry"

lemma breakout_entry_value:
  "breakout_entry = \<lparr>st_id = ''momentum_breakout'', st_name = st_name breakout_entry, st_family = ''breakout'',
     st_assets = crypto, st_timeframes = all_tf,
     st_defaults = st_defaults breakout_entry, st_axes = [''lookback'', ''threshold_pct''], st_required = [],
     st_formulas = [\<lparr>hf_terms = [(''lookback'', 1)], hf_offset = 0\<rparr>]\<rparr>"
  by code_simp

lemma breakout_entry_listed: "breakout_entry \<in> set strategy_registry"
  unfolding breakout_entry_def using registry_checked by (intro hd_in_set) force

theorem required_history_exact_witness:
  "required_history_bars (\<lambda>_. None) breakout_entry [(''lookback'', JInt 50)] = Inr 50 \<and> (50 :: int) \<ge> 1"
proof -
  have "\<forall>(k, v) \<in> set [(''lookback'', JInt 50)]. numeric v" by (simp add: numeric_def)
  note E = required_history_exact[OF breakout_entry_listed this, of "\<lambda>_. None"]
  have "formula_value (merged_params (st_defaults breakout_entry) [(''lookback'', JInt 50)]) ` set (st_formulas breakout_entry) = {50}"
    by (subst (2) breakout_entry_value) (simp add: formula_value_def merged_params_def json_int_def)
  then show ?thesis using E by simp
qed

definition ready_probe :: data_probe where
  "ready_probe = \<lparr>dp_status = ''ready'', dp_rows = 500, dp_enrichment = [''oi''], dp_fingerprint = Some ''fp1''\<rparr>"

definition short_probe :: data_probe where
  "short_probe = ready_probe\<lparr>dp_status := ''too_short'', dp_rows := 3\<rparr>"

definition ready_sweep :: decision where
  "ready_sweep = (decision_of ''run_sweep'' ''BTC_USDT_SWAP'' ''1h'' ''data_ready'')
     \<lparr>de_family := ''oi_price_quadrant'', de_fingerprint := Some ''fp1''\<rparr>"

definition deferred_download :: decision where
  "deferred_download = (decision_of ''defer'' ''BTC_USDT_SWAP'' ''1h'' ''too_short'')\<lparr>de_until := 604800\<rparr>"

lemma plan_ready:
  "plan_symbol (\<lambda>_. [''1h'']) (\<lambda>_. 400) (\<lambda>_ _. ready_probe) ''BTC_USDT_SWAP'' None [''oi_price_quadrant''] 0 = Inr [ready_sweep]"
  by code_simp

lemma plan_short:
  "plan_symbol (\<lambda>_. [''1h'']) (\<lambda>_. 400) (\<lambda>_ _. short_probe) ''BTC_USDT_SWAP'' None [''oi_price_quadrant''] 0 = Inr [deferred_download]"
  by code_simp

theorem planned_sweep_ready_witness:
  "\<exists>s. get_strategy ''oi_price_quadrant'' = Inr s \<and> ''1H'' \<in> set (st_timeframes s) \<and> set (st_required s) \<subseteq> {''oi''}"
  using planned_sweep_ready[OF plan_ready, of ready_sweep]
  by (auto simp: ready_sweep_def ready_probe_def decision_of_def tf_to_registry_def text_lower_def lower_char_def)

theorem deferral_bounds_witness: "0 + 3600 \<le> de_until deferred_download \<and> de_until deferred_download \<le> 0 + 7 * 86400"
  using deferral_bounds[OF plan_short, of deferred_download] by (simp add: deferred_download_def decision_of_def)

section \<open>Memory and lifecycle\<close>

definition failed_row :: candidate_row where
  "failed_row = \<lparr>u_key = ''uc1'', u_symbol = Some ''BTC_USDT_SWAP'', u_timeframe = Some ''1h'', u_family = Some ''oi_price_quadrant'',
     u_params_hash = Some ''ph'', u_fingerprint = Some ''fp1'', u_decision = Some ''REJECT'', u_validation = Some ''REJECT'',
     u_hard = None, u_trades = 12, u_avg_net = -1, u_candidate = Some ''c1'', u_run_dir = None, u_params = JNull, u_task = None,
     u_paper = [], u_regime = [], u_search_family = [], u_search_trial = [], u_trials = 1, u_updated = 100\<rparr>"

theorem known_bad_sweep_not_queued_witness:
  "\<forall>now f. f_brain (snd (create_run_sweep ready_sweep ''BTC_USDT_SWAP'' ''1h'' 100 None (Some (build_gate_index [failed_row])) now f)) = f_brain f"
proof (intro allI)
  fix now f
  have "\<not> de_block ready_sweep" "failed_row \<in> set [failed_row]"
    "row_sweep failed_row = sweep_key ''BTC_USDT_SWAP'' ''1h'' (de_family ready_sweep)
       (if str_or (de_fingerprint ready_sweep) = [] then ''nofp'' else str_or (de_fingerprint ready_sweep))"
    by (simp_all add: ready_sweep_def decision_of_def failed_row_def row_sweep_def)
  from known_bad_sweep_not_queued[OF this]
  have "create_run_sweep ready_sweep ''BTC_USDT_SWAP'' ''1h'' 100 None (Some (build_gate_index [failed_row])) now f =
      (Inr (), f\<lparr>f_count := (f_count f)(''sweeps_skipped_memory'' := f_count f ''sweeps_skipped_memory'' + 1)\<rparr>)"
    by (simp add: row_eligible_def failed_row_def eligible_lite_def)
  then show "f_brain (snd (create_run_sweep ready_sweep ''BTC_USDT_SWAP'' ''1h'' 100 None (Some (build_gate_index [failed_row])) now f)) =
      f_brain f" by simp
qed

definition blocked_sweep :: task where
  "blocked_sweep = new_task
     ((task_request_of ''run_sweep'' ''k'' 100 (Some ''BTC_USDT_SWAP'') (Some ''1h''))
       \<lparr>q_family := Some ''oi_funding_squeeze'', q_state := Blocked, q_reason := ''NEEDS_OI_DATA''\<rparr>) 0"

definition bare_probe :: data_probe where
  "bare_probe = ready_probe\<lparr>dp_enrichment := []\<rparr>"

lemma oi_blocked:
  "family_decision ''BTC_USDT_SWAP'' ''1h'' ''oi_funding_squeeze'' bare_probe =
     Inr ((decision_of ''run_sweep'' ''BTC_USDT_SWAP'' ''1h'' ''NEEDS_OI_DATA'')
       \<lparr>de_family := ''oi_funding_squeeze'', de_block := True, de_enrich := ''oi''\<rparr>)"
  by code_simp

text \<open>The planner holds this sweep back for open-interest data, and the release check keeps it blocked.\<close>

theorem release_follows_planner_witness: "gate_clear blocked_sweep (\<lambda>_ _. bare_probe) = Inr False"
proof -
  note E = release_follows_planner[where probe = "\<lambda>_ _. bare_probe" and r = blocked_sweep, OF oi_blocked]
  show ?thesis using E by (simp add: decision_of_def blocked_sweep_def task_request_of_def new_task_def)
qed

definition won_outcome :: json where
  "won_outcome = JObj [(''candidate_id'', JStr ''v1''), (''net_pct'', JInt 3), (''state'', JStr ''closed'')]"

definition one_request :: artifacts where
  "one_request = Legacy [(''v1'', JObj [(''candidate_id'', JStr ''v1''), (''metrics'', JObj [(''uc_key'', JStr ''uc1'')])])] [] []"

definition one_candidate :: brain where
  "one_candidate = empty_brain\<lparr>candidates := [failed_row]\<rparr>"

lemma one_lifecycle:
  "case derive_setup_lifecycle (\<lambda>_. []) (\<lambda>_. None) one_request [won_outcome, won_outcome] one_candidate of
     Inl _ \<Rightarrow> False | Inr rows \<Rightarrow> length rows = 1"
  by code_simp

lemma one_own:
  "filter (\<lambda>r. outcome_setup (\<lambda>_. []) (snd (request_contexts (\<lambda>_. []) one_request)) r = ''uc1'') [won_outcome, won_outcome] =
     [won_outcome, won_outcome]"
  by code_simp

lemma one_net: "sum_list (map (net_value (\<lambda>_. None)) [won_outcome, won_outcome]) = 6"
  by code_simp

lemma one_loaded: "load_unique_candidates one_candidate = [failed_row]"
  by (simp add: load_unique_candidates_def one_candidate_def)

theorem lifecycle_paper_exact_witness:
  "\<exists>rows. derive_setup_lifecycle (\<lambda>_. []) (\<lambda>_. None) one_request [won_outcome, won_outcome] one_candidate = Inr rows \<and>
     lc_paper_count (rows ! 0) = 2 \<and> lc_state (rows ! 0) = ''PAPER_POSITIVE_OBSERVED''"
proof -
  obtain rows where rows: "derive_setup_lifecycle (\<lambda>_. []) (\<lambda>_. None) one_request [won_outcome, won_outcome] one_candidate = Inr rows"
      "length rows = 1"
    using one_lifecycle by (auto split: sum.splits)
  have key: "u_key (load_unique_candidates one_candidate ! 0) = ''uc1''" by (simp add: one_loaded failed_row_def)
  from lifecycle_paper_exact[OF rows(1), of 0, unfolded Let_def key one_own one_net] rows(2)
  have "lc_paper_count (rows ! 0) = 2 \<and> lc_state (rows ! 0) = ''PAPER_POSITIVE_OBSERVED''"
    by simp
  then show ?thesis using rows(1) by blast
qed

theorem lifecycle_summary_partition_witness:
  "\<exists>s. summarize_setup_lifecycle (\<lambda>_. []) (\<lambda>_. None) one_request [won_outcome, won_outcome] one_candidate = Inr s \<and>
     ls_positive s + ls_negative s + ls_mixed s + ls_no_paper s = 1"
proof -
  obtain s where s: "summarize_setup_lifecycle (\<lambda>_. []) (\<lambda>_. None) one_request [won_outcome, won_outcome] one_candidate = Inr s"
    using one_lifecycle by (auto simp: summarize_setup_lifecycle_def split: sum.splits)
  have "length (candidates one_candidate) = 1" by (simp add: one_candidate_def)
  then show ?thesis using lifecycle_summary_partition[OF s] s by auto
qed

end
