(* ===== verification/Task_Heartbeat.thy ===== *)
theory Task_Heartbeat
  imports Ownership Validation_Tasks
begin

text \<open>
  The claim heartbeat of a sweep, \<open>src/research_lab/task_claim_heartbeat.py\<close>: the state its lock protects,
  the calls of the foreground, and the renewal thread with its bounded retries.  Clock readings, the
  external stop flags and SQLite lock contention are observations; the renewal thread has a connection of
  its own to the task database.  An attempt that
  meets a lock leaves the databases as they were.  Snapshots and the failure callback are telemetry and not
  modelled.
\<close>

section \<open>Configuration\<close>

record beat_config =
  bc_task :: int
  bc_owner :: string
  bc_fence :: int
  bc_lease :: process_lease
  bc_duration :: time
  bc_interval :: time
  bc_idle :: time
  bc_busy :: time
  bc_retry :: time
  bc_contention :: time

text \<open>The three optional settings are derived from the length of the lease.\<close>

definition beat_config_of ::
  "task \<Rightarrow> process_lease \<Rightarrow> time \<Rightarrow> time \<Rightarrow> time \<Rightarrow> time option \<Rightarrow> time option \<Rightarrow> time option \<Rightarrow> beat_config" where
  "beat_config_of r lease duration interval idle busy retry contention =
     \<lparr>bc_task = t_id r, bc_owner = str_or (t_owner r), bc_fence = t_fence r, bc_lease = lease, bc_duration = duration,
      bc_interval = interval, bc_idle = idle,
      bc_busy = (case busy of None \<Rightarrow> min 5 (duration / 20) | Some x \<Rightarrow> x),
      bc_retry = (case retry of None \<Rightarrow> min 1 (duration / 50) | Some x \<Rightarrow> x),
      bc_contention = (case contention of None \<Rightarrow> min 120 (duration / 3) | Some x \<Rightarrow> x)\<rparr>"

definition beat_config_error :: "beat_config \<Rightarrow> exn option" where
  "beat_config_error cf =
     (if bc_owner cf = [] \<or> bc_owner cf \<noteq> owner_id (bc_lease cf)
      then Some (ValueError ''task claim must belong to the canonical process owner'')
      else if bc_fence cf \<le> 0 then Some (ValueError ''task claim requires a positive fencing token'')
      else if Min {bc_duration cf, bc_interval cf, bc_idle cf, bc_busy cf, bc_retry cf, bc_contention cf} \<le> 0
      then Some (ValueError ''heartbeat intervals must be positive'')
      else if bc_interval cf \<ge> bc_duration cf then Some (ValueError ''renew interval must be shorter than the task lease'')
      else if bc_busy cf > bc_contention cf then Some (ValueError ''renewal busy timeout must fit within contention budget'')
      else if bc_interval cf + bc_contention cf \<ge> bc_duration cf
      then Some (ValueError ''renewal contention budget must expire before the task claim'')
      else None)"

section \<open>The shared state\<close>

record beat =
  be_stop :: bool
  be_failure :: "exn option"
  be_mono :: time
  be_at :: time
  be_stage :: string
  be_seq :: nat
  be_renewed :: nat
  be_renewals :: nat
  be_expires :: time
  be_contended :: "time option"
  be_events :: nat
  be_last :: "string option"

definition new_beat :: "time \<Rightarrow> time \<Rightarrow> task \<Rightarrow> beat" where
  "new_beat mt now r =
     \<lparr>be_stop = False, be_failure = None, be_mono = mt, be_at = now, be_stage = ''claim_acquired'', be_seq = 1,
      be_renewed = 0, be_renewals = 0, be_expires = or0 (t_expires r), be_contended = None, be_events = 0, be_last = None\<rparr>"

definition new_heartbeat :: "beat_config \<Rightarrow> time \<Rightarrow> time \<Rightarrow> task \<Rightarrow> exn + beat" where
  "new_heartbeat cf mt now r =
     (case beat_config_error cf of Some e \<Rightarrow> Inl e | None \<Rightarrow> Inr (new_beat mt now r))"

text \<open>\<open>_stopping\<close>; \<open>ext\<close> is the external event or request.\<close>

definition stopping :: "bool \<Rightarrow> beat \<Rightarrow> bool" where
  "stopping ext b \<longleftrightarrow> be_stop b \<or> ext"

text \<open>\<open>_record_failure\<close> latches the first failure under the lock, then sets the stop event.\<close>

definition note_failure :: "exn \<Rightarrow> beat \<Rightarrow> beat" where
  "note_failure e b = b\<lparr>be_failure := (if be_failure b = None then Some e else be_failure b)\<rparr>"

definition set_stop :: "beat \<Rightarrow> beat" where
  "set_stop b = b\<lparr>be_stop := True\<rparr>"

definition record_failure :: "exn \<Rightarrow> beat \<Rightarrow> beat" where
  "record_failure e b = set_stop (note_failure e b)"

definition inactive_error :: "bool \<Rightarrow> beat \<Rightarrow> exn option" where
  "inactive_error ext b =
     (if stopping ext b then Some (StaleTaskClaim ''task claim heartbeat stopped'')
      else if be_failure b \<noteq> None then Some (StaleTaskClaim ''task claim heartbeat failed'') else None)"

section \<open>The foreground\<close>

text \<open>A milestone, after the check that the heartbeat is active.\<close>

definition confirm :: "time \<Rightarrow> time \<Rightarrow> string \<Rightarrow> beat \<Rightarrow> beat" where
  "confirm mt now stage b = b\<lparr>be_mono := mt, be_at := now, be_stage := take 120 stage, be_seq := be_seq b + 1\<rparr>"

definition progress :: "bool \<Rightarrow> time \<Rightarrow> time \<Rightarrow> string \<Rightarrow> beat \<Rightarrow> (exn + unit) \<times> beat" where
  "progress ext mt now stage b =
     (case inactive_error ext b of
        Some e \<Rightarrow> (Inl e, b)
      | None \<Rightarrow> (Inr (), confirm mt now stage b))"

text \<open>What one call of \<open>assert_active\<close> observes.  A claim that is no longer held raises without being
  latched as the failure of the heartbeat.\<close>

record active_obs =
  ac_ext :: bool
  ac_mono :: time
  ac_now :: time
  ac_now2 :: time
  ac_db :: time
  ac_pid :: int
  ac_started :: "time option"

text \<open>The two failures an active heartbeat latches.\<close>

definition active_failure :: "beat_config \<Rightarrow> active_obs \<Rightarrow> registry \<Rightarrow> beat \<Rightarrow> exn option" where
  "active_failure cf ac reg b =
     (if ac_mono ac - be_mono b > bc_idle cf then Some (ProgressStalled ''task made no confirmed progress'')
      else if \<not> is_authoritative_local (ac_pid ac) (ac_started ac) (ac_now ac) (bc_lease cf) reg
      then Some (StaleTaskClaim ''canonical owner fence is stale for task'') else None)"

definition assert_active :: "beat_config \<Rightarrow> active_obs \<Rightarrow> registry \<Rightarrow> brain \<Rightarrow> beat \<Rightarrow> conn \<Rightarrow> (exn + unit) \<times> beat \<times> conn" where
  "assert_active cf ac reg br b c =
     (case inactive_error (ac_ext ac) b of
        Some e \<Rightarrow> (Inl e, b, c)
      | None \<Rightarrow>
          (case active_failure cf ac reg b of
             Some e \<Rightarrow> (Inl e, record_failure e b, c)
           | None \<Rightarrow>
               (case assert_task_claim (ac_db ac) (Some (ac_now2 ac)) (bc_task cf) (bc_fence cf) c br of
                  (Inl e, c1) \<Rightarrow> (Inl e, b, c1)
                | (Inr _, c1) \<Rightarrow> (Inr (), b, c1))))"

section \<open>One renewal\<close>

text \<open>The readings under the lock, before the databases are touched: nothing to renew, or the progress
  sequence the renewal will stand for.\<close>

definition renew_decision :: "beat_config \<Rightarrow> time \<Rightarrow> beat \<Rightarrow> exn + nat option" where
  "renew_decision cf mt b =
     (if mt - be_mono b > bc_idle cf then Inl (ProgressStalled ''task made no confirmed progress'')
      else Inr (if be_seq b = be_renewed b then None else Some (be_seq b)))"

record write_obs =
  wo_pid :: int
  wo_started :: "time option"
  wo_now :: time
  wo_now2 :: time
  wo_db1 :: time
  wo_db2 :: time

definition renew_write ::
  "beat_config \<Rightarrow> write_obs \<Rightarrow> nat \<Rightarrow> registry \<Rightarrow> beat \<Rightarrow> conn \<Rightarrow> brain \<Rightarrow> (exn + unit) \<times> beat \<times> conn \<times> brain" where
  "renew_write cf wo q reg b c br =
     (if \<not> is_authoritative_local (wo_pid wo) (wo_started wo) (wo_now wo) (bc_lease cf) reg
      then (Inl (StaleTaskClaim ''canonical owner fence is stale for task''), b, c, br)
      else case renew_task_claim_token (wo_db1 wo) (wo_db2 wo) (Some (wo_now2 wo)) (bc_task cf) (bc_fence cf)
                  (Some (bc_duration cf)) c br of
             (Inl e, c1, br1) \<Rightarrow> (Inl e, b, c1, br1)
           | (Inr expires, c1, br1) \<Rightarrow>
               (Inr (), b\<lparr>be_renewed := q, be_renewals := be_renewals b + 1, be_expires := expires, be_contended := None\<rparr>,
                c1, br1))"

text \<open>\<open>_renew_if_progressed\<close> without foreground progress in between.\<close>

definition renew_if_progressed ::
  "beat_config \<Rightarrow> time \<Rightarrow> write_obs \<Rightarrow> registry \<Rightarrow> beat \<Rightarrow> conn \<Rightarrow> brain \<Rightarrow> (exn + bool) \<times> beat \<times> conn \<times> brain" where
  "renew_if_progressed cf mt wo reg b c br =
     (case renew_decision cf mt b of
        Inl e \<Rightarrow> (Inl e, b, c, br)
      | Inr None \<Rightarrow> (Inr False, b, c, br)
      | Inr (Some q) \<Rightarrow>
          (case renew_write cf wo q reg b c br of
             (Inl e, rest) \<Rightarrow> (Inl e, rest) | (Inr _, rest) \<Rightarrow> (Inr True, rest)))"

section \<open>Contention\<close>

definition record_contention :: "time \<Rightarrow> string \<Rightarrow> beat \<Rightarrow> beat" where
  "record_contention started name b =
     b\<lparr>be_contended := (case be_contended b of None \<Rightarrow> Some started | Some s \<Rightarrow> Some s), be_events := be_events b + 1,
       be_last := Some (take 64 (if name = [] then ''SQLITE_LOCKED'' else name))\<rparr>"

definition clear_contention :: "beat \<Rightarrow> beat" where
  "clear_contention b = b\<lparr>be_contended := None\<rparr>"

definition contention_error :: "beat_config \<Rightarrow> time \<Rightarrow> time \<Rightarrow> beat \<Rightarrow> exn option" where
  "contention_error cf mt now b =
     (let age = (case be_contended b of None \<Rightarrow> 0 | Some s \<Rightarrow> max 0 (mt - s))
      in if age \<ge> bc_contention cf \<or> now + bc_retry cf + bc_busy cf \<ge> be_expires b
         then Some (RenewalContentionExceeded ''renewal contention exceeded its bounded budget'') else None)"

text \<open>What one pass of the retry loop observes: the stop flags where it looks at them, the clocks, the
  lock contention that interrupts the renewal (by the name of the error), and whether the wait for the
  next attempt ran to its end.\<close>

record attempt_obs =
  ao_ext1 :: bool
  ao_started :: time
  ao_ext2 :: bool
  ao_locked :: "string option"
  ao_mono :: time
  ao_write :: write_obs
  ao_reg :: registry
  ao_ext3 :: bool
  ao_ext4 :: bool
  ao_checked :: time
  ao_clock :: time
  ao_waited :: bool

type_synonym beat_state = "beat \<times> conn \<times> brain"

text \<open>One pass: \<open>Inl\<close> when the loop ends with an exception or a result, \<open>Inr ()\<close> when it goes round again.\<close>

definition renew_attempt :: "beat_config \<Rightarrow> attempt_obs \<Rightarrow> beat_state \<Rightarrow> ((exn + bool) + unit) \<times> beat_state" where
  "renew_attempt cf ao st =
     (let (b, c, br) = st
      in if stopping (ao_ext1 ao) b then (Inl (Inr False), b, c, br)
         else if stopping (ao_ext2 ao) b then (Inl (Inr False), clear_contention b, c, br)
         else case ao_locked ao of
                Some name \<Rightarrow>
                  if stopping (ao_ext3 ao) b then (Inl (Inr False), clear_contention b, c, br)
                  else
                    let b1 = record_contention (ao_started ao) name b
                    in if stopping (ao_ext4 ao) b1 then (Inl (Inr False), clear_contention b1, c, br)
                       else (case contention_error cf (ao_checked ao) (ao_clock ao) b1 of
                               Some e \<Rightarrow> (Inl (Inl e), b1, c, br)
                             | None \<Rightarrow> if ao_waited ao then (Inr (), b1, c, br) else (Inl (Inr False), b1, c, br))
              | None \<Rightarrow>
                  (case renew_if_progressed cf (ao_mono ao) (ao_write ao) (ao_reg ao) b c br of
                     (Inl e, rest) \<Rightarrow> (Inl (Inl e), rest)
                   | (Inr renewed, b1, rest) \<Rightarrow> (Inl (Inr renewed), (if renewed then clear_contention b1 else b1), rest)))"

text \<open>\<open>while ...: one pass\<close> for at most \<open>n\<close> passes, the \<open>i\<close>th with its observations.\<close>

fun retry_loop :: "('o \<Rightarrow> 's \<Rightarrow> ('r + unit) \<times> 's) \<Rightarrow> (nat \<Rightarrow> 'o) \<Rightarrow> nat \<Rightarrow> nat \<Rightarrow> 's \<Rightarrow> 'r option \<times> 's" where
  "retry_loop attempt obs 0 i s = (None, s)"
| "retry_loop attempt obs (Suc n) i s =
     (case attempt (obs i) s of (Inl r, s1) \<Rightarrow> (Some r, s1) | (Inr _, s1) \<Rightarrow> retry_loop attempt obs n (Suc i) s1)"

definition renew_with_bounded_contention ::
  "beat_config \<Rightarrow> (nat \<Rightarrow> attempt_obs) \<Rightarrow> nat \<Rightarrow> beat_state \<Rightarrow> (exn + bool) option \<times> beat_state" where
  "renew_with_bounded_contention cf obs n st = retry_loop (renew_attempt cf) obs n 0 st"

section \<open>The thread\<close>

text \<open>\<open>_run\<close>: \<open>opening\<close> is an exception of opening the connections or the clock the new connection
  starts from (its constructor then opens the database for writing), \<open>rounds\<close> holds for each renewal that was
  waited for to its end the observations of its attempts; \<open>None\<close> stands for attempts that did not end
  within \<open>n\<close> passes.\<close>

fun beat_rounds ::
  "beat_config \<Rightarrow> nat \<Rightarrow> (nat \<Rightarrow> attempt_obs) list \<Rightarrow> beat_state \<Rightarrow> beat_state option" where
  "beat_rounds cf n [] st = Some st"
| "beat_rounds cf n (obs # rounds) st =
     (case renew_with_bounded_contention cf obs n st of
        (None, _) \<Rightarrow> None
      | (Some (Inl e), b, rest) \<Rightarrow> Some (record_failure e b, rest)
      | (Some (Inr _), st1) \<Rightarrow> beat_rounds cf n rounds st1)"

definition renewal_conn :: "beat_config \<Rightarrow> time \<Rightarrow> conn" where
  "renewal_conn cf now = \<lparr>c_owner = bc_owner cf, c_lease = bc_duration cf, c_floor = now, c_claims = Map.empty\<rparr>"

definition run_heartbeat ::
  "beat_config \<Rightarrow> exn + time \<Rightarrow> nat \<Rightarrow> (nat \<Rightarrow> attempt_obs) list \<Rightarrow> beat \<Rightarrow> brain \<Rightarrow> (beat \<times> brain) option" where
  "run_heartbeat cf opening n rounds b br =
     (case opening of
        Inl e \<Rightarrow> Some (record_failure e b, br)
      | Inr now \<Rightarrow>
          (case open_farm_db br of
             Inl e \<Rightarrow> Some (record_failure e b, br)
           | Inr br0 \<Rightarrow>
               map_option (\<lambda>(b1, _, br1). (b1, br1)) (beat_rounds cf n rounds (b, renewal_conn cf now, br0))))"

section \<open>The foreground and the thread together\<close>

text \<open>
  The atomic steps of both, with the lock \<open>_renewal_gate\<close>: \<open>Deciding\<close> and \<open>Renewing\<close> are the thread
  inside it, before and after its reading of the progress; \<open>Failing\<close> and \<open>Stopping\<close> are the thread
  outside it, before it latches its failure and before it sets the stop event.  The foreground is \<open>Confirming\<close>
  between the check and the milestone of a call of \<open>progress\<close>, and \<open>Aborting\<close> between a
  failure it has latched and the stop event.  A renewal in the database and its counters are one step, as
  are a contended attempt and its record, which only the thread reads.  Any other writer of the task
  database is the first rule.  The event of a step is a confirmed milestone, a renewal with the progress
  sequence it stands for, or none.
\<close>

datatype phase = Resting | Entering time | Deciding time | Renewing time nat | Failing exn | Stopping | Ended

datatype front_phase = Working | Confirming | Aborting

datatype holder = Nobody | Foreground | Renewer

datatype beat_event = Confirmed | Renewal nat | Silent

record beat_system =
  sy_beat :: beat
  sy_phase :: phase
  sy_fg :: front_phase
  sy_gate :: holder
  sy_front :: conn
  sy_back :: conn
  sy_brain :: brain

definition enter_phase :: "phase \<Rightarrow> holder \<Rightarrow> beat \<Rightarrow> beat_system \<Rightarrow> beat_system" where
  "enter_phase ph h b s = s\<lparr>sy_phase := ph, sy_gate := h, sy_beat := b\<rparr>"

inductive beat_step :: "beat_config \<Rightarrow> beat_event \<Rightarrow> beat_system \<Rightarrow> beat_system \<Rightarrow> bool" for cf where
  outside: "beat_step cf Silent s (s\<lparr>sy_brain := br\<rparr>)"
| stopped: "beat_step cf Silent s (s\<lparr>sy_beat := set_stop (sy_beat s)\<rparr>)"
| checks: "sy_fg s = Working \<Longrightarrow> inactive_error ext (sy_beat s) = None \<Longrightarrow> beat_step cf Silent s (s\<lparr>sy_fg := Confirming\<rparr>)"
| confirms: "sy_fg s = Confirming \<Longrightarrow>
    beat_step cf Confirmed s (s\<lparr>sy_beat := confirm mt now stage (sy_beat s), sy_fg := Working\<rparr>)"
| latches: "sy_fg s = Working \<Longrightarrow> inactive_error (ac_ext ac) (sy_beat s) = None \<Longrightarrow>
    active_failure cf ac reg (sy_beat s) = Some e \<Longrightarrow>
    beat_step cf Silent s (s\<lparr>sy_beat := note_failure e (sy_beat s), sy_fg := Aborting\<rparr>)"
| aborts: "sy_fg s = Aborting \<Longrightarrow> beat_step cf Silent s (s\<lparr>sy_beat := set_stop (sy_beat s), sy_fg := Working\<rparr>)"
| asserted: "sy_fg s = Working \<Longrightarrow> inactive_error (ac_ext ac) (sy_beat s) \<noteq> None \<or> active_failure cf ac reg (sy_beat s) = None \<Longrightarrow>
    assert_active cf ac reg (sy_brain s) (sy_beat s) (sy_front s) = (r, b, c) \<Longrightarrow>
    beat_step cf Silent s (s\<lparr>sy_front := c\<rparr>)"
| writes: "sy_fg s = Working \<Longrightarrow> sy_gate s = Nobody \<Longrightarrow>
    assert_active cf ac reg (sy_brain s) (sy_beat s) (sy_front s) = (Inr (), b, c) \<Longrightarrow>
    beat_step cf Silent s (s\<lparr>sy_gate := Foreground, sy_front := c\<rparr>)"
| written: "sy_fg s = Working \<Longrightarrow> sy_gate s = Foreground \<Longrightarrow> beat_step cf Silent s (s\<lparr>sy_gate := Nobody\<rparr>)"
| begins: "sy_phase s = Resting \<Longrightarrow> \<not> stopping ext (sy_beat s) \<Longrightarrow> beat_step cf Silent s (s\<lparr>sy_phase := Entering mt\<rparr>)"
| ends: "sy_phase s = Resting \<Longrightarrow> stopping ext (sy_beat s) \<Longrightarrow> beat_step cf Silent s (s\<lparr>sy_phase := Ended\<rparr>)"
| gives_up: "sy_phase s = Entering m \<Longrightarrow> stopping ext (sy_beat s) \<Longrightarrow> b \<in> {sy_beat s, clear_contention (sy_beat s)} \<Longrightarrow>
    beat_step cf Silent s (s\<lparr>sy_phase := Resting, sy_beat := b\<rparr>)"
| takes_gate: "sy_phase s = Entering m \<Longrightarrow> sy_gate s = Nobody \<Longrightarrow> \<not> stopping ext (sy_beat s) \<Longrightarrow>
    beat_step cf Silent s (enter_phase (Deciding m) Renewer (sy_beat s) s)"
| stalls: "sy_phase s = Deciding m \<Longrightarrow> renew_decision cf mt (sy_beat s) = Inl e \<Longrightarrow>
    beat_step cf Silent s (enter_phase (Failing e) Nobody (sy_beat s) s)"
| nothing_new: "sy_phase s = Deciding m \<Longrightarrow> renew_decision cf mt (sy_beat s) = Inr None \<Longrightarrow>
    beat_step cf Silent s (enter_phase Resting Nobody (sy_beat s) s)"
| decides: "sy_phase s = Deciding m \<Longrightarrow> renew_decision cf mt (sy_beat s) = Inr (Some q) \<Longrightarrow>
    beat_step cf Silent s (s\<lparr>sy_phase := Renewing m q\<rparr>)"
| renews: "sy_phase s = Renewing m q \<Longrightarrow>
    renew_write cf wo q reg (sy_beat s) (sy_back s) (sy_brain s) = (Inr (), b, c, br) \<Longrightarrow>
    beat_step cf (Renewal q) s (enter_phase Resting Nobody b (s\<lparr>sy_back := c, sy_brain := br\<rparr>))"
| renewal_fails: "sy_phase s = Renewing m q \<Longrightarrow>
    renew_write cf wo q reg (sy_beat s) (sy_back s) (sy_brain s) = (Inl e, b, c, br) \<Longrightarrow>
    beat_step cf Silent s (enter_phase (Failing e) Nobody b (s\<lparr>sy_back := c, sy_brain := br\<rparr>))"
| locked_stopping: "sy_phase s = Renewing m q \<Longrightarrow> stopping ext (sy_beat s) \<Longrightarrow>
    b \<in> {clear_contention (sy_beat s), clear_contention (record_contention m name (sy_beat s))} \<Longrightarrow>
    beat_step cf Silent s (enter_phase Resting Nobody b s)"
| locked_out: "sy_phase s = Renewing m q \<Longrightarrow> b = record_contention m name (sy_beat s) \<Longrightarrow>
    contention_error cf mt now b = Some e \<Longrightarrow> beat_step cf Silent s (enter_phase (Failing e) Nobody b s)"
| locked: "sy_phase s = Renewing m q \<Longrightarrow> b = record_contention m name (sy_beat s) \<Longrightarrow>
    contention_error cf mt now b = None \<Longrightarrow> beat_step cf Silent s (enter_phase (Entering m2) Nobody b s)"
| records: "sy_phase s = Failing e \<Longrightarrow>
    beat_step cf Silent s (s\<lparr>sy_phase := Stopping, sy_beat := note_failure e (sy_beat s)\<rparr>)"
| closes: "sy_phase s = Stopping \<Longrightarrow> beat_step cf Silent s (s\<lparr>sy_phase := Ended, sy_beat := set_stop (sy_beat s)\<rparr>)"

inductive beat_run :: "beat_config \<Rightarrow> beat_system \<Rightarrow> beat_event list \<Rightarrow> beat_system \<Rightarrow> bool" for cf s where
  run_nil: "beat_run cf s [] s"
| run_step: "beat_run cf s es t \<Longrightarrow> beat_step cf e t u \<Longrightarrow> beat_run cf s (es @ [e]) u"

definition milestones :: "beat_event list \<Rightarrow> nat" where
  "milestones es = length (filter (\<lambda>e. e = Confirmed) es)"

definition renewals_of :: "beat_event list \<Rightarrow> nat list" where
  "renewals_of es = concat (map (\<lambda>e. case e of Renewal q \<Rightarrow> [q] | _ \<Rightarrow> []) es)"

definition started_system :: "beat_config \<Rightarrow> time \<Rightarrow> time \<Rightarrow> task \<Rightarrow> conn \<Rightarrow> brain \<Rightarrow> beat_system" where
  "started_system cf mt now r c br =
     \<lparr>sy_beat = new_beat mt now r, sy_phase = Resting, sy_fg = Working, sy_gate = Nobody, sy_front = c,
      sy_back = renewal_conn cf now, sy_brain = br\<rparr>"

end
