(* ===== verification/Heartbeat_Claims.thy ===== *)
theory Heartbeat_Claims
  imports Task_Heartbeat
begin

text \<open>
  Properties of the claim heartbeat: its retries end, and in every interleaving of the foreground with the
  renewal thread a renewal stands for progress of its own.
\<close>

section \<open>Retries with a budget\<close>

text \<open>
  The contract of a retry loop: a pass that goes round again has noted when the trouble began, at the
  first such pass, and has found the time since then below the limit.
\<close>

locale bounded_retry =
  fixes attempt :: "'o \<Rightarrow> 's \<Rightarrow> ('r + unit) \<times> 's"
    and began :: "'o \<Rightarrow> time" and checked :: "'o \<Rightarrow> time"
    and since :: "'s \<Rightarrow> time option" and limit :: time
  assumes again: "attempt ob s = (Inr u, s1) \<Longrightarrow>
    since s1 = Some (case since s of None \<Rightarrow> began ob | Some t \<Rightarrow> t) \<and>
    checked ob - (case since s of None \<Rightarrow> began ob | Some t \<Rightarrow> t) < limit"
begin

definition spaced :: "time \<Rightarrow> (nat \<Rightarrow> 'o) \<Rightarrow> bool" where
  "spaced pause obs \<longleftrightarrow> (\<forall>i. began (obs i) \<le> checked (obs i) \<and> checked (obs i) + pause \<le> began (obs (Suc i)))"

lemma spaced_began: "spaced pause obs \<Longrightarrow> began (obs i) + of_nat k * pause \<le> began (obs (i + k))"
proof (induction k)
  case (Suc k)
  have "began (obs (i + k)) + pause \<le> began (obs (i + Suc k))"
    using Suc.prems by (auto simp: spaced_def intro: order_trans[OF add_right_mono])
  with Suc show ?case by (simp add: algebra_simps)
qed simp

lemma unfinished:
  "retry_loop attempt obs (Suc n) i s = (None, s1) \<Longrightarrow>
     checked (obs (i + n)) - (case since s of None \<Rightarrow> began (obs i) | Some t \<Rightarrow> t) < limit"
proof (induction n arbitrary: i s)
  case 0
  then obtain u where "attempt (obs i) s = (Inr u, s1)" by (auto split: prod.splits sum.splits)
  from again[OF this] show ?case by simp
next
  case (Suc n)
  then obtain u s2 where step: "attempt (obs i) s = (Inr u, s2)"
      and rest: "retry_loop attempt obs (Suc n) (Suc i) s2 = (None, s1)"
    by (auto simp del: retry_loop.simps(2) simp: retry_loop.simps(2)[of _ _ "Suc n"] split: prod.splits sum.splits)
  from Suc.IH[OF rest] again[OF step] show ?case by simp
qed

lemma ends:
  assumes "spaced pause obs" and "limit \<le> of_nat n * pause" and "\<And>t. since s = Some t \<Longrightarrow> t \<le> began (obs i)"
  shows "fst (retry_loop attempt obs (Suc n) i s) \<noteq> None"
proof
  assume "fst (retry_loop attempt obs (Suc n) i s) = None"
  then have late: "checked (obs (i + n)) - (case since s of None \<Rightarrow> began (obs i) | Some t \<Rightarrow> t) < limit"
    using unfinished by (metis prod.collapse)
  have "(case since s of None \<Rightarrow> began (obs i) | Some t \<Rightarrow> t) \<le> began (obs i)"
    using assms(3) by (auto split: option.splits)
  moreover have "began (obs i) + of_nat n * pause \<le> checked (obs (i + n))"
    using spaced_began[OF assms(1), of i n] assms(1) by (force simp: spaced_def intro: order_trans)
  ultimately show False using late assms(2) by linarith
qed

end

lemma renew_attempt_again:
  assumes "renew_attempt cf ao st = (Inr u, st1)"
  shows "be_contended (fst st1) = Some (case be_contended (fst st) of None \<Rightarrow> ao_started ao | Some t \<Rightarrow> t) \<and>
    ao_checked ao - (case be_contended (fst st) of None \<Rightarrow> ao_started ao | Some t \<Rightarrow> t) < bc_contention cf \<and>
    ao_clock ao + bc_retry cf + bc_busy cf < be_expires (fst st) \<and> snd st1 = snd st"
proof -
  obtain b c br where st: "st = (b, c, br)" by (cases st)
  obtain name where name: "ao_locked ao = Some name" and st1: "st1 = (record_contention (ao_started ao) name b, c, br)"
      and budget: "contention_error cf (ao_checked ao) (ao_clock ao) (record_contention (ao_started ao) name b) = None"
    using assms st by (auto simp: renew_attempt_def Let_def split: if_splits option.splits sum.splits prod.splits)
  show ?thesis
    using budget unfolding st st1
    by (auto simp: contention_error_def record_contention_def Let_def split: option.splits if_splits)
qed

interpretation contention: bounded_retry "renew_attempt cf" ao_started ao_checked "\<lambda>st. be_contended (fst st)" "bc_contention cf"
  for cf
  by unfold_locales (use renew_attempt_again in blast)

lemma attempts_enough: "0 < pause \<Longrightarrow> limit \<le> of_nat (nat \<lceil>limit / pause\<rceil>) * (pause :: time)"
proof -
  assume "0 < pause"
  moreover have "limit / pause \<le> of_nat (nat \<lceil>limit / pause\<rceil>)" by (simp add: of_nat_ceiling)
  ultimately show ?thesis by (simp add: divide_le_eq)
qed

lemma Min_positive: "finite S \<Longrightarrow> \<not> Min S \<le> 0 \<Longrightarrow> x \<in> S \<Longrightarrow> 0 < (x :: time)"
  by (auto simp: not_le intro: less_le_trans Min_le)

lemma config_positive:
  assumes "beat_config_error cf = None"
  shows "0 < bc_retry cf" and "0 < bc_contention cf" and "bc_interval cf + bc_contention cf < bc_duration cf"
proof -
  let ?S = "{bc_duration cf, bc_interval cf, bc_idle cf, bc_busy cf, bc_retry cf, bc_contention cf}"
  have "\<not> Min ?S \<le> 0 \<and> \<not> bc_interval cf + bc_contention cf \<ge> bc_duration cf"
    using assms unfolding beat_config_error_def by (simp only: option.distinct not_False_eq_True split: if_split_asm)
  then have S: "\<not> Min ?S \<le> 0" and "bc_interval cf + bc_contention cf < bc_duration cf" by (simp_all only: not_le)
  then show "bc_interval cf + bc_contention cf < bc_duration cf" by blast
  show "0 < bc_retry cf" "0 < bc_contention cf" by (rule Min_positive [OF _ S]; simp)+
qed

text \<open>A renewal does not retry for ever: in a heartbeat whose settings passed the constructor, with clock readings
  that do not run backwards and waits that last their full length, the loop over the attempts returns
  after at most one more than the contention budget divided by the retry pause, rounded up, whatever the
  database does.\<close>

theorem contention_retries_end:
  assumes "beat_config_error cf = None" and "be_contended b = None"
    and "\<And>i. ao_started (obs i) \<le> ao_checked (obs i) \<and> ao_checked (obs i) + bc_retry cf \<le> ao_started (obs (Suc i))"
  shows "\<exists>result st. renew_with_bounded_contention cf obs (Suc (nat \<lceil>bc_contention cf / bc_retry cf\<rceil>)) (b, c, br) = (Some result, st)"
proof -
  let ?n = "nat \<lceil>bc_contention cf / bc_retry cf\<rceil>"
  have "bc_contention cf \<le> of_nat ?n * bc_retry cf" by (rule attempts_enough[OF config_positive(1)[OF assms(1)]])
  moreover have "contention.spaced (bc_retry cf) obs" using assms(3) by (simp add: contention.spaced_def)
  ultimately have "fst (retry_loop (renew_attempt cf) obs (Suc ?n) 0 (b, c, br)) \<noteq> None"
    using assms(2) by (intro contention.ends) auto
  then show ?thesis unfolding renew_with_bounded_contention_def by (metis not_None_eq prod.collapse)
qed

section \<open>Interleavings\<close>

lemma event_counts [simp]:
  "milestones [] = 0" "milestones (es @ [e]) = milestones es + of_bool (e = Confirmed)"
  "renewals_of [] = []" "renewals_of (es @ [Confirmed]) = renewals_of es" "renewals_of (es @ [Silent]) = renewals_of es"
  "renewals_of (es @ [Renewal q]) = renewals_of es @ [q]"
  by (simp_all add: milestones_def renewals_of_def)

definition in_gate :: "phase \<Rightarrow> bool" where
  "in_gate ph \<longleftrightarrow> (case ph of Deciding _ \<Rightarrow> True | Renewing _ _ \<Rightarrow> True | _ \<Rightarrow> False)"

text \<open>What the events of a run say of the counters, and what holds between the counters.\<close>

definition beat_inv :: "beat_event list \<Rightarrow> beat_system \<Rightarrow> bool" where
  "beat_inv es s \<longleftrightarrow>
     be_seq (sy_beat s) = Suc (milestones es) \<and> be_renewals (sy_beat s) = length (renewals_of es) \<and>
     sorted_wrt (<) (renewals_of es) \<and> (\<forall>q \<in> set (renewals_of es). 0 < q \<and> q \<le> be_renewed (sy_beat s)) \<and>
     be_renewals (sy_beat s) \<le> be_renewed (sy_beat s) \<and> be_renewed (sy_beat s) \<le> be_seq (sy_beat s) \<and>
     (case sy_phase s of Renewing m q \<Rightarrow> be_renewed (sy_beat s) < q \<and> q \<le> be_seq (sy_beat s) | _ \<Rightarrow> True) \<and>
     (sy_gate s = Renewer \<longleftrightarrow> in_gate (sy_phase s)) \<and>
     (be_failure (sy_beat s) = None \<or> be_stop (sy_beat s) \<or> sy_phase s = Stopping \<or> sy_fg s = Aborting)"

lemma in_gate_simps [simp]:
  "\<not> in_gate Resting" "\<not> in_gate (Entering m)" "in_gate (Deciding m)" "in_gate (Renewing m q)" "\<not> in_gate Ended"
  "\<not> in_gate (Failing e)" "\<not> in_gate Stopping"
  by (simp_all add: in_gate_def)

text \<open>What the writers of the shared record leave alone.\<close>

lemma beat_frames [simp]:
  "be_renewals (note_failure e b) = be_renewals b" "be_renewed (note_failure e b) = be_renewed b"
  "be_seq (note_failure e b) = be_seq b" "be_stop (note_failure e b) = be_stop b" "be_failure (note_failure e b) \<noteq> None"
  "be_renewals (set_stop b) = be_renewals b" "be_renewed (set_stop b) = be_renewed b"
  "be_seq (set_stop b) = be_seq b" "be_stop (set_stop b)" "be_failure (set_stop b) = be_failure b"
  "be_renewals (confirm mt now stage b) = be_renewals b" "be_renewed (confirm mt now stage b) = be_renewed b"
  "be_seq (confirm mt now stage b) = Suc (be_seq b)" "be_stop (confirm mt now stage b) = be_stop b"
  "be_failure (confirm mt now stage b) = be_failure b"
  "be_renewals (record_contention m n b) = be_renewals b" "be_renewed (record_contention m n b) = be_renewed b"
  "be_seq (record_contention m n b) = be_seq b" "be_stop (record_contention m n b) = be_stop b"
  "be_failure (record_contention m n b) = be_failure b"
  "be_renewals (clear_contention b) = be_renewals b" "be_renewed (clear_contention b) = be_renewed b"
  "be_seq (clear_contention b) = be_seq b" "be_stop (clear_contention b) = be_stop b"
  "be_failure (clear_contention b) = be_failure b"
  by (simp_all add: note_failure_def set_stop_def confirm_def record_contention_def clear_contention_def)

lemma enter_phase_fields [simp]:
  "sy_phase (enter_phase ph h b s) = ph" "sy_gate (enter_phase ph h b s) = h" "sy_beat (enter_phase ph h b s) = b"
  "sy_fg (enter_phase ph h b s) = sy_fg s"
  by (simp_all add: enter_phase_def)

lemma write_frame:
  assumes "renew_write cf wo q reg b c br = (r, b1, c1, br1)"
  shows "be_seq b1 = be_seq b" "be_stop b1 = be_stop b" "be_failure b1 = be_failure b"
    "r = Inr u \<Longrightarrow> be_renewals b1 = Suc (be_renewals b) \<and> be_renewed b1 = q" "r = Inl e \<Longrightarrow> b1 = b"
  using assms by (auto simp: renew_write_def split: if_splits sum.splits prod.splits)

lemma decision_fresh: "renew_decision cf mt b = Inr (Some q) \<Longrightarrow> q = be_seq b \<and> be_seq b \<noteq> be_renewed b"
  by (auto simp: renew_decision_def split: if_splits)

lemma beat_step_inv: "beat_step cf e s t \<Longrightarrow> beat_inv es s \<Longrightarrow> beat_inv (es @ [e]) t"
proof (induction rule: beat_step.induct)
  case (renews s m q wo reg b c br)
  then show ?case
    using write_frame[OF renews.hyps(2)] by (fastforce simp: beat_inv_def sorted_wrt_append)
next
  case (renewal_fails s m q wo reg e b c br)
  then show ?case using write_frame[OF renewal_fails.hyps(2)] by (auto simp: beat_inv_def)
next
  case (decides s m mt q)
  then show ?case using decision_fresh[OF decides.hyps(2)] by (auto simp: beat_inv_def)
next
  case (stopped s)
  then show ?case by (auto simp: beat_inv_def split: phase.splits)
qed (auto simp: beat_inv_def inactive_error_def split: phase.splits)

lemma beat_run_inv: "beat_run cf s es t \<Longrightarrow> beat_inv [] s \<Longrightarrow> beat_inv es t"
  by (induction rule: beat_run.induct) (auto intro: beat_step_inv)

lemma started_inv: "beat_inv [] (started_system cf mt now r c br)"
  by (simp add: beat_inv_def started_system_def new_beat_def)

text \<open>Renewals in flight count as done.\<close>

definition committed :: "beat_system \<Rightarrow> nat" where
  "committed s = be_renewals (sy_beat s) + of_bool (in_gate (sy_phase s))"

lemma stopped_step: "beat_step cf e s t \<Longrightarrow> be_stop (sy_beat s) \<Longrightarrow> be_stop (sy_beat t) \<and> committed t \<le> committed s"
proof (induction rule: beat_step.induct)
  case (renews s m q wo reg b c br)
  then show ?case using write_frame[OF renews.hyps(2)] by (auto simp: committed_def)
next
  case (renewal_fails s m q wo reg e b c br)
  then show ?case using write_frame[OF renewal_fails.hyps(2)] by (auto simp: committed_def)
qed (auto simp: committed_def stopping_def)

text \<open>C27 Being alive is not progress.  In every interleaving from a started heartbeat the progress sequence is one,
  for the acquired claim, plus the milestones the foreground confirmed: no renewal, retry, check or failure moves it.
  The renewals counted are those made; each stands for a value the sequence had reached, and for a larger one than every renewal
  before it, so each needs a milestone (or the acquisition) of its own and a heartbeat whose foreground confirms
  nothing renews at most once.  The renewal thread is inside the gate exactly when it decides or writes, so never
  while the foreground writes; and a latched failure has stopped the heartbeat, or the thread that latched it is about to.\<close>

theorem renewals_need_progress:
  assumes "beat_run cf (started_system cf mt now r c br) es s"
  shows "be_seq (sy_beat s) = Suc (milestones es) \<and> be_renewals (sy_beat s) = length (renewals_of es) \<and>
    sorted_wrt (<) (renewals_of es) \<and> (\<forall>q \<in> set (renewals_of es). 0 < q \<and> q \<le> Suc (milestones es)) \<and>
    be_renewals (sy_beat s) \<le> Suc (milestones es) \<and>
    (sy_gate s = Renewer \<longleftrightarrow> in_gate (sy_phase s)) \<and>
    (be_failure (sy_beat s) = None \<or> be_stop (sy_beat s) \<or> sy_phase s = Stopping \<or> sy_fg s = Aborting)"
  using beat_run_inv[OF assms started_inv] unfolding beat_inv_def by fastforce

text \<open>A stopped heartbeat does not come back: once it is stopped, by the foreground or by a failure, it stays
  stopped in every interleaving, and it renews at most once more, and only if the thread was already inside
  the gate.\<close>

theorem stopped_heartbeat_renews_once:
  assumes "beat_run cf s es t" and "be_stop (sy_beat s)"
  shows "be_stop (sy_beat t) \<and>
    be_renewals (sy_beat t) + of_bool (in_gate (sy_phase t)) \<le> be_renewals (sy_beat s) + of_bool (in_gate (sy_phase s))"
proof -
  have "be_stop (sy_beat t) \<and> committed t \<le> committed s"
    using assms by (induction rule: beat_run.induct) (auto dest: stopped_step)
  then show ?thesis by (simp add: committed_def)
qed

end
