(* ===== verification/Lease_Heartbeat.thy ===== *)
theory Lease_Heartbeat
  imports Task_Heartbeat
begin

text \<open>
  The heartbeat of a process lease, \<open>src/research_lab/process_lease_heartbeat.py\<close>: the renewal worker with
  its bounded retries and the supervising clock beside it.  Both share the state below; the registry is
  the one of the ownership module.  Threads, events and the failure callback are not modelled; lock contention
  and the clocks are observations.
\<close>

section \<open>Configuration and state\<close>

record pulse_config =
  pc_duration :: time
  pc_interval :: time
  pc_busy :: time
  pc_retry :: time
  pc_transient :: time
  pc_margin :: time

definition pulse_config_error :: "pulse_config \<Rightarrow> exn option" where
  "pulse_config_error cf =
     (if Min {pc_duration cf, pc_interval cf, pc_busy cf, pc_retry cf, pc_transient cf, pc_margin cf} \<le> 0
      then Some (ValueError ''process heartbeat intervals must be positive'')
      else if pc_interval cf \<ge> pc_duration cf then Some (ValueError ''renew interval must be shorter than the lease'')
      else if pc_busy cf > pc_transient cf then Some (ValueError ''busy timeout must fit the transient budget'')
      else if pc_interval cf + pc_transient cf + pc_margin cf \<ge> pc_duration cf
      then Some (ValueError ''transient budget must fail before lease expiry'')
      else None)"

record pulse =
  pu_stop :: bool
  pu_failure :: "exn option"
  pu_lease :: process_lease
  pu_renewals :: nat
  pu_transient :: "time option"
  pu_events :: nat
  pu_last :: "string option"
  pu_attempt :: "time option"
  pu_completed :: time

definition new_pulse :: "pulse_config \<Rightarrow> process_lease \<Rightarrow> time \<Rightarrow> exn + pulse" where
  "new_pulse cf lease mt =
     (case pulse_config_error cf of
        Some e \<Rightarrow> Inl e
      | None \<Rightarrow> Inr \<lparr>pu_stop = False, pu_failure = None, pu_lease = lease, pu_renewals = 0, pu_transient = None,
                     pu_events = 0, pu_last = None, pu_attempt = None, pu_completed = mt\<rparr>)"

definition latch_failure :: "exn \<Rightarrow> pulse \<Rightarrow> pulse" where
  "latch_failure e p = p\<lparr>pu_failure := (if pu_failure p = None then Some e else pu_failure p), pu_stop := True\<rparr>"

text \<open>\<open>assert_active\<close>, which the foreground calls at its stages.\<close>

definition pulse_error :: "pulse \<Rightarrow> exn option" where
  "pulse_error p =
     (if pu_failure p \<noteq> None then Some (RuntimeError ''process lease heartbeat failed'')
      else if pu_stop p then Some (RuntimeError ''process lease heartbeat stopped'') else None)"

text \<open>The checks of \<open>start\<close> before its threads run.\<close>

definition start_pulse :: "int \<Rightarrow> bool \<Rightarrow> pulse \<Rightarrow> (exn + unit) \<times> pulse" where
  "start_pulse mypid started p =
     (if started then (Inl (RuntimeError ''process lease heartbeat already started''), p)
      else if pid (identity (pu_lease p)) \<noteq> mypid
      then (Inl (RuntimeError ''process lease heartbeat failed to initialize''),
            latch_failure (StaleProcessLease ''process lease heartbeat must run in the acquiring process'') p)
      else (Inr (), p))"

section \<open>Transient failures\<close>

definition record_transient :: "time \<Rightarrow> string \<Rightarrow> pulse \<Rightarrow> pulse" where
  "record_transient started name p =
     p\<lparr>pu_transient := (case pu_transient p of None \<Rightarrow> Some started | Some s \<Rightarrow> Some s), pu_events := pu_events p + 1,
       pu_last := Some name\<rparr>"

definition retry_budget_error :: "pulse_config \<Rightarrow> time \<Rightarrow> time \<Rightarrow> pulse \<Rightarrow> exn option" where
  "retry_budget_error cf mt now p =
     (let age = (case pu_transient p of None \<Rightarrow> 0 | Some s \<Rightarrow> max 0 (mt - s))
      in if age \<ge> pc_transient cf \<or> now + pc_retry cf + pc_busy cf + pc_margin cf \<ge> lease_expires_at (pu_lease p)
         then Some (RenewalContentionExceeded ''process lease renewal exceeded its bounded safety budget'') else None)"

text \<open>What one pass of a retry loop observes: the stop event at its head and at the two readings of the
  renewal, the clocks, the own process, whether SQLite reports a lock, and whether the wait ran to its end.\<close>

record pulse_obs =
  po_stop :: bool
  po_started :: time
  po_locked :: bool
  po_pid :: int
  po_process :: "time option"
  po_now :: time
  po_cancel1 :: bool
  po_cancel2 :: bool
  po_checked :: time
  po_clock :: time
  po_waited :: bool
  po_finished :: time

type_synonym pulse_state = "pulse \<times> registry"

definition transient_pass :: "pulse_config \<Rightarrow> pulse_obs \<Rightarrow> pulse \<Rightarrow> registry \<Rightarrow> ((exn + bool) + unit) \<times> pulse_state" where
  "transient_pass cf po p reg =
     (let p1 = record_transient (po_started po) ''OperationalError'' p
      in case retry_budget_error cf (po_checked po) (po_clock po) p1 of
           Some e \<Rightarrow> (Inl (Inl e), p1, reg)
         | None \<Rightarrow> if po_waited po then (Inr (), p1, reg) else (Inl (Inr False), p1, reg))"

text \<open>One pass of \<open>_connect_with_bounded_retries\<close>; \<open>opening\<close> is an exception other than a lock.\<close>

definition connect_attempt :: "pulse_config \<Rightarrow> exn option \<Rightarrow> pulse_obs \<Rightarrow> pulse_state \<Rightarrow> ((exn + bool) + unit) \<times> pulse_state" where
  "connect_attempt cf opening po st =
     (let (p, reg) = st
      in if pu_stop p \<or> po_stop po then (Inl (Inr False), p, reg)
         else if po_locked po then transient_pass cf po p reg
         else case opening of Some e \<Rightarrow> (Inl (Inl e), p, reg) | None \<Rightarrow> (Inl (Inr True), p\<lparr>pu_transient := None\<rparr>, reg))"

text \<open>One pass of \<open>_renew_with_bounded_retries\<close>.  A local renewal never probes a process, so the wrapped probe
  conflict that would also be retried does not occur.\<close>

definition pulse_attempt :: "pulse_config \<Rightarrow> pulse_obs \<Rightarrow> pulse_state \<Rightarrow> ((exn + bool) + unit) \<times> pulse_state" where
  "pulse_attempt cf po st =
     (let (p, reg) = st
      in if pu_stop p \<or> po_stop po then (Inl (Inr False), p, reg)
         else
           let p1 = p\<lparr>pu_attempt := Some (po_started po)\<rparr>
           in if po_locked po then transient_pass cf po (p1\<lparr>pu_attempt := None\<rparr>) reg
              else (case renew_local (po_pid po) (po_process po) (po_now po) (po_cancel1 po) (po_cancel2 po) (pc_duration cf)
                           (pu_lease p) reg of
                      (Inl e, reg1) \<Rightarrow> (Inl (Inl e), p1\<lparr>pu_attempt := None\<rparr>, reg1)
                    | (Inr lease, reg1) \<Rightarrow>
                        (Inl (Inr True),
                         p1\<lparr>pu_lease := lease, pu_renewals := pu_renewals p + 1, pu_transient := None, pu_attempt := None,
                            pu_completed := po_finished po\<rparr>, reg1)))"

definition renew_with_bounded_retries ::
  "pulse_config \<Rightarrow> (nat \<Rightarrow> pulse_obs) \<Rightarrow> nat \<Rightarrow> pulse_state \<Rightarrow> (exn + bool) option \<times> pulse_state" where
  "renew_with_bounded_retries cf obs n st = retry_loop (pulse_attempt cf) obs n 0 st"

definition connect_with_bounded_retries ::
  "pulse_config \<Rightarrow> exn option \<Rightarrow> (nat \<Rightarrow> pulse_obs) \<Rightarrow> nat \<Rightarrow> pulse_state \<Rightarrow> (exn + bool) option \<times> pulse_state" where
  "connect_with_bounded_retries cf opening obs n st = retry_loop (connect_attempt cf opening) obs n 0 st"

section \<open>The worker and the supervisor\<close>

text \<open>\<open>_run\<close> after the connection; each round was waited for to its end, and a false result ends the worker.\<close>

fun pulse_rounds :: "pulse_config \<Rightarrow> nat \<Rightarrow> (nat \<Rightarrow> pulse_obs) list \<Rightarrow> pulse_state \<Rightarrow> pulse_state option" where
  "pulse_rounds cf n [] st = Some st"
| "pulse_rounds cf n (obs # rounds) st =
     (case renew_with_bounded_retries cf obs n st of
        (None, _) \<Rightarrow> None
      | (Some (Inl e), p, reg) \<Rightarrow> Some (latch_failure e p, reg)
      | (Some (Inr False), st1) \<Rightarrow> Some st1
      | (Some (Inr True), st1) \<Rightarrow> pulse_rounds cf n rounds st1)"

definition run_pulse ::
  "pulse_config \<Rightarrow> nat \<Rightarrow> exn option \<Rightarrow> (nat \<Rightarrow> pulse_obs) \<Rightarrow> (nat \<Rightarrow> pulse_obs) list \<Rightarrow> pulse_state \<Rightarrow> pulse_state option" where
  "run_pulse cf n opening connecting rounds st =
     (case connect_with_bounded_retries cf opening connecting n st of
        (None, _) \<Rightarrow> None
      | (Some (Inl e), p, reg) \<Rightarrow> Some (latch_failure e p, reg)
      | (Some (Inr False), st1) \<Rightarrow> Some st1
      | (Some (Inr True), st1) \<Rightarrow> pulse_rounds cf n rounds st1)"

text \<open>One look of \<open>_supervise\<close>: whether it goes on watching.\<close>

definition supervise :: "pulse_config \<Rightarrow> time \<Rightarrow> time \<Rightarrow> pulse \<Rightarrow> bool \<times> pulse" where
  "supervise cf mt now p =
     (if pu_stop p \<or> pu_failure p \<noteq> None then (False, p)
      else if (case pu_attempt p of None \<Rightarrow> False | Some s \<Rightarrow> max 0 (mt - s) \<ge> pc_transient cf)
              \<or> now + pc_margin cf \<ge> lease_expires_at (pu_lease p)
      then (False, latch_failure (RenewalContentionExceeded ''process lease renewal stopped making bounded progress'') p)
      else (True, p))"

end
