(* ===== verification/Lease_Claims.thy ===== *)
theory Lease_Claims
  imports Heartbeat_Claims Lease_Heartbeat
begin

text \<open>
  Properties of the heartbeat of a process lease: its retries end within the budget, and all it ever does to
  the registry is to move the expiry of its own row.
\<close>

section \<open>Retries\<close>

lemma transient_pass_again:
  assumes "transient_pass cf po p reg = (Inr u, st1)"
  shows "pu_transient (fst st1) = Some (case pu_transient p of None \<Rightarrow> po_started po | Some t \<Rightarrow> t) \<and>
    po_checked po - (case pu_transient p of None \<Rightarrow> po_started po | Some t \<Rightarrow> t) < pc_transient cf"
  using assms
  by (auto simp: transient_pass_def retry_budget_error_def record_transient_def Let_def split: option.splits if_splits)

interpretation pulse_retry: bounded_retry "pulse_attempt cf" po_started po_checked "\<lambda>st. pu_transient (fst st)" "pc_transient cf"
  for cf
proof unfold_locales
  fix ob u s and s1 :: pulse_state
  assume attempt: "pulse_attempt cf ob s = (Inr u, s1)"
  obtain p reg where s: "s = (p, reg)" by (cases s)
  have "transient_pass cf ob (p\<lparr>pu_attempt := None\<rparr>) reg = (Inr u, s1)"
    using attempt s by (auto simp: pulse_attempt_def Let_def split: if_splits sum.splits prod.splits)
  from transient_pass_again[OF this]
  show "pu_transient (fst s1) = Some (case pu_transient (fst s) of None \<Rightarrow> po_started ob | Some t \<Rightarrow> t) \<and>
      po_checked ob - (case pu_transient (fst s) of None \<Rightarrow> po_started ob | Some t \<Rightarrow> t) < pc_transient cf"
    by (simp add: s)
qed

interpretation connect_retry: bounded_retry "connect_attempt cf failing" po_started po_checked "\<lambda>st. pu_transient (fst st)"
    "pc_transient cf"
  for cf failing
proof unfold_locales
  fix ob u s and s1 :: pulse_state
  assume attempt: "connect_attempt cf failing ob s = (Inr u, s1)"
  obtain p reg where s: "s = (p, reg)" by (cases s)
  have "transient_pass cf ob p reg = (Inr u, s1)"
    using attempt s by (auto simp: connect_attempt_def Let_def split: if_splits option.splits)
  from transient_pass_again[OF this]
  show "pu_transient (fst s1) = Some (case pu_transient (fst s) of None \<Rightarrow> po_started ob | Some t \<Rightarrow> t) \<and>
      po_checked ob - (case pu_transient (fst s) of None \<Rightarrow> po_started ob | Some t \<Rightarrow> t) < pc_transient cf"
    by (simp add: s)
qed

lemma pulse_config_positive: "pulse_config_error cf = None \<Longrightarrow> 0 < pc_retry cf \<and> 0 < pc_transient cf"
proof -
  assume ok: "pulse_config_error cf = None"
  let ?S = "{pc_duration cf, pc_interval cf, pc_busy cf, pc_retry cf, pc_transient cf, pc_margin cf}"
  have S: "\<not> Min ?S \<le> 0"
    using ok unfolding pulse_config_error_def by (simp only: option.distinct not_False_eq_True split: if_split_asm)
  show ?thesis by (intro conjI) (rule Min_positive [OF _ S]; simp)+
qed

text \<open>Neither connecting nor renewing retries for ever: with settings the constructor accepts, clock readings that do
  not run backwards and waits of their full length, both loops of the process lease heartbeat return after at
  most one more pass than the transient budget divided by the retry pause, rounded up.\<close>

theorem lease_retries_end:
  assumes "pulse_config_error cf = None" and "pu_transient p = None"
    and "\<And>i. po_started (obs i) \<le> po_checked (obs i) \<and> po_checked (obs i) + pc_retry cf \<le> po_started (obs (Suc i))"
  shows "\<exists>r1 st1 r2 st2.
    connect_with_bounded_retries cf opening obs (Suc (nat \<lceil>pc_transient cf / pc_retry cf\<rceil>)) (p, reg) = (Some r1, st1) \<and>
    renew_with_bounded_retries cf obs (Suc (nat \<lceil>pc_transient cf / pc_retry cf\<rceil>)) (p, reg) = (Some r2, st2)"
proof -
  let ?n = "nat \<lceil>pc_transient cf / pc_retry cf\<rceil>"
  have enough: "pc_transient cf \<le> of_nat ?n * pc_retry cf"
    by (rule attempts_enough) (use pulse_config_positive[OF assms(1)] in blast)
  have "pulse_retry.spaced (pc_retry cf) obs" "connect_retry.spaced (pc_retry cf) obs"
    using assms(3) by (simp_all add: pulse_retry.spaced_def connect_retry.spaced_def)
  note spaced = this
  have "fst (retry_loop (pulse_attempt cf) obs (Suc ?n) 0 (p, reg)) \<noteq> None"
    by (rule pulse_retry.ends[OF spaced(1) enough]) (simp add: assms(2))
  moreover have "fst (retry_loop (connect_attempt cf opening) obs (Suc ?n) 0 (p, reg)) \<noteq> None"
    by (rule connect_retry.ends[OF spaced(2) enough]) (simp add: assms(2))
  ultimately show ?thesis
    unfolding renew_with_bounded_retries_def connect_with_bounded_retries_def by (metis not_None_eq prod.collapse)
qed

section \<open>The registry under a heartbeat\<close>

text \<open>A row as the heartbeat may leave it: only its expiry and update time moved.\<close>

definition fixed_columns :: "owner_row option \<Rightarrow> owner_row option" where
  "fixed_columns x = map_option (\<lambda>r. r\<lparr>w_expires := None, w_updated := 0\<rparr>) x"

definition fixed_lease :: "process_lease \<Rightarrow> process_lease" where
  "fixed_lease l = l\<lparr>lease_expires_at := 0\<rparr>"

definition only_extended :: "string \<Rightarrow> registry \<Rightarrow> registry \<Rightarrow> bool" where
  "only_extended rid reg reg1 \<longleftrightarrow> (\<forall>x. x \<noteq> rid \<longrightarrow> reg1 x = reg x) \<and> fixed_columns (reg1 rid) = fixed_columns (reg rid)"

lemma only_extended_refl: "only_extended rid reg reg"
  by (simp add: only_extended_def)

lemma only_extended_trans: "only_extended rid a b \<Longrightarrow> only_extended rid b c \<Longrightarrow> only_extended rid a c"
  by (simp add: only_extended_def)

lemma fixed_lease_resource: "fixed_lease l = fixed_lease l1 \<Longrightarrow> resource_id l = resource_id l1"
  by (metis fixed_lease_def process_lease.select_convs(1) process_lease.surjective process_lease.update_convs(6))

lemma renew_local_extends:
  assumes "renew_local mypid started now c1 c2 secs lease reg = (r, reg1)"
  shows "only_extended (resource_id lease) reg reg1"
    and "r = Inr lease1 \<Longrightarrow> lease1 = lease\<lparr>lease_expires_at := now + secs\<rparr>"
    and "r = Inl e \<Longrightarrow> reg1 = reg"
proof -
  have auth: "assert_authoritative pr now False lease reg = Inr row \<Longrightarrow> reg (resource_id lease) = Some row" for pr row
    by (auto simp: assert_authoritative_def split: option.splits sum.splits if_splits)
  show "only_extended (resource_id lease) reg reg1"
    using assms
    by (auto simp: renew_local_def renew_core_def Let_def only_extended_def fixed_columns_def
        split: option.splits if_splits sum.splits dest!: auth)
  show "r = Inr lease1 \<Longrightarrow> lease1 = lease\<lparr>lease_expires_at := now + secs\<rparr>" "r = Inl e \<Longrightarrow> reg1 = reg"
    using assms by (auto simp: renew_local_def renew_core_def Let_def split: option.splits if_splits sum.splits)
qed

text \<open>What a pass keeps: the lease up to its expiry, the other rows, and a stopped heartbeat changes nothing.\<close>

definition pulse_kept :: "pulse_state \<Rightarrow> pulse_state \<Rightarrow> bool" where
  "pulse_kept st st1 \<longleftrightarrow>
     fixed_lease (pu_lease (fst st1)) = fixed_lease (pu_lease (fst st)) \<and>
     only_extended (resource_id (pu_lease (fst st))) (snd st) (snd st1) \<and>
     (pu_stop (fst st) \<longrightarrow> pu_stop (fst st1) \<and> snd st1 = snd st) \<and>
     pu_renewals (fst st) \<le> pu_renewals (fst st1) \<and> (snd st1 = snd st \<or> pu_renewals (fst st) < pu_renewals (fst st1))"

lemma pulse_kept_trans: "pulse_kept a b \<Longrightarrow> pulse_kept b c \<Longrightarrow> pulse_kept a c"
proof -
  assume ab: "pulse_kept a b" and bc: "pulse_kept b c"
  have rid: "resource_id (pu_lease (fst b)) = resource_id (pu_lease (fst a))"
    using ab fixed_lease_resource unfolding pulse_kept_def by blast
  have "only_extended (resource_id (pu_lease (fst a))) (snd a) (snd c)"
    using ab bc only_extended_trans unfolding pulse_kept_def rid by blast
  moreover have "snd c = snd a \<or> pu_renewals (fst a) < pu_renewals (fst c)"
    using ab bc unfolding pulse_kept_def by auto
  moreover have "pu_stop (fst a) \<longrightarrow> pu_stop (fst c) \<and> snd c = snd a"
    using ab bc unfolding pulse_kept_def by simp
  moreover have "fixed_lease (pu_lease (fst c)) = fixed_lease (pu_lease (fst a))" "pu_renewals (fst a) \<le> pu_renewals (fst c)"
    using ab bc unfolding pulse_kept_def by simp_all
  ultimately show ?thesis unfolding pulse_kept_def by blast
qed

lemma pulse_kept_same:
  "pu_lease p1 = pu_lease p \<Longrightarrow> pu_renewals p1 = pu_renewals p \<Longrightarrow> (pu_stop p \<Longrightarrow> pu_stop p1) \<Longrightarrow> pulse_kept (p, reg) (p1, reg)"
  by (auto simp: pulse_kept_def only_extended_refl)

lemma transient_pass_kept: "transient_pass cf po p reg = (r, st1) \<Longrightarrow> pulse_kept (p, reg) st1"
  by (auto simp: transient_pass_def record_transient_def Let_def split: option.splits if_splits intro!: pulse_kept_same)

lemma connect_attempt_kept: "connect_attempt cf opening po st = (r, st1) \<Longrightarrow> pulse_kept st st1"
  by (cases st)
    (auto simp: connect_attempt_def split: if_splits option.splits intro!: pulse_kept_same dest: transient_pass_kept)

lemma pulse_attempt_kept: "pulse_attempt cf po st = (r, st1) \<Longrightarrow> pulse_kept st st1"
proof -
  assume attempt: "pulse_attempt cf po st = (r, st1)"
  obtain p reg where st: "st = (p, reg)" by (cases st)
  show ?thesis
  proof (cases "pu_stop p \<or> po_stop po")
    case True
    then show ?thesis using attempt st by (auto simp: pulse_attempt_def intro!: pulse_kept_same)
  next
    case going: False
    show ?thesis
    proof (cases "po_locked po")
      case True
      then have "transient_pass cf po (p\<lparr>pu_attempt := None\<rparr>) reg = (r, st1)"
        using attempt st going by (simp add: pulse_attempt_def Let_def)
      from transient_pass_kept[OF this] show ?thesis by (simp add: st pulse_kept_def)
    next
      case False
      obtain res reg1 where renewal: "renew_local (po_pid po) (po_process po) (po_now po) (po_cancel1 po) (po_cancel2 po)
          (pc_duration cf) (pu_lease p) reg = (res, reg1)" by fastforce
      show ?thesis
      proof (cases res)
        case (Inl e)
        then have "reg1 = reg" using renew_local_extends(3)[OF renewal] by simp
        then show ?thesis using attempt st going False Inl renewal
          by (auto simp: pulse_attempt_def Let_def intro!: pulse_kept_same)
      next
        case (Inr lease)
        then show ?thesis
          using attempt st going False renewal renew_local_extends(1,2)[OF renewal]
          by (auto simp: pulse_attempt_def Let_def pulse_kept_def fixed_lease_def)
      qed
    qed
  qed
qed

lemma retry_loop_kept:
  "retry_loop attempt obs n i st = (r, st1) \<Longrightarrow> (\<And>ob st r st1. attempt ob st = (r, st1) \<Longrightarrow> pulse_kept st st1) \<Longrightarrow>
     pulse_kept st st1"
proof (induction n arbitrary: i st)
  case 0
  then show ?case by (cases st) (auto intro: pulse_kept_same)
next
  case (Suc n)
  obtain x st2 where pass: "attempt (obs i) st = (x, st2)" by (cases "attempt (obs i) st")
  from Suc.prems(2)[OF this] have kept: "pulse_kept st st2" .
  show ?case
  proof (cases x)
    case (Inl y)
    then show ?thesis using Suc.prems(1) pass kept by simp
  next
    case (Inr u)
    then have "retry_loop attempt obs n (Suc i) st2 = (r, st1)" using Suc.prems(1) pass by simp
    from pulse_kept_trans[OF kept Suc.IH[OF this Suc.prems(2)]] show ?thesis .
  qed
qed

lemma latch_kept: "pulse_kept st (p, reg) \<Longrightarrow> pulse_kept st (latch_failure e p, reg)"
  by (rule pulse_kept_trans, assumption) (auto simp: latch_failure_def intro!: pulse_kept_same)

lemma pulse_rounds_kept: "pulse_rounds cf n rounds st = Some st1 \<Longrightarrow> pulse_kept st st1"
proof (induction rounds arbitrary: st)
  case Nil
  then show ?case by (cases st) (auto intro: pulse_kept_same)
next
  case (Cons obs rounds)
  obtain r p reg where round: "renew_with_bounded_retries cf obs n st = (r, p, reg)" by (cases "renew_with_bounded_retries cf obs n st") auto
  then have kept: "pulse_kept st (p, reg)"
    unfolding renew_with_bounded_retries_def by (rule retry_loop_kept) (rule pulse_attempt_kept)
  show ?case
    using Cons round kept by (auto split: option.splits sum.splits bool.splits intro: latch_kept pulse_kept_trans)
qed

text \<open>A process heartbeat only keeps what it holds: however the worker runs, the rows of all other resources stay
  as they are, its own row changes in nothing but its expiry and update time, its lease in nothing but the
  expiry, the registry changes only by a counted renewal, and a worker that finds the heartbeat stopped
  changes nothing at all.\<close>

theorem lease_heartbeat_only_extends:
  assumes "run_pulse cf n opening connecting rounds (p, reg) = Some (p1, reg1)"
  shows "fixed_lease (pu_lease p1) = fixed_lease (pu_lease p) \<and> only_extended (resource_id (pu_lease p)) reg reg1 \<and>
    (reg1 = reg \<or> pu_renewals p < pu_renewals p1) \<and> (\<not> pu_stop p \<or> reg1 = reg)"
proof -
  obtain r p0 reg0 where conn: "connect_with_bounded_retries cf opening connecting n (p, reg) = (r, p0, reg0)"
    by (cases "connect_with_bounded_retries cf opening connecting n (p, reg)") auto
  then have kept: "pulse_kept (p, reg) (p0, reg0)"
    unfolding connect_with_bounded_retries_def by (rule retry_loop_kept) (rule connect_attempt_kept)
  have "pulse_kept (p, reg) (p1, reg1)"
    using assms conn kept
    by (auto simp: run_pulse_def split: option.splits sum.splits bool.splits dest!: pulse_rounds_kept intro: latch_kept pulse_kept_trans)
  then show ?thesis by (auto simp: pulse_kept_def)
qed

end
