(* ===== verification/Heartbeat_Witnesses.thy ===== *)
theory Heartbeat_Witnesses
  imports Lease_Claims Materialization_Safety
begin

text \<open>The properties of the heartbeats on a task that is running, with one row in the ownership registry.\<close>

definition demo_identity :: process_identity where
  "demo_identity = \<lparr>pid = 7, started_at = 5, executable = ''py'', command_digest = ''d''\<rparr>"

definition demo_held :: process_lease where
  "demo_held = \<lparr>resource_id = ''farm'', role_id = ''farm'', owner_id = ''w1'', identity = demo_identity, fencing_token = 1,
     lease_expires_at = 1000\<rparr>"

definition demo_row :: owner_row where
  "demo_row = \<lparr>w_role = ''farm'', w_owner = Some ''w1'', w_pid = Some 7, w_started = Some 5, w_exe = Some ''py'',
     w_digest = Some ''d'', w_expires = Some 1000, w_fence = 1, w_updated = 90\<rparr>"

definition demo_registry :: registry where
  "demo_registry = [''farm'' \<mapsto> demo_row]"

definition demo_beat_config :: beat_config where
  "demo_beat_config = beat_config_of demo_running_task demo_held 60 10 300 None None None"

lemma demo_beat_config_value:
  "demo_beat_config = \<lparr>bc_task = 1, bc_owner = ''w1'', bc_fence = 1, bc_lease = demo_held, bc_duration = 60, bc_interval = 10,
     bc_idle = 300, bc_busy = 3, bc_retry = 1, bc_contention = 20\<rparr>"
  by (simp add: demo_beat_config_def beat_config_of_def demo_brain_defs)

lemma demo_config_ok: "beat_config_error demo_beat_config = None"
  by (simp add: demo_beat_config_value beat_config_error_def demo_held_def)

definition demo_write :: write_obs where
  "demo_write = \<lparr>wo_pid = 7, wo_started = Some 5, wo_now = 130, wo_now2 = 130, wo_db1 = 130, wo_db2 = 130\<rparr>"

definition demo_attempts :: "nat \<Rightarrow> attempt_obs" where
  "demo_attempts i = \<lparr>ao_ext1 = False, ao_started = 2 * of_nat i, ao_ext2 = False, ao_locked = Some ''SQLITE_BUSY'', ao_mono = 2 * of_nat i,
     ao_write = demo_write, ao_reg = demo_registry, ao_ext3 = False, ao_ext4 = False, ao_checked = 2 * of_nat i + 1,
     ao_clock = 130, ao_waited = True\<rparr>"

theorem contention_retries_end_witness:
  "\<exists>result st. renew_with_bounded_contention demo_beat_config demo_attempts (Suc (nat \<lceil>(20 :: time) / 1\<rceil>))
     (new_beat 0 100 demo_running_task, renewal_conn demo_beat_config 100, demo_running) = (Some result, st)"
proof -
  have "ao_started (demo_attempts i) \<le> ao_checked (demo_attempts i) \<and>
      ao_checked (demo_attempts i) + bc_retry demo_beat_config \<le> ao_started (demo_attempts (Suc i))" for i
    by (simp add: demo_attempts_def demo_beat_config_value)
  moreover have "be_contended (new_beat 0 100 demo_running_task) = None" by (simp add: new_beat_def)
  ultimately show ?thesis
    using contention_retries_end[OF demo_config_ok, of "new_beat 0 100 demo_running_task" demo_attempts]
    by (simp add: demo_beat_config_value)
qed

definition demo_start :: beat_system where
  "demo_start = started_system demo_beat_config 0 100 demo_running_task demo_conn demo_running"

definition demo_renewing :: beat_system where
  "demo_renewing = demo_start\<lparr>sy_phase := Renewing 0 1, sy_gate := Renewer\<rparr>"

lemma demo_reaches_renewing: "beat_run demo_beat_config demo_start [Silent, Silent, Silent] demo_renewing"
proof -
  define s1 where "s1 = demo_start\<lparr>sy_phase := Entering 0\<rparr>"
  define s2 where "s2 = enter_phase (Deciding 0) Renewer (sy_beat s1) s1"
  have fields: "sy_phase demo_start = Resting" "sy_gate demo_start = Nobody" "sy_beat demo_start = new_beat 0 100 demo_running_task"
    by (simp_all add: demo_start_def started_system_def)
  have "beat_step demo_beat_config Silent demo_start s1"
    unfolding s1_def by (rule beat_step.begins[where ext = False]) (simp_all add: fields stopping_def new_beat_def)
  moreover have "beat_step demo_beat_config Silent s1 s2"
    unfolding s2_def
    by (rule beat_step.takes_gate[where ext = False]) (simp_all add: s1_def fields stopping_def new_beat_def)
  moreover have "beat_step demo_beat_config Silent s2 (s2\<lparr>sy_phase := Renewing 0 1\<rparr>)"
    by (rule beat_step.decides[where mt = 1])
      (simp_all add: s2_def s1_def enter_phase_def fields renew_decision_def new_beat_def demo_beat_config_value)
  moreover have "s2\<lparr>sy_phase := Renewing 0 1\<rparr> = demo_renewing"
    by (simp add: s2_def s1_def enter_phase_def demo_renewing_def fields)
  ultimately show ?thesis using run_step[OF run_step[OF run_step[OF run_nil]]] by (metis append.simps)
qed

lemma demo_authority: "is_authoritative_local 7 (Some 5) 130 demo_held demo_registry"
  by (simp add: is_authoritative_local_def assert_local_holder_def assert_authoritative_def demo_held_def demo_registry_def
      demo_row_def demo_identity_def identity_from_row_def identity_complete_def py_str_def or0_def)

lemma demo_renewal:
  "fst (renew_write demo_beat_config demo_write 1 demo_registry b (renewal_conn demo_beat_config 100) demo_running) = Inr ()"
  using demo_authority
  by (simp add: renew_write_def demo_write_def demo_beat_config_value renew_task_claim_token_def lease_or_default_def
      renewal_conn_def demo_eval demo_brain_defs)

lemma demo_renews:
  assumes "sy_phase s = Renewing 0 1" and "sy_back s = renewal_conn demo_beat_config 100" and "sy_brain s = demo_running"
  shows "\<exists>t. beat_step demo_beat_config (Renewal 1) s t \<and> be_renewals (sy_beat t) = Suc (be_renewals (sy_beat s))"
proof -
  obtain b c br where written: "renew_write demo_beat_config demo_write 1 demo_registry (sy_beat s) (sy_back s) (sy_brain s) =
      (Inr (), b, c, br)"
    using demo_renewal[of "sy_beat s"] unfolding assms(2,3) by (metis prod.collapse)
  let ?t = "enter_phase Resting Nobody b (s\<lparr>sy_back := c, sy_brain := br\<rparr>)"
  have "be_renewals (sy_beat ?t) = Suc (be_renewals (sy_beat s))" using write_frame(4)[OF written] by (simp add: enter_phase_def)
  with beat_step.renews[OF assms(1) written] show ?thesis by blast
qed

lemma demo_renewing_fields:
  "sy_phase demo_renewing = Renewing 0 1" "sy_back demo_renewing = renewal_conn demo_beat_config 100"
  "sy_brain demo_renewing = demo_running" "be_renewals (sy_beat demo_renewing) = 0"
  by (simp_all add: demo_renewing_def demo_start_def started_system_def new_beat_def)

theorem renewals_need_progress_witness:
  "\<exists>s. beat_run demo_beat_config demo_start [Silent, Silent, Silent, Renewal 1] s \<and> be_renewals (sy_beat s) = 1 \<and>
     be_seq (sy_beat s) = 1"
proof -
  obtain t where t: "beat_step demo_beat_config (Renewal 1) demo_renewing t"
    using demo_renews[OF demo_renewing_fields(1-3)] by blast
  have reach: "beat_run demo_beat_config demo_start [Silent, Silent, Silent, Renewal 1] t"
    using run_step[OF demo_reaches_renewing t] by simp
  from renewals_need_progress[OF this[unfolded demo_start_def]] reach show ?thesis
    by (intro exI[of _ t]) (simp add: milestones_def renewals_of_def)
qed

theorem stopped_heartbeat_renews_once_witness:
  "\<exists>s t. beat_run demo_beat_config s [Renewal 1] t \<and> be_stop (sy_beat s) \<and> be_renewals (sy_beat s) = 0 \<and> be_stop (sy_beat t) \<and>
     be_renewals (sy_beat t) = 1"
proof -
  define s where "s = demo_renewing\<lparr>sy_beat := set_stop (sy_beat demo_renewing)\<rparr>"
  have s: "sy_phase s = Renewing 0 1" "sy_back s = renewal_conn demo_beat_config 100" "sy_brain s = demo_running"
      "be_renewals (sy_beat s) = 0" "be_stop (sy_beat s)"
    using demo_renewing_fields by (simp_all add: s_def)
  obtain t where t: "beat_step demo_beat_config (Renewal 1) s t" "be_renewals (sy_beat t) = 1" using demo_renews[OF s(1-3)] s(4) by auto
  have run: "beat_run demo_beat_config s [Renewal 1] t" using run_step[OF run_nil t(1)] by simp
  have "be_stop (sy_beat t)" using stopped_heartbeat_renews_once[OF run s(5)] by simp
  then show ?thesis using run t s(4,5) by (intro exI[of _ s] exI[of _ t]) simp
qed

section \<open>The process lease\<close>

definition demo_pulse_config :: pulse_config where
  "demo_pulse_config = \<lparr>pc_duration = 90, pc_interval = 30, pc_busy = 2, pc_retry = 1, pc_transient = 30, pc_margin = 5\<rparr>"

lemma demo_pulse_config_ok: "pulse_config_error demo_pulse_config = None"
  by (simp add: demo_pulse_config_def pulse_config_error_def)

definition demo_pulse :: pulse where
  "demo_pulse = \<lparr>pu_stop = False, pu_failure = None, pu_lease = demo_held, pu_renewals = 0, pu_transient = None,
     pu_events = 0, pu_last = None, pu_attempt = None, pu_completed = 0\<rparr>"

definition demo_passes :: "bool \<Rightarrow> nat \<Rightarrow> pulse_obs" where
  "demo_passes busy i = \<lparr>po_stop = False, po_started = 2 * of_nat i, po_locked = busy, po_pid = 7, po_process = Some 5, po_now = 130,
     po_cancel1 = False, po_cancel2 = False, po_checked = 2 * of_nat i + 1, po_clock = 130, po_waited = True,
     po_finished = 2 * of_nat i + 1\<rparr>"

theorem lease_retries_end_witness:
  "\<exists>r1 st1 r2 st2.
    connect_with_bounded_retries demo_pulse_config None (demo_passes True) (Suc (nat \<lceil>(30 :: time) / 1\<rceil>)) (demo_pulse, demo_registry) = (Some r1, st1) \<and>
    renew_with_bounded_retries demo_pulse_config (demo_passes True) (Suc (nat \<lceil>(30 :: time) / 1\<rceil>)) (demo_pulse, demo_registry) = (Some r2, st2)"
proof -
  have "po_started (demo_passes True i) \<le> po_checked (demo_passes True i) \<and>
      po_checked (demo_passes True i) + pc_retry demo_pulse_config \<le> po_started (demo_passes True (Suc i))" for i
    by (simp add: demo_passes_def demo_pulse_config_def)
  moreover have "pu_transient demo_pulse = None" by (simp add: demo_pulse_def)
  ultimately show ?thesis
    using lease_retries_end[OF demo_pulse_config_ok, of demo_pulse "demo_passes True" None demo_registry]
    by (simp add: demo_pulse_config_def)
qed

lemma demo_pulse_runs:
  "run_pulse demo_pulse_config 1 None (demo_passes False) [demo_passes False] (demo_pulse, demo_registry) =
     Some (demo_pulse\<lparr>pu_lease := demo_held\<lparr>lease_expires_at := 220\<rparr>, pu_renewals := 1, pu_completed := 1\<rparr>,
       demo_registry(''farm'' \<mapsto> demo_row\<lparr>w_expires := Some 220, w_updated := 130\<rparr>))"
  by (simp add: run_pulse_def connect_with_bounded_retries_def renew_with_bounded_retries_def connect_attempt_def pulse_attempt_def
      demo_passes_def demo_pulse_def demo_pulse_config_def renew_local_def renew_core_def assert_local_holder_def
      assert_authoritative_def demo_held_def demo_registry_def demo_row_def demo_identity_def identity_from_row_def
      identity_complete_def py_str_def or0_def)

theorem lease_heartbeat_only_extends_witness:
  "only_extended ''farm'' demo_registry (demo_registry(''farm'' \<mapsto> demo_row\<lparr>w_expires := Some 220, w_updated := 130\<rparr>))"
  using lease_heartbeat_only_extends[OF demo_pulse_runs] by (simp add: demo_pulse_def demo_held_def)

end
