(* ===== verification/Param_Search.thy ===== *)
theory Param_Search
  imports Lifecycle
begin

text \<open>
  The parameter authority over the catalog, \<open>src/research_lab/param_schemas.py\<close>: the range of a parameter,
  the checks of a parameter object, of a grid and of a holding horizon, the axes the farm may search, and the
  executable exits it fills in.  The policy file \<open>configs/strategy_lab/param_schemas.yaml\<close> is the constant
  \<open>shipped_policy\<close>; every function takes the policy as the code does.  Python's parsing and printing of
  values are the fields of \<open>py_lib\<close>.
\<close>

section \<open>Numbers and text\<close>

record py_lib =
  px_float :: "string \<Rightarrow> rat option"
  px_int :: "string \<Rightarrow> int option"
  px_str :: "json \<Rightarrow> string"
  px_g :: "rat \<Rightarrow> string"

text \<open>\<open>round\<close> rounds halves to the even neighbour.\<close>

definition round_even :: "rat \<Rightarrow> int" where
  "round_even x =
     (let f = floor x; d = x - of_int f
      in if d < 1 / 2 then f else if d > 1 / 2 then f + 1 else if even f then f else f + 1)"

definition round6 :: "rat \<Rightarrow> rat" where
  "round6 x = of_int (round_even (x * 1000000)) / 1000000"

definition sorted_set :: "'a::linorder list \<Rightarrow> 'a list" where
  "sorted_set xs = sort (remdups xs)"

text \<open>A number of the policy file.\<close>

datatype number = NInt int | NFloat rat

fun num_rat :: "number \<Rightarrow> rat" where
  "num_rat (NInt n) = of_int n"
| "num_rat (NFloat q) = q"

fun json_of_number :: "number \<Rightarrow> json" where
  "json_of_number (NInt n) = JInt n"
| "json_of_number (NFloat q) = JFloat q"

text \<open>\<open>_num\<close>, \<open>int\<close> and \<open>_is_intish\<close> of a value; \<open>float\<close> with its exceptions.\<close>

definition num_of :: "py_lib \<Rightarrow> json \<Rightarrow> rat option" where
  "num_of px v =
     (case v of
        JBool b \<Rightarrow> Some (if b then 1 else 0)
      | JInt n \<Rightarrow> Some (of_int n)
      | JFloat q \<Rightarrow> Some q
      | JStr s \<Rightarrow> px_float px s
      | _ \<Rightarrow> None)"

definition int_num :: "py_lib \<Rightarrow> json \<Rightarrow> int option" where
  "int_num px v =
     (case v of
        JBool b \<Rightarrow> Some (if b then 1 else 0)
      | JInt n \<Rightarrow> Some n
      | JFloat q \<Rightarrow> Some (if q \<ge> 0 then floor q else - floor (- q))
      | JStr s \<Rightarrow> px_int px s
      | _ \<Rightarrow> None)"

definition is_intish :: "py_lib \<Rightarrow> json \<Rightarrow> bool" where
  "is_intish px v =
     (case v of
        JBool b \<Rightarrow> False
      | _ \<Rightarrow> (case (int_num px v, num_of px v) of (Some n, Some q) \<Rightarrow> of_int n = q | _ \<Rightarrow> False))"

definition float_of :: "py_lib \<Rightarrow> json \<Rightarrow> exn + rat" where
  "float_of px v =
     (case num_of px v of
        Some q \<Rightarrow> Inr q
      | None \<Rightarrow> (case v of JStr s \<Rightarrow> Inl (ValueError ''could not convert string to float'')
                         | _ \<Rightarrow> Inl (TypeError ''float() argument must be a string or a real number'')))"

section \<open>The policy\<close>

record range_rule =
  rr_type :: string
  rr_min :: "number option"
  rr_max :: "number option"

text \<open>A key the file does not set is \<open>None\<close> or the empty list.\<close>

record param_policy =
  pp_units :: "(string \<times> string) list"
  pp_ranges :: "(string \<times> range_rule) list"
  pp_int_min :: "int option"
  pp_int_mult :: "int option"
  pp_int_floor :: "int option"
  pp_num_min :: "rat option"
  pp_num_mult :: "rat option"
  pp_num_floor :: "rat option"
  pp_required :: "string list"
  pp_min_rr :: "rat option"
  pp_horizon :: "(string \<times> number option \<times> number option) list"

definition shipped_policy :: param_policy where
  "shipped_policy =
     \<lparr>pp_units = [(''stop_pct'', ''percent_points''), (''take_pct'', ''percent_points''),
        (''threshold_pct'', ''percent_points''), (''move_pct'', ''percent_points''),
        (''max_range_pct'', ''percent_points'')],
      pp_ranges =
        [(''hold_bars'', \<lparr>rr_type = ''int'', rr_min = Some (NInt 1), rr_max = Some (NInt 240)\<rparr>),
         (''stop_pct'', \<lparr>rr_type = ''number'', rr_min = Some (NFloat (1 / 10)), rr_max = Some (NFloat 50)\<rparr>),
         (''take_pct'', \<lparr>rr_type = ''number'', rr_min = Some (NFloat (1 / 5)), rr_max = Some (NFloat 200)\<rparr>)],
      pp_int_min = Some 0, pp_int_mult = Some 4, pp_int_floor = Some 10,
      pp_num_min = Some 0, pp_num_mult = Some 4, pp_num_floor = Some 1,
      pp_required = [''hold_bars'', ''stop_pct'', ''take_pct''], pp_min_rr = Some 2,
      pp_horizon =
        [(''15m'', Some (NInt 1), Some (NInt 192)), (''1h'', Some (NInt 1), Some (NInt 168)),
         (''4h'', Some (NInt 1), Some (NInt 60)), (''1d'', Some (NInt 1), Some (NInt 30))]\<rparr>"

definition opt_or :: "'a option \<Rightarrow> 'a \<Rightarrow> 'a" where
  "opt_or x d = (case x of None \<Rightarrow> d | Some v \<Rightarrow> v)"

definition min_reward_risk :: "param_policy \<Rightarrow> rat" where
  "min_reward_risk pol = opt_or (pp_min_rr pol) 2"

definition exit_modes :: "string list" where
  "exit_modes = [''baseline'', ''early_tp'', ''trailing'', ''trailing_tight'', ''break_even'', ''time_decay'',
     ''partial_tp'', ''partial_be'', ''hold_long'', ''fixed'', ''ride'']"

definition meta_enums :: "(string \<times> string list) list" where
  "meta_enums = [(''direction'', [''long'', ''short'', ''both'']), (''side'', [''long'', ''short'', ''both'']),
     (''exit_mode'', exit_modes)]"

definition axis_dependencies :: "(string \<times> string) \<Rightarrow> string list" where
  "axis_dependencies k =
     (if k = (''rsi_reversal'', ''oversold'') then [''oversold < overbought'']
      else if k = (''rsi_reversal'', ''overbought'') then [''overbought > oversold''] else [])"

section \<open>Ranges\<close>

text \<open>\<open>_range_for_key\<close>: an explicit range of the policy, or one derived from the default of the catalog.\<close>

definition int_ceiling :: "param_policy \<Rightarrow> int \<Rightarrow> int" where
  "int_ceiling pol n = max (opt_or (pp_int_floor pol) 10) (n * opt_or (pp_int_mult pol) 4)"

definition num_ceiling :: "param_policy \<Rightarrow> rat \<Rightarrow> rat" where
  "num_ceiling pol q = max (opt_or (pp_num_floor pol) 1) (\<bar>q\<bar> * opt_or (pp_num_mult pol) 4)"

definition range_for_key :: "py_lib \<Rightarrow> param_policy \<Rightarrow> string \<Rightarrow> json \<Rightarrow> exn + range_rule" where
  "range_for_key px pol key dflt =
     (case map_of (pp_ranges pol) key of
        Some r \<Rightarrow> Inr r
      | None \<Rightarrow>
          (case dflt of
             JBool b \<Rightarrow> Inr \<lparr>rr_type = ''bool'', rr_min = None, rr_max = None\<rparr>
           | JInt n \<Rightarrow> Inr \<lparr>rr_type = ''int'', rr_min = Some (NInt (opt_or (pp_int_min pol) 0)),
                            rr_max = Some (NInt (int_ceiling pol n))\<rparr>
           | _ \<Rightarrow>
               (case (if truthy dflt then float_of px dflt else Inr 0) of
                  Inl e \<Rightarrow> Inl e
                | Inr q \<Rightarrow> Inr \<lparr>rr_type = ''number'', rr_min = Some (NFloat (opt_or (pp_num_min pol) 0)),
                                rr_max = Some (NFloat (num_ceiling pol q))\<rparr>)))"

section \<open>The searchable axes\<close>

record search_axis =
  ax_name :: string
  ax_type :: string
  ax_min :: rat
  ax_max :: rat
  ax_default :: rat
  ax_unit :: string
  ax_dependencies :: "string list"

record search_contract =
  sc_strategy :: string
  sc_axes :: "search_axis list"

definition axis_unit :: "param_policy \<Rightarrow> string \<Rightarrow> string" where
  "axis_unit pol name =
     (let u = (case map_of (pp_units pol) name of None \<Rightarrow> [] | Some u \<Rightarrow> u)
      in if u \<noteq> [] then u
         else if sublist ''lookback'' name \<or> suffix ''period'' name then ''bars'' else ''scalar'')"

text \<open>\<open>isinstance(value, int)\<close> also holds of a bool.\<close>

definition int_typed :: "json \<Rightarrow> bool" where
  "int_typed v = (case v of JInt n \<Rightarrow> True | JBool b \<Rightarrow> True | _ \<Rightarrow> False)"

definition search_axis_of :: "py_lib \<Rightarrow> param_policy \<Rightarrow> strategy \<Rightarrow> string \<Rightarrow> exn + search_axis" where
  "search_axis_of px pol d name =
     (case map_of (st_defaults d) name of
        None \<Rightarrow> Inl (KeyError name)
      | Some value \<Rightarrow>
          (case range_for_key px pol name value of
             Inl e \<Rightarrow> Inl e
           | Inr r \<Rightarrow>
               (case float_of px value of
                  Inl e \<Rightarrow> Inl e
                | Inr q \<Rightarrow>
                    Inr \<lparr>ax_name = name, ax_type = (if int_typed value then ''int'' else ''number''),
                         ax_min = (case rr_min r of None \<Rightarrow> if int_typed value then 2 else 0 | Some m \<Rightarrow> num_rat m),
                         ax_max = (case rr_max r of None \<Rightarrow> q | Some m \<Rightarrow> num_rat m),
                         ax_default = q, ax_unit = axis_unit pol name,
                         ax_dependencies = axis_dependencies (st_id d, name)\<rparr>)))"

definition parameter_search_contract :: "py_lib \<Rightarrow> param_policy \<Rightarrow> string \<Rightarrow> exn + search_contract" where
  "parameter_search_contract px pol sid =
     (case get_strategy sid of
        Inl e \<Rightarrow> Inl e
      | Inr d \<Rightarrow>
          (case sequence_rows (map (search_axis_of px pol d) (st_axes d)) of
             Inl e \<Rightarrow> Inl e
           | Inr axes \<Rightarrow> Inr \<lparr>sc_strategy = sid, sc_axes = axes\<rparr>))"

definition primary_axis :: "search_contract \<Rightarrow> search_axis option" where
  "primary_axis c = (case sc_axes c of [] \<Rightarrow> None | a # _ \<Rightarrow> Some a)"

text \<open>\<open>search_variant_validity\<close>: a missing or unreadable threshold is a reason of its own.\<close>

definition search_variant_validity :: "py_lib \<Rightarrow> string \<Rightarrow> json \<Rightarrow> bool \<times> string" where
  "search_variant_validity px sid ps =
     (if sid = ''rsi_reversal'' then
        (case (num_of px (jget ''oversold'' ps), num_of px (jget ''overbought'' ps)) of
           (Some lo, Some hi) \<Rightarrow>
             if lo < hi then (True, ''dependency_rules_passed'') else (False, ''oversold_must_be_less_than_overbought'')
         | _ \<Rightarrow> (False, ''rsi_threshold_dependency_inputs_invalid''))
      else (True, ''dependency_rules_passed''))"

section \<open>Where a bound comes from\<close>

record range_authority =
  au_default :: json
  au_type :: string
  au_min :: "number option"
  au_max :: number
  au_source :: string
  au_rule :: string
  au_inputs :: "(string \<times> number) list"

definition policy_source :: string where
  "policy_source = ''configs/strategy_lab/param_schemas.yaml''"

definition authority_rule :: "py_lib \<Rightarrow> param_policy \<Rightarrow> string \<Rightarrow> json \<Rightarrow> number
    \<Rightarrow> exn + (string \<times> string \<times> (string \<times> number) list)" where
  "authority_rule px pol key dflt ceil =
     (if map_of (pp_ranges pol) key \<noteq> None then
        Inr (policy_source @ ''#ranges.'' @ key, ''explicit_policy_max'', [(''configured_max'', ceil)])
      else case dflt of
        JInt n \<Rightarrow>
          Inr (policy_source @ ''#fallback_ranges.int'', ''max(min_max, registry_default * max_mult)'',
               [(''min_max'', NInt (opt_or (pp_int_floor pol) 10)), (''max_mult'', NInt (opt_or (pp_int_mult pol) 4)),
                (''registry_default'', NInt n)])
      | _ \<Rightarrow>
          (case (if truthy dflt then float_of px dflt else Inr 0) of
             Inl e \<Rightarrow> Inl e
           | Inr q \<Rightarrow>
               Inr (policy_source @ ''#fallback_ranges.number'', ''max(min_max, abs(registry_default) * max_mult)'',
                    [(''min_max'', NFloat (opt_or (pp_num_floor pol) 1)),
                     (''max_mult'', NFloat (opt_or (pp_num_mult pol) 4)), (''registry_default'', NFloat q)])))"

definition parameter_range_authority :: "py_lib \<Rightarrow> param_policy \<Rightarrow> string \<Rightarrow> string \<Rightarrow> exn + range_authority" where
  "parameter_range_authority px pol sid key =
     (case get_strategy sid of
        Inl e \<Rightarrow> Inl e
      | Inr d \<Rightarrow>
          (case map_of (st_defaults d) key of
             None \<Rightarrow> Inl (KeyError ''unknown parameter'')
           | Some dflt \<Rightarrow>
               (case range_for_key px pol key dflt of
                  Inl e \<Rightarrow> Inl e
                | Inr r \<Rightarrow>
                    (case rr_max r of
                       None \<Rightarrow> Inl (ValueError ''parameter has no numeric maximum'')
                     | Some ceil \<Rightarrow>
                         (case authority_rule px pol key dflt ceil of
                            Inl e \<Rightarrow> Inl e
                          | Inr (source, rule, inputs) \<Rightarrow>
                              Inr \<lparr>au_default = dflt, au_type = (if rr_type r = [] then ''number'' else rr_type r),
                                   au_min = rr_min r, au_max = ceil, au_source = source, au_rule = rule,
                                   au_inputs = inputs\<rparr>)))))"

section \<open>Checks\<close>

record param_result =
  pr_ok :: bool
  pr_errors :: "string list"

definition failed_result :: "string list \<Rightarrow> param_result" where
  "failed_result es = \<lparr>pr_ok = False, pr_errors = es\<rparr>"

definition result_of :: "string list \<Rightarrow> param_result" where
  "result_of es = \<lparr>pr_ok = (es = []), pr_errors = sorted_set es\<rparr>"

definition bound_errors :: "py_lib \<Rightarrow> string \<Rightarrow> range_rule \<Rightarrow> rat \<Rightarrow> string list" where
  "bound_errors px key r q =
     (case rr_min r of None \<Rightarrow> []
      | Some lo \<Rightarrow> if q < num_rat lo then [key @ '':below_min:'' @ px_str px (json_of_number lo)] else []) @
     (case rr_max r of None \<Rightarrow> []
      | Some hi \<Rightarrow> if q > num_rat hi then [key @ '':above_max:'' @ px_str px (json_of_number hi)] else [])"

definition value_errors :: "py_lib \<Rightarrow> string \<Rightarrow> range_rule \<Rightarrow> json \<Rightarrow> string list" where
  "value_errors px key r value =
     (if rr_type r = ''bool'' then (case value of JBool b \<Rightarrow> [] | _ \<Rightarrow> [key @ '':expected_bool''])
      else if rr_type r = ''int'' then
        (case (is_intish px value, int_num px value) of
           (True, Some n) \<Rightarrow> bound_errors px key r (of_int n)
         | _ \<Rightarrow> [key @ '':expected_int''])
      else (case num_of px value of None \<Rightarrow> [key @ '':expected_number''] | Some q \<Rightarrow> bound_errors px key r q))"

definition validate_one :: "py_lib \<Rightarrow> param_policy \<Rightarrow> string \<Rightarrow> json \<Rightarrow> json \<Rightarrow> exn + string list" where
  "validate_one px pol key value dflt =
     (case range_for_key px pol key dflt of Inl e \<Rightarrow> Inl e | Inr r \<Rightarrow> Inr (value_errors px key r value))"

definition item_errors :: "py_lib \<Rightarrow> param_policy \<Rightarrow> (string \<times> json) list \<Rightarrow> string \<times> json \<Rightarrow> exn + string list" where
  "item_errors px pol defaults kv =
     (case map_of meta_enums (fst kv) of
        Some allowed \<Rightarrow>
          Inr (if text_lower (py_text (px_str px) (snd kv)) \<in> set allowed then [] else [fst kv @ '':invalid_value''])
      | None \<Rightarrow>
          (case map_of defaults (fst kv) of
             None \<Rightarrow> Inr []
           | Some dflt \<Rightarrow> validate_one px pol (fst kv) (snd kv) dflt))"

text \<open>\<open>_executable_errors\<close>.\<close>

definition required_keys :: "param_policy \<Rightarrow> string list" where
  "required_keys pol = (if pp_required pol = [] then [''hold_bars'', ''stop_pct'', ''take_pct''] else pp_required pol)"

definition positive :: "rat option \<Rightarrow> bool" where
  "positive x = (case x of None \<Rightarrow> False | Some q \<Rightarrow> q > 0)"

definition executable_errors :: "py_lib \<Rightarrow> param_policy \<Rightarrow> json \<Rightarrow> string list" where
  "executable_errors px pol ps =
     (let missing = filter (\<lambda>k. \<not> jhas k ps) (required_keys pol);
          stop = num_of px (jget ''stop_pct'' ps); tk = num_of px (jget ''take_pct'' ps);
          hold = num_of px (jget ''hold_bars'' ps); rr = min_reward_risk pol
      in if missing \<noteq> [] then map (\<lambda>k. k @ '':required_executable'') missing
         else (if positive stop then [] else [''stop_pct:invalid_executable'']) @
              (if positive tk then [] else [''take_pct:invalid_executable'']) @
              (if positive hold \<and> is_intish px (jget ''hold_bars'' ps) then [] else [''hold_bars:invalid_executable'']) @
              (case (stop, tk) of
                 (Some s, Some t) \<Rightarrow>
                   if s \<noteq> 0 \<and> t \<noteq> 0 \<and> t < s * rr then [''take_pct:reward_risk_below_'' @ px_g px rr @ ''r''] else []
               | _ \<Rightarrow> []))"

definition validate_params :: "py_lib \<Rightarrow> param_policy \<Rightarrow> string \<Rightarrow> json \<Rightarrow> bool \<Rightarrow> exn + param_result" where
  "validate_params px pol sid ps require_executable =
     (case get_strategy sid of
        Inl e \<Rightarrow> Inr (failed_result [''unknown_strategy:'' @ sid])
      | Inr d \<Rightarrow>
          (case ps of
             JObj kvs \<Rightarrow>
               if kvs = [] then Inr (failed_result [''params_missing''])
               else
                 (let allowed = map fst (st_defaults d) @ map fst meta_enums;
                      unknown = sorted_set (filter (\<lambda>k. k \<notin> set allowed) (map fst kvs))
                  in case sequence_rows (map (item_errors px pol (st_defaults d)) kvs) of
                       Inl e \<Rightarrow> Inl e
                     | Inr ess \<Rightarrow>
                         Inr (result_of (map (\<lambda>k. k @ '':unknown_param'') unknown @ concat ess @
                                (if require_executable then executable_errors px pol ps else []))))
           | _ \<Rightarrow> Inr (failed_result [''params_missing''])))"

definition executable_params_ready :: "py_lib \<Rightarrow> param_policy \<Rightarrow> string \<Rightarrow> json \<Rightarrow> exn + bool" where
  "executable_params_ready px pol sid ps =
     (case validate_params px pol sid ps True of Inl e \<Rightarrow> Inl e | Inr r \<Rightarrow> Inr (pr_ok r))"

fun grid_errors :: "py_lib \<Rightarrow> param_policy \<Rightarrow> string \<Rightarrow> bool \<Rightarrow> int \<Rightarrow> json list \<Rightarrow> exn + string list" where
  "grid_errors px pol sid ex i [] = Inr []"
| "grid_errors px pol sid ex i (ps # vs) =
     (case validate_params px pol sid ps ex of
        Inl e \<Rightarrow> Inl e
      | Inr r \<Rightarrow>
          (case grid_errors px pol sid ex (i + 1) vs of
             Inl e \<Rightarrow> Inl e
           | Inr es \<Rightarrow> Inr (map (\<lambda>err. ''variant_'' @ px_str px (JInt i) @ '':'' @ err) (pr_errors r) @ es)))"

definition validate_parameter_grid :: "py_lib \<Rightarrow> param_policy \<Rightarrow> string \<Rightarrow> json list \<Rightarrow> bool \<Rightarrow> exn + param_result" where
  "validate_parameter_grid px pol sid vs ex =
     (if vs = [] then Inr (failed_result [''parameter_grid_empty''])
      else case grid_errors px pol sid ex 0 vs of Inl e \<Rightarrow> Inl e | Inr es \<Rightarrow> Inr (result_of es))"

definition validate_horizon :: "py_lib \<Rightarrow> param_policy \<Rightarrow> string \<Rightarrow> json \<Rightarrow> string list" where
  "validate_horizon px pol timeframe ps =
     (case map_of (pp_horizon pol) timeframe of
        None \<Rightarrow> []
      | Some (lo, hi) \<Rightarrow>
          (case num_of px (jget ''hold_bars'' ps) of
             None \<Rightarrow> []
           | Some hold \<Rightarrow>
               (case lo of None \<Rightarrow> []
                | Some l \<Rightarrow> if hold < num_rat l then [''hold_bars:horizon_below_'' @ px_str px (json_of_number l) @ ''_for_'' @ timeframe] else []) @
               (case hi of None \<Rightarrow> []
                | Some h \<Rightarrow> if hold > num_rat h then [''hold_bars:horizon_above_'' @ px_str px (json_of_number h) @ ''_for_'' @ timeframe] else [])))"

section \<open>Executable exits\<close>

definition dict_update :: "('k \<times> 'v) list \<Rightarrow> ('k \<times> 'v) list \<Rightarrow> ('k \<times> 'v) list" where
  "dict_update d kvs = foldl (\<lambda>acc (k, v). dict_set k v acc) d kvs"

definition fill_take :: "py_lib \<Rightarrow> param_policy \<Rightarrow> (string \<times> json) list \<Rightarrow> (string \<times> json) list" where
  "fill_take px pol out =
     (case num_of px (jget ''stop_pct'' (JObj out)) of
        None \<Rightarrow> out
      | Some stop \<Rightarrow>
          (let target = stop * min_reward_risk pol
           in if stop > 0 \<and> (case num_of px (jget ''take_pct'' (JObj out)) of None \<Rightarrow> True | Some tk \<Rightarrow> tk < target)
              then dict_set ''take_pct'' (JFloat (round6 target)) out else out))"

definition fill_hold :: "py_lib \<Rightarrow> strategy \<Rightarrow> (string \<times> json) list \<Rightarrow> exn + (string \<times> json) list" where
  "fill_hold px d out =
     (if positive (num_of px (jget ''hold_bars'' (JObj out))) then Inr out
      else case int_of_json (px_int px) (py_or (jget ''hold_bars'' (JObj (st_defaults d))) (JInt 5)) of
             Inl e \<Rightarrow> Inl e
           | Inr n \<Rightarrow> Inr (dict_set ''hold_bars'' (JInt n) out))"

definition executable_exit_params :: "py_lib \<Rightarrow> param_policy \<Rightarrow> string \<Rightarrow> (string \<times> json) list \<Rightarrow> exn + (string \<times> json) list" where
  "executable_exit_params px pol sid ps =
     (case get_strategy sid of
        Inl e \<Rightarrow> Inl e
      | Inr d \<Rightarrow> fill_hold px d (fill_take px pol (dict_update (st_defaults d) ps)))"

end
