(* ===== verification/Runtime_Policy.thy ===== *)
theory Runtime_Policy
  imports Param_Search
begin

text \<open>
  The limits a desktop worker runs under: the timeframe profiles (\<open>src/research_lab/timeframes.py\<close>), the
  resource policy with its night mode (\<open>src/research_lab/resource_policy.py\<close>), and their enforcement at run
  time (\<open>src/research_lab/runtime_policy.py\<close>).  A configuration file is its decoded value, \<open>None\<close> when there is
  no readable file.
\<close>

section \<open>Reading values\<close>

definition int_of_value :: "py_lib \<Rightarrow> json \<Rightarrow> exn + int" where
  "int_of_value px v =
     (case int_num px v of
        Some n \<Rightarrow> Inr n
      | None \<Rightarrow> (case v of JStr s \<Rightarrow> Inl (ValueError ''invalid literal for int'')
                         | _ \<Rightarrow> Inl (TypeError ''int() argument must be a string or a real number'')))"

fun join_text :: "string \<Rightarrow> string list \<Rightarrow> string" where
  "join_text sep [] = []"
| "join_text sep [s] = s"
| "join_text sep (s # t # ss) = s @ sep @ join_text sep (t # ss)"

section \<open>Timeframe profiles\<close>

record timeframe_profile =
  tp_timeframe :: string
  tp_role :: string
  tp_use :: string
  tp_symbols :: int
  tp_variants :: int
  tp_trigger_only :: bool
  tp_window_hours :: "int option"
  tp_event_windows :: "int option"
  tp_comment :: string

type_synonym timeframe_profiles = "(string \<times> timeframe_profile) list"

definition profile_required :: "string list" where
  "profile_required = [''role'', ''default_use'', ''max_symbols_per_cycle'', ''max_variants_per_setup'']"

definition optional_int :: "py_lib \<Rightarrow> json \<Rightarrow> exn + int option" where
  "optional_int px v =
     (if v = JNull then Inr None else case int_of_value px v of Inl e \<Rightarrow> Inl e | Inr n \<Rightarrow> Inr (Some n))"

definition parse_profile :: "py_lib \<Rightarrow> string \<Rightarrow> json \<Rightarrow> exn + timeframe_profile" where
  "parse_profile px name body =
     (if \<not> is_obj body then Inl (ValueError ''timeframe profile must be a mapping'')
      else if \<not> list_all (\<lambda>k. jhas k body) profile_required
      then Inl (ValueError ''timeframe profile missing required key'')
      else
        case int_of_value px (jget ''max_symbols_per_cycle'' body) of Inl e \<Rightarrow> Inl e | Inr symbols \<Rightarrow>
        (case int_of_value px (jget ''max_variants_per_setup'' body) of Inl e \<Rightarrow> Inl e | Inr variants \<Rightarrow>
        (case optional_int px (jget ''max_window_hours'' body) of Inl e \<Rightarrow> Inl e | Inr window \<Rightarrow>
        (case optional_int px (jget ''max_event_windows'' body) of Inl e \<Rightarrow> Inl e | Inr event_windows \<Rightarrow>
           Inr \<lparr>tp_timeframe = name, tp_role = py_text (px_str px) (jget ''role'' body),
                tp_use = py_text (px_str px) (jget ''default_use'' body), tp_symbols = symbols,
                tp_variants = variants, tp_trigger_only = truthy (jget ''trigger_only'' body),
                tp_window_hours = window, tp_event_windows = event_windows,
                tp_comment = (if jhas ''comment'' body then py_text (px_str px) (jget ''comment'' body) else [])\<rparr>))))"

fun parse_profiles ::
  "py_lib \<Rightarrow> (string \<times> json) list \<Rightarrow> timeframe_profiles \<Rightarrow> exn + timeframe_profiles" where
  "parse_profiles px [] acc = Inr acc"
| "parse_profiles px ((name, body) # rest) acc =
     (case parse_profile px (text_lower name) body of
        Inl e \<Rightarrow> Inl e
      | Inr p \<Rightarrow> parse_profiles px rest (dict_set (text_lower name) p acc))"

definition load_timeframe_profiles :: "py_lib \<Rightarrow> json \<Rightarrow> exn + timeframe_profiles" where
  "load_timeframe_profiles px data =
     (if \<not> is_obj data then Inl (ValueError ''config must be a mapping at the top level'')
      else if \<not> jhas ''profiles'' data then Inl (ValueError ''config missing required key: profiles'')
      else case jget ''profiles'' data of
             JObj kvs \<Rightarrow>
               if kvs = [] then Inl (ValueError ''timeframe_profiles profiles must be a non-empty mapping'')
               else parse_profiles px kvs []
           | _ \<Rightarrow> Inl (ValueError ''timeframe_profiles profiles must be a non-empty mapping''))"

text \<open>\<open>TimeframeProfiles.get\<close>: the error lists the names that are known.\<close>

definition known_names :: "timeframe_profiles \<Rightarrow> string" where
  "known_names profiles =
     (let names = join_text '', '' (map fst profiles) in if names = [] then ''<none>'' else names)"

definition profile_get :: "timeframe_profiles \<Rightarrow> string \<Rightarrow> timeframe_profile option" where
  "profile_get profiles timeframe = map_of profiles (text_lower timeframe)"

section \<open>Resource policy\<close>

record resource_policy =
  rp_mode :: string
  rp_workers :: int
  rp_queue :: int
  rp_variants :: int
  rp_refill :: int
  rp_generate :: int
  rp_gap :: int
  rp_hourly :: int
  rp_heavy :: bool
  rp_1m :: string
  rp_priority :: string
  rp_llm :: bool

definition norm_1m :: "py_lib \<Rightarrow> json \<Rightarrow> string" where
  "norm_1m px v =
     (case v of JBool b \<Rightarrow> if b then ''true'' else ''false'' | _ \<Rightarrow> text_lower (text_strip (py_text (px_str px) v)))"

definition allows_1m :: "resource_policy \<Rightarrow> string \<Rightarrow> bool" where
  "allows_1m pol resource_class =
     (if rp_1m pol \<in> {''false'', ''none'', ''no''} then False
      else if rp_1m pol \<in> {''true'', ''all'', ''yes''} then True
      else resource_class = ''event_1m'')"

definition policy_required :: "string list" where
  "policy_required = [''mode'', ''max_workers'', ''max_queue_size'', ''max_variants_per_job'',
     ''autopilot_refill_when_queue_below'', ''autopilot_generate_max'', ''min_seconds_between_jobs'',
     ''max_jobs_per_hour'', ''allow_heavy_jobs'', ''allow_1m_jobs'', ''process_priority'', ''llm_auto_execute'']"

text \<open>\<open>with_night_mode\<close>: only the listed keys are read, and only when they are there.\<close>

definition night_int_keys :: "(string \<times> (int \<Rightarrow> resource_policy \<Rightarrow> resource_policy)) list" where
  "night_int_keys =
     [(''max_queue_size'', \<lambda>n p. p\<lparr>rp_queue := n\<rparr>), (''max_variants_per_job'', \<lambda>n p. p\<lparr>rp_variants := n\<rparr>),
      (''autopilot_generate_max'', \<lambda>n p. p\<lparr>rp_generate := n\<rparr>), (''min_seconds_between_jobs'', \<lambda>n p. p\<lparr>rp_gap := n\<rparr>),
      (''max_jobs_per_hour'', \<lambda>n p. p\<lparr>rp_hourly := n\<rparr>)]"

fun night_ints :: "py_lib \<Rightarrow> json \<Rightarrow> (string \<times> (int \<Rightarrow> resource_policy \<Rightarrow> resource_policy)) list
    \<Rightarrow> resource_policy \<Rightarrow> exn + resource_policy" where
  "night_ints px night [] p = Inr p"
| "night_ints px night ((key, upd) # rest) p =
     (if jhas key night then
        (case int_of_value px (jget key night) of Inl e \<Rightarrow> Inl e | Inr n \<Rightarrow> night_ints px night rest (upd n p))
      else night_ints px night rest p)"

definition with_night_mode :: "py_lib \<Rightarrow> json \<Rightarrow> resource_policy \<Rightarrow> exn + resource_policy" where
  "with_night_mode px night p =
     (case night_ints px night night_int_keys p of
        Inl e \<Rightarrow> Inl e
      | Inr p2 \<Rightarrow>
          (let p3 = (if jhas ''allow_heavy_jobs'' night then p2\<lparr>rp_heavy := truthy (jget ''allow_heavy_jobs'' night)\<rparr> else p2)
           in Inr (if jhas ''allow_1m_jobs'' night then p3\<lparr>rp_1m := norm_1m px (jget ''allow_1m_jobs'' night)\<rparr> else p3)))"

definition policy_of :: "py_lib \<Rightarrow> json \<Rightarrow> exn + resource_policy" where
  "policy_of px data =
     (let txt = (\<lambda>k. py_text (px_str px) (jget k data)); flag = (\<lambda>k. truthy (jget k data))
      in case sequence_rows (map (\<lambda>k. int_of_value px (jget k data))
                [''max_workers'', ''max_queue_size'', ''max_variants_per_job'', ''autopilot_refill_when_queue_below'',
                 ''autopilot_generate_max'', ''min_seconds_between_jobs'', ''max_jobs_per_hour'']) of
           Inl e \<Rightarrow> Inl e
         | Inr ns \<Rightarrow>
             Inr \<lparr>rp_mode = txt ''mode'', rp_workers = ns ! 0, rp_queue = ns ! 1, rp_variants = ns ! 2,
                  rp_refill = ns ! 3, rp_generate = ns ! 4, rp_gap = ns ! 5, rp_hourly = ns ! 6,
                  rp_heavy = flag ''allow_heavy_jobs'', rp_1m = norm_1m px (jget ''allow_1m_jobs'' data),
                  rp_priority = txt ''process_priority'', rp_llm = flag ''llm_auto_execute''\<rparr>)"

definition load_resource_policy :: "py_lib \<Rightarrow> json \<Rightarrow> bool \<Rightarrow> exn + resource_policy" where
  "load_resource_policy px data night_mode =
     (if \<not> is_obj data then Inl (ValueError ''config must be a mapping at the top level'')
      else if \<not> list_all (\<lambda>k. jhas k data) policy_required then Inl (ValueError ''config missing required key'')
      else case policy_of px data of
             Inl e \<Rightarrow> Inl e
           | Inr p \<Rightarrow>
               if \<not> night_mode then Inr p
               else if \<not> is_obj (py_or (jget ''night_mode'' data) (JObj []))
               then Inl (ValueError ''resource_policy night_mode must be a mapping when present'')
               else with_night_mode px (py_or (jget ''night_mode'' data) (JObj [])) p)"

section \<open>Cadence\<close>

record cadence_decision =
  cd_allowed :: bool
  cd_wait :: int
  cd_reason :: string

text \<open>\<open>evaluate_cadence\<close>. A policy of no jobs per hour indexes an empty window when no job ran lately.\<close>

definition starts_until :: "time \<Rightarrow> time list \<Rightarrow> time list" where
  "starts_until now recent = sort (filter (\<lambda>s. s \<le> now) recent)"

definition too_close :: "resource_policy \<Rightarrow> time list \<Rightarrow> time \<Rightarrow> bool" where
  "too_close pol starts now \<longleftrightarrow> starts \<noteq> [] \<and> now - last starts < of_int (rp_gap pol)"

definition hour_window :: "time \<Rightarrow> time list \<Rightarrow> time list" where
  "hour_window now starts = filter (\<lambda>s. now - s < 3600) starts"

definition evaluate_cadence :: "resource_policy \<Rightarrow> time list \<Rightarrow> time \<Rightarrow> exn + cadence_decision" where
  "evaluate_cadence pol recent now =
     (let starts = starts_until now recent; window = hour_window now starts
      in if too_close pol starts now
         then Inr \<lparr>cd_allowed = False, cd_wait = max 1 (floor (of_int (rp_gap pol) - (now - last starts))),
                   cd_reason = ''min_seconds_between_jobs''\<rparr>
         else if int (length window) \<ge> rp_hourly pol then
           (case window of
              [] \<Rightarrow> Inl (IndexError ''list index out of range'')
            | first # _ \<Rightarrow> Inr \<lparr>cd_allowed = False, cd_wait = max 1 (floor (3600 - (now - first))),
                              cd_reason = ''max_jobs_per_hour''\<rparr>)
         else Inr \<lparr>cd_allowed = True, cd_wait = 0, cd_reason = ''ok''\<rparr>)"

definition effective_variant_cap :: "resource_policy \<Rightarrow> int \<Rightarrow> int \<times> bool" where
  "effective_variant_cap pol spec_max_runs =
     (let cap = max 1 (rp_variants pol)
      in if spec_max_runs > 0 then (min spec_max_runs cap, spec_max_runs > cap) else (cap, True))"

text \<open>The cadence file: items that are no number are skipped.\<close>

definition load_recent_starts :: "py_lib \<Rightarrow> json option \<Rightarrow> time list" where
  "load_recent_starts px content =
     (case content of
        Some (JArr items) \<Rightarrow> concat (map (\<lambda>v. case num_of px v of None \<Rightarrow> [] | Some q \<Rightarrow> [q]) items)
      | _ \<Rightarrow> [])"

definition retain_seconds :: rat where
  "retain_seconds = 7200"

definition record_start :: "py_lib \<Rightarrow> json option \<Rightarrow> time \<Rightarrow> json option" where
  "record_start px content now =
     Some (JArr (map JFloat (sort (filter (\<lambda>s. now - s < retain_seconds) (load_recent_starts px content) @ [now]))))"

text \<open>
  The pass of \<open>run_once\<close> in \<open>scripts/strategy_lab/worker_once.py\<close> up to the claim: a refused cadence defers, unless
  the caller asked to ignore the cadence (the farm loops do); an empty queue records nothing, a claimed job is
  recorded as started.
\<close>

datatype pass_result = Deferred string int | Queue_Empty | Started

definition worker_gate ::
  "py_lib \<Rightarrow> resource_policy \<Rightarrow> json option \<Rightarrow> bool \<Rightarrow> time \<Rightarrow> bool \<Rightarrow> exn + (pass_result \<times> json option)" where
  "worker_gate px pol content ignore_cadence now job =
     (let decision =
        (if ignore_cadence then Inr None else map_sum id Some (evaluate_cadence pol (load_recent_starts px content) now))
      in case decision of
           Inl e \<Rightarrow> Inl e
         | Inr refused \<Rightarrow>
             (case (case refused of None \<Rightarrow> None | Some d \<Rightarrow> if \<not> cd_allowed d then Some d else None) of
                Some d \<Rightarrow> Inr (Deferred (cd_reason d) (cd_wait d), content)
              | None \<Rightarrow>
                  if \<not> job then Inr (Queue_Empty, content)
                  else Inr (Started, record_start px content now)))"

text \<open>The starts of a worker that is run at the given times, with a job waiting or not and with the cadence
  ignored or not; a pass that raises leaves the file alone.\<close>

fun worker_starts ::
  "py_lib \<Rightarrow> resource_policy \<Rightarrow> json option \<Rightarrow> (time \<times> bool \<times> bool) list \<Rightarrow> (time \<times> bool) list" where
  "worker_starts px pol content [] = []"
| "worker_starts px pol content ((now, job, ignore_cadence) # passes) =
     (case worker_gate px pol content ignore_cadence now job of
        Inl e \<Rightarrow> worker_starts px pol content passes
      | Inr (Started, content2) \<Rightarrow> (now, ignore_cadence) # worker_starts px pol content2 passes
      | Inr (_, content2) \<Rightarrow> worker_starts px pol content2 passes)"

end
