(* ===== verification/Sweep_Spec.thy ===== *)
theory Sweep_Spec
  imports Runtime_Policy
begin

text \<open>
  What a coarse sweep would run and the gates it must pass, \<open>src/research_lab/sweep_spec.py\<close>, and the grids the
  farm builds for a family, \<open>src/research_lab/farm_sweep_runner.py\<close>.  A grid is a dict from a parameter to its
  levels.  The probe of the GPU (the reason it is unavailable, if it is) and the test whether a path lies inside
  the repository are arguments.
\<close>

section \<open>The spec\<close>

type_synonym grid = "(string \<times> json list) list"

record sweep_spec =
  sw_id :: string
  sw_anchor :: string
  sw_related :: "string list"
  sw_timeframe :: string
  sw_family :: string
  sw_setup :: grid
  sw_entry :: grid
  sw_exit :: grid
  sw_filter :: grid
  sw_max_variants :: int
  sw_backend :: string
  sw_class :: string
  sw_output :: string
  sw_tier :: string
  sw_parent_family :: string
  sw_parent_trial :: string
  sw_parent_trials :: int
  sw_policy :: string

definition backends :: "string list" where
  "backends = [''cpu'', ''gpu'', ''auto'']"

definition resource_classes :: "string list" where
  "resource_classes = [''light'', ''normal'', ''heavy'', ''event_1m'']"

definition private_output_tokens :: "string list" where
  "private_output_tokens = [''private_only'', ''private_registry'']"

definition symbol_scope :: "sweep_spec \<Rightarrow> int" where
  "symbol_scope spec = 1 + int (length (sw_related spec))"

definition grid_count :: "grid \<Rightarrow> int" where
  "grid_count g = prod_list (map (\<lambda>(k, vs). if vs = [] then 1 else int (length vs)) g)"

definition variant_count :: "sweep_spec \<Rightarrow> int" where
  "variant_count spec = grid_count (sw_setup spec) * grid_count (sw_entry spec) * grid_count (sw_exit spec)"

section \<open>Validation\<close>

text \<open>One constructor per message, and the message.\<close>

datatype sweep_error =
    Unknown_Backend string
  | Gpu_Unavailable string
  | Unknown_Class string
  | Unknown_Timeframe string string
  | Variant_Grid int int
  | Trigger_Class
  | Trigger_Scope int int
  | Trigger_Policy
  | Heavy_Rejected string
  | Event_Rejected
  | Output_Unset
  | Output_Inside

fun sweep_error_text :: "py_lib \<Rightarrow> sweep_error \<Rightarrow> string" where
  "sweep_error_text px (Unknown_Backend b) =
     ''unknown backend '' @ [CHR 39] @ b @ [CHR 39] @ '' (allowed: cpu, gpu, auto)''"
| "sweep_error_text px (Gpu_Unavailable r) = ''backend '' @ [CHR 39] @ ''gpu'' @ [CHR 39] @ '' requested but unavailable: '' @ r"
| "sweep_error_text px (Unknown_Class c) = ''unknown resource_class '' @ [CHR 39] @ c @ [CHR 39]"
| "sweep_error_text px (Unknown_Timeframe tf known) =
     ''unknown timeframe '' @ [CHR 39] @ tf @ [CHR 39] @ '' (known: '' @ known @ '')''"
| "sweep_error_text px (Variant_Grid n m) =
     ''variant grid ('' @ px_str px (JInt n) @ '') exceeds max_variants ('' @ px_str px (JInt m) @ '')''"
| "sweep_error_text px Trigger_Class =
     ''1m/trigger-only timeframe requires resource_class '' @ [CHR 39] @ ''event_1m'' @ [CHR 39]"
| "sweep_error_text px (Trigger_Scope n m) =
     ''1m scope '' @ px_str px (JInt n) @ '' exceeds max_symbols_per_cycle '' @ px_str px (JInt m) @
     '' (trigger-only microscope, not full-universe)''"
| "sweep_error_text px Trigger_Policy = ''resource policy does not allow 1m jobs in this mode''"
| "sweep_error_text px (Heavy_Rejected mode) =
     ''heavy job rejected under resource policy mode '' @ [CHR 39] @ mode @ [CHR 39]"
| "sweep_error_text px Event_Rejected = ''event_1m job rejected by resource policy''"
| "sweep_error_text px Output_Unset = ''private_output_policy must be set''"
| "sweep_error_text px Output_Inside = ''private_output_policy points inside the public repo (must stay private)''"

record sweep_validation =
  sv_ok :: bool
  sv_errors :: "sweep_error list"
  sv_notes :: "string list"
  sv_effective :: int

definition tier_mult :: "(string \<times> int) list" where
  "tier_mult = [(''smoke'', 1), (''normal'', 2), (''deep'', 4)]"

definition abs_variant_cap :: int where
  "abs_variant_cap = 64"

definition tiered_cap :: "sweep_spec \<Rightarrow> int \<Rightarrow> int" where
  "tiered_cap spec profile_cap =
     min (profile_cap * (case map_of tier_mult (sw_tier spec) of None \<Rightarrow> 1 | Some m \<Rightarrow> m)) abs_variant_cap"

definition effective_variants :: "sweep_spec \<Rightarrow> int \<Rightarrow> int" where
  "effective_variants spec profile_cap = min (max 1 (sw_max_variants spec)) (tiered_cap spec profile_cap)"

definition check_variants :: "py_lib \<Rightarrow> sweep_spec \<Rightarrow> int \<Rightarrow> sweep_error list \<times> string list \<times> int" where
  "check_variants px spec profile_cap =
     (let effective = effective_variants spec profile_cap
      in (if variant_count spec > effective then [Variant_Grid (variant_count spec) effective] else [],
          if sw_max_variants spec > tiered_cap spec profile_cap
          then [''max_variants clipped from '' @ px_str px (JInt (sw_max_variants spec)) @ '' to '' @
                px_str px (JInt effective) @ '' (tier='' @ sw_tier spec @ '', profile_cap='' @
                px_str px (JInt profile_cap) @ '')'']
          else [],
          effective))"

definition backend_gate :: "string option \<Rightarrow> sweep_spec \<Rightarrow> sweep_error list" where
  "backend_gate gpu spec =
     (if sw_backend spec \<notin> set backends then [Unknown_Backend (sw_backend spec)]
      else if sw_backend spec = ''gpu'' then (case gpu of None \<Rightarrow> [] | Some reason \<Rightarrow> [Gpu_Unavailable reason])
      else [])"

definition timeframe_gates :: "sweep_spec \<Rightarrow> timeframe_profile \<Rightarrow> resource_policy \<Rightarrow> sweep_error list" where
  "timeframe_gates spec profile pol =
     (if \<not> tp_trigger_only profile then []
      else (if sw_class spec \<noteq> ''event_1m'' then [Trigger_Class] else []) @
           (if symbol_scope spec > tp_symbols profile then [Trigger_Scope (symbol_scope spec) (tp_symbols profile)] else []) @
           (if \<not> allows_1m pol (sw_class spec) then [Trigger_Policy] else []))"

definition resource_gates :: "sweep_spec \<Rightarrow> resource_policy \<Rightarrow> sweep_error list" where
  "resource_gates spec pol =
     (if sw_class spec = ''heavy'' \<and> \<not> rp_heavy pol then [Heavy_Rejected (rp_mode pol)] else []) @
     (if sw_class spec = ''event_1m'' \<and> \<not> allows_1m pol ''event_1m'' then [Event_Rejected] else [])"

definition output_gate :: "(string \<Rightarrow> bool) \<Rightarrow> sweep_spec \<Rightarrow> sweep_error list" where
  "output_gate inside spec =
     (let value = text_strip (sw_output spec)
      in if value = [] then [Output_Unset]
         else if value \<in> set private_output_tokens then []
         else if inside value then [Output_Inside] else [])"

definition validate_sweep_spec ::
  "py_lib \<Rightarrow> string option \<Rightarrow> (string \<Rightarrow> bool) \<Rightarrow> timeframe_profiles \<Rightarrow> resource_policy \<Rightarrow> sweep_spec \<Rightarrow> sweep_validation" where
  "validate_sweep_spec px gpu inside profiles pol spec =
     (let profile = profile_get profiles (sw_timeframe spec);
          (variant_errors, notes, effective) =
            (case profile of None \<Rightarrow> ([], [], max 1 (sw_max_variants spec)) | Some p \<Rightarrow> check_variants px spec (tp_variants p));
          errors =
            backend_gate gpu spec @
            (if sw_class spec \<notin> set resource_classes then [Unknown_Class (sw_class spec)] else []) @
            (case profile of
               None \<Rightarrow> [Unknown_Timeframe (sw_timeframe spec) (known_names profiles)]
             | Some p \<Rightarrow> variant_errors @ timeframe_gates spec p pol) @
            resource_gates spec pol @ output_gate inside spec
      in \<lparr>sv_ok = (errors = []), sv_errors = errors, sv_notes = notes, sv_effective = effective\<rparr>)"

definition ensure_valid ::
  "py_lib \<Rightarrow> string option \<Rightarrow> (string \<Rightarrow> bool) \<Rightarrow> timeframe_profiles \<Rightarrow> resource_policy \<Rightarrow> sweep_spec
     \<Rightarrow> exn + sweep_validation" where
  "ensure_valid px gpu inside profiles pol spec =
     (let r = validate_sweep_spec px gpu inside profiles pol spec
      in if sv_ok r then Inr r
         else Inl (ValueError (''invalid sweep spec: '' @ join_text ''; '' (map (sweep_error_text px) (sv_errors r)))))"

section \<open>Grids of the farm\<close>

definition dynamic_exit_modes :: "string list" where
  "dynamic_exit_modes = [''baseline'', ''trailing'', ''trailing_tight'', ''break_even'', ''partial_tp'']"

record dimension_cfg =
  dc_size :: "rat list"
  dc_stop :: "rat list"
  dc_rr :: "rat list"
  dc_hold :: "rat list"

definition default_tier :: string where
  "default_tier = ''normal''"

definition sweep_tiers :: "(string \<times> dimension_cfg) list" where
  "sweep_tiers =
     [(''smoke'', \<lparr>dc_size = [1], dc_stop = [1], dc_rr = [2], dc_hold = [1 / 2, 1]\<rparr>),
      (''normal'', \<lparr>dc_size = [1 / 2, 1, 8 / 5], dc_stop = [7 / 10, 1], dc_rr = [2, 3], dc_hold = [1 / 2, 1]\<rparr>),
      (''deep'', \<lparr>dc_size = [1 / 2, 1, 8 / 5], dc_stop = [7 / 10, 1, 7 / 5], dc_rr = [2, 3], dc_hold = [1 / 2, 1, 2]\<rparr>)]"

definition max_sweep_variants :: int where
  "max_sweep_variants = 48"

definition replace_char :: "char \<Rightarrow> char \<Rightarrow> string \<Rightarrow> string" where
  "replace_char a b s = map (\<lambda>c. if c = a then b else c) s"

definition safe_symbol :: "string \<Rightarrow> string" where
  "safe_symbol symbol = text_upper (replace_char CHR ''/'' CHR ''_'' (replace_char CHR ''-'' CHR ''_'' symbol))"

definition int_levels :: "int \<Rightarrow> rat list \<Rightarrow> int list" where
  "int_levels base factors = sorted_set (map (\<lambda>f. max 2 (round_even (of_int base * f))) factors)"

definition num_levels :: "rat \<Rightarrow> rat list \<Rightarrow> rat option \<Rightarrow> rat option \<Rightarrow> rat list" where
  "num_levels base factors minimum maximum =
     (if base \<noteq> 0 then sorted_set (map (\<lambda>f. round6 (base * f)) (filter (\<lambda>f. base * f > 0) factors))
      else case (minimum, maximum) of
        (Some lo, Some hi) \<Rightarrow>
          if hi \<le> lo then [0]
          else sorted_set (map (\<lambda>fraction. round6 (lo + (hi - lo) * fraction)) [0, 1 / 4, 1 / 2, 3 / 4, 1])
      | _ \<Rightarrow> [0])"

text \<open>\<open>_normal_dimensions\<close>: the set as a list without order.\<close>

definition dimension_tags :: "string \<Rightarrow> string list" where
  "dimension_tags raw =
     (let txt = text_strip (replace_char CHR ''-'' CHR ''_'' (text_lower raw));
          has = (\<lambda>w. sublist w txt)
      in (if has ''entry'' \<or> has ''timing'' then [''entry_timing''] else []) @
         (if has ''stop'' \<or> has ''risk'' then [''stop''] else []) @
         (if has ''take'' \<or> has ''profit'' \<or> has ''rr'' then [''take_profit''] else []) @
         (if has ''hold'' \<or> has ''time'' \<or> has ''horizon'' then [''hold''] else []) @
         (if has ''trail'' \<or> has ''break_even'' \<or> has ''partial'' \<or> has ''exit_mode'' then [''dynamic_exit''] else []) @
         (if has ''regime'' \<or> has ''filter'' then [''regime_filter''] else []))"

definition normal_dimensions :: "string list \<Rightarrow> string list" where
  "normal_dimensions dims = remdups (concat (map dimension_tags dims))"

definition widen :: "rat list \<Rightarrow> rat list \<Rightarrow> rat list" where
  "widen xs ys = sorted_set (xs @ ys)"

definition tier_cfg :: "string \<Rightarrow> dimension_cfg" where
  "tier_cfg tier =
     (case map_of sweep_tiers tier of
        Some c \<Rightarrow> c
      | None \<Rightarrow> (case map_of sweep_tiers default_tier of Some c \<Rightarrow> c | None \<Rightarrow> \<lparr>dc_size = [], dc_stop = [], dc_rr = [], dc_hold = []\<rparr>))"

definition dimension_cfg_of :: "string \<Rightarrow> string list \<Rightarrow> dimension_cfg" where
  "dimension_cfg_of tier dims =
     (let c0 = tier_cfg tier;
          c1 = (if ''dynamic_exit'' \<in> set dims then \<lparr>dc_size = [1], dc_stop = [1], dc_rr = [2], dc_hold = [1]\<rparr> else c0);
          c2 = (if ''entry_timing'' \<in> set dims then c1\<lparr>dc_size := widen (dc_size c1) [7 / 20, 3 / 4, 5 / 4, 2]\<rparr> else c1);
          c3 = (if ''stop'' \<in> set dims then c2\<lparr>dc_stop := widen (dc_stop c2) [9 / 20, 3 / 5, 5 / 4, 8 / 5]\<rparr> else c2);
          c4 = (if ''take_profit'' \<in> set dims then c3\<lparr>dc_rr := widen (dc_rr c3) [3 / 2, 5 / 2, 4, 5]\<rparr> else c3)
      in if ''hold'' \<in> set dims then c4\<lparr>dc_hold := widen (dc_hold c4) [7 / 20, 3 / 4, 3 / 2, 5 / 2, 3]\<rparr> else c4)"

definition exit_keys :: "string list" where
  "exit_keys = [''hold_bars'', ''stop_pct'', ''take_pct'']"

text \<open>The levels of one searched axis: those inside its range, or its base alone.\<close>

definition axis_levels :: "py_lib \<Rightarrow> rat list \<Rightarrow> search_axis \<Rightarrow> json \<Rightarrow> exn + json list" where
  "axis_levels px sizes axis base =
     (case (if ax_type axis = ''int''
            then (case int_of_value px base of Inl e \<Rightarrow> Inl e | Inr b \<Rightarrow> Inr (map JInt (int_levels b sizes)))
            else (case float_of px base of Inl e \<Rightarrow> Inl e
                  | Inr b \<Rightarrow> Inr (map JFloat (num_levels b sizes (Some (ax_min axis)) (Some (ax_max axis)))))) of
        Inl e \<Rightarrow> Inl e
      | Inr levels \<Rightarrow>
          (let kept = filter (\<lambda>v. case num_of px v of None \<Rightarrow> False | Some q \<Rightarrow> ax_min axis \<le> q \<and> q \<le> ax_max axis) levels
           in Inr (if kept = [] then [base] else kept)))"

fun setup_axes :: "py_lib \<Rightarrow> rat list \<Rightarrow> (string \<times> json) list \<Rightarrow> search_axis list \<Rightarrow> grid \<Rightarrow> exn + grid" where
  "setup_axes px sizes defaults [] g = Inr g"
| "setup_axes px sizes defaults (axis # axes) g =
     (case map_of defaults (ax_name axis) of
        None \<Rightarrow> Inl (KeyError (ax_name axis))
      | Some base \<Rightarrow>
          (case axis_levels px sizes axis base of
             Inl e \<Rightarrow> Inl e
           | Inr levels \<Rightarrow> setup_axes px sizes defaults axes (dict_set (ax_name axis) levels g)))"

text \<open>The stop and take levels: every take is a multiple of the largest stop.\<close>

definition number_base :: "json \<Rightarrow> rat option" where
  "number_base v = (case v of JInt n \<Rightarrow> Some (of_int n) | JFloat q \<Rightarrow> Some q | JBool b \<Rightarrow> Some (if b then 1 else 0) | _ \<Rightarrow> None)"

definition stop_take_levels :: "dimension_cfg \<Rightarrow> rat \<Rightarrow> exn + rat list \<times> rat list" where
  "stop_take_levels cfg base_stop =
     (let stops = num_levels base_stop (dc_stop cfg) None None
      in if stops = [] then Inl (ValueError ''max() arg is an empty sequence'')
         else Inr (stops, sorted_set (map (\<lambda>rr. round6 (Max (set stops) * rr)) (dc_rr cfg))))"

definition stop_take_grid :: "dimension_cfg \<Rightarrow> json \<Rightarrow> exn + grid" where
  "stop_take_grid cfg base =
     (case number_base base of
        None \<Rightarrow> Inr []
      | Some q \<Rightarrow>
          if q \<le> 0 then Inr []
          else case stop_take_levels cfg q of
                 Inl e \<Rightarrow> Inl e
               | Inr (stops, takes) \<Rightarrow> Inr [(''stop_pct'', map JFloat stops), (''take_pct'', map JFloat takes)])"

definition hold_grid :: "py_lib \<Rightarrow> dimension_cfg \<Rightarrow> (string \<times> json) list \<Rightarrow> exn + grid" where
  "hold_grid px cfg defaults =
     (case map_of defaults ''hold_bars'' of
        None \<Rightarrow> Inr []
      | Some v \<Rightarrow>
          (case int_of_value px v of
             Inl e \<Rightarrow> Inl e
           | Inr n \<Rightarrow> Inr [(''hold_bars'', map JInt (int_levels n (dc_hold cfg)))]))"

definition exit_grid_of :: "py_lib \<Rightarrow> dimension_cfg \<Rightarrow> string list \<Rightarrow> (string \<times> json) list \<Rightarrow> exn + grid" where
  "exit_grid_of px cfg dims defaults =
     (case stop_take_grid cfg (jget ''stop_pct'' (JObj defaults)) of
        Inl e \<Rightarrow> Inl e
      | Inr st \<Rightarrow>
          (case hold_grid px cfg defaults of
             Inl e \<Rightarrow> Inl e
           | Inr holds \<Rightarrow>
               Inr (st @ holds @
                    (if ''dynamic_exit'' \<in> set dims then [(''exit_mode'', map JStr dynamic_exit_modes)] else []))))"

definition family_grids ::
  "py_lib \<Rightarrow> param_policy \<Rightarrow> string \<Rightarrow> (string \<times> json) list \<Rightarrow> string \<Rightarrow> string list \<Rightarrow> exn + grid \<times> grid" where
  "family_grids px pol family defaults tier dimensions =
     (let dims = normal_dimensions dimensions; cfg = dimension_cfg_of tier dims;
          setup = map (\<lambda>(k, v). (k, [v])) (filter (\<lambda>(k, v). k \<notin> set exit_keys) defaults)
      in case parameter_search_contract px pol family of
           Inl e \<Rightarrow> Inl e
         | Inr contract \<Rightarrow>
             (case setup_axes px (dc_size cfg) defaults (sc_axes contract) setup of
                Inl e \<Rightarrow> Inl e
              | Inr setup2 \<Rightarrow>
                  (case exit_grid_of px cfg dims defaults of
                     Inl e \<Rightarrow> Inl e
                   | Inr exits \<Rightarrow> Inr (setup2, exits))))"

definition build_sweep_spec ::
  "py_lib \<Rightarrow> param_policy \<Rightarrow> string \<Rightarrow> string \<Rightarrow> string \<Rightarrow> string option \<Rightarrow> string \<Rightarrow> string \<Rightarrow> int \<Rightarrow> string list
     \<Rightarrow> exn + sweep_spec" where
  "build_sweep_spec px pol symbol timeframe family fingerprint backend tier0 max_variants dimensions =
     (let tier = (if map_of sweep_tiers tier0 = None then default_tier else tier0);
          fp = (if str_or fingerprint = [] then ''nofp'' else str_or fingerprint);
          dims = sort (normal_dimensions dimensions);
          dim_tag = (if dims = [] then [] else ''_'' @ List.take 36 (join_text ''_'' dims))
      in case get_strategy family of
           Inl e \<Rightarrow> Inl e
         | Inr d \<Rightarrow>
             (case executable_exit_params px pol family (st_defaults d) of
                Inl e \<Rightarrow> Inl e
              | Inr defaults \<Rightarrow>
                  (case family_grids px pol family defaults tier dimensions of
                     Inl e \<Rightarrow> Inl e
                   | Inr (setup, exits) \<Rightarrow>
                       Inr \<lparr>sw_id = ''farm_'' @ safe_symbol symbol @ ''_'' @ timeframe @ ''_'' @ family @ ''_'' @ tier @
                                    dim_tag @ ''_'' @ List.take 10 fp,
                            sw_anchor = symbol, sw_related = [], sw_timeframe = timeframe, sw_family = family,
                            sw_setup = setup, sw_entry = [], sw_exit = exits, sw_filter = [],
                            sw_max_variants = max_variants, sw_backend = backend, sw_class = ''normal'',
                            sw_output = ''private_only'', sw_tier = tier, sw_parent_family = [], sw_parent_trial = [],
                            sw_parent_trials = 0, sw_policy = ''independent''\<rparr>)))"

end
