(* ===== verification/Sweep_Expand.thy ===== *)
theory Sweep_Expand
  imports Sweep_Spec
begin

text \<open>
  The bounded sampler of a parameter grid, \<open>expand_grids_bounded\<close> of \<open>src/research_lab/sweep_compile.py\<close>: a
  point of the grid is its flat index, decoded digit by digit, so the Cartesian product is never built.  The
  pseudo-random draws of Python's generator are an argument: \<open>sa_rng seed k\<close> is the \<open>k\<close>-th number drawn after
  seeding, and a draw from \<open>n\<close> choices is that number modulo \<open>n\<close>.  The loop that draws until enough points are
  chosen takes the number of draws it may make, and is \<open>None\<close> when they do not suffice.  The sampler is the
  one with a strategy id and an audit, as every compilation calls it; the progress callback is left out.
\<close>

section \<open>Results\<close>

type_synonym 'a run = "(exn + 'a) option"

definition then_run :: "'a run \<Rightarrow> ('a \<Rightarrow> 'b run) \<Rightarrow> 'b run" where
  "then_run m f = (case m of None \<Rightarrow> None | Some (Inl e) \<Rightarrow> Some (Inl e) | Some (Inr x) \<Rightarrow> f x)"

record sampler =
  sa_px :: py_lib
  sa_policy :: param_policy
  sa_rng :: "string \<Rightarrow> nat \<Rightarrow> nat"

type_synonym params = "(string \<times> json) list"

section \<open>The grid\<close>

text \<open>The merged grid: a later grid replaces the levels of a key, an empty list of levels is skipped.\<close>

definition merge_grid :: "grid \<Rightarrow> grid \<Rightarrow> grid" where
  "merge_grid merged g = foldl (\<lambda>m (k, vs). if vs = [] then m else dict_set k vs m) merged g"

definition merge_grids :: "grid list \<Rightarrow> grid" where
  "merge_grids gs = foldl merge_grid [] gs"

definition sorted_keys :: "grid \<Rightarrow> string list" where
  "sorted_keys g = sort (map fst g)"

definition levels_of :: "grid \<Rightarrow> string \<Rightarrow> json list" where
  "levels_of g k = (case map_of g k of None \<Rightarrow> [] | Some vs \<Rightarrow> vs)"

definition grid_axes :: "grid \<Rightarrow> json list list" where
  "grid_axes g = map (levels_of g) (sorted_keys g)"

text \<open>\<open>expand_grids\<close>, the whole product with the last axis fastest.\<close>

fun product :: "'a list list \<Rightarrow> 'a list list" where
  "product [] = [[]]"
| "product (axis # axes) = concat (map (\<lambda>v. map ((#) v) (product axes)) axis)"

definition expand_grids :: "grid list \<Rightarrow> params list" where
  "expand_grids gs =
     (let merged = merge_grids gs
      in if merged = [] then [[]] else map (zip (sorted_keys merged)) (product (grid_axes merged)))"

definition axes_total :: "'a list list \<Rightarrow> nat" where
  "axes_total axes = prod_list (map length axes)"

text \<open>The loop of \<open>decode\<close> runs from the last axis to the first, each taking one digit off the cursor.\<close>

fun decode_digits :: "'a list list \<Rightarrow> nat \<Rightarrow> nat \<times> nat list" where
  "decode_digits [] cursor = (cursor, [])"
| "decode_digits (axis # axes) cursor =
     (case decode_digits axes cursor of
        (c, digits) \<Rightarrow> (c div length axis, c mod length axis # digits))"

definition decode_offsets :: "'a list list \<Rightarrow> nat \<Rightarrow> nat list" where
  "decode_offsets axes i = snd (decode_digits axes i)"

definition decode_point :: "string list \<Rightarrow> json list list \<Rightarrow> nat \<Rightarrow> params" where
  "decode_point keys axes i = zip keys (map2 (\<lambda>axis offset. axis ! offset) axes (decode_offsets axes i))"

definition flat_index :: "'a list list \<Rightarrow> nat list \<Rightarrow> nat" where
  "flat_index axes parts = foldl (\<lambda>index (offset, axis). index * length axis + offset) 0 (zip parts axes)"

section \<open>Which points are valid\<close>

text \<open>The verdict on one point: \<open>None\<close>, or the disposition and reason that exclude it.\<close>

definition point_verdict :: "sampler \<Rightarrow> string \<Rightarrow> params \<Rightarrow> params \<Rightarrow> exn + (string \<times> string) option" where
  "point_verdict sa sid defaults ps =
     (let complete = JObj (dict_update defaults ps)
      in case validate_params (sa_px sa) (sa_policy sa) sid complete False of
           Inl e \<Rightarrow> Inl e
         | Inr r \<Rightarrow>
             (if \<not> pr_ok r then Inr (Some (''schema_invalid'', join_text '';'' (pr_errors r)))
              else case search_variant_validity (sa_px sa) sid complete of
                     (True, _) \<Rightarrow> Inr None
                   | (False, reason) \<Rightarrow> Inr (Some (''dependency_invalid'', reason))))"

definition point_verdicts :: "sampler \<Rightarrow> string \<Rightarrow> params \<Rightarrow> string list \<Rightarrow> json list list \<Rightarrow> exn + (string \<times> string) option list" where
  "point_verdicts sa sid defaults keys axes =
     sequence_rows (map (\<lambda>i. point_verdict sa sid defaults (decode_point keys axes i)) [0..<axes_total axes])"

section \<open>Which points are chosen\<close>

text \<open>Equality of level values, an integer being equal to the float of the same value.\<close>

definition py_eq :: "json \<Rightarrow> json \<Rightarrow> bool" where
  "py_eq a b =
     (case (number_base a, number_base b) of (Some x, Some y) \<Rightarrow> x = y | (None, None) \<Rightarrow> a = b | _ \<Rightarrow> False)"

fun index_of :: "json \<Rightarrow> json list \<Rightarrow> nat option" where
  "index_of v [] = None"
| "index_of v (x # xs) = (if py_eq x v then Some 0 else map_option Suc (index_of v xs))"

text \<open>\<open>baseline.get(key)\<close> is \<open>None\<close> for a key that is missing.\<close>

definition baseline_offset :: "params \<Rightarrow> string \<Rightarrow> json list \<Rightarrow> nat" where
  "baseline_offset baseline key axis = (case index_of (jget key (JObj baseline)) axis of None \<Rightarrow> 0 | Some i \<Rightarrow> i)"

definition baseline_offsets :: "params \<Rightarrow> string list \<Rightarrow> json list list \<Rightarrow> nat list" where
  "baseline_offsets baseline keys axes = map2 (baseline_offset baseline) keys axes"

text \<open>The mandatory points: the baseline and, axis by axis, its first, its own and its last level. The limit is
  looked at after each level.\<close>

fun cover_levels :: "nat \<Rightarrow> (nat \<Rightarrow> bool) \<Rightarrow> (nat \<Rightarrow> nat) \<Rightarrow> nat list \<Rightarrow> nat list \<Rightarrow> nat list" where
  "cover_levels limit valid point [] mandatory = mandatory"
| "cover_levels limit valid point (level # levels) mandatory =
     (let i = point level;
          m = (if valid i \<and> i \<notin> set mandatory then mandatory @ [i] else mandatory)
      in if length m \<ge> limit then m else cover_levels limit valid point levels m)"

fun cover_axes :: "nat \<Rightarrow> (nat \<Rightarrow> bool) \<Rightarrow> json list list \<Rightarrow> nat list \<Rightarrow> nat list \<Rightarrow> nat list \<Rightarrow> nat list" where
  "cover_axes limit valid axes offsets [] mandatory = mandatory"
| "cover_axes limit valid axes offsets (p # ps) mandatory =
     (let m = cover_levels limit valid (\<lambda>level. flat_index axes (offsets[p := level]))
                (sorted_set [0, offsets ! p, length (axes ! p) - 1]) mandatory
      in if length m \<ge> limit then m else cover_axes limit valid axes offsets ps m)"

definition mandatory_points :: "nat \<Rightarrow> (nat \<Rightarrow> bool) \<Rightarrow> json list list \<Rightarrow> nat list \<Rightarrow> nat list" where
  "mandatory_points limit valid axes offsets =
     cover_axes limit valid axes offsets [0..<length axes]
       (if valid (flat_index axes offsets) then [flat_index axes offsets] else [])"

text \<open>\<open>while len(chosen) < limit: chosen.add(rng.choice(valid_indices))\<close>.\<close>

fun draw_points :: "(nat \<Rightarrow> nat) \<Rightarrow> nat \<Rightarrow> nat list \<Rightarrow> nat \<Rightarrow> nat \<Rightarrow> nat list \<Rightarrow> nat list option" where
  "draw_points rng k valid limit fuel chosen =
     (if length chosen \<ge> limit then Some chosen
      else case fuel of
             0 \<Rightarrow> None
           | Suc fuel2 \<Rightarrow>
               draw_points rng (Suc k) valid limit fuel2 (List.insert (valid ! (rng k mod length valid)) chosen))"

declare draw_points.simps [simp del]

definition sample_limit :: "nat list \<Rightarrow> int \<Rightarrow> nat" where
  "sample_limit valid cap = min (length valid) (nat (max 1 cap))"

definition select_points :: "(nat \<Rightarrow> nat) \<Rightarrow> nat \<Rightarrow> params \<Rightarrow> string list \<Rightarrow> json list list \<Rightarrow> nat list \<Rightarrow> int \<Rightarrow> nat list option" where
  "select_points rng fuel baseline keys axes valid cap =
     (let limit = sample_limit valid cap
      in if length valid \<le> limit then Some valid
         else map_option sort
                (draw_points rng 0 valid limit fuel
                   (mandatory_points limit (\<lambda>i. i \<in> set valid) axes (baseline_offsets baseline keys axes))))"

section \<open>The audit\<close>

record point =
  pt_index :: nat
  pt_params :: params
  pt_disposition :: string
  pt_reason :: string

text \<open>The compact ledger: counts of every point by disposition and by reason, and the selected points. The digest
  over all points is a function of them and is represented by the points themselves.\<close>

record point_ledger =
  pl_count :: nat
  pl_points :: "point list"
  pl_dispositions :: "(string \<times> nat) list"
  pl_reasons :: "(string \<times> nat) list"

definition count_by :: "('a \<Rightarrow> string) \<Rightarrow> 'a list \<Rightarrow> (string \<times> nat) list" where
  "count_by f xs = sort_key fst (foldl (\<lambda>d x. dict_adjust (f x) 0 Suc d) [] xs)"

definition point_ledger_of :: "point list \<Rightarrow> point_ledger" where
  "point_ledger_of points =
     \<lparr>pl_count = length points, pl_points = points, pl_dispositions = count_by pt_disposition points,
      pl_reasons = count_by pt_reason points\<rparr>"

definition selected_points :: "point list \<Rightarrow> point list" where
  "selected_points points = filter (\<lambda>p. pt_disposition p = ''selected'') points"

definition point_of :: "string list \<Rightarrow> json list list \<Rightarrow> (nat \<Rightarrow> (string \<times> string) option) \<Rightarrow> nat list \<Rightarrow> nat \<Rightarrow> point" where
  "point_of keys axes invalid chosen i =
     (case (case invalid i of
              Some dr \<Rightarrow> dr
            | None \<Rightarrow> if i \<in> set chosen then (''selected'', ''selected_by_sampler'')
                      else (''omitted_variant_cap'', ''eligible_not_selected_by_cap'')) of
        (disposition, reason) \<Rightarrow>
          \<lparr>pt_index = i, pt_params = decode_point keys axes i, pt_disposition = disposition, pt_reason = reason\<rparr>)"

record search_space =
  ss_axis_order :: "string list"
  ss_total :: nat
  ss_eligible :: nat
  ss_selected :: nat
  ss_invalid :: nat
  ss_omitted :: nat
  ss_indices :: "nat list"
  ss_ledger :: point_ledger
  ss_points :: "point list"

section \<open>Expansion\<close>

definition empty_space :: search_space where
  "empty_space =
     (let p = \<lparr>pt_index = 0, pt_params = [], pt_disposition = ''selected'', pt_reason = ''selected_by_sampler''\<rparr>
      in \<lparr>ss_axis_order = [], ss_total = 1, ss_eligible = 1, ss_selected = 1, ss_invalid = 0, ss_omitted = 0,
          ss_indices = [0], ss_ledger = point_ledger_of [p], ss_points = [p]\<rparr>)"

text \<open>Without a level anywhere only the defaults can run, and they must be valid.\<close>

definition expand_defaults :: "sampler \<Rightarrow> string \<Rightarrow> params \<Rightarrow> exn + (params list \<times> search_space)" where
  "expand_defaults sa sid defaults =
     (case validate_params (sa_px sa) (sa_policy sa) sid (JObj defaults) False of
        Inl e \<Rightarrow> Inl e
      | Inr r \<Rightarrow>
          if \<not> pr_ok r \<or> \<not> fst (search_variant_validity (sa_px sa) sid (JObj defaults))
          then Inl (ValueError ''baseline parameters are invalid'')
          else Inr ([[]], empty_space))"

definition space_of :: "string list \<Rightarrow> json list list \<Rightarrow> (string \<times> string) option list \<Rightarrow> nat list \<Rightarrow> int \<Rightarrow> nat list \<Rightarrow> search_space" where
  "space_of keys axes judged valid cap chosen =
     (let points = map (point_of keys axes (\<lambda>i. judged ! i) chosen) [0..<axes_total axes];
          limit = sample_limit valid cap
      in \<lparr>ss_axis_order = keys, ss_total = axes_total axes, ss_eligible = length valid, ss_selected = limit,
          ss_invalid = axes_total axes - length valid, ss_omitted = length valid - limit, ss_indices = chosen,
          ss_ledger = point_ledger_of points, ss_points = selected_points points\<rparr>)"

definition valid_points :: "(string \<times> string) option list \<Rightarrow> nat list" where
  "valid_points judged = filter (\<lambda>i. judged ! i = None) [0..<length judged]"

definition expand_grids_bounded ::
  "sampler \<Rightarrow> nat \<Rightarrow> grid list \<Rightarrow> int \<Rightarrow> string \<Rightarrow> params \<Rightarrow> string \<Rightarrow> (params list \<times> search_space) run" where
  "expand_grids_bounded sa fuel gs cap seed baseline sid =
     (case get_strategy sid of
        Inl e \<Rightarrow> Some (Inl e)
      | Inr d \<Rightarrow>
          (let merged = merge_grids gs; keys = sorted_keys merged; axes = grid_axes merged
           in if merged = [] then Some (expand_defaults sa sid (st_defaults d))
              else case point_verdicts sa sid (st_defaults d) keys axes of
                     Inl e \<Rightarrow> Some (Inl e)
                   | Inr judged \<Rightarrow>
                       (let valid = valid_points judged
                        in if valid = []
                           then Some (Inl (ValueError ''parameter grid has no variants satisfying cross-axis dependencies''))
                           else case select_points (sa_rng sa seed) fuel baseline keys axes valid cap of
                                  None \<Rightarrow> None
                                | Some chosen \<Rightarrow>
                                    Some (Inr (map (decode_point keys axes) chosen,
                                               space_of keys axes judged valid cap chosen)))))"

end
