(* ===== verification/Sweep_Lemmas.thy ===== *)
theory Sweep_Lemmas
  imports Sweep_Expand
begin

text \<open>
  Facts about the sampler: decoding and encoding of flat indices are inverse, the decoded points are the Cartesian
  product, the chosen points are valid and distinct, and the drawing loop ends when the draws reach enough points.
\<close>

section \<open>Flat indices\<close>

lemma axes_total_Cons [simp]: "axes_total (axis # axes) = length axis * axes_total axes"
  by (simp add: axes_total_def)

lemma axes_total_Nil [simp]: "axes_total [] = 1"
  by (simp add: axes_total_def)

lemma axes_total_pos: "(\<And>axis. axis \<in> set axes \<Longrightarrow> axis \<noteq> []) \<Longrightarrow> axes_total axes > 0"
  by (induction axes) auto

lemma fst_decode_digits: "fst (decode_digits axes i) = i div axes_total axes"
  by (induction axes arbitrary: i) (simp_all add: split_beta div_mult2_eq [symmetric] mult.commute)

lemma decode_offsets_Nil [simp]: "decode_offsets [] i = []"
  by (simp add: decode_offsets_def)

lemma decode_offsets_Cons [simp]:
  "decode_offsets (axis # axes) i = (i div axes_total axes) mod length axis # decode_offsets axes i"
  by (simp add: decode_offsets_def split_beta fst_decode_digits)

lemma length_decode_offsets [simp]: "length (decode_offsets axes i) = length axes"
  by (induction axes) simp_all

lemma decode_offsets_add: "decode_offsets axes (c * axes_total axes + i) = decode_offsets axes i"
proof (induction axes arbitrary: c)
  case (Cons axis axes)
  have shift: "c * (length axis * axes_total axes) + i = (c * length axis) * axes_total axes + i" by (simp add: mult.assoc)
  show ?case
  proof (cases "axes_total axes = 0")
    case True
    then show ?thesis by simp
  next
    case False
    then have "((c * length axis) * axes_total axes + i) div axes_total axes mod length axis =
        i div axes_total axes mod length axis" by simp
    with Cons.IH [of "c * length axis"] show ?thesis by (simp add: shift del: mult.assoc)
  qed
qed simp

text \<open>The loop of \<open>flat_index\<close> with its accumulator pulled out.\<close>

lemma foldl_flat:
  "length parts = length axes \<Longrightarrow>
     foldl (\<lambda>index (offset, axis). index * length axis + offset) c (zip parts axes) =
     c * axes_total axes + flat_index axes parts"
proof (induction axes arbitrary: parts c)
  case (Cons axis axes)
  then obtain p ps where parts: "parts = p # ps" "length ps = length axes" by (cases parts) auto
  show ?case
    using Cons.IH [OF parts(2), of "c * length axis + p"] Cons.IH [OF parts(2), of p]
    by (simp add: parts(1) flat_index_def distrib_right mult.assoc)
qed (simp add: flat_index_def)

lemma flat_index_Nil [simp]: "flat_index [] parts = 0"
  by (simp add: flat_index_def)

lemma flat_index_Cons:
  "length ps = length axes \<Longrightarrow> flat_index (axis # axes) (p # ps) = p * axes_total axes + flat_index axes ps"
  using foldl_flat [of ps axes p] by (simp add: flat_index_def)

definition offsets_ok :: "'a list list \<Rightarrow> nat list \<Rightarrow> bool" where
  "offsets_ok axes parts \<longleftrightarrow> list_all2 (\<lambda>axis p. p < length axis) axes parts"

lemma offsets_ok_simps [simp]:
  "offsets_ok [] []" "offsets_ok (axis # axes) (p # ps) \<longleftrightarrow> p < length axis \<and> offsets_ok axes ps"
  by (simp_all add: offsets_ok_def)

lemma offsets_ok_length: "offsets_ok axes parts \<Longrightarrow> length parts = length axes"
  by (simp add: offsets_ok_def list_all2_lengthD)

lemma offsets_okE:
  assumes "offsets_ok (axis # axes) parts"
  obtains p ps where "parts = p # ps" "p < length axis" "offsets_ok axes ps"
  using assms by (cases parts) (auto simp: offsets_ok_def)

lemma flat_index_less: "offsets_ok axes parts \<Longrightarrow> flat_index axes parts < axes_total axes"
proof (induction axes arbitrary: parts)
  case (Cons axis axes)
  from Cons.prems obtain p ps where parts: "parts = p # ps" "p < length axis" and ok: "offsets_ok axes ps"
    by (rule offsets_okE)
  from Cons.IH [OF ok] have "p * axes_total axes + flat_index axes ps < (p + 1) * axes_total axes" by simp
  also have "\<dots> \<le> length axis * axes_total axes" using parts(2) by (intro mult_right_mono) simp_all
  finally show ?case by (simp add: parts(1) flat_index_Cons offsets_ok_length [OF ok])
qed simp

lemma decode_flat: "offsets_ok axes parts \<Longrightarrow> decode_offsets axes (flat_index axes parts) = parts"
proof (induction axes arbitrary: parts)
  case Nil
  then show ?case by (simp add: offsets_ok_def)
next
  case (Cons axis axes)
  from Cons.prems obtain p ps where parts: "parts = p # ps" "p < length axis" and ok: "offsets_ok axes ps"
    by (rule offsets_okE)
  from flat_index_less [OF ok] have "(p * axes_total axes + flat_index axes ps) div axes_total axes = p"
    by (simp add: div_mult_self3 add.commute)
  with parts Cons.IH [OF ok] show ?case
    by (simp add: flat_index_Cons offsets_ok_length [OF ok] decode_offsets_add)
qed

lemma offsets_ok_decode: "i < axes_total axes \<Longrightarrow> offsets_ok axes (decode_offsets axes i)"
proof (induction axes arbitrary: i)
  case (Cons axis axes)
  then have "0 < length axis * axes_total axes" by (simp only: axes_total_Cons)
  then have pos: "0 < length axis" "0 < axes_total axes" by (simp_all only: nat_0_less_mult_iff)
  have "decode_offsets axes i = decode_offsets axes (i mod axes_total axes)"
    using decode_offsets_add [of axes "i div axes_total axes" "i mod axes_total axes"] by simp
  with Cons.IH [of "i mod axes_total axes"] pos show ?case by simp
qed simp

lemma flat_decode: "i < axes_total axes \<Longrightarrow> flat_index axes (decode_offsets axes i) = i"
proof (induction axes arbitrary: i)
  case (Cons axis axes)
  then have "0 < length axis * axes_total axes" by (simp only: axes_total_Cons)
  then have pos: "0 < length axis" "0 < axes_total axes" by (simp_all only: nat_0_less_mult_iff)
  have low: "decode_offsets axes i = decode_offsets axes (i mod axes_total axes)"
    using decode_offsets_add [of axes "i div axes_total axes" "i mod axes_total axes"] by simp
  have "i div axes_total axes < length axis" using Cons.prems pos by (simp add: less_mult_imp_div_less)
  with Cons.IH [of "i mod axes_total axes"] pos low show ?case by (simp add: flat_index_Cons)
qed simp

section \<open>The Cartesian product\<close>

lemma length_product [simp]: "length (product axes) = axes_total axes"
  by (induction axes) (simp_all add: length_concat comp_def sum_list_triv)

definition point_values :: "'a list list \<Rightarrow> nat \<Rightarrow> 'a list" where
  "point_values axes i = map2 (\<lambda>axis offset. axis ! offset) axes (decode_offsets axes i)"

lemma point_values_simps [simp]:
  "point_values [] i = []"
  "point_values (axis # axes) i = axis ! (i div axes_total axes mod length axis) # point_values axes i"
  by (simp_all add: point_values_def)

lemma point_values_add: "point_values axes (c * axes_total axes + i) = point_values axes i"
  by (simp add: point_values_def decode_offsets_add)

lemma map_upt_blocks: "map f [0..<n * m] = concat (map (\<lambda>c. map (\<lambda>i. f (c * m + i)) [0..<m]) [0..<n])"
proof (induction n)
  case (Suc n)
  have "[0..<Suc n * m] = [0..<n * m] @ map (\<lambda>i. n * m + i) [0..<m]"
    using upt_add_eq_append [of 0 "n * m" m] by (simp add: map_add_upt add.commute)
  with Suc.IH show ?case by (simp add: comp_def)
qed simp

lemma product_decode: "product axes = map (point_values axes) [0..<axes_total axes]"
proof (induction axes)
  case (Cons axis axes)
  let ?m = "axes_total axes"
  have "map (point_values (axis # axes)) [0..<length axis * ?m] =
      concat (map (\<lambda>c. map (\<lambda>i. point_values (axis # axes) (c * ?m + i)) [0..<?m]) [0..<length axis])"
    by (rule map_upt_blocks)
  also have "\<dots> = concat (map (\<lambda>c. map (\<lambda>i. axis ! c # point_values axes i) [0..<?m]) [0..<length axis])"
    by (intro arg_cong [where f = concat] map_cong refl) (auto simp: point_values_add)
  also have "\<dots> = concat (map (\<lambda>v. map ((#) v) (product axes)) (map ((!) axis) [0..<length axis]))"
    by (simp add: Cons.IH comp_def)
  also have "\<dots> = product (axis # axes)" by (simp add: map_nth)
  finally show ?case by (simp only: axes_total_Cons)
qed simp

lemma decode_point_values: "decode_point keys axes i = zip keys (point_values axes i)"
  by (simp add: decode_point_def point_values_def)

section \<open>The merged grid\<close>

lemma keys_dict_set: "fst ` set (dict_set k v d) = insert k (fst ` set d)"
proof -
  have "set (map fst (dict_set k v d)) = insert k (set (map fst d))"
    by (cases "k \<in> fst ` set d") (simp_all add: dict_set_def keys_dict_adjust insert_absorb del: set_map, auto simp: image_iff)
  then show ?thesis by simp
qed

lemma distinct_dict_set: "distinct (map fst d) \<Longrightarrow> distinct (map fst (dict_set k v d))"
proof (induction d)
  case (Cons kv d)
  then show ?case using keys_dict_set [of k v d] by (cases kv) (auto simp: dict_set_def)
qed (simp add: dict_set_def)

lemma values_dict_set: "(key, w) \<in> set (dict_set k v d) \<Longrightarrow> w = v \<or> (key, w) \<in> set d"
  by (induction d) (auto simp: dict_set_def split: if_splits)

definition grid_ok :: "grid \<Rightarrow> bool" where
  "grid_ok g \<longleftrightarrow> distinct (map fst g) \<and> (\<forall>(k, vs) \<in> set g. vs \<noteq> [])"

lemma grid_ok_merge: "grid_ok m \<Longrightarrow> grid_ok (merge_grid m g)"
  unfolding merge_grid_def
proof (induction g arbitrary: m)
  case (Cons kv g)
  obtain k vs where kv: "kv = (k, vs)" by force
  have "grid_ok (dict_set k vs m)" if "vs \<noteq> []"
    unfolding grid_ok_def
  proof (intro conjI ballI)
    show "distinct (map fst (dict_set k vs m))" using Cons.prems by (simp add: grid_ok_def distinct_dict_set)
    fix x assume x: "x \<in> set (dict_set k vs m)"
    obtain key w where "x = (key, w)" by force
    with x that Cons.prems values_dict_set [of key w k vs m] show "case x of (k, vs) \<Rightarrow> vs \<noteq> []"
      by (auto simp: grid_ok_def)
  qed
  then have "grid_ok (if vs = [] then m else dict_set k vs m)" using Cons.prems by simp
  from Cons.IH [OF this] show ?case by (simp add: kv)
qed simp

lemma grid_ok_merge_grids: "grid_ok (merge_grids gs)"
proof -
  have "grid_ok m \<Longrightarrow> grid_ok (foldl merge_grid m gs)" for m
    by (induction gs arbitrary: m) (simp_all add: grid_ok_merge)
  from this [of "[]"] show ?thesis by (simp add: merge_grids_def grid_ok_def)
qed

lemma grid_axes_nonempty:
  assumes "grid_ok g" "axis \<in> set (grid_axes g)"
  shows "axis \<noteq> []"
proof -
  from assms(2) obtain k where k: "k \<in> fst ` set g" "axis = levels_of g k"
    by (auto simp: grid_axes_def sorted_keys_def)
  then obtain vs where "map_of g k = Some vs" by (metis map_of_eq_None_iff option.exhaust)
  with k(2) assms(1) show ?thesis by (auto simp: levels_of_def grid_ok_def dest!: map_of_SomeD)
qed

lemma distinct_sorted_keys: "grid_ok g \<Longrightarrow> distinct (sorted_keys g)"
  by (simp add: grid_ok_def sorted_keys_def)

lemma length_grid_axes [simp]: "length (grid_axes g) = length (sorted_keys g)"
  by (simp add: grid_axes_def)

lemma axes_total_merged: "axes_total (grid_axes (merge_grids gs)) > 0"
  by (rule axes_total_pos) (rule grid_axes_nonempty [OF grid_ok_merge_grids])

text \<open>The points by flat index are the whole product in order.\<close>

lemma expand_grids_decode:
  "merge_grids gs \<noteq> [] \<Longrightarrow>
     expand_grids gs =
       map (decode_point (sorted_keys (merge_grids gs)) (grid_axes (merge_grids gs)))
         [0..<axes_total (grid_axes (merge_grids gs))]"
  by (simp add: expand_grids_def Let_def product_decode decode_point_values)

section \<open>Mandatory points\<close>

definition chosen_ok :: "(nat \<Rightarrow> bool) \<Rightarrow> nat list \<Rightarrow> nat list \<Rightarrow> bool" where
  "chosen_ok valid m out \<longleftrightarrow> distinct out \<and> list_all valid out \<and> set m \<subseteq> set out \<and> length m \<le> length out"

lemma chosen_ok_refl: "distinct m \<Longrightarrow> list_all valid m \<Longrightarrow> chosen_ok valid m m"
  by (simp add: chosen_ok_def)

lemma chosen_ok_trans: "chosen_ok valid a b \<Longrightarrow> chosen_ok valid b c \<Longrightarrow> chosen_ok valid a c"
  by (auto simp: chosen_ok_def)

lemma chosen_ok_D: "chosen_ok valid a b \<Longrightarrow> distinct b \<and> list_all valid b"
  by (simp add: chosen_ok_def)

lemma cover_levels_ok:
  "\<lbrakk>distinct m; list_all valid m\<rbrakk> \<Longrightarrow> chosen_ok valid m (cover_levels limit valid point levels m)"
proof (induction levels arbitrary: m)
  case (Cons level levels)
  define m2 where "m2 = (if valid (point level) \<and> point level \<notin> set m then m @ [point level] else m)"
  have m2: "chosen_ok valid m m2" using Cons.prems by (auto simp: chosen_ok_def m2_def)
  have eq: "cover_levels limit valid point (level # levels) m =
      (if length m2 \<ge> limit then m2 else cover_levels limit valid point levels m2)"
    by (simp only: cover_levels.simps Let_def m2_def)
  from m2 have "chosen_ok valid m2 (cover_levels limit valid point levels m2)"
    by (intro Cons.IH) (simp_all add: chosen_ok_def)
  with m2 show ?case unfolding eq by (auto intro: chosen_ok_trans)
qed (simp add: chosen_ok_refl)

lemma cover_levels_length:
  "length m < limit \<Longrightarrow> length (cover_levels limit valid point levels m) \<le> limit"
  by (induction levels arbitrary: m) (auto simp: Let_def)

lemma cover_levels_full:
  "length m \<ge> limit \<Longrightarrow> length (cover_levels limit valid point levels m) \<le> Suc (length m)"
  by (cases levels) (auto simp: Let_def)

lemma cover_axes_ok:
  "\<lbrakk>distinct m; list_all valid m\<rbrakk> \<Longrightarrow> chosen_ok valid m (cover_axes limit valid axes offsets ps m)"
proof (induction ps arbitrary: m)
  case (Cons p ps)
  define m2 where "m2 = cover_levels limit valid (\<lambda>level. flat_index axes (offsets[p := level]))
    (sorted_set [0, offsets ! p, length (axes ! p) - 1]) m"
  have m2: "chosen_ok valid m m2" unfolding m2_def by (rule cover_levels_ok [OF Cons.prems])
  have eq: "cover_axes limit valid axes offsets (p # ps) m =
      (if length m2 \<ge> limit then m2 else cover_axes limit valid axes offsets ps m2)"
    by (simp only: cover_axes.simps Let_def m2_def)
  from m2 have "chosen_ok valid m2 (cover_axes limit valid axes offsets ps m2)"
    by (intro Cons.IH) (simp_all add: chosen_ok_def)
  with m2 show ?case unfolding eq by (auto intro: chosen_ok_trans)
qed (simp add: chosen_ok_refl)

lemma cover_axes_length:
  "length m < limit \<Longrightarrow> length (cover_axes limit valid axes offsets ps m) \<le> limit"
proof (induction ps arbitrary: m)
  case (Cons p ps)
  with cover_levels_length [OF Cons.prems] show ?case by (auto simp: Let_def not_le)
qed simp

lemma cover_axes_full:
  assumes "length m \<ge> limit" "distinct m" "list_all valid m"
  shows "length (cover_axes limit valid axes offsets ps m) \<le> Suc (length m)"
proof (cases ps)
  case (Cons p qs)
  define m2 where "m2 = cover_levels limit valid (\<lambda>level. flat_index axes (offsets[p := level]))
    (sorted_set [0, offsets ! p, length (axes ! p) - 1]) m"
  have "chosen_ok valid m m2" unfolding m2_def by (rule cover_levels_ok [OF assms(2,3)])
  then have "length m \<le> length m2" by (simp add: chosen_ok_def)
  moreover have "length m2 \<le> Suc (length m)" unfolding m2_def by (rule cover_levels_full [OF assms(1)])
  moreover have "cover_axes limit valid axes offsets ps m =
      (if length m2 \<ge> limit then m2 else cover_axes limit valid axes offsets qs m2)"
    by (simp only: Cons cover_axes.simps Let_def m2_def)
  ultimately show ?thesis using assms(1) by simp
qed simp

lemma mandatory_points_ok:
  "chosen_ok valid (if valid (flat_index axes offsets) then [flat_index axes offsets] else [])
     (mandatory_points limit valid axes offsets)"
  unfolding mandatory_points_def by (rule cover_axes_ok) simp_all

text \<open>The mandatory points exceed the limit only when the limit is one.\<close>

lemma length_mandatory_points:
  assumes "limit \<ge> 1"
  shows "length (mandatory_points limit valid axes offsets) \<le> max limit 2"
    and "limit \<noteq> 1 \<Longrightarrow> length (mandatory_points limit valid axes offsets) \<le> limit"
proof -
  let ?m = "if valid (flat_index axes offsets) then [flat_index axes offsets] else []"
  have "length ?m < limit \<Longrightarrow> length (mandatory_points limit valid axes offsets) \<le> limit"
    unfolding mandatory_points_def by (rule cover_axes_length)
  moreover have "length ?m \<ge> limit \<Longrightarrow> length (mandatory_points limit valid axes offsets) \<le> Suc (length ?m)"
    unfolding mandatory_points_def by (rule cover_axes_full) simp_all
  moreover have "length ?m \<le> 1" by simp
  ultimately show "length (mandatory_points limit valid axes offsets) \<le> max limit 2"
    "limit \<noteq> 1 \<Longrightarrow> length (mandatory_points limit valid axes offsets) \<le> limit"
    using assms by linarith+
qed

section \<open>Drawing\<close>

lemma draw_points_result:
  "\<lbrakk>draw_points rng k valid limit fuel chosen = Some out; valid \<noteq> []; distinct chosen; set chosen \<subseteq> set valid\<rbrakk> \<Longrightarrow>
     distinct out \<and> set out \<subseteq> set valid \<and> set chosen \<subseteq> set out \<and> length out = max limit (length chosen)"
proof (induction fuel arbitrary: k chosen)
  case 0
  then show ?case by (auto simp: draw_points.simps [of rng k valid limit 0 chosen] split: if_splits)
next
  case (Suc fuel)
  show ?case
  proof (cases "length chosen \<ge> limit")
    case True
    with Suc.prems show ?thesis by (auto simp: draw_points.simps [of rng k valid limit "Suc fuel" chosen])
  next
    case False
    let ?x = "valid ! (rng k mod length valid)"
    have x: "?x \<in> set valid" using Suc.prems(2) by simp
    have step: "draw_points rng (Suc k) valid limit fuel (List.insert ?x chosen) = Some out"
      using Suc.prems(1) False by (simp add: draw_points.simps [of rng k valid limit "Suc fuel" chosen])
    have "length (List.insert ?x chosen) \<le> limit" using False by (simp add: List.insert_def)
    with Suc.IH [OF step Suc.prems(2)] x Suc.prems(3,4) False show ?thesis
      by (auto simp: set_insert)
  qed
qed

text \<open>The loop ends once the draws, with what is chosen already, reach as many points as the limit.\<close>

lemma draw_points_ends:
  assumes "distinct chosen" "valid \<noteq> []"
    and "limit \<le> card (set chosen \<union> (\<lambda>j. valid ! (rng j mod length valid)) ` {k..<k + fuel})"
  shows "draw_points rng k valid limit fuel chosen \<noteq> None"
  using assms
proof (induction fuel arbitrary: k chosen)
  case 0
  then show ?case by (simp add: draw_points.simps [of rng k valid limit 0 chosen] distinct_card)
next
  case (Suc fuel)
  let ?f = "\<lambda>j. valid ! (rng j mod length valid)"
  have range: "{k..<k + Suc fuel} = insert k {Suc k..<Suc k + fuel}" by auto
  have "set chosen \<union> ?f ` {k..<k + Suc fuel} = set (List.insert (?f k) chosen) \<union> ?f ` {Suc k..<Suc k + fuel}"
    unfolding range by (auto simp: set_insert)
  with Suc.prems(3) have "limit \<le> card (set (List.insert (?f k) chosen) \<union> ?f ` {Suc k..<Suc k + fuel})" by simp
  with Suc.prems(1,2) Suc.IH [of "List.insert (?f k) chosen" "Suc k"]
  show ?case by (simp add: draw_points.simps [of rng k valid limit "Suc fuel" chosen] distinct_insert)
qed

section \<open>Coverage\<close>

lemma sorted_set_simps [simp]: "set (sorted_set xs) = set xs" "distinct (sorted_set xs)" "sorted (sorted_set xs)"
  by (simp_all add: sorted_set_def)

lemma length_sorted_set: "length (sorted_set xs) \<le> length xs"
  by (simp add: sorted_set_def length_remdups_leq)

lemma cover_levels_grows: "length (cover_levels limit valid point levels m) \<le> length m + length levels"
proof (induction levels arbitrary: m)
  case (Cons level levels)
  show ?case
    using Cons.IH [of m] Cons.IH [of "m @ [point level]"] by (auto simp: Let_def)
qed simp

text \<open>A walk that ends below the limit has looked at every level.\<close>

lemma cover_levels_all:
  assumes "length (cover_levels limit valid point levels m) < limit" "distinct m" "list_all valid m"
    and "level \<in> set levels" "valid (point level)"
  shows "point level \<in> set (cover_levels limit valid point levels m)"
  using assms
proof (induction levels arbitrary: m)
  case (Cons l levels)
  define m2 where "m2 = (if valid (point l) \<and> point l \<notin> set m then m @ [point l] else m)"
  have eq: "cover_levels limit valid point (l # levels) m =
      (if length m2 \<ge> limit then m2 else cover_levels limit valid point levels m2)"
    by (simp only: cover_levels.simps Let_def m2_def)
  have m2: "distinct m2" "list_all valid m2" using Cons.prems(2,3) by (auto simp: m2_def)
  have below: "\<not> length m2 \<ge> limit" using Cons.prems(1) unfolding eq by (auto split: if_splits)
  have grow: "set m2 \<subseteq> set (cover_levels limit valid point levels m2)"
    using cover_levels_ok [OF m2] by (simp add: chosen_ok_def)
  show ?case
  proof (cases "level = l")
    case True
    with Cons.prems(5) have "point level \<in> set m2" by (simp add: m2_def)
    with below grow show ?thesis unfolding eq by auto
  next
    case False
    have "length (cover_levels limit valid point levels m2) < limit" using Cons.prems(1) below unfolding eq by simp
    with False Cons.prems(4,5) have "point level \<in> set (cover_levels limit valid point levels m2)"
      by (intro Cons.IH m2) auto
    with below show ?thesis unfolding eq by simp
  qed
qed simp

lemma cover_axes_all:
  assumes "length m + 3 * length ps < limit" "distinct m" "list_all valid m" "p \<in> set ps"
    and "level \<in> {0, offsets ! p, length (axes ! p) - 1}" "valid (flat_index axes (offsets[p := level]))"
  shows "flat_index axes (offsets[p := level]) \<in> set (cover_axes limit valid axes offsets ps m)"
  using assms
proof (induction ps arbitrary: m)
  case (Cons q ps)
  define lv where "lv q = sorted_set [0, offsets ! q, length (axes ! q) - 1]" for q
  define m2 where "m2 = cover_levels limit valid (\<lambda>level. flat_index axes (offsets[q := level])) (lv q) m"
  have eq: "cover_axes limit valid axes offsets (q # ps) m =
      (if length m2 \<ge> limit then m2 else cover_axes limit valid axes offsets ps m2)"
    by (simp only: cover_axes.simps Let_def m2_def lv_def)
  have "length (lv q) \<le> 3" using length_sorted_set [of "[0, offsets ! q, length (axes ! q) - 1]"] by (simp add: lv_def)
  moreover have "length m2 \<le> length m + length (lv q)" unfolding m2_def by (rule cover_levels_grows)
  ultimately have len: "length m2 \<le> length m + 3" by simp
  have m2: "distinct m2" "list_all valid m2"
    using chosen_ok_D [OF cover_levels_ok [OF Cons.prems(2,3)]] by (simp_all add: m2_def)
  have below: "\<not> length m2 \<ge> limit" using len Cons.prems(1) by simp
  show ?case
  proof (cases "p = q")
    case True
    have "flat_index axes (offsets[p := level]) \<in> set m2"
      unfolding m2_def True
      by (rule cover_levels_all) (use below Cons.prems True in \<open>simp_all add: m2_def lv_def\<close>)
    moreover have "set m2 \<subseteq> set (cover_axes limit valid axes offsets ps m2)"
      using cover_axes_ok [OF m2] by (simp add: chosen_ok_def)
    ultimately show ?thesis using below unfolding eq by auto
  next
    case False
    with Cons.prems len have "flat_index axes (offsets[p := level]) \<in> set (cover_axes limit valid axes offsets ps m2)"
      by (intro Cons.IH m2) auto
    with below show ?thesis unfolding eq by simp
  qed
qed simp

lemma mandatory_points_cover:
  assumes "1 + 3 * length axes < limit" "p < length axes" "level \<in> {0, offsets ! p, length (axes ! p) - 1}"
    and "valid (flat_index axes (offsets[p := level]))"
  shows "flat_index axes (offsets[p := level]) \<in> set (mandatory_points limit valid axes offsets)"
  unfolding mandatory_points_def by (rule cover_axes_all) (use assms in auto)

end
