(* ===== verification/Sweep_Claims.thy ===== *)
theory Sweep_Claims
  imports Sweep_Lemmas Memory_Claims Planning_Claims
begin

text \<open>
  What the sampler of a parameter grid delivers: the eligible points of the Cartesian product when they fit the
  cap, a sorted selection of them otherwise, an audit that accounts for every point, and an end of the drawing loop.
\<close>

section \<open>Judging every point\<close>

definition runnable :: "sampler \<Rightarrow> string \<Rightarrow> params \<Rightarrow> params \<Rightarrow> bool" where
  "runnable sa sid defaults ps \<longleftrightarrow> point_verdict sa sid defaults ps = Inr None"

lemma point_verdicts_nth:
  assumes "point_verdicts sa sid ds keys axes = Inr judged"
  shows "length judged = axes_total axes"
    and "i < axes_total axes \<Longrightarrow> point_verdict sa sid ds (decode_point keys axes i) = Inr (judged ! i)"
proof -
  let ?f = "\<lambda>i. point_verdict sa sid ds (decode_point keys axes i)"
  have eq: "map ?f [0..<axes_total axes] = map Inr judged"
    using assms by (simp only: point_verdicts_def sequence_rows_Inr)
  from arg_cong [OF eq, of length] show len: "length judged = axes_total axes" by simp
  show "point_verdict sa sid ds (decode_point keys axes i) = Inr (judged ! i)" if "i < axes_total axes"
    using arg_cong [OF eq, of "\<lambda>xs. xs ! i"] that len by simp
qed

lemma point_verdict_labels:
  "point_verdict sa sid ds ps = Inr (Some (disposition, reason)) \<Longrightarrow>
     disposition \<in> {''schema_invalid'', ''dependency_invalid''}"
  by (auto simp: point_verdict_def Let_def split: sum.splits if_splits prod.splits bool.splits)

lemma valid_points_runnable:
  assumes "point_verdicts sa sid ds keys axes = Inr judged"
  shows "valid_points judged =
    filter (\<lambda>i. runnable sa sid ds (decode_point keys axes i)) [0..<axes_total axes]"
  unfolding valid_points_def
  using point_verdicts_nth [OF assms] by (auto simp: runnable_def intro!: filter_cong)

lemma valid_points_facts: "distinct (valid_points judged)" "sorted (valid_points judged)"
  "i \<in> set (valid_points judged) \<longleftrightarrow> i < length judged \<and> judged ! i = None"
  by (auto simp: valid_points_def sorted_filter [where f = id, simplified])

section \<open>The selection\<close>

lemma select_points_result:
  assumes sel: "select_points rng fuel baseline keys axes valid cap = Some chosen"
    and valid: "valid \<noteq> []" "distinct valid" "sorted valid"
  shows "sorted chosen \<and> distinct chosen \<and> set chosen \<subseteq> set valid \<and>
    (length valid \<le> nat (max 1 cap) \<longrightarrow> chosen = valid) \<and>
    (nat (max 1 cap) < length valid \<longrightarrow>
       length chosen \<le> max (nat (max 1 cap)) 2 \<and> (nat (max 1 cap) \<noteq> 1 \<longrightarrow> length chosen = nat (max 1 cap)))"
proof (cases "length valid \<le> nat (max 1 cap)")
  case True
  with sel have "chosen = valid" by (simp add: select_points_def sample_limit_def Let_def)
  with True valid show ?thesis by simp
next
  case False
  let ?limit = "nat (max 1 cap)"
  let ?offsets = "baseline_offsets baseline keys axes"
  let ?m = "mandatory_points ?limit (\<lambda>i. i \<in> set valid) axes ?offsets"
  have limit: "sample_limit valid cap = ?limit" using False by (simp add: sample_limit_def)
  obtain out where out: "draw_points rng 0 valid ?limit fuel ?m = Some out" and chosen: "chosen = sort out"
    using sel False by (auto simp: select_points_def limit Let_def)
  have m: "distinct ?m" "list_all (\<lambda>i. i \<in> set valid) ?m"
    using chosen_ok_D [OF mandatory_points_ok] by blast+
  then have sub: "set ?m \<subseteq> set valid" by (auto simp: list_all_iff)
  have pos: "?limit \<ge> 1" by simp
  from draw_points_result [OF out valid(1) m(1) sub]
  have "distinct out" "set out \<subseteq> set valid" "length out = max ?limit (length ?m)" by simp_all
  with length_mandatory_points [OF pos, of "\<lambda>i. i \<in> set valid" axes ?offsets] False show ?thesis
    by (auto simp: chosen max_def)
qed

text \<open>The success of the sampler, unfolded once.\<close>

lemma expand_success:
  assumes "expand_grids_bounded sa fuel gs cap seed baseline sid = Some (Inr (variants, space))"
    and "get_strategy sid = Inr d" "merge_grids gs \<noteq> []"
  obtains judged chosen where
    "point_verdicts sa sid (st_defaults d) (sorted_keys (merge_grids gs)) (grid_axes (merge_grids gs)) = Inr judged"
    "valid_points judged \<noteq> []"
    "select_points (sa_rng sa seed) fuel baseline (sorted_keys (merge_grids gs)) (grid_axes (merge_grids gs))
       (valid_points judged) cap = Some chosen"
    "variants = map (decode_point (sorted_keys (merge_grids gs)) (grid_axes (merge_grids gs))) chosen"
    "space = space_of (sorted_keys (merge_grids gs)) (grid_axes (merge_grids gs)) judged (valid_points judged) cap chosen"
  using assms
  by (auto simp: expand_grids_bounded_def Let_def split: sum.splits if_splits option.splits)

text \<open>C8 A bounded sweep is a selection of the Cartesian product: when the sampler of a registered strategy returns,
  the variants are the points of the product at its selected indices, which are sorted, distinct and all runnable
  (the merged parameters pass the schema and the dependency rules); when the runnable points fit the cap the
  variants are exactly the runnable points in product order, and otherwise exactly as many as the cap, or at most
  two when the cap is one.\<close>

theorem sample_of_product:
  assumes run: "expand_grids_bounded sa fuel gs cap seed baseline sid = Some (Inr (variants, space))"
    and strategy: "get_strategy sid = Inr d" and grid: "merge_grids gs \<noteq> []"
  shows "variants = map ((!) (expand_grids gs)) (ss_indices space) \<and>
    sorted (ss_indices space) \<and> distinct (ss_indices space) \<and>
    (\<forall>i \<in> set (ss_indices space). i < length (expand_grids gs) \<and> runnable sa sid (st_defaults d) (expand_grids gs ! i)) \<and>
    ss_total space = length (expand_grids gs) \<and>
    ss_eligible space = length (filter (runnable sa sid (st_defaults d)) (expand_grids gs)) \<and>
    (ss_eligible space \<le> nat (max 1 cap) \<longrightarrow>
       variants = filter (runnable sa sid (st_defaults d)) (expand_grids gs)) \<and>
    (nat (max 1 cap) < ss_eligible space \<longrightarrow>
       length variants \<le> max (nat (max 1 cap)) 2 \<and> (nat (max 1 cap) \<noteq> 1 \<longrightarrow> length variants = nat (max 1 cap)))"
proof -
  define keys where "keys = sorted_keys (merge_grids gs)"
  define axes where "axes = grid_axes (merge_grids gs)"
  from expand_success [OF run strategy grid] obtain judged chosen where
    judged: "point_verdicts sa sid (st_defaults d) keys axes = Inr judged" and ne: "valid_points judged \<noteq> []" and
    sel: "select_points (sa_rng sa seed) fuel baseline keys axes (valid_points judged) cap = Some chosen" and
    variants: "variants = map (decode_point keys axes) chosen" and
    space: "space = space_of keys axes judged (valid_points judged) cap chosen"
    unfolding keys_def axes_def by blast
  have product: "expand_grids gs = map (decode_point keys axes) [0..<axes_total axes]"
    unfolding keys_def axes_def by (rule expand_grids_decode [OF grid])
  have valid: "valid_points judged = filter (\<lambda>i. runnable sa sid (st_defaults d) (decode_point keys axes i)) [0..<axes_total axes]"
    by (rule valid_points_runnable [OF judged])
  have eligible: "filter (runnable sa sid (st_defaults d)) (expand_grids gs) = map (decode_point keys axes) (valid_points judged)"
    by (simp add: product valid filter_map comp_def)
  from select_points_result [OF sel ne valid_points_facts(1,2)] have
    chosen: "sorted chosen" "distinct chosen" "set chosen \<subseteq> set (valid_points judged)" and
    fit: "length (valid_points judged) \<le> nat (max 1 cap) \<longrightarrow> chosen = valid_points judged" and
    over: "nat (max 1 cap) < length (valid_points judged) \<longrightarrow>
       length chosen \<le> max (nat (max 1 cap)) 2 \<and> (nat (max 1 cap) \<noteq> 1 \<longrightarrow> length chosen = nat (max 1 cap))" by blast+
  have range: "i < axes_total axes \<and> runnable sa sid (st_defaults d) (decode_point keys axes i)" if "i \<in> set chosen" for i
    using that chosen(3) by (auto simp: valid)
  have "variants = map ((!) (expand_grids gs)) chosen" using range by (simp add: variants product)
  with chosen range fit over show ?thesis
    by (simp add: space space_of_def Let_def eligible variants) (simp add: product)
qed

text \<open>Flat indices and level choices correspond one to one: below the size of the grid, decoding an index gives one
  level of every axis and encoding them gives the index back; encoding any choice of levels gives an index of the
  grid that decodes to it.\<close>

theorem grid_index_roundtrip:
  "(\<forall>i < axes_total axes. offsets_ok axes (decode_offsets axes i) \<and> flat_index axes (decode_offsets axes i) = i) \<and>
   (\<forall>parts. offsets_ok axes parts \<longrightarrow>
      flat_index axes parts < axes_total axes \<and> decode_offsets axes (flat_index axes parts) = parts)"
  by (simp add: offsets_ok_decode flat_decode flat_index_less decode_flat)

section \<open>The mandatory points are kept\<close>

lemma select_keeps_mandatory:
  assumes sel: "select_points rng fuel baseline keys axes valid cap = Some chosen"
    and valid: "valid \<noteq> []"
    and i: "i \<in> set valid" "i \<in> set (mandatory_points (nat (max 1 cap)) (\<lambda>i. i \<in> set valid) axes (baseline_offsets baseline keys axes))"
  shows "i \<in> set chosen"
proof (cases "length valid \<le> nat (max 1 cap)")
  case True
  with sel i show ?thesis by (simp add: select_points_def sample_limit_def Let_def)
next
  case False
  let ?limit = "nat (max 1 cap)"
  let ?m = "mandatory_points ?limit (\<lambda>i. i \<in> set valid) axes (baseline_offsets baseline keys axes)"
  have limit: "sample_limit valid cap = ?limit" using False by (simp add: sample_limit_def)
  obtain out where out: "draw_points rng 0 valid ?limit fuel ?m = Some out" and chosen: "chosen = sort out"
    using sel False by (auto simp: select_points_def limit Let_def)
  have m: "distinct ?m" "set ?m \<subseteq> set valid"
    using chosen_ok_D [OF mandatory_points_ok [of "\<lambda>i. i \<in> set valid" axes "baseline_offsets baseline keys axes" ?limit]]
    by (auto simp: list_all_iff)
  from draw_points_result [OF out valid m] i chosen show ?thesis by auto
qed

text \<open>C18 The sample covers the edges of the search: with a cap above one plus three times the number of axes, the first,
  the baseline and the last level of every axis, the others at their baseline, are among the variants whenever that
  point is runnable.\<close>

theorem sample_covers_axes:
  assumes run: "expand_grids_bounded sa fuel gs cap seed baseline sid = Some (Inr (variants, space))"
    and strategy: "get_strategy sid = Inr d" and grid: "merge_grids gs \<noteq> []"
    and axes: "axes = grid_axes (merge_grids gs)"
    and offsets: "offsets = baseline_offsets baseline (sorted_keys (merge_grids gs)) axes"
    and cap: "1 + 3 * int (length axes) < cap" and p: "p < length axes"
    and level: "level \<in> {0, offsets ! p, length (axes ! p) - 1}"
    and i: "i = flat_index axes (offsets[p := level])" "i < axes_total axes"
    and ok: "runnable sa sid (st_defaults d) (expand_grids gs ! i)"
  shows "expand_grids gs ! i \<in> set variants"
proof -
  define keys where "keys = sorted_keys (merge_grids gs)"
  from expand_success [OF run strategy grid] obtain judged chosen where
    judged: "point_verdicts sa sid (st_defaults d) keys axes = Inr judged" and ne: "valid_points judged \<noteq> []" and
    sel: "select_points (sa_rng sa seed) fuel baseline keys axes (valid_points judged) cap = Some chosen" and
    variants: "variants = map (decode_point keys axes) chosen"
    unfolding keys_def axes by blast
  have product: "expand_grids gs = map (decode_point keys axes) [0..<axes_total axes]"
    unfolding keys_def axes by (rule expand_grids_decode [OF grid])
  have valid: "i \<in> set (valid_points judged)"
    using ok i(2) by (simp add: valid_points_runnable [OF judged] product)
  have "1 + 3 * length axes < nat (max 1 cap)" using cap by simp
  then have "i \<in> set (mandatory_points (nat (max 1 cap)) (\<lambda>i. i \<in> set (valid_points judged)) axes offsets)"
    unfolding i(1) by (rule mandatory_points_cover) (use p level valid i(1) in simp_all)
  with select_keeps_mandatory [OF sel ne valid] have "i \<in> set chosen" by (simp add: offsets keys_def)
  then show ?thesis using i(2) by (simp add: variants product)
qed

section \<open>The drawing loop ends\<close>

lemma select_points_ends:
  assumes valid: "valid \<noteq> []" "distinct valid"
    and draws: "\<forall>i < length valid. \<exists>j < fuel. rng j mod length valid = i"
  shows "select_points rng fuel baseline keys axes valid cap \<noteq> None"
proof -
  let ?limit = "sample_limit valid cap"
  let ?m = "mandatory_points ?limit (\<lambda>i. i \<in> set valid) axes (baseline_offsets baseline keys axes)"
  have m: "distinct ?m" using chosen_ok_D [OF mandatory_points_ok] by blast
  have "set valid \<subseteq> (\<lambda>j. valid ! (rng j mod length valid)) ` {0..<0 + fuel}"
  proof
    fix x assume "x \<in> set valid"
    then obtain i where "i < length valid" "x = valid ! i" by (auto simp: in_set_conv_nth)
    with draws obtain j where "j < fuel" "x = valid ! (rng j mod length valid)" by auto
    then show "x \<in> (\<lambda>j. valid ! (rng j mod length valid)) ` {0..<0 + fuel}" by auto
  qed
  then have "card (set valid) \<le> card (set ?m \<union> (\<lambda>j. valid ! (rng j mod length valid)) ` {0..<0 + fuel})"
    by (intro card_mono) auto
  moreover have "?limit \<le> card (set valid)" using valid(2) by (simp add: sample_limit_def distinct_card)
  ultimately have "draw_points rng 0 valid ?limit fuel ?m \<noteq> None" by (intro draw_points_ends m valid(1)) simp
  then show ?thesis by (simp add: select_points_def Let_def)
qed

text \<open>C19 The sampler ends: if, among the numbers the generator draws after the seed, every residue modulo every number up
  to the size of the grid occurs within the draws allowed, the sampler returns, whatever the grid, the cap and the
  baseline are.\<close>

theorem sampling_ends:
  assumes "\<forall>n \<le> length (expand_grids gs). \<forall>i < n. \<exists>j < fuel. sa_rng sa seed j mod n = i"
  shows "expand_grids_bounded sa fuel gs cap seed baseline sid \<noteq> None"
proof (cases "get_strategy sid")
  case (Inl e)
  then show ?thesis by (simp add: expand_grids_bounded_def)
next
  case (Inr d)
  define keys where "keys = sorted_keys (merge_grids gs)"
  define axes where "axes = grid_axes (merge_grids gs)"
  have "select_points (sa_rng sa seed) fuel baseline keys axes (valid_points judged) cap \<noteq> None"
    if "merge_grids gs \<noteq> []" "point_verdicts sa sid (st_defaults d) keys axes = Inr judged" "valid_points judged \<noteq> []" for judged
  proof (rule select_points_ends [OF that(3) valid_points_facts(1)])
    have "length (valid_points judged) \<le> length (expand_grids gs)"
      using point_verdicts_nth(1) [OF that(2)] expand_grids_decode [OF that(1)] length_filter_le [of _ "[0..<length judged]"]
      by (simp add: valid_points_def keys_def axes_def)
    with assms show "\<forall>i < length (valid_points judged). \<exists>j < fuel. sa_rng sa seed j mod length (valid_points judged) = i" by blast
  qed
  with Inr show ?thesis
    unfolding expand_grids_bounded_def keys_def axes_def
    by (cases "merge_grids gs = []") (auto simp: Let_def split: sum.splits option.splits)
qed

end
