(* ===== verification/Search_Family.thy ===== *)
theory Search_Family
  imports Sweep_Expand
begin

text \<open>
  The content-addressed definition of a search family, \<open>src/research_lab/search_family_definition.py\<close>, with the
  constructor of \<open>ExperimentSpec\<close> (\<open>src/research_lab/experiment.py\<close>) that binds it.  A definition is a typed
  record, so the checks that a field has the right JSON type are not there; the digest of a ledger is represented
  by its points.  The hashes of a definition and of a snapshot set and the digests of the source files are
  arguments.
\<close>

section \<open>Snapshot bindings\<close>

record snapshot_binding =
  sb_symbol :: string
  sb_timeframe :: string
  sb_snapshot :: string
  sb_evidence :: string
  sb_rows :: int

definition binding_complete :: "snapshot_binding \<Rightarrow> bool" where
  "binding_complete b \<longleftrightarrow>
     sb_symbol b \<noteq> [] \<and> sb_timeframe b \<noteq> [] \<and> sb_snapshot b \<noteq> [] \<and> sb_evidence b \<noteq> [] \<and> sb_rows b \<ge> 1"

definition binding_key :: "snapshot_binding \<Rightarrow> string \<times> string" where
  "binding_key b = (sb_symbol b, sb_timeframe b)"

definition normalize_snapshot_bindings :: "snapshot_binding list \<Rightarrow> exn + snapshot_binding list" where
  "normalize_snapshot_bindings bindings =
     (let normalized = sort_key binding_key bindings
      in if normalized = [] \<or> \<not> list_all binding_complete normalized
         then Inl (ValueError ''complete symbol-level candle snapshot bindings are required'')
         else if \<not> distinct (map binding_key normalized)
         then Inl (ValueError ''duplicate symbol/timeframe candle snapshot binding'')
         else Inr normalized)"

section \<open>The definition\<close>

record family_policy =
  fp_mode :: string
  fp_parent_family :: string
  fp_parent_trial :: string
  fp_prior :: int

definition family_policy_of :: "string \<Rightarrow> string \<Rightarrow> string \<Rightarrow> int \<Rightarrow> exn + family_policy" where
  "family_policy_of mode parent_family parent_trial prior =
     (let m = text_lower (text_strip mode); pf = text_strip parent_family; pt = text_strip parent_trial
      in if m \<notin> {''independent'', ''cumulative'', ''confirmatory''}
         then Inl (ValueError ''unknown cumulative-family policy'')
         else if m = ''independent'' \<and> (pf \<noteq> [] \<or> pt \<noteq> []) then Inl (ValueError ''independent family cannot declare a parent'')
         else if m = ''independent'' \<and> prior \<noteq> 0 then Inl (ValueError ''independent family cannot inherit prior trials'')
         else if m \<noteq> ''independent'' \<and> (pf = [] \<or> pt = [])
         then Inl (ValueError ''follow-up family requires parent_family_id and parent_trial_id'')
         else if m = ''cumulative'' \<and> prior < 1 then Inl (ValueError ''cumulative family requires parent_effective_n_trials'')
         else if m = ''confirmatory'' \<and> prior < 1 then Inl (ValueError ''confirmatory family requires parent trial accounting'')
         else Inr \<lparr>fp_mode = m, fp_parent_family = pf, fp_parent_trial = pt, fp_prior = prior\<rparr>)"

record code_identity =
  ci_compiler :: string
  ci_validity :: string
  ci_sampler :: string
  ci_selection :: string

record family_resource =
  fr_requested :: int
  fr_effective :: int
  fr_count :: nat
  fr_runs :: nat
  fr_cap :: int
  fr_policy :: "resource_policy option"
  fr_profile :: "timeframe_profile option"
  fr_selection :: string

record data_binding =
  db_snapshot :: string
  db_evidence :: string
  db_members :: "snapshot_binding list"
  db_bound :: bool

record declared_grid =
  dg_experiment :: string
  dg_symbols :: "string list"
  dg_families :: "string list"
  dg_grid :: "(string \<times> params list) list"
  dg_timeframe :: string
  dg_filters :: "(string \<times> string list) list"
  dg_max_runs :: int
  dg_backend :: string

text \<open>A point carries the family it is of, empty when the definition has only one.\<close>

datatype origin = Raw_Sweep sweep_spec | Declared declared_grid

record family_definition =
  fd_compact :: bool
  fd_origin :: origin
  fd_axis_order :: "string list"
  fd_ledger :: point_ledger
  fd_points :: "(string \<times> point) list"
  fd_selected :: "nat list"
  fd_symbols :: "string list"
  fd_filters :: "(string \<times> string list) list"
  fd_compiler :: "string \<times> string"
  fd_validity :: "string \<times> string"
  fd_sampler :: "string \<times> string"
  fd_seed :: "string \<times> string"
  fd_resource :: family_resource
  fd_data :: data_binding
  fd_policy :: family_policy

record family_env =
  fe_sampler :: sampler
  fe_sha :: "string \<Rightarrow> string"
  fe_set_hash :: "string \<Rightarrow> snapshot_binding list \<Rightarrow> string"
  fe_hash :: "family_definition \<Rightarrow> string"
  fe_code :: code_identity

definition snapshot_set_identity :: "family_env \<Rightarrow> snapshot_binding list \<Rightarrow> exn + string \<times> string" where
  "snapshot_set_identity fe bindings =
     (case normalize_snapshot_bindings bindings of
        Inl e \<Rightarrow> Inl e
      | Inr normalized \<Rightarrow>
          (case normalized of
             [b] \<Rightarrow> Inr (sb_snapshot b, sb_evidence b)
           | _ \<Rightarrow> Inr (''csmset_'' @ fe_set_hash fe ''CandleSnapshotSet.v1'' normalized,
                       ''cse_'' @ fe_set_hash fe ''CandleEvidenceSet.v1'' normalized)))"

definition family_definition_id :: "family_env \<Rightarrow> family_definition \<Rightarrow> string" where
  "family_definition_id fe d = ''sfd_'' @ fe_hash fe d"

definition compiler_version :: string where
  "compiler_version = ''bounded-cartesian/v3''"

definition declared_version :: string where
  "declared_version = ''declared-grid/v2''"

definition sampler_version :: string where
  "sampler_version = ''deterministic-uniform/v1''"

definition validity_version :: string where
  "validity_version = ''parameter-search/v1''"

text \<open>Equality of two dicts, whatever the order of their keys.\<close>

definition dict_eq :: "('k \<times> 'v) list \<Rightarrow> ('k \<times> 'v) list \<Rightarrow> bool" where
  "dict_eq a b \<longleftrightarrow> list_all (\<lambda>k. map_of a k = map_of b k) (map fst a @ map fst b)"

definition data_binding_of :: "string \<Rightarrow> string \<Rightarrow> snapshot_binding list \<Rightarrow> exn + data_binding" where
  "data_binding_of snapshot evidence bindings =
     (case (if bindings = [] then Inr [] else normalize_snapshot_bindings bindings) of
        Inl e \<Rightarrow> Inl e
      | Inr members \<Rightarrow>
          Inr \<lparr>db_snapshot = snapshot, db_evidence = evidence, db_members = members,
               db_bound = (snapshot \<noteq> [] \<and> evidence \<noteq> [])\<rparr>)"

section \<open>Validation\<close>

definition allowed_dispositions :: "string list" where
  "allowed_dispositions = [''selected'', ''schema_invalid'', ''dependency_invalid'', ''omitted_variant_cap'']"

definition count_of :: "string \<Rightarrow> (string \<times> nat) list \<Rightarrow> nat" where
  "count_of k d = (case map_of d k of None \<Rightarrow> 0 | Some n \<Rightarrow> n)"

text \<open>The first error of the point ledger, compact or with every point.\<close>

definition compact_points_error :: "family_definition \<Rightarrow> exn option" where
  "compact_points_error d =
     (let l = fd_ledger d; dc = pl_dispositions l; rc = pl_reasons l
      in if pl_count l < 1 \<or> \<not> list_all (\<lambda>(k, n). k \<in> set allowed_dispositions) dc
            \<or> sum_list (map snd dc) \<noteq> pl_count l
            \<or> \<not> list_all (\<lambda>(k, n). k \<noteq> [] \<and> n \<ge> 1) rc \<or> sum_list (map snd rc) \<noteq> pl_count l
         then Some (ValueError ''compact search family point ledger counts are invalid'')
         else if \<not> list_all (\<lambda>(f, p). pt_disposition p = ''selected'' \<and> pt_reason p \<noteq> []) (fd_points d)
         then Some (ValueError ''compact selected point is invalid'')
         else if map (pt_index \<circ> snd) (fd_points d) \<noteq> fd_selected d
         then Some (ValueError ''selected flat indices disagree with compact point ledger'')
         else if count_of ''selected'' dc \<noteq> length (fd_selected d)
         then Some (ValueError ''compact selected point count mismatch'')
         else None)"

definition full_points_error :: "family_definition \<Rightarrow> exn option" where
  "full_points_error d =
     (let ps = map snd (fd_points d)
      in if ps = [] then Some (ValueError ''search family definition has no points'')
         else if map pt_index ps \<noteq> [0..<length ps]
         then Some (ValueError ''search family flat indices must be unique and contiguous'')
         else if \<not> list_all (\<lambda>p. pt_disposition p \<in> set allowed_dispositions) ps
         then Some (ValueError ''invalid search family pre-execution disposition'')
         else if \<not> list_all (\<lambda>p. pt_reason p \<noteq> []) ps
         then Some (ValueError ''search family point reason is required'')
         else if fd_selected d \<noteq> map pt_index (selected_points ps)
         then Some (ValueError ''selected flat indices disagree with point dispositions'')
         else None)"

definition scope_error :: "family_definition \<Rightarrow> exn option" where
  "scope_error d =
     (let r = fd_resource d
      in if fr_count r \<noteq> length (fd_selected d) then Some (ValueError ''selected variant count mismatch'')
         else if fd_symbols d = [] then Some (ValueError ''search family symbol scope is missing'')
         else if fr_runs r \<noteq> length (fd_symbols d) * length (fd_selected d)
         then Some (ValueError ''selected run count mismatch'')
         else
           case family_policy_of (fp_mode (fd_policy d)) (fp_parent_family (fd_policy d)) (fp_parent_trial (fd_policy d))
                  (fp_prior (fd_policy d)) of
             Inl e \<Rightarrow> Some e
           | Inr _ \<Rightarrow>
               if fp_mode (fd_policy d) = ''confirmatory'' \<and> fr_runs r \<noteq> 1
               then Some (ValueError ''confirmatory family must declare exactly one selected execution'')
               else None)"

definition data_error :: "family_env \<Rightarrow> family_definition \<Rightarrow> exn option" where
  "data_error fe d =
     (let b = fd_data d
      in if db_bound b \<and> (db_snapshot b = [] \<or> db_evidence b = [])
         then Some (ValueError ''bound search family data identity is incomplete'')
         else if db_members b \<noteq> [] then
           (case normalize_snapshot_bindings (db_members b) of
              Inl e \<Rightarrow> Some e
            | Inr normalized \<Rightarrow>
                if db_members b \<noteq> normalized then Some (ValueError ''search family snapshot members are not canonical'')
                else if snapshot_set_identity fe (db_members b) \<noteq> Inr (db_snapshot b, db_evidence b)
                then Some (ValueError ''search family snapshot set identity mismatch'')
                else if map sb_symbol (db_members b) \<noteq> sort (fd_symbols d)
                then Some (ValueError ''search family snapshot members disagree with symbol scope'')
                else None)
         else if \<not> db_bound b \<and> (db_snapshot b \<noteq> [] \<or> db_evidence b \<noteq> [])
         then Some (ValueError ''pending search family has partial data identity'')
         else None)"

text \<open>The identity of the code: a compact definition must come from this very code, an older one only from a
  known version (its digests are well formed by type).\<close>

definition expected_compiler :: "family_definition \<Rightarrow> string" where
  "expected_compiler d =
     (case fd_origin d of
        Raw_Sweep _ \<Rightarrow> if fd_compact d then compiler_version else ''bounded-cartesian/v2''
      | Declared _ \<Rightarrow> declared_version)"

definition code_error :: "family_env \<Rightarrow> family_definition \<Rightarrow> exn option" where
  "code_error fe d =
     (let c = fe_code fe
      in if fst (fd_compiler d) \<noteq> expected_compiler d then Some (ValueError ''search-family compiler version is unavailable'')
         else if \<not> fd_compact d then None
         else if snd (fd_compiler d) \<noteq> ci_compiler c
         then Some (ValueError ''historical search-family compiler is unavailable'')
         else if snd (fd_validity d) \<noteq> ci_validity c
         then Some (ValueError ''historical search-family validity contract is unavailable'')
         else if fst (fd_sampler d) \<noteq> ''none'' \<and> snd (fd_sampler d) \<noteq> ci_sampler c
         then Some (ValueError ''historical search-family sampler is unavailable'')
         else
           case fd_origin d of
             Raw_Sweep _ \<Rightarrow>
               if fr_selection (fd_resource d) \<noteq> ci_selection c
               then Some (ValueError ''historical search-family selection policy is unavailable'') else None
           | Declared _ \<Rightarrow> None)"

section \<open>Recompiling the embedded sweep\<close>

definition seed_material :: "sweep_spec \<Rightarrow> string" where
  "seed_material spec = sw_id spec @ ''|'' @ sw_family spec @ ''|'' @ sw_timeframe spec"

definition sweep_grids :: "sweep_spec \<Rightarrow> grid list" where
  "sweep_grids spec = [sw_setup spec, sw_entry spec, sw_exit spec]"

definition baseline_entry :: "params \<Rightarrow> string \<times> json list \<Rightarrow> string \<times> json" where
  "baseline_entry defaults kv =
     (fst kv, case map_of defaults (fst kv) of
                Some v \<Rightarrow> v
              | None \<Rightarrow> if fst kv = ''exit_mode'' then JStr ''baseline'' else snd kv ! 0)"

definition sweep_baseline :: "params \<Rightarrow> sweep_spec \<Rightarrow> params" where
  "sweep_baseline defaults spec =
     dict_update [] (map (baseline_entry defaults) (filter (\<lambda>(k, vs). vs \<noteq> []) (concat (sweep_grids spec))))"

definition sweep_filters :: "py_lib \<Rightarrow> sweep_spec \<Rightarrow> (string \<times> string list) list" where
  "sweep_filters px spec =
     map (\<lambda>(k, vs). (k, map (py_text (px_str px)) vs)) (filter (\<lambda>(k, vs). vs \<noteq> []) (sw_filter spec))"

definition sweep_symbols :: "sweep_spec \<Rightarrow> string list" where
  "sweep_symbols spec = sw_anchor spec # sw_related spec"

text \<open>The expansion a sweep is compiled with.\<close>

definition expand_sweep :: "family_env \<Rightarrow> nat \<Rightarrow> sweep_spec \<Rightarrow> int \<Rightarrow> (params list \<times> search_space) run" where
  "expand_sweep fe fuel spec cap =
     (let sa = fe_sampler fe
      in case get_strategy (sw_family spec) of
           Inl e \<Rightarrow> Some (Inl e)
         | Inr d \<Rightarrow>
             (case executable_exit_params (sa_px sa) (sa_policy sa) (sw_family spec) (st_defaults d) of
                Inl e \<Rightarrow> Some (Inl e)
              | Inr defaults \<Rightarrow>
                  expand_grids_bounded sa fuel (sweep_grids spec) cap (seed_material spec)
                    (sweep_baseline defaults spec) (sw_family spec)))"

definition sweep_contract_error :: "sweep_spec \<Rightarrow> family_resource \<Rightarrow> exn option" where
  "sweep_contract_error spec r =
     (case (fr_policy r, fr_profile r) of
        (Some pol, Some profile) \<Rightarrow>
          if tp_timeframe profile \<noteq> text_lower (sw_timeframe spec)
          then Some (ValueError ''timeframe profile disagrees with raw sweep'')
          else if fr_requested r \<noteq> sw_max_variants spec
          then Some (ValueError ''requested variant cap disagrees with raw sweep'')
          else if fr_effective r \<noteq> effective_variants spec (tp_variants profile)
          then Some (ValueError ''effective variant cap disagrees with selection contract'')
          else None
      | _ \<Rightarrow> Some (ValueError ''invalid embedded sweep selection contract''))"

definition sweep_derived_error :: "family_env \<Rightarrow> family_definition \<Rightarrow> sweep_spec \<Rightarrow> params list \<Rightarrow> search_space \<Rightarrow> exn option" where
  "sweep_derived_error fe d spec variants space =
     (let r = fd_resource d; symbols = sweep_symbols spec
      in if fd_compact d \<and> fd_ledger d \<noteq> ss_ledger space
         then Some (ValueError ''compact search family point ledger disagrees with raw sweep derivation'')
         else if fd_compact d \<and> map snd (fd_points d) \<noteq> ss_points space
         then Some (ValueError ''compact selected points disagree with raw sweep derivation'')
         else if \<not> fd_compact d \<and> map snd (fd_points d) \<noteq> pl_points (ss_ledger space)
         then Some (ValueError ''search family points disagree with raw sweep derivation'')
         else if fd_axis_order d \<noteq> ss_axis_order space
         then Some (ValueError ''search family axis order disagrees with raw sweep derivation'')
         else if fd_selected d \<noteq> ss_indices space
         then Some (ValueError ''selected indices disagree with raw sweep derivation'')
         else if fd_symbols d \<noteq> symbols then Some (ValueError ''search family symbols disagree with raw sweep'')
         else if \<not> dict_eq (fd_filters d) (sweep_filters (sa_px (fe_sampler fe)) spec)
         then Some (ValueError ''search family filters disagree with raw sweep'')
         else if fst (fd_sampler d) \<noteq> sampler_version
         then Some (ValueError ''sampler version disagrees with compiler contract'')
         else if fd_seed d \<noteq> (seed_material spec, fe_sha fe (seed_material spec))
         then Some (ValueError ''sampler seed identity disagrees with raw sweep'')
         else if fst (fd_validity d) \<noteq> validity_version
         then Some (ValueError ''validity version disagrees with compiler contract'')
         else
           case fr_policy r of
             None \<Rightarrow> Some (ValueError ''invalid embedded sweep selection contract'')
           | Some pol \<Rightarrow>
               if fr_cap r \<noteq> fst (effective_variant_cap pol (int (length symbols * length variants)))
               then Some (ValueError ''execution cap disagrees with resource policy'') else None)"

definition fail_if :: "exn option \<Rightarrow> 'a run \<Rightarrow> 'a run" where
  "fail_if e m = (case e of None \<Rightarrow> m | Some x \<Rightarrow> Some (Inl x))"

definition validate_sweep_derivation :: "family_env \<Rightarrow> nat \<Rightarrow> family_definition \<Rightarrow> sweep_spec \<Rightarrow> unit run" where
  "validate_sweep_derivation fe fuel d spec =
     fail_if (sweep_contract_error spec (fd_resource d))
       (then_run (expand_sweep fe fuel spec (fr_effective (fd_resource d)))
          (\<lambda>(variants, space). fail_if (sweep_derived_error fe d spec variants space) (Some (Inr ()))))"

text \<open>The points of a declared grid: its rows, family by family, all selected.\<close>

definition declared_rows :: "declared_grid \<Rightarrow> (string \<times> params) list" where
  "declared_rows g =
     concat (map (\<lambda>f. map (Pair f) (case map_of (dg_grid g) f of None \<Rightarrow> [] | Some ps \<Rightarrow> ps)) (dg_families g))"

definition declared_points :: "declared_grid \<Rightarrow> (string \<times> point) list" where
  "declared_points g =
     map (\<lambda>(i, f, ps). (f, \<lparr>pt_index = i, pt_params = ps, pt_disposition = ''selected'', pt_reason = ''declared_grid_point''\<rparr>))
       (zip [0..<length (declared_rows g)] (declared_rows g))"

definition declared_error :: "family_definition \<Rightarrow> declared_grid \<Rightarrow> exn option" where
  "declared_error d g =
     (if fd_points d \<noteq> declared_points g then Some (ValueError ''declared-grid points disagree with declared source'')
      else if fd_symbols d \<noteq> dg_symbols g then Some (ValueError ''declared-grid symbols disagree with declared source'')
      else if \<not> dict_eq (fd_filters d) (dg_filters g) then Some (ValueError ''declared-grid filters disagree with declared source'')
      else None)"

definition points_error :: "family_definition \<Rightarrow> exn option" where
  "points_error d =
     (if fd_selected d \<noteq> sorted_set (fd_selected d)
      then Some (ValueError ''selected flat indices must be sorted and unique'')
      else if fd_compact d then compact_points_error d else full_points_error d)"

record family_counts =
  fc_raw :: nat
  fc_schema_invalid :: nat
  fc_dependency_invalid :: nat
  fc_eligible :: nat
  fc_selected :: nat
  fc_omitted :: nat

definition family_counts_of :: "family_definition \<Rightarrow> family_counts" where
  "family_counts_of d =
     (let dc = (if fd_compact d then pl_dispositions (fd_ledger d) else count_by (pt_disposition \<circ> snd) (fd_points d))
      in \<lparr>fc_raw = (if fd_compact d then pl_count (fd_ledger d) else length (fd_points d)),
          fc_schema_invalid = count_of ''schema_invalid'' dc, fc_dependency_invalid = count_of ''dependency_invalid'' dc,
          fc_eligible = count_of ''selected'' dc + count_of ''omitted_variant_cap'' dc,
          fc_selected = length (fd_selected d), fc_omitted = count_of ''omitted_variant_cap'' dc\<rparr>)"

definition derivation_check :: "family_env \<Rightarrow> nat \<Rightarrow> family_definition \<Rightarrow> unit run" where
  "derivation_check fe fuel d =
     (case fd_origin d of
        Raw_Sweep spec \<Rightarrow> validate_sweep_derivation fe fuel d spec
      | Declared g \<Rightarrow> fail_if (declared_error d g) (Some (Inr ())))"

definition validate_search_family_definition :: "family_env \<Rightarrow> nat \<Rightarrow> family_definition \<Rightarrow> string \<Rightarrow> family_counts run" where
  "validate_search_family_definition fe fuel d expected_id =
     fail_if (points_error d) (fail_if (scope_error d) (fail_if (data_error fe d) (fail_if (code_error fe d)
       (then_run (derivation_check fe fuel d)
          (\<lambda>_. if expected_id \<noteq> [] \<and> family_definition_id fe d \<noteq> expected_id
               then Some (Inl (ValueError ''search family definition id mismatch''))
               else Some (Inr (family_counts_of d)))))))"

section \<open>Building a definition\<close>

definition sweep_definition ::
  "family_env \<Rightarrow> sweep_spec \<Rightarrow> search_space \<Rightarrow> int \<Rightarrow> int \<Rightarrow> resource_policy \<Rightarrow> timeframe_profile \<Rightarrow> data_binding
     \<Rightarrow> family_policy \<Rightarrow> family_definition" where
  "sweep_definition fe spec space effective execution_cap pol profile data policy =
     (let symbols = sweep_symbols spec; seed = seed_material spec
      in \<lparr>fd_compact = True, fd_origin = Raw_Sweep spec, fd_axis_order = ss_axis_order space,
          fd_ledger = ss_ledger space, fd_points = map (Pair []) (ss_points space), fd_selected = ss_indices space,
          fd_symbols = symbols, fd_filters = sort_key fst (sweep_filters (sa_px (fe_sampler fe)) spec),
          fd_compiler = (compiler_version, ci_compiler (fe_code fe)),
          fd_validity = (validity_version, ci_validity (fe_code fe)),
          fd_sampler = (sampler_version, ci_sampler (fe_code fe)), fd_seed = (seed, fe_sha fe seed),
          fd_resource = \<lparr>fr_requested = sw_max_variants spec, fr_effective = effective,
            fr_count = length (ss_indices space), fr_runs = length symbols * length (ss_indices space),
            fr_cap = execution_cap, fr_policy = Some pol, fr_profile = Some profile,
            fr_selection = ci_selection (fe_code fe)\<rparr>,
          fd_data = data, fd_policy = policy\<rparr>)"

definition build_sweep_family_definition ::
  "family_env \<Rightarrow> nat \<Rightarrow> sweep_spec \<Rightarrow> search_space \<Rightarrow> int \<Rightarrow> int \<Rightarrow> resource_policy \<Rightarrow> timeframe_profile \<Rightarrow> string \<Rightarrow> string
     \<Rightarrow> snapshot_binding list \<Rightarrow> (family_definition \<times> string) run" where
  "build_sweep_family_definition fe fuel spec space effective execution_cap pol profile snapshot evidence bindings =
     (case data_binding_of snapshot evidence bindings of
        Inl e \<Rightarrow> Some (Inl e)
      | Inr data \<Rightarrow>
          (case family_policy_of (sw_policy spec) (sw_parent_family spec) (sw_parent_trial spec) (sw_parent_trials spec) of
             Inl e \<Rightarrow> Some (Inl e)
           | Inr policy \<Rightarrow>
               (let d = sweep_definition fe spec space effective execution_cap pol profile data policy
                in then_run (validate_search_family_definition fe fuel d []) (\<lambda>_. Some (Inr (d, family_definition_id fe d))))))"

section \<open>Experiments\<close>

record experiment_spec =
  ex_id :: string
  ex_glob :: string
  ex_symbols :: "string list"
  ex_families :: "string list"
  ex_grid :: "(string \<times> params list) list"
  ex_fees :: rat
  ex_slippage :: rat
  ex_min_trades :: int
  ex_max_runs :: int
  ex_filters :: "(string \<times> string list) list"
  ex_event_context :: json
  ex_timeframe :: string
  ex_backend :: string
  ex_snapshot :: string
  ex_evidence :: string
  ex_bindings :: "snapshot_binding list"
  ex_definition :: "family_definition option"
  ex_family_id :: string

definition declared_grid_of :: "experiment_spec \<Rightarrow> declared_grid" where
  "declared_grid_of ex =
     \<lparr>dg_experiment = ex_id ex, dg_symbols = ex_symbols ex, dg_families = ex_families ex, dg_grid = ex_grid ex,
      dg_timeframe = ex_timeframe ex, dg_filters = ex_filters ex, dg_max_runs = ex_max_runs ex,
      dg_backend = ex_backend ex\<rparr>"

text \<open>\<open>build_declared_grid_definition\<close>; \<open>plan_policy\<close> is the policy the plan names, if any.\<close>

definition build_declared_grid_definition ::
  "family_env \<Rightarrow> nat \<Rightarrow> experiment_spec \<Rightarrow> family_policy option \<Rightarrow> (family_definition \<times> string) run" where
  "build_declared_grid_definition fe fuel ex plan_policy =
     (let g = declared_grid_of ex; points = declared_points g; n = length points;
          p = (case plan_policy of
                 None \<Rightarrow> \<lparr>fp_mode = ''independent'', fp_parent_family = [], fp_parent_trial = [], fp_prior = 0\<rparr>
               | Some p \<Rightarrow> p)
      in case data_binding_of (ex_snapshot ex) (ex_evidence ex) (ex_bindings ex) of
           Inl e \<Rightarrow> Some (Inl e)
         | Inr data \<Rightarrow>
             (case family_policy_of (fp_mode p) (fp_parent_family p) (fp_parent_trial p) (fp_prior p) of
                Inl e \<Rightarrow> Some (Inl e)
              | Inr policy \<Rightarrow>
                  (let d = \<lparr>fd_compact = False, fd_origin = Declared g, fd_axis_order = [],
                            fd_ledger = point_ledger_of [], fd_points = points,
                            fd_selected = map (pt_index \<circ> snd) points, fd_symbols = ex_symbols ex,
                            fd_filters = ex_filters ex, fd_compiler = (declared_version, ci_compiler (fe_code fe)),
                            fd_validity = (''declared-as-provided/v1'', ci_validity (fe_code fe)),
                            fd_sampler = (''none'', []), fd_seed = ([], []),
                            fd_resource = \<lparr>fr_requested = int n, fr_effective = int n, fr_count = n,
                              fr_runs = length (ex_symbols ex) * n, fr_cap = ex_max_runs ex, fr_policy = None,
                              fr_profile = None, fr_selection = []\<rparr>,
                            fd_data = data, fd_policy = policy\<rparr>
                   in then_run (validate_search_family_definition fe fuel d []) (\<lambda>_. Some (Inr (d, family_definition_id fe d))))))"

text \<open>\<open>validate_experiment_spec_binding\<close>.\<close>

definition default_family :: "family_definition \<Rightarrow> string" where
  "default_family d = (case fd_origin d of Raw_Sweep spec \<Rightarrow> sw_family spec | Declared _ \<Rightarrow> [])"

definition add_grid_point :: "string \<Rightarrow> (string \<times> params list) list \<Rightarrow> string \<times> point \<Rightarrow> (string \<times> params list) list" where
  "add_grid_point dflt g fp =
     (if pt_disposition (snd fp) \<noteq> ''selected'' then g
      else dict_adjust (if fst fp = [] then dflt else fst fp) [] (\<lambda>ps. ps @ [pt_params (snd fp)]) g)"

definition bound_grid :: "family_definition \<Rightarrow> string list \<Rightarrow> (string \<times> params list) list" where
  "bound_grid d fams = foldl (add_grid_point (default_family d)) (dict_update [] (map (\<lambda>f. (f, [])) fams)) (fd_points d)"

definition data_mismatch :: "family_definition \<Rightarrow> experiment_spec \<Rightarrow> bool" where
  "data_mismatch d ex \<longleftrightarrow>
     db_bound (fd_data d) \<and>
     (db_snapshot (fd_data d) \<noteq> ex_snapshot ex \<or> db_evidence (fd_data d) \<noteq> ex_evidence ex \<or>
      Inr (db_members (fd_data d)) \<noteq> (if ex_bindings ex = [] then Inr [] else normalize_snapshot_bindings (ex_bindings ex)))"

definition experiment_binding_error :: "experiment_spec \<Rightarrow> family_definition \<Rightarrow> exn option" where
  "experiment_binding_error ex d =
     (if fd_symbols d \<noteq> ex_symbols ex
      then Some (ValueError ''ExperimentSpec symbols disagree with search family definition'')
      else if \<not> dict_eq (fd_filters d) (ex_filters ex)
      then Some (ValueError ''ExperimentSpec filters disagree with search family definition'')
      else if fr_cap (fd_resource d) \<noteq> ex_max_runs ex
      then Some (ValueError ''ExperimentSpec execution cap disagrees with search family definition'')
      else if \<not> dict_eq (bound_grid d (ex_families ex)) (ex_grid ex)
      then Some (ValueError ''ExperimentSpec parameter grid disagrees with search family definition'')
      else if data_mismatch d ex
      then Some (ValueError ''ExperimentSpec data identity disagrees with search family definition'')
      else case fd_origin d of
             Raw_Sweep _ \<Rightarrow> None
           | Declared g \<Rightarrow>
               if g \<noteq> declared_grid_of ex
               then Some (ValueError ''declared-grid ExperimentSpec fields disagree with family definition'') else None)"

text \<open>\<open>__post_init__\<close>: a definition comes with its id and is validated, or one is built from the declared grid.\<close>

definition experiment_post_init ::
  "family_env \<Rightarrow> nat \<Rightarrow> family_policy option \<Rightarrow> experiment_spec \<Rightarrow> experiment_spec run" where
  "experiment_post_init fe fuel plan_policy ex =
     (if (ex_definition ex \<noteq> None) \<noteq> (ex_family_id ex \<noteq> [])
      then Some (Inl (ValueError ''search family definition and id must be supplied together''))
      else case ex_definition ex of
        Some d \<Rightarrow>
          then_run (validate_search_family_definition fe fuel d (ex_family_id ex))
            (\<lambda>_. fail_if (experiment_binding_error ex d) (Some (Inr ex)))
      | None \<Rightarrow>
          then_run (build_declared_grid_definition fe fuel ex plan_policy)
            (\<lambda>(d, did). let ex2 = ex\<lparr>ex_definition := Some d, ex_family_id := did\<rparr>
                        in fail_if (experiment_binding_error ex2 d) (Some (Inr ex2))))"

definition effective_family_n_trials :: "family_env \<Rightarrow> nat \<Rightarrow> family_definition \<Rightarrow> int run" where
  "effective_family_n_trials fe fuel d =
     then_run (validate_search_family_definition fe fuel d [])
       (\<lambda>_. let selected = int (fr_runs (fd_resource d)); policy = fd_policy d
            in if fp_mode policy = ''confirmatory'' then Some (Inr 1)
               else if selected < 1 then Some (Inl (ValueError ''search family has no selected trials''))
               else if fp_mode policy = ''cumulative'' then Some (Inr (fp_prior policy + selected))
               else Some (Inr selected))"

end
