(* ===== verification/Sweep_Compile.thy ===== *)
theory Sweep_Compile
  imports Search_Family
begin

text \<open>
  \<open>compile_sweep\<close> of \<open>src/research_lab/sweep_compile.py\<close>: the gates, the bounded expansion, the definition of the
  search family and the experiment bound to it; and what the worker checks of a queued experiment before it runs.
\<close>

definition grid_error_text :: string where
  "grid_error_text = ''variant grid''"

text \<open>An oversized grid is no error here: its message is recognised by its text.\<close>

definition blocking_errors :: "py_lib \<Rightarrow> sweep_validation \<Rightarrow> sweep_error list" where
  "blocking_errors px r = filter (\<lambda>e. \<not> sublist grid_error_text (sweep_error_text px e)) (sv_errors r)"

record sweep_request =
  sr_glob :: string
  sr_fees :: rat
  sr_slippage :: rat
  sr_min_trades :: int
  sr_event_context :: json
  sr_snapshot :: string
  sr_evidence :: string
  sr_bindings :: "snapshot_binding list"

text \<open>The numbers of \<open>plan_meta\<close> beside the search space.\<close>

record sweep_plan =
  sp_space :: search_space
  sp_symbols :: nat
  sp_runs :: int
  sp_cap :: int
  sp_omitted :: int

definition sweep_experiment ::
  "family_env \<Rightarrow> sweep_spec \<Rightarrow> sweep_request \<Rightarrow> params list \<Rightarrow> int \<Rightarrow> family_definition \<Rightarrow> string \<Rightarrow> experiment_spec" where
  "sweep_experiment fe spec rq variants job_cap d did =
     \<lparr>ex_id = ''sweep_'' @ sw_id spec, ex_glob = sr_glob rq, ex_symbols = sweep_symbols spec,
      ex_families = [sw_family spec], ex_grid = [(sw_family spec, variants)], ex_fees = sr_fees rq,
      ex_slippage = sr_slippage rq, ex_min_trades = sr_min_trades rq, ex_max_runs = job_cap,
      ex_filters = sweep_filters (sa_px (fe_sampler fe)) spec, ex_event_context = sr_event_context rq,
      ex_timeframe = sw_timeframe spec, ex_backend = sw_backend spec, ex_snapshot = sr_snapshot rq,
      ex_evidence = sr_evidence rq, ex_bindings = sr_bindings rq, ex_definition = Some d, ex_family_id = did\<rparr>"

definition sweep_plan_of :: "sweep_spec \<Rightarrow> search_space \<Rightarrow> int \<Rightarrow> int \<Rightarrow> sweep_plan" where
  "sweep_plan_of spec space runs job_cap =
     \<lparr>sp_space = space, sp_symbols = length (sweep_symbols spec), sp_runs = runs, sp_cap = job_cap,
      sp_omitted = max 0 (runs - job_cap)\<rparr>"

definition compile_sweep ::
  "family_env \<Rightarrow> nat \<Rightarrow> string option \<Rightarrow> (string \<Rightarrow> bool) \<Rightarrow> timeframe_profiles \<Rightarrow> resource_policy \<Rightarrow> sweep_spec
     \<Rightarrow> sweep_request \<Rightarrow> (experiment_spec \<times> sweep_plan) run" where
  "compile_sweep fe fuel gpu inside profiles pol spec rq =
     (let px = sa_px (fe_sampler fe); r = validate_sweep_spec px gpu inside profiles pol spec
      in if blocking_errors px r \<noteq> []
         then Some (Inl (ValueError (''invalid sweep spec: '' @
                join_text ''; '' (map (sweep_error_text px) (blocking_errors px r)))))
         else then_run (expand_sweep fe fuel spec (sv_effective r))
           (\<lambda>(variants, space).
              let runs = int (length (sweep_symbols spec) * length variants);
                  job_cap = fst (effective_variant_cap pol runs)
              in case profile_get profiles (sw_timeframe spec) of
                   None \<Rightarrow> Some (Inl (ValueError ''unknown timeframe''))
                 | Some profile \<Rightarrow>
                     then_run (build_sweep_family_definition fe fuel spec space (sv_effective r) job_cap pol profile
                                 (sr_snapshot rq) (sr_evidence rq) (sr_bindings rq))
                       (\<lambda>(d, did).
                          then_run (experiment_post_init fe fuel None (sweep_experiment fe spec rq variants job_cap d did))
                            (\<lambda>ex. Some (Inr (ex, sweep_plan_of spec space runs job_cap))))))"

text \<open>The worker of \<open>scripts/strategy_lab/worker_once.py\<close> refuses an experiment whose runs exceed the cap of the policy
  it runs under.\<close>

definition worker_accepts :: "resource_policy \<Rightarrow> experiment_spec \<Rightarrow> exn + unit" where
  "worker_accepts pol ex =
     (if snd (effective_variant_cap pol (ex_max_runs ex))
      then Inl (RuntimeError ''queued search-family resource policy drift'') else Inr ())"

end
