(* ===== verification/Family_Lemmas.thy ===== *)
theory Family_Lemmas
  imports Sweep_Claims Sweep_Compile
begin

text \<open>
  Facts about a compiled search space: its ledger accounts for every point, and the definition built from it passes
  its own validation.
\<close>

section \<open>Counting\<close>

lemma sum_list_insort: "sum_list (map g (insort_key f x xs)) = (g x :: nat) + sum_list (map g xs)"
  by (induction xs) simp_all

lemma sum_list_sort_key: "sum_list (map g (sort_key f xs)) = (sum_list (map g xs) :: nat)"
  by (induction xs) (simp_all add: sum_list_insort)

lemma count_by_sum: "sum_list (map snd (count_by f xs)) = length xs"
proof -
  have "sum_list (map snd (foldl (\<lambda>d x. dict_adjust (f x) 0 Suc d) d xs)) = sum_list (map snd d) + length xs" for d
    by (induction xs arbitrary: d) (simp_all add: sum_dict_adjust)
  from this [of "[]"] have "sum_list (map snd (foldl (\<lambda>d x. dict_adjust (f x) 0 Suc d) [] xs)) = length xs" by simp
  then show ?thesis by (simp only: count_by_def sum_list_sort_key)
qed

lemma count_fold:
  "distinct (map fst d) \<Longrightarrow>
     distinct (map fst (foldl (\<lambda>d x. dict_adjust (f x) 0 Suc d) d xs)) \<and>
     map_of (foldl (\<lambda>d x. dict_adjust (f x) 0 Suc d) d xs) k =
       (if length (filter (\<lambda>x. f x = k) xs) = 0 then map_of d k
        else Some (length (filter (\<lambda>x. f x = k) xs) + (case map_of d k of None \<Rightarrow> 0 | Some n \<Rightarrow> n)))"
proof (induction xs arbitrary: d)
  case (Cons x xs)
  have "distinct (map fst (dict_adjust (f x) 0 Suc d))" using Cons.prems by (simp add: keys_dict_adjust)
  from Cons.IH [OF this] show ?case by (auto simp: map_of_dict_adjust split: option.splits)
qed simp

lemma map_of_sort_key: "distinct (map fst d) \<Longrightarrow> map_of (sort_key fst d) k = map_of d k"
proof -
  assume d: "distinct (map fst d)"
  have "distinct (map fst (sort_key fst d))" using d by (simp add: distinct_map)
  with d show ?thesis by (intro map_of_inject_set [THEN iffD2, THEN fun_cong]) simp_all
qed

lemma count_by_map: "map_of (count_by f xs) k = (let n = length (filter (\<lambda>x. f x = k) xs) in if n = 0 then None else Some n)"
  using count_fold [of "[]" f xs k] by (simp add: count_by_def map_of_sort_key Let_def)

lemma count_by_entries: "(k, n) \<in> set (count_by f xs) \<Longrightarrow> n \<ge> 1 \<and> (\<exists>x \<in> set xs. f x = k)"
proof -
  assume kn: "(k, n) \<in> set (count_by f xs)"
  have "distinct (map fst (count_by f xs))"
    using count_fold [of "[]" f xs k] by (simp add: count_by_def distinct_map)
  then have "map_of (count_by f xs) k = Some n" using kn by (rule map_of_is_SomeI)
  then have "filter (\<lambda>x. f x = k) xs \<noteq> [] \<and> n = length (filter (\<lambda>x. f x = k) xs)"
    by (simp add: count_by_map Let_def split: if_splits)
  then show ?thesis by (auto simp: filter_empty_conv Suc_le_eq)
qed

section \<open>Reasons are never empty\<close>

lemma bound_errors_nonempty: "[] \<notin> set (bound_errors px key r q)"
  by (simp add: bound_errors_def split: option.splits)

lemma value_errors_nonempty: "[] \<notin> set (value_errors px key r v)"
  using bound_errors_nonempty [of px key r]
  by (simp add: value_errors_def split: option.splits json.splits bool.splits)

lemma item_errors_nonempty: "item_errors px pol ds kv = Inr es \<Longrightarrow> [] \<notin> set es"
  using value_errors_nonempty [of px "fst kv"]
  by (auto simp: item_errors_def validate_one_def split: option.splits sum.splits if_splits)

lemma executable_errors_nonempty: "[] \<notin> set (executable_errors px pol ps)"
  by (auto simp: executable_errors_def Let_def split: option.splits)

lemma sorted_set_eq_Nil [simp]: "sorted_set xs = [] \<longleftrightarrow> xs = []"
  by (metis empty_set set_empty sorted_set_simps(1))

lemma validate_params_errors:
  assumes "validate_params px pol sid ps ex = Inr r" "\<not> pr_ok r"
  shows "pr_errors r \<noteq> [] \<and> [] \<notin> set (pr_errors r)"
proof -
  have concat: "[] \<notin> set (concat ess)" if "sequence_rows (map (item_errors px pol ds) kvs) = Inr ess" for ds kvs ess
  proof -
    have eq: "map (item_errors px pol ds) kvs = map Inr ess" by (rule sequence_rows_Inr [OF that])
    have "[] \<notin> set es" if es: "es \<in> set ess" for es
    proof -
      from es have "Inr es \<in> set (map (item_errors px pol ds) kvs)" unfolding eq by simp
      then obtain kv where "item_errors px pol ds kv = Inr es" by (metis imageE list.set_map)
      then show ?thesis by (rule item_errors_nonempty)
    qed
    then show ?thesis by simp
  qed
  show ?thesis
    using assms executable_errors_nonempty [of px pol ps]
    by (auto simp: validate_params_def failed_result_def result_of_def Let_def split: sum.splits json.splits if_splits dest!: concat)
qed

lemma join_text_nonempty: "xs \<noteq> [] \<Longrightarrow> [] \<notin> set xs \<Longrightarrow> join_text sep xs \<noteq> []"
  by (cases "(sep, xs)" rule: join_text.cases) auto

lemma point_verdict_reason: "point_verdict sa sid ds ps = Inr (Some (disposition, reason)) \<Longrightarrow> reason \<noteq> []"
  using validate_params_errors
  by (fastforce simp: point_verdict_def Let_def search_variant_validity_def join_text_nonempty
      split: sum.splits if_splits prod.splits bool.splits option.splits)

section \<open>A search space accounts for its points\<close>

definition space_ok :: "params list \<Rightarrow> search_space \<Rightarrow> bool" where
  "space_ok variants space \<longleftrightarrow>
     pl_count (ss_ledger space) \<ge> 1 \<and>
     list_all (\<lambda>(k, n). k \<in> set allowed_dispositions) (pl_dispositions (ss_ledger space)) \<and>
     sum_list (map snd (pl_dispositions (ss_ledger space))) = pl_count (ss_ledger space) \<and>
     list_all (\<lambda>(k, n). k \<noteq> [] \<and> n \<ge> 1) (pl_reasons (ss_ledger space)) \<and>
     sum_list (map snd (pl_reasons (ss_ledger space))) = pl_count (ss_ledger space) \<and>
     list_all (\<lambda>p. pt_disposition p = ''selected'' \<and> pt_reason p \<noteq> []) (ss_points space) \<and>
     map pt_index (ss_points space) = ss_indices space \<and>
     count_of ''selected'' (pl_dispositions (ss_ledger space)) = length (ss_indices space) \<and>
     sorted (ss_indices space) \<and> distinct (ss_indices space) \<and>
     map pt_params (ss_points space) = variants \<and> variants \<noteq> []"

lemma empty_space_ok: "space_ok [[]] empty_space"
  by code_simp

lemma filter_mem_upt:
  assumes "sorted chosen" "distinct chosen" "set chosen \<subseteq> {0..<n}"
  shows "filter (\<lambda>i. i \<in> set chosen) [0..<n] = chosen"
  by (rule sorted_distinct_set_unique) (use assms in \<open>auto simp: sorted_filter [where f = id, simplified]\<close>)

lemma select_points_nonempty:
  assumes sel: "select_points rng fuel baseline keys axes valid cap = Some chosen" and ne: "valid \<noteq> []"
  shows "chosen \<noteq> []"
proof (cases "length valid \<le> nat (max 1 cap)")
  case True
  with assms show ?thesis by (simp add: select_points_def sample_limit_def Let_def)
next
  case False
  then have limit: "sample_limit valid cap = nat (max 1 cap)" by (simp add: sample_limit_def)
  let ?m = "mandatory_points (nat (max 1 cap)) (\<lambda>i. i \<in> set valid) axes (baseline_offsets baseline keys axes)"
  obtain out where out: "draw_points rng 0 valid (nat (max 1 cap)) fuel ?m = Some out" and chosen: "chosen = sort out"
    using sel False by (auto simp: select_points_def limit Let_def)
  have m: "distinct ?m" "set ?m \<subseteq> set valid"
    using chosen_ok_D [OF mandatory_points_ok [of "\<lambda>i. i \<in> set valid" axes "baseline_offsets baseline keys axes" "nat (max 1 cap)"]]
    by (auto simp: list_all_iff)
  from draw_points_result [OF out ne m] have "length out = max (nat (max 1 cap)) (length ?m)" by blast
  moreover have "nat (max 1 cap) \<ge> 1" by simp
  ultimately have "length out \<ge> 1" by linarith
  then show ?thesis unfolding chosen by (metis length_sort list.size(3) not_one_le_zero)
qed

definition selection :: "string list \<Rightarrow> json list list \<Rightarrow> (string \<times> string) option list \<Rightarrow> nat list \<Rightarrow> bool" where
  "selection keys axes judged chosen \<longleftrightarrow>
     (\<exists>sa sid ds. point_verdicts sa sid ds keys axes = Inr judged) \<and>
     sorted chosen \<and> distinct chosen \<and> set chosen \<subseteq> set (valid_points judged) \<and> chosen \<noteq> []"

lemma chosen_in_grid:
  "selection keys axes judged chosen \<Longrightarrow> i \<in> set chosen \<Longrightarrow> i < axes_total axes \<and> judged ! i = None"
  by (auto simp: selection_def valid_points_facts dest!: point_verdicts_nth(1))

lemma point_labels:
  assumes sel: "selection keys axes judged chosen" and i: "i < axes_total axes"
  shows "pt_disposition (point_of keys axes (\<lambda>i. judged ! i) chosen i) \<in> set allowed_dispositions"
    "pt_reason (point_of keys axes (\<lambda>i. judged ! i) chosen i) \<noteq> []"
    "pt_disposition (point_of keys axes (\<lambda>i. judged ! i) chosen i) = ''selected'' \<longleftrightarrow> i \<in> set chosen"
proof -
  from sel obtain sa sid ds where "point_verdicts sa sid ds keys axes = Inr judged" by (auto simp: selection_def)
  from point_verdicts_nth(2) [OF this i] have v: "point_verdict sa sid ds (decode_point keys axes i) = Inr (judged ! i)" .
  have "(pt_disposition (point_of keys axes (\<lambda>i. judged ! i) chosen i) \<in> set allowed_dispositions) \<and>
    (pt_reason (point_of keys axes (\<lambda>i. judged ! i) chosen i) \<noteq> []) \<and>
    (pt_disposition (point_of keys axes (\<lambda>i. judged ! i) chosen i) = ''selected'' \<longleftrightarrow> i \<in> set chosen)"
  proof (cases "judged ! i")
    case None
    then show ?thesis by (simp add: point_of_def allowed_dispositions_def)
  next
    case (Some dr)
    obtain a b where dr: "dr = (a, b)" by force
    with v Some have "a \<in> {''schema_invalid'', ''dependency_invalid''}" "b \<noteq> []"
      using point_verdict_labels point_verdict_reason by metis+
    moreover have "i \<notin> set chosen" using chosen_in_grid [OF sel] Some by force
    ultimately show ?thesis using Some dr by (auto simp: point_of_def allowed_dispositions_def)
  qed
  then show "pt_disposition (point_of keys axes (\<lambda>i. judged ! i) chosen i) \<in> set allowed_dispositions"
    "pt_reason (point_of keys axes (\<lambda>i. judged ! i) chosen i) \<noteq> []"
    "pt_disposition (point_of keys axes (\<lambda>i. judged ! i) chosen i) = ''selected'' \<longleftrightarrow> i \<in> set chosen" by blast+
qed

lemma selected_points_chosen:
  assumes sel: "selection keys axes judged chosen"
  shows "selected_points (map (point_of keys axes (\<lambda>i. judged ! i) chosen) [0..<axes_total axes]) =
     map (point_of keys axes (\<lambda>i. judged ! i) chosen) chosen"
proof -
  have "filter (\<lambda>i. pt_disposition (point_of keys axes (\<lambda>i. judged ! i) chosen i) = ''selected'') [0..<axes_total axes] =
      filter (\<lambda>i. i \<in> set chosen) [0..<axes_total axes]"
    by (rule filter_cong) (simp_all add: point_labels(3) [OF sel])
  also have "\<dots> = chosen" by (rule filter_mem_upt) (use sel chosen_in_grid [OF sel] in \<open>auto simp: selection_def\<close>)
  finally show ?thesis by (simp add: selected_points_def filter_map comp_def)
qed

lemma space_of_ok:
  assumes sel: "selection keys axes judged chosen"
  shows "space_ok (map (decode_point keys axes) chosen) (space_of keys axes judged (valid_points judged) cap chosen)"
proof -
  have chosen: "sorted chosen" "distinct chosen" "chosen \<noteq> []" using sel by (simp_all add: selection_def)
  let ?point = "point_of keys axes (\<lambda>i. judged ! i) chosen"
  let ?points = "map ?point [0..<axes_total axes]"
  from chosen(3) obtain i where "i \<in> set chosen" by (cases chosen) auto
  with chosen_in_grid [OF sel] have total: "axes_total axes \<ge> 1" by fastforce
  have selected: "selected_points ?points = map ?point chosen" by (rule selected_points_chosen [OF sel])
  then have count: "length (filter (\<lambda>p. pt_disposition p = ''selected'') ?points) = length chosen"
    by (metis length_map selected_points_def)
  have labels: "pt_disposition p \<in> set allowed_dispositions \<and> pt_reason p \<noteq> []" if "p \<in> set ?points" for p
    using that point_labels(1,2) [OF sel] by auto
  have dispositions: "list_all (\<lambda>(k, n). k \<in> set allowed_dispositions) (count_by pt_disposition ?points)"
    using labels by (auto simp: list_all_iff dest: count_by_entries)
  have reasons: "list_all (\<lambda>(k, n). k \<noteq> [] \<and> n \<ge> 1) (count_by pt_reason ?points)"
    using labels by (auto simp: list_all_iff dest: count_by_entries)
  have "map pt_index (map ?point chosen) = chosen" "map pt_params (map ?point chosen) = map (decode_point keys axes) chosen"
    by (simp_all add: point_of_def comp_def split_beta)
  moreover have "list_all (\<lambda>p. pt_disposition p = ''selected'' \<and> pt_reason p \<noteq> []) (map ?point chosen)"
    using chosen_in_grid [OF sel] point_labels(2,3) [OF sel] by (auto simp: list_all_iff)
  moreover have "count_of ''selected'' (count_by pt_disposition ?points) = length chosen"
    using count chosen(3) by (simp only: count_of_def count_by_map Let_def) simp
  ultimately show ?thesis
    using dispositions reasons chosen total
    unfolding space_ok_def space_of_def Let_def point_ledger_of_def
    by (simp add: count_by_sum selected del: map_map)
qed

lemma expand_space_ok:
  assumes run: "expand_grids_bounded sa fuel gs cap seed baseline sid = Some (Inr (variants, space))"
  shows "space_ok variants space"
proof -
  from run obtain d where d: "get_strategy sid = Inr d"
    by (cases "get_strategy sid") (simp_all add: expand_grids_bounded_def)
  show ?thesis
  proof (cases "merge_grids gs = []")
    case True
    with run d have "(variants, space) = ([[]], empty_space)"
      by (auto simp: expand_grids_bounded_def expand_defaults_def Let_def split: sum.splits if_splits)
    with empty_space_ok show ?thesis by simp
  next
    case False
    define keys where "keys = sorted_keys (merge_grids gs)"
    define axes where "axes = grid_axes (merge_grids gs)"
    from expand_success [OF run d False] obtain judged chosen where
      judged: "point_verdicts sa sid (st_defaults d) keys axes = Inr judged" and ne: "valid_points judged \<noteq> []" and
      sel: "select_points (sa_rng sa seed) fuel baseline keys axes (valid_points judged) cap = Some chosen" and
      variants: "variants = map (decode_point keys axes) chosen" and
      space: "space = space_of keys axes judged (valid_points judged) cap chosen"
      unfolding keys_def axes_def by blast
    from select_points_result [OF sel ne valid_points_facts(1,2)]
    have chosen: "sorted chosen" "distinct chosen" "set chosen \<subseteq> set (valid_points judged)"
      and size: "length (valid_points judged) \<le> nat (max 1 cap) \<longrightarrow> chosen = valid_points judged" by blast+
    have "chosen \<noteq> []" using sel ne by (rule select_points_nonempty)
    with judged chosen have "selection keys axes judged chosen" by (auto simp: selection_def)
    from space_of_ok [OF this] show ?thesis by (simp add: variants space)
  qed
qed

end
