(* ===== verification/Sweep_Compile_Claims.thy ===== *)
theory Sweep_Compile_Claims
  imports Family_Lemmas
begin

text \<open>
  What a compiled sweep guarantees: the gates hold, the family definition it builds passes every check of its own
  validation, and the worker accepts the experiment under the policy it was compiled with.
\<close>

section \<open>Normal forms\<close>

lemma dropWhile_hd: "xs = [] \<or> \<not> P (hd xs) \<Longrightarrow> dropWhile P xs = xs"
  by (cases xs) auto

lemma text_strip_idem [simp]: "text_strip (text_strip s) = text_strip s"
proof -
  define t where "t = dropWhile is_space s"
  define r where "r = rev (dropWhile is_space (rev t))"
  have "suffix (rev r) (rev t)" unfolding r_def by (simp add: suffix_dropWhile)
  then have prefix: "prefix r t" by (simp add: suffix_to_prefix)
  have "r = [] \<or> \<not> is_space (hd r)"
  proof (cases "r = []")
    case False
    with prefix have "hd r = hd t" "t \<noteq> []" by (auto simp: prefix_def)
    then show ?thesis unfolding t_def using hd_dropWhile [of is_space s] by simp
  qed simp
  then have "dropWhile is_space r = r" by (rule dropWhile_hd)
  then have "text_strip r = rev (dropWhile is_space (rev r))" by (simp add: text_strip_def)
  also have "\<dots> = r" by (simp add: r_def dropWhile_idem)
  finally show ?thesis by (simp add: text_strip_def r_def t_def)
qed

lemma family_policy_idem:
  assumes "family_policy_of m pf pt n = Inr p"
  shows "family_policy_of (fp_mode p) (fp_parent_family p) (fp_parent_trial p) (fp_prior p) = Inr p"
proof -
  have fixed: "text_lower (text_strip s) = s" if "s \<in> {''independent'', ''cumulative'', ''confirmatory''}" for s
    using that by (elim insertE emptyE) (simp_all, code_simp+)
  from assms have p: "p = \<lparr>fp_mode = text_lower (text_strip m), fp_parent_family = text_strip pf,
      fp_parent_trial = text_strip pt, fp_prior = n\<rparr>"
    and mode: "text_lower (text_strip m) \<in> {''independent'', ''cumulative'', ''confirmatory''}"
    by (simp_all add: family_policy_of_def Let_def split: if_splits)
  have "family_policy_of (fp_mode p) (fp_parent_family p) (fp_parent_trial p) (fp_prior p) = family_policy_of m pf pt n"
    unfolding family_policy_of_def by (simp only: p family_policy.select_convs text_strip_idem fixed [OF mode])
  with assms show ?thesis by simp
qed

lemma sort_key_sorted: "sorted (map f xs) \<Longrightarrow> sort_key f xs = xs"
  by (induction xs) (simp_all add: insort_is_Cons)

lemma normalize_idem: "normalize_snapshot_bindings bs = Inr ns \<Longrightarrow> normalize_snapshot_bindings ns = Inr ns"
  by (auto simp: normalize_snapshot_bindings_def Let_def sort_key_sorted split: if_splits)

definition data_identity_ok :: "family_env \<Rightarrow> string list \<Rightarrow> string \<Rightarrow> string \<Rightarrow> snapshot_binding list \<Rightarrow> bool" where
  "data_identity_ok fe symbols snapshot evidence bnds \<longleftrightarrow>
     (if bnds = [] then (snapshot = []) = (evidence = [])
      else snapshot \<noteq> [] \<and> evidence \<noteq> [] \<and>
        (\<exists>members. normalize_snapshot_bindings bnds = Inr members \<and>
           snapshot_set_identity fe members = Inr (snapshot, evidence) \<and> map sb_symbol members = sort symbols))"

lemma data_identity_binding:
  assumes "data_identity_ok fe symbols snapshot evidence bnds"
  obtains data where "data_binding_of snapshot evidence bnds = Inr data"
    "db_snapshot data = snapshot" "db_evidence data = evidence"
    "Inr (db_members data) = (if bnds = [] then Inr [] else normalize_snapshot_bindings bnds)"
    "\<And>d. fd_data d = data \<Longrightarrow> fd_symbols d = symbols \<Longrightarrow> data_error fe d = None"
proof (cases "bnds = []")
  case True
  with assms show ?thesis
    by (intro that [of "\<lparr>db_snapshot = snapshot, db_evidence = evidence, db_members = [],
          db_bound = (snapshot \<noteq> [] \<and> evidence \<noteq> [])\<rparr>"])
      (auto simp: data_identity_ok_def data_binding_of_def data_error_def Let_def)
next
  case False
  with assms obtain members where members: "normalize_snapshot_bindings bnds = Inr members"
    "snapshot_set_identity fe members = Inr (snapshot, evidence)" "map sb_symbol members = sort symbols"
    and ids: "snapshot \<noteq> []" "evidence \<noteq> []"
    by (auto simp: data_identity_ok_def)
  from members(1) have "members \<noteq> []" by (auto simp: normalize_snapshot_bindings_def Let_def split: if_splits)
  with False members ids normalize_idem [OF members(1)] show ?thesis
    by (intro that [of "\<lparr>db_snapshot = snapshot, db_evidence = evidence, db_members = members, db_bound = True\<rparr>"])
      (auto simp: data_binding_of_def data_error_def Let_def)
qed

section \<open>A definition validates\<close>

lemma dict_eq_refl [simp]: "dict_eq a a"
  by (simp add: dict_eq_def list_all_iff)

lemma dict_eq_sort: "distinct (map fst a) \<Longrightarrow> dict_eq (sort_key fst a) a"
  by (simp add: dict_eq_def list_all_iff map_of_sort_key)

lemma distinct_sweep_filters: "distinct (map fst (sw_filter spec)) \<Longrightarrow> distinct (map fst (sweep_filters px spec))"
  by (simp add: sweep_filters_def comp_def split_beta distinct_map_filter)

lemma add_points_grid:
  "list_all (\<lambda>p. pt_disposition p = ''selected'') ps \<Longrightarrow>
     foldl (add_grid_point fam) [(fam, acc)] (map (Pair []) ps) = [(fam, acc @ map pt_params ps)]"
  by (induction ps arbitrary: acc) (simp_all add: add_grid_point_def)

definition job_cap :: "resource_policy \<Rightarrow> sweep_spec \<Rightarrow> params list \<Rightarrow> int" where
  "job_cap pol spec variants = fst (effective_variant_cap pol (int (length (sweep_symbols spec) * length variants)))"

lemma effective_variant_cap_pos:
  "n > 0 \<Longrightarrow> effective_variant_cap pol n = (min n (max 1 (rp_variants pol)), n > max 1 (rp_variants pol))"
  by (simp add: effective_variant_cap_def Let_def)

lemma job_cap_facts:
  assumes "variants \<noteq> []"
  shows "job_cap pol spec variants = min (int (length (sweep_symbols spec) * length variants)) (max 1 (rp_variants pol))"
    "1 \<le> job_cap pol spec variants"
proof -
  have "length (sweep_symbols spec) * length variants > 0" using assms by (simp add: sweep_symbols_def)
  then have pos: "int (length (sweep_symbols spec) * length variants) > 0" by linarith
  show eq: "job_cap pol spec variants = min (int (length (sweep_symbols spec) * length variants)) (max 1 (rp_variants pol))"
    unfolding job_cap_def effective_variant_cap_pos [OF pos] by simp
  show "1 \<le> job_cap pol spec variants" unfolding eq using pos by linarith
qed

abbreviation built ::
  "family_env \<Rightarrow> sweep_spec \<Rightarrow> resource_policy \<Rightarrow> timeframe_profile \<Rightarrow> params list \<Rightarrow> search_space \<Rightarrow> data_binding
     \<Rightarrow> family_policy \<Rightarrow> family_definition" where
  "built fe spec pol profile variants space data policy \<equiv>
     sweep_definition fe spec space (effective_variants spec (tp_variants profile)) (job_cap pol spec variants) pol profile
       data policy"

lemma built_simps [simp]:
  "fd_origin (built fe spec pol profile variants space data policy) = Raw_Sweep spec"
  "fd_symbols (built fe spec pol profile variants space data policy) = sweep_symbols spec"
  "fd_data (built fe spec pol profile variants space data policy) = data"
  "fd_filters (built fe spec pol profile variants space data policy) =
     sort_key fst (sweep_filters (sa_px (fe_sampler fe)) spec)"
  "fd_points (built fe spec pol profile variants space data policy) = map (Pair []) (ss_points space)"
  "fr_cap (fd_resource (built fe spec pol profile variants space data policy)) = job_cap pol spec variants"
  "fr_effective (fd_resource (built fe spec pol profile variants space data policy)) =
     effective_variants spec (tp_variants profile)"
  by (simp_all add: sweep_definition_def Let_def)

lemma built_points:
  assumes "space_ok variants space"
  shows "points_error (built fe spec pol profile variants space data policy) = None"
proof -
  have "sorted_set (ss_indices space) = ss_indices space"
    using assms by (simp add: space_ok_def sorted_set_def sorted_sort_id distinct_remdups_id)
  with assms show ?thesis
    by (simp add: points_error_def compact_points_error_def sweep_definition_def Let_def space_ok_def list_all_iff comp_def)
qed

lemma variant_total: "space_ok variants space \<Longrightarrow> length (ss_indices space) = length variants"
  by (auto simp: space_ok_def dest!: arg_cong [where f = length])

lemma built_scope:
  assumes "space_ok variants space"
    and "family_policy_of (sw_policy spec) (sw_parent_family spec) (sw_parent_trial spec) (sw_parent_trials spec) = Inr policy"
    and "fp_mode policy = ''confirmatory'' \<longrightarrow> length (sweep_symbols spec) * length variants = 1"
  shows "scope_error (built fe spec pol profile variants space data policy) = None"
  using family_policy_idem [OF assms(2)] assms(3) variant_total [OF assms(1)]
  by (auto simp: scope_error_def sweep_definition_def Let_def sweep_symbols_def)

lemma built_code: "code_error fe (built fe spec pol profile variants space data policy) = None"
  by (simp add: code_error_def expected_compiler_def sweep_definition_def Let_def compiler_version_def)

lemma built_derivation:
  assumes "expand_sweep fe fuel spec (effective_variants spec (tp_variants profile)) = Some (Inr (variants, space))"
    and "tp_timeframe profile = text_lower (sw_timeframe spec)" "distinct (map fst (sw_filter spec))"
  shows "derivation_check fe fuel (built fe spec pol profile variants space data policy) = Some (Inr ())"
proof -
  let ?d = "built fe spec pol profile variants space data policy"
  have "sweep_contract_error spec (fd_resource ?d) = None"
    by (simp add: sweep_contract_error_def sweep_definition_def Let_def assms(2))
  moreover have "sweep_derived_error fe ?d spec variants space = None"
    by (simp add: sweep_derived_error_def sweep_definition_def Let_def job_cap_def comp_def
        dict_eq_sort distinct_sweep_filters assms(3))
  ultimately show ?thesis
    using assms(1) by (simp add: derivation_check_def validate_sweep_derivation_def fail_if_def then_run_def)
qed

lemma expand_sweep_ok: "expand_sweep fe fuel spec cap = Some (Inr (variants, space)) \<Longrightarrow> space_ok variants space"
  by (auto simp: expand_sweep_def Let_def split: sum.splits intro: expand_space_ok)

text \<open>The hypotheses under which a definition is built, and what follows for its validation.\<close>

definition compile_inputs ::
  "family_env \<Rightarrow> nat \<Rightarrow> sweep_spec \<Rightarrow> timeframe_profile \<Rightarrow> sweep_request \<Rightarrow> params list \<Rightarrow> search_space \<Rightarrow> family_policy \<Rightarrow> bool" where
  "compile_inputs fe fuel spec profile rq variants space policy \<longleftrightarrow>
     expand_sweep fe fuel spec (effective_variants spec (tp_variants profile)) = Some (Inr (variants, space)) \<and>
     tp_timeframe profile = text_lower (sw_timeframe spec) \<and> distinct (map fst (sw_filter spec)) \<and>
     family_policy_of (sw_policy spec) (sw_parent_family spec) (sw_parent_trial spec) (sw_parent_trials spec) = Inr policy \<and>
     (fp_mode policy = ''confirmatory'' \<longrightarrow> length (sweep_symbols spec) * length variants = 1) \<and>
     data_identity_ok fe (sweep_symbols spec) (sr_snapshot rq) (sr_evidence rq) (sr_bindings rq)"

lemma built_validates:
  assumes "compile_inputs fe fuel spec profile rq variants space policy"
    and "data_error fe (built fe spec pol profile variants space data policy) = None"
    and "expected \<in> {[], family_definition_id fe (built fe spec pol profile variants space data policy)}"
  shows "validate_search_family_definition fe fuel (built fe spec pol profile variants space data policy) expected =
    Some (Inr (family_counts_of (built fe spec pol profile variants space data policy)))"
proof -
  have inputs: "expand_sweep fe fuel spec (effective_variants spec (tp_variants profile)) = Some (Inr (variants, space))"
    "tp_timeframe profile = text_lower (sw_timeframe spec)" "distinct (map fst (sw_filter spec))"
    "family_policy_of (sw_policy spec) (sw_parent_family spec) (sw_parent_trial spec) (sw_parent_trials spec) = Inr policy"
    "fp_mode policy = ''confirmatory'' \<longrightarrow> length (sweep_symbols spec) * length variants = 1"
    using assms(1) by (simp_all add: compile_inputs_def)
  note ok = expand_sweep_ok [OF inputs(1)]
  show ?thesis
    using assms(3) built_points [OF ok] built_scope [OF ok inputs(4,5)] assms(2) built_code built_derivation [OF inputs(1-3)]
    by (auto simp: validate_search_family_definition_def fail_if_def then_run_def)
qed

lemma built_binding:
  assumes "space_ok variants space" "distinct (map fst (sw_filter spec))"
    and "db_snapshot data = sr_snapshot rq" "db_evidence data = sr_evidence rq"
    and "Inr (db_members data) = (if sr_bindings rq = [] then Inr [] else normalize_snapshot_bindings (sr_bindings rq))"
  shows "experiment_binding_error (sweep_experiment fe spec rq variants (job_cap pol spec variants) d did)
    (built fe spec pol profile variants space data policy) = None"
proof -
  have "bound_grid (built fe spec pol profile variants space data policy) [sw_family spec] = [(sw_family spec, variants)]"
    using assms(1) add_points_grid [of "ss_points space" "sw_family spec" "[]"]
    by (simp add: bound_grid_def default_family_def dict_update_def dict_set_def space_ok_def list_all_iff)
  then show ?thesis
    using assms(2-5)
    by (simp add: experiment_binding_error_def sweep_experiment_def data_mismatch_def dict_eq_sort distinct_sweep_filters)
qed

lemma compile_returns:
  assumes gates: "blocking_errors (sa_px (fe_sampler fe)) (validate_sweep_spec (sa_px (fe_sampler fe)) gpu inside profiles pol spec) = []"
    and profile: "profile_get profiles (sw_timeframe spec) = Some profile"
    and inputs: "compile_inputs fe fuel spec profile rq variants space policy"
  obtains data where "data_binding_of (sr_snapshot rq) (sr_evidence rq) (sr_bindings rq) = Inr data"
    "data_error fe (built fe spec pol profile variants space data policy) = None"
    "compile_sweep fe fuel gpu inside profiles pol spec rq =
      Some (Inr (sweep_experiment fe spec rq variants (job_cap pol spec variants)
                   (built fe spec pol profile variants space data policy)
                   (family_definition_id fe (built fe spec pol profile variants space data policy)),
                 sweep_plan_of spec space (int (length (sweep_symbols spec) * length variants)) (job_cap pol spec variants)))"
proof -
  from inputs have expanded: "expand_sweep fe fuel spec (effective_variants spec (tp_variants profile)) = Some (Inr (variants, space))"
    and filters: "distinct (map fst (sw_filter spec))"
    and policy: "family_policy_of (sw_policy spec) (sw_parent_family spec) (sw_parent_trial spec) (sw_parent_trials spec) = Inr policy"
    and identity: "data_identity_ok fe (sweep_symbols spec) (sr_snapshot rq) (sr_evidence rq) (sr_bindings rq)"
    by (simp_all add: compile_inputs_def)
  from data_identity_binding [OF identity] obtain data where data: "data_binding_of (sr_snapshot rq) (sr_evidence rq) (sr_bindings rq) = Inr data"
    "db_snapshot data = sr_snapshot rq" "db_evidence data = sr_evidence rq"
    "Inr (db_members data) = (if sr_bindings rq = [] then Inr [] else normalize_snapshot_bindings (sr_bindings rq))"
    and data_ok: "\<And>d. fd_data d = data \<Longrightarrow> fd_symbols d = sweep_symbols spec \<Longrightarrow> data_error fe d = None" by blast
  let ?d = "built fe spec pol profile variants space data policy"
  let ?ex = "sweep_experiment fe spec rq variants (job_cap pol spec variants) ?d (family_definition_id fe ?d)"
  have ok: "space_ok variants space" by (rule expand_sweep_ok [OF expanded])
  have none: "data_error fe ?d = None" by (rule data_ok) simp_all
  have valid: "validate_search_family_definition fe fuel ?d e = Some (Inr (family_counts_of ?d))"
    if "e \<in> {[], family_definition_id fe ?d}" for e
    by (rule built_validates [OF inputs none that])
  have build: "build_sweep_family_definition fe fuel spec space (effective_variants spec (tp_variants profile))
      (job_cap pol spec variants) pol profile (sr_snapshot rq) (sr_evidence rq) (sr_bindings rq) =
      Some (Inr (?d, family_definition_id fe ?d))"
    using valid [of "[]"] by (simp add: build_sweep_family_definition_def data(1) policy Let_def then_run_def)
  have "ex_definition ?ex = Some ?d" "ex_family_id ?ex = family_definition_id fe ?d" "family_definition_id fe ?d \<noteq> []"
    by (simp_all add: sweep_experiment_def family_definition_id_def)
  with valid [of "family_definition_id fe ?d"] built_binding [OF ok filters data(2-4)]
  have post: "experiment_post_init fe fuel None ?ex = Some (Inr ?ex)"
    by (simp add: experiment_post_init_def then_run_def fail_if_def)
  have effective: "sv_effective (validate_sweep_spec (sa_px (fe_sampler fe)) gpu inside profiles pol spec) =
      effective_variants spec (tp_variants profile)"
    by (simp add: validate_sweep_spec_def Let_def check_variants_def profile)
  have "compile_sweep fe fuel gpu inside profiles pol spec rq =
      Some (Inr (?ex, sweep_plan_of spec space (int (length (sweep_symbols spec) * length variants)) (job_cap pol spec variants)))"
    using gates expanded profile build post
    by (simp add: compile_sweep_def Let_def then_run_def effective job_cap_def [symmetric] del: of_nat_mult)
  with data(1) none show ?thesis by (rule that)
qed

text \<open>C6 A sweep that passes its gates compiles: if no error blocks, the sampler returns, the timeframe has a profile, the
  family policy is admissible (a confirmatory family being one run) and the data identity is absent or the one of
  the bnds, then compile_sweep returns the experiment of exactly the sampled variants, whose family definition
  passed its own validation, recompilation included, and the plan counts every run as executed or omitted.\<close>

theorem compile_accepts_its_definition:
  assumes gates: "blocking_errors (sa_px (fe_sampler fe)) (validate_sweep_spec (sa_px (fe_sampler fe)) gpu inside profiles pol spec) = []"
    and profile: "profile_get profiles (sw_timeframe spec) = Some profile"
    and inputs: "compile_inputs fe fuel spec profile rq variants space policy"
  shows "\<exists>data. data_binding_of (sr_snapshot rq) (sr_evidence rq) (sr_bindings rq) = Inr data \<and>
    (let d = built fe spec pol profile variants space data policy; did = family_definition_id fe d;
         runs = int (length (sweep_symbols spec) * length variants)
     in compile_sweep fe fuel gpu inside profiles pol spec rq =
          Some (Inr (sweep_experiment fe spec rq variants (job_cap pol spec variants) d did,
                     sweep_plan_of spec space runs (job_cap pol spec variants))) \<and>
        validate_search_family_definition fe fuel d did = Some (Inr (family_counts_of d)) \<and>
        runs = sp_cap (sweep_plan_of spec space runs (job_cap pol spec variants)) +
               sp_omitted (sweep_plan_of spec space runs (job_cap pol spec variants)))"
proof -
  let ?d = "\<lambda>data. built fe spec pol profile variants space data policy"
  obtain data where data: "data_binding_of (sr_snapshot rq) (sr_evidence rq) (sr_bindings rq) = Inr data"
    "data_error fe (?d data) = None"
    "compile_sweep fe fuel gpu inside profiles pol spec rq =
      Some (Inr (sweep_experiment fe spec rq variants (job_cap pol spec variants) (?d data) (family_definition_id fe (?d data)),
                 sweep_plan_of spec space (int (length (sweep_symbols spec) * length variants)) (job_cap pol spec variants)))"
    by (rule compile_returns [OF gates profile inputs])
  have "validate_search_family_definition fe fuel (?d data) (family_definition_id fe (?d data)) =
      Some (Inr (family_counts_of (?d data)))"
    by (rule built_validates [OF inputs data(2)]) simp
  moreover have "expand_sweep fe fuel spec (effective_variants spec (tp_variants profile)) = Some (Inr (variants, space))"
    using inputs by (simp add: compile_inputs_def)
  then have "job_cap pol spec variants \<le> int (length (sweep_symbols spec) * length variants)"
    using job_cap_facts(1) [of variants pol spec] expand_sweep_ok by (auto simp: space_ok_def simp del: of_nat_mult)
  ultimately show ?thesis
    using data(1,3) by (intro exI [of _ data]) (simp add: Let_def sweep_plan_of_def del: of_nat_mult)
qed

section \<open>The gates\<close>

lemma sublist_sep:
  assumes "c \<notin> set p" "p \<noteq> []"
  shows "sublist p (xs @ c # ys) \<longleftrightarrow> sublist p xs \<or> sublist p ys"
proof (induction xs)
  case Nil
  from assms show ?case by (cases p) (auto simp: sublist_Cons_right)
next
  case (Cons x xs)
  have "prefix p ((x # xs) @ c # ys) \<longleftrightarrow> prefix p (x # xs)"
  proof
    assume "prefix p ((x # xs) @ c # ys)"
    then show "prefix p (x # xs)" unfolding prefix_append using assms(1) by (auto simp: prefix_Cons)
  qed (metis append.assoc append_Cons prefix_def)
  with Cons show ?case by (auto simp: sublist_Cons_right)
qed

lemma sublist_skip: "c \<notin> set xs \<Longrightarrow> sublist (c # p) (xs @ ys) \<longleftrightarrow> sublist (c # p) ys"
  by (induction xs) (auto simp: sublist_Cons_right)

text \<open>No name that is quoted in a message contains the text by which the compiler recognises an oversized grid, and
  no printed integer has a letter of it.\<close>

definition plain_names :: "py_lib \<Rightarrow> string option \<Rightarrow> timeframe_profiles \<Rightarrow> resource_policy \<Rightarrow> sweep_spec \<Rightarrow> bool" where
  "plain_names px gpu profiles pol spec \<longleftrightarrow>
     list_all (\<lambda>s. \<not> sublist grid_error_text s)
       [sw_backend spec, sw_class spec, sw_timeframe spec, known_names profiles, rp_mode pol,
        case gpu of None \<Rightarrow> [] | Some r \<Rightarrow> r] \<and>
     (\<forall>n. CHR ''v'' \<notin> set (px_str px (JInt n)))"

lemma error_text_plain:
  assumes plain: "plain_names px gpu profiles pol spec"
    and e: "e \<in> {Unknown_Backend (sw_backend spec), Unknown_Class (sw_class spec),
        Unknown_Timeframe (sw_timeframe spec) (known_names profiles), Trigger_Class, Trigger_Policy,
        Heavy_Rejected (rp_mode pol), Event_Rejected, Output_Unset, Output_Inside} \<or>
        (\<exists>n m. e = Trigger_Scope n m) \<or> (\<exists>r. gpu = Some r \<and> e = Gpu_Unavailable r)"
  shows "\<not> sublist grid_error_text (sweep_error_text px e)"
  using assms by (auto simp: plain_names_def grid_error_text_def sublist_Cons_right sublist_sep sublist_skip)

lemma backend_gate_errors:
  "e \<in> set (backend_gate gpu spec) \<Longrightarrow>
     e = Unknown_Backend (sw_backend spec) \<or> (\<exists>r. gpu = Some r \<and> e = Gpu_Unavailable r)"
  unfolding backend_gate_def by (cases gpu; cases "sw_backend spec \<in> set backends"; cases "sw_backend spec = ''gpu''") simp_all

lemma only_grid_errors:
  assumes plain: "plain_names px gpu profiles pol spec"
    and none: "blocking_errors px (validate_sweep_spec px gpu inside profiles pol spec) = []"
  shows "backend_gate gpu spec = [] \<and> sw_class spec \<in> set resource_classes \<and>
    (\<exists>profile. profile_get profiles (sw_timeframe spec) = Some profile \<and> timeframe_gates spec profile pol = []) \<and>
    resource_gates spec pol = [] \<and> output_gate inside spec = []"
proof -
  let ?errors = "sv_errors (validate_sweep_spec px gpu inside profiles pol spec)"
  have blocked: "\<not> (e \<in> {Unknown_Backend (sw_backend spec), Unknown_Class (sw_class spec),
        Unknown_Timeframe (sw_timeframe spec) (known_names profiles), Trigger_Class, Trigger_Policy,
        Heavy_Rejected (rp_mode pol), Event_Rejected, Output_Unset, Output_Inside} \<or>
        (\<exists>n m. e = Trigger_Scope n m) \<or> (\<exists>r. gpu = Some r \<and> e = Gpu_Unavailable r))" if "e \<in> set ?errors" for e
    using error_text_plain [OF plain] none that by (auto simp: blocking_errors_def filter_empty_conv)
  have backend: "backend_gate gpu spec = []"
  proof (rule ccontr)
    assume "backend_gate gpu spec \<noteq> []"
    then obtain e where e: "e \<in> set (backend_gate gpu spec)" by (cases "backend_gate gpu spec") auto
    then have "e \<in> set ?errors" by (simp add: validate_sweep_spec_def Let_def split_beta)
    moreover have "e = Unknown_Backend (sw_backend spec) \<or> (\<exists>r. gpu = Some r \<and> e = Gpu_Unavailable r)"
      by (rule backend_gate_errors [OF e])
    ultimately show False using blocked by blast
  qed
  have cls: "sw_class spec \<in> set resource_classes"
  proof (rule ccontr)
    assume "sw_class spec \<notin> set resource_classes"
    then have "Unknown_Class (sw_class spec) \<in> set ?errors" by (simp add: validate_sweep_spec_def Let_def split_beta)
    from blocked [OF this] show False by simp
  qed
  have profile: "profile_get profiles (sw_timeframe spec) \<noteq> None"
  proof
    assume "profile_get profiles (sw_timeframe spec) = None"
    then have "Unknown_Timeframe (sw_timeframe spec) (known_names profiles) \<in> set ?errors"
      by (simp add: validate_sweep_spec_def Let_def split_beta)
    from blocked [OF this] show False by simp
  qed
  then obtain p where p: "profile_get profiles (sw_timeframe spec) = Some p" by blast
  have timeframe: "timeframe_gates spec p pol = []"
  proof (rule ccontr)
    assume "timeframe_gates spec p pol \<noteq> []"
    then obtain e where e: "e \<in> set (timeframe_gates spec p pol)" by (cases "timeframe_gates spec p pol") auto
    then have "e \<in> set ?errors" by (simp add: validate_sweep_spec_def Let_def split_beta p)
    from blocked [OF this] e show False by (auto simp: timeframe_gates_def split: if_splits)
  qed
  have rest: "resource_gates spec pol @ output_gate inside spec = []"
  proof (rule ccontr)
    assume "resource_gates spec pol @ output_gate inside spec \<noteq> []"
    then obtain e where e: "e \<in> set (resource_gates spec pol @ output_gate inside spec)"
      by (cases "resource_gates spec pol @ output_gate inside spec") (auto simp del: append_is_Nil_conv)
    then have "e \<in> set ?errors" by (auto simp: validate_sweep_spec_def Let_def split_beta)
    from blocked [OF this] e show False
      by (auto simp: resource_gates_def output_gate_def Let_def split: if_splits)
  qed
  from backend cls p timeframe rest show ?thesis by simp
qed

lemma expand_length:
  assumes "expand_grids_bounded sa fuel gs cap seed baseline sid = Some (Inr (variants, space))"
  shows "length variants \<le> max (nat (max 1 cap)) 2"
proof -
  from assms obtain d where d: "get_strategy sid = Inr d"
    by (cases "get_strategy sid") (simp_all add: expand_grids_bounded_def)
  show ?thesis
  proof (cases "merge_grids gs = []")
    case True
    with assms d show ?thesis
      by (auto simp: expand_grids_bounded_def expand_defaults_def Let_def split: sum.splits if_splits)
  next
    case False
    from expand_success [OF assms d False] obtain judged chosen where
      ne: "valid_points judged \<noteq> []" and
      sel: "select_points (sa_rng sa seed) fuel baseline (sorted_keys (merge_grids gs)) (grid_axes (merge_grids gs))
        (valid_points judged) cap = Some chosen" and
      variants: "variants = map (decode_point (sorted_keys (merge_grids gs)) (grid_axes (merge_grids gs))) chosen" by metis
    from select_points_result [OF sel ne valid_points_facts(1,2)] show ?thesis by (auto simp: variants max_def not_le)
  qed
qed

text \<open>The success of a compilation, unfolded once.\<close>

lemma compile_success:
  assumes "compile_sweep fe fuel gpu inside profiles pol spec rq = Some (Inr (ex, plan))"
  obtains profile variants space where
    "blocking_errors (sa_px (fe_sampler fe)) (validate_sweep_spec (sa_px (fe_sampler fe)) gpu inside profiles pol spec) = []"
    "profile_get profiles (sw_timeframe spec) = Some profile"
    "expand_sweep fe fuel spec (effective_variants spec (tp_variants profile)) = Some (Inr (variants, space))"
    "ex_grid ex = [(sw_family spec, variants)]" "ex_symbols ex = sweep_symbols spec"
    "ex_max_runs ex = job_cap pol spec variants" "sp_space plan = space"
proof -
  let ?r = "validate_sweep_spec (sa_px (fe_sampler fe)) gpu inside profiles pol spec"
  from assms have gates: "blocking_errors (sa_px (fe_sampler fe)) ?r = []"
    by (simp add: compile_sweep_def Let_def split: if_splits)
  from assms gates obtain variants space profile d did where
    expand: "expand_sweep fe fuel spec (sv_effective ?r) = Some (Inr (variants, space))" and
    profile: "profile_get profiles (sw_timeframe spec) = Some profile" and
    post: "experiment_post_init fe fuel None (sweep_experiment fe spec rq variants (job_cap pol spec variants) d did) = Some (Inr ex)" and
    plan: "sp_space plan = space"
    by (auto simp: compile_sweep_def Let_def then_run_def job_cap_def sweep_plan_of_def
        split: option.splits sum.splits prod.splits)
  have effective: "sv_effective ?r = effective_variants spec (tp_variants profile)"
    by (simp add: validate_sweep_spec_def Let_def check_variants_def profile)
  have "ex = sweep_experiment fe spec rq variants (job_cap pol spec variants) d did"
    using post by (auto simp: experiment_post_init_def then_run_def fail_if_def sweep_experiment_def
        split: if_splits option.splits sum.splits)
  then have "ex_grid ex = [(sw_family spec, variants)]" "ex_symbols ex = sweep_symbols spec"
    "ex_max_runs ex = job_cap pol spec variants"
    by (simp_all add: sweep_experiment_def)
  with gates profile expand plan show ?thesis using that unfolding effective by blast
qed

text \<open>C7 Whatever compiles has passed the gates: if no quoted name contains the text "variant grid", a compiled experiment
  comes from a spec with a known backend that is available, a known resource class and timeframe, a trigger-only
  timeframe only as a tightly scoped event job, heavy and event jobs only where the policy allows them, and an output
  outside the repository; it holds between one and sixty-four variants of the one family, its run cap is within the
  policy, and the worker accepts it under that policy.\<close>

theorem compile_enforces_gates:
  assumes run: "compile_sweep fe fuel gpu inside profiles pol spec rq = Some (Inr (ex, plan))"
    and plain: "plain_names (sa_px (fe_sampler fe)) gpu profiles pol spec"
  shows "sw_backend spec \<in> set backends \<and> (sw_backend spec = ''gpu'' \<longrightarrow> gpu = None) \<and>
    sw_class spec \<in> set resource_classes \<and>
    (\<exists>profile. profile_get profiles (sw_timeframe spec) = Some profile \<and>
       (tp_trigger_only profile \<longrightarrow>
          sw_class spec = ''event_1m'' \<and> symbol_scope spec \<le> tp_symbols profile \<and> allows_1m pol ''event_1m'')) \<and>
    (sw_class spec = ''heavy'' \<longrightarrow> rp_heavy pol) \<and> (sw_class spec = ''event_1m'' \<longrightarrow> allows_1m pol ''event_1m'') \<and>
    (text_strip (sw_output spec) \<in> set private_output_tokens \<or>
       text_strip (sw_output spec) \<noteq> [] \<and> \<not> inside (text_strip (sw_output spec))) \<and>
    (\<exists>variants. ex_grid ex = [(sw_family spec, variants)] \<and> variants \<noteq> [] \<and> length variants \<le> 64) \<and>
    1 \<le> ex_max_runs ex \<and> ex_max_runs ex \<le> max 1 (rp_variants pol) \<and> worker_accepts pol ex = Inr ()"
proof -
  from compile_success [OF run] obtain profile variants space where
    gates: "blocking_errors (sa_px (fe_sampler fe)) (validate_sweep_spec (sa_px (fe_sampler fe)) gpu inside profiles pol spec) = []"
    and profile: "profile_get profiles (sw_timeframe spec) = Some profile"
    and expand: "expand_sweep fe fuel spec (effective_variants spec (tp_variants profile)) = Some (Inr (variants, space))"
    and ex: "ex_grid ex = [(sw_family spec, variants)]" "ex_max_runs ex = job_cap pol spec variants" by blast
  have ne: "variants \<noteq> []" using expand_sweep_ok [OF expand] by (simp add: space_ok_def)
  have "length variants \<le> max (nat (max 1 (effective_variants spec (tp_variants profile)))) 2"
    using expand by (auto simp: expand_sweep_def Let_def split: sum.splits intro: expand_length)
  moreover have "effective_variants spec (tp_variants profile) \<le> 64"
    by (simp add: effective_variants_def tiered_cap_def abs_variant_cap_def)
  ultimately have len: "length variants \<le> 64" by (auto simp: max_def split: if_splits)
  have cap: "1 \<le> ex_max_runs ex \<and> ex_max_runs ex \<le> max 1 (rp_variants pol)"
    using job_cap_facts [OF ne, of pol spec] by (simp add: ex(2))
  then have "worker_accepts pol ex = Inr ()"
    using effective_variant_cap_pos [of "ex_max_runs ex" pol] by (auto simp: worker_accepts_def max_def split: if_splits)
  with cap len ne ex only_grid_errors [OF plain gates] show ?thesis
    by (auto simp: backend_gate_def timeframe_gates_def resource_gates_def output_gate_def Let_def profile
        split: if_splits option.splits)
qed

end
