(* ===== verification/Sweep_Grid_Claims.thy ===== *)
theory Sweep_Grid_Claims
  imports Sweep_Compile Sweep_Lemmas
begin

text \<open>
  What the farm searches and how often it may start: the executable exits of the catalog, the reward of every stop
  and take level in a farm sweep, and the spacing of the jobs a worker starts.
\<close>

section \<open>Rounding\<close>

lemma round_even_bounds: "of_int (round_even x) \<le> x + 1 / 2" "x - 1 / 2 \<le> of_int (round_even x)"
proof -
  have "of_int (floor x) \<le> x" "x < of_int (floor x) + 1" by linarith+
  then show "of_int (round_even x) \<le> x + 1 / 2" "x - 1 / 2 \<le> of_int (round_even x)"
    unfolding round_even_def Let_def by (simp_all split: if_splits) linarith+
qed

lemma round_even_int: "round_even (of_int n) = n"
  by (simp add: round_even_def)

lemma round6_bounds: "x - 1 / 2000000 \<le> round6 x" "round6 x \<le> x + 1 / 2000000"
  using round_even_bounds [of "x * 1000000"] by (simp_all add: round6_def field_simps)

lemma round6_nonneg: "0 \<le> x \<Longrightarrow> 0 \<le> round6 x"
proof -
  assume "0 \<le> x"
  then have "- 1 < (of_int (round_even (x * 1000000)) :: rat)" using round_even_bounds(2) [of "x * 1000000"] by linarith
  then have "0 \<le> round_even (x * 1000000)" by linarith
  then show ?thesis by (simp add: round6_def)
qed

text \<open>An integer multiple of a rounded value is rounded already.\<close>

lemma round6_multiple: "round6 (round6 x * of_int k) = round6 x * of_int k"
proof -
  have "round6 x * of_int k * 1000000 = of_int (round_even (x * 1000000) * k)" by (simp add: round6_def)
  then have "round6 (round6 x * of_int k) = of_int (round_even (x * 1000000) * k) / 1000000"
    by (simp only: round6_def [of "round6 x * of_int k"] round_even_int)
  then show ?thesis by (simp add: round6_def)
qed

section \<open>Executable exits\<close>

lemma jget_dict_set: "jget k (JObj (dict_set key v d)) = (if k = key then v else jget k (JObj d))"
  by (simp add: dict_set_def map_of_dict_adjust split: option.splits)

lemma fill_hold_other: "fill_hold px d out = Inr out2 \<Longrightarrow> k \<noteq> ''hold_bars'' \<Longrightarrow> jget k (JObj out2) = jget k (JObj out)"
  by (auto simp: fill_hold_def jget_dict_set simp del: jget.simps split: if_splits sum.splits)

lemma fill_take_stop: "jget ''stop_pct'' (JObj (fill_take px pol out)) = jget ''stop_pct'' (JObj out)"
  by (auto simp: fill_take_def jget_dict_set Let_def simp del: jget.simps split: option.splits)

text \<open>C21 Filling the exits makes a parameter set executable up to rounding: when the stop is a positive number, the take is
  at least the required multiple of it less half a millionth, and at least the multiple itself where that has no more
  than six decimals.\<close>

theorem executable_exits_filled:
  assumes run: "executable_exit_params px pol sid ps = Inr out"
    and stop: "num_of px (jget ''stop_pct'' (JObj out)) = Some s" "s > 0"
  shows "\<exists>t. num_of px (jget ''take_pct'' (JObj out)) = Some t \<and> t \<ge> s * min_reward_risk pol - 1 / 2000000 \<and>
    (round6 (s * min_reward_risk pol) = s * min_reward_risk pol \<longrightarrow> t \<ge> s * min_reward_risk pol)"
proof -
  from run obtain d where hold: "fill_hold px d (fill_take px pol (dict_update (st_defaults d) ps)) = Inr out"
    by (auto simp: executable_exit_params_def split: sum.splits)
  define mid where "mid = dict_update (st_defaults d) ps"
  have keep: "jget k (JObj out) = jget k (JObj (fill_take px pol mid))" if "k \<noteq> ''hold_bars''" for k
    using fill_hold_other [OF hold that] by (simp add: mid_def)
  have s: "num_of px (jget ''stop_pct'' (JObj mid)) = Some s"
    using stop(1) keep [of "''stop_pct''"] by (simp add: fill_take_stop del: jget.simps)
  have take: "jget ''take_pct'' (JObj out) = jget ''take_pct'' (JObj (fill_take px pol mid))" by (rule keep) simp
  let ?target = "s * min_reward_risk pol"
  show ?thesis
  proof (cases "case num_of px (jget ''take_pct'' (JObj mid)) of None \<Rightarrow> True | Some tk \<Rightarrow> tk < ?target")
    case True
    with s stop(2) have "fill_take px pol mid = dict_set ''take_pct'' (JFloat (round6 ?target)) mid"
      by (simp add: fill_take_def Let_def del: jget.simps)
    then have "num_of px (jget ''take_pct'' (JObj out)) = Some (round6 ?target)"
      using take by (simp add: jget_dict_set num_of_def del: jget.simps)
    then show ?thesis using round6_bounds(1) [of ?target] by auto
  next
    case False
    with s have "fill_take px pol mid = mid" by (simp add: fill_take_def Let_def del: jget.simps)
    with False take show ?thesis by (auto simp del: jget.simps split: option.splits)
  qed
qed

section \<open>The reward of a farm sweep\<close>

lemma tier_rr: "set (dc_rr (tier_cfg tier)) \<subseteq> {2, 3}"
  by (auto simp: tier_cfg_def sweep_tiers_def default_tier_def split: option.splits if_splits)

lemma dimension_rr:
  "''take_profit'' \<notin> set dims \<Longrightarrow> set (dc_rr (dimension_cfg_of tier dims)) \<subseteq> {2, 3}"
  "set (dc_rr (dimension_cfg_of tier dims)) \<subseteq> {3 / 2, 2, 5 / 2, 3, 4, 5}"
  using tier_rr [of tier] by (auto simp: dimension_cfg_of_def Let_def widen_def)

lemma stop_levels_rounded: "s \<in> set (num_levels base fs None None) \<Longrightarrow> base > 0 \<Longrightarrow> \<exists>x \<ge> 0. s = round6 x"
  by (auto simp: num_levels_def intro: less_imp_le)

lemma stop_take_reward:
  assumes levels: "stop_take_levels cfg base = Inr (stops, takes)" and base: "base > 0"
    and s: "s \<in> set stops" and t: "t \<in> set takes"
  shows "set (dc_rr cfg) \<subseteq> {2, 3} \<Longrightarrow> t \<ge> 2 * s"
    and "set (dc_rr cfg) \<subseteq> {3 / 2, 2, 5 / 2, 3, 4, 5} \<Longrightarrow> t \<ge> 3 / 2 * s - 1 / 2000000"
proof -
  from levels have stops: "stops = num_levels base (dc_stop cfg) None None" "stops \<noteq> []"
    and takes: "set takes = (\<lambda>rr. round6 (Max (set stops) * rr)) ` set (dc_rr cfg)"
    by (auto simp: stop_take_levels_def Let_def split: if_splits)
  define high where "high = Max (set stops)"
  have "high \<in> set stops" unfolding high_def by (rule Max_in) (use stops(2) in auto)
  then obtain x where x: "x \<ge> 0" "high = round6 x" using stop_levels_rounded stops(1) base by blast
  have le: "s \<le> high" unfolding high_def by (rule Max_ge) (use s in auto)
  have pos: "0 \<le> high" using x by (simp add: round6_nonneg)
  from t obtain rr where rr: "rr \<in> set (dc_rr cfg)" "t = round6 (high * rr)" unfolding takes high_def by auto
  show "t \<ge> 2 * s" if "set (dc_rr cfg) \<subseteq> {2, 3}"
  proof -
    from that rr(1) obtain k :: int where k: "rr = of_int k" "k \<ge> 2" by (auto intro: that [of 2] that [of 3])
    have "t = high * of_int k" using round6_multiple [of x k] by (simp add: rr(2) k(1) x(2))
    moreover have "high * 2 \<le> high * of_int k" by (rule mult_left_mono) (use k(2) pos in auto)
    ultimately show ?thesis using le by linarith
  qed
  show "t \<ge> 3 / 2 * s - 1 / 2000000" if "set (dc_rr cfg) \<subseteq> {3 / 2, 2, 5 / 2, 3, 4, 5}"
  proof -
    from that rr(1) have "rr \<ge> 3 / 2" by auto
    then have "high * (3 / 2) \<le> high * rr" by (rule mult_left_mono) (rule pos)
    with round6_bounds(1) [of "high * rr"] le show ?thesis by (simp add: rr(2))
  qed
qed

text \<open>C22 Every stop and take a farm sweep combines pays: in the exit grid of a built sweep each take is at least twice each
  stop, unless the take-profit dimension is searched, and then at least one and a half times it, less half a
  millionth.\<close>

theorem farm_sweep_reward:
  assumes run: "build_sweep_spec px pol symbol timeframe family fingerprint backend tier cap dims = Inr spec"
    and s: "JFloat s \<in> set (levels_of (sw_exit spec) ''stop_pct'')"
    and t: "JFloat t \<in> set (levels_of (sw_exit spec) ''take_pct'')"
  shows "(''take_profit'' \<notin> set (normal_dimensions dims) \<longrightarrow> t \<ge> 2 * s) \<and> t \<ge> 3 / 2 * s - 1 / 2000000"
proof -
  from run obtain tier2 defaults sgrid exits where
    grids: "family_grids px pol family defaults tier2 dims = Inr (sgrid, exits)" and spec: "sw_exit spec = exits"
    by (auto simp: build_sweep_spec_def Let_def split: sum.splits prod.splits)
  define cfg where "cfg = dimension_cfg_of tier2 (normal_dimensions dims)"
  from grids have "exit_grid_of px cfg (normal_dimensions dims) defaults = Inr exits"
    by (auto simp: family_grids_def Let_def cfg_def split: sum.splits)
  then obtain st holds where st: "stop_take_grid cfg (jget ''stop_pct'' (JObj defaults)) = Inr st"
    and holds: "hold_grid px cfg defaults = Inr holds"
    and exits: "exits = st @ holds @ (if ''dynamic_exit'' \<in> set (normal_dimensions dims) then [(''exit_mode'', map JStr dynamic_exit_modes)] else [])"
    by (auto simp: exit_grid_of_def simp del: jget.simps split: sum.splits)
  have keys: "fst ` set holds \<subseteq> {''hold_bars''}"
    using holds by (auto simp: hold_grid_def split: option.splits sum.splits)
  have absent: "map_of (holds @ (if b then [(''exit_mode'', x)] else [])) k = None" if "k \<in> {''stop_pct'', ''take_pct''}" for b x k
    using keys that by (auto simp: map_of_eq_None_iff)
  from st consider (none) "st = []" | (levels) base stops takes where "stop_take_levels cfg base = Inr (stops, takes)" "base > 0"
      "st = [(''stop_pct'', map JFloat stops), (''take_pct'', map JFloat takes)]"
    by (auto simp: stop_take_grid_def simp del: jget.simps split: option.splits if_splits sum.splits)
  then show ?thesis
  proof cases
    case none
    then have "map_of exits ''stop_pct'' = None" unfolding exits using absent [of "''stop_pct''"] by (simp del: map_of_append)
    with s show ?thesis by (simp add: spec levels_of_def)
  next
    case levels
    with s t have "s \<in> set stops" "t \<in> set takes" by (auto simp: spec exits levels_of_def)
    with stop_take_reward [OF levels(1,2)] dimension_rr show ?thesis unfolding cfg_def by blast
  qed
qed

text \<open>With the take-profit dimension some combinations are below twice the stop.\<close>

lemma take_profit_reward:
  "\<exists>stops takes s t. stop_take_levels (dimension_cfg_of ''smoke'' [''take_profit'']) 10 = Inr (stops, takes) \<and>
     s \<in> set stops \<and> t \<in> set takes \<and> t < 2 * s"
proof -
  have "case stop_take_levels (dimension_cfg_of ''smoke'' [''take_profit'']) 10 of
      Inl _ \<Rightarrow> False | Inr (stops, takes) \<Rightarrow> List.member stops 10 \<and> List.member takes 15" by code_simp
  then show ?thesis by (force simp: List.member_iff split: sum.splits prod.splits)
qed

end
