(* ===== verification/Catalog_Claims.thy ===== *)
theory Catalog_Claims
  imports Sweep_Grid_Claims Planning_Claims
begin

text \<open>
  The catalog under the shipped policy: every strategy can be made executable, and every axis it lets the farm
  search has a range around its default.
\<close>

definition entry_out :: "py_lib \<Rightarrow> strategy \<Rightarrow> exn + params" where
  "entry_out px d = fill_hold px d (fill_take px shipped_policy (st_defaults d))"

definition axis_in_range :: "search_axis \<Rightarrow> bool" where
  "axis_in_range a \<longleftrightarrow> ax_min a \<le> ax_default a \<and> ax_default a \<le> ax_max a \<and> ax_min a < ax_max a"

definition entry_checks :: "py_lib \<Rightarrow> strategy \<Rightarrow> bool" where
  "entry_checks px d \<longleftrightarrow>
     (case entry_out px d of
        Inl _ \<Rightarrow> False
      | Inr out \<Rightarrow>
          out \<noteq> [] \<and> list_all (\<lambda>k. List.member (map fst (st_defaults d)) k) (map fst out) \<and>
          list_all (\<lambda>kv. item_errors px shipped_policy (st_defaults d) kv = Inr []) out \<and>
          executable_errors px shipped_policy (JObj out) = [] \<and>
          (st_id d = ''rsi_reversal'' \<longrightarrow> fst (search_variant_validity px (st_id d) (JObj out)))) \<and>
     (case sequence_rows (map (search_axis_of px shipped_policy d) (st_axes d)) of
        Inl _ \<Rightarrow> False
      | Inr axes \<Rightarrow> axes \<noteq> [] \<and> list_all axis_in_range axes)"

definition group_checks :: "py_lib \<Rightarrow> (exn + strategy) list \<Rightarrow> bool" where
  "group_checks px ds = list_all (\<lambda>x. case x of Inl _ \<Rightarrow> False | Inr d \<Rightarrow> entry_checks px d) ds"

lemma breakout_checks: "group_checks px breakout_strategies" by code_simp

lemma reversion_checks: "group_checks px reversion_strategies" by code_simp

lemma trend_checks: "group_checks px trend_strategies" by code_simp

lemma ported_checks: "group_checks px ported_strategies" by code_simp

lemma flow_checks: "group_checks px flow_strategies" by code_simp

lemma gated_checks: "group_checks px gated_strategies" by code_simp

lemmas all_checks = breakout_checks reversion_checks trend_checks ported_checks flow_checks gated_checks

lemma registry_checks:
  assumes "d \<in> set strategy_registry"
  shows "entry_checks px d"
proof -
  have "map Inr strategy_registry = breakout_strategies @ reversion_strategies @ trend_strategies @ ported_strategies @
      flow_strategies @ gated_strategies"
    using strategy_definitions_Inr unfolding strategy_definitions_def by (rule sequence_rows_Inr [symmetric])
  then have "group_checks px (map Inr strategy_registry)"
    using all_checks [of px] by (simp add: group_checks_def)
  with assms show ?thesis by (simp add: group_checks_def list_all_iff)
qed

lemma sequence_rows_Nil: "list_all (\<lambda>x. f x = Inr []) xs \<Longrightarrow> sequence_rows (map f xs) = Inr (map (\<lambda>_. []) xs)"
  by (induction xs) simp_all

text \<open>C20 The catalog is executable under the shipped policy: for every strategy the filled defaults pass the whole parameter
  check with the executable gate and the dependency rules, and its search contract has at least one axis, each with a
  proper range around its default.\<close>

theorem catalog_executable:
  assumes "d \<in> set strategy_registry"
  shows "\<exists>out. executable_exit_params px shipped_policy (st_id d) [] = Inr out \<and>
      validate_params px shipped_policy (st_id d) (JObj out) True = Inr \<lparr>pr_ok = True, pr_errors = []\<rparr> \<and>
      search_variant_validity px (st_id d) (JObj out) = (True, ''dependency_rules_passed'') \<and>
      (\<exists>axes. parameter_search_contract px shipped_policy (st_id d) = Inr \<lparr>sc_strategy = st_id d, sc_axes = axes\<rparr> \<and>
         axes \<noteq> [] \<and> (\<forall>a \<in> set axes. axis_in_range a))"
proof -
  note get = registry_entry(2) [OF assms]
  from registry_checks [OF assms, of px] obtain out axes where out: "entry_out px d = Inr out" "out \<noteq> []"
    "set (map fst out) \<subseteq> set (map fst (st_defaults d))"
    "list_all (\<lambda>kv. item_errors px shipped_policy (st_defaults d) kv = Inr []) out"
    "executable_errors px shipped_policy (JObj out) = []"
    "st_id d = ''rsi_reversal'' \<longrightarrow> fst (search_variant_validity px (st_id d) (JObj out))"
    and axes: "sequence_rows (map (search_axis_of px shipped_policy d) (st_axes d)) = Inr axes" "axes \<noteq> []" "list_all axis_in_range axes"
    by (auto simp: entry_checks_def list_all_iff List.member_iff split: sum.splits)
  have exits: "executable_exit_params px shipped_policy (st_id d) [] = Inr out"
    using out(1) by (simp add: executable_exit_params_def get entry_out_def dict_update_def)
  have known: "filter (\<lambda>k. k \<notin> set (map fst (st_defaults d) @ map fst meta_enums)) (map fst out) = []"
    using out(3) by (auto simp: filter_empty_conv)
  have none: "concat (map (\<lambda>_. []) out) = ([] :: string list)" by simp
  have "validate_params px shipped_policy (st_id d) (JObj out) True = Inr \<lparr>pr_ok = True, pr_errors = []\<rparr>"
    using out(2,5) sequence_rows_Nil [OF out(4)] known
    by (simp add: validate_params_def get Let_def result_of_def sorted_set_def none del: set_append filter_map concat_map_singleton)
  moreover have "search_variant_validity px (st_id d) (JObj out) = (True, ''dependency_rules_passed'')"
    using out(6) by (auto simp: search_variant_validity_def split: option.splits if_splits)
  ultimately show ?thesis
    using exits axes by (auto simp: parameter_search_contract_def get list_all_iff)
qed

end
