(* ===== verification/Cadence_Claims.thy ===== *)
theory Cadence_Claims
  imports Runtime_Policy
begin

text \<open>
  The cadence a worker keeps: what its file remembers of the jobs it started, and that the starts respect the pause
  and the hourly limit of the policy.
\<close>

section \<open>The cadence file\<close>

lemma load_written: "concat (map (\<lambda>v. case num_of px v of None \<Rightarrow> [] | Some q \<Rightarrow> [q]) (map JFloat xs)) = xs"
  by (induction xs) (simp_all add: num_of_def)

lemma load_record:
  "load_recent_starts px (record_start px content now) =
     sort (filter (\<lambda>s. now - s < retain_seconds) (load_recent_starts px content) @ [now])"
  unfolding record_start_def by (simp only: load_recent_starts_def [of px "Some _"] option.case json.case load_written)

text \<open>The file holds the part of the history that was recent at the last start.\<close>

definition remembers :: "time list \<Rightarrow> time list \<Rightarrow> bool" where
  "remembers hist starts \<longleftrightarrow> starts = (if hist = [] then [] else filter (\<lambda>s. last hist - s < retain_seconds) hist)"

text \<open>A history lists the starts, each with whether it ignored the cadence.\<close>

definition history_ok :: "resource_policy \<Rightarrow> (time \<times> bool) list \<Rightarrow> bool" where
  "history_ok pol hist \<longleftrightarrow>
     sorted (map fst hist) \<and>
     (\<forall>i < length hist. \<not> snd (hist ! i) \<longrightarrow>
        (i > 0 \<longrightarrow> fst (hist ! i) - fst (hist ! (i - 1)) \<ge> of_int (rp_gap pol)) \<and>
        int (length (hour_window (fst (hist ! i)) (map fst (take i hist)))) < rp_hourly pol)"

lemma history_ok_Nil [simp]: "history_ok pol []"
  by (simp add: history_ok_def)

lemma sorted_last: "sorted xs \<Longrightarrow> x \<in> set xs \<Longrightarrow> x \<le> last xs"
  by (induction xs) auto

lemma history_ok_snoc:
  assumes "history_ok pol hist" and "hist \<noteq> [] \<Longrightarrow> fst (last hist) \<le> now"
    and "\<not> ign \<Longrightarrow> hist \<noteq> [] \<Longrightarrow> now - fst (last hist) \<ge> of_int (rp_gap pol)"
    and "\<not> ign \<Longrightarrow> int (length (hour_window now (map fst hist))) < rp_hourly pol"
  shows "history_ok pol (hist @ [(now, ign)])"
proof -
  let ?h = "hist @ [(now, ign)]"
  have "x \<le> now" if "x \<in> set (map fst hist)" for x
  proof -
    have "hist \<noteq> []" using that by auto
    moreover have "sorted (map fst hist)" using assms(1) by (simp add: history_ok_def)
    then have "x \<le> last (map fst hist)" using that by (rule sorted_last)
    ultimately show ?thesis using assms(2) by (simp add: last_map)
  qed
  then have "sorted (map fst ?h)" using assms(1) by (simp add: history_ok_def sorted_append)
  moreover have "(i > 0 \<longrightarrow> fst (?h ! i) - fst (?h ! (i - 1)) \<ge> of_int (rp_gap pol)) \<and>
      int (length (hour_window (fst (?h ! i)) (map fst (take i ?h)))) < rp_hourly pol"
    if "i < length ?h" "\<not> snd (?h ! i)" for i
  proof (cases "i < length hist")
    case True
    then have "?h ! i = hist ! i" "?h ! (i - 1) = hist ! (i - 1)" "take i ?h = take i hist"
      by (auto simp: nth_append)
    with True that(2) assms(1) show ?thesis by (simp add: history_ok_def)
  next
    case False
    with that(1) have i: "i = length hist" by simp
    have ign: "\<not> ign" using that(2) by (simp add: i)
    show ?thesis
    proof (cases "hist = []")
      case True
      with assms(4)[OF ign] show ?thesis by (simp add: i)
    next
      case False
      with assms(3)[OF ign] assms(4)[OF ign] show ?thesis by (simp add: i nth_append last_conv_nth)
    qed
  qed
  ultimately show ?thesis unfolding history_ok_def by blast
qed

lemma remembers_record:
  assumes mem: "remembers hist (load_recent_starts px content)"
    and hist: "sorted hist" "hist \<noteq> [] \<Longrightarrow> last hist \<le> now"
  shows "remembers (hist @ [now]) (load_recent_starts px (record_start px content now))"
proof -
  have "filter (\<lambda>s. now - s < retain_seconds) (load_recent_starts px content) = filter (\<lambda>s. now - s < retain_seconds) hist"
  proof (cases "hist = []")
    case False
    then have "last hist - s < retain_seconds" if "now - s < retain_seconds" for s using hist(2) that by fastforce
    with False mem show ?thesis by (auto simp: remembers_def intro!: filter_cong)
  qed (use mem in \<open>simp add: remembers_def\<close>)
  moreover have "sorted (filter (\<lambda>s. now - s < retain_seconds) hist @ [now])"
    using hist sorted_last [OF hist(1)] by (fastforce simp: sorted_append sorted_filter [where f = id, simplified])
  ultimately show ?thesis
    by (simp add: load_record remembers_def sorted_sort_id retain_seconds_def)
qed

text \<open>A start that is allowed on what the file remembers is allowed on the whole history.\<close>

lemma allowed_start:
  assumes mem: "remembers hist starts" and hist: "sorted hist" "hist \<noteq> [] \<Longrightarrow> last hist \<le> now"
    and ok: "evaluate_cadence pol starts now = Inr d" "cd_allowed d"
  shows "hist \<noteq> [] \<Longrightarrow> now - last hist \<ge> of_int (rp_gap pol)"
    and "int (length (hour_window now hist)) < rp_hourly pol"
proof -
  have sub: "set starts \<subseteq> set hist" "sorted starts"
    using mem hist(1) by (auto simp: remembers_def sorted_filter [where f = id, simplified] split: if_splits)
  have le: "s \<le> now" if "s \<in> set starts" for s
    using sub(1) that sorted_last [OF hist(1)] hist(2) by (cases "hist = []") fastforce+
  then have all: "starts_until now starts = starts"
    using sub(2) by (simp add: starts_until_def sorted_sort_id filter_id_conv)
  from ok have close: "\<not> too_close pol starts now" and hour: "int (length (hour_window now starts)) < rp_hourly pol"
    by (auto simp: evaluate_cadence_def Let_def all split: if_splits list.splits)
  show "now - last hist \<ge> of_int (rp_gap pol)" if "hist \<noteq> []"
  proof -
    have split: "hist = butlast hist @ [last hist]" using that by simp
    have "starts = filter (\<lambda>s. last hist - s < retain_seconds) hist" using mem that by (simp add: remembers_def)
    also have "\<dots> = filter (\<lambda>s. last hist - s < retain_seconds) (butlast hist) @ [last hist]"
      by (subst split) (simp add: retain_seconds_def del: append_butlast_last_id)
    finally have "starts \<noteq> []" "last starts = last hist" by simp_all
    with close show ?thesis by (simp add: too_close_def not_less)
  qed
  have "hour_window now starts = hour_window now hist"
  proof (cases "hist = []")
    case False
    then have "last hist - s < retain_seconds" if "now - s < 3600" for s
      using hist(2) that by (fastforce simp: retain_seconds_def)
    with False mem show ?thesis by (auto simp: remembers_def hour_window_def intro!: filter_cong)
  qed (use mem in \<open>simp add: remembers_def\<close>)
  with hour show "int (length (hour_window now hist)) < rp_hourly pol" by simp
qed

lemma worker_gate_Started:
  assumes "worker_gate px pol content ign now job = Inr (Started, content2)"
  shows "content2 = record_start px content now"
    and "ign \<or> (\<exists>d. evaluate_cadence pol (load_recent_starts px content) now = Inr d \<and> cd_allowed d)"
  using assms
  by (auto simp: worker_gate_def Let_def split: sum.splits if_splits option.splits)
    (cases "evaluate_cadence pol (load_recent_starts px content) now"; simp)+

lemma worker_gate_idle: "worker_gate px pol content ign now job = Inr (r, content2) \<Longrightarrow> r \<noteq> Started \<Longrightarrow> content2 = content"
  by (auto simp: worker_gate_def Let_def split: sum.splits if_splits option.splits)

lemma worker_history:
  assumes "remembers (map fst hist) (load_recent_starts px content)" "history_ok pol hist" "sorted (map fst passes)"
    and "\<And>p. p \<in> set passes \<Longrightarrow> hist \<noteq> [] \<Longrightarrow> fst (last hist) \<le> fst p"
  shows "history_ok pol (hist @ worker_starts px pol content passes)"
  using assms
proof (induction passes arbitrary: hist content)
  case (Cons p passes)
  obtain now job ign where p: "p = (now, job, ign)" by (cases p)
  have later: "now \<le> fst q" if "q \<in> set passes" for q using Cons.prems(3) that by (auto simp: p)
  have sorted: "sorted (map fst passes)" using Cons.prems(3) by simp
  have after: "hist \<noteq> [] \<Longrightarrow> fst (last hist) \<le> now" using Cons.prems(4) [of p] by (simp add: p)
  have same: "history_ok pol (hist @ worker_starts px pol content passes)"
    using Cons.IH [OF Cons.prems(1,2) sorted] Cons.prems(4) by simp
  show ?case
  proof (cases "worker_gate px pol content ign now job")
    case (Inl e)
    with same show ?thesis by (simp add: p)
  next
    case (Inr r)
    obtain res content2 where r: "r = (res, content2)" by (cases r)
    show ?thesis
    proof (cases "res = Started")
      case False
      then have "content2 = content" using worker_gate_idle Inr r by blast
      with same Inr False r show ?thesis by (cases res) (auto simp: p)
    next
      case True
      note S = worker_gate_Started [OF Inr [unfolded r True]]
      have hist: "sorted (map fst hist)" using Cons.prems(2) by (simp add: history_ok_def)
      have last: "map fst hist \<noteq> [] \<Longrightarrow> last (map fst hist) \<le> now" using after by (simp add: last_map)
      have "history_ok pol (hist @ [(now, ign)])"
      proof (rule history_ok_snoc [OF Cons.prems(2) after])
        assume "\<not> ign"
        then obtain d where d: "evaluate_cadence pol (load_recent_starts px content) now = Inr d" "cd_allowed d"
          using S(2) by blast
        note allowed = allowed_start [OF Cons.prems(1) hist last d]
        show "hist \<noteq> [] \<Longrightarrow> now - fst (last hist) \<ge> of_int (rp_gap pol)" using allowed(1) by (simp add: last_map)
        show "int (length (hour_window now (map fst hist))) < rp_hourly pol" by (rule allowed(2))
      qed
      moreover have "remembers (map fst (hist @ [(now, ign)])) (load_recent_starts px content2)"
        using remembers_record [OF Cons.prems(1) hist last] by (simp add: S(1))
      ultimately have "history_ok pol ((hist @ [(now, ign)]) @ worker_starts px pol content2 passes)"
        by (intro Cons.IH sorted) (use later in auto)
      with Inr r True show ?thesis by (simp add: p)
    qed
  qed
qed simp

text \<open>C16 A worker keeps its cadence where it is asked to: run at any times that do not go back, with or without a job
  waiting, from an empty cadence file, and in any mixture of passes that respect the cadence and passes that ignore it (the
  farm loops run theirs with \<open>ignore_cadence\<close>), it starts jobs in order, and every start of a pass that respects the cadence
  is at least the minimal pause after the start before it, of either kind, with fewer than the hourly limit of starts, of either kind, in
  the hour before, although the file forgets starts after two hours. Of the starts of passes that ignore the cadence
  nothing but their order is claimed.\<close>

theorem worker_keeps_cadence:
  assumes "sorted (map fst passes)" and "starts = worker_starts px pol None passes"
  shows "sorted (map fst starts) \<and>
    (\<forall>i < length starts. \<not> snd (starts ! i) \<longrightarrow>
       (i > 0 \<longrightarrow> fst (starts ! i) - fst (starts ! (i - 1)) \<ge> of_int (rp_gap pol)) \<and>
       int (length (filter (\<lambda>s. fst (starts ! i) - fst s < 3600) (take i starts))) < rp_hourly pol)"
proof -
  have "history_ok pol ([] @ worker_starts px pol None passes)"
    by (rule worker_history) (use assms in \<open>simp_all add: remembers_def load_recent_starts_def\<close>)
  then show ?thesis by (simp add: history_ok_def hour_window_def assms(2) filter_map comp_def)
qed

text \<open>The cadence check answers, and its waits are bounded: it raises only when the policy allows no job per hour, the last
  hour is empty and the pause is over; an allowed job waits nothing, a refused one between one second and the longer of
  the pause and an hour.\<close>

theorem cadence_waits_bounded:
  "case evaluate_cadence pol recent now of
     Inl e \<Rightarrow> rp_hourly pol \<le> 0 \<and> hour_window now (starts_until now recent) = [] \<and> \<not> too_close pol (starts_until now recent) now
   | Inr d \<Rightarrow> (cd_allowed d \<longrightarrow> cd_wait d = 0) \<and> (\<not> cd_allowed d \<longrightarrow> 1 \<le> cd_wait d \<and> cd_wait d \<le> max 1 (max (rp_gap pol) 3600))"
proof -
  define starts where "starts = starts_until now recent"
  have le: "s \<le> now" if "s \<in> set starts" for s using that by (auto simp: starts_def starts_until_def)
  have gap: "floor (of_int (rp_gap pol) - (now - last starts)) \<le> rp_gap pol" if "starts \<noteq> []"
    using le [of "last starts"] that by (simp add: floor_le_iff)
  have hour: "floor (3600 - (now - s)) \<le> 3600" if "s \<in> set (hour_window now starts)" for s
    using le [of s] that by (simp add: hour_window_def floor_le_iff)
  show ?thesis
  proof (cases "too_close pol starts now")
    case True
    with gap have "max 1 (floor (of_int (rp_gap pol) - (now - last starts))) \<le> max 1 (max (rp_gap pol) 3600)"
      by (auto simp: too_close_def)
    with True show ?thesis by (simp add: evaluate_cadence_def Let_def starts_def [symmetric])
  next
    case open_gap: False
    show ?thesis
    proof (cases "hour_window now starts")
      case Nil
      with open_gap show ?thesis by (simp add: evaluate_cadence_def Let_def starts_def [symmetric])
    next
      case (Cons s rest)
      have "floor (3600 - (now - s)) \<le> 3600" by (rule hour) (simp add: Cons)
      then have "max 1 (floor (3600 - (now - s))) \<le> max 1 (max (rp_gap pol) 3600)" by linarith
      with open_gap Cons show ?thesis by (simp add: evaluate_cadence_def Let_def starts_def [symmetric])
    qed
  qed
qed

end
