(* ===== verification/Proposal.thy ===== *)
theory Proposal
  imports Sweep_Compile
begin

text \<open>
  Typed proposals for the next experiment: the schema (\<open>src/research_lab/proposal_schema.py\<close>), the JSONL store
  (\<open>src/research_lab/proposal_store.py\<close>) and the validation that decides what may be queued
  (\<open>src/research_lab/proposal_validator.py\<close>).  A line of the store is its decoded value, \<open>None\<close> when it does not
  decode; the digest of a payload and of a parameter set, the symbols of the universe and the path of the
  repository are arguments.
\<close>

section \<open>The schema\<close>

record proposal =
  po_id :: string
  po_created_by :: string
  po_hypothesis :: string
  po_universe :: string
  po_timeframe :: string
  po_family :: string
  po_symbols :: "string list"
  po_filters :: "(string \<times> string list) list"
  po_grid :: "(string \<times> params list) list"
  po_max_variants :: int
  po_reasons :: "string list"
  po_validation :: string
  po_risks :: "string list"
  po_notes :: string
  po_source_run :: string
  po_source_pack :: string
  po_status :: string
  po_rejection :: string
  po_created_at :: string

definition proposal_statuses :: "string list" where
  "proposal_statuses = [''PROPOSED'', ''VALIDATED'', ''REJECTED'', ''QUEUED'']"

definition proposal_authors :: "string list" where
  "proposal_authors = [''llm_review'', ''rule_based'', ''manual'']"

definition proposal_required :: "string list" where
  "proposal_required = [''created_by'', ''hypothesis'', ''requested_timeframe'', ''setup_family'']"

text \<open>Iterating over \<open>v or []\<close>: a text gives its characters and a dict its keys, as in Python.\<close>

definition iter_values :: "json \<Rightarrow> exn + json list" where
  "iter_values v =
     (if \<not> truthy v then Inr []
      else case v of
        JArr xs \<Rightarrow> Inr xs
      | JStr s \<Rightarrow> Inr (map (\<lambda>c. JStr [c]) s)
      | JObj kvs \<Rightarrow> Inr (map (JStr \<circ> fst) kvs)
      | _ \<Rightarrow> Inl (TypeError ''object is not iterable''))"

definition texts_of :: "py_lib \<Rightarrow> json \<Rightarrow> exn + string list" where
  "texts_of px v = (case iter_values v of Inl e \<Rightarrow> Inl e | Inr xs \<Rightarrow> Inr (map (py_text (px_str px)) xs))"

text \<open>The values of a filter are iterated as they are, so \<open>None\<close> raises there.\<close>

definition filter_texts :: "py_lib \<Rightarrow> string \<times> json \<Rightarrow> exn + string \<times> string list" where
  "filter_texts px kv =
     (case snd kv of
        JArr xs \<Rightarrow> Inr (fst kv, map (py_text (px_str px)) xs)
      | JStr s \<Rightarrow> Inr (fst kv, map (\<lambda>c. [c]) s)
      | JObj kvs \<Rightarrow> Inr (fst kv, map fst kvs)
      | _ \<Rightarrow> Inl (TypeError ''object is not iterable''))"

definition filters_of :: "py_lib \<Rightarrow> json \<Rightarrow> exn + (string \<times> string list) list" where
  "filters_of px v =
     (if \<not> truthy v then Inr []
      else case v of JObj kvs \<Rightarrow> sequence_rows (map (filter_texts px) kvs)
           | _ \<Rightarrow> Inl (AttributeError ''object has no attribute items''))"

definition dicts_in :: "json list \<Rightarrow> params list" where
  "dicts_in vs = concat (map (\<lambda>v. case v of JObj kvs \<Rightarrow> [kvs] | _ \<Rightarrow> []) vs)"

definition coerce_grid :: "json \<Rightarrow> (string \<times> params list) list" where
  "coerce_grid v =
     (case v of
        JObj kvs \<Rightarrow> concat (map (\<lambda>(f, vs). case vs of JArr xs \<Rightarrow> [(f, dicts_in xs)] | _ \<Rightarrow> []) kvs)
      | _ \<Rightarrow> [])"

definition field_text :: "py_lib \<Rightarrow> string \<Rightarrow> json \<Rightarrow> string" where
  "field_text px k payload = str_of_json (px_str px) (jget k payload)"

definition max_variants_of :: "py_lib \<Rightarrow> json \<Rightarrow> exn + int" where
  "max_variants_of px payload = int_of_value px (py_or (jget ''max_variants'' payload) (JInt 12))"

text \<open>The part of \<open>coerce_proposal\<close> after its checks.\<close>

definition proposal_fields :: "py_lib \<Rightarrow> (json \<Rightarrow> string) \<Rightarrow> string \<Rightarrow> json \<Rightarrow> exn + proposal" where
  "proposal_fields px pid_hash status payload =
     (let pid = text_strip (field_text px ''proposal_id'' payload); txt = (\<lambda>k. field_text px k payload) in
      case texts_of px (jget ''symbols'' payload) of Inl e \<Rightarrow> Inl e | Inr symbols \<Rightarrow>
      (case filters_of px (jget ''filters'' payload) of Inl e \<Rightarrow> Inl e | Inr filters \<Rightarrow>
      (case max_variants_of px payload of Inl e \<Rightarrow> Inl e | Inr mv \<Rightarrow>
      (case texts_of px (jget ''reason_codes'' payload) of Inl e \<Rightarrow> Inl e | Inr reasons \<Rightarrow>
      (case texts_of px (jget ''risk_flags'' payload) of Inl e \<Rightarrow> Inl e | Inr risks \<Rightarrow>
         Inr \<lparr>po_id = (if pid = [] then pid_hash payload else pid), po_created_by = txt ''created_by'',
              po_hypothesis = txt ''hypothesis'', po_universe = txt ''requested_universe'',
              po_timeframe = txt ''requested_timeframe'', po_family = txt ''setup_family'', po_symbols = symbols,
              po_filters = filters, po_grid = coerce_grid (jget ''parameter_grid'' payload), po_max_variants = mv,
              po_reasons = reasons, po_validation = txt ''expected_validation'', po_risks = risks,
              po_notes = txt ''private_notes'', po_source_run = txt ''source_run_id'',
              po_source_pack = txt ''source_pack_id'', po_status = status,
              po_rejection = txt ''rejection_reason'', po_created_at = txt ''created_at''\<rparr>)))))"

definition coerce_proposal :: "py_lib \<Rightarrow> (json \<Rightarrow> string) \<Rightarrow> json \<Rightarrow> exn + proposal" where
  "coerce_proposal px pid_hash payload =
     (if \<not> is_obj payload then Inl (ValueError ''proposal must be an object'')
      else
        let status = str_default (px_str px) (jget ''status'' payload) ''PROPOSED''
        in if status \<notin> set proposal_statuses then Inl (ValueError ''invalid status'')
           else if status \<noteq> ''REJECTED'' \<and> list_ex (\<lambda>k. text_strip (field_text px k payload) = []) proposal_required
           then Inl (ValueError ''proposal missing required field'')
           else if field_text px ''created_by'' payload \<notin> set proposal_authors then Inl (ValueError ''invalid created_by'')
           else proposal_fields px pid_hash status payload)"

definition proposal_dict :: "proposal \<Rightarrow> json" where
  "proposal_dict p =
     JObj [(''schema'', JStr ''strategy_lab_proposal.v2''), (''proposal_id'', JStr (po_id p)),
       (''created_by'', JStr (po_created_by p)), (''hypothesis'', JStr (po_hypothesis p)),
       (''requested_universe'', JStr (po_universe p)), (''requested_timeframe'', JStr (po_timeframe p)),
       (''setup_family'', JStr (po_family p)), (''symbols'', JArr (map JStr (po_symbols p))),
       (''filters'', JObj (map (\<lambda>(k, vs). (k, JArr (map JStr vs))) (po_filters p))),
       (''parameter_grid'', JObj (map (\<lambda>(f, vs). (f, JArr (map JObj vs))) (po_grid p))),
       (''max_variants'', JInt (po_max_variants p)), (''reason_codes'', JArr (map JStr (po_reasons p))),
       (''expected_validation'', JStr (po_validation p)), (''risk_flags'', JArr (map JStr (po_risks p))),
       (''private_notes'', JStr (po_notes p)), (''source_run_id'', JStr (po_source_run p)),
       (''source_pack_id'', JStr (po_source_pack p)), (''status'', JStr (po_status p)),
       (''rejection_reason'', JStr (po_rejection p)), (''created_at'', JStr (po_created_at p))]"

section \<open>The store\<close>

text \<open>A line that does not decode, or whose proposal is refused with a \<open>ValueError\<close>, is passed over; any other
  exception ends the reading.\<close>

fun load_proposals :: "py_lib \<Rightarrow> (json \<Rightarrow> string) \<Rightarrow> json option list \<Rightarrow> exn + proposal list" where
  "load_proposals px pid_hash [] = Inr []"
| "load_proposals px pid_hash (None # rest) = load_proposals px pid_hash rest"
| "load_proposals px pid_hash (Some payload # rest) =
     (case coerce_proposal px pid_hash payload of
        Inl (ValueError _) \<Rightarrow> load_proposals px pid_hash rest
      | Inl e \<Rightarrow> Inl e
      | Inr p \<Rightarrow> (case load_proposals px pid_hash rest of Inl e \<Rightarrow> Inl e | Inr ps \<Rightarrow> Inr (p # ps)))"

definition write_proposals :: "proposal list \<Rightarrow> json option list" where
  "write_proposals ps = map (Some \<circ> proposal_dict) ps"

definition upsert_one :: "(string \<times> proposal) list \<times> int \<times> int \<Rightarrow> proposal \<Rightarrow> (string \<times> proposal) list \<times> int \<times> int" where
  "upsert_one acc p =
     (case acc of (idx, added, updated) \<Rightarrow>
        (case map_of idx (po_id p) of
           Some old \<Rightarrow>
             (dict_set (po_id p)
                (p\<lparr>po_created_at := (if po_created_at old \<noteq> [] then po_created_at old else po_created_at p)\<rparr>) idx,
              added, updated + 1)
         | None \<Rightarrow> (dict_set (po_id p) p idx, added + 1, updated)))"

text \<open>\<open>upsert_proposals\<close>: the counts added, updated and total, and the file written.\<close>

definition upsert_proposals ::
  "py_lib \<Rightarrow> (json \<Rightarrow> string) \<Rightarrow> json option list \<Rightarrow> proposal list \<Rightarrow> exn + (int \<times> int \<times> int) \<times> json option list" where
  "upsert_proposals px pid_hash content ps =
     (case load_proposals px pid_hash content of
        Inl e \<Rightarrow> Inl e
      | Inr stored \<Rightarrow>
          (case foldl upsert_one (foldl (\<lambda>d p. dict_set (po_id p) p d) [] stored, 0, 0) ps of
             (idx, added, updated) \<Rightarrow>
               Inr ((added, updated, int (length idx)), write_proposals (map snd (sort_key fst idx)))))"

definition set_status :: "py_lib \<Rightarrow> (json \<Rightarrow> string) \<Rightarrow> json option list \<Rightarrow> string \<Rightarrow> string \<Rightarrow> string
    \<Rightarrow> exn + bool \<times> json option list" where
  "set_status px pid_hash content pid status reason =
     (case load_proposals px pid_hash content of
        Inl e \<Rightarrow> Inl e
      | Inr ps \<Rightarrow>
          if list_ex (\<lambda>p. po_id p = pid) ps
          then Inr (True, write_proposals (map (\<lambda>p. if po_id p = pid then p\<lparr>po_status := status, po_rejection := reason\<rparr> else p) ps))
          else Inr (False, content))"

section \<open>Validation\<close>

record gate_env =
  ge_symbols :: "string list"
  ge_project :: string
  ge_params_hash :: "params \<Rightarrow> string"

definition unsafe_phrases :: "string list" where
  "unsafe_phrases =
     [''guaranteed'', ''risk-free'', ''risk free'', ''live trade'', ''live-trade'', ''live tradable'', ''live-tradable'',
      ''auto_trade'', ''autotrade'', ''auto trade'', ''place order'', ''order engine'', ''100% win'', ''guaranteed profit'']"

definition family_grid :: "proposal \<Rightarrow> params list" where
  "family_grid p = (case map_of (po_grid p) (po_family p) of None \<Rightarrow> [] | Some vs \<Rightarrow> vs)"

definition proposal_variants :: "proposal \<Rightarrow> int" where
  "proposal_variants p = int (length (po_symbols p) * length (family_grid p))"

definition known_family :: "proposal \<Rightarrow> bool" where
  "known_family p \<longleftrightarrow> (case get_strategy (po_family p) of Inl _ \<Rightarrow> False | Inr _ \<Rightarrow> True)"

definition proposal_cap :: "resource_policy \<Rightarrow> proposal \<Rightarrow> int" where
  "proposal_cap pol p =
     fst (effective_variant_cap pol
            (if po_max_variants p \<noteq> 0 then min (proposal_variants p) (po_max_variants p) else proposal_variants p))"

definition proposal_experiment :: "resource_policy \<Rightarrow> proposal \<Rightarrow> experiment_spec" where
  "proposal_experiment pol p =
     \<lparr>ex_id = ''proposal_'' @ po_id p, ex_glob = ''scripts/analysis/research/_okxhist/ai_scanner_feasibility/{symbol}_*.json'',
      ex_symbols = po_symbols p, ex_families = [po_family p], ex_grid = [(po_family p, family_grid p)], ex_fees = 7,
      ex_slippage = 3, ex_min_trades = 20, ex_max_runs = proposal_cap pol p, ex_filters = po_filters p,
      ex_event_context = JObj [], ex_timeframe = (if po_timeframe p = [] then ''1d'' else po_timeframe p),
      ex_backend = ''cpu'', ex_snapshot = [], ex_evidence = [], ex_bindings = [], ex_definition = None, ex_family_id = []\<rparr>"

definition compile_proposal :: "family_env \<Rightarrow> resource_policy \<Rightarrow> proposal \<Rightarrow> experiment_spec run" where
  "compile_proposal fe pol p =
     (if \<not> known_family p then Some (Inl (ValueError ''unknown setup_family''))
      else if po_symbols p = [] \<or> family_grid p = []
      then Some (Inl (ValueError ''proposal needs symbols and a parameter grid for its setup_family''))
      else experiment_post_init fe 0 None (proposal_experiment pol p))"

definition param_reasons :: "py_lib \<Rightarrow> param_policy \<Rightarrow> proposal \<Rightarrow> exn + string list" where
  "param_reasons px ppol p =
     (if \<not> known_family p then Inr [''unknown_family'']
      else case validate_parameter_grid px ppol (po_family p) (map JObj (family_grid p)) True of
             Inl e \<Rightarrow> Inl e
           | Inr r \<Rightarrow> Inr (pr_errors r))"

definition symbol_reasons :: "gate_env \<Rightarrow> proposal \<Rightarrow> string list" where
  "symbol_reasons ge p =
     (if po_symbols p = [] \<or> list_ex (\<lambda>s. text_upper s \<notin> set (ge_symbols ge)) (po_symbols p) then [''unknown_symbol''] else [])"

definition timeframe_reasons :: "timeframe_profiles \<Rightarrow> proposal \<Rightarrow> string list" where
  "timeframe_reasons profiles p =
     (if text_lower (po_timeframe p) = ''1m'' then [''one_minute_full_sweep_blocked'']
      else if profile_get profiles (po_timeframe p) = None then [''disallowed_timeframe''] else [])"

definition resource_reasons :: "resource_policy \<Rightarrow> proposal \<Rightarrow> string list" where
  "resource_reasons pol p =
     (if po_max_variants p > rp_variants pol \<or> proposal_variants p > rp_variants pol then [''too_many_variants''] else []) @
     (if ''heavy'' \<in> set (map text_lower (po_risks p)) \<and> \<not> rp_heavy pol then [''heavy_job_not_allowed''] else [])"

definition proposal_text :: "proposal \<Rightarrow> string" where
  "proposal_text p = po_hypothesis p @ '' '' @ po_notes p @ '' '' @ po_validation p"

definition wording_reasons :: "gate_env \<Rightarrow> proposal \<Rightarrow> string list" where
  "wording_reasons ge p =
     (let slash = (\<lambda>s. text_lower (replace_char (CHR 92) CHR ''/'' s)); blob = slash (proposal_text p)
      in (if list_ex (\<lambda>w. sublist w (text_lower (proposal_text p))) unsafe_phrases then [''unsafe_wording''] else []) @
         (if sublist (slash (ge_project ge)) blob \<or> sublist ''/trading-bot-v2/'' blob
          then [''output_boundary_violation''] else []))"

definition horizon_reasons :: "py_lib \<Rightarrow> param_policy \<Rightarrow> proposal \<Rightarrow> string list" where
  "horizon_reasons px ppol p =
     (if known_family p \<and> list_ex (\<lambda>v. validate_horizon px ppol (po_timeframe p) (JObj v) \<noteq> []) (family_grid p)
      then [''wrong_horizon''] else [])"

text \<open>Rejected by memory only when every symbol and variant it would run is known to be bad.\<close>

definition memory_bad :: "gate_env \<Rightarrow> gate_index \<Rightarrow> proposal \<Rightarrow> string \<Rightarrow> params \<Rightarrow> bool" where
  "memory_bad ge idx p sy v \<longleftrightarrow>
     fst (proposal_verdict idx (text_upper (replace_char CHR ''-'' CHR ''_'' sy)) (po_timeframe p) (po_family p)
            (ge_params_hash ge v)) = ''known_bad''"

definition memory_reasons :: "gate_env \<Rightarrow> gate_index option \<Rightarrow> proposal \<Rightarrow> string list" where
  "memory_reasons ge memory p =
     (case memory of
        None \<Rightarrow> []
      | Some idx \<Rightarrow>
          if \<not> known_family p \<or> po_symbols p = [] \<or> family_grid p = [] then []
          else if list_all (\<lambda>sy. list_all (memory_bad ge idx p sy) (family_grid p)) (po_symbols p)
          then [''known_bad_in_memory''] else [])"

definition validate_proposal ::
  "family_env \<Rightarrow> gate_env \<Rightarrow> timeframe_profiles \<Rightarrow> resource_policy \<Rightarrow> gate_index option \<Rightarrow> proposal
     \<Rightarrow> (string \<times> string list) run" where
  "validate_proposal fe ge profiles pol memory p =
     (let px = sa_px (fe_sampler fe); ppol = sa_policy (fe_sampler fe)
      in case param_reasons px ppol p of
           Inl e \<Rightarrow> Some (Inl e)
         | Inr params_bad \<Rightarrow>
             (let reasons = (if text_strip (po_hypothesis p) = [] then [''missing_hypothesis''] else []) @ params_bad @
                    symbol_reasons ge p @ timeframe_reasons profiles p @ resource_reasons pol p @ wording_reasons ge p @
                    horizon_reasons px ppol p @ memory_reasons ge memory p;
                  done_with = (\<lambda>rs. Some (Inr (if rs = [] then ''VALIDATED'' else ''REJECTED'', sorted_set rs)))
              in case compile_proposal fe pol p of
                   None \<Rightarrow> None
                 | Some (Inl (ValueError _)) \<Rightarrow> done_with (reasons @ [''not_compilable''])
                 | Some (Inl e) \<Rightarrow> Some (Inl e)
                 | Some (Inr _) \<Rightarrow> done_with reasons))"

definition validate_and_mark ::
  "family_env \<Rightarrow> gate_env \<Rightarrow> timeframe_profiles \<Rightarrow> resource_policy \<Rightarrow> gate_index option \<Rightarrow> proposal \<Rightarrow> proposal run" where
  "validate_and_mark fe ge profiles pol memory p =
     then_run (validate_proposal fe ge profiles pol memory p)
       (\<lambda>(status, reasons).
          Some (Inr (if status = ''VALIDATED'' then p\<lparr>po_status := ''VALIDATED'', po_rejection := []\<rparr>
                     else p\<lparr>po_status := ''REJECTED'', po_rejection := join_text '','' reasons\<rparr>)))"

end
