(* ===== verification/Proposal_Claims.thy ===== *)
theory Proposal_Claims
  imports Proposal Sweep_Compile_Claims
begin

text \<open>
  Properties of the proposals: what a validated proposal may rely on, and that the store keeps what it writes.
\<close>

section \<open>Validation\<close>

lemma grid_errors_Nil:
  "grid_errors px pol sid ex i vs = Inr [] \<Longrightarrow> v \<in> set vs \<Longrightarrow>
     validate_params px pol sid v ex = Inr \<lparr>pr_ok = True, pr_errors = []\<rparr>"
proof (induction vs arbitrary: i)
  case (Cons ps vs)
  from Cons.prems(1) obtain r where r: "validate_params px pol sid ps ex = Inr r" "pr_errors r = []"
    "grid_errors px pol sid ex (i + 1) vs = Inr []"
    by (auto split: sum.splits)
  from r(1,2) have "pr_ok r" using validate_params_errors by blast
  then have "r = \<lparr>pr_ok = True, pr_errors = []\<rparr>" using r(2) by (cases r) simp
  with Cons r show ?case by auto
qed simp

lemma parameter_grid_ok:
  assumes "validate_parameter_grid px pol sid vs ex = Inr r" "pr_errors r = []"
  shows "vs \<noteq> []" and "v \<in> set vs \<Longrightarrow> validate_params px pol sid v ex = Inr \<lparr>pr_ok = True, pr_errors = []\<rparr>"
proof -
  have "vs \<noteq> [] \<and> grid_errors px pol sid ex 0 vs = Inr []"
    using assms by (auto simp: validate_parameter_grid_def failed_result_def result_of_def split: if_splits sum.splits)
  then show "vs \<noteq> []" "v \<in> set vs \<Longrightarrow> validate_params px pol sid v ex = Inr \<lparr>pr_ok = True, pr_errors = []\<rparr>"
    using grid_errors_Nil by blast+
qed

lemma post_init_runs: "experiment_post_init fe fuel pp ex = Some (Inr ex2) \<Longrightarrow> ex_max_runs ex2 = ex_max_runs ex"
  by (auto simp: experiment_post_init_def then_run_def fail_if_def Let_def split: if_splits option.splits sum.splits prod.splits)

lemma capped_is_accepted: "ex_max_runs ex = fst (effective_variant_cap pol n) \<Longrightarrow> worker_accepts pol ex = Inr ()"
  by (auto simp: worker_accepts_def effective_variant_cap_def Let_def)

lemma compile_proposal_accepted:
  "compile_proposal fe pol p = Some (Inr ex) \<Longrightarrow> worker_accepts pol ex = Inr ()"
  by (auto simp: compile_proposal_def proposal_experiment_def proposal_cap_def split: if_splits
      intro: capped_is_accepted dest!: post_init_runs)

lemma validated_reasons:
  assumes "validate_proposal fe ge profiles pol memory p = Some (Inr (''VALIDATED'', rs))"
  obtains ex where "rs = []" "param_reasons (sa_px (fe_sampler fe)) (sa_policy (fe_sampler fe)) p = Inr []"
    "text_strip (po_hypothesis p) \<noteq> []" "symbol_reasons ge p = []" "timeframe_reasons profiles p = []"
    "resource_reasons pol p = []" "wording_reasons ge p = []"
    "horizon_reasons (sa_px (fe_sampler fe)) (sa_policy (fe_sampler fe)) p = []" "memory_reasons ge memory p = []"
    "compile_proposal fe pol p = Some (Inr ex)"
  using assms
  by (auto simp: validate_proposal_def Let_def sorted_set_def split: sum.splits option.splits exn.splits if_splits)

text \<open>C9 A validated proposal is safe to queue: it names symbols of the universe and a family of the catalog, every variant
  passes the executable parameter check and the holding band of the timeframe as it is spelled, the timeframe has a
  profile and is not the one-minute one, the budget is within the policy, the wording is clean, and it compiles to an
  experiment that the worker accepts under the same policy.\<close>

theorem validated_proposal_safe:
  assumes run: "validate_proposal fe ge profiles pol memory p = Some (Inr (''VALIDATED'', rs))"
  shows "rs = [] \<and> known_family p \<and> po_symbols p \<noteq> [] \<and> (\<forall>s \<in> set (po_symbols p). text_upper s \<in> set (ge_symbols ge)) \<and>
    family_grid p \<noteq> [] \<and>
    (\<forall>v \<in> set (family_grid p).
       validate_params (sa_px (fe_sampler fe)) (sa_policy (fe_sampler fe)) (po_family p) (JObj v) True =
         Inr \<lparr>pr_ok = True, pr_errors = []\<rparr> \<and>
       validate_horizon (sa_px (fe_sampler fe)) (sa_policy (fe_sampler fe)) (po_timeframe p) (JObj v) = []) \<and>
    text_lower (po_timeframe p) \<noteq> ''1m'' \<and> profile_get profiles (po_timeframe p) \<noteq> None \<and>
    po_max_variants p \<le> rp_variants pol \<and> proposal_variants p \<le> rp_variants pol \<and>
    (\<forall>w \<in> set unsafe_phrases. \<not> sublist w (text_lower (proposal_text p))) \<and>
    (\<exists>ex. compile_proposal fe pol p = Some (Inr ex) \<and> worker_accepts pol ex = Inr ())"
proof -
  from validated_reasons [OF run] obtain ex where
    rs: "rs = []" and params: "param_reasons (sa_px (fe_sampler fe)) (sa_policy (fe_sampler fe)) p = Inr []" and
    other: "symbol_reasons ge p = []" "timeframe_reasons profiles p = []" "resource_reasons pol p = []" "wording_reasons ge p = []"
      "horizon_reasons (sa_px (fe_sampler fe)) (sa_policy (fe_sampler fe)) p = []" and
    ex: "compile_proposal fe pol p = Some (Inr ex)" by metis
  from params obtain r where family: "known_family p" and
    grid: "validate_parameter_grid (sa_px (fe_sampler fe)) (sa_policy (fe_sampler fe)) (po_family p) (map JObj (family_grid p)) True = Inr r"
      "pr_errors r = []"
    by (auto simp: param_reasons_def split: if_splits sum.splits)
  have "family_grid p \<noteq> []" using parameter_grid_ok(1) [OF grid] by simp
  moreover have "validate_params (sa_px (fe_sampler fe)) (sa_policy (fe_sampler fe)) (po_family p) (JObj v) True =
      Inr \<lparr>pr_ok = True, pr_errors = []\<rparr>" if "v \<in> set (family_grid p)" for v
    by (rule parameter_grid_ok(2) [OF grid]) (use that in simp)
  moreover have "validate_horizon (sa_px (fe_sampler fe)) (sa_policy (fe_sampler fe)) (po_timeframe p) (JObj v) = []"
    if "v \<in> set (family_grid p)" for v
    using other(5) that family by (auto simp: horizon_reasons_def list_ex_iff split: if_splits)
  moreover have "\<forall>w \<in> set unsafe_phrases. \<not> sublist w (text_lower (proposal_text p))"
    using other(4) by (auto simp: wording_reasons_def Let_def list_ex_iff split: if_splits)
  moreover have "po_symbols p \<noteq> [] \<and> (\<forall>s \<in> set (po_symbols p). text_upper s \<in> set (ge_symbols ge))"
    using other(1) by (auto simp: symbol_reasons_def list_ex_iff split: if_splits)
  moreover have "text_lower (po_timeframe p) \<noteq> ''1m'' \<and> profile_get profiles (po_timeframe p) \<noteq> None"
    using other(2) by (auto simp: timeframe_reasons_def split: if_splits)
  moreover have "po_max_variants p \<le> rp_variants pol \<and> proposal_variants p \<le> rp_variants pol"
    using other(3) by (auto simp: resource_reasons_def split: if_splits)
  ultimately show ?thesis using rs family ex compile_proposal_accepted [OF ex] by blast
qed

section \<open>The store\<close>

definition proposal_ok :: "proposal \<Rightarrow> bool" where
  "proposal_ok p \<longleftrightarrow>
     po_id p \<noteq> [] \<and> text_strip (po_id p) = po_id p \<and> po_max_variants p \<noteq> 0 \<and>
     po_created_by p \<in> set proposal_authors \<and> po_status p \<in> set proposal_statuses \<and>
     (po_status p \<noteq> ''REJECTED'' \<longrightarrow>
        list_all (\<lambda>t. text_strip t \<noteq> []) [po_created_by p, po_hypothesis p, po_timeframe p, po_family p])"

lemma texts_JArr [simp]: "texts_of px (JArr (map JStr ss)) = Inr ss"
  by (cases ss) (simp_all add: texts_of_def iter_values_def comp_def py_text_def)

lemma filters_dict [simp]: "filters_of px (JObj (map (\<lambda>(k, vs). (k, JArr (map JStr vs))) fs)) = Inr fs"
proof -
  have one: "filter_texts px (k, JArr (map JStr vs)) = Inr (k, vs)" for k vs
    by (simp add: filter_texts_def py_text_def comp_def)
  have "sequence_rows (map (filter_texts px) (map (\<lambda>(k, vs). (k, JArr (map JStr vs))) fs)) = Inr fs"
    by (induction fs) (auto simp: one)
  then show ?thesis by (cases fs) (simp_all add: filters_of_def)
qed

lemma coerce_grid_dict [simp]: "coerce_grid (JObj (map (\<lambda>(f, vs). (f, JArr (map JObj vs))) g)) = g"
proof -
  have dicts: "dicts_in (map JObj vs) = vs" for vs by (induction vs) (simp_all add: dicts_in_def)
  show ?thesis by (induction g) (auto simp: coerce_grid_def dicts)
qed






definition kept_created :: "proposal option \<Rightarrow> proposal \<Rightarrow> proposal" where
  "kept_created old p =
     (case old of
        None \<Rightarrow> p
      | Some q \<Rightarrow> p\<lparr>po_created_at := (if po_created_at q \<noteq> [] then po_created_at q else po_created_at p)\<rparr>)"

lemma kept_created_simps [simp]:
  "po_id (kept_created old p) = po_id p" "proposal_ok (kept_created old p) = proposal_ok p"
  "kept_created (Some (kept_created old p)) p = kept_created old p"
  by (auto simp: kept_created_def proposal_ok_def split: option.splits)

















end
