(* ===== verification/Sweep_Witnesses.thy ===== *)
theory Sweep_Witnesses
  imports Sweep_Claims Sweep_Compile_Claims Sweep_Grid_Claims Catalog_Claims Cadence_Claims Proposal_Claims
begin

text \<open>
  Concrete inputs at which the hypotheses of the properties of sweeps, families, cadence and proposals hold: a
  sweep of nine points of which eight are sampled, the exits of a family, three passes of a worker, a proposal.
\<close>

section \<open>The inputs\<close>

definition demo_px :: py_lib where
  "demo_px = \<lparr>px_float = (\<lambda>_. None), px_int = (\<lambda>_. None), px_str = (\<lambda>_. ''7''), px_g = (\<lambda>_. ''7'')\<rparr>"

definition demo_sampler :: sampler where
  "demo_sampler = \<lparr>sa_px = demo_px, sa_policy = shipped_policy, sa_rng = (\<lambda>_ k. k)\<rparr>"

definition demo_env :: family_env where
  "demo_env =
     \<lparr>fe_sampler = demo_sampler, fe_sha = (\<lambda>_. ''a1''), fe_set_hash = (\<lambda>_ _. ''b2''), fe_hash = (\<lambda>_. ''c3''),
      fe_code = \<lparr>ci_compiler = ''d4'', ci_validity = ''e5'', ci_sampler = ''f6'', ci_selection = ''a7''\<rparr>\<rparr>"

definition demo_policy :: resource_policy where
  "demo_policy =
     \<lparr>rp_mode = ''normal'', rp_workers = 1, rp_queue = 10, rp_variants = 20, rp_refill = 2, rp_generate = 5, rp_gap = 120,
      rp_hourly = 6, rp_heavy = False, rp_1m = ''event_only'', rp_priority = ''low'', rp_llm = False\<rparr>"

definition demo_profile :: timeframe_profile where
  "demo_profile =
     \<lparr>tp_timeframe = ''1h'', tp_role = ''setup'', tp_use = ''sweep'', tp_symbols = 5, tp_variants = 4,
      tp_trigger_only = False, tp_window_hours = None, tp_event_windows = None, tp_comment = []\<rparr>"

definition demo_profiles :: timeframe_profiles where
  "demo_profiles = [(''1h'', demo_profile)]"

definition demo_spec :: sweep_spec where
  "demo_spec =
     \<lparr>sw_id = ''s1'', sw_anchor = ''BTC'', sw_related = [''ETH''], sw_timeframe = ''1h'', sw_family = ''rsi_reversal'',
      sw_setup = [(''oversold'', [JInt 25, JInt 30, JInt 35])], sw_entry = [],
      sw_exit = [(''stop_pct'', [JInt 1, JInt 2, JInt 3])], sw_filter = [(''regime'', [JStr ''trend''])],
      sw_max_variants = 8, sw_backend = ''cpu'', sw_class = ''normal'', sw_output = ''private_only'', sw_tier = ''normal'',
      sw_parent_family = [], sw_parent_trial = [], sw_parent_trials = 0, sw_policy = ''independent''\<rparr>"

definition demo_request :: sweep_request where
  "demo_request =
     \<lparr>sr_glob = ''{symbol}.json'', sr_fees = 7, sr_slippage = 3, sr_min_trades = 20, sr_event_context = JObj [],
      sr_snapshot = [], sr_evidence = [], sr_bindings = []\<rparr>"

definition demo_defaults :: "(string \<times> json) list" where
  "demo_defaults = [(''oversold'', JInt 30), (''stop_pct'', JInt 2)]"

definition demo_expanded :: "(params list \<times> search_space) run" where
  "demo_expanded = expand_grids_bounded demo_sampler 9 (sweep_grids demo_spec) 8 ''s1'' demo_defaults ''rsi_reversal''"

definition value_of :: "'a run \<Rightarrow> 'a" where
  "value_of r = (case r of Some (Inr x) \<Rightarrow> x | _ \<Rightarrow> undefined)"

definition returned :: "'a run \<Rightarrow> bool" where
  "returned r = (case r of Some (Inr _) \<Rightarrow> True | _ \<Rightarrow> False)"

lemma returned_value: "returned r \<Longrightarrow> r = Some (Inr (value_of r))"
  by (auto simp: returned_def value_of_def split: option.splits sum.splits)

section \<open>Sampling\<close>

lemma demo_grid:
  "merge_grids (sweep_grids demo_spec) = [(''oversold'', [JInt 25, JInt 30, JInt 35]), (''stop_pct'', [JInt 1, JInt 2, JInt 3])]"
  by code_simp

lemma demo_axes:
  "sorted_keys (merge_grids (sweep_grids demo_spec)) = [''oversold'', ''stop_pct'']"
  "grid_axes (merge_grids (sweep_grids demo_spec)) = [[JInt 25, JInt 30, JInt 35], [JInt 1, JInt 2, JInt 3]]"
  by code_simp+

lemma demo_strategy: "get_strategy ''rsi_reversal'' = Inr (case get_strategy ''rsi_reversal'' of Inr d \<Rightarrow> d)"
proof -
  have "case get_strategy ''rsi_reversal'' of Inl _ \<Rightarrow> False | Inr _ \<Rightarrow> True" by code_simp
  then show ?thesis by (auto split: sum.splits)
qed

lemma demo_expands: "demo_expanded = Some (Inr (fst (value_of demo_expanded), snd (value_of demo_expanded)))"
proof -
  have "returned demo_expanded" by code_simp
  then show ?thesis by (simp add: returned_value [symmetric])
qed

lemmas demo_run = trans [OF demo_expanded_def [symmetric] demo_expands]

lemma sample_of_product_witness:
  "sorted (ss_indices (snd (value_of demo_expanded))) \<and> distinct (ss_indices (snd (value_of demo_expanded))) \<and>
   fst (value_of demo_expanded) =
     map ((!) (expand_grids (sweep_grids demo_spec))) (ss_indices (snd (value_of demo_expanded)))"
proof -
  have "merge_grids (sweep_grids demo_spec) \<noteq> []" by (simp add: demo_grid)
  from sample_of_product [OF demo_run demo_strategy this] show ?thesis by blast
qed

lemma grid_index_roundtrip_witness:
  "flat_index [[JInt 25, JInt 30, JInt 35], [JInt 1, JInt 2]] (decode_offsets [[JInt 25, JInt 30, JInt 35], [JInt 1, JInt 2]] 5) = 5"
proof -
  have "5 < axes_total [[JInt 25, JInt 30, JInt 35], [JInt 1, JInt 2]]" by code_simp
  with grid_index_roundtrip [of "[[JInt 25, JInt 30, JInt 35], [JInt 1, JInt 2]]"] show ?thesis by blast
qed

lemma sample_covers_axes_witness:
  "expand_grids (sweep_grids demo_spec) ! 7 \<in> set (fst (value_of demo_expanded))"
proof -
  let ?axes = "[[JInt 25, JInt 30, JInt 35], [JInt 1, JInt 2, JInt 3]]"
  have offsets: "[1, 1] = baseline_offsets demo_defaults (sorted_keys (merge_grids (sweep_grids demo_spec))) ?axes"
    unfolding demo_axes by code_simp
  have index: "7 = flat_index ?axes ([1, 1][0 := 2])" "7 < axes_total ?axes" by code_simp+
  have "case get_strategy ''rsi_reversal'' of
      Inl _ \<Rightarrow> False | Inr d \<Rightarrow> runnable demo_sampler ''rsi_reversal'' (st_defaults d) (expand_grids (sweep_grids demo_spec) ! 7)"
    by code_simp
  then have ok: "runnable demo_sampler ''rsi_reversal'' (st_defaults (case get_strategy ''rsi_reversal'' of Inr d \<Rightarrow> d))
      (expand_grids (sweep_grids demo_spec) ! 7)" by (auto split: sum.splits)
  show ?thesis
    using sample_covers_axes [OF demo_run demo_strategy _ demo_axes(2) [symmetric] offsets _ _ _ index ok] by
      (simp_all add: demo_grid)
qed

lemma sampling_ends_witness:
  "expand_grids_bounded demo_sampler 9 (sweep_grids demo_spec) 8 ''s1'' demo_defaults ''rsi_reversal'' \<noteq> None"
proof (rule sampling_ends)
  have "length (expand_grids (sweep_grids demo_spec)) = 9" by code_simp
  then show "\<forall>n \<le> length (expand_grids (sweep_grids demo_spec)). \<forall>i < n. \<exists>j < 9. sa_rng demo_sampler ''s1'' j mod n = i"
    by (auto simp: demo_sampler_def intro: less_le_trans mod_less)
qed

section \<open>Exits and cadence\<close>

lemma executable_exits_filled_witness:
  "\<exists>out t. executable_exit_params demo_px shipped_policy ''rsi_reversal'' [(''stop_pct'', JInt 2)] = Inr out \<and>
     num_of demo_px (jget ''take_pct'' (JObj out)) = Some t \<and> t \<ge> 4 - 1 / 2000000"
proof -
  have "case executable_exit_params demo_px shipped_policy ''rsi_reversal'' [(''stop_pct'', JInt 2)] of
      Inl _ \<Rightarrow> False | Inr out \<Rightarrow> num_of demo_px (jget ''stop_pct'' (JObj out)) = Some 2" by code_simp
  then obtain out where out: "executable_exit_params demo_px shipped_policy ''rsi_reversal'' [(''stop_pct'', JInt 2)] = Inr out"
    "num_of demo_px (jget ''stop_pct'' (JObj out)) = Some 2" by (auto split: sum.splits)
  from executable_exits_filled [OF out] show ?thesis using out(1)
    by (auto simp: min_reward_risk_def shipped_policy_def opt_or_def)
qed

lemma catalog_executable_witness:
  "\<exists>out. executable_exit_params demo_px shipped_policy (st_id (strategy_registry ! 0)) [] = Inr out \<and>
     validate_params demo_px shipped_policy (st_id (strategy_registry ! 0)) (JObj out) True = Inr \<lparr>pr_ok = True, pr_errors = []\<rparr>"
proof -
  have "0 < length strategy_registry" by code_simp
  then have "strategy_registry ! 0 \<in> set strategy_registry" by simp
  from catalog_executable [OF this, of demo_px] show ?thesis by blast
qed

lemma worker_keeps_cadence_witness:
  "\<exists>starts. starts = worker_starts demo_px demo_policy None
       [(0, True, False), (60, True, False), (70, True, True), (130, True, False), (200, True, False)] \<and>
     starts = [(0, False), (70, True), (200, False)] \<and> sorted (map fst starts)"
proof -
  let ?passes = "[(0, True, False), (60, True, False), (70, True, True), (130, True, False), (200, True, False)] :: (time \<times> bool \<times> bool) list"
  have "sorted (map fst ?passes)" by simp
  from worker_keeps_cadence [OF this refl, of demo_px demo_policy]
  have "sorted (map fst (worker_starts demo_px demo_policy None ?passes))" by (rule conjunct1)
  moreover have "worker_starts demo_px demo_policy None ?passes = [(0, False), (70, True), (200, False)]" by code_simp
  ultimately show ?thesis by blast
qed

lemma farm_sweep_reward_witness:
  "\<exists>spec. build_sweep_spec demo_px shipped_policy ''BTC'' ''1h'' ''rsi_reversal'' (Some ''ab'') ''cpu'' ''normal'' 8 [] = Inr spec \<and>
     JFloat 8 \<in> set (levels_of (sw_exit spec) ''stop_pct'') \<and> JFloat 16 \<in> set (levels_of (sw_exit spec) ''take_pct'') \<and>
     (16 :: rat) \<ge> 3 / 2 * 8 - 1 / 2000000"
proof -
  have "case build_sweep_spec demo_px shipped_policy ''BTC'' ''1h'' ''rsi_reversal'' (Some ''ab'') ''cpu'' ''normal'' 8 [] of
      Inl _ \<Rightarrow> False
    | Inr spec \<Rightarrow> JFloat 8 \<in> set (levels_of (sw_exit spec) ''stop_pct'') \<and> JFloat 16 \<in> set (levels_of (sw_exit spec) ''take_pct'')"
    by code_simp
  then obtain spec where
    run: "build_sweep_spec demo_px shipped_policy ''BTC'' ''1h'' ''rsi_reversal'' (Some ''ab'') ''cpu'' ''normal'' 8 [] = Inr spec" and
    levels: "JFloat 8 \<in> set (levels_of (sw_exit spec) ''stop_pct'')" "JFloat 16 \<in> set (levels_of (sw_exit spec) ''take_pct'')"
    by (auto split: sum.splits)
  from farm_sweep_reward [OF run levels] run levels show ?thesis by blast
qed

section \<open>Compilation\<close>

definition outside :: "string \<Rightarrow> bool" where
  "outside path = False"

lemma demo_inputs:
  obtains variants space policy where
    "compile_inputs demo_env 9 demo_spec demo_profile demo_request variants space policy"
    "blocking_errors (sa_px (fe_sampler demo_env))
      (validate_sweep_spec (sa_px (fe_sampler demo_env)) None outside demo_profiles demo_policy demo_spec) = []"
    "profile_get demo_profiles (sw_timeframe demo_spec) = Some demo_profile"
proof -
  let ?run = "expand_sweep demo_env 9 demo_spec (effective_variants demo_spec (tp_variants demo_profile))"
  have "returned ?run" by code_simp
  then have run: "?run = Some (Inr (fst (value_of ?run), snd (value_of ?run)))" by (simp add: returned_value [symmetric])
  let ?policy = "\<lparr>fp_mode = ''independent'', fp_parent_family = [], fp_parent_trial = [], fp_prior = 0\<rparr>"
  have policy: "family_policy_of (sw_policy demo_spec) (sw_parent_family demo_spec) (sw_parent_trial demo_spec)
      (sw_parent_trials demo_spec) = Inr ?policy" by code_simp
  have rest: "tp_timeframe demo_profile = text_lower (sw_timeframe demo_spec)" "distinct (map fst (sw_filter demo_spec))"
    by code_simp+
  have "compile_inputs demo_env 9 demo_spec demo_profile demo_request (fst (value_of ?run)) (snd (value_of ?run)) ?policy"
    unfolding compile_inputs_def
    by (intro conjI run policy rest) (simp_all add: data_identity_ok_def demo_request_def)
  moreover have "blocking_errors (sa_px (fe_sampler demo_env))
      (validate_sweep_spec (sa_px (fe_sampler demo_env)) None outside demo_profiles demo_policy demo_spec) = []" by code_simp
  moreover have "profile_get demo_profiles (sw_timeframe demo_spec) = Some demo_profile" by code_simp
  ultimately show ?thesis by (rule that)
qed

lemma compile_accepts_its_definition_witness:
  "\<exists>ex plan. compile_sweep demo_env 9 None outside demo_profiles demo_policy demo_spec demo_request = Some (Inr (ex, plan))"
proof -
  obtain variants space policy where inputs:
    "compile_inputs demo_env 9 demo_spec demo_profile demo_request variants space policy"
    "blocking_errors (sa_px (fe_sampler demo_env))
      (validate_sweep_spec (sa_px (fe_sampler demo_env)) None outside demo_profiles demo_policy demo_spec) = []"
    "profile_get demo_profiles (sw_timeframe demo_spec) = Some demo_profile"
    by (rule demo_inputs)
  from compile_accepts_its_definition [OF inputs(2,3,1)] show ?thesis unfolding Let_def by blast
qed

lemma compile_enforces_gates_witness:
  "\<exists>ex plan. compile_sweep demo_env 9 None outside demo_profiles demo_policy demo_spec demo_request = Some (Inr (ex, plan)) \<and>
     ex_max_runs ex \<le> 20 \<and> worker_accepts demo_policy ex = Inr ()"
proof -
  obtain variants space policy where inputs:
    "compile_inputs demo_env 9 demo_spec demo_profile demo_request variants space policy"
    "blocking_errors (sa_px (fe_sampler demo_env))
      (validate_sweep_spec (sa_px (fe_sampler demo_env)) None outside demo_profiles demo_policy demo_spec) = []"
    "profile_get demo_profiles (sw_timeframe demo_spec) = Some demo_profile"
    by (rule demo_inputs)
  obtain ex plan where
    run: "compile_sweep demo_env 9 None outside demo_profiles demo_policy demo_spec demo_request = Some (Inr (ex, plan))"
    by (rule compile_returns [OF inputs(2,3,1)])
  have names: "list_all (\<lambda>s. \<not> sublist grid_error_text s)
       [sw_backend demo_spec, sw_class demo_spec, sw_timeframe demo_spec, known_names demo_profiles, rp_mode demo_policy, []]"
    by code_simp
  have "plain_names (sa_px (fe_sampler demo_env)) None demo_profiles demo_policy demo_spec"
    unfolding plain_names_def using names by (simp add: demo_env_def demo_sampler_def demo_px_def)
  from compile_enforces_gates [OF run this] run show ?thesis by (auto simp: demo_policy_def)
qed

section \<open>Proposals\<close>

definition demo_proposal :: proposal where
  "demo_proposal =
     \<lparr>po_id = ''p1'', po_created_by = ''manual'', po_hypothesis = ''fade'', po_universe = [], po_timeframe = ''1h'',
      po_family = ''rsi_reversal'', po_symbols = [''BTC''], po_filters = [],
      po_grid = [(''rsi_reversal'', [[(''oversold'', JInt 25), (''hold_bars'', JInt 4), (''stop_pct'', JInt 8), (''take_pct'', JInt 16)]])],
      po_max_variants = 4, po_reasons = [], po_validation = [], po_risks = [], po_notes = [], po_source_run = [],
      po_source_pack = [], po_status = ''PROPOSED'', po_rejection = [], po_created_at = ''t0''\<rparr>"

definition demo_gate :: gate_env where
  "demo_gate = \<lparr>ge_symbols = [''BTC''], ge_project = ''/repo'', ge_params_hash = (\<lambda>_. ''h'')\<rparr>"

lemma validated_proposal_safe_witness:
  "validate_proposal demo_env demo_gate demo_profiles demo_policy None demo_proposal = Some (Inr (''VALIDATED'', [])) \<and>
   (\<exists>ex. compile_proposal demo_env demo_policy demo_proposal = Some (Inr ex) \<and> worker_accepts demo_policy ex = Inr ())"
proof -
  have run: "validate_proposal demo_env demo_gate demo_profiles demo_policy None demo_proposal = Some (Inr (''VALIDATED'', []))"
    by code_simp
  from validated_proposal_safe [OF run] run show ?thesis by blast
qed


end
