(* ===== verification/Spec2Isabelle.thy ===== *)
theory Spec2Isabelle
  imports Ownership_Safety Validation_Safety Enqueue_Claims Recovery_Claims Scheduler_Claims Coordinator_Witnesses Planning_Witnesses Heartbeat_Witnesses Sweep_Witnesses
begin

text \<open>
  This library models the control core of the research farm: the two SQLite databases that decide what
  work exists, who holds it and what came out of it, the fencing rules around them, and the planners
  that feed them.  Each theory is a translation of Python code under \<open>src/src/research_lab\<close>; the
  theorems are stated about those translations.

  \<^bold>\<open>Parts and how they interact.\<close>

  \<^item> \<open>ownership.py\<close> keeps one lease row per resource.  A process that does farm work holds the lease of
    its resource, and every later part names its holder by that lease.  (\<open>Fencing\<close>, \<open>Ownership\<close>,
    \<open>Ownership_Safety\<close>)
  \<^item> \<open>farm_tasks_db.py\<close> is the task brain: tasks with a state machine, claims with a token and a
    deadline, fairness lanes, the materialization outbox, intake events, unique candidates and
    validation tasks.  (\<open>Brain\<close>, \<open>Brain_Rows\<close>, \<open>Brain_Safety\<close>, \<open>Brain_Claims\<close>, \<open>Materialization\<close>,
    \<open>Materialization_Safety\<close>, \<open>Validation_Tasks\<close>, \<open>Validation_Safety\<close>)
  \<^item> \<open>state_db.py\<close> is the compute database: the job queue with attempts and leases, the binding of a
    job to a materialization, import of finished runs and their publication.  (\<open>Compute_Queue\<close>,
    \<open>Compute_Rows\<close>, \<open>Compute_Safety\<close>, \<open>Compute_Claims\<close>, \<open>Enqueue_Claims\<close>, \<open>Run_Import\<close>,
    \<open>Publication\<close>, \<open>Publication_Claims\<close>)
  \<^item> \<open>materialization_recovery.py\<close> repairs intents whose holder died between the two databases.
    (\<open>Recovery\<close>, \<open>Recovery_Claims\<close>)
  \<^item> \<open>farm_scheduler.py\<close>, \<open>farm_priority.py\<close> and \<open>farm_classifier.py\<close> decide what to research next and
    turn a finished run into candidates.  (\<open>Scheduler\<close>, \<open>Scheduler_Claims\<close>)
  \<^item> \<open>strategy_registry.py\<close> is the catalog of strategies with the warm-up each needs; \<open>data_planner.py\<close> decides what
    data a symbol needs before compute.  (\<open>Strategy_Registry\<close>, \<open>Data_Planner\<close>, \<open>Planning_Claims\<close>,
    \<open>Planning_Witnesses\<close>)
  \<^item> \<open>setup_outcome_memory.py\<close> aggregates prior outcomes into the gate that every planned sweep passes;
    \<open>setup_lifecycle.py\<close> derives the read model of the candidates.  (\<open>Outcome_Memory\<close>, \<open>Lifecycle\<close>,
    \<open>Memory_Claims\<close>)
  \<^item> \<open>farm_coordinator.py\<close> runs one cycle over both databases: intake and planning, the release of blocked
    sweeps, the drains of the task types, the replay of interrupted materializations, the synchronisation with the
    compute queue, the worker, classification and the pivot.  (\<open>Farm_Routine\<close>: the farm, its
    surroundings and the sequencing; \<open>Coordinator\<close>: planning; \<open>Coordinator_Run\<close>: the drains, replay and
    synchronisation; \<open>Coordinator_Cycle\<close>; \<open>Coordinator_Safety\<close>, \<open>Coordinator_Claims\<close>, \<open>Coordinator_Witnesses\<close>)
  \<^item> \<open>task_claim_heartbeat.py\<close> and \<open>process_lease_heartbeat.py\<close> keep a claim and a process lease alive beside
    the work.  (\<open>Task_Heartbeat\<close>, \<open>Heartbeat_Claims\<close>, \<open>Lease_Heartbeat\<close>, \<open>Lease_Claims\<close>,
    \<open>Heartbeat_Witnesses\<close>)

  \<^item> \<open>param_schemas.py\<close> with its policy file bounds the parameters of the catalog; \<open>timeframes.py\<close>,
    \<open>resource_policy.py\<close> and \<open>runtime_policy.py\<close> bound the work: profiles, budgets and the cadence the worker of
    \<open>scripts/strategy_lab/worker_once.py\<close> keeps.  (\<open>Param_Search\<close>, \<open>Runtime_Policy\<close>, \<open>Cadence_Claims\<close>)
  \<^item> \<open>sweep_spec.py\<close> and the grids of \<open>farm_sweep_runner.py\<close> say what a sweep would try and the gates it must
    pass; \<open>sweep_compile.py\<close> samples the grid and compiles it into an experiment, bound to the
    content-addressed definition of \<open>search_family_definition.py\<close>.  (\<open>Sweep_Spec\<close>, \<open>Sweep_Expand\<close>,
    \<open>Search_Family\<close>, \<open>Sweep_Compile\<close>; lemmas and properties in \<open>Sweep_Lemmas\<close>, \<open>Family_Lemmas\<close>,
    \<open>Sweep_Claims\<close>, \<open>Sweep_Compile_Claims\<close>, \<open>Sweep_Grid_Claims\<close>, \<open>Catalog_Claims\<close>)
  \<^item> \<open>proposal_schema.py\<close>, \<open>proposal_store.py\<close> and \<open>proposal_validator.py\<close> take proposals for the next
    experiment from outside the farm.  (\<open>Proposal\<close>, \<open>Proposal_Claims\<close>; the inputs of the witnesses of this and the
    two groups above are in \<open>Sweep_Witnesses\<close>)

  \<^bold>\<open>State and operations.\<close>  A table is the list of its rows in rowid order and a row is a record with
  one field per column; \<open>brain\<close> and \<open>queue\<close> are the records of the tables of one database, together
  with the clock floor of the connection.  An operation takes the state, the arguments of the method and
  the observations of the clock it makes, and returns \<open>Inl\<close> of the exception it raises or \<open>Inr\<close> of its
  result, with the state after it.  A transaction that raises is rolled back, so the state returned with
  \<open>Inl\<close> is the one the operation started from unless the code commits something before it raises
  (stale-event rows of the compute queue, for instance).  Triggers are checked where the database checks
  them: \<open>update_guard\<close>, \<open>insert_guard\<close> and \<open>job_guard\<close> are the fencing triggers of the two databases and
  the partial unique indexes are tests in the operations that insert or update.

  The coordinator works on a \<open>farm\<close>, the record of both databases, its connection, the spec files and the counters of
  the cycle.  A routine returns its result or the exception it raises with the farm after it, and what it
  wrote before an exception stays.  Everything it observes from outside is a field of \<open>world\<close>, indexed by
  the number of the observation: clocks, data providers, compiled specs, candles, the worker.  A heartbeat is the
  record its lock protects; \<open>beat_step\<close> interleaves the foreground with the renewal thread in steps labelled with the
  milestones and renewals they make, and \<open>beat_run\<close> collects the labels.

  The constructor of the task brain is \<open>open_farm_db\<close>: it refuses a database without the marker of the fenced protocol
  and translates legacy priorities.  The recovery and the renewal thread open the database themselves; a
  cycle of the coordinator starts on a connection its caller opened.  A publication commits its rows before it renames
  the directory, so a rename that fails (an argument of the model) raises with the rows committed and the
  publication pending, and \<open>recover_pending_publications\<close> finishes it later.

  \<^bold>\<open>What the lemmas show.\<close>
  \<^item> Invariants, each preserved by every operation of its part and established for every run of the operations
    (\<open>brain_step\<close>, \<open>queue_step\<close>): a task is running exactly when it has a
    claim, keys of active tasks are unique, an outbox row agrees with its task, a job that runs has one
    open attempt, bindings are one to one.
  \<^item> Exclusion and fencing: two tokens never hold one task, one job or one resource at the same time; a
    stale holder changes nothing; a finished job stays finished.
  \<^item> Functional behaviour of the operations on every branch, errors included (\<open>_exact\<close>, \<open>_selects\<close>).
  \<^item> Equivalence of the loops with direct definitions (the planner, the drained verdict), round trips
    (a recovery plan built from a state applies to it, a run imported twice is stored once, with the time stamps of the second import) and liveness
    (fairness slots, recovery of interrupted publications).
  \<^item> Refinement: whatever a cycle of the coordinator does to a database is a run of that database's own
    operations, so the invariants and the exclusion of the parts hold through every cycle.
  \<^item> The planners: a sweep is queued only on ready data that did not already fail, deferrals are bounded,
    the catalog is well formed, the gate and the read model are the aggregations they stand for.
  \<^item> The heartbeats: renewals never count as progress and each needs its own, a stopped heartbeat stays stopped, retries end.
  \<^item> Sweeps: the sampler returns points of the Cartesian product it never builds, its flat index and its digits
    are inverse, the levels at the ends of every axis are covered; a sweep that passes its gates compiles, its
    definition passing its own recompilation, and nothing compiles past a gate; the worker accepts what is compiled.
  \<^item> The surroundings: every family of the catalog has executable parameters, the worker keeps its cadence in the passes
    that respect it, a validated proposal is safe to queue and the store of proposals can be written again without change.

  The contracts of the stores are the locales of \<open>Fencing\<close>: \<open>invariant_system\<close> (an invariant every
  operation keeps), \<open>fencing\<close> (tokens never decrease and a held token is the stored one), \<open>versioned\<close> (no
  ABA change of a compare-and-swap row), \<open>row_evolution\<close> (rows keep their key, change by a row relation and
  are added fresh), and \<open>fenced_table\<close>, which gives the two in the middle.  Ownership, the task brain and
  the compute queue interpret them on their own operations, and the properties rest on those facts.  The contract of the
  coordinator is the locale \<open>farm_relation\<close> of \<open>Coordinator_Safety\<close>: a relation between farms that
  every database call and file write respects is respected by every routine and by the cycle; it is
  interpreted as the reachability through the operations of the databases and as the constancy of published spec files.
  The contract of the retry loops is \<open>bounded_retry\<close> of \<open>Heartbeat_Claims\<close>, interpreted on the three
  loops of the two heartbeats.

  \<^bold>\<open>Conventions and bounds.\<close>  Floats (epoch seconds, lease lengths, percentages) are exact rationals and
  Python integers are \<open>int\<close>.  JSON columns and files are decoded values of \<open>json\<close>; the digest of a text is
  an argument, as are the process probe, the boot time, the pid, path resolution and Python's \<open>str\<close> of a
  value that is not a text.  Text is a list of characters; \<open>upper\<close>, \<open>lower\<close> and \<open>strip\<close> act on ASCII.  The loops
  of the code that are modelled run over a list or a fixed number of times, so no definition needs fuel,
  except the retry loops of the heartbeats: they take the number of passes, and one more than the retry budget
  divided by the pause, rounded up, is proved to be enough, and the sampler of a sweep, which draws until enough points
  are chosen: it takes the number of draws, and any number within which the generator yields every residue is
  proved to be enough (\<open>sampling_ends\<close>).  The generator is a function of the seed and the draw.  Outside the heartbeats the retries of SQLite on a busy
  database are not modelled, every transaction being atomic.

  \<^bold>\<open>Not modelled.\<close>  The follow-ups, advisor sweeps, retests and the validation run of the coordinator (the cycle is
  the one with them switched off); the text of a compiled spec and the body of the compute worker, which are fields
  of \<open>world\<close> there (compilation is modelled on its own); progress callbacks; the JSON typing checks of family
  definitions, which are typed records, with the digest of a point ledger represented by its points; the training memory and the files of the outcome memory; the supervisor process of the lease
  and the reporting loop of \<open>farm_loop.py\<close>; legacy schema migrations; dashboards and their queries; strategy simulation and validation numerics, which are floating-point
  computations over pandas and numpy; the paper-trading stores, Telegram delivery, storage rotation,
  LLM providers and the live bot, which are separate programs that only read what this core writes.
\<close>

end
